(* ===== verification/JsPrelude.thy ===== *)
theory JsPrelude
  imports Complex_Main "HOL-Library.Log_Nat" "HOL-Library.Multiset" "HOL-Library.Code_Target_Nat"
begin

text \<open>
  The TypeScript runtime the components share: thrown errors as values, the
  \<open>number\<close> and \<open>bigint\<close> types, strings and the string methods the sources call, and
  the automation (named theorem collections) of the development.

  A string is a list of code units below 256 (Isabelle's \<open>char\<close>): the sources
  compare, trim and slice text, and apart from the white space and the letters of that range
  they never look into it.
\<close>

named_theorems res_simps \<open>inversion rules for computations that may throw\<close>
named_theorems str_simps \<open>string methods on text of a known shape\<close>


section \<open>Thrown errors\<close>

text \<open>
  One constructor per error class the modelled sources throw, with its message and, where the
  sources look at them, its code or the stream it names.
\<close>

datatype js_error =
    Error string
  | RangeError string
  | TypeError string
  | SettlementDomainError string
  | StagingProofCreditError string
  | InventoryDomainError string
  | PaymentsDomainError string string
  | OrderingDomainError string
  | EventStoreError string string
  | EventStreamTooLongError string int

type_synonym 'a res = "js_error + 'a"

text \<open>
  \<open>bindE m f\<close> runs \<open>f\<close> on the value of \<open>m\<close>, and rethrows what \<open>m\<close> throws.
  \<open>ensure c e k\<close> is the sources' \<open>assert(c, e)\<close> followed by \<open>k\<close>.
\<close>

fun bindE :: "'a res \<Rightarrow> ('a \<Rightarrow> 'b res) \<Rightarrow> 'b res" where
  "bindE (Inl e) f = Inl e"
| "bindE (Inr x) f = f x"

abbreviation ensure :: "bool \<Rightarrow> js_error \<Rightarrow> 'a res \<Rightarrow> 'a res" where
  "ensure c e k \<equiv> (if c then k else Inl e)"

fun mapE :: "('a \<Rightarrow> 'b res) \<Rightarrow> 'a list \<Rightarrow> 'b list res" where
  "mapE f [] = Inr []"
| "mapE f (x # xs) = bindE (f x) (\<lambda>y. bindE (mapE f xs) (\<lambda>ys. Inr (y # ys)))"

fun foldE :: "('s \<Rightarrow> 'e \<Rightarrow> 's res) \<Rightarrow> 's \<Rightarrow> 'e list \<Rightarrow> 's res" where
  "foldE f s [] = Inr s"
| "foldE f s (e # es) = bindE (f s e) (\<lambda>s'. foldE f s' es)"

text \<open>\<open>value ?? fallback\<close>.\<close>

definition orElse :: "'a option \<Rightarrow> 'a \<Rightarrow> 'a" where
  "orElse value fallback = (case value of None \<Rightarrow> fallback | Some v \<Rightarrow> v)"

lemma orElse_simps [simp]: "orElse None d = d" "orElse (Some v) d = v"
  by (simp_all add: orElse_def)

text \<open>\<open>c && m\<close> and \<open>xs.every(f)\<close> where \<open>m\<close> and \<open>f\<close> may throw; both stop at the first false.\<close>

definition andE :: "bool \<Rightarrow> bool res \<Rightarrow> bool res" where
  "andE c m = (if c then m else Inr False)"

fun everyE :: "('a \<Rightarrow> bool res) \<Rightarrow> 'a list \<Rightarrow> bool res" where
  "everyE f [] = Inr True"
| "everyE f (x # xs) = bindE (f x) (\<lambda>b. if b then everyE f xs else Inr False)"

lemma bindE_Inr [res_simps]: "bindE m f = Inr y \<longleftrightarrow> (\<exists>x. m = Inr x \<and> f x = Inr y)"
  by (cases m) auto

lemma bindE_Inl [res_simps]:
  "bindE m f = Inl e \<longleftrightarrow> m = Inl e \<or> (\<exists>x. m = Inr x \<and> f x = Inl e)"
  by (cases m) auto

lemma ensure_Inr [res_simps]: "ensure c e k = Inr y \<longleftrightarrow> c \<and> k = Inr y"
  by auto

lemma bindE_assoc: "bindE (bindE m f) g = bindE m (\<lambda>x. bindE (f x) g)"
  by (cases m) auto

lemma bindE_cong [fundef_cong]:
  "m = m' \<Longrightarrow> (\<And>x. m' = Inr x \<Longrightarrow> f x = g x) \<Longrightarrow> bindE m f = bindE m' g"
  by (cases m') auto

lemma mapE_Inr_length: "mapE f xs = Inr ys \<Longrightarrow> length ys = length xs"
  by (induction xs arbitrary: ys) (auto simp: res_simps)

lemma mapE_pure: "(\<And>x. x \<in> set xs \<Longrightarrow> f x = Inr (g x)) \<Longrightarrow> mapE f xs = Inr (map g xs)"
  by (induction xs) auto

lemma foldE_append: "foldE f s (es @ es') = bindE (foldE f s es) (\<lambda>s'. foldE f s' es')"
  by (induction es arbitrary: s) (auto simp: bindE_assoc)

lemma foldE_invariant:
  assumes "foldE f s es = Inr s'" and "P s"
    and "\<And>s e s'. P s \<Longrightarrow> e \<in> set es \<Longrightarrow> f s e = Inr s' \<Longrightarrow> P s'"
  shows "P s'"
  using assms
proof (induction es arbitrary: s)
  case Nil
  then show ?case by simp
next
  case (Cons e es)
  from Cons.prems(1) obtain t where t: "f s e = Inr t" "foldE f t es = Inr s'"
    by (auto simp: res_simps)
  have "P t" by (rule Cons.prems(3) [OF Cons.prems(2) _ t(1)]) simp
  show ?case by (rule Cons.IH [OF t(2) \<open>P t\<close>]) (use Cons.prems(3) in auto)
qed


section \<open>Numbers\<close>

text \<open>
  A \<open>number\<close> of a command is an arbitrary finite value, an infinity or NaN; the sources
  test it with \<open>Number.isInteger\<close> before they use it. Quantities of states and events
  have passed that test and are \<open>int\<close>; sums of them are rounded to the 53 bits of a double
  (\<open>js_add\<close>). A \<open>bigint\<close> is an \<open>int\<close>.
\<close>

datatype jsnum = Fin rat | PosInf | NegInf | NaN

datatype js_numeric = JNum jsnum | JBig int

definition MAX_SAFE_INTEGER :: int where
  "MAX_SAFE_INTEGER = 9007199254740991"

fun isInteger :: "jsnum \<Rightarrow> bool" where
  "isInteger (Fin q) = (of_int \<lfloor>q\<rfloor> = q)"
| "isInteger _ = False"

fun isSafeInteger :: "jsnum \<Rightarrow> bool" where
  "isSafeInteger (Fin q) = (of_int \<lfloor>q\<rfloor> = q \<and> \<bar>\<lfloor>q\<rfloor>\<bar> \<le> MAX_SAFE_INTEGER)"
| "isSafeInteger _ = False"

fun num_less :: "jsnum \<Rightarrow> jsnum \<Rightarrow> bool" where
  "num_less (Fin a) (Fin b) = (a < b)"
| "num_less (Fin a) PosInf = True"
| "num_less NegInf (Fin b) = True"
| "num_less NegInf PosInf = True"
| "num_less _ _ = False"

fun num_to_int :: "jsnum \<Rightarrow> int" where
  "num_to_int (Fin q) = \<lfloor>q\<rfloor>"
| "num_to_int _ = 0"

abbreviation numi :: "int \<Rightarrow> jsnum" where
  "numi n \<equiv> Fin (of_int n)"

lemma isInteger_numi [simp]: "isInteger (numi n)"
  by simp

lemma num_to_int_numi [simp]: "num_to_int (numi n) = n"
  by simp

lemma isInteger_iff_numi: "isInteger x \<longleftrightarrow> (\<exists>n. x = numi n)"
  by (cases x) auto

text \<open>Rounding of an integer to a double: nearest, ties to even.\<close>

definition fl53 :: "int \<Rightarrow> int" where
  "fl53 n =
     (if \<bar>n\<bar> \<le> 2 ^ 53 then n
      else let k = floorlog 2 (nat \<bar>n\<bar>) - 53;
               q = \<bar>n\<bar> div 2 ^ k; r = \<bar>n\<bar> mod 2 ^ k;
               up = (2 * r > 2 ^ k \<or> (2 * r = 2 ^ k \<and> odd q))
           in sgn n * ((if up then q + 1 else q) * 2 ^ k))"

definition js_add :: "int \<Rightarrow> int \<Rightarrow> int" where
  "js_add a b = fl53 (a + b)"

definition js_mul :: "int \<Rightarrow> int \<Rightarrow> int" where
  "js_mul a b = fl53 (a * b)"

lemma js_mul_exact: "\<bar>a * b\<bar> \<le> 2 ^ 53 \<Longrightarrow> js_mul a b = a * b"
  by (simp add: js_mul_def fl53_def)

lemma js_add_exact: "\<bar>a + b\<bar> \<le> 2 ^ 53 \<Longrightarrow> js_add a b = a + b"
  by (simp add: js_add_def fl53_def)

lemma fl53_nonneg: "0 \<le> n \<Longrightarrow> 0 \<le> fl53 n"
  by (auto simp: fl53_def Let_def sgn_if pos_imp_zdiv_nonneg_iff)

lemma js_add_nonneg: "0 \<le> a + b \<Longrightarrow> 0 \<le> js_add a b"
  by (simp add: js_add_def fl53_nonneg)


section \<open>Array.prototype.sort\<close>

text \<open>
  The standard's sort is stable and orders by a comparator whose sign says which element
  comes first; for a consistent comparator its result is the one of this insertion sort.
\<close>

fun js_insert :: "('a \<Rightarrow> 'a \<Rightarrow> int) \<Rightarrow> 'a \<Rightarrow> 'a list \<Rightarrow> 'a list" where
  "js_insert cmp x [] = [x]"
| "js_insert cmp x (y # ys) = (if cmp x y \<le> 0 then x # y # ys else y # js_insert cmp x ys)"

fun js_sort :: "('a \<Rightarrow> 'a \<Rightarrow> int) \<Rightarrow> 'a list \<Rightarrow> 'a list" where
  "js_sort cmp [] = []"
| "js_sort cmp (x # xs) = js_insert cmp x (js_sort cmp xs)"

lemma mset_js_insert [simp]: "mset (js_insert cmp x xs) = add_mset x (mset xs)"
  by (induction xs) auto

lemma mset_js_sort [simp]: "mset (js_sort cmp xs) = mset xs"
  by (induction xs) auto

lemma length_js_sort [simp]: "length (js_sort cmp xs) = length xs"
  by (metis mset_js_sort size_mset)

lemma set_js_sort [simp]: "set (js_sort cmp xs) = set xs"
  by (metis mset_js_sort set_mset_mset)

lemma js_insert_sorted:
  assumes "sorted_wrt (\<lambda>a b. cmp a b \<le> 0) xs"
    and "\<And>a b. cmp a b \<le> 0 \<or> cmp b a \<le> 0"
    and "\<And>a b c. cmp a b \<le> 0 \<Longrightarrow> cmp b c \<le> 0 \<Longrightarrow> cmp a c \<le> 0"
  shows "sorted_wrt (\<lambda>a b. cmp a b \<le> 0) (js_insert cmp x xs)"
  using assms(1)
proof (induction xs)
  case (Cons y ys)
  have set_ins: "set (js_insert cmp x ys) = insert x (set ys)"
    by (metis mset_js_insert set_mset_add_mset_insert set_mset_mset)
  show ?case using Cons assms(2) [of x y] assms(3) by (auto simp: set_ins)
qed simp

lemma js_sort_sorted:
  assumes "\<And>a b. cmp a b \<le> 0 \<or> cmp b a \<le> 0"
    and "\<And>a b c. cmp a b \<le> 0 \<Longrightarrow> cmp b c \<le> 0 \<Longrightarrow> cmp a c \<le> 0"
  shows "sorted_wrt (\<lambda>a b. cmp a b \<le> 0) (js_sort cmp xs)"
proof (induction xs)
  case (Cons x xs)
  show ?case unfolding js_sort.simps by (rule js_insert_sorted [OF Cons.IH assms])
qed simp


section \<open>Sets of array elements\<close>

text \<open>\<open>[...new Set(xs)]\<close>: the elements in the order of their first occurrence.\<close>

fun js_unique_from :: "'a list \<Rightarrow> 'a list \<Rightarrow> 'a list" where
  "js_unique_from seen [] = []"
| "js_unique_from seen (x # xs) =
     (if x \<in> set seen then js_unique_from seen xs else x # js_unique_from (x # seen) xs)"

definition js_unique :: "'a list \<Rightarrow> 'a list" where
  "js_unique xs = js_unique_from [] xs"

lemma set_js_unique_from: "set (js_unique_from seen xs) = set xs - set seen"
  by (induction seen xs rule: js_unique_from.induct) auto

lemma distinct_js_unique_from: "distinct (js_unique_from seen xs)"
  by (induction seen xs rule: js_unique_from.induct) (auto simp: set_js_unique_from)

lemma js_unique_from_id: "distinct xs \<Longrightarrow> set xs \<inter> set seen = {} \<Longrightarrow> js_unique_from seen xs = xs"
  by (induction seen xs rule: js_unique_from.induct) auto

lemma set_js_unique [simp]: "set (js_unique xs) = set xs"
  by (simp add: js_unique_def set_js_unique_from)

lemma distinct_js_unique [simp]: "distinct (js_unique xs)"
  by (simp add: js_unique_def distinct_js_unique_from)

lemma js_unique_id: "distinct xs \<Longrightarrow> js_unique xs = xs"
  by (simp add: js_unique_def js_unique_from_id)

lemma js_unique_idem [simp]: "js_unique (js_unique xs) = js_unique xs"
  by (simp add: js_unique_id)

end
