(* ===== verification/JsString.thy ===== *)
theory JsString
  imports JsPrelude
begin

text \<open>
  The string methods the sources call (\<open>trim\<close>, \<open>toLowerCase\<close>, \<open>toUpperCase\<close>, \<open>split\<close> at a full stop,
  \<open>padStart\<close>, \<open>padEnd\<close>, \<open>startsWith\<close>), the printing and reading of decimal digits, and
  the two text normalisers that the contexts' \<open>common.ts\<close> files share.
\<close>

section \<open>White space and case\<close>

text \<open>The white space and line terminators of ECMA-262 among the code units below 256.\<close>

definition js_space :: "char \<Rightarrow> bool" where
  "js_space c \<longleftrightarrow> of_char c \<in> {9::nat, 10, 11, 12, 13, 32, 160}"

definition js_trim :: "string \<Rightarrow> string" where
  "js_trim s = rev (dropWhile js_space (rev (dropWhile js_space s)))"

definition lower_char :: "char \<Rightarrow> char" where
  "lower_char c =
     (let n = of_char c :: nat
      in if 65 \<le> n \<and> n \<le> 90 \<or> 192 \<le> n \<and> n \<le> 222 \<and> n \<noteq> 215 then char_of (n + 32) else c)"

definition js_lower :: "string \<Rightarrow> string" where
  "js_lower s = map lower_char s"

text \<open>Upper case, for texts whose upper case stays in the range of a code unit below 256 and of the same length.\<close>

definition upper_char :: "char \<Rightarrow> char" where
  "upper_char c =
     (let n = of_char c :: nat
      in if 97 \<le> n \<and> n \<le> 122 \<or> 224 \<le> n \<and> n \<le> 254 \<and> n \<noteq> 247 then char_of (n - 32) else c)"

definition js_upper :: "string \<Rightarrow> string" where
  "js_upper s = map upper_char s"

definition js_startsWith :: "string \<Rightarrow> string \<Rightarrow> bool" where
  "js_startsWith s p \<longleftrightarrow> take (length p) s = p"

text \<open>\<open>value?.trim() ?? ""\<close>, and null for an empty result.\<close>

definition normalizeOptionalText :: "string option \<Rightarrow> string option" where
  "normalizeOptionalText value =
     (let normalized = (case value of None \<Rightarrow> [] | Some s \<Rightarrow> js_trim s)
      in if length normalized > 0 then Some normalized else None)"

lemma dropWhile_hd_id: "s = [] \<or> \<not> P (hd s) \<Longrightarrow> dropWhile P s = s"
  by (cases s) auto

lemma js_trim_fixed: "s = [] \<or> \<not> js_space (hd s) \<and> \<not> js_space (last s) \<Longrightarrow> js_trim s = s"
  by (auto simp: js_trim_def dropWhile_hd_id hd_rev)

lemma js_trim_ends: "js_trim s = [] \<or> \<not> js_space (hd (js_trim s)) \<and> \<not> js_space (last (js_trim s))"
proof (cases "js_trim s = []")
  case False
  let ?t = "dropWhile js_space s" and ?u = "dropWhile js_space (rev (dropWhile js_space s))"
  have u: "?u \<noteq> []" using False unfolding js_trim_def by blast
  have last_ok: "\<not> js_space (last (rev ?u))"
    using hd_dropWhile [of js_space "rev ?t"] u last_rev [of ?u] by metis
  obtain v where v: "rev ?t = v @ ?u" by (metis takeWhile_dropWhile_id)
  then have t: "?t = rev ?u @ rev v" by (metis rev_append rev_rev_ident)
  then have "hd ?t = hd (rev ?u)" using u hd_append2 rev_is_Nil_conv by metis
  moreover have "?t \<noteq> []" using u by force
  ultimately have "\<not> js_space (hd (rev ?u))" using hd_dropWhile [of js_space s] by metis
  then show ?thesis using last_ok unfolding js_trim_def by blast
qed simp

lemma js_trim_idem [simp]: "js_trim (js_trim s) = js_trim s"
  by (rule js_trim_fixed) (use js_trim_ends [of s] in auto)

lemma normalizeOptionalText_idem:
  "normalizeOptionalText (normalizeOptionalText v) = normalizeOptionalText v"
  by (auto simp: normalizeOptionalText_def Let_def split: option.splits)

lemma normalizeOptionalText_None [simp]: "normalizeOptionalText None = None"
  by (simp add: normalizeOptionalText_def)


section \<open>Decimal digits\<close>

definition is_digit :: "char \<Rightarrow> bool" where
  "is_digit c \<longleftrightarrow> 48 \<le> (of_char c :: nat) \<and> (of_char c :: nat) \<le> 57"

definition digit_val :: "char \<Rightarrow> nat" where
  "digit_val c = of_char c - 48"

definition digit_char :: "nat \<Rightarrow> char" where
  "digit_char d = char_of (48 + d)"

text \<open>\<open>BigInt(text)\<close> of a text of decimal digits (0 for the empty text), and \<open>n.toString()\<close>.\<close>

definition digits_val :: "string \<Rightarrow> nat" where
  "digits_val s = foldl (\<lambda>n c. 10 * n + digit_val c) 0 s"

fun show_nat :: "nat \<Rightarrow> string" where
  "show_nat n = (if n < 10 then [digit_char n] else show_nat (n div 10) @ [digit_char (n mod 10)])"

declare show_nat.simps [simp del]

definition js_padStart :: "nat \<Rightarrow> char \<Rightarrow> string \<Rightarrow> string" where
  "js_padStart n c s = replicate (n - length s) c @ s"

definition js_padEnd :: "nat \<Rightarrow> char \<Rightarrow> string \<Rightarrow> string" where
  "js_padEnd n c s = s @ replicate (n - length s) c"

lemma digit_val_char [simp]: "d < 10 \<Longrightarrow> digit_val (digit_char d) = d"
  by (simp add: digit_val_def digit_char_def)

lemma is_digit_char [simp]: "d < 10 \<Longrightarrow> is_digit (digit_char d)"
  by (simp add: is_digit_def digit_char_def)

lemma digit_val_less: "is_digit c \<Longrightarrow> digit_val c < 10"
  by (auto simp: is_digit_def digit_val_def)

lemma digit_char_val: "is_digit c \<Longrightarrow> digit_char (digit_val c) = c"
  by (simp add: is_digit_def digit_val_def digit_char_def)

lemma is_digit_not_space: "is_digit c \<Longrightarrow> \<not> js_space c"
  by (auto simp: is_digit_def js_space_def)

lemma is_digit_0 [simp]: "is_digit (CHR ''0'')" and digit_val_0 [simp]: "digit_val (CHR ''0'') = 0"
  by (simp_all add: is_digit_def digit_val_def)

lemma digits_val_Nil [simp]: "digits_val [] = 0"
  by (simp add: digits_val_def)

lemma digits_val_snoc [simp]: "digits_val (s @ [c]) = 10 * digits_val s + digit_val c"
  by (simp add: digits_val_def)

lemma digits_val_append: "digits_val (s @ t) = digits_val s * 10 ^ length t + digits_val t"
proof (induction t rule: rev_induct)
  case (snoc c t)
  then show ?case
    by (simp only: append_assoc [symmetric] digits_val_snoc) (simp add: algebra_simps)
qed simp

lemma digits_val_bound: "\<forall>c\<in>set s. is_digit c \<Longrightarrow> digits_val s < 10 ^ length s"
  by (induction s rule: rev_induct) (auto dest: digit_val_less)

lemma digits_val_replicate_0 [simp]: "digits_val (replicate n (CHR ''0'')) = 0"
proof (induction n)
  case (Suc n)
  then show ?case
    by (simp only: replicate_Suc replicate_append_same [symmetric] digits_val_snoc) simp
qed simp

lemma digits_val_padStart [simp]: "digits_val (js_padStart n (CHR ''0'') s) = digits_val s"
  by (simp add: js_padStart_def digits_val_append)

lemma digits_val_show [simp]: "digits_val (show_nat n) = n"
proof (induction n rule: show_nat.induct)
  case (1 n)
  then show ?case
    by (subst show_nat.simps) (auto simp: digits_val_def)
qed

lemma show_nat_digits: "c \<in> set (show_nat n) \<Longrightarrow> is_digit c"
proof (induction n rule: show_nat.induct)
  case (1 n)
  then show ?case
    by (subst (asm) show_nat.simps) (auto split: if_splits)
qed

lemma show_nat_nonempty [simp]: "show_nat n \<noteq> []"
  by (subst show_nat.simps) simp

lemma length_show_nat_small: "n < 100 \<Longrightarrow> length (show_nat n) \<le> 2"
  by (subst show_nat.simps) (auto simp: show_nat.simps [of "n div 10"])

lemma show_nat_inj: "show_nat m = show_nat n \<Longrightarrow> m = n"
  by (metis digits_val_show)


section \<open>Order\<close>

text \<open>The default comparator of \<open>sort\<close> on strings: by code units.\<close>

fun js_text_compare :: "string \<Rightarrow> string \<Rightarrow> int" where
  "js_text_compare [] [] = 0"
| "js_text_compare [] (y # ys) = - 1"
| "js_text_compare (x # xs) [] = 1"
| "js_text_compare (x # xs) (y # ys) =
     (if (of_char x :: nat) < of_char y then - 1
      else if (of_char y :: nat) < of_char x then 1
      else js_text_compare xs ys)"

end
