(* ===== verification/Money.thy ===== *)
theory Money
  imports JsString
begin

text \<open>
  \<open>contracts/primitives/money.ts\<close>: decimal money amounts. A \<open>MoneyAmount\<close> is text, as in
  the source; the arithmetic runs on \<open>bigint\<close> cents and every result is range checked and
  printed again.
\<close>

section \<open>Parsing and printing\<close>

datatype MoneyRoundingMode = RCeil | RFloor | RNearest

definition MONEY_AMOUNT_MAX_CENTS :: int where
  "MONEY_AMOUNT_MAX_CENTS = 999999999999"

text \<open>\<open>/^\d+(?:\.\d{1,2})?$/\<close>, and the same after an optional minus sign.\<close>

definition money_decimal_pattern :: "string \<Rightarrow> bool" where
  "money_decimal_pattern text =
     (let w = takeWhile is_digit text; r = dropWhile is_digit text
      in w \<noteq> [] \<and>
         (r = [] \<or> hd r = CHR ''.'' \<and> (length (tl r) = 1 \<or> length (tl r) = 2) \<and>
            list_all is_digit (tl r)))"

definition signed_money_decimal_pattern :: "string \<Rightarrow> bool" where
  "signed_money_decimal_pattern text =
     (if js_startsWith text ''-'' then money_decimal_pattern (tl text)
      else money_decimal_pattern text)"

definition parseMoneyCents :: "bool \<Rightarrow> int \<Rightarrow> string \<Rightarrow> int option" where
  "parseMoneyCents allowNegative maxCents value =
     (let text = js_trim value;
          matches = (if allowNegative then signed_money_decimal_pattern text
                     else money_decimal_pattern text)
      in if \<not> matches then None
         else
           let negative = js_startsWith text ''-'';
               unsigned = (if negative then tl text else text);
               wholePart = takeWhile (\<lambda>c. c \<noteq> CHR ''.'') unsigned;
               fractionalPart = drop (length wholePart + 1) unsigned;
               wholeCents = int (digits_val wholePart) * 100;
               fractionalCents = int (digits_val (js_padEnd 2 (CHR ''0'') fractionalPart));
               cents = wholeCents + fractionalCents
           in if cents > maxCents then None
              else if negative \<and> cents > 0 then Some (- cents)
              else Some cents)"

definition toIntegerBigInt :: "js_numeric \<Rightarrow> string \<Rightarrow> int res" where
  "toIntegerBigInt value fieldName =
     (case value of
        JBig n \<Rightarrow> Inr n
      | JNum x \<Rightarrow>
          ensure (isSafeInteger x) (Error (fieldName @ '' must be a safe integer.''))
            (Inr (num_to_int x)))"

definition tryMoneyToCents :: "string \<Rightarrow> int option" where
  "tryMoneyToCents value = parseMoneyCents False MONEY_AMOUNT_MAX_CENTS value"

definition trySignedMoneyToCents :: "string \<Rightarrow> int option" where
  "trySignedMoneyToCents value = parseMoneyCents True MONEY_AMOUNT_MAX_CENTS value"

definition moneyToCents :: "string \<Rightarrow> int res" where
  "moneyToCents value =
     (case tryMoneyToCents value of
        None \<Rightarrow> Inl (Error ''Money amount must be a non-negative decimal at or below 9999999999.99.'')
      | Some cents \<Rightarrow> Inr cents)"

definition signedMoneyToCents :: "string \<Rightarrow> int res" where
  "signedMoneyToCents value =
     (case trySignedMoneyToCents value of
        None \<Rightarrow> Inl (Error ''Money amount must be a signed decimal at or below 9999999999.99.'')
      | Some cents \<Rightarrow> Inr cents)"

definition formatCents :: "int \<Rightarrow> string" where
  "formatCents cents =
     (let sign = (if cents < 0 then ''-'' else []);
          absolute = nat (if cents < 0 then - cents else cents)
      in sign @ show_nat (absolute div 100) @ ''.'' @
         js_padStart 2 (CHR ''0'') (show_nat (absolute mod 100)))"

definition centsToMoneyAmount :: "js_numeric \<Rightarrow> string res" where
  "centsToMoneyAmount cents =
     bindE (toIntegerBigInt cents ''Money cents'') (\<lambda>value.
       ensure (\<not> (value < 0 \<or> value > MONEY_AMOUNT_MAX_CENTS))
         (Error ''Money cents must be between 0 and 999999999999.'')
         (Inr (formatCents value)))"

definition centsToSignedMoneyAmount :: "js_numeric \<Rightarrow> string res" where
  "centsToSignedMoneyAmount cents =
     bindE (toIntegerBigInt cents ''Money cents'') (\<lambda>value.
       ensure (\<not> (value < - MONEY_AMOUNT_MAX_CENTS \<or> value > MONEY_AMOUNT_MAX_CENTS))
         (Error ''Money cents must be between -999999999999 and 999999999999.'')
         (Inr (formatCents value)))"

definition primNormalizeMoneyAmount :: "string \<Rightarrow> string res" where
  "primNormalizeMoneyAmount value = bindE (moneyToCents value) (\<lambda>c. centsToMoneyAmount (JBig c))"

definition primNormalizeSignedMoneyAmount :: "string \<Rightarrow> string res" where
  "primNormalizeSignedMoneyAmount value =
     bindE (signedMoneyToCents value) (\<lambda>c. centsToSignedMoneyAmount (JBig c))"

text \<open>\<open>/^\d+\.\d{2}$/.test(value)\<close> and the text is the one its own value prints as.\<close>

definition isCanonicalMoneyAmount :: "string \<Rightarrow> bool" where
  "isCanonicalMoneyAmount value =
     (let w = takeWhile is_digit value; r = dropWhile is_digit value
      in w \<noteq> [] \<and> r \<noteq> [] \<and> hd r = CHR ''.'' \<and> length (tl r) = 2 \<and> list_all is_digit (tl r) \<and>
         (case tryMoneyToCents value of None \<Rightarrow> False | Some c \<Rightarrow> formatCents c = value))"


section \<open>Arithmetic\<close>

definition addMoneyAmounts :: "string \<Rightarrow> string \<Rightarrow> string res" where
  "addMoneyAmounts left right =
     bindE (moneyToCents left) (\<lambda>l. bindE (moneyToCents right) (\<lambda>r. centsToMoneyAmount (JBig (l + r))))"

definition addSignedMoneyAmounts :: "string \<Rightarrow> string \<Rightarrow> string res" where
  "addSignedMoneyAmounts left right =
     bindE (signedMoneyToCents left) (\<lambda>l.
       bindE (signedMoneyToCents right) (\<lambda>r. centsToSignedMoneyAmount (JBig (l + r))))"

definition subtractMoneyAmounts :: "string \<Rightarrow> string \<Rightarrow> string res" where
  "subtractMoneyAmounts left right =
     bindE (signedMoneyToCents left) (\<lambda>l.
       bindE (signedMoneyToCents right) (\<lambda>r. centsToSignedMoneyAmount (JBig (l - r))))"

definition subtractNonNegativeMoneyAmounts :: "string \<Rightarrow> string \<Rightarrow> string res" where
  "subtractNonNegativeMoneyAmounts left right =
     bindE (moneyToCents left) (\<lambda>l. bindE (moneyToCents right) (\<lambda>r.
       ensure (\<not> l - r < 0) (Error ''Money subtraction cannot produce a negative amount.'')
         (centsToMoneyAmount (JBig (l - r)))))"

text \<open>The comparison's result is the sign of the difference.\<close>

definition compareMoneyAmounts :: "string \<Rightarrow> string \<Rightarrow> int res" where
  "compareMoneyAmounts left right =
     bindE (signedMoneyToCents left) (\<lambda>l. bindE (signedMoneyToCents right) (\<lambda>r.
       Inr (if l - r < 0 then - 1 else if l - r > 0 then 1 else 0)))"

definition sumMoneyAmounts :: "string list \<Rightarrow> string res" where
  "sumMoneyAmounts amounts =
     bindE (foldE (\<lambda>sum amount. bindE (moneyToCents amount) (\<lambda>c. Inr (sum + c))) 0 amounts)
       (\<lambda>total. centsToMoneyAmount (JBig total))"

definition sumSignedMoneyAmounts :: "string list \<Rightarrow> string res" where
  "sumSignedMoneyAmounts amounts =
     bindE (foldE (\<lambda>sum amount. bindE (signedMoneyToCents amount) (\<lambda>c. Inr (sum + c))) 0 amounts)
       (\<lambda>total. centsToSignedMoneyAmount (JBig total))"


section \<open>Rounding, basis points and ratios\<close>

definition roundRational :: "js_numeric \<Rightarrow> js_numeric \<Rightarrow> MoneyRoundingMode \<Rightarrow> int res" where
  "roundRational numerator denominator roundingMode =
     bindE (toIntegerBigInt numerator ''Rounding numerator'') (\<lambda>numeratorValue.
     bindE (toIntegerBigInt denominator ''Rounding denominator'') (\<lambda>denominatorValue.
       ensure (\<not> numeratorValue < 0) (Error ''Rounding numerator must be zero or greater.'') (
       ensure (\<not> denominatorValue \<le> 0) (Error ''Rounding denominator must be greater than zero.'') (
         let quotient = numeratorValue div denominatorValue;
             remainder = numeratorValue mod denominatorValue
         in if remainder = 0 \<or> roundingMode = RFloor then Inr quotient
            else if roundingMode = RCeil then Inr (quotient + 1)
            else if remainder * 2 \<ge> denominatorValue then Inr (quotient + 1)
            else Inr quotient))))"

definition assertBasisPoints :: "jsnum \<Rightarrow> string \<Rightarrow> unit res" where
  "assertBasisPoints value fieldName =
     (if \<not> isInteger value \<or> num_less value (numi 0) \<or> num_less (numi 10000) value
      then Inl (Error (fieldName @ '' must be an integer between 0 and 10000.''))
      else Inr ())"

definition applyBasisPointsToMoneyAmount :: "string \<Rightarrow> jsnum \<Rightarrow> MoneyRoundingMode \<Rightarrow> string res" where
  "applyBasisPointsToMoneyAmount amount basisPoints roundingMode =
     bindE (assertBasisPoints basisPoints ''Basis points'') (\<lambda>_.
     bindE (moneyToCents amount) (\<lambda>cents.
     bindE (roundRational (JBig (cents * num_to_int basisPoints)) (JBig 10000) roundingMode) (\<lambda>rounded.
       centsToMoneyAmount (JBig rounded))))"

record gross_up_params =
  gu_basisAmount :: string
  gu_percentageBps :: jsnum
  gu_fixedAmount :: "string option"
  gu_roundingMode :: MoneyRoundingMode

definition grossUpMoneyAmountByBasisPoints :: "gross_up_params \<Rightarrow> string res" where
  "grossUpMoneyAmountByBasisPoints params =
     bindE (assertBasisPoints (gu_percentageBps params) ''Basis points'') (\<lambda>_.
       ensure (num_less (gu_percentageBps params) (numi 10000))
         (Error ''Basis points must be below 10000 when grossing up a money amount.'') (
       bindE (case gu_fixedAmount params of None \<Rightarrow> Inr 0 | Some f \<Rightarrow> moneyToCents f) (\<lambda>fixedCents.
       bindE (moneyToCents (gu_basisAmount params)) (\<lambda>basisCents.
         let bps = num_to_int (gu_percentageBps params);
             numerator = basisCents * bps + fixedCents * 10000
         in bindE (roundRational (JBig numerator) (JBig (10000 - bps)) (gu_roundingMode params))
              (\<lambda>rounded. centsToMoneyAmount (JBig rounded))))))"

definition applyMoneyRatio ::
    "string \<Rightarrow> js_numeric \<Rightarrow> js_numeric \<Rightarrow> MoneyRoundingMode \<Rightarrow> string res" where
  "applyMoneyRatio amount numerator denominator roundingMode =
     bindE (toIntegerBigInt numerator ''Money ratio numerator'') (\<lambda>numeratorValue.
     bindE (toIntegerBigInt denominator ''Money ratio denominator'') (\<lambda>denominatorValue.
       ensure (\<not> numeratorValue < 0) (Error ''Money ratio numerator must be zero or greater.'') (
       ensure (\<not> denominatorValue \<le> 0) (Error ''Money ratio denominator must be greater than zero.'') (
         bindE (moneyToCents amount) (\<lambda>cents.
         bindE (roundRational (JBig (cents * numeratorValue)) (JBig denominatorValue) roundingMode)
           (\<lambda>rounded. centsToMoneyAmount (JBig rounded)))))))"


section \<open>Allocation by largest remainder\<close>

datatype alloc_weight = WText string | WNumeric js_numeric

record allocation =
  al_index :: nat
  al_cents :: int
  al_remainder :: int

definition weightValue :: "alloc_weight \<Rightarrow> int res" where
  "weightValue weight =
     bindE (case weight of WText t \<Rightarrow> moneyToCents t | WNumeric n \<Rightarrow> toIntegerBigInt n ''Allocation weight'')
       (\<lambda>value. ensure (\<not> value < 0) (Error ''Allocation weights must be zero or greater.'') (Inr value))"

definition initialAllocations :: "int \<Rightarrow> int \<Rightarrow> int list \<Rightarrow> allocation list" where
  "initialAllocations totalCents totalWeight weights =
     map (\<lambda>(index, weight).
            \<lparr>al_index = index, al_cents = (totalCents * weight) div totalWeight,
             al_remainder = (totalCents * weight) mod totalWeight\<rparr>)
       (zip [0..<length weights] weights)"

text \<open>Larger remainder first, the earlier index first among equals.\<close>

definition remainderComparator :: "allocation \<Rightarrow> allocation \<Rightarrow> int" where
  "remainderComparator left right =
     (let c = of_bool (al_remainder right > al_remainder left) - of_bool (al_remainder right < al_remainder left)
      in if c \<noteq> 0 then c else int (al_index left) - int (al_index right))"

definition indexComparator :: "allocation \<Rightarrow> allocation \<Rightarrow> int" where
  "indexComparator left right = int (al_index left) - int (al_index right)"

text \<open>The loop that hands one cent to each allocation until none is left.\<close>

fun distributeRemaining :: "int \<Rightarrow> allocation list \<Rightarrow> allocation list" where
  "distributeRemaining remainingCents [] = []"
| "distributeRemaining remainingCents (a # as) =
     (if remainingCents \<le> 0 then a # as
      else a\<lparr>al_cents := al_cents a + 1\<rparr> # distributeRemaining (remainingCents - 1) as)"

definition allocateMoneyByLargestRemainder :: "string \<Rightarrow> alloc_weight list \<Rightarrow> string list res" where
  "allocateMoneyByLargestRemainder totalAmount weights =
     bindE (moneyToCents totalAmount) (\<lambda>totalCents.
       if weights = [] then Inr []
       else bindE (mapE weightValue weights) (\<lambda>weightValues.
         let totalWeight = sum_list weightValues
         in if totalWeight = 0 \<or> totalCents = 0
            then mapE (\<lambda>_. centsToMoneyAmount (JBig 0)) weightValues
            else
              let allocations = initialAllocations totalCents totalWeight weightValues;
                  remainingCents = totalCents - sum_list (map al_cents allocations);
                  remainderOrder = js_sort remainderComparator allocations;
                  byIndex = js_sort indexComparator (distributeRemaining remainingCents remainderOrder)
              in mapE (\<lambda>a. centsToMoneyAmount (JBig (al_cents a))) byIndex))"

end
