(* ===== verification/MoneyFacts.thy ===== *)
theory MoneyFacts
  imports Money
begin

text \<open>
  Facts about \<open>money.ts\<close>: what the parser accepts, the print/parse round trip, the value of
  each operation on canonical amounts (the collection \<open>money_simps\<close>), rounding and the
  largest remainder allocation.
\<close>

named_theorems money_simps \<open>values of the money operations on printed amounts\<close>

section \<open>Printing and parsing\<close>

definition centsText :: "nat \<Rightarrow> string" where
  "centsText n = show_nat (n div 100) @ ''.'' @ js_padStart 2 (CHR ''0'') (show_nat (n mod 100))"

definition in_range :: "int \<Rightarrow> bool" where
  "in_range c \<longleftrightarrow> \<bar>c\<bar> \<le> MONEY_AMOUNT_MAX_CENTS"

lemma formatCents_centsText:
  "formatCents c = (if c < 0 then CHR ''-'' # centsText (nat (- c)) else centsText (nat c))"
  by (simp add: formatCents_def centsText_def Let_def)

lemma pad2_length [simp]: "length (js_padStart 2 (CHR ''0'') (show_nat (n mod 100))) = 2"
proof -
  have "n mod 100 < 100" by simp
  then have "length (show_nat (n mod 100)) \<le> 2" by (rule length_show_nat_small)
  then show ?thesis by (simp add: js_padStart_def)
qed

lemma pad2_digits: "c \<in> set (js_padStart 2 (CHR ''0'') (show_nat n)) \<Longrightarrow> is_digit c"
  by (auto simp: js_padStart_def dest: show_nat_digits)

lemma dot_not_digit [simp]: "\<not> is_digit (CHR ''.'')"
  by (simp add: is_digit_def)

lemma minus_not_digit [simp]: "\<not> is_digit (CHR ''-'')"
  by (simp add: is_digit_def)

lemma takeWhile_show_dot [simp]: "takeWhile is_digit (show_nat n @ CHR ''.'' # t) = show_nat n"
  by (subst takeWhile_append2) (auto dest: show_nat_digits)

lemma dropWhile_show_dot [simp]: "dropWhile is_digit (show_nat n @ CHR ''.'' # t) = CHR ''.'' # t"
  by (subst dropWhile_append2) (auto dest: show_nat_digits)

lemma split_show_dot [simp]:
  "takeWhile (\<lambda>c. c \<noteq> CHR ''.'') (show_nat n @ CHR ''.'' # t) = show_nat n"
  using show_nat_digits [of "CHR ''.''" n] dot_not_digit by (subst takeWhile_append2) auto

lemma centsText_hd: "is_digit (hd (centsText n))" and centsText_nonempty [simp]: "centsText n \<noteq> []"
  using show_nat_digits [of "hd (show_nat (n div 100))" "n div 100"]
  by (auto simp: centsText_def)

lemma centsText_last: "is_digit (last (centsText n))"
proof -
  let ?p = "js_padStart 2 (CHR ''0'') (show_nat (n mod 100))"
  have "?p \<noteq> []" using pad2_length [of n] by (metis list.size(3) zero_neq_numeral)
  then have "last (centsText n) = last ?p" and "last ?p \<in> set ?p"
    by (simp_all add: centsText_def)
  then show ?thesis using pad2_digits by metis
qed

lemma centsText_trim [simp]: "js_trim (centsText n) = centsText n"
  by (rule js_trim_fixed)
    (use centsText_hd [of n] centsText_last [of n] is_digit_not_space in blast)

lemma minus_centsText_trim [simp]: "js_trim (CHR ''-'' # centsText n) = CHR ''-'' # centsText n"
proof (rule js_trim_fixed, intro disjI2 conjI)
  show "\<not> js_space (hd (CHR ''-'' # centsText n))" by (simp add: js_space_def)
  show "\<not> js_space (last (CHR ''-'' # centsText n))"
    using centsText_last [of n] is_digit_not_space by simp
qed

lemma centsText_no_minus [simp]: "\<not> js_startsWith (centsText n) ''-''"
proof -
  have "hd (centsText n) \<noteq> CHR ''-''" using centsText_hd [of n] minus_not_digit by metis
  then show ?thesis by (cases "centsText n") (auto simp: js_startsWith_def)
qed

lemma centsText_pattern [simp]: "money_decimal_pattern (centsText n)"
  by (auto simp: money_decimal_pattern_def centsText_def Let_def list_all_iff dest: pad2_digits)

lemma centsText_value:
  "int (digits_val (takeWhile (\<lambda>c. c \<noteq> CHR ''.'') (centsText n))) * 100 +
   int (digits_val (js_padEnd 2 (CHR ''0'')
      (drop (length (takeWhile (\<lambda>c. c \<noteq> CHR ''.'') (centsText n)) + 1) (centsText n)))) = int n"
proof -
  have "int (n div 100) * 100 + int (n mod 100) = int n"
    by (metis div_mult_mod_eq of_nat_add of_nat_mult of_nat_numeral)
  then show ?thesis by (simp add: centsText_def js_padEnd_def)
qed

lemma parse_centsText:
  "parseMoneyCents neg m (centsText n) = (if int n > m then None else Some (int n))"
  using centsText_value [of n]
  by (simp add: parseMoneyCents_def signed_money_decimal_pattern_def Let_def)

lemma js_startsWith_minus: "js_startsWith (CHR ''-'' # s) ''-'' = True"
  by (simp add: js_startsWith_def)

lemma parse_minus_centsText:
  "parseMoneyCents True m (CHR ''-'' # centsText n) = (if int n > m then None else Some (- int n))"
  by (simp only: parseMoneyCents_def signed_money_decimal_pattern_def Let_def if_True
      minus_centsText_trim js_startsWith_minus list.sel centsText_pattern centsText_value) simp

lemma moneyToCents_format [money_simps]:
  "0 \<le> c \<Longrightarrow> in_range c \<Longrightarrow> moneyToCents (formatCents c) = Inr c"
  by (simp add: moneyToCents_def tryMoneyToCents_def formatCents_centsText parse_centsText in_range_def)

lemma tryMoneyToCents_format [money_simps]:
  "0 \<le> c \<Longrightarrow> in_range c \<Longrightarrow> tryMoneyToCents (formatCents c) = Some c"
  by (simp add: tryMoneyToCents_def formatCents_centsText parse_centsText in_range_def)

lemma signedMoneyToCents_format [money_simps]:
  "in_range c \<Longrightarrow> signedMoneyToCents (formatCents c) = Inr c"
  by (simp add: signedMoneyToCents_def trySignedMoneyToCents_def formatCents_centsText
      parse_centsText parse_minus_centsText in_range_def abs_le_iff not_less)

lemma signedMoneyToCents_minus [money_simps]:
  "0 \<le> c \<Longrightarrow> in_range c \<Longrightarrow> signedMoneyToCents (CHR ''-'' # formatCents c) = Inr (- c)"
  by (simp add: signedMoneyToCents_def trySignedMoneyToCents_def formatCents_centsText
      parse_minus_centsText in_range_def)

lemma formatCents_trim [money_simps]: "js_trim (formatCents c) = formatCents c"
  by (simp add: formatCents_centsText)

lemma formatCents_inj: "in_range a \<Longrightarrow> in_range b \<Longrightarrow> formatCents a = formatCents b \<longleftrightarrow> a = b"
  by (metis signedMoneyToCents_format sum.inject(2))

lemma formatCents_0: "formatCents 0 = ''0.00''"
  by code_simp


lemma parseMoneyCents_range:
  assumes "parseMoneyCents neg m v = Some c"
  shows "c \<le> m" and "- m \<le> c" and "\<not> neg \<Longrightarrow> 0 \<le> c"
proof -
  have pat: "\<not> neg \<Longrightarrow> money_decimal_pattern (js_trim v)"
    using assms by (auto simp: parseMoneyCents_def Let_def split: if_splits)
  have "money_decimal_pattern t \<Longrightarrow> \<not> js_startsWith t ''-''" for t
    by (cases t) (auto simp: money_decimal_pattern_def js_startsWith_def Let_def split: if_splits)
  then show "c \<le> m" and "- m \<le> c" and "\<not> neg \<Longrightarrow> 0 \<le> c"
    using assms pat by (auto simp: parseMoneyCents_def Let_def split: if_splits)
qed

lemma moneyToCents_range: "moneyToCents v = Inr c \<Longrightarrow> 0 \<le> c \<and> in_range c"
  using parseMoneyCents_range [of False MONEY_AMOUNT_MAX_CENTS v c]
  by (auto simp: moneyToCents_def tryMoneyToCents_def in_range_def split: option.splits)

lemma signedMoneyToCents_range: "signedMoneyToCents v = Inr c \<Longrightarrow> in_range c"
  using parseMoneyCents_range [of True MONEY_AMOUNT_MAX_CENTS v c]
  by (auto simp: signedMoneyToCents_def trySignedMoneyToCents_def in_range_def split: option.splits)

lemma tryMoneyToCents_range: "tryMoneyToCents v = Some c \<Longrightarrow> 0 \<le> c \<and> in_range c"
  using parseMoneyCents_range [of False MONEY_AMOUNT_MAX_CENTS v c]
  by (auto simp: tryMoneyToCents_def in_range_def)

lemma trySignedMoneyToCents_range: "trySignedMoneyToCents v = Some c \<Longrightarrow> in_range c"
  using parseMoneyCents_range [of True MONEY_AMOUNT_MAX_CENTS v c]
  by (auto simp: trySignedMoneyToCents_def in_range_def)

lemma tryMoneyToCents_signed: "tryMoneyToCents (js_trim v) = Some c \<Longrightarrow> signedMoneyToCents v = Inr c"
proof -
  have "money_decimal_pattern t \<Longrightarrow> \<not> js_startsWith t ''-''" for t
    by (cases t) (auto simp: money_decimal_pattern_def js_startsWith_def Let_def split: if_splits)
  then show "tryMoneyToCents (js_trim v) = Some c \<Longrightarrow> signedMoneyToCents v = Inr c"
    by (auto simp: tryMoneyToCents_def signedMoneyToCents_def trySignedMoneyToCents_def parseMoneyCents_def
        signed_money_decimal_pattern_def Let_def split: if_splits)
qed

lemma centsToMoneyAmount_big [money_simps]:
  "centsToMoneyAmount (JBig c) =
     (if 0 \<le> c \<and> in_range c then Inr (formatCents c)
      else Inl (Error ''Money cents must be between 0 and 999999999999.''))"
  by (auto simp: centsToMoneyAmount_def toIntegerBigInt_def in_range_def)

lemma centsToSignedMoneyAmount_big [money_simps]:
  "centsToSignedMoneyAmount (JBig c) =
     (if in_range c then Inr (formatCents c)
      else Inl (Error ''Money cents must be between -999999999999 and 999999999999.''))"
  by (auto simp: centsToSignedMoneyAmount_def toIntegerBigInt_def in_range_def)

lemma addSignedMoneyAmounts_format [money_simps]:
  "in_range a \<Longrightarrow> in_range b \<Longrightarrow>
   addSignedMoneyAmounts (formatCents a) (formatCents b) = centsToSignedMoneyAmount (JBig (a + b))"
  by (simp add: addSignedMoneyAmounts_def money_simps)

lemma addSignedMoneyAmounts_minus [money_simps]:
  "in_range a \<Longrightarrow> 0 \<le> b \<Longrightarrow> in_range b \<Longrightarrow>
   addSignedMoneyAmounts (formatCents a) (CHR ''-'' # formatCents b) =
     centsToSignedMoneyAmount (JBig (a - b))"
  by (simp add: addSignedMoneyAmounts_def money_simps)

lemma subtractMoneyAmounts_format [money_simps]:
  "in_range a \<Longrightarrow> in_range b \<Longrightarrow>
   subtractMoneyAmounts (formatCents a) (formatCents b) = centsToSignedMoneyAmount (JBig (a - b))"
  by (simp add: subtractMoneyAmounts_def money_simps)

lemma compareMoneyAmounts_format [money_simps]:
  "in_range a \<Longrightarrow> in_range b \<Longrightarrow>
   compareMoneyAmounts (formatCents a) (formatCents b) =
     Inr (if a < b then - 1 else if b < a then 1 else 0)"
  by (simp add: compareMoneyAmounts_def money_simps)

lemma compareMoneyAmounts_minus [money_simps]:
  "in_range a \<Longrightarrow> 0 \<le> b \<Longrightarrow> in_range b \<Longrightarrow>
   compareMoneyAmounts (formatCents a) (CHR ''-'' # formatCents b) =
     Inr (if a < - b then - 1 else if - b < a then 1 else 0)"
  by (simp add: compareMoneyAmounts_def money_simps)

lemma addMoneyAmounts_format [money_simps]:
  "0 \<le> a \<Longrightarrow> in_range a \<Longrightarrow> 0 \<le> b \<Longrightarrow> in_range b \<Longrightarrow>
   addMoneyAmounts (formatCents a) (formatCents b) = centsToMoneyAmount (JBig (a + b))"
  by (simp add: addMoneyAmounts_def money_simps)

lemma in_range_0 [simp]: "in_range 0"
  by (simp add: in_range_def MONEY_AMOUNT_MAX_CENTS_def)

lemma in_range_between: "0 \<le> a \<Longrightarrow> a \<le> b \<Longrightarrow> in_range b \<Longrightarrow> in_range a"
  by (simp add: in_range_def)

lemma centsToMoneyAmount_value:
  "centsToMoneyAmount (JBig c) = Inr t \<Longrightarrow> t = formatCents c \<and> 0 \<le> c \<and> in_range c"
  by (simp add: money_simps split: if_splits)

lemma centsToSignedMoneyAmount_value:
  "centsToSignedMoneyAmount (JBig c) = Inr t \<Longrightarrow> t = formatCents c \<and> in_range c"
  by (simp add: money_simps split: if_splits)

lemma isCanonicalMoneyAmount_iff:
  "isCanonicalMoneyAmount t \<longleftrightarrow> (\<exists>c. 0 \<le> c \<and> in_range c \<and> t = formatCents c)"
proof
  assume "isCanonicalMoneyAmount t"
  then show "\<exists>c. 0 \<le> c \<and> in_range c \<and> t = formatCents c"
    using tryMoneyToCents_range [of t]
    by (auto simp: isCanonicalMoneyAmount_def Let_def split: option.splits)
next
  assume "\<exists>c. 0 \<le> c \<and> in_range c \<and> t = formatCents c"
  then obtain c where c: "0 \<le> c" "in_range c" "t = formatCents c" by blast
  have "isCanonicalMoneyAmount (formatCents c)"
    using c(1,2) tryMoneyToCents_format [of c]
    by (auto simp: isCanonicalMoneyAmount_def formatCents_centsText centsText_def Let_def
        list_all_iff dest: pad2_digits)
  then show "isCanonicalMoneyAmount t" by (simp add: c)
qed


section \<open>Rounding\<close>

definition rounded_to :: "MoneyRoundingMode \<Rightarrow> int \<Rightarrow> int \<Rightarrow> int \<Rightarrow> bool" where
  "rounded_to mode n d r \<longleftrightarrow>
     (case mode of
        RFloor \<Rightarrow> r * d \<le> n \<and> n < (r + 1) * d
      | RCeil \<Rightarrow> (r - 1) * d < n \<and> n \<le> r * d
      | RNearest \<Rightarrow> (2 * r - 1) * d \<le> 2 * n \<and> 2 * n < (2 * r + 1) * d)"

lemma roundRational_value:
  assumes "0 \<le> n" and "0 < d"
  shows "\<exists>r. roundRational (JBig n) (JBig d) mode = Inr r \<and> rounded_to mode n d r"
proof -
  have n: "n = d * (n div d) + n mod d" by simp
  have lt: "n mod d < d" and ge: "0 \<le> n mod d" using assms(2) by simp_all
  define q m where "q = n div d" and "m = n mod d"
  have *: "n = d * q + m" "m < d" "0 \<le> m" using n lt ge by (simp_all add: q_def m_def)
  show ?thesis
    unfolding roundRational_def toIntegerBigInt_def q_def [symmetric] m_def [symmetric] Let_def
    using assms *
    by (cases mode) (auto simp: rounded_to_def q_def [symmetric] m_def [symmetric] algebra_simps)
qed

lemma cancel_less: "a * d < b * d \<Longrightarrow> 0 < d \<Longrightarrow> a < b" for a b d :: int
  by (simp add: mult_less_cancel_right)

lemma rounded_to_less:
  assumes "rounded_to mode n d r" and "n' \<le> n" and "rounded_to mode n' d r'" and "0 < d"
  shows "r' \<le> r"
proof (cases mode)
  case RFloor
  then have "r' * d \<le> n'" and "n < (r + 1) * d" using assms by (simp_all add: rounded_to_def)
  with assms(2) have "r' * d < (r + 1) * d" by linarith
  from cancel_less [OF this] assms(4) show ?thesis by simp
next
  case RCeil
  then have "(r' - 1) * d < n'" and "n \<le> r * d" using assms by (simp_all add: rounded_to_def)
  with assms(2) have "(r' - 1) * d < r * d" by linarith
  from cancel_less [OF this] assms(4) show ?thesis by simp
next
  case RNearest
  then have "(2 * r' - 1) * d \<le> 2 * n'" and "2 * n < (2 * r + 1) * d"
    using assms by (simp_all add: rounded_to_def)
  with assms(2) have "(2 * r' - 1) * d < (2 * r + 1) * d" by linarith
  from cancel_less [OF this] assms(4) show ?thesis by simp
qed

lemma rounded_to_unique: "rounded_to mode n d r \<Longrightarrow> rounded_to mode n d r' \<Longrightarrow> 0 < d \<Longrightarrow> r = r'"
  by (meson antisym order_refl rounded_to_less)

lemma rounded_to_exact: "0 < d \<Longrightarrow> rounded_to mode (k * d) d k"
  by (cases mode) (auto simp: rounded_to_def algebra_simps)

lemma rounded_to_le: "rounded_to mode n d r \<Longrightarrow> n \<le> k * d \<Longrightarrow> 0 < d \<Longrightarrow> r \<le> k"
  using rounded_to_less [OF rounded_to_exact [of d mode k]] by blast

lemma rounded_to_nonneg: "rounded_to mode n d r \<Longrightarrow> 0 \<le> n \<Longrightarrow> 0 < d \<Longrightarrow> 0 \<le> r"
  using rounded_to_less [OF _ _ rounded_to_exact [of d mode 0], of n r] by simp


section \<open>Allocation by largest remainder\<close>

lemma sum_list_distributeRemaining:
  "0 \<le> k \<Longrightarrow> k \<le> int (length as) \<Longrightarrow>
   sum_list (map al_cents (distributeRemaining k as)) = sum_list (map al_cents as) + k"
  by (induction k as rule: distributeRemaining.induct) auto

lemma length_distributeRemaining [simp]: "length (distributeRemaining k as) = length as"
  by (induction k as rule: distributeRemaining.induct) auto

lemma map_index_distributeRemaining [simp]:
  "map al_index (distributeRemaining k as) = map al_index as"
  by (induction k as rule: distributeRemaining.induct) auto

lemma distributeRemaining_members:
  "b \<in> set (distributeRemaining k as) \<Longrightarrow>
   \<exists>a\<in>set as. b = a \<or> b = a\<lparr>al_cents := al_cents a + 1\<rparr>"
  by (induction k as rule: distributeRemaining.induct) (auto split: if_splits)

lemma length_initialAllocations [simp]: "length (initialAllocations t w ws) = length ws"
  by (simp add: initialAllocations_def)

lemma map_index_initialAllocations [simp]:
  "map al_index (initialAllocations t w ws) = [0..<length ws]"
  by (simp add: initialAllocations_def comp_def case_prod_beta map_fst_zip)

lemma initialAllocations_member:
  "a \<in> set (initialAllocations t w ws) \<Longrightarrow>
   al_index a < length ws \<and> al_cents a = (t * ws ! al_index a) div w \<and>
   al_remainder a = (t * ws ! al_index a) mod w"
  by (auto simp: initialAllocations_def set_zip)

lemma sum_list_div_mod:
  "sum_list (map (\<lambda>x. (t * x) div w) xs) * w + sum_list (map (\<lambda>x. (t * x) mod w) xs) = t * sum_list xs"
  for t w :: int
  by (induction xs) (auto simp: algebra_simps)

lemma sum_list_mod_bound:
  "0 < w \<Longrightarrow> xs \<noteq> [] \<Longrightarrow> sum_list (map (\<lambda>x. (t * x) mod w) xs) < int (length xs) * w"
  for t w :: int
proof (induction xs)
  case (Cons x xs)
  then show ?case
    by (cases "xs = []") (auto simp: algebra_simps intro: add_strict_mono)
qed simp

lemma initialAllocations_cents:
  "map al_cents (initialAllocations t w ws) = map (\<lambda>x. (t * x) div w) ws"
proof -
  have "map al_cents (initialAllocations t w ws) = map ((\<lambda>x. (t * x) div w) \<circ> snd) (zip [0..<length ws] ws)"
    by (auto simp: initialAllocations_def)
  then show ?thesis by (simp flip: map_map)
qed

text \<open>What the truncated shares leave over is less than one cent per share.\<close>

lemma remaining_bounds:
  assumes w: "w = sum_list ws" "0 < w" and ne: "ws \<noteq> []"
  shows "0 \<le> t - sum_list (map al_cents (initialAllocations t w ws))"
    and "t - sum_list (map al_cents (initialAllocations t w ws)) < int (length ws)"
proof -
  define S R where "S = sum_list (map (\<lambda>x. (t * x) div w) ws)"
    and "R = sum_list (map (\<lambda>x. (t * x) mod w) ws)"
  have eq: "S * w + R = t * w"
    using sum_list_div_mod [of t w ws] w by (simp add: S_def R_def)
  then have R: "R = (t - S) * w" by (simp add: algebra_simps)
  have "0 \<le> R" unfolding R_def using w(2) by (intro sum_list_nonneg) auto
  then have "0 * w \<le> (t - S) * w" using R by simp
  then have lo: "0 \<le> t - S" using w(2) by (simp add: zero_le_mult_iff)
  have "R < int (length ws) * w" unfolding R_def by (rule sum_list_mod_bound [OF w(2) ne])
  then have "(t - S) * w < int (length ws) * w" using R by simp
  then have hi: "t - S < int (length ws)" using w(2) by (rule cancel_less)
  show "0 \<le> t - sum_list (map al_cents (initialAllocations t w ws))"
    and "t - sum_list (map al_cents (initialAllocations t w ws)) < int (length ws)"
    using lo hi by (simp_all add: initialAllocations_cents S_def)
qed

text \<open>Sorting by index puts the shares back in the order of the weights.\<close>

lemma sort_indexComparator:
  assumes "mset (map al_index as) = mset [0..<n]"
  shows "map al_index (js_sort indexComparator as) = [0..<n]"
proof -
  have "sorted_wrt (\<lambda>a b. indexComparator a b \<le> 0) (js_sort indexComparator as)"
    by (rule js_sort_sorted) (auto simp: indexComparator_def)
  then have "sorted (map al_index (js_sort indexComparator as))"
    by (simp add: sorted_map indexComparator_def)
  moreover have "mset (map al_index (js_sort indexComparator as)) = mset [0..<n]"
    by (metis assms mset_js_sort mset_map)
  ultimately show ?thesis
    by (metis sorted_upt properties_for_sort sorted_sort_id)
qed


definition largestRemainderShares :: "int \<Rightarrow> int list \<Rightarrow> allocation list" where
  "largestRemainderShares t vs =
     (let allocations = initialAllocations t (sum_list vs) vs
      in js_sort indexComparator
           (distributeRemaining (t - sum_list (map al_cents allocations))
              (js_sort remainderComparator allocations)))"

lemma weightValue_nonneg: "weightValue x = Inr v \<Longrightarrow> 0 \<le> v"
  by (auto simp: weightValue_def res_simps split: if_splits)

lemma mapE_Inr_nth: "mapE f xs = Inr ys \<Longrightarrow> i < length xs \<Longrightarrow> f (xs ! i) = Inr (ys ! i)"
  by (induction xs arbitrary: ys i) (auto simp: res_simps nth_Cons split: nat.split)

lemma mapE_weightValue_nonneg: "mapE weightValue ws = Inr vs \<Longrightarrow> v \<in> set vs \<Longrightarrow> 0 \<le> v"
  by (metis in_set_conv_nth mapE_Inr_length mapE_Inr_nth weightValue_nonneg)

lemma shares_index: "map al_index (largestRemainderShares t vs) = [0..<length vs]"
proof -
  define as where "as = initialAllocations t (sum_list vs) vs"
  define k where "k = t - sum_list (map al_cents as)"
  have "mset (map al_index (distributeRemaining k (js_sort remainderComparator as))) = mset [0..<length vs]"
    using mset_map [of al_index "js_sort remainderComparator as"] mset_map [of al_index as]
    by (simp add: as_def)
  from sort_indexComparator [OF this] show ?thesis
    by (simp add: largestRemainderShares_def as_def k_def Let_def)
qed

lemma shares_length [simp]: "length (largestRemainderShares t vs) = length vs"
  by (metis shares_index length_map length_upt diff_zero)

lemma shares_sum:
  assumes "0 < sum_list vs" and "vs \<noteq> []"
  shows "sum_list (map al_cents (largestRemainderShares t vs)) = t"
proof -
  define as where "as = initialAllocations t (sum_list vs) vs"
  define k where "k = t - sum_list (map al_cents as)"
  have k: "0 \<le> k" "k \<le> int (length (js_sort remainderComparator as))"
    using remaining_bounds [OF refl assms, of t] by (simp_all add: k_def as_def)
  have "sum_mset (image_mset al_cents (mset (largestRemainderShares t vs))) =
        sum_list (map al_cents (distributeRemaining k (js_sort remainderComparator as)))"
    by (simp add: largestRemainderShares_def as_def k_def Let_def flip: sum_mset_sum_list)
  also have "\<dots> = sum_list (map al_cents (js_sort remainderComparator as)) + k"
    by (rule sum_list_distributeRemaining [OF k])
  also have "sum_list (map al_cents (js_sort remainderComparator as)) = sum_list (map al_cents as)"
    by (metis mset_js_sort mset_map sum_mset_sum_list)
  finally show ?thesis by (simp add: k_def flip: sum_mset_sum_list)
qed

lemma shares_quota:
  assumes "i < length vs"
  shows "al_cents (largestRemainderShares t vs ! i) \<in>
           {(t * vs ! i) div sum_list vs, (t * vs ! i) div sum_list vs + 1}"
proof -
  define as where "as = initialAllocations t (sum_list vs) vs"
  let ?b = "largestRemainderShares t vs ! i"
  have "al_index ?b = [0..<length vs] ! i"
    using assms by (metis nth_map shares_index shares_length)
  then have idx: "al_index ?b = i" using assms by simp
  have "?b \<in> set (largestRemainderShares t vs)" using assms by simp
  then obtain a where a: "a \<in> set as" "?b = a \<or> ?b = a\<lparr>al_cents := al_cents a + 1\<rparr>"
    by (auto simp: largestRemainderShares_def Let_def as_def dest!: distributeRemaining_members)
  then have "al_index a = i" using idx by auto
  then have "al_cents a = (t * vs ! i) div sum_list vs"
    using initialAllocations_member a(1) unfolding as_def by metis
  then show ?thesis using a(2) by auto
qed

lemma shares_range:
  assumes t: "0 \<le> t" "in_range t" and pos: "0 < sum_list vs" and ne: "vs \<noteq> []"
    and nn: "\<And>v. v \<in> set vs \<Longrightarrow> 0 \<le> v" and b: "b \<in> set (largestRemainderShares t vs)"
  shows "0 \<le> al_cents b \<and> in_range (al_cents b)"
proof -
  have nonneg: "0 \<le> al_cents x" if "x \<in> set (largestRemainderShares t vs)" for x
  proof -
    obtain i where i: "i < length vs" "x = largestRemainderShares t vs ! i"
      using \<open>x \<in> _\<close> by (metis in_set_conv_nth shares_length)
    have "0 \<le> (t * vs ! i) div sum_list vs"
      using t(1) nn [of "vs ! i"] pos i(1) by (simp add: pos_imp_zdiv_nonneg_iff)
    then show ?thesis using shares_quota [OF i(1), of t] i(2) by auto
  qed
  have "al_cents b \<in> set (map al_cents (largestRemainderShares t vs))" using b by simp
  then have "al_cents b \<le> sum_list (map al_cents (largestRemainderShares t vs))"
    by (rule member_le_sum_list) (use nonneg in auto)
  then show ?thesis using shares_sum [OF pos ne] nonneg [OF b] t in_range_between by simp
qed

lemma allocate_unfold:
  assumes t: "moneyToCents amt = Inr t" and ne: "ws \<noteq> []" and vs: "mapE weightValue ws = Inr vs"
    and nz: "sum_list vs \<noteq> 0" "t \<noteq> 0"
  shows "allocateMoneyByLargestRemainder amt ws =
           Inr (map (\<lambda>a. formatCents (al_cents a)) (largestRemainderShares t vs))"
proof -
  have vs_ne: "vs \<noteq> []" using ne mapE_Inr_length [OF vs] by auto
  have nn: "\<And>v. v \<in> set vs \<Longrightarrow> 0 \<le> v" by (rule mapE_weightValue_nonneg [OF vs])
  then have pos: "0 < sum_list vs" using nz(1) sum_list_nonneg [of vs] by force
  have rng: "0 \<le> t" "in_range t" using moneyToCents_range [OF t] by simp_all
  have "mapE (\<lambda>a. centsToMoneyAmount (JBig (al_cents a))) (largestRemainderShares t vs) =
          Inr (map (\<lambda>a. formatCents (al_cents a)) (largestRemainderShares t vs))"
    by (rule mapE_pure) (use shares_range [OF rng pos vs_ne nn] in \<open>simp add: money_simps\<close>)
  then show ?thesis
    using nz by (simp add: allocateMoneyByLargestRemainder_def t ne vs largestRemainderShares_def Let_def)
qed

lemma allocate_zero:
  assumes "moneyToCents amt = Inr t" and "mapE weightValue ws = Inr vs" and "sum_list vs = 0 \<or> t = 0"
  shows "allocateMoneyByLargestRemainder amt ws = Inr (map (\<lambda>_. ''0.00'') ws)"
proof -
  have "mapE (\<lambda>_. centsToMoneyAmount (JBig 0)) vs = Inr (map (\<lambda>_. ''0.00'') vs)"
    by (rule mapE_pure) (simp add: money_simps formatCents_0)
  moreover have "map (\<lambda>_. ''0.00'') vs = map (\<lambda>_. ''0.00'') ws"
    using mapE_Inr_length [OF assms(2)] by (simp add: map_replicate_const)
  ultimately show ?thesis using assms by (auto simp: allocateMoneyByLargestRemainder_def)
qed


section \<open>Canonical amounts and their values\<close>

text \<open>The value of an amount in cents, and the amounts that are printed the way the module
  prints them.\<close>

definition centsOf :: "string \<Rightarrow> int" where
  "centsOf t = (case signedMoneyToCents t of Inr c \<Rightarrow> c | Inl _ \<Rightarrow> 0)"

definition canonical :: "string \<Rightarrow> bool" where
  "canonical t \<longleftrightarrow> (case signedMoneyToCents t of Inr c \<Rightarrow> formatCents c = t | Inl _ \<Rightarrow> False)"

lemma centsOf_format [simp]: "in_range c \<Longrightarrow> centsOf (formatCents c) = c"
  by (simp add: centsOf_def money_simps)

lemma canonical_format [simp]: "in_range c \<Longrightarrow> canonical (formatCents c)"
  by (simp add: canonical_def money_simps)

lemma canonical_iff: "canonical t \<longleftrightarrow> (\<exists>c. in_range c \<and> t = formatCents c)"
  by (auto simp: canonical_def money_simps split: sum.splits dest: signedMoneyToCents_range)

lemma canonicalE:
  assumes "canonical t" obtains c where "in_range c" "t = formatCents c" "centsOf t = c"
  using assms by (auto simp: canonical_iff)

lemma canonical_zero [simp]: "canonical ''0.00''" and centsOf_zero [simp]: "centsOf ''0.00'' = 0"
  by (simp_all flip: formatCents_0)

lemma formatCents_eq_zero [simp]: "in_range c \<Longrightarrow> formatCents c = ''0.00'' \<longleftrightarrow> c = 0"
  by (metis formatCents_0 formatCents_inj in_range_0)

lemma canonical_in_range: "canonical t \<Longrightarrow> in_range (centsOf t)"
  by (auto elim: canonicalE)

lemma canonical_eqI: "canonical s \<Longrightarrow> canonical t \<Longrightarrow> centsOf s = centsOf t \<Longrightarrow> s = t"
  by (auto elim!: canonicalE)

lemma canonical_format_cents: "canonical t \<Longrightarrow> formatCents (centsOf t) = t"
  by (auto elim: canonicalE)

text \<open>The whole of the allocation, for its clients.\<close>

lemma largest_remainder_exact:
  assumes "moneyToCents amt = Inr t" and "ws \<noteq> []" and "mapE weightValue ws = Inr vs" and "sum_list vs \<noteq> 0"
  shows "\<exists>shares. allocateMoneyByLargestRemainder amt ws = Inr (map formatCents shares) \<and>
    length shares = length ws \<and> sum_list shares = t \<and>
    (\<forall>i<length ws. in_range (shares ! i) \<and>
       (shares ! i = (t * vs ! i) div sum_list vs \<or> shares ! i = (t * vs ! i) div sum_list vs + 1))"
proof -
  have len: "length vs = length ws" using mapE_Inr_length [OF assms(3)] .
  have nn: "\<And>v. v \<in> set vs \<Longrightarrow> 0 \<le> v" by (rule mapE_weightValue_nonneg [OF assms(3)])
  then have pos: "0 < sum_list vs" using assms(4) sum_list_nonneg [of vs] by force
  have ne: "vs \<noteq> []" using assms(2) len by auto
  have t: "0 \<le> t" "in_range t" using moneyToCents_range [OF assms(1)] by simp_all
  show ?thesis
  proof (cases "t = 0")
    case True
    then have "allocateMoneyByLargestRemainder amt ws = Inr (map formatCents (map (\<lambda>_. 0) ws))"
      using allocate_zero [OF assms(1,3)] by (simp add: formatCents_0)
    then show ?thesis using True by (intro exI [of _ "map (\<lambda>_. 0) ws"]) auto
  next
    case False
    let ?s = "map al_cents (largestRemainderShares t vs)"
    have "allocateMoneyByLargestRemainder amt ws = Inr (map formatCents ?s)"
      using allocate_unfold [OF assms(1,2,3,4) False] by (simp add: o_def)
    moreover have "sum_list ?s = t" using shares_sum [OF pos ne] by simp
    moreover have "in_range (?s ! i) \<and> (?s ! i = (t * vs ! i) div sum_list vs \<or> ?s ! i = (t * vs ! i) div sum_list vs + 1)"
      if "i < length ws" for i
      using that shares_quota [of i vs t] shares_range [OF t pos ne nn, of "largestRemainderShares t vs ! i"] len
      by simp
    ultimately show ?thesis using len by (intro exI [of _ ?s]) simp
  qed
qed

end
