(* ===== verification/MoneyProps.thy ===== *)
theory MoneyProps
  imports MoneyFacts
begin

text \<open>
  The properties of \<open>contracts/primitives/money.ts\<close>: canonical printing, allocation that loses no
  cent, and fees rounded the way their mode says.
\<close>

text \<open>
  C34. An amount in range prints as a text that reads back to it, and the canonical non-negative
  amounts are exactly the texts that the module prints.
\<close>

theorem money_text_roundtrip:
  assumes "in_range c"
  shows "signedMoneyToCents (formatCents c) = Inr c \<and>
    (0 \<le> c \<longrightarrow> moneyToCents (formatCents c) = Inr c) \<and>
    isCanonicalMoneyAmount (formatCents c) = (0 \<le> c)"
proof -
  have "isCanonicalMoneyAmount (formatCents c) = (0 \<le> c)"
    unfolding isCanonicalMoneyAmount_iff using assms formatCents_inj by metis
  then show ?thesis using assms by (simp add: money_simps)
qed

theorem money_text_roundtrip_witness:
  "signedMoneyToCents (formatCents (- 1205)) = Inr (- 1205) \<and>
   \<not> isCanonicalMoneyAmount (formatCents (- 1205)) \<and> formatCents (- 1205) = ''-12.05''"
proof -
  have "in_range (- 1205)" and "formatCents (- 1205) = ''-12.05''" by code_simp+
  then show ?thesis using money_text_roundtrip [of "- 1205"] by simp
qed

text \<open>
  Normalising an amount keeps its value, and normalising the result again changes nothing.
\<close>

theorem money_normalize_idempotent:
  assumes "primNormalizeMoneyAmount v = Inr t"
  shows "primNormalizeMoneyAmount t = Inr t \<and> moneyToCents t = moneyToCents v \<and> isCanonicalMoneyAmount t"
proof -
  obtain c where c: "moneyToCents v = Inr c" "t = formatCents c"
    using assms by (auto simp: primNormalizeMoneyAmount_def res_simps money_simps split: if_splits)
  moreover have "0 \<le> c" "in_range c" using moneyToCents_range [OF c(1)] by simp_all
  ultimately show ?thesis
    by (auto simp: primNormalizeMoneyAmount_def money_simps isCanonicalMoneyAmount_iff)
qed

text \<open>
  C32. Allocating an amount over weights that are not all zero returns one canonical amount per weight;
  they add up to the amount to the cent, and each is its exact proportional share rounded down, or one
  cent more.
\<close>

theorem allocation_is_exact:
  assumes "moneyToCents amt = Inr t" and "ws \<noteq> []" and "mapE weightValue ws = Inr vs" and "sum_list vs \<noteq> 0"
  shows "\<exists>shares. allocateMoneyByLargestRemainder amt ws = Inr (map formatCents shares) \<and>
    length shares = length ws \<and> sum_list shares = t \<and>
    (\<forall>i<length ws. in_range (shares ! i) \<and>
       (shares ! i = (t * vs ! i) div sum_list vs \<or> shares ! i = (t * vs ! i) div sum_list vs + 1))"
  using assms by (rule largest_remainder_exact)

theorem allocation_is_exact_witness:
  "\<exists>shares. allocateMoneyByLargestRemainder ''1.00'' [WText ''1'', WText ''1'', WText ''1''] = Inr (map formatCents shares) \<and>
     sum_list shares = 100"
proof -
  have 1: "moneyToCents ''1.00'' = Inr 100" by code_simp
  have 2: "mapE weightValue [WText ''1'', WText ''1'', WText ''1''] = Inr [100, 100, 100]" by code_simp
  from allocation_is_exact [OF 1 _ 2] show ?thesis by auto
qed

text \<open>
  C33. A fee grossed up with rounding up is the least fee that, once it is itself charged the
  percentage, still covers the percentage of the whole plus the fixed part.
\<close>

theorem gross_up_is_least_covering_fee:
  assumes "grossUpMoneyAmountByBasisPoints p = Inr t" and "gu_roundingMode p = RCeil"
    and "gu_percentageBps p = numi bps" and "moneyToCents (gu_basisAmount p) = Inr basis"
    and "(case gu_fixedAmount p of None \<Rightarrow> Inr 0 | Some f \<Rightarrow> moneyToCents f) = Inr fixed"
  shows "\<exists>fee. t = formatCents fee \<and> in_range fee \<and>
    bps * (basis + fee) + 10000 * fixed \<le> 10000 * fee \<and>
    (\<forall>f. bps * (basis + f) + 10000 * fixed \<le> 10000 * f \<longrightarrow> fee \<le> f)"
proof -
  have g: "0 \<le> bps" "bps < 10000"
    using assms(1,3) by (auto simp: grossUpMoneyAmountByBasisPoints_def assertBasisPoints_def res_simps split: if_splits)
  have b: "0 \<le> basis" "0 \<le> fixed"
    using moneyToCents_range assms(4,5) by (auto split: option.splits)
  define n d where "n = basis * bps + fixed * 10000" and "d = 10000 - bps"
  have "0 \<le> n" "0 < d" using g b by (simp_all add: n_def d_def)
  then obtain fee where fee: "roundRational (JBig n) (JBig d) RCeil = Inr fee" "rounded_to RCeil n d fee"
    using roundRational_value by blast
  have t: "t = formatCents fee \<and> in_range fee"
    using assms fee(1) g unfolding n_def d_def
    by (auto simp: grossUpMoneyAmountByBasisPoints_def res_simps money_simps Let_def split: if_splits)
  have lo: "n \<le> fee * d" and hi: "(fee - 1) * d < n" using fee(2) by (simp_all add: rounded_to_def)
  have "fee \<le> f" if "bps * (basis + f) + 10000 * fixed \<le> 10000 * f" for f
  proof -
    have "n \<le> f * d" using that by (simp add: n_def d_def algebra_simps)
    then have "(fee - 1) * d < f * d" using hi by linarith
    then show ?thesis using \<open>0 < d\<close> by (simp add: mult_less_cancel_right)
  qed
  then show ?thesis using t lo by (intro exI [of _ fee]) (simp add: n_def d_def algebra_simps)
qed

theorem gross_up_is_least_covering_fee_witness:
  "\<exists>fee. ''3.30'' = formatCents fee \<and> in_range fee \<and> 290 * (10000 + fee) + 10000 * 30 \<le> 10000 * fee \<and>
     (\<forall>f. 290 * (10000 + f) + 10000 * 30 \<le> 10000 * f \<longrightarrow> fee \<le> f)"
proof -
  let ?p = "\<lparr>gu_basisAmount = ''100.00'', gu_percentageBps = numi 290, gu_fixedAmount = Some ''0.30'',
    gu_roundingMode = RCeil\<rparr>"
  have 1: "grossUpMoneyAmountByBasisPoints ?p = Inr ''3.30''" by code_simp
  have 2: "moneyToCents ''100.00'' = Inr 10000" and 3: "moneyToCents ''0.30'' = Inr 30" by code_simp+
  from gross_up_is_least_covering_fee [OF 1, of 290 10000 30] 2 3 show ?thesis by simp
qed

text \<open>
  A percentage of an amount is the exact product rounded as the mode says: down, up, or to the
  nearest cent with halves up; it never exceeds the amount.
\<close>

theorem basis_points_rounding:
  assumes "applyBasisPointsToMoneyAmount amt (numi bps) mode = Inr t" and "moneyToCents amt = Inr c"
  shows "\<exists>r. t = formatCents r \<and> rounded_to mode (c * bps) 10000 r \<and> 0 \<le> r \<and> r \<le> c"
proof -
  have g: "0 \<le> bps" "bps \<le> 10000"
    using assms(1) by (auto simp: applyBasisPointsToMoneyAmount_def assertBasisPoints_def res_simps split: if_splits)
  have c: "0 \<le> c" using moneyToCents_range [OF assms(2)] by simp
  then obtain r where r: "roundRational (JBig (c * bps)) (JBig 10000) mode = Inr r" "rounded_to mode (c * bps) 10000 r"
    using roundRational_value [of "c * bps" 10000 mode] g by auto
  have "c * bps \<le> c * 10000" using c g by (simp add: mult_left_mono)
  then have "r \<le> c" using rounded_to_le [OF r(2)] by simp
  moreover have "0 \<le> r" using rounded_to_nonneg [OF r(2)] c g by simp
  moreover have "t = formatCents r"
    using assms r(1) by (auto simp: applyBasisPointsToMoneyAmount_def res_simps money_simps split: if_splits)
  ultimately show ?thesis using r(2) by blast
qed

end
