(* ===== verification/JsTime.thy ===== *)
theory JsTime
  imports JsString
begin

text \<open>
  The standard library's \<open>Date\<close> as the sources use it: \<open>Date.parse\<close>, \<open>toISOString\<close>,
  \<open>Date.UTC\<close> and the UTC year and month of an instant, over the proleptic Gregorian calendar
  of ECMA-262. A time value is an \<open>int\<close> of milliseconds, \<open>None\<close> is NaN.

  ECMA-262 fixes \<open>Date.parse\<close> on its own date time format where the text names UTC or an
  offset (or is a date alone); on every other text (local times, other formats, fields out of
  range) the result depends on the host. That part is the field \<open>host_dateParse\<close> of the
  host environment, and every theorem holds for every such function. The SHA-256 digest of
  \<open>node:crypto\<close>, which the settlement sources import, is the other field.
\<close>

record host =
  host_dateParse :: "string \<Rightarrow> int option"
  host_sha256Hex :: "string \<Rightarrow> string"

section \<open>The calendar\<close>

definition ms_per_day :: int where
  "ms_per_day = 86400000"

definition is_leap :: "int \<Rightarrow> bool" where
  "is_leap y \<longleftrightarrow> y mod 4 = 0 \<and> (y mod 100 \<noteq> 0 \<or> y mod 400 = 0)"

definition day_from_year :: "int \<Rightarrow> int" where
  "day_from_year y =
     365 * (y - 1970) + (y - 1969) div 4 - (y - 1901) div 100 + (y - 1601) div 400"

definition month_offsets :: "bool \<Rightarrow> int list" where
  "month_offsets leap =
     (if leap then [0, 31, 60, 91, 121, 152, 182, 213, 244, 274, 305, 335]
      else [0, 31, 59, 90, 120, 151, 181, 212, 243, 273, 304, 334])"

definition days_in_month :: "bool \<Rightarrow> nat \<Rightarrow> int" where
  "days_in_month leap m =
     [31, if leap then 29 else 28, 31, 30, 31, 30, 31, 31, 30, 31, 30, 31] ! (m - 1)"

definition day_number :: "int \<Rightarrow> nat \<Rightarrow> int \<Rightarrow> int" where
  "day_number y m d = day_from_year y + month_offsets (is_leap y) ! (m - 1) + (d - 1)"

definition year_of_day :: "int \<Rightarrow> int" where
  "year_of_day d =
     (let y = 1970 + (400 * d) div 146097
      in if d < day_from_year y then y - 1
         else if day_from_year (y + 1) \<le> d then y + 1 else y)"

definition month_of_day :: "int \<Rightarrow> nat" where
  "month_of_day d =
     (let y = year_of_day d
      in length (filter (\<lambda>off. off \<le> d - day_from_year y) (month_offsets (is_leap y))))"

definition date_of_day :: "int \<Rightarrow> int" where
  "date_of_day d =
     (let y = year_of_day d
      in d - day_from_year y - month_offsets (is_leap y) ! (month_of_day d - 1) + 1)"

definition time_clip :: "int \<Rightarrow> int option" where
  "time_clip t = (if \<bar>t\<bar> \<le> 8640000000000000 then Some t else None)"

definition utc_year :: "int \<Rightarrow> int" where
  "utc_year t = year_of_day (t div ms_per_day)"

definition utc_month_index :: "int \<Rightarrow> int" where
  "utc_month_index t = int (month_of_day (t div ms_per_day)) - 1"

text \<open>\<open>Date.UTC(year, monthIndex, 1)\<close>: the years 0 to 99 mean 1900 to 1999.\<close>

definition date_utc_month :: "int \<Rightarrow> int \<Rightarrow> int option" where
  "date_utc_month year monthIndex =
     (let y = (if 0 \<le> year \<and> year \<le> 99 then 1900 + year else year);
          ym = y + monthIndex div 12; mn = nat (monthIndex mod 12) + 1
      in time_clip (day_number ym mn 1 * ms_per_day))"


section \<open>Printing\<close>

definition pad_num :: "nat \<Rightarrow> int \<Rightarrow> string" where
  "pad_num n k = js_padStart n (CHR ''0'') (show_nat (nat k))"

definition iso_year :: "int \<Rightarrow> string" where
  "iso_year y =
     (if 0 \<le> y \<and> y \<le> 9999 then pad_num 4 y
      else if y < 0 then CHR ''-'' # pad_num 6 (- y) else CHR ''+'' # pad_num 6 y)"

definition iso_string :: "int \<Rightarrow> string" where
  "iso_string t =
     (let d = t div ms_per_day; r = t mod ms_per_day
      in iso_year (year_of_day d) @ ''-'' @ pad_num 2 (int (month_of_day d)) @ ''-'' @
         pad_num 2 (date_of_day d) @ ''T'' @ pad_num 2 (r div 3600000) @ '':'' @
         pad_num 2 (r div 60000 mod 60) @ '':'' @ pad_num 2 (r div 1000 mod 60) @ ''.'' @
         pad_num 3 (r mod 1000) @ ''Z'')"

definition toISOString :: "int option \<Rightarrow> string res" where
  "toISOString tv =
     (case tv of None \<Rightarrow> Inl (RangeError ''Invalid time value'') | Some t \<Rightarrow> Inr (iso_string t))"


section \<open>Parsing\<close>

definition take_num :: "nat \<Rightarrow> string \<Rightarrow> (int \<times> string) option" where
  "take_num n s =
     (if length (take n s) = n \<and> list_all is_digit (take n s)
      then Some (int (digits_val (take n s)), drop n s) else None)"

definition parse_year :: "string \<Rightarrow> (int \<times> string) option" where
  "parse_year s =
     (case s of
        [] \<Rightarrow> None
      | c # r \<Rightarrow>
          if c = CHR ''-'' then
            (case take_num 6 r of None \<Rightarrow> None | Some (y, r') \<Rightarrow> if y = 0 then None else Some (- y, r'))
          else if c = CHR ''+'' then take_num 6 r
          else take_num 4 s)"

text \<open>A separator and a number: \<open>Some (None, s)\<close> when the separator is not there.\<close>

definition opt_num :: "char \<Rightarrow> nat \<Rightarrow> string \<Rightarrow> (int option \<times> string) option" where
  "opt_num sep n s =
     (case s of
        c # r \<Rightarrow> if c = sep then map_option (map_prod Some id) (take_num n r) else Some (None, s)
      | [] \<Rightarrow> Some (None, s))"

record iso_fields =
  iso_y :: int
  iso_mo :: int
  iso_d :: int
  iso_h :: int
  iso_mi :: int
  iso_s :: int
  iso_ms :: int
  iso_off :: int

definition parse_date :: "string \<Rightarrow> (int \<times> int \<times> int \<times> string) option" where
  "parse_date s =
     Option.bind (parse_year s) (\<lambda>(y, s1).
     Option.bind (opt_num (CHR ''-'') 2 s1) (\<lambda>(mo, s2).
       case mo of
         None \<Rightarrow> Some (y, 1, 1, s2)
       | Some m \<Rightarrow>
           Option.bind (opt_num (CHR ''-'') 2 s2) (\<lambda>(d, s3).
             Some (y, m, (case d of None \<Rightarrow> 1 | Some d \<Rightarrow> d), s3))))"

definition parse_zone :: "string \<Rightarrow> int option" where
  "parse_zone s =
     (if s = ''Z'' then Some 0
      else case s of
             c # r \<Rightarrow>
               if c = CHR ''+'' \<or> c = CHR ''-'' then
                 Option.bind (take_num 2 r) (\<lambda>(h, r1).
                 Option.bind (opt_num (CHR '':'') 2 r1) (\<lambda>(mi, r2).
                   case mi of
                     None \<Rightarrow> None
                   | Some m \<Rightarrow>
                       if r2 = [] \<and> h \<le> 23 \<and> m \<le> 59
                       then Some ((if c = CHR ''-'' then - 1 else 1) * (h * 60 + m)) else None))
               else None
           | [] \<Rightarrow> None)"

definition iso_read :: "string \<Rightarrow> iso_fields option" where
  "iso_read s =
     Option.bind (parse_date s) (\<lambda>(y, m, d, r).
       if r = [] then
         Some \<lparr>iso_y = y, iso_mo = m, iso_d = d, iso_h = 0, iso_mi = 0, iso_s = 0, iso_ms = 0, iso_off = 0\<rparr>
       else
         Option.bind (opt_num (CHR ''T'') 2 r) (\<lambda>(h, r1).
         Option.bind (opt_num (CHR '':'') 2 r1) (\<lambda>(mi, r2).
         Option.bind (opt_num (CHR '':'') 2 r2) (\<lambda>(sec, r3).
         Option.bind (if sec = None then Some (None, r3) else opt_num (CHR ''.'') 3 r3) (\<lambda>(ms, r4).
         Option.bind (parse_zone r4) (\<lambda>off.
           case (h, mi) of
             (Some h, Some mi) \<Rightarrow>
               Some \<lparr>iso_y = y, iso_mo = m, iso_d = d, iso_h = h, iso_mi = mi,
                     iso_s = (case sec of None \<Rightarrow> 0 | Some x \<Rightarrow> x),
                     iso_ms = (case ms of None \<Rightarrow> 0 | Some x \<Rightarrow> x), iso_off = off\<rparr>
           | _ \<Rightarrow> None))))))"

definition iso_valid :: "iso_fields \<Rightarrow> bool" where
  "iso_valid f \<longleftrightarrow>
     1 \<le> iso_mo f \<and> iso_mo f \<le> 12 \<and> 1 \<le> iso_d f \<and>
     iso_d f \<le> days_in_month (is_leap (iso_y f)) (nat (iso_mo f)) \<and>
     (iso_h f \<le> 23 \<or> iso_h f = 24 \<and> iso_mi f = 0 \<and> iso_s f = 0 \<and> iso_ms f = 0) \<and>
     iso_mi f \<le> 59 \<and> iso_s f \<le> 59"

definition iso_time :: "iso_fields \<Rightarrow> int" where
  "iso_time f =
     day_number (iso_y f) (nat (iso_mo f)) (iso_d f) * ms_per_day +
     (iso_h f * 60 + iso_mi f - iso_off f) * 60000 + iso_s f * 1000 + iso_ms f"

definition Date_parse :: "host \<Rightarrow> string \<Rightarrow> int option" where
  "Date_parse h s =
     (case iso_read s of
        None \<Rightarrow> host_dateParse h s
      | Some f \<Rightarrow> if iso_valid f then time_clip (iso_time f) else host_dateParse h s)"


text \<open>An instant whose text \<open>Date.parse\<close> reads on every host, for commands that need one.\<close>

definition readableTime :: string where
  "readableTime = ''2030-01-01T00:00:00.000Z''"

lemma readableTime_parses: "\<exists>n. Date_parse h readableTime = Some n"
proof -
  have "iso_read readableTime \<noteq> None \<and> iso_valid (the (iso_read readableTime)) \<and>
      Date_parse \<lparr>host_dateParse = (\<lambda>_. None), host_sha256Hex = (\<lambda>s. s)\<rparr> readableTime \<noteq> None" by code_simp
  then show ?thesis by (auto simp: Date_parse_def split: option.splits if_splits)
qed

end
