(* ===== verification/SettlementCommon.thy ===== *)
theory SettlementCommon
  imports MoneyFacts JsTime
begin

text \<open>
  \<open>bounded-contexts/settlement/support/runtime-support/common.ts\<close>: the vocabulary of the
  settlement context and the normalisers its deciders run on every command. Enumerations are
  datatypes in states and events. A command carries the text its caller sent, which the
  normalisers read, except where the deciders compare a field with a literal of its union type
  before they normalise it (a ledger entry's direction and funds status): such a field has the
  declared type.
\<close>

section \<open>Vocabulary\<close>

datatype CurrencyCode = Usd

datatype LedgerEntryDirection = Credit | Debit

datatype LedgerEntryFundsStatus = FundsPending | FundsAvailable

text \<open>The literals of the two union types the deciders compare with \<open>===\<close>.\<close>

fun directionText :: "LedgerEntryDirection \<Rightarrow> string" where
  "directionText Credit = ''credit''"
| "directionText Debit = ''debit''"

fun fundsStatusText :: "LedgerEntryFundsStatus \<Rightarrow> string" where
  "fundsStatusText FundsPending = ''pending''"
| "fundsStatusText FundsAvailable = ''available''"

datatype LedgerEntryKind =
    KSale | KFee | KAuthenticityFee | KRebate | KRefund | KPlatformPurchase | KPayout
  | KPayoutReversal | KAdjustment

datatype PayoutStatus = PayoutRequestedSt | PayoutInTransitSt | PayoutCompletedSt | PayoutFailedSt

datatype PayoutReadinessStatus =
    ReadinessNotStarted | ReadinessPending | ReadinessReady | ReadinessRestricted

datatype ProviderSetupStatus = SetupNotStarted | SetupPending | SetupComplete

datatype ProviderCapabilityStatus = CapabilityInactive | CapabilityPending | CapabilityActive

datatype ProviderPayoutDestinationStatus =
    DestinationMissing | DestinationPending | DestinationReady

datatype ProviderPayoutAccountDashboard =
    DashboardNone | DashboardExpress | DashboardFull | DashboardUnknown

datatype ProviderPayoutAccountResponsibility =
    ResponsibilityApplication | ResponsibilityStripe | ResponsibilityUnknown


section \<open>Texts, timestamps and money\<close>

definition settlementRequiredText :: "string \<Rightarrow> string \<Rightarrow> string res" where
  "settlementRequiredText value message =
     (let normalized = js_trim value
      in ensure (length normalized > 0) (SettlementDomainError message) (Inr normalized))"

definition ensureIsoTimestamp :: "host \<Rightarrow> string \<Rightarrow> string \<Rightarrow> string res" where
  "ensureIsoTimestamp h value message =
     ensure (Date_parse h value \<noteq> None) (SettlementDomainError message) (Inr value)"

definition normalizeMoneyAmount :: "string \<Rightarrow> bool \<Rightarrow> string \<Rightarrow> string res" where
  "normalizeMoneyAmount value allowZero fieldName =
     (case tryMoneyToCents (js_trim value) of
        None \<Rightarrow> Inl (SettlementDomainError (fieldName @ '' must be a valid decimal.''))
      | Some cents \<Rightarrow>
          ensure (if allowZero then cents \<ge> 0 else cents > 0)
            (SettlementDomainError
               (fieldName @ '' must be '' @
                (if allowZero then ''zero or greater'' else ''greater than zero'') @ ''.''))
            (centsToMoneyAmount (JBig cents)))"

definition normalizeSignedMoneyAmount :: "string \<Rightarrow> string \<Rightarrow> string res" where
  "normalizeSignedMoneyAmount value fieldName =
     (case trySignedMoneyToCents (js_trim value) of
        None \<Rightarrow> Inl (SettlementDomainError (fieldName @ '' must be a valid signed decimal.''))
      | Some cents \<Rightarrow> centsToSignedMoneyAmount (JBig cents))"

definition addMoney :: "string \<Rightarrow> string \<Rightarrow> string res" where
  "addMoney left right = addSignedMoneyAmounts left right"

definition subtractMoney :: "string \<Rightarrow> string \<Rightarrow> string res" where
  "subtractMoney left right = subtractMoneyAmounts left right"

definition compareMoney :: "string \<Rightarrow> string \<Rightarrow> int res" where
  "compareMoney left right = compareMoneyAmounts left right"


section \<open>Normalisers of the enumerations\<close>

definition normalizeCurrencyCode :: "string \<Rightarrow> CurrencyCode res" where
  "normalizeCurrencyCode value =
     ensure (js_lower (js_trim value) = ''usd'')
       (SettlementDomainError ''Only USD settlement is supported.'') (Inr Usd)"

definition normalizeLedgerEntryDirection :: "string \<Rightarrow> LedgerEntryDirection res" where
  "normalizeLedgerEntryDirection value =
     (let v = js_trim value
      in if v = ''credit'' then Inr Credit
         else if v = ''debit'' then Inr Debit
         else Inl (SettlementDomainError ''Ledger entry direction is not supported.''))"

definition normalizeLedgerEntryFundsStatus :: "string \<Rightarrow> LedgerEntryFundsStatus res" where
  "normalizeLedgerEntryFundsStatus value =
     (let v = js_trim value
      in if v = ''pending'' then Inr FundsPending
         else if v = ''available'' then Inr FundsAvailable
         else Inl (SettlementDomainError ''Ledger entry funds status is not supported.''))"

lemma normalizeLedgerEntryDirection_text [simp]:
  "normalizeLedgerEntryDirection (directionText d) = Inr d"
  by (cases d) (simp_all add: normalizeLedgerEntryDirection_def js_trim_def js_space_def Let_def)

lemma normalizeLedgerEntryFundsStatus_text [simp]:
  "normalizeLedgerEntryFundsStatus (fundsStatusText f) = Inr f"
  by (cases f) (simp_all add: normalizeLedgerEntryFundsStatus_def js_trim_def js_space_def Let_def)

definition normalizeLedgerEntryKind :: "string \<Rightarrow> LedgerEntryKind res" where
  "normalizeLedgerEntryKind value =
     (let v = js_trim value
      in if v = ''sale'' then Inr KSale
         else if v = ''fee'' then Inr KFee
         else if v = ''authenticity-fee'' then Inr KAuthenticityFee
         else if v = ''rebate'' then Inr KRebate
         else if v = ''refund'' then Inr KRefund
         else if v = ''platform-purchase'' then Inr KPlatformPurchase
         else if v = ''payout'' then Inr KPayout
         else if v = ''payout-reversal'' then Inr KPayoutReversal
         else if v = ''adjustment'' then Inr KAdjustment
         else Inl (SettlementDomainError ''Ledger entry kind is not supported.''))"

definition normalizePayoutStatus :: "string \<Rightarrow> PayoutStatus res" where
  "normalizePayoutStatus value =
     (let v = js_trim value
      in if v = ''requested'' then Inr PayoutRequestedSt
         else if v = ''in-transit'' then Inr PayoutInTransitSt
         else if v = ''completed'' then Inr PayoutCompletedSt
         else if v = ''failed'' then Inr PayoutFailedSt
         else Inl (SettlementDomainError ''Payout status is not supported.''))"

definition normalizePayoutReadinessStatus :: "string \<Rightarrow> PayoutReadinessStatus res" where
  "normalizePayoutReadinessStatus value =
     (let v = js_trim value
      in if v = ''not-started'' then Inr ReadinessNotStarted
         else if v = ''pending'' then Inr ReadinessPending
         else if v = ''ready'' then Inr ReadinessReady
         else if v = ''restricted'' then Inr ReadinessRestricted
         else Inl (SettlementDomainError ''Payout readiness status is not supported.''))"

definition normalizeProviderSetupStatus :: "string \<Rightarrow> ProviderSetupStatus res" where
  "normalizeProviderSetupStatus value =
     (let v = js_trim value
      in if v = ''not-started'' then Inr SetupNotStarted
         else if v = ''pending'' then Inr SetupPending
         else if v = ''complete'' then Inr SetupComplete
         else Inl (SettlementDomainError ''Provider setup status is not supported.''))"

definition normalizeProviderCapabilityStatus :: "string \<Rightarrow> ProviderCapabilityStatus res" where
  "normalizeProviderCapabilityStatus value =
     (let v = js_trim value
      in if v = ''inactive'' then Inr CapabilityInactive
         else if v = ''pending'' then Inr CapabilityPending
         else if v = ''active'' then Inr CapabilityActive
         else Inl (SettlementDomainError ''Provider capability status is not supported.''))"

definition normalizeProviderPayoutDestinationStatus ::
    "string \<Rightarrow> ProviderPayoutDestinationStatus res" where
  "normalizeProviderPayoutDestinationStatus value =
     (let v = js_trim value
      in if v = ''missing'' then Inr DestinationMissing
         else if v = ''pending'' then Inr DestinationPending
         else if v = ''ready'' then Inr DestinationReady
         else Inl (SettlementDomainError ''Provider payout destination status is not supported.''))"

definition normalizeProviderPayoutAccountDashboard :: "string \<Rightarrow> ProviderPayoutAccountDashboard" where
  "normalizeProviderPayoutAccountDashboard value =
     (let v = js_trim value
      in if v = ''none'' then DashboardNone
         else if v = ''express'' then DashboardExpress
         else if v = ''full'' then DashboardFull
         else DashboardUnknown)"

definition normalizeProviderPayoutAccountResponsibility ::
    "string \<Rightarrow> ProviderPayoutAccountResponsibility" where
  "normalizeProviderPayoutAccountResponsibility value =
     (let v = js_trim value
      in if v = ''application'' then ResponsibilityApplication
         else if v = ''stripe'' then ResponsibilityStripe
         else ResponsibilityUnknown)"


section \<open>What the normalisers return\<close>

lemma normalizeMoneyAmount_Inr:
  "normalizeMoneyAmount v z f = Inr t \<Longrightarrow>
   \<exists>c. t = formatCents c \<and> in_range c \<and> 0 \<le> c \<and> (\<not> z \<longrightarrow> 0 < c) \<and>
       tryMoneyToCents (js_trim v) = Some c"
  by (auto simp: normalizeMoneyAmount_def money_simps split: option.splits if_splits
      dest: tryMoneyToCents_range)

lemma normalizeMoneyAmount_format [money_simps]:
  "0 \<le> c \<Longrightarrow> in_range c \<Longrightarrow> z \<or> 0 < c \<Longrightarrow>
   normalizeMoneyAmount (formatCents c) z f = Inr (formatCents c)"
  by (auto simp: normalizeMoneyAmount_def money_simps)

lemma ensureIsoTimestamp_Inr [res_simps]:
  "ensureIsoTimestamp h v m = Inr t \<longleftrightarrow> t = v \<and> (\<exists>n. Date_parse h v = Some n)"
  by (auto simp: ensureIsoTimestamp_def)

lemma normalizeCurrencyCode_Inr: "normalizeCurrencyCode v = Inr c \<Longrightarrow> c = Usd"
  by (cases c) simp

lemmas addMoney_values [money_simps] = addMoney_def subtractMoney_def compareMoney_def


section \<open>Arithmetic on canonical amounts\<close>

lemma addMoney_canonical:
  "canonical a \<Longrightarrow> canonical b \<Longrightarrow>
   addMoney a b = centsToSignedMoneyAmount (JBig (centsOf a + centsOf b))"
  by (auto elim!: canonicalE simp: money_simps)

lemma addMoney_minus_canonical:
  "canonical a \<Longrightarrow> canonical b \<Longrightarrow> 0 \<le> centsOf b \<Longrightarrow>
   addMoney a (CHR ''-'' # b) = centsToSignedMoneyAmount (JBig (centsOf a - centsOf b))"
  by (auto elim!: canonicalE simp: money_simps)

lemma subtractMoney_canonical:
  "canonical a \<Longrightarrow> canonical b \<Longrightarrow>
   subtractMoney a b = centsToSignedMoneyAmount (JBig (centsOf a - centsOf b))"
  by (auto elim!: canonicalE simp: money_simps)

lemma compareMoney_canonical:
  "canonical a \<Longrightarrow> canonical b \<Longrightarrow>
   compareMoney a b = Inr (if centsOf a < centsOf b then - 1 else if centsOf b < centsOf a then 1 else 0)"
  by (auto elim!: canonicalE simp: money_simps)

lemma compareMoney_minus_canonical:
  "canonical a \<Longrightarrow> canonical b \<Longrightarrow> 0 \<le> centsOf b \<Longrightarrow>
   compareMoney a (CHR ''-'' # b) =
     Inr (if centsOf a < - centsOf b then - 1 else if - centsOf b < centsOf a then 1 else 0)"
  by (auto elim!: canonicalE simp: money_simps)

lemma centsToSigned_Inr:
  "centsToSignedMoneyAmount (JBig c) = Inr t \<longleftrightarrow> in_range c \<and> t = formatCents c"
  by (auto simp: money_simps)

lemma normalizeMoneyAmount_canonical:
  "normalizeMoneyAmount v z f = Inr t \<Longrightarrow> canonical t \<and> 0 \<le> centsOf t \<and> (\<not> z \<longrightarrow> 0 < centsOf t)"
  by (auto dest!: normalizeMoneyAmount_Inr)

lemma normalizeMoneyAmount_signed:
  "normalizeMoneyAmount v z f = Inr t \<Longrightarrow> signedMoneyToCents v = Inr (centsOf t)"
  by (auto dest!: normalizeMoneyAmount_Inr tryMoneyToCents_signed)

lemma compareMoney_amount:
  "canonical a \<Longrightarrow> normalizeMoneyAmount v z f = Inr t \<Longrightarrow> compareMoney a v = compareMoney a t"
  by (auto simp: compareMoney_def compareMoneyAmounts_def normalizeMoneyAmount_signed
      dest!: normalizeMoneyAmount_canonical elim!: canonicalE simp: money_simps)

lemmas canon_simps = addMoney_canonical addMoney_minus_canonical subtractMoney_canonical
  compareMoney_canonical compareMoney_minus_canonical centsToSigned_Inr

end
