(* ===== verification/Wallet.thy ===== *)
theory Wallet
  imports SettlementCommon
begin

text \<open>
  The settlement wallet: \<open>bounded-contexts/settlement/features/wallets/domain/domain.ts\<close> and
  the staging proof credit of \<open>staging-proof-credit.ts\<close>. State, commands, events, the decider
  (one definition per command and the dispatch) and the evolver. Money stays text, as in the
  source; both the decider and the evolver may throw.
\<close>

section \<open>State\<close>

record WalletLedgerEntry =
  le_ledgerEntryId :: string
  le_kind :: LedgerEntryKind
  le_direction :: LedgerEntryDirection
  le_amount :: string
  le_currencyCode :: CurrencyCode
  le_fundsStatus :: LedgerEntryFundsStatus
  le_orderId :: "string option"
  le_paymentId :: "string option"
  le_payoutId :: "string option"
  le_description :: "string option"
  le_postedAt :: string
  le_availableAt :: "string option"

datatype WalletNegativeBalanceStatus = InGoodStanding | NegativeBalance | Collections

datatype WalletSpendHoldReleaseReason =
    PaymentCaptured | PaymentFailed | PaymentCancelled | HoldExpiredReason

datatype WalletSpendHoldStatus = HoldActive | HoldReleased

record WalletSpendHold =
  sh_holdId :: string
  sh_paymentId :: "string option"
  sh_amount :: string
  sh_currencyCode :: CurrencyCode
  sh_status :: WalletSpendHoldStatus
  sh_placedAt :: string
  sh_expiresAt :: "string option"
  sh_releasedAt :: "string option"
  sh_releaseReason :: "WalletSpendHoldReleaseReason option"

text \<open>The receipt's literal types (\<open>environment\<close>, \<open>proof\<close>, ...) are kept as the text and
  truth values that \<open>validateProofReceipt\<close> compares.\<close>

record StagingProofReceipt =
  pr_actorUserId :: string
  pr_accountId :: string
  pr_environment :: string
  pr_proof :: string
  pr_amount :: string
  pr_currencyCode :: string
  pr_cap :: string
  pr_policyDocumentId :: string
  pr_policyVersion :: jsnum
  pr_recentlyAuthenticated :: bool
  pr_authenticatedAt :: string
  pr_recentAuthMaxAgeMinutes :: jsnum
  pr_reason :: string
  pr_ruling :: string
  pr_postedAt :: string
  pr_ledgerEntryId :: string

record WalletState =
  w_stagingProofCredits :: "StagingProofReceipt list"
  w_accountId :: "string option"
  w_currencyCode :: "CurrencyCode option"
  w_pendingBalanceAmount :: string
  w_availableBalanceAmount :: string
  w_heldBalanceAmount :: string
  w_totalCreditedAmount :: string
  w_totalDebitedAmount :: string
  w_negativeBalanceStatus :: WalletNegativeBalanceStatus
  w_negativeBalanceStartedAt :: "string option"
  w_collectionsEscalatedAt :: "string option"
  w_entries :: "WalletLedgerEntry list"
  w_spendHolds :: "WalletSpendHold list"
  w_openedAt :: "string option"
  w_updatedAt :: "string option"

definition initialWalletState :: WalletState where
  "initialWalletState =
     \<lparr>w_stagingProofCredits = [],
      w_accountId = None,
      w_currencyCode = None,
      w_pendingBalanceAmount = ''0.00'',
      w_availableBalanceAmount = ''0.00'',
      w_heldBalanceAmount = ''0.00'',
      w_totalCreditedAmount = ''0.00'',
      w_totalDebitedAmount = ''0.00'',
      w_negativeBalanceStatus = InGoodStanding,
      w_negativeBalanceStartedAt = None,
      w_collectionsEscalatedAt = None,
      w_entries = [],
      w_spendHolds = [],
      w_openedAt = None,
      w_updatedAt = None\<rparr>"

definition walletSpendableBalanceAmount :: "WalletState \<Rightarrow> string res" where
  "walletSpendableBalanceAmount state =
     bindE (subtractMoney (w_availableBalanceAmount state) (w_heldBalanceAmount state)) (\<lambda>spendable.
     bindE (compareMoney spendable ''0.00'') (\<lambda>c.
       Inr (if c > 0 then spendable else ''0.00'')))"

definition minMoney :: "string \<Rightarrow> string \<Rightarrow> string res" where
  "minMoney left right =
     bindE (compareMoney left right) (\<lambda>c. Inr (if c \<le> 0 then left else right))"


section \<open>Commands\<close>

record OpenWalletCommand =
  ow_accountId :: string
  ow_currencyCode :: string
  ow_openedAt :: string

record PostLedgerEntryCommand =
  pl_ledgerEntryId :: string
  pl_kind :: string
  pl_direction :: LedgerEntryDirection
  pl_amount :: string
  pl_currencyCode :: string
  pl_fundsStatus :: LedgerEntryFundsStatus
  pl_orderId :: "string option"
  pl_paymentId :: "string option"
  pl_payoutId :: "string option"
  pl_description :: "string option"
  pl_postedAt :: string
  pl_allowNegativeBalance :: bool

record MarkLedgerEntryAvailableCommand =
  ma_ledgerEntryId :: string
  ma_availableAt :: string

record CreditSellerCaptureCommand =
  cs_kind :: string
  cs_amount :: string
  cs_currencyCode :: string
  cs_orderId :: string
  cs_paymentId :: string
  cs_postedAt :: string

record EvaluateNegativeBalanceCollectionsCommand =
  ev_collectionsThresholdAmount :: string
  ev_collectionsGracePeriodDays :: jsnum
  ev_evaluatedAt :: string

record PlaceSpendHoldCommand =
  ph_holdId :: string
  ph_paymentId :: "string option"
  ph_amount :: string
  ph_currencyCode :: string
  ph_placedAt :: string
  ph_expiresAt :: "string option"

record ReleaseSpendHoldCommand =
  rh_holdId :: string
  rh_reason :: WalletSpendHoldReleaseReason
  rh_releasedAt :: string

datatype WalletCommand =
    PostStagingProofCredit StagingProofReceipt
  | OpenWallet OpenWalletCommand
  | PostLedgerEntry PostLedgerEntryCommand
  | CreditSellerCapture CreditSellerCaptureCommand
  | MarkLedgerEntryAvailable MarkLedgerEntryAvailableCommand
  | EvaluateNegativeBalanceCollections EvaluateNegativeBalanceCollectionsCommand
  | PlaceSpendHold PlaceSpendHoldCommand
  | ReleaseSpendHold ReleaseSpendHoldCommand


section \<open>Events\<close>

record LedgerEntryPosted =
  lp_accountId :: string
  lp_ledgerEntryId :: string
  lp_kind :: LedgerEntryKind
  lp_direction :: LedgerEntryDirection
  lp_amount :: string
  lp_currencyCode :: CurrencyCode
  lp_fundsStatus :: LedgerEntryFundsStatus
  lp_orderId :: "string option"
  lp_paymentId :: "string option"
  lp_payoutId :: "string option"
  lp_description :: "string option"
  lp_postedAt :: string

record NegativeBalanceCollectionsOpened =
  co_accountId :: string
  co_balanceAmount :: string
  co_negativeSince :: string
  co_thresholdAmount :: string
  co_gracePeriodDays :: int
  co_openedAt :: string

record SpendHoldPlaced =
  hp_accountId :: string
  hp_holdId :: string
  hp_paymentId :: "string option"
  hp_amount :: string
  hp_currencyCode :: CurrencyCode
  hp_placedAt :: string
  hp_expiresAt :: "string option"

record SpendHoldReleased =
  hr_accountId :: string
  hr_holdId :: string
  hr_paymentId :: "string option"
  hr_amount :: string
  hr_reason :: WalletSpendHoldReleaseReason
  hr_releasedAt :: string

text \<open>
  The smaller payloads are arguments, in the source's order: \<open>WalletOpened accountId
  currencyCode openedAt\<close>, \<open>LedgerEntryAvailableRecorded accountId ledgerEntryId amount
  availableAt\<close>, \<open>NegativeBalanceEntered accountId balanceAmount enteredAt\<close> and
  \<open>NegativeBalanceRecovered accountId balanceAmount recoveredAt\<close>.
\<close>

datatype WalletEvent =
    StagingProofCreditPosted StagingProofReceipt
  | WalletOpened string CurrencyCode string
  | WalletLedgerEntryPosted LedgerEntryPosted
  | LedgerEntryAvailableRecorded string string string string
  | NegativeBalanceEntered string string string
  | NegativeBalanceCollectionsOpenedEv NegativeBalanceCollectionsOpened
  | NegativeBalanceRecovered string string string
  | WalletSpendHoldPlaced SpendHoldPlaced
  | WalletSpendHoldReleased SpendHoldReleased

end
