(* ===== verification/WalletOps.thy ===== *)
theory WalletOps
  imports Wallet
begin

text \<open>
  The evolver and the decider of the settlement wallet, and the staging proof credit they
  call. \<open>decideWallet\<close> is one definition per command; the commands that post through the
  decider itself (\<open>CreditSellerCapture\<close>, \<open>PostStagingProofCredit\<close>) call the definitions of
  the commands they issue.
\<close>

section \<open>Proof receipts\<close>

definition STAGING_PROOF :: string where
  "STAGING_PROOF = ''7806-ac6''"

definition STAGING_PROOF_DOCUMENT :: string where
  "STAGING_PROOF_DOCUMENT = ''settlement-staging-proof-credit-7806-ac6''"

definition STAGING_PROOF_RULING :: string where
  "STAGING_PROOF_RULING =
     ''https://github.com/chase-sets/chase-sets/issues/7806#issuecomment-6041721954''"

definition STAGING_PROOF_CAP :: string where
  "STAGING_PROOF_CAP = ''25.00''"

definition STAGING_PROOF_REASON :: string where
  "STAGING_PROOF_REASON = ''staging-operator-proof''"

definition requireProof :: "bool \<Rightarrow> string \<Rightarrow> unit res" where
  "requireProof condition code = ensure condition (StagingProofCreditError code) (Inr ())"

text \<open>\<open>/^(?:0|[1-9]\d?)\.\d{2}$/\<close>, and the number the digits make.\<close>

definition proof_amount_pattern :: "string \<Rightarrow> bool" where
  "proof_amount_pattern value =
     (let w = takeWhile is_digit value; r = dropWhile is_digit value
      in (w = ''0'' \<or> (length w = 1 \<or> length w = 2) \<and> hd w \<noteq> CHR ''0'') \<and>
         r \<noteq> [] \<and> hd r = CHR ''.'' \<and> length (tl r) = 2 \<and> list_all is_digit (tl r))"

definition proofCreditAmount :: "string \<Rightarrow> string res" where
  "proofCreditAmount value =
     bindE (requireProof (proof_amount_pattern value) ''proof_amount_invalid'') (\<lambda>_.
       let cents = digits_val (filter (\<lambda>c. c \<noteq> CHR ''.'') value)
       in bindE (requireProof (1 \<le> cents \<and> cents \<le> 2500) ''proof_amount_invalid'')
            (\<lambda>_. Inr value))"

text \<open>\<open>parseTypedId\<close> of \<open>contracts/primitives/typed-ids.ts\<close>.\<close>

definition parseTypedId :: "string \<Rightarrow> string \<Rightarrow> string res" where
  "parseTypedId value prefix =
     ensure (js_startsWith value (prefix @ ''_''))
       (Error (''Expected '' @ [CHR 0x27] @ prefix @ ''_'' @ [CHR 0x27] @ '' id prefix.'')) (Inr value)"

definition proofLedgerId :: "host \<Rightarrow> string \<Rightarrow> string res" where
  "proofLedgerId h accountId =
     parseTypedId (''led_'' @ take 26 (host_sha256Hex h (STAGING_PROOF @ '':'' @ accountId))) ''led''"

definition safe_positive :: "jsnum \<Rightarrow> bool" where
  "safe_positive x \<longleftrightarrow> isSafeInteger x \<and> num_less (numi 0) x"

definition same_iso :: "int option \<Rightarrow> string \<Rightarrow> bool res" where
  "same_iso tv text =
     (case tv of
        None \<Rightarrow> Inr False
      | Some t \<Rightarrow> bindE (toISOString (time_clip t)) (\<lambda>s. Inr (s = text)))"

definition validateProofReceipt :: "host \<Rightarrow> StagingProofReceipt \<Rightarrow> unit res" where
  "validateProofReceipt h receipt =
     bindE (parseTypedId (pr_actorUserId receipt) ''usr'') (\<lambda>_.
     bindE (parseTypedId (pr_accountId receipt) ''acc'') (\<lambda>_.
     bindE (proofCreditAmount (pr_amount receipt)) (\<lambda>_.
     bindE (andE
              (pr_environment receipt = ''staging'' \<and> pr_proof receipt = STAGING_PROOF \<and>
               pr_currencyCode receipt = ''usd'' \<and> pr_cap receipt = STAGING_PROOF_CAP \<and>
               pr_reason receipt = STAGING_PROOF_REASON \<and> pr_ruling receipt = STAGING_PROOF_RULING \<and>
               pr_policyDocumentId receipt = STAGING_PROOF_DOCUMENT \<and>
               safe_positive (pr_policyVersion receipt) \<and> pr_recentlyAuthenticated receipt)
              (bindE (proofLedgerId h (pr_accountId receipt)) (\<lambda>i. Inr (pr_ledgerEntryId receipt = i))))
       (\<lambda>facts.
     bindE (requireProof facts ''proof_history_invalid'') (\<lambda>_.
       let posted = Date_parse h (pr_postedAt receipt);
           authenticated = Date_parse h (pr_authenticatedAt receipt)
       in bindE (same_iso posted (pr_postedAt receipt)) (\<lambda>samePosted.
          bindE (andE samePosted (same_iso authenticated (pr_authenticatedAt receipt))) (\<lambda>sameTimes.
            requireProof
              (sameTimes \<and> safe_positive (pr_recentAuthMaxAgeMinutes receipt) \<and>
               (case (posted, authenticated) of
                  (Some p, Some a) \<Rightarrow>
                    a \<le> p \<and> p - a \<le> js_mul (num_to_int (pr_recentAuthMaxAgeMinutes receipt)) 60000
                | _ \<Rightarrow> False))
              ''proof_history_invalid'')))))))"

definition readProofReceipt :: "host \<Rightarrow> WalletState \<Rightarrow> string \<Rightarrow> StagingProofReceipt option res" where
  "readProofReceipt h state accountId =
     bindE (if w_entries state = [] then Inr [] else
              bindE (proofLedgerId h accountId) (\<lambda>i.
                Inr (filter (\<lambda>entry. le_ledgerEntryId entry = i) (w_entries state)))) (\<lambda>entries.
       let audits = w_stagingProofCredits state
       in if entries = [] \<and> audits = [] then Inr None
          else
            bindE (requireProof (length entries = 1 \<and> length audits = 1) ''proof_history_invalid'') (\<lambda>_.
            let receipt = hd audits; entry = hd entries
            in bindE (validateProofReceipt h receipt) (\<lambda>_.
               bindE (requireProof
                        (w_accountId state = Some accountId \<and> w_currencyCode state = Some Usd \<and>
                         pr_accountId receipt = accountId \<and> le_amount entry = pr_amount receipt \<and>
                         le_currencyCode entry = Usd \<and> le_kind entry = KAdjustment \<and>
                         le_direction entry = Credit \<and> le_fundsStatus entry = FundsAvailable \<and>
                         le_postedAt entry = pr_postedAt receipt \<and> le_orderId entry = None \<and>
                         le_paymentId entry = None \<and> le_payoutId entry = None \<and>
                         le_description entry = Some STAGING_PROOF_REASON)
                        ''proof_history_invalid'') (\<lambda>_.
                 Inr (Some receipt)))))"

definition decideStagingProofCredit ::
    "host \<Rightarrow> WalletState \<Rightarrow> StagingProofReceipt \<Rightarrow>
     (WalletState \<Rightarrow> WalletCommand \<Rightarrow> WalletEvent list res) \<Rightarrow>
     (WalletState \<Rightarrow> WalletEvent \<Rightarrow> WalletState res) \<Rightarrow> WalletEvent list res" where
  "decideStagingProofCredit h state receipt decide evolve =
     bindE (validateProofReceipt h receipt) (\<lambda>_.
     bindE (requireProof
              (w_accountId state = None \<or> w_accountId state = Some (pr_accountId receipt))
              ''proof_account_mismatch'') (\<lambda>_.
     bindE (requireProof (w_currencyCode state = None \<or> w_currencyCode state = Some Usd)
              ''proof_currency_mismatch'') (\<lambda>_.
     bindE (readProofReceipt h state (pr_accountId receipt)) (\<lambda>prior.
       case prior of
         Some p \<Rightarrow>
           bindE (requireProof (pr_amount p = pr_amount receipt) ''proof_amount_conflict'') (\<lambda>_. Inr [])
       | None \<Rightarrow>
           bindE (decide state
                    (OpenWallet \<lparr>ow_accountId = pr_accountId receipt, ow_currencyCode = ''usd'',
                                 ow_openedAt = pr_postedAt receipt\<rparr>)) (\<lambda>opening.
           bindE (foldE evolve state opening) (\<lambda>opened.
           bindE (decide opened
                    (PostLedgerEntry
                       \<lparr>pl_ledgerEntryId = pr_ledgerEntryId receipt, pl_kind = ''adjustment'',
                        pl_direction = Credit, pl_amount = pr_amount receipt,
                        pl_currencyCode = ''usd'', pl_fundsStatus = FundsAvailable,
                        pl_orderId = None, pl_paymentId = None, pl_payoutId = None,
                        pl_description = Some STAGING_PROOF_REASON,
                        pl_postedAt = pr_postedAt receipt, pl_allowNegativeBalance = False\<rparr>)) (\<lambda>credit.
             Inr (opening @ credit @ [StagingProofCreditPosted receipt]))))))))"



section \<open>The evolver\<close>

definition signedText :: "LedgerEntryDirection \<Rightarrow> string \<Rightarrow> string" where
  "signedText direction amount = (if direction = Credit then amount else CHR ''-'' # amount)"

definition evolveWalletOpened :: "WalletState \<Rightarrow> string \<Rightarrow> CurrencyCode \<Rightarrow> string \<Rightarrow> WalletState" where
  "evolveWalletOpened state accountId currencyCode openedAt =
     \<lparr>w_stagingProofCredits = w_stagingProofCredits state,
      w_accountId = Some accountId,
      w_currencyCode = Some currencyCode,
      w_pendingBalanceAmount = ''0.00'',
      w_availableBalanceAmount = ''0.00'',
      w_heldBalanceAmount = ''0.00'',
      w_totalCreditedAmount = ''0.00'',
      w_totalDebitedAmount = ''0.00'',
      w_negativeBalanceStatus = InGoodStanding,
      w_negativeBalanceStartedAt = None,
      w_collectionsEscalatedAt = None,
      w_entries = [],
      w_spendHolds = [],
      w_openedAt = Some openedAt,
      w_updatedAt = Some openedAt\<rparr>"

definition postedEntry :: "LedgerEntryPosted \<Rightarrow> WalletLedgerEntry" where
  "postedEntry d =
     \<lparr>le_ledgerEntryId = lp_ledgerEntryId d, le_kind = lp_kind d, le_direction = lp_direction d,
      le_amount = lp_amount d, le_currencyCode = lp_currencyCode d,
      le_fundsStatus = lp_fundsStatus d, le_orderId = lp_orderId d, le_paymentId = lp_paymentId d,
      le_payoutId = lp_payoutId d, le_description = lp_description d, le_postedAt = lp_postedAt d,
      le_availableAt = None\<rparr>"

definition evolveLedgerEntryPosted :: "WalletState \<Rightarrow> LedgerEntryPosted \<Rightarrow> WalletState res" where
  "evolveLedgerEntryPosted state d =
     (let signedAmount = signedText (lp_direction d) (lp_amount d)
      in bindE (if lp_fundsStatus d = FundsPending
                then addMoney (w_pendingBalanceAmount state) signedAmount
                else Inr (w_pendingBalanceAmount state)) (\<lambda>pendingBalanceAmount.
         bindE (if lp_fundsStatus d = FundsAvailable
                then addMoney (w_availableBalanceAmount state) signedAmount
                else Inr (w_availableBalanceAmount state)) (\<lambda>availableBalanceAmount.
         bindE (if lp_direction d = Credit
                then addMoney (w_totalCreditedAmount state) (lp_amount d)
                else Inr (w_totalCreditedAmount state)) (\<lambda>totalCreditedAmount.
         bindE (if lp_direction d = Debit
                then addMoney (w_totalDebitedAmount state) (lp_amount d)
                else Inr (w_totalDebitedAmount state)) (\<lambda>totalDebitedAmount.
           Inr (state\<lparr>w_pendingBalanceAmount := pendingBalanceAmount,
                      w_availableBalanceAmount := availableBalanceAmount,
                      w_totalCreditedAmount := totalCreditedAmount,
                      w_totalDebitedAmount := totalDebitedAmount,
                      w_entries := w_entries state @ [postedEntry d],
                      w_updatedAt := Some (lp_postedAt d)\<rparr>))))))"

definition evolveLedgerEntryAvailable ::
    "WalletState \<Rightarrow> string \<Rightarrow> string \<Rightarrow> string \<Rightarrow> WalletState res" where
  "evolveLedgerEntryAvailable state ledgerEntryId amount availableAt =
     bindE (addMoney (w_pendingBalanceAmount state) (CHR ''-'' # amount)) (\<lambda>pendingBalanceAmount.
     bindE (addMoney (w_availableBalanceAmount state) amount) (\<lambda>availableBalanceAmount.
       Inr (state\<lparr>w_pendingBalanceAmount := pendingBalanceAmount,
                  w_availableBalanceAmount := availableBalanceAmount,
                  w_entries :=
                    map (\<lambda>entry.
                      if le_ledgerEntryId entry = ledgerEntryId
                      then entry\<lparr>le_fundsStatus := FundsAvailable, le_availableAt := Some availableAt\<rparr>
                      else entry) (w_entries state),
                  w_updatedAt := Some availableAt\<rparr>)))"

definition placedHold :: "SpendHoldPlaced \<Rightarrow> WalletSpendHold" where
  "placedHold d =
     \<lparr>sh_holdId = hp_holdId d, sh_paymentId = hp_paymentId d, sh_amount = hp_amount d,
      sh_currencyCode = hp_currencyCode d, sh_status = HoldActive, sh_placedAt = hp_placedAt d,
      sh_expiresAt = hp_expiresAt d, sh_releasedAt = None, sh_releaseReason = None\<rparr>"

definition evolveSpendHoldPlaced :: "WalletState \<Rightarrow> SpendHoldPlaced \<Rightarrow> WalletState res" where
  "evolveSpendHoldPlaced state d =
     bindE (addMoney (w_heldBalanceAmount state) (hp_amount d)) (\<lambda>heldBalanceAmount.
       Inr (state\<lparr>w_heldBalanceAmount := heldBalanceAmount,
                  w_spendHolds := w_spendHolds state @ [placedHold d],
                  w_updatedAt := Some (hp_placedAt d)\<rparr>))"

definition evolveSpendHoldReleased :: "WalletState \<Rightarrow> SpendHoldReleased \<Rightarrow> WalletState res" where
  "evolveSpendHoldReleased state d =
     bindE (subtractMoney (w_heldBalanceAmount state) (hr_amount d)) (\<lambda>heldBalanceAmount.
       Inr (state\<lparr>w_heldBalanceAmount := heldBalanceAmount,
                  w_spendHolds :=
                    map (\<lambda>hold.
                      if sh_holdId hold = hr_holdId d
                      then hold\<lparr>sh_status := HoldReleased, sh_releasedAt := Some (hr_releasedAt d),
                                sh_releaseReason := Some (hr_reason d)\<rparr>
                      else hold) (w_spendHolds state),
                  w_updatedAt := Some (hr_releasedAt d)\<rparr>))"

fun evolveWallet :: "host \<Rightarrow> WalletState \<Rightarrow> WalletEvent \<Rightarrow> WalletState res" where
  "evolveWallet h state (StagingProofCreditPosted receipt) =
     bindE (validateProofReceipt h receipt) (\<lambda>_.
       Inr (state\<lparr>w_stagingProofCredits := w_stagingProofCredits state @ [receipt]\<rparr>))"
| "evolveWallet h state (WalletOpened accountId currencyCode openedAt) =
     Inr (evolveWalletOpened state accountId currencyCode openedAt)"
| "evolveWallet h state (WalletLedgerEntryPosted d) = evolveLedgerEntryPosted state d"
| "evolveWallet h state (LedgerEntryAvailableRecorded accountId ledgerEntryId amount availableAt) =
     evolveLedgerEntryAvailable state ledgerEntryId amount availableAt"
| "evolveWallet h state (NegativeBalanceEntered accountId balanceAmount enteredAt) =
     Inr (state\<lparr>w_negativeBalanceStatus := NegativeBalance,
                w_negativeBalanceStartedAt := Some enteredAt,
                w_collectionsEscalatedAt := None,
                w_updatedAt := Some enteredAt\<rparr>)"
| "evolveWallet h state (NegativeBalanceCollectionsOpenedEv d) =
     Inr (state\<lparr>w_negativeBalanceStatus := Collections,
                w_negativeBalanceStartedAt := Some (co_negativeSince d),
                w_collectionsEscalatedAt := Some (co_openedAt d),
                w_updatedAt := Some (co_openedAt d)\<rparr>)"
| "evolveWallet h state (NegativeBalanceRecovered accountId balanceAmount recoveredAt) =
     Inr (state\<lparr>w_negativeBalanceStatus := InGoodStanding,
                w_negativeBalanceStartedAt := None,
                w_collectionsEscalatedAt := None,
                w_updatedAt := Some recoveredAt\<rparr>)"
| "evolveWallet h state (WalletSpendHoldPlaced d) = evolveSpendHoldPlaced state d"
| "evolveWallet h state (WalletSpendHoldReleased d) = evolveSpendHoldReleased state d"

end
