(* ===== verification/WalletDecide.thy ===== *)
theory WalletDecide
  imports WalletOps
begin

text \<open>
  The decider of the settlement wallet, \<open>decideWallet\<close> of
  \<open>bounded-contexts/settlement/features/wallets/domain/domain.ts\<close>: one definition per command,
  with the guards and early returns of its \<open>case\<close> in the source's order, and the dispatch.
\<close>

definition hasLedgerEntry :: "WalletLedgerEntry list \<Rightarrow> string \<Rightarrow> bool" where
  "hasLedgerEntry entries ledgerEntryId \<longleftrightarrow>
     list_ex (\<lambda>entry. le_ledgerEntryId entry = ledgerEntryId) entries"

definition negativeBalanceTransitionEvents ::
    "WalletState \<Rightarrow> string \<Rightarrow> string \<Rightarrow> WalletEvent list res" where
  "negativeBalanceTransitionEvents state nextAvailableBalanceAmount occurredAt =
     (case w_accountId state of
        None \<Rightarrow> Inr []
      | Some accountId \<Rightarrow>
          let wasNegative = (w_negativeBalanceStatus state \<noteq> InGoodStanding)
          in bindE (compareMoney nextAvailableBalanceAmount ''0.00'') (\<lambda>c.
               let isNegative = (c < 0)
               in if \<not> wasNegative \<and> isNegative
                  then Inr [NegativeBalanceEntered accountId nextAvailableBalanceAmount occurredAt]
                  else if wasNegative \<and> \<not> isNegative
                  then Inr [NegativeBalanceRecovered accountId nextAvailableBalanceAmount occurredAt]
                  else Inr []))"

definition decideOpenWallet :: "host \<Rightarrow> WalletState \<Rightarrow> OpenWalletCommand \<Rightarrow> WalletEvent list res" where
  "decideOpenWallet h state command =
     (if w_accountId state \<noteq> None then Inr []
      else
        bindE (normalizeCurrencyCode (ow_currencyCode command)) (\<lambda>currencyCode.
        bindE (ensureIsoTimestamp h (ow_openedAt command) ''Wallet opening must record a timestamp.'')
          (\<lambda>openedAt. Inr [WalletOpened (ow_accountId command) currencyCode openedAt])))"

definition decidePostLedgerEntry ::
    "host \<Rightarrow> WalletState \<Rightarrow> PostLedgerEntryCommand \<Rightarrow> WalletEvent list res" where
  "decidePostLedgerEntry h state command =
     (case w_accountId state of
        None \<Rightarrow> Inl (SettlementDomainError ''Wallet must be opened first.'')
      | Some accountId \<Rightarrow>
     ensure (\<not> hasLedgerEntry (w_entries state) (pl_ledgerEntryId command))
       (SettlementDomainError ''Ledger entry has already been posted.'') (
     bindE (normalizeCurrencyCode (pl_currencyCode command)) (\<lambda>cur.
     ensure (w_currencyCode state = Some cur)
       (SettlementDomainError ''Ledger entries must use the wallet currency.'') (
     bindE (if pl_direction command \<noteq> Debit \<or> pl_fundsStatus command \<noteq> FundsAvailable \<or>
               pl_allowNegativeBalance command
            then Inr True
            else bindE (compareMoney (w_availableBalanceAmount state) (pl_amount command))
                   (\<lambda>c. Inr (c \<ge> 0))) (\<lambda>covered.
     ensure covered
       (SettlementDomainError ''Available balance is too low for this ledger entry.'') (
     bindE (normalizeMoneyAmount (pl_amount command) False ''Ledger entry amount'') (\<lambda>ledgerAmount.
     let signedAmount = (if pl_direction command = Credit then ledgerAmount
                         else CHR ''-'' # ledgerAmount)
     in bindE (if pl_fundsStatus command = FundsAvailable
               then addMoney (w_availableBalanceAmount state) signedAmount
               else Inr (w_availableBalanceAmount state)) (\<lambda>nextAvailableBalanceAmount.
     bindE (normalizeLedgerEntryKind (pl_kind command)) (\<lambda>kind.
     bindE (normalizeLedgerEntryDirection (directionText (pl_direction command))) (\<lambda>direction.
     bindE (normalizeCurrencyCode (pl_currencyCode command)) (\<lambda>currencyCode.
     bindE (normalizeLedgerEntryFundsStatus (fundsStatusText (pl_fundsStatus command))) (\<lambda>fundsStatus.
     bindE (ensureIsoTimestamp h (pl_postedAt command)
              ''Ledger entry posting must record a timestamp.'') (\<lambda>postedAt.
     bindE (negativeBalanceTransitionEvents state nextAvailableBalanceAmount postedAt) (\<lambda>transition.
       Inr (WalletLedgerEntryPosted
              \<lparr>lp_accountId = accountId, lp_ledgerEntryId = pl_ledgerEntryId command,
               lp_kind = kind, lp_direction = direction, lp_amount = ledgerAmount,
               lp_currencyCode = currencyCode, lp_fundsStatus = fundsStatus,
               lp_orderId = pl_orderId command, lp_paymentId = pl_paymentId command,
               lp_payoutId = pl_payoutId command,
               lp_description = normalizeOptionalText (pl_description command),
               lp_postedAt = postedAt\<rparr> # transition)))))))))))))))"

definition decideMarkLedgerEntryAvailable ::
    "host \<Rightarrow> WalletState \<Rightarrow> MarkLedgerEntryAvailableCommand \<Rightarrow> WalletEvent list res" where
  "decideMarkLedgerEntryAvailable h state command =
     (case w_accountId state of
        None \<Rightarrow> Inl (SettlementDomainError ''Wallet must be opened first.'')
      | Some accountId \<Rightarrow>
     (case find (\<lambda>candidate. le_ledgerEntryId candidate = ma_ledgerEntryId command) (w_entries state) of
        None \<Rightarrow> Inl (SettlementDomainError ''Ledger entry was not found.'')
      | Some entry \<Rightarrow>
     if le_fundsStatus entry = FundsAvailable then Inr []
     else
     ensure (le_direction entry = Credit)
       (SettlementDomainError ''Only pending credit entries can become available.'') (
     bindE (ensureIsoTimestamp h (ma_availableAt command)
              ''Ledger entry availability must record a timestamp.'') (\<lambda>availableAt.
     bindE (addMoney (w_availableBalanceAmount state) (le_amount entry)) (\<lambda>nextAvailableBalanceAmount.
     bindE (negativeBalanceTransitionEvents state nextAvailableBalanceAmount availableAt) (\<lambda>transition.
       Inr (LedgerEntryAvailableRecorded accountId (le_ledgerEntryId entry) (le_amount entry) availableAt
            # transition)))))))"



section \<open>Seller capture credits\<close>

definition captureBaseId :: "CreditSellerCaptureCommand \<Rightarrow> string" where
  "captureBaseId command =
     (if cs_kind command = ''sale'' then ''led_sale'' else ''led_shipping_allowance'') @ ''_'' @
     cs_paymentId command @ ''_'' @ cs_orderId command"

definition captureKind :: "CreditSellerCaptureCommand \<Rightarrow> LedgerEntryKind" where
  "captureKind command = (if cs_kind command = ''sale'' then KSale else KRebate)"

text \<open>\<open>matchesFacts\<close>, \<open>completeSingle\<close> and \<open>completeSplit\<close> over the entries already posted for
  this capture.\<close>

definition captureMatchesFacts ::
    "CreditSellerCaptureCommand \<Rightarrow> CurrencyCode \<Rightarrow> WalletLedgerEntry list \<Rightarrow> bool res" where
  "captureMatchesFacts command currencyCode entries =
     everyE (\<lambda>entry.
       andE (le_kind entry = captureKind command \<and> le_direction entry = Credit \<and>
             le_currencyCode entry = currencyCode \<and> le_orderId entry = Some (cs_orderId command) \<and>
             le_paymentId entry = Some (cs_paymentId command) \<and> le_payoutId entry = None)
         (bindE (compareMoney (le_amount entry) ''0.00'') (\<lambda>c. Inr (c > 0)))) entries"

definition captureCompleteSingle ::
    "WalletLedgerEntry list \<Rightarrow> WalletLedgerEntry option \<Rightarrow> string \<Rightarrow> bool res" where
  "captureCompleteSingle entries base amount =
     (case base of
        None \<Rightarrow> Inr False
      | Some b \<Rightarrow> andE (length entries = 1)
                    (bindE (compareMoney (le_amount b) amount) (\<lambda>c. Inr (c = 0))))"

definition captureCompleteSplit ::
    "WalletLedgerEntry list \<Rightarrow> WalletLedgerEntry option \<Rightarrow> WalletLedgerEntry option \<Rightarrow> string \<Rightarrow>
     bool res" where
  "captureCompleteSplit entries base pending amount =
     (case (base, pending) of
        (Some b, Some p) \<Rightarrow>
          andE (length entries = 2 \<and> le_fundsStatus b = FundsAvailable \<and> le_availableAt b = None \<and>
                (le_fundsStatus p = FundsPending \<or> le_availableAt p \<noteq> None))
            (bindE (addMoney (le_amount b) (le_amount p)) (\<lambda>sum.
             bindE (compareMoney sum amount) (\<lambda>c. Inr (c = 0))))
      | _ \<Rightarrow> Inr False)"

definition captureLeg ::
    "CreditSellerCaptureCommand \<Rightarrow> string \<Rightarrow> string \<Rightarrow> LedgerEntryFundsStatus \<Rightarrow> string \<Rightarrow> string \<Rightarrow>
     PostLedgerEntryCommand" where
  "captureLeg command amount ledgerEntryId fundsStatus description postedAt =
     \<lparr>pl_ledgerEntryId = ledgerEntryId, pl_kind = cs_kind command, pl_direction = Credit,
      pl_amount = amount, pl_currencyCode = ''usd'', pl_fundsStatus = fundsStatus,
      pl_orderId = Some (cs_orderId command), pl_paymentId = Some (cs_paymentId command),
      pl_payoutId = None, pl_description = Some description, pl_postedAt = postedAt,
      pl_allowNegativeBalance = False\<rparr>"

text \<open>The loop over the legs: a zero leg is skipped, and each posting is evolved before the
  next leg is decided.\<close>

fun postCaptureLegs ::
    "host \<Rightarrow> WalletState \<Rightarrow> PostLedgerEntryCommand list \<Rightarrow> WalletEvent list res" where
  "postCaptureLegs h state [] = Inr []"
| "postCaptureLegs h state (leg # legs) =
     bindE (compareMoney (pl_amount leg) ''0.00'') (\<lambda>c.
       if c = 0 then postCaptureLegs h state legs
       else
         bindE (decidePostLedgerEntry h state leg) (\<lambda>posting.
         bindE (foldE (evolveWallet h) state posting) (\<lambda>nextState.
         bindE (postCaptureLegs h nextState legs) (\<lambda>events. Inr (posting @ events)))))"

definition captureOffset :: "WalletState \<Rightarrow> string \<Rightarrow> string res" where
  "captureOffset state amount =
     bindE (compareMoney (w_availableBalanceAmount state) ''0.00'') (\<lambda>c.
       if c < 0
       then bindE (subtractMoney ''0.00'' (w_availableBalanceAmount state)) (\<lambda>owed. minMoney amount owed)
       else Inr ''0.00'')"

text \<open>The two postings of a capture: what goes to the pending balance, then what offsets the debt.\<close>

definition captureDescription :: "CreditSellerCaptureCommand \<Rightarrow> string" where
  "captureDescription command =
     (if cs_kind command = ''sale'' then ''Item sale proceeds'' else ''Shipping allowance'')"

definition captureLegs ::
    "CreditSellerCaptureCommand \<Rightarrow> string \<Rightarrow> string \<Rightarrow> bool \<Rightarrow> string \<Rightarrow> PostLedgerEntryCommand list" where
  "captureLegs command offset remainder hasOffset postedAt =
     [captureLeg command remainder
        (if hasOffset then captureBaseId command @ ''_pending'' else captureBaseId command) FundsPending
        (captureDescription command @ '' for order '' @ cs_orderId command) postedAt,
      captureLeg command offset (captureBaseId command) FundsAvailable
        (''Negative balance offset from '' @ js_lower (captureDescription command) @ '' for order '' @
         cs_orderId command) postedAt]"

definition postCapture ::
    "host \<Rightarrow> WalletState \<Rightarrow> CreditSellerCaptureCommand \<Rightarrow> string \<Rightarrow> string \<Rightarrow> WalletEvent list res" where
  "postCapture h state command amount postedAt =
     bindE (captureOffset state amount) (\<lambda>offset.
     bindE (subtractMoney amount offset) (\<lambda>remainder.
     bindE (compareMoney offset ''0.00'') (\<lambda>hasOffset.
       postCaptureLegs h state (captureLegs command offset remainder (hasOffset > 0) postedAt))))"

text \<open>A capture some of whose entries exist: a complete one is a retry, anything else needs review.\<close>

definition checkCaptureEvidence ::
    "CreditSellerCaptureCommand \<Rightarrow> CurrencyCode \<Rightarrow> WalletLedgerEntry list \<Rightarrow> string \<Rightarrow> WalletEvent list res" where
  "checkCaptureEvidence command currencyCode entries amount =
     (let baseId = captureBaseId command; pendingId = baseId @ ''_pending'';
          base = find (\<lambda>entry. le_ledgerEntryId entry = baseId) entries;
          pending = find (\<lambda>entry. le_ledgerEntryId entry = pendingId) entries
      in bindE (captureMatchesFacts command currencyCode entries) (\<lambda>matchesFacts.
         bindE (captureCompleteSingle entries base amount) (\<lambda>completeSingle.
         bindE (captureCompleteSplit entries base pending amount) (\<lambda>completeSplit.
           ensure (matchesFacts \<and> (completeSingle \<or> completeSplit))
             (SettlementDomainError
                (''Seller capture credit '' @ baseId @
                 '' has incomplete or mismatched ledger evidence; operator review required.''))
             (Inr [])))))"

definition decideCreditSellerCapture ::
    "host \<Rightarrow> WalletState \<Rightarrow> CreditSellerCaptureCommand \<Rightarrow> WalletEvent list res" where
  "decideCreditSellerCapture h state command =
     ensure (w_accountId state \<noteq> None) (SettlementDomainError ''Wallet must be opened first.'') (
     ensure (cs_kind command = ''sale'' \<or> cs_kind command = ''rebate'')
       (SettlementDomainError ''Seller capture credit must be sale or rebate.'') (
     bindE (normalizeCurrencyCode (cs_currencyCode command)) (\<lambda>currencyCode.
     ensure (w_currencyCode state = Some currencyCode)
       (SettlementDomainError ''Seller capture credit must use the wallet currency.'') (
     bindE (normalizeMoneyAmount (cs_amount command) True ''Seller capture credit amount'') (\<lambda>amount.
     bindE (ensureIsoTimestamp h (cs_postedAt command)
              ''Seller capture credit must record a timestamp.'') (\<lambda>postedAt.
     let baseId = captureBaseId command;
         pendingId = baseId @ ''_pending'';
         entries = filter (\<lambda>entry. le_ledgerEntryId entry = baseId \<or> le_ledgerEntryId entry = pendingId)
                     (w_entries state)
     in if length entries > 0 then checkCaptureEvidence command currencyCode entries amount
        else
          bindE (compareMoney amount ''0.00'') (\<lambda>zero.
            if zero = 0 then Inr [] else postCapture h state command amount postedAt)))))))"


section \<open>Collections and spend holds\<close>

definition decideEvaluateCollections ::
    "host \<Rightarrow> WalletState \<Rightarrow> EvaluateNegativeBalanceCollectionsCommand \<Rightarrow> WalletEvent list res" where
  "decideEvaluateCollections h state command =
     (case w_accountId state of
        None \<Rightarrow> Inl (SettlementDomainError ''Wallet must be opened first.'')
      | Some accountId \<Rightarrow>
     bindE (ensureIsoTimestamp h (ev_evaluatedAt command)
              ''Collections evaluation must record a timestamp.'') (\<lambda>evaluatedAt.
     bindE (normalizeMoneyAmount (ev_collectionsThresholdAmount command) False
              ''Collections threshold amount'') (\<lambda>thresholdAmount.
     let days = ev_collectionsGracePeriodDays command
     in ensure (isInteger days \<and> \<not> num_less days (numi 0))
          (SettlementDomainError ''Collections grace period must be a whole number of days.'') (
     case w_negativeBalanceStartedAt state of
       None \<Rightarrow> Inr []
     | Some startedAt \<Rightarrow>
     if w_negativeBalanceStatus state \<noteq> NegativeBalance then Inr []
     else
     bindE (compareMoney (w_availableBalanceAmount state) (CHR ''-'' # thresholdAmount)) (\<lambda>c.
     if c > 0 then Inr []
     else if (case (Date_parse h startedAt, Date_parse h evaluatedAt) of
                (Some started, Some evaluated) \<Rightarrow>
                  evaluated <
                  js_add started (js_mul (js_mul (js_mul (js_mul (num_to_int days) 24) 60) 60) 1000)
              | _ \<Rightarrow> False)
     then Inr []
     else
       Inr [NegativeBalanceCollectionsOpenedEv
              \<lparr>co_accountId = accountId, co_balanceAmount = w_availableBalanceAmount state,
               co_negativeSince = startedAt, co_thresholdAmount = thresholdAmount,
               co_gracePeriodDays = num_to_int days, co_openedAt = evaluatedAt\<rparr>])))))"

definition decidePlaceSpendHold ::
    "host \<Rightarrow> WalletState \<Rightarrow> PlaceSpendHoldCommand \<Rightarrow> WalletEvent list res" where
  "decidePlaceSpendHold h state command =
     (case w_accountId state of
        None \<Rightarrow> Inl (SettlementDomainError ''Wallet must be opened first.'')
      | Some accountId \<Rightarrow>
     bindE (normalizeCurrencyCode (ph_currencyCode command)) (\<lambda>currencyCode.
     ensure (w_currencyCode state = Some currencyCode)
       (SettlementDomainError ''Spend holds must use the wallet currency.'') (
     if list_ex (\<lambda>hold. sh_holdId hold = ph_holdId command) (w_spendHolds state) then Inr []
     else
     bindE (normalizeMoneyAmount (ph_amount command) True ''Spend hold amount'') (\<lambda>requestedAmount.
     bindE (walletSpendableBalanceAmount state) (\<lambda>spendable.
     bindE (minMoney requestedAmount spendable) (\<lambda>heldAmount.
     bindE (compareMoney heldAmount ''0.00'') (\<lambda>c.
     if c \<le> 0 then Inr []
     else
     bindE (ensureIsoTimestamp h (ph_placedAt command)
              ''Spend hold placement must record a timestamp.'') (\<lambda>placedAt.
     bindE (case ph_expiresAt command of
              None \<Rightarrow> Inr None
            | Some e \<Rightarrow> bindE (ensureIsoTimestamp h e ''Spend hold expiry must be a timestamp.'')
                          (\<lambda>t. Inr (Some t))) (\<lambda>expiresAt.
       Inr [WalletSpendHoldPlaced
              \<lparr>hp_accountId = accountId, hp_holdId = ph_holdId command,
               hp_paymentId = ph_paymentId command, hp_amount = heldAmount,
               hp_currencyCode = currencyCode, hp_placedAt = placedAt, hp_expiresAt = expiresAt\<rparr>])))))))))"

definition decideReleaseSpendHold ::
    "host \<Rightarrow> WalletState \<Rightarrow> ReleaseSpendHoldCommand \<Rightarrow> WalletEvent list res" where
  "decideReleaseSpendHold h state command =
     (case w_accountId state of
        None \<Rightarrow> Inl (SettlementDomainError ''Wallet must be opened first.'')
      | Some accountId \<Rightarrow>
     (case find (\<lambda>candidate. sh_holdId candidate = rh_holdId command) (w_spendHolds state) of
        None \<Rightarrow> Inr []
      | Some hold \<Rightarrow>
     if sh_status hold \<noteq> HoldActive then Inr []
     else
     bindE (ensureIsoTimestamp h (rh_releasedAt command)
              ''Spend hold release must record a timestamp.'') (\<lambda>releasedAt.
       Inr [WalletSpendHoldReleased
              \<lparr>hr_accountId = accountId, hr_holdId = sh_holdId hold,
               hr_paymentId = sh_paymentId hold, hr_amount = sh_amount hold,
               hr_reason = rh_reason command, hr_releasedAt = releasedAt\<rparr>])))"


section \<open>Dispatch\<close>

text \<open>
  The staging proof credit calls back into the decider with \<open>OpenWallet\<close> and
  \<open>PostLedgerEntry\<close>, which \<open>decideWalletCore\<close> serves; \<open>decideWallet_staging\<close> shows that
  the callback may as well be \<open>decideWallet\<close>, as in the source.
\<close>

fun decideWalletCore :: "host \<Rightarrow> WalletState \<Rightarrow> WalletCommand \<Rightarrow> WalletEvent list res" where
  "decideWalletCore h state (PostStagingProofCredit receipt) = Inr []"
| "decideWalletCore h state (OpenWallet command) = decideOpenWallet h state command"
| "decideWalletCore h state (CreditSellerCapture command) = decideCreditSellerCapture h state command"
| "decideWalletCore h state (PostLedgerEntry command) = decidePostLedgerEntry h state command"
| "decideWalletCore h state (MarkLedgerEntryAvailable command) =
     decideMarkLedgerEntryAvailable h state command"
| "decideWalletCore h state (EvaluateNegativeBalanceCollections command) =
     decideEvaluateCollections h state command"
| "decideWalletCore h state (PlaceSpendHold command) = decidePlaceSpendHold h state command"
| "decideWalletCore h state (ReleaseSpendHold command) = decideReleaseSpendHold h state command"

fun decideWallet :: "host \<Rightarrow> WalletState \<Rightarrow> WalletCommand \<Rightarrow> WalletEvent list res" where
  "decideWallet h state (PostStagingProofCredit receipt) =
     decideStagingProofCredit h state receipt (decideWalletCore h) (evolveWallet h)"
| "decideWallet h state command = decideWalletCore h state command"

lemma decideWallet_staging:
  "decideWallet h state (PostStagingProofCredit receipt) =
     decideStagingProofCredit h state receipt (decideWallet h) (evolveWallet h)"
  unfolding decideStagingProofCredit_def decideWallet.simps decideWalletCore.simps by (rule refl)

end
