(* ===== verification/EventDomain.thy ===== *)
theory EventDomain
  imports JsPrelude
begin

text \<open>
  \<open>contracts/event-core/domain.ts\<close>: event sourced aggregates. A decider maps a state and a
  command to new events, an evolver folds events into a state, and both may throw.

  The histories a stream can hold are the ones \<open>reachable_history\<close> builds: a command is decided
  on the state that the history so far folds to, and its events are appended. The locale
  \<open>aggregate\<close> is the contract every aggregate of the development is shown to meet;
  \<open>replayable_aggregate\<close> adds that a decided batch never makes its own evolver throw, so that
  no history can become unloadable.
\<close>

definition foldEvents :: "'s \<Rightarrow> ('s \<Rightarrow> 'e \<Rightarrow> 's res) \<Rightarrow> 'e list \<Rightarrow> 's res" where
  "foldEvents initialState evolve events = foldE evolve initialState events"

definition applyEvents :: "'s \<Rightarrow> ('s \<Rightarrow> 'e \<Rightarrow> 's res) \<Rightarrow> 'e list \<Rightarrow> 's res" where
  "applyEvents currentState evolve events = foldE evolve currentState events"

record ('s, 'e) RehydratedAggregate =
  ra_state :: 's
  ra_version :: nat
  ra_events :: "'e list"

definition rehydrateAggregate ::
    "'s \<Rightarrow> ('s \<Rightarrow> 'e \<Rightarrow> 's res) \<Rightarrow> 'e list \<Rightarrow> ('s, 'e) RehydratedAggregate res" where
  "rehydrateAggregate initialState evolve events =
     bindE (foldEvents initialState evolve events) (\<lambda>state.
       Inr \<lparr>ra_state = state, ra_version = length events, ra_events = events\<rparr>)"

inductive reachable_history ::
    "'s \<Rightarrow> ('s \<Rightarrow> 'e \<Rightarrow> 's res) \<Rightarrow> ('s \<Rightarrow> 'c \<Rightarrow> 'e list res) \<Rightarrow> 'e list \<Rightarrow> bool"
  for initialState evolve decide where
  empty_history: "reachable_history initialState evolve decide []"
| append_decided:
    "reachable_history initialState evolve decide h \<Longrightarrow>
     foldEvents initialState evolve h = Inr s \<Longrightarrow> decide s c = Inr es \<Longrightarrow>
     reachable_history initialState evolve decide (h @ es)"

text \<open>The history a sequence of commands builds, each decided on what the history so far folds to.\<close>

fun runCommands ::
    "'s \<Rightarrow> ('s \<Rightarrow> 'e \<Rightarrow> 's res) \<Rightarrow> ('s \<Rightarrow> 'c \<Rightarrow> 'e list res) \<Rightarrow> 'e list \<Rightarrow> 'c list \<Rightarrow> 'e list res" where
  "runCommands initialState evolve decide h [] = Inr h"
| "runCommands initialState evolve decide h (c # cs) =
     bindE (foldEvents initialState evolve h) (\<lambda>s.
     bindE (decide s c) (\<lambda>es. runCommands initialState evolve decide (h @ es) cs))"

lemma runCommands_reachable:
  "reachable_history i ev de h \<Longrightarrow> runCommands i ev de h cs = Inr es \<Longrightarrow> reachable_history i ev de es"
  by (induction cs arbitrary: h) (auto simp: res_simps intro: append_decided)

lemmas run_reachable = runCommands_reachable [OF empty_history]

text \<open>An invariant that the commands of the sequence keep, on states the history loads to.\<close>

lemma runCommands_keeps:
  assumes "runCommands i ev de h cs = Inr es" and "foldEvents i ev h = Inr s\<^sub>0" and "P s\<^sub>0"
    and "\<And>s c new s'. c \<in> set cs \<Longrightarrow> P s \<Longrightarrow> de s c = Inr new \<Longrightarrow> applyEvents s ev new = Inr s' \<Longrightarrow> P s'"
    and "foldEvents i ev es = Inr s"
  shows "P s"
  using assms
proof (induction cs arbitrary: h s\<^sub>0)
  case (Cons c cs)
  from Cons.prems(1,2) obtain new where new: "de s\<^sub>0 c = Inr new" "runCommands i ev de (h @ new) cs = Inr es"
    by (auto simp: res_simps)
  have "\<exists>s'. foldEvents i ev (h @ new) = Inr s'"
  proof (cases cs)
    case Nil
    with new(2) Cons.prems(5) show ?thesis by auto
  qed (use new(2) in \<open>auto simp: res_simps\<close>)
  then obtain s' where s': "foldEvents i ev (h @ new) = Inr s'" by blast
  then have "applyEvents s\<^sub>0 ev new = Inr s'"
    using Cons.prems(2) by (simp add: foldEvents_def applyEvents_def foldE_append)
  with Cons.prems(3,4) new(1) have "P s'" by (meson list.set_intros(1))
  with Cons.IH [OF new(2) s'] Cons.prems(4,5) show ?case by (meson list.set_intros(2))
qed auto

text \<open>
  For evaluation, both runs carry the loaded state along instead of folding the history again at every
  command; the equations are the ones that \<open>code_simp\<close> uses in the witnesses.
\<close>

fun runStates :: "('s \<Rightarrow> 'e \<Rightarrow> 's res) \<Rightarrow> ('s \<Rightarrow> 'c \<Rightarrow> 'e list res) \<Rightarrow> 's \<Rightarrow> 'c list \<Rightarrow> 's res" where
  "runStates ev de s [] = Inr s"
| "runStates ev de s (c # cs) = bindE (de s c) (\<lambda>es. bindE (applyEvents s ev es) (\<lambda>s'. runStates ev de s' cs))"

fun runFrom ::
    "('s \<Rightarrow> 'e \<Rightarrow> 's res) \<Rightarrow> ('s \<Rightarrow> 'c \<Rightarrow> 'e list res) \<Rightarrow> 's \<Rightarrow> 'e list \<Rightarrow> 'c list \<Rightarrow> 'e list res" where
  "runFrom ev de s h [] = Inr h"
| "runFrom ev de s h [c] = bindE (de s c) (\<lambda>es. Inr (h @ es))"
| "runFrom ev de s h (c # c' # cs) =
     bindE (de s c) (\<lambda>es. bindE (applyEvents s ev es) (\<lambda>s'. runFrom ev de s' (h @ es) (c' # cs)))"

lemma fold_run: "foldEvents i ev h = Inr s \<Longrightarrow> foldEvents i ev (h @ es) = applyEvents s ev es"
  by (simp add: foldEvents_def applyEvents_def foldE_append)

lemma runFrom_run: "foldEvents i ev h = Inr s \<Longrightarrow> runCommands i ev de h cs = runFrom ev de s h cs"
proof (induction ev de s h cs rule: runFrom.induct)
  case (3 ev de s h c c' cs)
  note IH = "3.IH" and h = "3.prems"
  show ?case
  proof (cases "de s c")
    case (Inr es)
    show ?thesis
    proof (cases "applyEvents s ev es")
      case (Inr s')
      with h have "foldEvents i ev (h @ es) = Inr s'" by (simp add: fold_run)
      with IH [OF \<open>de s c = Inr es\<close> Inr] have "runCommands i ev de (h @ es) (c' # cs) = runFrom ev de s' (h @ es) (c' # cs)" by simp
      with h Inr \<open>de s c = Inr es\<close> show ?thesis by simp
    qed (simp add: fold_run h Inr)
  qed (simp add: h)
qed simp_all

lemma runCommands_code [code]:
  "runCommands i ev de h [] = Inr h"
  "runCommands i ev de h (c # cs) = bindE (foldEvents i ev h) (\<lambda>s. runFrom ev de s h (c # cs))"
  by (cases "foldEvents i ev h"; simp add: runFrom_run [symmetric])+

text \<open>A command sequence that runs, and whose history loads, as a computation.\<close>

definition runAndLoad ::
    "'s \<Rightarrow> ('s \<Rightarrow> 'e \<Rightarrow> 's res) \<Rightarrow> ('s \<Rightarrow> 'c \<Rightarrow> 'e list res) \<Rightarrow> 'c list \<Rightarrow> 's res" where
  "runAndLoad initialState evolve decide cs =
     bindE (runCommands initialState evolve decide [] cs) (foldEvents initialState evolve)"

lemma runStates_run:
  "foldEvents i ev h = Inr s \<Longrightarrow> bindE (runCommands i ev de h cs) (foldEvents i ev) = runStates ev de s cs"
proof (induction cs arbitrary: h s)
  case (Cons c cs)
  have "bindE (runCommands i ev de (h @ es) cs) (foldEvents i ev) =
      bindE (applyEvents s ev es) (\<lambda>s'. runStates ev de s' cs)" for es
  proof (cases "applyEvents s ev es")
    case (Inl e)
    with Cons.prems show ?thesis by (cases cs) (simp_all add: fold_run)
  qed (simp add: Cons fold_run)
  with Cons.prems show ?case by (simp add: bindE_assoc)
qed simp

lemma runAndLoad_code [code]: "runAndLoad i ev de cs = runStates ev de i cs"
  by (simp add: runAndLoad_def runStates_run foldEvents_def)

lemma runAndLoad_Inr:
  "runAndLoad i ev de cs = Inr s \<longleftrightarrow> (\<exists>es. runCommands i ev de [] cs = Inr es \<and> foldEvents i ev es = Inr s)"
  by (simp add: runAndLoad_def res_simps)

lemma runAndLoad_reachable:
  "runAndLoad i ev de cs = Inr s \<Longrightarrow> \<exists>es. reachable_history i ev de es \<and> foldEvents i ev es = Inr s"
  by (auto simp: runAndLoad_Inr dest: run_reachable)

text \<open>A decider that only some commands reach: the others change nothing. The histories it builds are the
  ones that senders of such commands alone can build.\<close>

definition decidingOnly :: "('c \<Rightarrow> bool) \<Rightarrow> ('s \<Rightarrow> 'c \<Rightarrow> 'e list res) \<Rightarrow> 's \<Rightarrow> 'c \<Rightarrow> 'e list res" where
  "decidingOnly sent decide s c = (if sent c then decide s c else Inr [])"

lemma runCommands_only:
  "\<forall>c\<in>set cs. sent c \<Longrightarrow> runCommands i ev (decidingOnly sent de) h cs = runCommands i ev de h cs"
  by (induction cs arbitrary: h) (auto simp: decidingOnly_def intro!: bindE_cong)

lemma reachable_only:
  "reachable_history i ev (decidingOnly sent de) h \<Longrightarrow> reachable_history i ev de h"
proof (induction rule: reachable_history.induct)
  case (append_decided h s c es)
  then show ?case
    by (cases "sent c") (auto simp: decidingOnly_def intro: reachable_history.append_decided)
qed (rule empty_history)

text \<open>One more command on what a command sequence loads to: the state before, the new events, the
  state after. The witnesses of the development evaluate it.\<close>

definition runThenStep ::
    "'s \<Rightarrow> ('s \<Rightarrow> 'e \<Rightarrow> 's res) \<Rightarrow> ('s \<Rightarrow> 'c \<Rightarrow> 'e list res) \<Rightarrow> 'c list \<Rightarrow> 'c \<Rightarrow>
     ('s \<times> 'e list \<times> 's) res" where
  "runThenStep initialState evolve decide cs c =
     bindE (runAndLoad initialState evolve decide cs) (\<lambda>s. bindE (decide s c) (\<lambda>new.
     bindE (applyEvents s evolve new) (\<lambda>s'. Inr (s, new, s'))))"

lemma runAndLoad_cases:
  assumes "case runAndLoad i ev de cs of Inr s \<Rightarrow> P s | Inl _ \<Rightarrow> False"
  obtains s es where "P s" "runAndLoad i ev de cs = Inr s" "reachable_history i ev de es" "foldEvents i ev es = Inr s"
  using assms runAndLoad_reachable [of i ev de cs] by (auto split: sum.splits)

lemma runThenStep_cases:
  assumes "case runThenStep i ev de cs c of Inr (s, new, s') \<Rightarrow> P s new s' | Inl _ \<Rightarrow> False"
  obtains s new s' es where "P s new s'" "reachable_history i ev de es" "foldEvents i ev es = Inr s"
    "de s c = Inr new" "applyEvents s ev new = Inr s'" "runAndLoad i ev de cs = Inr s"
proof (cases "runThenStep i ev de cs c")
  case (Inr r)
  then obtain s new s' where r: "r = (s, new, s')" "runAndLoad i ev de cs = Inr s"
    "de s c = Inr new" "applyEvents s ev new = Inr s'"
    by (auto simp: runThenStep_def res_simps)
  then show thesis using assms Inr runAndLoad_reachable [OF r(2)] by (auto intro: that)
qed (use assms in simp)

text \<open>Several continuations of one command sequence, which is run once: the history and the state of each.\<close>

definition runBranches ::
    "'s \<Rightarrow> ('s \<Rightarrow> 'e \<Rightarrow> 's res) \<Rightarrow> ('s \<Rightarrow> 'c \<Rightarrow> 'e list res) \<Rightarrow> 'c list \<Rightarrow> 'c list list \<Rightarrow> ('e list \<times> 's) list res" where
  "runBranches initialState evolve decide cs branches =
     bindE (runCommands initialState evolve decide [] cs) (\<lambda>h.
     mapE (\<lambda>cs'. bindE (runCommands initialState evolve decide h cs') (\<lambda>es.
       bindE (foldEvents initialState evolve es) (\<lambda>s. Inr (es, s)))) branches)"

lemma runBranches_reachable:
  assumes "runBranches i ev de cs branches = Inr rs" and "(es, s) \<in> set rs"
  shows "reachable_history i ev de es \<and> foldEvents i ev es = Inr s"
proof -
  from assms(1) obtain h where h: "runCommands i ev de [] cs = Inr h"
    and rs: "mapE (\<lambda>cs'. bindE (runCommands i ev de h cs') (\<lambda>es. bindE (foldEvents i ev es) (\<lambda>s. Inr (es, s)))) branches = Inr rs"
    by (auto simp: runBranches_def res_simps)
  from rs assms(2) show ?thesis
    by (induction branches arbitrary: rs)
      (auto simp: res_simps intro: runCommands_reachable [OF run_reachable [OF h]])
qed

lemma foldEvents_append:
  "foldEvents s0 evolve (h @ es) = bindE (foldEvents s0 evolve h) (\<lambda>s. applyEvents s evolve es)"
  by (simp add: foldEvents_def applyEvents_def foldE_append)

lemma applyEvents_Cons: "applyEvents s f (e # es) = Inr s' \<longleftrightarrow> (\<exists>t. f s e = Inr t \<and> applyEvents t f es = Inr s')"
  by (simp add: applyEvents_def res_simps)

lemma applyEvents_Nil [simp]: "applyEvents s f [] = Inr s"
  by (simp add: applyEvents_def)

lemma applyEvents_append:
  "applyEvents s f (es @ es') = Inr s' \<longleftrightarrow> (\<exists>t. applyEvents s f es = Inr t \<and> applyEvents t f es' = Inr s')"
  by (simp add: applyEvents_def foldE_append res_simps)

locale aggregate =
  fixes initialState :: 's
    and evolve :: "'s \<Rightarrow> 'e \<Rightarrow> 's res"
    and decide :: "'s \<Rightarrow> 'c \<Rightarrow> 'e list res"
    and inv :: "'s \<Rightarrow> bool"
  assumes inv_initial: "inv initialState"
    and inv_decided:
      "inv s \<Longrightarrow> decide s c = Inr es \<Longrightarrow> applyEvents s evolve es = Inr s' \<Longrightarrow> inv s'"
begin

lemma loaded_inv:
  "reachable_history initialState evolve decide h \<Longrightarrow> foldEvents initialState evolve h = Inr s \<Longrightarrow> inv s"
proof (induction arbitrary: s rule: reachable_history.induct)
  case empty_history
  then show ?case using inv_initial by (simp add: foldEvents_def)
next
  case (append_decided h t c es)
  then have "applyEvents t evolve es = Inr s" by (simp add: foldEvents_append)
  with append_decided show ?case by (blast intro: inv_decided)
qed

end

locale replayable_aggregate = aggregate +
  assumes decided_replays: "inv s \<Longrightarrow> decide s c = Inr es \<Longrightarrow> \<exists>s'. applyEvents s evolve es = Inr s'"
begin

lemma history_loads:
  "reachable_history initialState evolve decide h \<Longrightarrow> \<exists>s. foldEvents initialState evolve h = Inr s \<and> inv s"
proof (induction rule: reachable_history.induct)
  case empty_history
  then show ?case by (simp add: foldEvents_def inv_initial)
next
  case (append_decided h s c es)
  then have "inv s" by auto
  from decided_replays [OF this append_decided.hyps(3)] obtain s' where "applyEvents s evolve es = Inr s'"
    by blast
  then show ?case
    using append_decided inv_decided [OF \<open>inv s\<close>] by (auto simp: foldEvents_append)
qed

end


section \<open>Progress\<close>

text \<open>
  Liveness of an aggregate: as long as something remains to be done, some helpful command is accepted,
  its events apply, and less remains. Then every history can be continued, by no more commands than
  what remains, to one that loads to a state where nothing does.
\<close>

locale progressing_aggregate = aggregate +
  fixes remaining :: "'a \<Rightarrow> nat" and ready :: "'a \<Rightarrow> bool" and helps :: "'c \<Rightarrow> bool"
  assumes progress:
    "inv s \<Longrightarrow> ready s \<Longrightarrow> 0 < remaining s \<Longrightarrow>
     \<exists>c es s'. helps c \<and> decide s c = Inr es \<and> applyEvents s evolve es = Inr s' \<and> ready s' \<and>
       remaining s' < remaining s"
begin

lemma finishing_run:
  "foldEvents initialState evolve h = Inr s \<Longrightarrow> inv s \<Longrightarrow> ready s \<Longrightarrow>
   \<exists>cs es s'. (\<forall>c\<in>set cs. helps c) \<and> length cs \<le> remaining s \<and>
     runCommands initialState evolve decide h cs = Inr es \<and> foldEvents initialState evolve es = Inr s' \<and>
     inv s' \<and> ready s' \<and> remaining s' = 0"
proof (induction "remaining s" arbitrary: h s rule: less_induct)
  case less
  show ?case
  proof (cases "remaining s = 0")
    case True
    with less.prems have "runCommands initialState evolve decide h [] = Inr h" "length [] \<le> remaining s"
      "\<forall>c\<in>set []. helps c" by simp_all
    with True less.prems show ?thesis by blast
  next
    case False
    then obtain c new t where c: "helps c" "decide s c = Inr new" "applyEvents s evolve new = Inr t"
      "ready t" "remaining t < remaining s"
      using progress [OF less.prems(2,3)] by blast
    have "foldEvents initialState evolve (h @ new) = Inr t"
      using less.prems(1) c(3) by (simp add: foldEvents_append)
    from less.hyps [OF c(5) this inv_decided [OF less.prems(2) c(2,3)] c(4)] obtain cs es s' where
      cs: "\<forall>c\<in>set cs. helps c" "length cs \<le> remaining t"
        "runCommands initialState evolve decide (h @ new) cs = Inr es"
      and s': "foldEvents initialState evolve es = Inr s'" "inv s'" "ready s'" "remaining s' = 0"
      by blast
    have "runCommands initialState evolve decide h (c # cs) = Inr es"
      using less.prems(1) c(2) cs(3) by simp
    moreover have "length (c # cs) \<le> remaining s" "\<forall>x\<in>set (c # cs). helps x" using c(1,5) cs(1,2) by simp_all
    ultimately show ?thesis using s' by blast
  qed
qed

lemma can_finish:
  "reachable_history initialState evolve decide h \<Longrightarrow> foldEvents initialState evolve h = Inr s \<Longrightarrow> ready s \<Longrightarrow>
   \<exists>cs es s'. (\<forall>c\<in>set cs. helps c) \<and> length cs \<le> remaining s \<and>
     runCommands initialState evolve decide h cs = Inr es \<and> foldEvents initialState evolve es = Inr s' \<and>
     inv s' \<and> ready s' \<and> remaining s' = 0"
  by (rule finishing_run) (auto intro: loaded_inv)

end


section \<open>Life cycles\<close>

text \<open>
  An abstract life cycle is a step relation on phases, labelled with events. An aggregate refines
  it when every decided batch is a path from the phase of the old state to the phase of the new
  one; then so is every history.
\<close>

inductive event_path :: "('p \<Rightarrow> 'e \<Rightarrow> 'p \<Rightarrow> bool) \<Rightarrow> 'p \<Rightarrow> 'e list \<Rightarrow> 'p \<Rightarrow> bool" for step where
  path_nil: "event_path step p [] p"
| path_snoc: "event_path step p es q \<Longrightarrow> step q e r \<Longrightarrow> event_path step p (es @ [e]) r"

inductive_simps event_path_Nil [simp]: "event_path step p [] q"

inductive_simps event_path_snoc: "event_path step p (es @ [e]) r"

lemma event_path_append:
  "event_path step p (es @ es') r \<longleftrightarrow> (\<exists>q. event_path step p es q \<and> event_path step q es' r)"
proof (induction es' arbitrary: r rule: rev_induct)
  case (snoc e es')
  then show ?case
    by (simp only: append_assoc [symmetric] event_path_snoc) auto
qed simp

lemma event_path_single [simp]: "event_path step p [e] r \<longleftrightarrow> step p e r"
  using event_path_snoc [of step p "[]" e r] by simp

locale aggregate_lifecycle = aggregate +
  fixes phase_of :: "'a \<Rightarrow> 'p" and step :: "'p \<Rightarrow> 'b \<Rightarrow> 'p \<Rightarrow> bool"
  assumes decided_path:
    "inv s \<Longrightarrow> decide s c = Inr es \<Longrightarrow> applyEvents s evolve es = Inr s' \<Longrightarrow>
     event_path step (phase_of s) es (phase_of s')"
begin

lemma history_path:
  "reachable_history initialState evolve decide h \<Longrightarrow> foldEvents initialState evolve h = Inr s \<Longrightarrow>
   event_path step (phase_of initialState) h (phase_of s)"
proof (induction arbitrary: s rule: reachable_history.induct)
  case empty_history
  then show ?case by (simp add: foldEvents_def)
next
  case (append_decided h t c es)
  have inv: "inv t" using append_decided.hyps(1,2) by (rule loaded_inv)
  have app: "applyEvents t evolve es = Inr s"
    using append_decided.hyps(2) append_decided.prems by (simp add: foldEvents_append)
  from decided_path [OF inv append_decided.hyps(3) app] append_decided.IH [OF append_decided.hyps(2)]
  show ?case by (auto simp: event_path_append)
qed

end

text \<open>When some events close the aggregate, a history has at most one of them, at its end.\<close>

locale closing_lifecycle = aggregate_lifecycle +
  fixes closes :: "'b \<Rightarrow> bool" and final :: "'p \<Rightarrow> bool"
  assumes closes_iff: "step p e q \<Longrightarrow> closes e \<longleftrightarrow> final q"
    and final_stuck: "final p \<Longrightarrow> \<not> step p e q"
    and initial_open: "\<not> final (phase_of initialState)"
begin

lemma path_closes_last:
  "event_path step p es q \<Longrightarrow> \<not> final p \<Longrightarrow>
   (\<forall>e\<in>set (butlast es). \<not> closes e) \<and> (final q \<longleftrightarrow> es \<noteq> [] \<and> closes (last es))"
proof (induction rule: event_path.induct)
  case (path_snoc p es q e r)
  then have "\<not> final q" using final_stuck by blast
  have "\<not> closes x" if "x \<in> set es" for x
  proof (cases es rule: rev_cases)
    case (snoc es' e')
    with that path_snoc \<open>\<not> final q\<close> show ?thesis by auto
  qed (use that in simp)
  with path_snoc.hyps(2) show ?case by (simp add: closes_iff butlast_append)
qed simp

lemma history_closes_last:
  assumes "reachable_history initialState evolve decide h" and "foldEvents initialState evolve h = Inr s"
  shows "(\<forall>e\<in>set (butlast h). \<not> closes e) \<and> (final (phase_of s) \<longleftrightarrow> h \<noteq> [] \<and> closes (last h))"
  by (rule path_closes_last [OF history_path [OF assms] initial_open])

end

end
