(* ===== verification/WalletFacts.thy ===== *)
theory WalletFacts
  imports WalletDecide EventDomain
begin

text \<open>
  What holds of every wallet a stream can load. The ledger invariant says that the five running
  balances of the state are the sums, in cents, of the entries and the active spend holds it
  records; the status invariant says that a wallet is in good standing exactly when its available
  balance is not negative. Each decided batch preserves both, which is the interpretation of
  \<open>aggregate\<close> at the end of the theory.
\<close>

section \<open>The abstract ledger\<close>

definition entryValue :: "WalletLedgerEntry \<Rightarrow> int" where
  "entryValue e = (if le_direction e = Credit then centsOf (le_amount e) else - centsOf (le_amount e))"

definition entriesValue :: "(WalletLedgerEntry \<Rightarrow> bool) \<Rightarrow> WalletLedgerEntry list \<Rightarrow> int" where
  "entriesValue p es = sum_list (map entryValue (filter p es))"

definition amountsValue :: "(WalletLedgerEntry \<Rightarrow> bool) \<Rightarrow> WalletLedgerEntry list \<Rightarrow> int" where
  "amountsValue p es = sum_list (map (\<lambda>e. centsOf (le_amount e)) (filter p es))"

definition activeHolds :: "WalletSpendHold list \<Rightarrow> int" where
  "activeHolds hs = sum_list (map (\<lambda>x. centsOf (sh_amount x)) (filter (\<lambda>x. sh_status x = HoldActive) hs))"

definition positiveMoney :: "string \<Rightarrow> bool" where
  "positiveMoney t \<longleftrightarrow> canonical t \<and> 0 < centsOf t"

definition canonical_balances :: "WalletState \<Rightarrow> bool" where
  "canonical_balances s \<longleftrightarrow>
     canonical (w_pendingBalanceAmount s) \<and> canonical (w_availableBalanceAmount s) \<and>
     canonical (w_heldBalanceAmount s) \<and> canonical (w_totalCreditedAmount s) \<and>
     canonical (w_totalDebitedAmount s)"

definition ledger_sums :: "WalletState \<Rightarrow> bool" where
  "ledger_sums s \<longleftrightarrow>
     centsOf (w_pendingBalanceAmount s) = entriesValue (\<lambda>e. le_fundsStatus e = FundsPending) (w_entries s) \<and>
     centsOf (w_availableBalanceAmount s) = entriesValue (\<lambda>e. le_fundsStatus e = FundsAvailable) (w_entries s) \<and>
     centsOf (w_totalCreditedAmount s) = amountsValue (\<lambda>e. le_direction e = Credit) (w_entries s) \<and>
     centsOf (w_totalDebitedAmount s) = amountsValue (\<lambda>e. le_direction e = Debit) (w_entries s) \<and>
     centsOf (w_heldBalanceAmount s) = activeHolds (w_spendHolds s)"

definition ledger_records :: "WalletState \<Rightarrow> bool" where
  "ledger_records s \<longleftrightarrow>
     distinct (map le_ledgerEntryId (w_entries s)) \<and> distinct (map sh_holdId (w_spendHolds s)) \<and>
     (\<forall>e\<in>set (w_entries s). positiveMoney (le_amount e)) \<and>
     (\<forall>x\<in>set (w_spendHolds s). positiveMoney (sh_amount x)) \<and>
     (w_accountId s = None \<longrightarrow> w_entries s = [] \<and> w_spendHolds s = [])"

definition ledger_inv :: "WalletState \<Rightarrow> bool" where
  "ledger_inv s \<longleftrightarrow> canonical_balances s \<and> ledger_sums s \<and> ledger_records s"

definition status_inv :: "WalletState \<Rightarrow> bool" where
  "status_inv s \<longleftrightarrow>
     (w_negativeBalanceStatus s = InGoodStanding \<longleftrightarrow> 0 \<le> centsOf (w_availableBalanceAmount s)) \<and>
     (w_negativeBalanceStartedAt s = None \<longleftrightarrow> w_negativeBalanceStatus s = InGoodStanding) \<and>
     (w_collectionsEscalatedAt s \<noteq> None \<longleftrightarrow> w_negativeBalanceStatus s = Collections)"

definition wallet_inv :: "WalletState \<Rightarrow> bool" where
  "wallet_inv s \<longleftrightarrow> ledger_inv s \<and> status_inv s"

lemmas ledger_defs = ledger_inv_def canonical_balances_def ledger_sums_def ledger_records_def

lemma entriesValue_simps [simp]:
  "entriesValue p [] = 0"
  "entriesValue p (es @ [e]) = entriesValue p es + (if p e then entryValue e else 0)"
  by (simp_all add: entriesValue_def)

lemma amountsValue_simps [simp]:
  "amountsValue p [] = 0"
  "amountsValue p (es @ [e]) = amountsValue p es + (if p e then centsOf (le_amount e) else 0)"
  by (simp_all add: amountsValue_def)

lemma activeHolds_simps [simp]:
  "activeHolds [] = 0"
  "activeHolds (hs @ [x]) = activeHolds hs + (if sh_status x = HoldActive then centsOf (sh_amount x) else 0)"
  by (simp_all add: activeHolds_def)

lemma wallet_inv_initial: "wallet_inv initialWalletState"
  by (simp add: wallet_inv_def ledger_defs status_inv_def initialWalletState_def)


section \<open>Updating one record of a list\<close>

lemma sum_list_update_key:
  fixes f :: "'a \<Rightarrow> int"
  assumes "distinct (map k xs)" and "x \<in> set xs"
  shows "sum_list (map (\<lambda>y. f (if k y = k x then u y else y)) xs) = sum_list (map f xs) + f (u x) - f x"
  using assms
proof (induction xs)
  case (Cons y ys)
  show ?case
  proof (cases "x = y")
    case True
    then have "\<And>z. z \<in> set ys \<Longrightarrow> k z \<noteq> k x" using Cons.prems(1) by (auto simp: image_iff)
    then have "map (\<lambda>z. f (if k z = k x then u z else z)) ys = map f ys" by (simp cong: map_cong)
    with True show ?thesis by (simp del: map_eq_conv)
  next
    case False
    then have "x \<in> set ys" "k y \<noteq> k x" using Cons.prems by (auto simp: image_iff)
    then show ?thesis using Cons by simp
  qed
qed simp

lemma filter_sum_if: "sum_list (map f (filter p xs)) = sum_list (map (\<lambda>x. if p x then f x else (0::int)) xs)"
  by (induction xs) auto

lemma entriesValue_update:
  assumes "distinct (map le_ledgerEntryId es)" and "e \<in> set es"
    and "i = le_ledgerEntryId e"
  shows "entriesValue p (map (\<lambda>x. if le_ledgerEntryId x = i then u x else x) es) =
           entriesValue p es + (if p (u e) then entryValue (u e) else 0) - (if p e then entryValue e else 0)"
  using sum_list_update_key [OF assms(1,2), of "\<lambda>x. if p x then entryValue x else 0" u]
  unfolding assms(3) entriesValue_def filter_sum_if by (simp add: o_def)

lemma amountsValue_update:
  assumes "distinct (map le_ledgerEntryId es)" and "e \<in> set es"
    and "i = le_ledgerEntryId e"
  shows "amountsValue p (map (\<lambda>x. if le_ledgerEntryId x = i then u x else x) es) =
           amountsValue p es + (if p (u e) then centsOf (le_amount (u e)) else 0) -
           (if p e then centsOf (le_amount e) else 0)"
  using sum_list_update_key [OF assms(1,2), of "\<lambda>x. if p x then centsOf (le_amount x) else 0" u]
  unfolding assms(3) amountsValue_def filter_sum_if by (simp add: o_def)

lemma activeHolds_update:
  assumes "distinct (map sh_holdId hs)" and "x \<in> set hs" and "i = sh_holdId x"
  shows "activeHolds (map (\<lambda>y. if sh_holdId y = i then u y else y) hs) =
           activeHolds hs + (if sh_status (u x) = HoldActive then centsOf (sh_amount (u x)) else 0) -
           (if sh_status x = HoldActive then centsOf (sh_amount x) else 0)"
  using sum_list_update_key [OF assms(1,2), of "\<lambda>x. if sh_status x = HoldActive then centsOf (sh_amount x) else 0" u]
  unfolding assms(3) activeHolds_def filter_sum_if by (simp add: o_def)

lemma map_key_update: "(\<And>x. k (u x) = k x) \<Longrightarrow> map k (map (\<lambda>x. if k x = i then u x else x) xs) = map k xs"
  by simp


section \<open>What each event does to the ledger\<close>

lemma opened_inv:
  "w_accountId s = None \<Longrightarrow> wallet_inv s \<Longrightarrow> wallet_inv (evolveWalletOpened s a c t)"
  by (simp add: wallet_inv_def ledger_defs status_inv_def evolveWalletOpened_def)

lemma hasLedgerEntry_iff: "hasLedgerEntry es i \<longleftrightarrow> i \<in> le_ledgerEntryId ` set es"
  by (auto simp: hasLedgerEntry_def list_ex_iff)

lemma evolveLedgerEntryPosted_Inr:
  assumes "canonical_balances s" and "canonical (lp_amount d)" and "0 \<le> centsOf (lp_amount d)"
  shows "evolveLedgerEntryPosted s d = Inr s' \<longleftrightarrow>
     (let v = (if lp_direction d = Credit then centsOf (lp_amount d) else - centsOf (lp_amount d));
          p = centsOf (w_pendingBalanceAmount s) + (if lp_fundsStatus d = FundsPending then v else 0);
          a = centsOf (w_availableBalanceAmount s) + (if lp_fundsStatus d = FundsAvailable then v else 0);
          c = centsOf (w_totalCreditedAmount s) + (if lp_direction d = Credit then v else 0);
          b = centsOf (w_totalDebitedAmount s) + (if lp_direction d = Debit then - v else 0)
      in in_range p \<and> in_range a \<and> in_range c \<and> in_range b \<and>
         s' = s\<lparr>w_pendingBalanceAmount := formatCents p, w_availableBalanceAmount := formatCents a,
                w_totalCreditedAmount := formatCents c, w_totalDebitedAmount := formatCents b,
                w_entries := w_entries s @ [postedEntry d], w_updatedAt := Some (lp_postedAt d)\<rparr>)"
  using assms
  by (cases "lp_direction d"; cases "lp_fundsStatus d")
     (auto simp: canonical_balances_def evolveLedgerEntryPosted_def signedText_def res_simps canon_simps
       Let_def canonical_in_range canonical_format_cents)

lemma posted_ledger:
  assumes inv: "ledger_inv s" and acc: "w_accountId s \<noteq> None"
    and fresh: "\<not> hasLedgerEntry (w_entries s) (lp_ledgerEntryId d)"
    and amt: "positiveMoney (lp_amount d)" and ev: "evolveLedgerEntryPosted s d = Inr s'"
  shows "ledger_inv s'"
proof -
  have pre: "canonical_balances s" "canonical (lp_amount d)" "0 \<le> centsOf (lp_amount d)"
    using inv amt by (simp_all add: ledger_inv_def positiveMoney_def)
  note ev' = ev [unfolded evolveLedgerEntryPosted_Inr [OF pre] Let_def]
  show ?thesis
    using inv acc fresh amt ev' unfolding ledger_defs
    by (auto simp: hasLedgerEntry_iff postedEntry_def entryValue_def)
qed

lemma available_ledger:
  assumes inv: "ledger_inv s" and e: "e \<in> set (w_entries s)"
    and st: "le_fundsStatus e = FundsPending" "le_direction e = Credit"
    and ev: "evolveLedgerEntryAvailable s (le_ledgerEntryId e) (le_amount e) t = Inr s'"
  shows "ledger_inv s'" and
    "centsOf (w_availableBalanceAmount s') = centsOf (w_availableBalanceAmount s) + centsOf (le_amount e)"
proof -
  have e': "canonical (le_amount e)" "0 < centsOf (le_amount e)"
    using inv e by (auto simp: ledger_defs positiveMoney_def)
  have d: "distinct (map le_ledgerEntryId (w_entries s))" using inv by (simp add: ledger_defs)
  let ?u = "\<lambda>x. x\<lparr>le_fundsStatus := FundsAvailable, le_availableAt := Some t\<rparr>"
  let ?es = "map (\<lambda>x. if le_ledgerEntryId x = le_ledgerEntryId e then ?u x else x) (w_entries s)"
  have ids: "map le_ledgerEntryId ?es = map le_ledgerEntryId (w_entries s)" by (rule map_key_update) simp
  have s': "s' = s\<lparr>w_pendingBalanceAmount := formatCents (centsOf (w_pendingBalanceAmount s) - centsOf (le_amount e)),
      w_availableBalanceAmount := formatCents (centsOf (w_availableBalanceAmount s) + centsOf (le_amount e)),
      w_entries := ?es, w_updatedAt := Some t\<rparr>"
    and rng: "in_range (centsOf (w_pendingBalanceAmount s) - centsOf (le_amount e))"
      "in_range (centsOf (w_availableBalanceAmount s) + centsOf (le_amount e))"
    using ev inv e' by (auto simp: evolveLedgerEntryAvailable_def ledger_defs res_simps canon_simps)
  show "centsOf (w_availableBalanceAmount s') = centsOf (w_availableBalanceAmount s) + centsOf (le_amount e)"
    using rng by (simp add: s')
  show "ledger_inv s'"
    using inv rng st unfolding ledger_inv_def canonical_balances_def ledger_sums_def ledger_records_def s'
    by (simp add: entriesValue_update [OF d e refl] amountsValue_update [OF d e refl] entryValue_def
      ids del: map_map) (auto simp: positiveMoney_def)
qed

lemma held_placed_ledger:
  assumes inv: "ledger_inv s" and acc: "w_accountId s \<noteq> None"
    and fresh: "hp_holdId d \<notin> sh_holdId ` set (w_spendHolds s)"
    and amt: "positiveMoney (hp_amount d)" and ev: "evolveSpendHoldPlaced s d = Inr s'"
  shows "ledger_inv s'"
  using assms unfolding ledger_defs positiveMoney_def evolveSpendHoldPlaced_def placedHold_def
  by (auto simp: res_simps canon_simps)

lemma held_released_ledger:
  assumes inv: "ledger_inv s" and x: "x \<in> set (w_spendHolds s)" and st: "sh_status x = HoldActive"
    and d: "hr_holdId d = sh_holdId x" "hr_amount d = sh_amount x"
    and ev: "evolveSpendHoldReleased s d = Inr s'"
  shows "ledger_inv s'"
proof -
  have x': "canonical (sh_amount x)" using inv x by (auto simp: ledger_defs positiveMoney_def)
  have ds: "distinct (map sh_holdId (w_spendHolds s))" using inv by (simp add: ledger_defs)
  let ?u = "\<lambda>y. y\<lparr>sh_status := HoldReleased, sh_releasedAt := Some (hr_releasedAt d),
                    sh_releaseReason := Some (hr_reason d)\<rparr>"
  let ?hs = "map (\<lambda>y. if sh_holdId y = hr_holdId d then ?u y else y) (w_spendHolds s)"
  have ids: "map sh_holdId ?hs = map sh_holdId (w_spendHolds s)" by (rule map_key_update) simp
  have s': "s' = s\<lparr>w_heldBalanceAmount := formatCents (centsOf (w_heldBalanceAmount s) - centsOf (sh_amount x)),
      w_spendHolds := ?hs, w_updatedAt := Some (hr_releasedAt d)\<rparr>"
    and rng: "in_range (centsOf (w_heldBalanceAmount s) - centsOf (sh_amount x))"
    using ev inv x' d by (auto simp: evolveSpendHoldReleased_def ledger_defs res_simps canon_simps)
  show ?thesis
    using inv rng st unfolding ledger_inv_def canonical_balances_def ledger_sums_def ledger_records_def s'
    by (simp add: activeHolds_update [OF ds x d(1)] ids del: map_map) (auto simp: positiveMoney_def)
qed


section \<open>The balance after a posting\<close>

definition nextAvailable :: "WalletState \<Rightarrow> LedgerEntryDirection \<Rightarrow> LedgerEntryFundsStatus \<Rightarrow> string \<Rightarrow> int" where
  "nextAvailable s dir fs amount =
     centsOf (w_availableBalanceAmount s) +
     (if fs = FundsAvailable then if dir = Credit then centsOf amount else - centsOf amount else 0)"

lemma decidePostLedgerEntry_shape:
  assumes "decidePostLedgerEntry h s c = Inr es" and "canonical_balances s"
  obtains d tr where "es = WalletLedgerEntryPosted d # tr" "w_accountId s = Some (lp_accountId d)"
    "lp_ledgerEntryId d = pl_ledgerEntryId c" "\<not> hasLedgerEntry (w_entries s) (lp_ledgerEntryId d)"
    "positiveMoney (lp_amount d)" "lp_direction d = pl_direction c" "lp_fundsStatus d = pl_fundsStatus c"
    "normalizeMoneyAmount (pl_amount c) False ''Ledger entry amount'' = Inr (lp_amount d)"
    "normalizeLedgerEntryKind (pl_kind c) = Inr (lp_kind d)" "lp_postedAt d = pl_postedAt c"
    "lp_orderId d = pl_orderId c" "lp_paymentId d = pl_paymentId c" "lp_payoutId d = pl_payoutId c"
    "lp_description d = normalizeOptionalText (pl_description c)" "w_currencyCode s = Some (lp_currencyCode d)"
    "in_range (nextAvailable s (pl_direction c) (pl_fundsStatus c) (lp_amount d))"
    "negativeBalanceTransitionEvents s
       (formatCents (nextAvailable s (pl_direction c) (pl_fundsStatus c) (lp_amount d))) (lp_postedAt d) = Inr tr"
proof -
  have key: "canonical a \<Longrightarrow> 0 < centsOf a \<Longrightarrow>
      (if pl_fundsStatus c = FundsAvailable
       then addMoney (w_availableBalanceAmount s) (if pl_direction c = Credit then a else CHR ''-'' # a)
       else Inr (w_availableBalanceAmount s)) = Inr n \<longleftrightarrow>
      in_range (nextAvailable s (pl_direction c) (pl_fundsStatus c) a) \<and>
      n = formatCents (nextAvailable s (pl_direction c) (pl_fundsStatus c) a)" for a n
    using assms(2) by (auto simp: canonical_balances_def nextAvailable_def canon_simps
        canonical_in_range canonical_format_cents)
  from assms(1) obtain a where n: "normalizeMoneyAmount (pl_amount c) False ''Ledger entry amount'' = Inr a"
    unfolding decidePostLedgerEntry_def Let_def
    by (auto simp: res_simps split: option.splits split del: if_split)
  then have a: "canonical a" "0 < centsOf a" by (auto dest: normalizeMoneyAmount_canonical)
  show thesis
    using assms(1) unfolding decidePostLedgerEntry_def Let_def
    by (cases "w_accountId s")
       (auto simp: res_simps key [OF a] n a positiveMoney_def intro!: that split del: if_split)
qed

lemma negativeBalanceTransitionEvents_eq:
  "canonical n \<Longrightarrow> w_accountId s = Some a \<Longrightarrow>
   negativeBalanceTransitionEvents s n t =
     Inr (if w_negativeBalanceStatus s = InGoodStanding \<and> centsOf n < 0 then [NegativeBalanceEntered a n t]
          else if w_negativeBalanceStatus s \<noteq> InGoodStanding \<and> 0 \<le> centsOf n
          then [NegativeBalanceRecovered a n t] else [])"
  by (simp add: negativeBalanceTransitionEvents_def compareMoney_canonical)

text \<open>The transition events restore the status invariant once the entry they follow is in the ledger.\<close>

lemma transition_inv:
  assumes led: "ledger_inv s'" and acc: "w_accountId s \<noteq> None" and st: "status_inv s"
    and tr: "negativeBalanceTransitionEvents s (w_availableBalanceAmount s') t = Inr tr"
    and same: "w_negativeBalanceStatus s' = w_negativeBalanceStatus s"
      "w_negativeBalanceStartedAt s' = w_negativeBalanceStartedAt s"
      "w_collectionsEscalatedAt s' = w_collectionsEscalatedAt s"
    and ev: "applyEvents s' (evolveWallet h) tr = Inr s''"
  shows "wallet_inv s'' \<and> w_accountId s'' = w_accountId s' \<and> w_entries s'' = w_entries s' \<and>
    w_availableBalanceAmount s'' = w_availableBalanceAmount s' \<and> w_currencyCode s'' = w_currencyCode s'"
proof -
  have can: "canonical (w_availableBalanceAmount s')" using led by (simp add: ledger_defs)
  obtain a where a: "w_accountId s = Some a" using acc by blast
  have led': "ledger_inv (s'\<lparr>w_negativeBalanceStatus := x, w_negativeBalanceStartedAt := y,
      w_collectionsEscalatedAt := z, w_updatedAt := u\<rparr>)" for x y z u
    using led by (simp add: ledger_defs)
  note tr' = tr [unfolded negativeBalanceTransitionEvents_eq [OF can a] sum.inject]
  consider (enter) "w_negativeBalanceStatus s = InGoodStanding" "centsOf (w_availableBalanceAmount s') < 0"
    | (recover) "w_negativeBalanceStatus s \<noteq> InGoodStanding" "0 \<le> centsOf (w_availableBalanceAmount s')"
    | (stay) "w_negativeBalanceStatus s = InGoodStanding \<longleftrightarrow> 0 \<le> centsOf (w_availableBalanceAmount s')"
    by linarith
  then show ?thesis
  proof cases
    case enter
    then have "s'' = s'\<lparr>w_negativeBalanceStatus := NegativeBalance, w_negativeBalanceStartedAt := Some t,
        w_collectionsEscalatedAt := None, w_updatedAt := Some t\<rparr>"
      using tr' ev by (auto simp: applyEvents_def)
    then show ?thesis using enter led' by (simp add: wallet_inv_def status_inv_def)
  next
    case recover
    then have "s'' = s'\<lparr>w_negativeBalanceStatus := InGoodStanding, w_negativeBalanceStartedAt := None,
        w_collectionsEscalatedAt := None, w_updatedAt := Some t\<rparr>"
      using tr' ev by (auto simp: applyEvents_def)
    then show ?thesis using recover led' by (simp add: wallet_inv_def status_inv_def)
  next
    case stay
    then have "s'' = s'" using tr' ev by (auto simp: applyEvents_def split: if_splits)
    then show ?thesis using stay st led same by (simp add: wallet_inv_def status_inv_def)
  qed
qed


section \<open>Decided batches preserve the invariant\<close>

lemma decided_posting:
  assumes inv: "wallet_inv s" and dec: "decidePostLedgerEntry h s c = Inr es"
    and ev: "applyEvents s (evolveWallet h) es = Inr s'"
  shows "\<exists>d. wallet_inv s' \<and> w_accountId s' = w_accountId s \<and> w_currencyCode s' = w_currencyCode s \<and>
    w_entries s' = w_entries s @ [postedEntry d] \<and> lp_ledgerEntryId d = pl_ledgerEntryId c \<and>
    normalizeLedgerEntryKind (pl_kind c) = Inr (lp_kind d) \<and> lp_orderId d = pl_orderId c \<and>
    lp_paymentId d = pl_paymentId c \<and> lp_payoutId d = pl_payoutId c \<and> positiveMoney (lp_amount d) \<and>
    lp_direction d = pl_direction c \<and> lp_fundsStatus d = pl_fundsStatus c \<and>
    normalizeMoneyAmount (pl_amount c) False ''Ledger entry amount'' = Inr (lp_amount d) \<and>
    centsOf (w_availableBalanceAmount s') = nextAvailable s (pl_direction c) (pl_fundsStatus c) (lp_amount d)"
proof -
  have can: "canonical_balances s" using inv by (simp add: wallet_inv_def ledger_inv_def)
  show ?thesis
  proof (rule decidePostLedgerEntry_shape [OF dec can])
    fix d :: LedgerEntryPosted and tr
    let ?n = "nextAvailable s (pl_direction c) (pl_fundsStatus c) (lp_amount d)"
    assume es: "es = WalletLedgerEntryPosted d # tr" and acc: "w_accountId s = Some (lp_accountId d)"
      and d: "lp_ledgerEntryId d = pl_ledgerEntryId c" "lp_direction d = pl_direction c"
        "normalizeLedgerEntryKind (pl_kind c) = Inr (lp_kind d)" "lp_orderId d = pl_orderId c"
        "lp_paymentId d = pl_paymentId c" "lp_payoutId d = pl_payoutId c"
        "lp_fundsStatus d = pl_fundsStatus c"
        "normalizeMoneyAmount (pl_amount c) False ''Ledger entry amount'' = Inr (lp_amount d)"
      and fresh: "\<not> hasLedgerEntry (w_entries s) (lp_ledgerEntryId d)"
      and pos: "positiveMoney (lp_amount d)" and rng: "in_range ?n"
      and tr: "negativeBalanceTransitionEvents s (formatCents ?n) (lp_postedAt d) = Inr tr"
    from ev es obtain t where t: "evolveLedgerEntryPosted s d = Inr t"
      and rest: "applyEvents t (evolveWallet h) tr = Inr s'"
      by (auto simp: applyEvents_Cons)
    have pre: "canonical (lp_amount d)" "0 \<le> centsOf (lp_amount d)"
      using pos by (simp_all add: positiveMoney_def)
    have same: "w_negativeBalanceStatus t = w_negativeBalanceStatus s"
        "w_negativeBalanceStartedAt t = w_negativeBalanceStartedAt s"
        "w_collectionsEscalatedAt t = w_collectionsEscalatedAt s"
        "w_accountId t = w_accountId s" "w_currencyCode t = w_currencyCode s"
        "w_entries t = w_entries s @ [postedEntry d]" "w_availableBalanceAmount t = formatCents ?n"
      using t unfolding evolveLedgerEntryPosted_Inr [OF can pre] Let_def
      by (auto simp: nextAvailable_def d)
    have "ledger_inv t"
      using posted_ledger [OF _ _ fresh pos t] inv acc by (simp add: wallet_inv_def)
    moreover have "w_accountId s \<noteq> None" "status_inv s" using acc inv by (simp_all add: wallet_inv_def)
    ultimately have "wallet_inv s' \<and> w_accountId s' = w_accountId t \<and> w_entries s' = w_entries t \<and>
        w_availableBalanceAmount s' = w_availableBalanceAmount t \<and> w_currencyCode s' = w_currencyCode t"
      by (rule transition_inv [where t = "lp_postedAt d" and h = h])
         (use tr same rest in simp_all)
    then show ?thesis using same d rng pos by (intro exI [of _ d]) simp
  qed
qed

lemma decided_open:
  assumes "wallet_inv s" and "decideOpenWallet h s c = Inr es"
    and "applyEvents s (evolveWallet h) es = Inr s'"
  shows "wallet_inv s'"
  using assms opened_inv
  by (auto simp: decideOpenWallet_def res_simps applyEvents_Cons split: if_splits)

lemma decided_mark:
  assumes inv: "wallet_inv s" and dec: "decideMarkLedgerEntryAvailable h s c = Inr es"
    and ev: "applyEvents s (evolveWallet h) es = Inr s'"
  shows "wallet_inv s'"
proof (cases "es = []")
  case True
  then show ?thesis using inv ev by simp
next
  case False
  with dec obtain a e n tr where acc: "w_accountId s = Some a"
    and f: "find (\<lambda>x. le_ledgerEntryId x = ma_ledgerEntryId c) (w_entries s) = Some e"
    and st: "le_fundsStatus e \<noteq> FundsAvailable" "le_direction e = Credit"
    and n: "addMoney (w_availableBalanceAmount s) (le_amount e) = Inr n"
    and tr: "negativeBalanceTransitionEvents s n (ma_availableAt c) = Inr tr"
    and es: "es = LedgerEntryAvailableRecorded a (le_ledgerEntryId e) (le_amount e) (ma_availableAt c) # tr"
    unfolding decideMarkLedgerEntryAvailable_def by (auto simp: res_simps split: option.splits if_splits)
  have e: "e \<in> set (w_entries s)" using f by (auto simp: find_Some_iff)
  have pend: "le_fundsStatus e = FundsPending" using st by (cases "le_fundsStatus e") auto
  from ev es obtain t where t: "evolveLedgerEntryAvailable s (le_ledgerEntryId e) (le_amount e) (ma_availableAt c) = Inr t"
    and rest: "applyEvents t (evolveWallet h) tr = Inr s'"
    by (auto simp: applyEvents_Cons)
  have same: "w_negativeBalanceStatus t = w_negativeBalanceStatus s"
      "w_negativeBalanceStartedAt t = w_negativeBalanceStartedAt s"
      "w_collectionsEscalatedAt t = w_collectionsEscalatedAt s" "w_availableBalanceAmount t = n"
    using t n by (auto simp: evolveLedgerEntryAvailable_def res_simps)
  have "ledger_inv t" "w_accountId s \<noteq> None" "status_inv s"
    using available_ledger(1) [OF _ e pend st(2) t] inv acc by (simp_all add: wallet_inv_def)
  then show ?thesis
    by (rule transition_inv [where t = "ma_availableAt c" and h = h, THEN conjunct1])
       (use tr same rest in simp_all)
qed


lemma decided_capture_legs:
  assumes "wallet_inv s" and "postCaptureLegs h s legs = Inr es"
    and "applyEvents s (evolveWallet h) es = Inr s'"
  shows "wallet_inv s'"
  using assms
proof (induction legs arbitrary: s es)
  case Nil
  then show ?case by simp
next
  case (Cons leg legs)
  show ?case
  proof (cases "compareMoney (pl_amount leg) ''0.00'' = Inr 0")
    case True
    then show ?thesis using Cons by simp
  next
    case False
    with Cons.prems(2) obtain ps t rest where p: "decidePostLedgerEntry h s leg = Inr ps"
      and t: "foldE (evolveWallet h) s ps = Inr t" and r: "postCaptureLegs h t legs = Inr rest"
      and es: "es = ps @ rest"
      by (auto simp: res_simps split: if_splits)
    have t': "applyEvents s (evolveWallet h) ps = Inr t" using t by (simp add: applyEvents_def)
    then have rest: "applyEvents t (evolveWallet h) rest = Inr s'"
      using Cons.prems(3) es by (auto simp: applyEvents_append)
    have "wallet_inv t" using decided_posting [OF Cons.prems(1) p t'] by blast
    then show ?thesis using Cons.IH r rest by blast
  qed
qed

lemma decided_capture:
  assumes "wallet_inv s" and "decideCreditSellerCapture h s c = Inr es"
    and "applyEvents s (evolveWallet h) es = Inr s'"
  shows "wallet_inv s'"
proof (cases "es = []")
  case True
  then show ?thesis using assms by simp
next
  case False
  with assms(2) obtain amount where "postCapture h s c amount (cs_postedAt c) = Inr es"
    unfolding decideCreditSellerCapture_def Let_def
    by (auto simp: res_simps checkCaptureEvidence_def Let_def split: if_splits)
  then obtain legs where "postCaptureLegs h s legs = Inr es"
    by (auto simp: postCapture_def res_simps)
  then show ?thesis using decided_capture_legs assms by blast
qed

lemma decided_collections:
  assumes inv: "wallet_inv s" and dec: "decideEvaluateCollections h s c = Inr es"
    and ev: "applyEvents s (evolveWallet h) es = Inr s'"
  shows "wallet_inv s'"
proof (cases "es = []")
  case True
  then show ?thesis using inv ev by simp
next
  case False
  with dec obtain d where es: "es = [NegativeBalanceCollectionsOpenedEv d]"
    and st: "w_negativeBalanceStatus s = NegativeBalance"
    unfolding decideEvaluateCollections_def Let_def
    by (cases "w_accountId s"; cases "w_negativeBalanceStartedAt s")
       (auto simp: res_simps simp del: not_None_eq split: if_splits)
  have "s' = s\<lparr>w_negativeBalanceStatus := Collections, w_negativeBalanceStartedAt := Some (co_negativeSince d),
      w_collectionsEscalatedAt := Some (co_openedAt d), w_updatedAt := Some (co_openedAt d)\<rparr>"
    using ev es by (simp add: applyEvents_def)
  then show ?thesis using inv st by (simp add: wallet_inv_def ledger_defs status_inv_def)
qed

lemma walletSpendableBalanceAmount_Inr:
  assumes "canonical_balances s" and "walletSpendableBalanceAmount s = Inr t"
  shows "canonical t \<and> centsOf t = max 0 (centsOf (w_availableBalanceAmount s) - centsOf (w_heldBalanceAmount s))"
  using assms
  by (auto simp: walletSpendableBalanceAmount_def canonical_balances_def res_simps canon_simps max_def
      split: if_splits)

lemma minMoney_canonical:
  "canonical a \<Longrightarrow> canonical b \<Longrightarrow> minMoney a b = Inr (if centsOf a \<le> centsOf b then a else b)"
  by (simp add: minMoney_def canon_simps)

lemma decidePlaceSpendHold_shape:
  assumes dec: "decidePlaceSpendHold h s c = Inr es" and can: "canonical_balances s" and ne: "es \<noteq> []"
  obtains d req where "es = [WalletSpendHoldPlaced d]" "w_accountId s = Some (hp_accountId d)"
    "w_currencyCode s = Some (hp_currencyCode d)" "hp_holdId d = ph_holdId c"
    "hp_holdId d \<notin> sh_holdId ` set (w_spendHolds s)" "hp_paymentId d = ph_paymentId c"
    "normalizeMoneyAmount (ph_amount c) True ''Spend hold amount'' = Inr req"
    "positiveMoney (hp_amount d)"
    "centsOf (hp_amount d) = min (centsOf req)
       (centsOf (w_availableBalanceAmount s) - centsOf (w_heldBalanceAmount s))"
proof -
  from dec ne obtain a cur req sp held where acc: "w_accountId s = Some a" "w_currencyCode s = Some cur"
    and fresh: "\<not> list_ex (\<lambda>hold. sh_holdId hold = ph_holdId c) (w_spendHolds s)"
    and req: "normalizeMoneyAmount (ph_amount c) True ''Spend hold amount'' = Inr req"
    and sp: "walletSpendableBalanceAmount s = Inr sp" and held: "minMoney req sp = Inr held"
    and pos: "\<exists>k. compareMoney held ''0.00'' = Inr k \<and> \<not> k \<le> 0"
    and es: "\<exists>e. es = [WalletSpendHoldPlaced
              \<lparr>hp_accountId = a, hp_holdId = ph_holdId c, hp_paymentId = ph_paymentId c, hp_amount = held,
               hp_currencyCode = cur, hp_placedAt = ph_placedAt c, hp_expiresAt = e\<rparr>]"
    unfolding decidePlaceSpendHold_def by (auto simp: res_simps split: option.splits if_splits)
  have req': "canonical req" using normalizeMoneyAmount_canonical [OF req] by simp
  note sp' = walletSpendableBalanceAmount_Inr [OF can sp]
  have held': "held = (if centsOf req \<le> centsOf sp then req else sp)"
    using held minMoney_canonical [OF req'] sp' by simp
  have "canonical held" using held' req' sp' by simp
  moreover from this have "0 < centsOf held" using pos by (auto simp: canon_simps split: if_splits)
  ultimately show thesis
    using es acc fresh req sp' held' by (auto intro!: that simp: list_ex_iff positiveMoney_def)
qed


lemma decided_place:
  assumes inv: "wallet_inv s" and dec: "decidePlaceSpendHold h s c = Inr es"
    and ev: "applyEvents s (evolveWallet h) es = Inr s'"
  shows "wallet_inv s'"
proof (cases "es = []")
  case True
  then show ?thesis using inv ev by simp
next
  case False
  have led: "ledger_inv s" "canonical_balances s" "status_inv s"
    using inv by (simp_all add: wallet_inv_def ledger_inv_def)
  show ?thesis
  proof (rule decidePlaceSpendHold_shape [OF dec led(2) False])
    fix d :: SpendHoldPlaced
    assume d: "es = [WalletSpendHoldPlaced d]" "w_accountId s = Some (hp_accountId d)"
      "hp_holdId d \<notin> sh_holdId ` set (w_spendHolds s)" "positiveMoney (hp_amount d)"
    from ev d(1) have e: "evolveSpendHoldPlaced s d = Inr s'" by (simp add: applyEvents_Cons)
    have "ledger_inv s'" by (rule held_placed_ledger [OF led(1) _ d(3,4) e]) (simp add: d(2))
    moreover have "status_inv s'"
      using e led(3) by (auto simp: evolveSpendHoldPlaced_def res_simps status_inv_def)
    ultimately show ?thesis by (simp add: wallet_inv_def)
  qed
qed

lemma decided_release:
  assumes inv: "wallet_inv s" and dec: "decideReleaseSpendHold h s c = Inr es"
    and ev: "applyEvents s (evolveWallet h) es = Inr s'"
  shows "wallet_inv s'"
proof (cases "es = []")
  case True
  then show ?thesis using inv ev by simp
next
  case False
  with dec obtain d x where f: "find (\<lambda>y. sh_holdId y = rh_holdId c) (w_spendHolds s) = Some x"
    and st: "sh_status x = HoldActive" and es: "es = [WalletSpendHoldReleased d]"
    and d: "hr_holdId d = sh_holdId x" "hr_amount d = sh_amount x"
    unfolding decideReleaseSpendHold_def by (auto simp: res_simps split: option.splits if_splits)
  from ev es have e: "evolveSpendHoldReleased s d = Inr s'" by (simp add: applyEvents_Cons)
  have x: "x \<in> set (w_spendHolds s)" using f by (auto simp: find_Some_iff)
  have "ledger_inv s'" using held_released_ledger [OF _ x st d e] inv by (simp add: wallet_inv_def)
  moreover have "status_inv s'"
    using e inv by (auto simp: evolveSpendHoldReleased_def res_simps wallet_inv_def status_inv_def)
  ultimately show ?thesis by (simp add: wallet_inv_def)
qed

lemma decided_staging:
  assumes inv: "wallet_inv s"
    and dec: "decideStagingProofCredit h s receipt (decideWalletCore h) (evolveWallet h) = Inr es"
    and ev: "applyEvents s (evolveWallet h) es = Inr s'"
  shows "wallet_inv s'"
proof (cases "es = []")
  case True
  then show ?thesis using inv ev by simp
next
  case False
  with dec obtain co cp open_es t credit where op: "decideOpenWallet h s co = Inr open_es"
    and t: "foldE (evolveWallet h) s open_es = Inr t" and p: "decidePostLedgerEntry h t cp = Inr credit"
    and es: "es = open_es @ credit @ [StagingProofCreditPosted receipt]"
    unfolding decideStagingProofCredit_def requireProof_def
    by (auto simp: res_simps simp del: append_assoc append_same_eq append1_eq_conv append_is_Nil_conv
        split: option.splits) blast+
  have t': "applyEvents s (evolveWallet h) open_es = Inr t" using t by (simp add: applyEvents_def)
  from ev t' obtain u where u: "applyEvents t (evolveWallet h) credit = Inr u"
    and last: "applyEvents u (evolveWallet h) [StagingProofCreditPosted receipt] = Inr s'"
    unfolding es applyEvents_append by auto
  have "wallet_inv u" using decided_posting [OF decided_open [OF inv op t'] p u] by blast
  moreover have "s' = u\<lparr>w_stagingProofCredits := w_stagingProofCredits u @ [receipt]\<rparr>"
    using last by (auto simp: applyEvents_Cons res_simps)
  ultimately show ?thesis by (simp add: wallet_inv_def ledger_defs status_inv_def)
qed

lemma decided_wallet:
  assumes "wallet_inv s" and "decideWallet h s c = Inr es" and "applyEvents s (evolveWallet h) es = Inr s'"
  shows "wallet_inv s'"
proof (cases c)
  case (PostLedgerEntry x)
  then have "decidePostLedgerEntry h s x = Inr es" using assms(2) by simp
  then show ?thesis using decided_posting [OF assms(1) _ assms(3)] by blast
next
  case (PostStagingProofCredit x)
  then show ?thesis using decided_staging [OF assms(1) _ assms(3)] assms(2) by simp
next
  case (OpenWallet x)
  then show ?thesis using decided_open [OF assms(1) _ assms(3)] assms(2) by simp
next
  case (CreditSellerCapture x)
  then show ?thesis using decided_capture [OF assms(1) _ assms(3)] assms(2) by simp
next
  case (MarkLedgerEntryAvailable x)
  then show ?thesis using decided_mark [OF assms(1) _ assms(3)] assms(2) by simp
next
  case (EvaluateNegativeBalanceCollections x)
  then show ?thesis using decided_collections [OF assms(1) _ assms(3)] assms(2) by simp
next
  case (PlaceSpendHold x)
  then show ?thesis using decided_place [OF assms(1) _ assms(3)] assms(2) by simp
next
  case (ReleaseSpendHold x)
  then show ?thesis using decided_release [OF assms(1) _ assms(3)] assms(2) by simp
qed

section \<open>Seller capture credits\<close>

definition captureEntry ::
    "CreditSellerCaptureCommand \<Rightarrow> string \<Rightarrow> LedgerEntryFundsStatus \<Rightarrow> int \<Rightarrow> WalletLedgerEntry \<Rightarrow> bool" where
  "captureEntry c i fs a e \<longleftrightarrow>
     le_ledgerEntryId e = i \<and> le_fundsStatus e = fs \<and> centsOf (le_amount e) = a \<and>
     positiveMoney (le_amount e) \<and> le_kind e = captureKind c \<and> le_direction e = Credit \<and>
     le_orderId e = Some (cs_orderId c) \<and> le_paymentId e = Some (cs_paymentId c) \<and>
     le_payoutId e = None \<and> le_availableAt e = None"

lemma captureKind_normalized:
  "cs_kind c = ''sale'' \<or> cs_kind c = ''rebate'' \<Longrightarrow>
   normalizeLedgerEntryKind (cs_kind c) = Inr k \<Longrightarrow> k = captureKind c"
  by (auto simp: normalizeLedgerEntryKind_def captureKind_def js_trim_def js_space_def Let_def)

lemma posted_leg:
  assumes inv: "wallet_inv s" and k: "cs_kind c = ''sale'' \<or> cs_kind c = ''rebate''"
    and amt: "canonical amount" "0 \<le> centsOf amount"
    and dec: "decidePostLedgerEntry h s (captureLeg c amount i fs desc t) = Inr es"
    and ev: "applyEvents s (evolveWallet h) es = Inr s'"
  shows "wallet_inv s' \<and> w_accountId s' = w_accountId s \<and> w_currencyCode s' = w_currencyCode s \<and>
    (\<exists>e. w_entries s' = w_entries s @ [e] \<and> captureEntry c i fs (centsOf amount) e) \<and>
    centsOf (w_availableBalanceAmount s') =
      centsOf (w_availableBalanceAmount s) + (if fs = FundsAvailable then centsOf amount else 0)"
proof -
  obtain d where d: "wallet_inv s'" "w_accountId s' = w_accountId s" "w_currencyCode s' = w_currencyCode s"
      "w_entries s' = w_entries s @ [postedEntry d]" "lp_ledgerEntryId d = i"
      "normalizeLedgerEntryKind (cs_kind c) = Inr (lp_kind d)" "lp_orderId d = Some (cs_orderId c)"
      "lp_paymentId d = Some (cs_paymentId c)" "lp_payoutId d = None" "positiveMoney (lp_amount d)"
      "lp_direction d = Credit" "lp_fundsStatus d = fs"
      "normalizeMoneyAmount amount False ''Ledger entry amount'' = Inr (lp_amount d)"
      "centsOf (w_availableBalanceAmount s') = nextAvailable s Credit fs (lp_amount d)"
    using decided_posting [OF inv dec ev] by (auto simp: captureLeg_def)
  have "lp_amount d = amount"
    using d(13) amt by (auto elim!: canonicalE simp: normalizeMoneyAmount_def money_simps split: if_splits)
  then show ?thesis
    using d captureKind_normalized [OF k d(6)]
    by (intro conjI exI [of _ "postedEntry d"]) (auto simp: captureEntry_def postedEntry_def nextAvailable_def)
qed

lemma postCapture_shape:
  assumes inv: "wallet_inv s" and k: "cs_kind c = ''sale'' \<or> cs_kind c = ''rebate''"
    and amt: "canonical amount" "0 < centsOf amount"
    and dec: "postCapture h s c amount t = Inr es" and ev: "applyEvents s (evolveWallet h) es = Inr s'"
  defines "off \<equiv> min (centsOf amount) (max 0 (- centsOf (w_availableBalanceAmount s)))"
  shows "w_accountId s' = w_accountId s \<and> w_currencyCode s' = w_currencyCode s \<and>
    centsOf (w_availableBalanceAmount s') = centsOf (w_availableBalanceAmount s) + off \<and>
    (\<exists>new. w_entries s' = w_entries s @ new \<and>
       (if off = 0 then \<exists>e. new = [e] \<and> captureEntry c (captureBaseId c) FundsPending (centsOf amount) e
        else if off = centsOf amount
        then \<exists>e. new = [e] \<and> captureEntry c (captureBaseId c) FundsAvailable (centsOf amount) e
        else \<exists>p b. new = [p, b] \<and>
          captureEntry c (captureBaseId c @ ''_pending'') FundsPending (centsOf amount - off) p \<and>
          captureEntry c (captureBaseId c) FundsAvailable off b))"
proof -
  have can: "canonical (w_availableBalanceAmount s)" using inv by (simp add: wallet_inv_def ledger_defs)
  have rng: "in_range off" "in_range (centsOf amount - off)" "0 \<le> off" "off \<le> centsOf amount"
    using amt canonical_in_range [OF amt(1)] unfolding off_def in_range_def by (auto simp: min_def max_def)
  have offset: "captureOffset s amount = Inr (formatCents off)"
  proof (cases "centsOf (w_availableBalanceAmount s) < 0")
    case True
    let ?owed = "- centsOf (w_availableBalanceAmount s)"
    have "in_range ?owed" using canonical_in_range [OF can] by (simp add: in_range_def)
    then have "subtractMoney ''0.00'' (w_availableBalanceAmount s) = Inr (formatCents ?owed)"
      and "minMoney amount (formatCents ?owed) = Inr (formatCents off)"
      using can amt True
      by (auto simp: canon_simps minMoney_canonical off_def canonical_format_cents min_def max_def)
    then show ?thesis
      using can True \<open>in_range ?owed\<close>
      by (simp add: captureOffset_def subtractMoney_canonical compareMoney_canonical centsToSignedMoneyAmount_big)
  next
    case False
    then show ?thesis
      using can amt by (simp add: captureOffset_def canon_simps off_def formatCents_0)
  qed
  have rem: "subtractMoney amount (formatCents off) = Inr (formatCents (centsOf amount - off))"
    using amt rng by (simp add: canon_simps)
  let ?legs = "captureLegs c (formatCents off) (formatCents (centsOf amount - off)) (0 < off) t"
  have legs: "postCaptureLegs h s ?legs = Inr es"
    using dec rng by (simp add: postCapture_def offset rem compareMoney_canonical) (simp split: if_splits)
  have legs2: "captureLegs c (formatCents off) (formatCents (centsOf amount - off)) (0 < off) t =
     [captureLeg c (formatCents (centsOf amount - off))
        (if 0 < off then captureBaseId c @ ''_pending'' else captureBaseId c) FundsPending
        (captureDescription c @ '' for order '' @ cs_orderId c) t,
      captureLeg c (formatCents off) (captureBaseId c) FundsAvailable
        (''Negative balance offset from '' @ js_lower (captureDescription c) @ '' for order '' @ cs_orderId c) t]"
    by (simp add: captureLegs_def)
  have amount_of: "pl_amount (captureLeg c a i fs x t) = a" for a i fs x t by (simp add: captureLeg_def)
  have zero: "compareMoney (formatCents a) ''0.00'' = Inr 0 \<longleftrightarrow> a = 0" if "in_range a" for a
    using that by (simp add: canon_simps)
  show ?thesis
  proof (cases "off = 0 \<or> off = centsOf amount")
    case True
    let ?fs = "if off = 0 then FundsPending else FundsAvailable"
    obtain x where "decidePostLedgerEntry h s (captureLeg c (formatCents (centsOf amount)) (captureBaseId c) ?fs x t) = Inr es"
      using legs True amt rng unfolding legs2 postCaptureLegs.simps amount_of
      by (auto simp: canon_simps res_simps zero split: if_splits)
    from posted_leg [OF inv k _ _ this ev] show ?thesis
      using True amt rng canonical_in_range [OF amt(1)] by auto
  next
    case False
    then have pos: "0 < off" "0 < centsOf amount - off" using rng by auto
    then obtain x y ps u rest where
      p: "decidePostLedgerEntry h s (captureLeg c (formatCents (centsOf amount - off))
            (captureBaseId c @ ''_pending'') FundsPending x t) = Inr ps"
      and u: "foldE (evolveWallet h) s ps = Inr u"
      and r: "decidePostLedgerEntry h u (captureLeg c (formatCents off) (captureBaseId c) FundsAvailable y t) = Inr rest"
      and es: "es = ps @ rest"
      using legs rng unfolding legs2 postCaptureLegs.simps amount_of
      by (auto simp: canon_simps res_simps zero split: if_splits)
    have u': "applyEvents s (evolveWallet h) ps = Inr u" using u by (simp add: applyEvents_def)
    then have ev': "applyEvents u (evolveWallet h) rest = Inr s'" using ev es by (auto simp: applyEvents_append)
    note one = posted_leg [OF inv k _ _ p u'] 
    then have "wallet_inv u" using pos rng by simp
    note two = posted_leg [OF this k _ _ r ev']
    show ?thesis using one two pos rng False by auto
  qed
qed

lemma decidePostLedgerEntry_nonempty: "decidePostLedgerEntry h s c \<noteq> Inr []"
  by (auto simp: decidePostLedgerEntry_def Let_def res_simps split: option.splits)

lemma decideCreditSellerCapture_shape:
  assumes dec: "decideCreditSellerCapture h s c = Inr es" and ne: "es \<noteq> []"
  obtains amount where "w_accountId s \<noteq> None" "cs_kind c = ''sale'' \<or> cs_kind c = ''rebate''"
    "normalizeCurrencyCode (cs_currencyCode c) = Inr Usd" "w_currencyCode s = Some Usd"
    "normalizeMoneyAmount (cs_amount c) True ''Seller capture credit amount'' = Inr amount"
    "canonical amount" "0 < centsOf amount"
    "ensureIsoTimestamp h (cs_postedAt c) ''Seller capture credit must record a timestamp.'' = Inr (cs_postedAt c)"
    "filter (\<lambda>e. le_ledgerEntryId e = captureBaseId c \<or> le_ledgerEntryId e = captureBaseId c @ ''_pending'')
       (w_entries s) = []"
    "postCapture h s c amount (cs_postedAt c) = Inr es"
proof -
  obtain cur amount where 1: "w_accountId s \<noteq> None" "cs_kind c = ''sale'' \<or> cs_kind c = ''rebate''"
    "normalizeCurrencyCode (cs_currencyCode c) = Inr cur" "w_currencyCode s = Some cur"
    "normalizeMoneyAmount (cs_amount c) True ''Seller capture credit amount'' = Inr amount"
    "ensureIsoTimestamp h (cs_postedAt c) ''Seller capture credit must record a timestamp.'' = Inr (cs_postedAt c)"
    "filter (\<lambda>e. le_ledgerEntryId e = captureBaseId c \<or> le_ledgerEntryId e = captureBaseId c @ ''_pending'')
       (w_entries s) = []"
    and 2: "compareMoney amount ''0.00'' \<noteq> Inr 0" "postCapture h s c amount (cs_postedAt c) = Inr es"
    using dec ne unfolding decideCreditSellerCapture_def Let_def
    by (auto simp: res_simps checkCaptureEvidence_def Let_def split: if_splits)
  have "canonical amount" "0 \<le> centsOf amount" using normalizeMoneyAmount_canonical [OF 1(5)] by simp_all
  moreover from this have "0 < centsOf amount" using 2(1) by (auto simp: canon_simps split: if_splits)
  moreover have "cur = Usd" by (cases cur) simp
  ultimately show thesis using that 1 2(2) by blast
qed

lemma capture_totals:
  assumes inv: "wallet_inv s" and dec: "decideCreditSellerCapture h s c = Inr es" and ne: "es \<noteq> []"
    and amt: "normalizeMoneyAmount (cs_amount c) True ''Seller capture credit amount'' = Inr amount"
    and ev: "applyEvents s (evolveWallet h) es = Inr s'"
  shows "centsOf (w_availableBalanceAmount s') = centsOf (w_availableBalanceAmount s) +
      min (centsOf amount) (max 0 (- centsOf (w_availableBalanceAmount s))) \<and>
    entriesValue (\<lambda>_. True) (w_entries s') = entriesValue (\<lambda>_. True) (w_entries s) + centsOf amount"
proof (rule decideCreditSellerCapture_shape [OF dec ne])
  fix a
  define off where "off = min (centsOf amount) (max 0 (- centsOf (w_availableBalanceAmount s)))"
  have two: "entriesValue (\<lambda>_. True) (es @ [x, y]) = entriesValue (\<lambda>_. True) es + entryValue x + entryValue y" for es x y
    by (simp add: entriesValue_def)
  have val: "captureEntry c i fs b e \<Longrightarrow> entryValue e = b" for i fs b e
    by (simp add: captureEntry_def entryValue_def)
  assume k: "cs_kind c = ''sale'' \<or> cs_kind c = ''rebate''" and "canonical a" "0 < centsOf a"
    "normalizeMoneyAmount (cs_amount c) True ''Seller capture credit amount'' = Inr a"
    and post: "postCapture h s c a (cs_postedAt c) = Inr es"
  then have "a = amount" "canonical amount" "0 < centsOf amount" using amt by auto
  note sh = postCapture_shape [OF inv k this(2,3) post [unfolded this(1)] ev, folded off_def]
  then obtain new where "w_entries s' = w_entries s @ new"
    and "(\<exists>e. new = [e] \<and> entryValue e = centsOf amount) \<or>
      (\<exists>p b. new = [p, b] \<and> entryValue p = centsOf amount - off \<and> entryValue b = off)"
    using val by (meson)
  then have "entriesValue (\<lambda>_. True) (w_entries s') = entriesValue (\<lambda>_. True) (w_entries s) + centsOf amount"
    by (auto simp: two)
  then show ?thesis using sh by (simp add: off_def)
qed

lemma capture_retry:
  assumes inv: "wallet_inv s" and dec: "decideCreditSellerCapture h s c = Inr es" and ne: "es \<noteq> []"
    and ev: "applyEvents s (evolveWallet h) es = Inr s'"
  shows "decideCreditSellerCapture h s' c = Inr []"
proof (rule decideCreditSellerCapture_shape [OF dec ne])
  fix amount
  let ?b = "captureBaseId c" and ?p = "captureBaseId c @ ''_pending''"
  assume k: "cs_kind c = ''sale'' \<or> cs_kind c = ''rebate''" and amt: "canonical amount" "0 < centsOf amount"
    and g: "w_accountId s \<noteq> None" "normalizeCurrencyCode (cs_currencyCode c) = Inr Usd" "w_currencyCode s = Some Usd"
      "normalizeMoneyAmount (cs_amount c) True ''Seller capture credit amount'' = Inr amount"
      "ensureIsoTimestamp h (cs_postedAt c) ''Seller capture credit must record a timestamp.'' = Inr (cs_postedAt c)"
    and none: "filter (\<lambda>e. le_ledgerEntryId e = ?b \<or> le_ledgerEntryId e = ?p) (w_entries s) = []"
    and post: "postCapture h s c amount (cs_postedAt c) = Inr es"
  note sh = postCapture_shape [OF inv k amt post ev]
  define off where "off = min (centsOf amount) (max 0 (- centsOf (w_availableBalanceAmount s)))"
  from sh obtain new where new: "w_entries s' = w_entries s @ new"
    and ifs: "if off = 0 then \<exists>e. new = [e] \<and> captureEntry c ?b FundsPending (centsOf amount) e
        else if off = centsOf amount then \<exists>e. new = [e] \<and> captureEntry c ?b FundsAvailable (centsOf amount) e
        else \<exists>p b. new = [p, b] \<and> captureEntry c ?p FundsPending (centsOf amount - off) p \<and>
          captureEntry c ?b FundsAvailable off b"
    unfolding off_def [symmetric] by blast
  then have cs: "(\<exists>e fs. new = [e] \<and> captureEntry c ?b fs (centsOf amount) e) \<or>
      (\<exists>p b off. new = [p, b] \<and> captureEntry c ?p FundsPending (centsOf amount - off) p \<and>
         captureEntry c ?b FundsAvailable off b)"
    by (meson)
  have curs: "\<And>e. le_currencyCode e = Usd" using CurrencyCode.exhaust by blast
  have "checkCaptureEvidence c Usd new amount = Inr []"
    using cs
  proof (elim disjE exE conjE)
    fix e fs assume "new = [e]" and e: "captureEntry c ?b fs (centsOf amount) e"
    then show ?thesis
      using amt by (auto simp: checkCaptureEvidence_def captureMatchesFacts_def captureCompleteSingle_def
        captureCompleteSplit_def captureEntry_def positiveMoney_def andE_def canon_simps curs Let_def)
  next
    fix p b off assume "new = [p, b]" and "captureEntry c ?p FundsPending (centsOf amount - off) p"
      and "captureEntry c ?b FundsAvailable off b"
    then show ?thesis
      using amt canonical_in_range [OF amt(1)]
      by (auto simp: checkCaptureEvidence_def captureMatchesFacts_def captureCompleteSingle_def
        captureCompleteSplit_def captureEntry_def positiveMoney_def andE_def canon_simps curs Let_def
        centsToSignedMoneyAmount_big)
  qed
  moreover have "filter (\<lambda>e. le_ledgerEntryId e = ?b \<or> le_ledgerEntryId e = ?p) (w_entries s') = new"
    "new \<noteq> []" using none new cs by (auto simp: captureEntry_def)
  ultimately show ?thesis
    unfolding decideCreditSellerCapture_def Let_def using g k sh by auto
qed

section \<open>Guards of the single commands\<close>

lemma debit_guard:
  assumes inv: "wallet_inv s" and dec: "decidePostLedgerEntry h s c = Inr es"
    and g: "pl_direction c = Debit" "pl_fundsStatus c = FundsAvailable" "\<not> pl_allowNegativeBalance c"
    and ev: "applyEvents s (evolveWallet h) es = Inr s'"
  shows "0 \<le> centsOf (w_availableBalanceAmount s')"
proof -
  obtain d :: LedgerEntryPosted where d: "normalizeMoneyAmount (pl_amount c) False ''Ledger entry amount'' = Inr (lp_amount d)"
    "centsOf (w_availableBalanceAmount s') = nextAvailable s Debit FundsAvailable (lp_amount d)"
    using decided_posting [OF inv dec ev] g by auto
  have can: "canonical (w_availableBalanceAmount s)" using inv by (simp add: wallet_inv_def ledger_defs)
  have "\<exists>k. compareMoney (w_availableBalanceAmount s) (pl_amount c) = Inr k \<and> 0 \<le> k"
    using dec g unfolding decidePostLedgerEntry_def Let_def
    by (cases "w_accountId s") (auto simp: res_simps split: if_splits)
  then have "centsOf (lp_amount d) \<le> centsOf (w_availableBalanceAmount s)"
    unfolding compareMoney_amount [OF can d(1)]
    using can normalizeMoneyAmount_canonical [OF d(1)] by (auto simp: canon_simps split: if_splits)
  then show ?thesis using d(2) by (simp add: nextAvailable_def)
qed

lemma posting_replays_iff:
  assumes inv: "wallet_inv s" and dec: "decidePostLedgerEntry h s c = Inr es"
    and amt: "normalizeMoneyAmount (pl_amount c) False ''Ledger entry amount'' = Inr t"
  shows "(\<exists>s'. applyEvents s (evolveWallet h) es = Inr s') \<longleftrightarrow>
    in_range (centsOf (w_pendingBalanceAmount s) +
       (if pl_fundsStatus c = FundsPending then if pl_direction c = Credit then centsOf t else - centsOf t else 0)) \<and>
    in_range (centsOf (w_totalCreditedAmount s) + (if pl_direction c = Credit then centsOf t else 0)) \<and>
    in_range (centsOf (w_totalDebitedAmount s) + (if pl_direction c = Debit then centsOf t else 0))"
proof -
  have can: "canonical_balances s" using inv by (simp add: wallet_inv_def ledger_inv_def)
  show ?thesis
  proof (rule decidePostLedgerEntry_shape [OF dec can])
    fix d :: LedgerEntryPosted and tr
    let ?n = "nextAvailable s (pl_direction c) (pl_fundsStatus c) (lp_amount d)"
    assume es: "es = WalletLedgerEntryPosted d # tr" and acc: "w_accountId s = Some (lp_accountId d)"
      and d: "lp_direction d = pl_direction c" "lp_fundsStatus d = pl_fundsStatus c"
        "normalizeMoneyAmount (pl_amount c) False ''Ledger entry amount'' = Inr (lp_amount d)"
      and pos: "positiveMoney (lp_amount d)" and rng: "in_range ?n"
      and tr: "negativeBalanceTransitionEvents s (formatCents ?n) (lp_postedAt d) = Inr tr"
    have pre: "canonical (lp_amount d)" "0 \<le> centsOf (lp_amount d)"
      using pos by (simp_all add: positiveMoney_def)
    have "t = lp_amount d" using amt d(3) by simp
    have tail: "\<exists>s'. applyEvents u (evolveWallet h) tr = Inr s'" for u
      using tr rng unfolding negativeBalanceTransitionEvents_eq [OF canonical_format [OF rng] acc] sum.inject
      by (auto simp: applyEvents_def split: if_splits)
    have "(\<exists>s'. applyEvents s (evolveWallet h) es = Inr s') \<longleftrightarrow> (\<exists>u. evolveLedgerEntryPosted s d = Inr u)"
      using tail by (auto simp: es applyEvents_Cons)
    then show ?thesis
      using rng unfolding evolveLedgerEntryPosted_Inr [OF can pre] Let_def \<open>t = lp_amount d\<close> d
      by (cases "pl_direction c"; cases "pl_fundsStatus c") (auto simp: nextAvailable_def)
  qed
qed

text \<open>A pending credit is decided without a look at the pending balance or at the lifetime total, so it is
  accepted when its event no longer applies.\<close>

lemma pending_credit_overflows:
  assumes inv: "wallet_inv s" and acc: "w_accountId s \<noteq> None"
    and fresh: "\<not> hasLedgerEntry (w_entries s) (pl_ledgerEntryId c)"
    and cur: "normalizeCurrencyCode (pl_currencyCode c) = Inr cur" "w_currencyCode s = Some cur"
    and dir: "pl_direction c = Credit" "pl_fundsStatus c = FundsPending"
    and amt: "normalizeMoneyAmount (pl_amount c) False ''Ledger entry amount'' = Inr t"
    and kind: "normalizeLedgerEntryKind (pl_kind c) = Inr k" and date: "Date_parse h (pl_postedAt c) = Some n"
    and over: "MONEY_AMOUNT_MAX_CENTS < centsOf (w_pendingBalanceAmount s) + centsOf t \<or>
      MONEY_AMOUNT_MAX_CENTS < centsOf (w_totalCreditedAmount s) + centsOf t"
  shows "\<exists>new. decidePostLedgerEntry h s c = Inr new \<and>
    (\<forall>later. applyEvents s (evolveWallet h) (new @ later) =
       Inl (Error ''Money cents must be between -999999999999 and 999999999999.''))"
proof -
  obtain a where a: "w_accountId s = Some a" using acc by blast
  have can: "canonical (w_availableBalanceAmount s)" "canonical (w_pendingBalanceAmount s)" "canonical (w_totalCreditedAmount s)"
    using inv by (simp_all add: wallet_inv_def ledger_defs)
  have t: "canonical t" using normalizeMoneyAmount_canonical [OF amt] by simp
  obtain tr where tr: "negativeBalanceTransitionEvents s (w_availableBalanceAmount s) (pl_postedAt c) = Inr tr"
    using negativeBalanceTransitionEvents_eq [OF can(1) a] by blast
  have iso: "ensureIsoTimestamp h (pl_postedAt c) m = Inr (pl_postedAt c)" for m
    by (simp add: ensureIsoTimestamp_def date)
  define d where "d = \<lparr>lp_accountId = a, lp_ledgerEntryId = pl_ledgerEntryId c, lp_kind = k, lp_direction = Credit,
     lp_amount = t, lp_currencyCode = cur, lp_fundsStatus = FundsPending, lp_orderId = pl_orderId c,
     lp_paymentId = pl_paymentId c, lp_payoutId = pl_payoutId c,
     lp_description = normalizeOptionalText (pl_description c), lp_postedAt = pl_postedAt c\<rparr>"
  have dec: "decidePostLedgerEntry h s c = Inr (WalletLedgerEntryPosted d # tr)"
    using a fresh cur dir amt kind tr iso normalizeLedgerEntryDirection_text [of Credit]
      normalizeLedgerEntryFundsStatus_text [of FundsPending]
    by (simp add: decidePostLedgerEntry_def Let_def d_def)
  have "evolveLedgerEntryPosted s d = Inl (Error ''Money cents must be between -999999999999 and 999999999999.'')"
    using over can t
    by (auto simp: evolveLedgerEntryPosted_def signedText_def d_def addMoney_canonical centsToSignedMoneyAmount_big in_range_def)
  with dec show ?thesis by (simp add: applyEvents_def)
qed

lemma hold_placed:
  assumes inv: "wallet_inv s" and dec: "decidePlaceSpendHold h s c = Inr es" and ne: "es \<noteq> []"
    and req: "normalizeMoneyAmount (ph_amount c) True ''Spend hold amount'' = Inr req"
    and ev: "applyEvents s (evolveWallet h) es = Inr s'"
  shows "centsOf (w_heldBalanceAmount s') = centsOf (w_heldBalanceAmount s) +
      min (centsOf req) (centsOf (w_availableBalanceAmount s) - centsOf (w_heldBalanceAmount s)) \<and>
    centsOf (w_heldBalanceAmount s') \<le> centsOf (w_availableBalanceAmount s') \<and>
    decidePlaceSpendHold h s' c = Inr []"
proof -
  have can: "canonical_balances s" using inv by (simp add: wallet_inv_def ledger_inv_def)
  show ?thesis
  proof (rule decidePlaceSpendHold_shape [OF dec can ne])
    fix d :: SpendHoldPlaced and r
    assume d: "es = [WalletSpendHoldPlaced d]" "hp_holdId d = ph_holdId c" "positiveMoney (hp_amount d)"
      "w_accountId s = Some (hp_accountId d)" "w_currencyCode s = Some (hp_currencyCode d)"
      "normalizeMoneyAmount (ph_amount c) True ''Spend hold amount'' = Inr r"
      "centsOf (hp_amount d) = min (centsOf r) (centsOf (w_availableBalanceAmount s) - centsOf (w_heldBalanceAmount s))"
    have s': "s' = s\<lparr>w_heldBalanceAmount := formatCents (centsOf (w_heldBalanceAmount s) + centsOf (hp_amount d)),
        w_spendHolds := w_spendHolds s @ [placedHold d], w_updatedAt := Some (hp_placedAt d)\<rparr>"
      and rng: "in_range (centsOf (w_heldBalanceAmount s) + centsOf (hp_amount d))"
      using ev d(1,3) can by (auto simp: applyEvents_Cons evolveSpendHoldPlaced_def canonical_balances_def
          positiveMoney_def res_simps canon_simps)
    have "decidePlaceSpendHold h s' c = Inr []"
      using dec d(2,4,5) unfolding decidePlaceSpendHold_def s' by (auto simp: res_simps placedHold_def)
    then show ?thesis using s' rng d(6,7) req by simp
  qed
qed

lemma collections_value:
  assumes inv: "wallet_inv s" and acc: "w_accountId s = Some a"
    and st: "w_negativeBalanceStartedAt s = Some started" "Date_parse h started = Some t0"
    and ev: "Date_parse h (ev_evaluatedAt c) = Some t1"
    and th: "normalizeMoneyAmount (ev_collectionsThresholdAmount c) False ''Collections threshold amount'' = Inr th"
    and days: "ev_collectionsGracePeriodDays c = numi n" "0 \<le> n" "n * 86400000 \<le> 2 ^ 53"
      "\<bar>t0 + n * 86400000\<bar> \<le> 2 ^ 53"
  shows "decideEvaluateCollections h s c =
    Inr (if w_negativeBalanceStatus s = NegativeBalance \<and>
            centsOf (w_availableBalanceAmount s) \<le> - centsOf th \<and> t0 + n * 86400000 \<le> t1
         then [NegativeBalanceCollectionsOpenedEv
                 \<lparr>co_accountId = a, co_balanceAmount = w_availableBalanceAmount s, co_negativeSince = started,
                  co_thresholdAmount = th, co_gracePeriodDays = n, co_openedAt = ev_evaluatedAt c\<rparr>]
         else [])"
proof -
  have can: "canonical (w_availableBalanceAmount s)" using inv by (simp add: wallet_inv_def ledger_defs)
  have th': "canonical th" "0 \<le> centsOf th" using normalizeMoneyAmount_canonical [OF th] by simp_all
  have m: "js_mul (js_mul (js_mul (js_mul n 24) 60) 60) 1000 = n * 86400000"
    using days(2,3) by (simp add: js_mul_exact)
  have iso: "ensureIsoTimestamp h (ev_evaluatedAt c) x = Inr (ev_evaluatedAt c)" for x
    using ev by (simp add: ensureIsoTimestamp_Inr)
  have cmp: "compareMoney (w_availableBalanceAmount s) (CHR ''-'' # th) =
      Inr (if centsOf (w_availableBalanceAmount s) < - centsOf th then - 1
           else if - centsOf th < centsOf (w_availableBalanceAmount s) then 1 else 0)"
    using can th' by (simp add: canon_simps)
  show ?thesis
    unfolding decideEvaluateCollections_def Let_def acc option.case iso bindE.simps th st ev prod.case days(1)
      num_to_int_numi m cmp
    using days(2,4) by (simp add: js_add_exact not_less)
qed

interpretation wallet: aggregate initialWalletState "evolveWallet h" "decideWallet h" wallet_inv for h
  by unfold_locales (fact wallet_inv_initial, rule decided_wallet)

end
