(* ===== verification/WalletProps.thy ===== *)
theory WalletProps
  imports WalletFacts
begin

text \<open>
  The properties of the settlement wallet, over the histories its stream can hold. Each is a few
  steps over the facts of \<open>WalletFacts\<close> and of the interpretation \<open>wallet\<close>. The witnesses run
  short command sequences from the initial state.
\<close>

section \<open>Sample histories\<close>

definition sampleHost :: host where
  "sampleHost = \<lparr>host_dateParse = (\<lambda>_. None), host_sha256Hex = (\<lambda>_. ''0123456789abcdef0123456789abcdef'')\<rparr>"

definition sampleOpen :: WalletCommand where
  "sampleOpen = OpenWallet \<lparr>ow_accountId = ''acc_1'', ow_currencyCode = ''USD'', ow_openedAt = ''2026-01-01''\<rparr>"

definition samplePost ::
    "string \<Rightarrow> LedgerEntryDirection \<Rightarrow> LedgerEntryFundsStatus \<Rightarrow> string \<Rightarrow> bool \<Rightarrow> PostLedgerEntryCommand" where
  "samplePost i dir fs amount allow =
     \<lparr>pl_ledgerEntryId = i, pl_kind = ''adjustment'', pl_direction = dir, pl_amount = amount,
      pl_currencyCode = ''usd'', pl_fundsStatus = fs, pl_orderId = None, pl_paymentId = None,
      pl_payoutId = None, pl_description = None, pl_postedAt = ''2026-01-02'',
      pl_allowNegativeBalance = allow\<rparr>"

definition sampleHold :: "string \<Rightarrow> string \<Rightarrow> PlaceSpendHoldCommand" where
  "sampleHold i amount =
     \<lparr>ph_holdId = i, ph_paymentId = None, ph_amount = amount, ph_currencyCode = ''usd'',
      ph_placedAt = ''2026-01-03'', ph_expiresAt = None\<rparr>"

definition sampleCapture :: "string \<Rightarrow> CreditSellerCaptureCommand" where
  "sampleCapture amount =
     \<lparr>cs_kind = ''sale'', cs_amount = amount, cs_currencyCode = ''usd'', cs_orderId = ''ord_1'',
      cs_paymentId = ''pay_1'', cs_postedAt = ''2026-01-04''\<rparr>"

definition walletRun :: "WalletCommand list \<Rightarrow> WalletState res" where
  "walletRun cs = runAndLoad initialWalletState (evolveWallet sampleHost) (decideWallet sampleHost) cs"

definition creditedWallet :: "WalletCommand list" where
  "creditedWallet = [sampleOpen, PostLedgerEntry (samplePost ''led_1'' Credit FundsAvailable ''10.00'' False)]"

definition overdrawnWallet :: "WalletCommand list" where
  "overdrawnWallet = creditedWallet @ [PostLedgerEntry (samplePost ''led_2'' Debit FundsAvailable ''25.00'' True)]"

definition overflowingWallet :: "WalletCommand list" where
  "overflowingWallet =
     [sampleOpen, PostLedgerEntry (samplePost ''led_1'' Credit FundsPending ''9999999999.99'' False)]"

lemma walletRun_reachable:
  "walletRun cs = Inr s \<Longrightarrow>
   \<exists>es. reachable_history initialWalletState (evolveWallet sampleHost) (decideWallet sampleHost) es \<and>
        foldEvents initialWalletState (evolveWallet sampleHost) es = Inr s"
  by (simp add: walletRun_def runAndLoad_reachable)

lemma walletRun_inv: "walletRun cs = Inr s \<Longrightarrow> wallet_inv s"
  using wallet.loaded_inv walletRun_reachable by blast

lemma isr_ex: "\<not> isl m \<Longrightarrow> \<exists>y. m = Inr y"
  by (cases m) auto

lemma creditedWallet_loads: "\<exists>s. walletRun creditedWallet = Inr s"
  by (rule isr_ex) code_simp

lemma overdrawnWallet_loads: "\<exists>s. walletRun overdrawnWallet = Inr s"
  by (rule isr_ex) code_simp


text \<open>One more command on a loaded sample: the state before, the new events, the state after.\<close>

definition walletStep ::
    "WalletCommand list \<Rightarrow> WalletCommand \<Rightarrow> (WalletState \<times> WalletEvent list \<times> WalletState) res" where
  "walletStep cs c =
     bindE (walletRun cs) (\<lambda>s. bindE (decideWallet sampleHost s c) (\<lambda>new.
     bindE (applyEvents s (evolveWallet sampleHost) new) (\<lambda>s'. Inr (s, new, s'))))"

lemma walletStep_cases:
  assumes "case walletStep cs c of Inr (s, new, s') \<Rightarrow> P s new s' | Inl _ \<Rightarrow> False"
  obtains s new s' es where "walletRun cs = Inr s" "decideWallet sampleHost s c = Inr new"
    "applyEvents s (evolveWallet sampleHost) new = Inr s'" "P s new s'"
    "reachable_history initialWalletState (evolveWallet sampleHost) (decideWallet sampleHost) es"
    "foldEvents initialWalletState (evolveWallet sampleHost) es = Inr s"
proof (cases "walletStep cs c")
  case (Inr r)
  then obtain s new s' where r: "r = (s, new, s')" "walletRun cs = Inr s"
    "decideWallet sampleHost s c = Inr new" "applyEvents s (evolveWallet sampleHost) new = Inr s'"
    by (auto simp: walletStep_def res_simps)
  then show thesis using assms Inr walletRun_reachable [OF r(2)] by (auto intro: that)
qed (use assms in simp)


section \<open>The ledger\<close>

text \<open>
  C8. In every wallet that a stream of decided events loads to, the pending, available, credited and
  debited totals are the sums of the ledger entries' amounts, the held balance is the sum of the
  active spend holds, every balance is printed canonically, and entry ids and hold ids are unique.
\<close>

theorem wallet_ledger_adds_up:
  assumes "reachable_history initialWalletState (evolveWallet h) (decideWallet h) es"
    and "foldEvents initialWalletState (evolveWallet h) es = Inr s"
  shows "ledger_sums s \<and> canonical_balances s \<and> ledger_records s"
  using wallet.loaded_inv [OF assms] by (simp add: wallet_inv_def ledger_inv_def)

theorem wallet_ledger_adds_up_witness:
  "\<exists>s. walletRun overdrawnWallet = Inr s \<and> ledger_sums s \<and> canonical_balances s \<and> ledger_records s"
  using overdrawnWallet_loads walletRun_reachable wallet_ledger_adds_up by blast

text \<open>
  A loaded wallet is in good standing exactly when its available balance is not negative; it
  records since when it is negative exactly when it is not in good standing, and an escalation
  exactly when it is in collections.
\<close>

theorem wallet_standing_follows_balance:
  assumes "reachable_history initialWalletState (evolveWallet h) (decideWallet h) es"
    and "foldEvents initialWalletState (evolveWallet h) es = Inr s"
  shows "(w_negativeBalanceStatus s = InGoodStanding) = (0 \<le> centsOf (w_availableBalanceAmount s)) \<and>
    (w_negativeBalanceStartedAt s = None) = (w_negativeBalanceStatus s = InGoodStanding) \<and>
    (w_collectionsEscalatedAt s = None) = (w_negativeBalanceStatus s \<noteq> Collections)"
  using wallet.loaded_inv [OF assms] unfolding wallet_inv_def status_inv_def by blast

text \<open>
  C24. A debit of available funds that the caller did not allow to overdraw, when it is accepted,
  leaves the available balance at zero or above.
\<close>

theorem wallet_debit_never_overdraws:
  assumes "reachable_history initialWalletState (evolveWallet h) (decideWallet h) es"
    and "foldEvents initialWalletState (evolveWallet h) es = Inr s"
    and "pl_direction c = Debit" and "pl_fundsStatus c = FundsAvailable" and "\<not> pl_allowNegativeBalance c"
    and "decideWallet h s (PostLedgerEntry c) = Inr new" and "applyEvents s (evolveWallet h) new = Inr s'"
  shows "0 \<le> centsOf (w_availableBalanceAmount s')"
  using debit_guard [OF wallet.loaded_inv [OF assms(1,2)] _ assms(3-5,7)] assms(6) by simp

theorem wallet_debit_never_overdraws_witness:
  "\<exists>s new s'. walletRun creditedWallet = Inr s \<and>
     decideWallet sampleHost s (PostLedgerEntry (samplePost ''led_3'' Debit FundsAvailable '' 9.5 '' False)) = Inr new \<and>
     applyEvents s (evolveWallet sampleHost) new = Inr s' \<and> 0 \<le> centsOf (w_availableBalanceAmount s')"
proof -
  let ?c = "samplePost ''led_3'' Debit FundsAvailable '' 9.5 '' False"
  have "case walletStep creditedWallet (PostLedgerEntry ?c) of Inr (s, new, s') \<Rightarrow> True | Inl _ \<Rightarrow> False"
    by code_simp
  then show ?thesis
  proof (rule walletStep_cases)
    fix s new s' es
    assume 1: "walletRun creditedWallet = Inr s" "decideWallet sampleHost s (PostLedgerEntry ?c) = Inr new"
      "applyEvents s (evolveWallet sampleHost) new = Inr s'"
      and 2: "reachable_history initialWalletState (evolveWallet sampleHost) (decideWallet sampleHost) es"
      "foldEvents initialWalletState (evolveWallet sampleHost) es = Inr s"
    have "0 \<le> centsOf (w_availableBalanceAmount s')"
      by (rule wallet_debit_never_overdraws [OF 2 _ _ _ 1(2,3)]) (simp_all add: samplePost_def)
    then show ?thesis using 1 by blast
  qed
qed

text \<open>
  A posting decided on a loaded wallet can be replayed exactly when the pending balance and the
  lifetime credited and debited totals stay within the money range: the decider checks the available
  balance only, so a batch that breaks one of the others is stored and then makes every load throw.
\<close>

theorem wallet_posting_replays_iff:
  assumes "reachable_history initialWalletState (evolveWallet h) (decideWallet h) es"
    and "foldEvents initialWalletState (evolveWallet h) es = Inr s"
    and "decideWallet h s (PostLedgerEntry c) = Inr new"
    and "normalizeMoneyAmount (pl_amount c) False ''Ledger entry amount'' = Inr t"
  shows "(\<exists>s'. applyEvents s (evolveWallet h) new = Inr s') =
    (in_range (centsOf (w_pendingBalanceAmount s) +
       (if pl_fundsStatus c = FundsPending then if pl_direction c = Credit then centsOf t else - centsOf t else 0)) \<and>
     in_range (centsOf (w_totalCreditedAmount s) + (if pl_direction c = Credit then centsOf t else 0)) \<and>
     in_range (centsOf (w_totalDebitedAmount s) + (if pl_direction c = Debit then centsOf t else 0)))"
  using posting_replays_iff [OF wallet.loaded_inv [OF assms(1,2)] _ assms(4)] assms(3) by simp

text \<open>
  C29. A wallet can stop loading. A pending credit is accepted whatever the pending balance and the lifetime
  credited total are: in every history of an opened wallet, a well-formed credit under a new id that would
  take either of them above the largest amount is decided and appended, and from then on no continuation
  of the stream loads any more.
\<close>

theorem wallet_history_can_stop_loading:
  assumes "reachable_history initialWalletState (evolveWallet h) (decideWallet h) es"
    and "foldEvents initialWalletState (evolveWallet h) es = Inr s" and "w_accountId s \<noteq> None"
    and "pl_direction c = Credit" and "pl_fundsStatus c = FundsPending"
    and "\<not> hasLedgerEntry (w_entries s) (pl_ledgerEntryId c)"
    and "normalizeCurrencyCode (pl_currencyCode c) = Inr cur" and "w_currencyCode s = Some cur"
    and "normalizeMoneyAmount (pl_amount c) False ''Ledger entry amount'' = Inr t"
    and "normalizeLedgerEntryKind (pl_kind c) = Inr k" and "Date_parse h (pl_postedAt c) = Some n"
    and "MONEY_AMOUNT_MAX_CENTS < centsOf (w_pendingBalanceAmount s) + centsOf t \<or>
      MONEY_AMOUNT_MAX_CENTS < centsOf (w_totalCreditedAmount s) + centsOf t"
  shows "\<exists>new. decideWallet h s (PostLedgerEntry c) = Inr new \<and>
    reachable_history initialWalletState (evolveWallet h) (decideWallet h) (es @ new) \<and>
    (\<forall>later. foldEvents initialWalletState (evolveWallet h) (es @ new @ later) =
       Inl (Error ''Money cents must be between -999999999999 and 999999999999.''))"
proof -
  from pending_credit_overflows [OF wallet.loaded_inv [OF assms(1,2)] assms(3,6-8,4,5,9-12)] obtain new where
    new: "decideWallet h s (PostLedgerEntry c) = Inr new"
      "\<forall>later. applyEvents s (evolveWallet h) (new @ later) =
         Inl (Error ''Money cents must be between -999999999999 and 999999999999.'')" by auto
  with append_decided [OF assms(1,2) new(1)] show ?thesis by (auto simp: fold_run [OF assms(2)])
qed

theorem wallet_history_can_stop_loading_witness:
  "\<exists>es. reachable_history initialWalletState (evolveWallet sampleHost) (decideWallet sampleHost) es \<and>
     (\<forall>later. foldEvents initialWalletState (evolveWallet sampleHost) (es @ later) =
       Inl (Error ''Money cents must be between -999999999999 and 999999999999.''))"
proof -
  let ?c = "samplePost ''led_2'' Credit FundsPending ''0.01'' False"
  have "case walletRun overflowingWallet of
      Inr s \<Rightarrow> w_accountId s \<noteq> None \<and> \<not> hasLedgerEntry (w_entries s) (pl_ledgerEntryId ?c) \<and>
        (case normalizeCurrencyCode (pl_currencyCode ?c) of Inr cur \<Rightarrow> w_currencyCode s = Some cur | Inl _ \<Rightarrow> False) \<and>
        (case normalizeMoneyAmount (pl_amount ?c) False ''Ledger entry amount'' of
           Inr t \<Rightarrow> MONEY_AMOUNT_MAX_CENTS < centsOf (w_pendingBalanceAmount s) + centsOf t | Inl _ \<Rightarrow> False)
    | Inl _ \<Rightarrow> False" by code_simp
  then obtain s cur t where s: "walletRun overflowingWallet = Inr s" "w_accountId s \<noteq> None"
      "\<not> hasLedgerEntry (w_entries s) (pl_ledgerEntryId ?c)"
      "normalizeCurrencyCode (pl_currencyCode ?c) = Inr cur" "w_currencyCode s = Some cur"
      "normalizeMoneyAmount (pl_amount ?c) False ''Ledger entry amount'' = Inr t"
      "MONEY_AMOUNT_MAX_CENTS < centsOf (w_pendingBalanceAmount s) + centsOf t"
    by (auto split: sum.splits)
  have "\<not> isl (normalizeLedgerEntryKind (pl_kind ?c))" "Date_parse sampleHost (pl_postedAt ?c) \<noteq> None" by code_simp+
  then obtain k n where k: "normalizeLedgerEntryKind (pl_kind ?c) = Inr k" "Date_parse sampleHost (pl_postedAt ?c) = Some n"
    by (metis isr_ex option.exhaust)
  obtain es where es: "reachable_history initialWalletState (evolveWallet sampleHost) (decideWallet sampleHost) es"
    "foldEvents initialWalletState (evolveWallet sampleHost) es = Inr s"
    using walletRun_reachable [OF s(1)] by blast
  have c: "pl_direction ?c = Credit" "pl_fundsStatus ?c = FundsPending" by (simp_all add: samplePost_def)
  from wallet_history_can_stop_loading [OF es s(2) c s(3-6) k disjI1 [OF s(7)]] obtain new where
    "reachable_history initialWalletState (evolveWallet sampleHost) (decideWallet sampleHost) (es @ new)"
    "\<forall>later. foldEvents initialWalletState (evolveWallet sampleHost) (es @ new @ later) =
       Inl (Error ''Money cents must be between -999999999999 and 999999999999.'')" by blast
  then show ?thesis by (intro exI [of _ "es @ new"]) simp
qed


section \<open>Spend holds, collections and captures\<close>

text \<open>
  A spend hold that is placed reserves the smaller of what was asked and what is spendable, so
  the held balance never exceeds the available balance after it, and asking again changes nothing.
\<close>

theorem wallet_hold_within_spendable:
  assumes "reachable_history initialWalletState (evolveWallet h) (decideWallet h) es"
    and "foldEvents initialWalletState (evolveWallet h) es = Inr s"
    and "decideWallet h s (PlaceSpendHold c) = Inr new" and "new \<noteq> []"
    and "normalizeMoneyAmount (ph_amount c) True ''Spend hold amount'' = Inr req"
    and "applyEvents s (evolveWallet h) new = Inr s'"
  shows "centsOf (w_heldBalanceAmount s') = centsOf (w_heldBalanceAmount s) +
      min (centsOf req) (centsOf (w_availableBalanceAmount s) - centsOf (w_heldBalanceAmount s)) \<and>
    centsOf (w_heldBalanceAmount s') \<le> centsOf (w_availableBalanceAmount s') \<and>
    decideWallet h s' (PlaceSpendHold c) = Inr []"
  using hold_placed [OF wallet.loaded_inv [OF assms(1,2)] _ assms(4-6)] assms(3) by simp

text \<open>
  An evaluation opens collections exactly when the wallet is negative and not already in
  collections, its debt has reached the threshold and the grace period since it became negative has
  passed, and then records the balance, the start and the terms it was judged by.
\<close>

theorem wallet_collections_condition:
  assumes "reachable_history initialWalletState (evolveWallet h) (decideWallet h) es"
    and "foldEvents initialWalletState (evolveWallet h) es = Inr s"
    and "w_accountId s = Some a" and "w_negativeBalanceStartedAt s = Some started"
    and "Date_parse h started = Some t0" and "Date_parse h (ev_evaluatedAt c) = Some t1"
    and "normalizeMoneyAmount (ev_collectionsThresholdAmount c) False ''Collections threshold amount'' = Inr th"
    and "ev_collectionsGracePeriodDays c = numi n" and "0 \<le> n" and "n * 86400000 \<le> 2 ^ 53"
    and "\<bar>t0 + n * 86400000\<bar> \<le> 2 ^ 53"
  shows "decideWallet h s (EvaluateNegativeBalanceCollections c) =
    Inr (if w_negativeBalanceStatus s = NegativeBalance \<and>
            centsOf (w_availableBalanceAmount s) \<le> - centsOf th \<and> t0 + n * 86400000 \<le> t1
         then [NegativeBalanceCollectionsOpenedEv
                 \<lparr>co_accountId = a, co_balanceAmount = w_availableBalanceAmount s, co_negativeSince = started,
                  co_thresholdAmount = th, co_gracePeriodDays = n, co_openedAt = ev_evaluatedAt c\<rparr>]
         else [])"
  using collections_value [OF wallet.loaded_inv [OF assms(1,2)] assms(3-11)] by simp

text \<open>
  A seller capture that posts anything credits exactly its amount: the part that covers a
  negative available balance goes to the available balance at once and the rest to the pending one,
  and the same command decided again on the resulting wallet is recognised as done.
\<close>

theorem wallet_capture_pays_debt_first:
  assumes "reachable_history initialWalletState (evolveWallet h) (decideWallet h) es"
    and "foldEvents initialWalletState (evolveWallet h) es = Inr s"
    and "decideWallet h s (CreditSellerCapture c) = Inr new" and "new \<noteq> []"
    and "normalizeMoneyAmount (cs_amount c) True ''Seller capture credit amount'' = Inr amount"
    and "applyEvents s (evolveWallet h) new = Inr s'"
  shows "centsOf (w_availableBalanceAmount s') = centsOf (w_availableBalanceAmount s) +
           min (centsOf amount) (max 0 (- centsOf (w_availableBalanceAmount s))) \<and>
    entriesValue (\<lambda>_. True) (w_entries s') = entriesValue (\<lambda>_. True) (w_entries s) + centsOf amount \<and>
    decideWallet h s' (CreditSellerCapture c) = Inr []"
proof -
  have dec: "decideCreditSellerCapture h s c = Inr new" using assms(3) by simp
  note inv = wallet.loaded_inv [OF assms(1,2)]
  show ?thesis using capture_totals [OF inv dec assms(4-6)] capture_retry [OF inv dec assms(4,6)] by simp
qed

end
