(* ===== verification/Storage.thy ===== *)
theory Storage
  imports JsString
begin

text \<open>
  \<open>contracts/event-core/storage.ts\<close> and \<open>codec.ts\<close>: global positions, the records an event
  store exchanges with its callers, the read inputs, and the passthrough codec every modelled
  aggregate uses. Event payloads are JSON; the numbers in them are integers (versions, counts and
  milliseconds: money travels as text).
\<close>

section \<open>JSON\<close>

datatype json =
    JNull
  | JBool bool
  | JNumber int
  | JString string
  | JArray "json list"
  | JObject "(string \<times> json) list"

definition show_int :: "int \<Rightarrow> string" where
  "show_int n = (if n < 0 then CHR ''-'' # show_nat (nat (- n)) else show_nat (nat n))"

definition hex_digit :: "nat \<Rightarrow> char" where
  "hex_digit d = (if d < 10 then char_of (48 + d) else char_of (87 + d))"

text \<open>\<open>JSON.stringify\<close> of a string.\<close>

definition json_char :: "char \<Rightarrow> string" where
  "json_char c =
     (let n = of_char c :: nat
      in if n = 34 \<or> n = 92 then [char_of (92::nat), c]
         else if n = 8 then [char_of (92::nat), CHR ''b'']
         else if n = 9 then [char_of (92::nat), CHR ''t'']
         else if n = 10 then [char_of (92::nat), CHR ''n'']
         else if n = 12 then [char_of (92::nat), CHR ''f'']
         else if n = 13 then [char_of (92::nat), CHR ''r'']
         else if n < 32 then char_of (92::nat) # ''u00'' @ [hex_digit (n div 16), hex_digit (n mod 16)]
         else [c])"

definition json_string :: "string \<Rightarrow> string" where
  "json_string s = char_of (34::nat) # concat (map json_char s) @ [char_of (34::nat)]"

fun join_text :: "string \<Rightarrow> string list \<Rightarrow> string" where
  "join_text sep [] = []"
| "join_text sep [x] = x"
| "join_text sep (x # xs) = x @ sep @ join_text sep xs"

text \<open>
  \<open>stableJsonStringify\<close> of \<open>test-support.ts\<close>. The order of keys is the host's \<open>localeCompare\<close>,
  a parameter. The entries are printed before they are sorted; the sort looks at the keys only.
\<close>

type_synonym locale_compare = "string \<Rightarrow> string \<Rightarrow> int"

fun stableJsonStringify :: "locale_compare \<Rightarrow> json \<Rightarrow> string" where
  "stableJsonStringify lc JNull = ''null''"
| "stableJsonStringify lc (JBool b) = (if b then ''true'' else ''false'')"
| "stableJsonStringify lc (JNumber n) = show_int n"
| "stableJsonStringify lc (JString s) = json_string s"
| "stableJsonStringify lc (JArray xs) = ''['' @ join_text '','' (map (stableJsonStringify lc) xs) @ '']''"
| "stableJsonStringify lc (JObject fields) =
     CHR 0x7B # join_text '',''
       (map (\<lambda>(k, t). json_string k @ '':'' @ t)
         (js_sort (\<lambda>l r. lc (fst l) (fst r)) (map (\<lambda>(k, v). (k, stableJsonStringify lc v)) fields)))
     @ [CHR 0x7D]"


section \<open>Global positions\<close>

text \<open>\<open>/^(0|[1-9]\d*)$/\<close>\<close>

definition global_position_pattern :: "string \<Rightarrow> bool" where
  "global_position_pattern value \<longleftrightarrow>
     value = ''0'' \<or> value \<noteq> [] \<and> hd value \<noteq> CHR ''0'' \<and> list_all is_digit value"

definition parseGlobalPosition :: "string \<Rightarrow> string res" where
  "parseGlobalPosition value =
     ensure (global_position_pattern value)
       (Error ''GlobalPosition must be a canonical unsigned base-10 string.'') (Inr value)"

definition globalPositionFromBigInt :: "int \<Rightarrow> string res" where
  "globalPositionFromBigInt value =
     ensure (\<not> value < 0) (Error ''GlobalPosition must be non-negative.'') (Inr (show_nat (nat value)))"

definition globalPositionToBigInt :: "string \<Rightarrow> nat" where
  "globalPositionToBigInt value = digits_val value"

definition compareGlobalPosition :: "string \<Rightarrow> string \<Rightarrow> int" where
  "compareGlobalPosition left right =
     (let l = globalPositionToBigInt left; r = globalPositionToBigInt right
      in if l < r then - 1 else if l > r then 1 else 0)"


section \<open>Records\<close>

datatype ExpectedStreamVersion = ExpectVersion int | ExpectAny | ExpectNoStream

record EventTraceContext =
  tc_traceId :: "string option"
  tc_spanId :: "string option"
  tc_parentSpanId :: "string option"
  tc_traceState :: "string option"

record EventStoreContext =
  cx_tenantId :: string
  cx_performedByUserId :: string
  cx_forAccountId :: string
  cx_trace :: "EventTraceContext option"

record EventRecordToStore =
  er_eventId :: "string option"
  er_eventType :: string
  er_payload :: json
  er_metadata :: "json option"
  er_occurredAt :: "string option"

record StoredEvent =
  se_eventId :: string
  se_streamId :: string
  se_streamVersion :: nat
  se_globalPosition :: string
  se_tenantId :: string
  se_eventType :: string
  se_payload :: json
  se_metadata :: json
  se_occurredAt :: string
  se_recordedAt :: string
  se_performedByUserId :: string
  se_forAccountId :: string
  se_traceId :: "string option"
  se_spanId :: "string option"
  se_parentSpanId :: "string option"
  se_traceState :: "string option"

text \<open>Configuration grants are opaque to the store: their validator is a parameter.\<close>

record 'g AppendToStreamInput =
  ai_streamId :: string
  ai_expectedVersion :: ExpectedStreamVersion
  ai_events :: "EventRecordToStore list"
  ai_context :: EventStoreContext
  ai_configurationGrants :: "'g list option"

definition EVENT_STORE_READ_PAGE_SIZE_MAX :: int where
  "EVENT_STORE_READ_PAGE_SIZE_MAX = 500"

record ReadStreamInput =
  rs_streamId :: string
  rs_fromVersion :: "jsnum option"
  rs_limit :: "jsnum option"

record ReadAllInput =
  ra_afterGlobalPosition :: "string option"
  ra_atOrBeforeGlobalPosition :: "string option"
  ra_tenantId :: "string option"
  ra_eventTypes :: "string list option"
  ra_streamPrefixes :: "string list option"
  ra_limit :: "jsnum option"


section \<open>Codecs\<close>

record DomainEvent =
  de_type :: string
  de_data :: json

record 'e DomainEventCodec =
  codec_encode :: "'e \<Rightarrow> EventRecordToStore"
  codec_decode :: "string \<Rightarrow> json \<Rightarrow> 'e"

definition createPassthroughDomainEventCodec :: "DomainEvent DomainEventCodec" where
  "createPassthroughDomainEventCodec =
     \<lparr>codec_encode = (\<lambda>event. \<lparr>er_eventId = None, er_eventType = de_type event, er_payload = de_data event,
                               er_metadata = None, er_occurredAt = None\<rparr>),
      codec_decode = (\<lambda>eventType payload. \<lparr>de_type = eventType, de_data = payload\<rparr>)\<rparr>"

text \<open>The contract the repository relies on: decoding what was encoded gives the event back, and the
  store chooses the ids.\<close>

locale event_codec =
  fixes codec :: "'e DomainEventCodec"
  assumes decode_encode: "codec_decode codec (er_eventType (codec_encode codec e)) (er_payload (codec_encode codec e)) = e"
    and encode_no_id: "er_eventId (codec_encode codec e) = None"
begin

lemma decode_all:
  assumes "map (\<lambda>s. (se_eventType s, se_payload s)) ss =
    map (\<lambda>e. (er_eventType (codec_encode codec e), er_payload (codec_encode codec e))) es"
  shows "map (\<lambda>s. codec_decode codec (se_eventType s) (se_payload s)) ss = es"
proof -
  have "map (\<lambda>s. codec_decode codec (se_eventType s) (se_payload s)) ss =
      map (\<lambda>(t, p). codec_decode codec t p) (map (\<lambda>s. (se_eventType s, se_payload s)) ss)"
    by simp
  then show ?thesis unfolding assms by (simp add: decode_encode o_def)
qed

end

interpretation passthrough: event_codec createPassthroughDomainEventCodec
  by unfold_locales (simp_all add: createPassthroughDomainEventCodec_def)


section \<open>Facts about positions\<close>

lemma globalPosition_show [simp]: "globalPositionToBigInt (show_nat n) = n"
  by (simp add: globalPositionToBigInt_def)

lemma compareGlobalPosition_show [simp]:
  "compareGlobalPosition (show_nat m) (show_nat n) = (if m < n then - 1 else if n < m then 1 else 0)"
  by (simp add: compareGlobalPosition_def)


section \<open>Contiguous histories\<close>

definition contiguous :: "nat \<Rightarrow> StoredEvent list \<Rightarrow> bool" where
  "contiguous k es \<longleftrightarrow> map se_streamVersion es = [k..<k + length es]"

lemma contiguous_Nil [simp]: "contiguous k []"
  by (simp add: contiguous_def)

lemma contiguous_Cons [simp]: "contiguous k (e # es) \<longleftrightarrow> se_streamVersion e = k \<and> contiguous (Suc k) es"
  by (auto simp: contiguous_def upt_conv_Cons simp del: upt_Suc)

lemma contiguous_append: "contiguous k (es @ es') \<longleftrightarrow> contiguous k es \<and> contiguous (k + length es) es'"
  by (induction es arbitrary: k) auto

lemma contiguous_version: "contiguous k es \<Longrightarrow> e \<in> set es \<Longrightarrow> k \<le> se_streamVersion e \<and> se_streamVersion e < k + length es"
  by (induction es arbitrary: k) force+

lemma contiguous_nth: "contiguous k es \<Longrightarrow> i < length es \<Longrightarrow> se_streamVersion (es ! i) = k + i"
  by (metis contiguous_def length_map nth_map nth_upt nat_add_left_cancel_less)

lemma contiguous_drop: "contiguous k es \<Longrightarrow> n \<le> length es \<Longrightarrow> contiguous (k + n) (drop n es)"
  using contiguous_append [of k "take n es" "drop n es"] by simp

lemma contiguous_take: "contiguous k es \<Longrightarrow> contiguous k (take n es)"
  using contiguous_append [of k "take n es" "drop n es"] by simp

lemma contiguous_filter: "contiguous k es \<Longrightarrow> filter (\<lambda>e. k + n \<le> se_streamVersion e) es = drop n es"
proof (induction es arbitrary: k n)
  case (Cons e es)
  then show ?case
  proof (cases n)
    case 0
    have "filter (\<lambda>e. k \<le> se_streamVersion e) es = es"
      using Cons.prems contiguous_version [of "Suc k" es] by (intro filter_True) force
    then show ?thesis using 0 Cons.prems by simp
  next
    case (Suc m)
    then show ?thesis using Cons.IH [of "Suc k" m] Cons.prems by simp
  qed
qed simp

end
