(* ===== verification/CompleteStream.thy ===== *)
theory CompleteStream
  imports Storage "HOL-Library.Sublist"
begin

text \<open>
  \<open>contracts/event-core/complete-stream.ts\<close>: the paging reader every aggregate load goes
  through. The reader is a parameter that is told how many pages were asked before, because the
  store may have grown between two pages; the proofs let it grow.
\<close>

definition quoted :: "string \<Rightarrow> string" where
  "quoted s = CHR 0x27 # s @ [CHR 0x27]"

record ReadCompleteStreamInput =
  rc_streamId :: string
  rc_fromVersion :: "jsnum option"
  rc_maxEvents :: "jsnum option"

definition assertPositiveSafeInteger :: "jsnum \<Rightarrow> string \<Rightarrow> nat res" where
  "assertPositiveSafeInteger value fieldName =
     ensure (\<not> (\<not> isSafeInteger value \<or> num_less value (numi 1)))
       (Error (''readCompleteStream '' @ fieldName @ '' must be a positive integer.''))
       (Inr (nat (num_to_int value)))"

fun assertLaterVersions :: "string \<Rightarrow> nat \<Rightarrow> StoredEvent list \<Rightarrow> unit res" where
  "assertLaterVersions streamId previousVersion [] = Inr ()"
| "assertLaterVersions streamId previousVersion (event # events) =
     ensure (se_streamVersion event = previousVersion + 1)
       (Error (''Event stream '' @ quoted streamId @ '' returned non-contiguous stream versions '' @
               show_nat previousVersion @ '' then '' @ show_nat (se_streamVersion event) @
               ''; expected '' @ show_nat (previousVersion + 1) @ ''.''))
       (assertLaterVersions streamId (se_streamVersion event) events)"

fun assertContiguousPage :: "string \<Rightarrow> StoredEvent list \<Rightarrow> nat \<Rightarrow> unit res" where
  "assertContiguousPage streamId [] expectedFirstVersion = Inr ()"
| "assertContiguousPage streamId (firstEvent # laterEvents) expectedFirstVersion =
     ensure (se_streamVersion firstEvent = expectedFirstVersion)
       (Error (''Event stream '' @ quoted streamId @ '' returned stream version '' @
               show_nat (se_streamVersion firstEvent) @ ''; inclusive read expected '' @
               show_nat expectedFirstVersion @ ''.''))
       (assertLaterVersions streamId (se_streamVersion firstEvent) laterEvents)"

lemma assertLaterVersions_Inr: "assertLaterVersions sid v es = Inr () \<longleftrightarrow> contiguous (Suc v) es"
  by (induction es arbitrary: v) auto

lemma assertContiguousPage_Inr: "assertContiguousPage sid es v = Inr () \<longleftrightarrow> contiguous v es"
  by (cases es) (auto simp: assertLaterVersions_Inr)

lemma contiguous_last: "contiguous k es \<Longrightarrow> es \<noteq> [] \<Longrightarrow> se_streamVersion (last es) = k + length es - 1"
proof -
  assume "contiguous k es" "es \<noteq> []"
  then have "se_streamVersion (es ! (length es - 1)) = k + (length es - 1)" "0 < length es"
    using contiguous_nth [of k es "length es - 1"] by simp_all
  then show "se_streamVersion (last es) = k + length es - 1"
    using last_conv_nth [OF \<open>es \<noteq> []\<close>] by simp
qed

type_synonym stream_reader = "nat \<Rightarrow> string \<Rightarrow> nat \<Rightarrow> StoredEvent list res"

function (sequential) completeStreamLoop ::
    "stream_reader \<Rightarrow> string \<Rightarrow> nat option \<Rightarrow> nat \<Rightarrow> nat \<Rightarrow> StoredEvent list \<Rightarrow> StoredEvent list res" where
  "completeStreamLoop reader streamId maxEvents k fromVersion collected =
     bindE (reader k streamId fromVersion) (\<lambda>page.
     if int (length page) > EVENT_STORE_READ_PAGE_SIZE_MAX
     then Inl (Error (''Event stream '' @ quoted streamId @ '' returned '' @ show_nat (length page) @
                      '' events for a 500-event page.''))
     else
     bindE (assertContiguousPage streamId page fromVersion) (\<lambda>_.
     if (case maxEvents of None \<Rightarrow> False | Some m \<Rightarrow> length collected + length page > m)
     then Inl (EventStreamTooLongError streamId (int (the maxEvents)))
     else if int (length page) < EVENT_STORE_READ_PAGE_SIZE_MAX then Inr (collected @ page)
     else if page = [] \<or> int (se_streamVersion (last page)) \<ge> MAX_SAFE_INTEGER
     then Inl (Error (''Event stream '' @ quoted streamId @
                      '' returned an invalid continuation stream version '' @
                      show_nat (se_streamVersion (last page)) @ ''.''))
     else completeStreamLoop reader streamId maxEvents (k + 1) (se_streamVersion (last page) + 1)
            (collected @ page)))"
  by pat_completeness auto
termination
proof (relation "measure (\<lambda>(_, _, _, _, start, _). nat MAX_SAFE_INTEGER - start)", simp, goal_cases)
  case (1 reader streamId maxEvents k start collected page u)
  have "contiguous start page" using 1(3) assertContiguousPage_Inr [of streamId page start] by (cases u) simp
  moreover have "page \<noteq> []" using 1 by simp
  ultimately have "start \<le> se_streamVersion (last page)" using contiguous_version last_in_set by blast
  moreover have "int (se_streamVersion (last page)) < MAX_SAFE_INTEGER" using 1 by simp
  ultimately show ?case by (simp add: MAX_SAFE_INTEGER_def)
qed

declare completeStreamLoop.simps [simp del]

definition readCompleteStream :: "stream_reader \<Rightarrow> ReadCompleteStreamInput \<Rightarrow> StoredEvent list res" where
  "readCompleteStream reader input =
     bindE (assertPositiveSafeInteger (case rc_fromVersion input of None \<Rightarrow> numi 1 | Some v \<Rightarrow> v) ''fromVersion'')
       (\<lambda>initialFromVersion.
     bindE (case rc_maxEvents input of
              None \<Rightarrow> Inr None
            | Some m \<Rightarrow> bindE (assertPositiveSafeInteger m ''maxEvents'') (\<lambda>n. Inr (Some n))) (\<lambda>maxEvents.
       completeStreamLoop reader (rc_streamId input) maxEvents 0 initialFromVersion []))"


section \<open>A growing stream\<close>

text \<open>\<open>hist k\<close> is the stream when the \<open>k\<close>-th page is read.\<close>

definition growing_reader :: "stream_reader \<Rightarrow> string \<Rightarrow> (nat \<Rightarrow> StoredEvent list) \<Rightarrow> bool" where
  "growing_reader reader sid hist \<longleftrightarrow>
     (\<forall>k. contiguous 1 (hist k) \<and> int (length (hist k)) < MAX_SAFE_INTEGER \<and>
        prefix (hist k) (hist (Suc k))) \<and>
     (\<forall>k v. 1 \<le> v \<longrightarrow> reader k sid v = Inr (take 500 (drop (v - 1) (hist k))))"

lemma page_of_history:
  assumes "contiguous 1 h" and "1 \<le> v"
  shows "contiguous v (take 500 (drop (v - 1) h))"
proof (cases "v - 1 \<le> length h")
  case True
  then show ?thesis using contiguous_take contiguous_drop [OF assms(1) True] assms(2) by simp
qed simp

lemma growing_prefix:
  assumes g: "growing_reader reader sid hist" and "k \<le> n"
  shows "prefix (hist k) (hist n)"
  using assms(2)
proof (induction n rule: dec_induct)
  case (step n)
  have "prefix (hist n) (hist (Suc n))" using g by (simp add: growing_reader_def)
  then show ?case using step prefix_order.trans by blast
qed simp

lemma completeStreamLoop_growing:
  assumes g: "growing_reader reader sid hist" and v: "1 \<le> v"
  shows "\<exists>n\<ge>k. (let all = collected @ drop (v - 1) (hist n)
           in completeStreamLoop reader sid m k v collected = Inr all \<and> (\<forall>b. m = Some b \<longrightarrow> length all \<le> b) \<or>
              (\<exists>b. m = Some b \<and> b < length all \<and>
                 completeStreamLoop reader sid m k v collected = Inl (EventStreamTooLongError sid (int b))))"
  using v
proof (induction "nat MAX_SAFE_INTEGER - v" arbitrary: v k collected rule: less_induct)
  case less
  define page where "page = take 500 (drop (v - 1) (hist k))"
  have h: "contiguous 1 (hist k)" "int (length (hist k)) < MAX_SAFE_INTEGER"
    and rd: "reader k sid v = Inr page"
    using g less.prems by (simp_all add: growing_reader_def page_def)
  have con: "contiguous v page" using page_of_history [OF h(1) less.prems] by (simp add: page_def)
  have len: "length page \<le> 500" by (simp add: page_def)
  note step = completeStreamLoop.simps [of reader sid m k v collected, unfolded rd bindE.simps]
  have ok: "assertContiguousPage sid page v = Inr ()" using con by (simp add: assertContiguousPage_Inr)
  show ?case
  proof (cases "\<exists>b. m = Some b \<and> b < length collected + length page")
    case True
    then obtain b where b: "m = Some b" "b < length collected + length page" by blast
    have "length page \<le> length (drop (v - 1) (hist k))" by (simp add: page_def)
    then have "b < length (collected @ drop (v - 1) (hist k))" using b by simp
    moreover have "completeStreamLoop reader sid m k v collected = Inl (EventStreamTooLongError sid (int b))"
      using b len ok unfolding step by (simp add: EVENT_STORE_READ_PAGE_SIZE_MAX_def)
    ultimately show ?thesis using b(1) by (intro exI [of _ k]) (simp add: Let_def)
  next
    case bound: False
    then have nb: "\<not> (case m of None \<Rightarrow> False | Some b \<Rightarrow> length collected + length page > b)"
      by (auto split: option.splits)
    show ?thesis
    proof (cases "length page < 500")
      case True
      then have "page = drop (v - 1) (hist k)" by (simp add: page_def)
      moreover have "completeStreamLoop reader sid m k v collected = Inr (collected @ page)"
        using True len ok nb unfolding step by (simp add: EVENT_STORE_READ_PAGE_SIZE_MAX_def)
      ultimately show ?thesis using bound by (intro exI [of _ k]) (auto simp: Let_def not_less)
    next
      case False
      then have full: "length page = 500" "page \<noteq> []" using len by auto
      then have last: "se_streamVersion (last page) = v + 499" using contiguous_last [OF con] by simp
      have "v - 1 + 500 \<le> length (hist k)" using full(1) by (auto simp: page_def)
      then have lim: "int (v + 499) < MAX_SAFE_INTEGER" using h(2) less.prems by linarith
      have "completeStreamLoop reader sid m k v collected =
          completeStreamLoop reader sid m (k + 1) (v + 500) (collected @ page)"
        using full ok nb last lim unfolding step
        by (simp add: EVENT_STORE_READ_PAGE_SIZE_MAX_def eval_nat_numeral)
      moreover have dec: "nat MAX_SAFE_INTEGER - (v + 500) < nat MAX_SAFE_INTEGER - v"
        using lim by (simp add: MAX_SAFE_INTEGER_def)
      moreover have "collected @ page @ drop (v + 500 - 1) (hist n) = collected @ drop (v - 1) (hist n)"
        if "n \<ge> k + 1" for n
      proof -
        obtain zs where "hist n = hist k @ zs" using growing_prefix [OF g, of k n] \<open>n \<ge> k + 1\<close> unfolding prefix_def by auto
        then have "drop (v - 1) (hist n) = page @ drop 500 (drop (v - 1) (hist n))"
          using \<open>v - 1 + 500 \<le> length (hist k)\<close> append_take_drop_id [of 500 "drop (v - 1) (hist n)"]
          by (simp add: page_def)
        also have "drop 500 (drop (v - 1) (hist n)) = drop (v + 500 - 1) (hist n)"
          using less.prems by (simp add: add.commute)
        finally show ?thesis by simp
      qed
      moreover obtain n where "n \<ge> k + 1" and "let all = (collected @ page) @ drop (v + 500 - 1) (hist n)
           in completeStreamLoop reader sid m (k + 1) (v + 500) (collected @ page) = Inr all \<and>
                (\<forall>b. m = Some b \<longrightarrow> length all \<le> b) \<or>
              (\<exists>b. m = Some b \<and> b < length all \<and>
                 completeStreamLoop reader sid m (k + 1) (v + 500) (collected @ page) =
                   Inl (EventStreamTooLongError sid (int b)))"
        using less.hyps [OF dec, of "k + 1" "collected @ page"] less.prems by auto
      ultimately show ?thesis by (intro exI [of _ n]) (simp del: drop_drop)
    qed
  qed
qed


section \<open>A stream that does not change\<close>

lemma completeStreamLoop_exact:
  assumes "contiguous 1 h" and "\<And>k v. 1 \<le> v \<Longrightarrow> reader k sid v = Inr (take 500 (drop (v - 1) h))"
    and "1 \<le> v" and "completeStreamLoop reader sid m k v collected = Inr all"
  shows "all = collected @ drop (v - 1) h"
  using assms(3,4)
proof (induction "nat MAX_SAFE_INTEGER - v" arbitrary: v k collected rule: less_induct)
  case less
  define page where "page = take 500 (drop (v - 1) h)"
  have con: "contiguous v page" using page_of_history [OF assms(1) less.prems(1)] by (simp add: page_def)
  have rd: "reader k sid v = Inr page" using assms(2) [OF less.prems(1)] by (simp add: page_def)
  note step = less.prems(2) [unfolded completeStreamLoop.simps [of reader sid m k v] rd bindE.simps]
  consider (last) "length page < 500" "all = collected @ page"
    | (more) "500 \<le> length page" "page \<noteq> []" "int (se_streamVersion (last page)) < MAX_SAFE_INTEGER"
        "completeStreamLoop reader sid m (k + 1) (se_streamVersion (last page) + 1) (collected @ page) = Inr all"
    using step by (auto simp: res_simps EVENT_STORE_READ_PAGE_SIZE_MAX_def split: if_splits)
  then show ?case
  proof cases
    case last
    then show ?thesis by (simp add: page_def)
  next
    case more
    have v': "se_streamVersion (last page) + 1 = v + length page"
      using contiguous_last [OF con more(2)] less.prems(1) by simp
    have len: "length page = 500" using more(1) by (simp add: page_def)
    have "nat MAX_SAFE_INTEGER - (v + 500) < nat MAX_SAFE_INTEGER - v"
      using more(3) v' len by (simp add: MAX_SAFE_INTEGER_def)
    from less.hyps [OF this _ more(4) [unfolded v' len]] have "all = (collected @ page) @ drop (v + 500 - 1) h"
      by simp
    also have "drop (v + 500 - 1) h = drop 500 (drop (v - 1) h)" using less.prems(1) by (simp add: add.commute)
    finally show ?thesis using append_take_drop_id [of 500 "drop (v - 1) h"] by (simp add: page_def)
  qed
qed

end
