(* ===== verification/MemoryStore.thy ===== *)
theory MemoryStore
  imports Storage
begin

text \<open>
  The in-memory event store of \<open>contracts/event-core/test-support.ts\<close>
  (\<open>createInMemoryEventStore\<close>), whose comment states the contract it shares with the Postgres
  store. Its four mutable variables are the record; every operation returns the store it leaves
  behind with its result, also when it throws. The clock and the host's \<open>localeCompare\<close> are
  parameters.
\<close>

record MemoryStore =
  ms_globalPosition :: nat
  ms_streams :: "string \<Rightarrow> StoredEvent list option"
  ms_allEvents :: "StoredEvent list"
  ms_eventsById :: "string \<Rightarrow> StoredEvent option"

definition createInMemoryEventStore :: MemoryStore where
  "createInMemoryEventStore =
     \<lparr>ms_globalPosition = 0, ms_streams = Map.empty, ms_allEvents = [], ms_eventsById = Map.empty\<rparr>"

definition streamEvents :: "MemoryStore \<Rightarrow> string \<Rightarrow> StoredEvent list" where
  "streamEvents store streamId = (case ms_streams store streamId of None \<Rightarrow> [] | Some es \<Rightarrow> es)"


section \<open>Guards\<close>

definition assertStorePositiveInteger :: "jsnum \<Rightarrow> string \<Rightarrow> int res" where
  "assertStorePositiveInteger value fieldName =
     ensure (isInteger value \<and> num_less (numi 0) value)
       (Error (fieldName @ '' must be a positive integer.'')) (Inr (num_to_int value))"

definition assertEventStoreReadPageSize :: "jsnum \<Rightarrow> int res" where
  "assertEventStoreReadPageSize limit =
     ensure (isSafeInteger limit \<and> \<not> num_less limit (numi 1) \<and>
             \<not> num_less (numi EVENT_STORE_READ_PAGE_SIZE_MAX) limit)
       (Error ''Event store read limit must be an integer between 1 and 500.'') (Inr (num_to_int limit))"

definition assertExpectedVersion :: "ExpectedStreamVersion \<Rightarrow> int \<Rightarrow> unit res" where
  "assertExpectedVersion expectedVersion current =
     (case expectedVersion of
        ExpectAny \<Rightarrow> Inr ()
      | ExpectNoStream \<Rightarrow>
          ensure (current = 0)
            (EventStoreError ''concurrency_conflict'' ''Expected no stream but stream already exists.'') (Inr ())
      | ExpectVersion v \<Rightarrow>
          ensure (v = current)
            (EventStoreError ''concurrency_conflict'' ''Expected stream version does not match current version.'')
            (Inr ()))"

definition jsonDefault :: "json option \<Rightarrow> json" where
  "jsonDefault m = (case m of None \<Rightarrow> JObject [] | Some j \<Rightarrow> j)"

definition assertIdempotentEventMatch ::
    "locale_compare \<Rightarrow> StoredEvent \<Rightarrow> 'g AppendToStreamInput \<Rightarrow> string \<Rightarrow> EventRecordToStore option \<Rightarrow> unit res" where
  "assertIdempotentEventMatch lc existing input eventId event =
     (case (case event of
              Some e \<Rightarrow> Some e
            | None \<Rightarrow> find (\<lambda>entry. (case er_eventId entry of None \<Rightarrow> eventId | Some i \<Rightarrow> i) = eventId)
                        (ai_events input)) of
        None \<Rightarrow> Inr ()
      | Some candidate \<Rightarrow>
          ensure (\<not> (se_streamId existing \<noteq> ai_streamId input \<or>
                     se_tenantId existing \<noteq> cx_tenantId (ai_context input) \<or>
                     se_eventType existing \<noteq> er_eventType candidate \<or>
                     stableJsonStringify lc (se_payload existing) \<noteq> stableJsonStringify lc (er_payload candidate) \<or>
                     stableJsonStringify lc (se_metadata existing) \<noteq>
                       stableJsonStringify lc (jsonDefault (er_metadata candidate))))
            (EventStoreError ''concurrency_conflict'' ''Event id was already used with different event data.'')
            (Inr ()))"


section \<open>Appending\<close>

definition newStoredEvent ::
    "string \<Rightarrow> 'g AppendToStreamInput \<Rightarrow> EventRecordToStore \<Rightarrow> string \<Rightarrow> nat \<Rightarrow> nat \<Rightarrow> StoredEvent" where
  "newStoredEvent now input event eventId version position =
     (let trace = cx_trace (ai_context input);
          pick = (\<lambda>f. case trace of None \<Rightarrow> None | Some t \<Rightarrow> f t)
      in \<lparr>se_eventId = eventId, se_streamId = ai_streamId input, se_streamVersion = version,
          se_globalPosition = show_nat position, se_tenantId = cx_tenantId (ai_context input),
          se_eventType = er_eventType event, se_payload = er_payload event,
          se_metadata = jsonDefault (er_metadata event),
          se_occurredAt = (case er_occurredAt event of None \<Rightarrow> now | Some t \<Rightarrow> t), se_recordedAt = now,
          se_performedByUserId = cx_performedByUserId (ai_context input),
          se_forAccountId = cx_forAccountId (ai_context input),
          se_traceId = pick tc_traceId, se_spanId = pick tc_spanId,
          se_parentSpanId = pick tc_parentSpanId, se_traceState = pick tc_traceState\<rparr>)"

text \<open>
  The variables of the loop: the global position, the next version, the events planned so far in
  insertion order (a \<open>Map\<close> by id in the source) and the events to return. The loop returns the
  global position also when it throws, because the source has already bumped the shared counter.
\<close>

record AppendLoop =
  al_position :: nat
  al_nextVersion :: nat
  al_planned :: "StoredEvent list"
  al_stored :: "StoredEvent list"

definition generatedEventId :: "nat \<Rightarrow> string" where
  "generatedEventId position = ''evt_'' @ show_nat (position + 1)"

definition findPlanned :: "StoredEvent list \<Rightarrow> string \<Rightarrow> StoredEvent option" where
  "findPlanned planned eventId = find (\<lambda>e. se_eventId e = eventId) planned"

definition appendOneEvent ::
    "locale_compare \<Rightarrow> string \<Rightarrow> (string \<Rightarrow> StoredEvent option) \<Rightarrow> 'g AppendToStreamInput \<Rightarrow>
     AppendLoop \<Rightarrow> EventRecordToStore \<Rightarrow> AppendLoop res" where
  "appendOneEvent lc now eventsById input st event =
     (let eventId = (case er_eventId event of Some i \<Rightarrow> i | None \<Rightarrow> generatedEventId (al_position st))
      in case eventsById eventId of
           Some existingEvent \<Rightarrow>
             bindE (assertIdempotentEventMatch lc existingEvent input eventId None) (\<lambda>_.
               Inr (st\<lparr>al_stored := al_stored st @ [existingEvent],
                       al_nextVersion := max (al_nextVersion st) (se_streamVersion existingEvent)\<rparr>))
         | None \<Rightarrow>
             (case findPlanned (al_planned st) eventId of
                Some plannedEvent \<Rightarrow>
                  bindE (assertIdempotentEventMatch lc plannedEvent input eventId (Some event)) (\<lambda>_.
                    Inr (st\<lparr>al_stored := al_stored st @ [plannedEvent],
                            al_nextVersion := max (al_nextVersion st) (se_streamVersion plannedEvent)\<rparr>))
              | None \<Rightarrow>
                  let created = newStoredEvent now input event eventId
                                  (al_nextVersion st + 1) (al_position st + 1)
                  in Inr \<lparr>al_position = al_position st + 1, al_nextVersion = al_nextVersion st + 1,
                          al_planned = al_planned st @ [created], al_stored = al_stored st @ [created]\<rparr>))"

fun appendLoop ::
    "locale_compare \<Rightarrow> string \<Rightarrow> (string \<Rightarrow> StoredEvent option) \<Rightarrow> 'g AppendToStreamInput \<Rightarrow>
     AppendLoop \<Rightarrow> EventRecordToStore list \<Rightarrow> nat \<times> AppendLoop res" where
  "appendLoop lc now eventsById input st [] = (al_position st, Inr st)"
| "appendLoop lc now eventsById input st (event # events) =
     (case appendOneEvent lc now eventsById input st event of
        Inl e \<Rightarrow> (al_position st, Inl e)
      | Inr st' \<Rightarrow> appendLoop lc now eventsById input st' events)"

definition appendStoredEvents ::
    "locale_compare \<Rightarrow> string \<Rightarrow> MemoryStore \<Rightarrow> 'g AppendToStreamInput \<Rightarrow> MemoryStore \<times> StoredEvent list res" where
  "appendStoredEvents lc now store input =
     (let existing = streamEvents store (ai_streamId input)
      in case appendLoop lc now (ms_eventsById store) input
                \<lparr>al_position = ms_globalPosition store, al_nextVersion = length existing,
                 al_planned = [], al_stored = []\<rparr> (ai_events input) of
           (position, Inl e) \<Rightarrow> (store\<lparr>ms_globalPosition := position\<rparr>, Inl e)
         | (position, Inr st) \<Rightarrow>
             (\<lparr>ms_globalPosition = position,
               ms_streams = (ms_streams store)(ai_streamId input \<mapsto> existing @ al_planned st),
               ms_allEvents = ms_allEvents store @ al_planned st,
               ms_eventsById = fold (\<lambda>e m. m(se_eventId e \<mapsto> e)) (al_planned st) (ms_eventsById store)\<rparr>,
              Inr (al_stored st)))"

definition storeCurrentVersion :: "MemoryStore \<Rightarrow> 'g AppendToStreamInput \<Rightarrow> int" where
  "storeCurrentVersion store input = int (length (streamEvents store (ai_streamId input)))"

definition storedReplay ::
    "locale_compare \<Rightarrow> MemoryStore \<Rightarrow> 'g AppendToStreamInput \<Rightarrow> string list \<Rightarrow> StoredEvent list res" where
  "storedReplay lc store input ids =
     mapE (\<lambda>eventId.
       case ms_eventsById store eventId of
         None \<Rightarrow> Inl (Error ''unreachable'')
       | Some stored \<Rightarrow>
           bindE (assertIdempotentEventMatch lc stored input eventId None) (\<lambda>_. Inr stored)) ids"

definition memAppend ::
    "locale_compare \<Rightarrow> string \<Rightarrow> MemoryStore \<Rightarrow> 'g AppendToStreamInput \<Rightarrow> MemoryStore \<times> StoredEvent list res" where
  "memAppend lc now store input =
     (if ai_events input = [] then (store, Inr [])
      else
        let deterministicIds = List.map_filter er_eventId (ai_events input)
        in if length deterministicIds = length (ai_events input) \<and>
              list_all (\<lambda>i. ms_eventsById store i \<noteq> None) deterministicIds
           then (store, storedReplay lc store input deterministicIds)
           else
             case assertExpectedVersion (ai_expectedVersion input) (storeCurrentVersion store input) of
               Inl e \<Rightarrow> (store, Inl e)
             | Inr _ \<Rightarrow> appendStoredEvents lc now store input)"

definition hasGrants :: "'g AppendToStreamInput \<Rightarrow> bool" where
  "hasGrants input = (case ai_configurationGrants input of None \<Rightarrow> False | Some gs \<Rightarrow> \<not> List.null gs)"

definition appendToStream ::
    "locale_compare \<Rightarrow> string \<Rightarrow> MemoryStore \<Rightarrow> 'g AppendToStreamInput \<Rightarrow> MemoryStore \<times> StoredEvent list res" where
  "appendToStream lc now store input =
     (if hasGrants input then (store, Inl (Error ''Class-C grants require appendToStreams.''))
      else memAppend lc now store input)"


section \<open>Appending to several streams\<close>

fun checkVersions :: "MemoryStore \<Rightarrow> 'g AppendToStreamInput list \<Rightarrow> unit res" where
  "checkVersions store [] = Inr ()"
| "checkVersions store (input # inputs) =
     bindE (assertExpectedVersion (ai_expectedVersion input) (storeCurrentVersion store input))
       (\<lambda>_. checkVersions store inputs)"

fun appendEach ::
    "locale_compare \<Rightarrow> string \<Rightarrow> MemoryStore \<Rightarrow> 'g AppendToStreamInput list \<Rightarrow>
     MemoryStore \<times> (string \<times> StoredEvent list) list res" where
  "appendEach lc now store [] = (store, Inr [])"
| "appendEach lc now store (input # inputs) =
     (case (if ai_events input = [] then (store, Inr []) else memAppend lc now store input) of
        (store', Inl e) \<Rightarrow> (store', Inl e)
      | (store', Inr stored) \<Rightarrow>
          (case appendEach lc now store' inputs of
             (store'', Inl e) \<Rightarrow> (store'', Inl e)
           | (store'', Inr rest) \<Rightarrow> (store'', Inr ((ai_streamId input, stored) # rest))))"

text \<open>The configuration consumer is an option of the store; its validator may throw. A throw while
  writing restores the variables saved before the batch.\<close>

definition appendToStreams ::
    "('g list \<Rightarrow> unit res) option \<Rightarrow> locale_compare \<Rightarrow> string \<Rightarrow> MemoryStore \<Rightarrow> 'g AppendToStreamInput list \<Rightarrow>
     MemoryStore \<times> (string \<times> StoredEvent list) list res" where
  "appendToStreams validateGrantVector lc now store inputs =
     (let grants = concat (map (\<lambda>i. case ai_configurationGrants i of None \<Rightarrow> [] | Some gs \<Rightarrow> gs) inputs)
      in if \<not> List.null grants \<and> Option.is_none validateGrantVector
         then (store, Inl (Error ''Configuration consumer is not configured.''))
         else
           case (case validateGrantVector of None \<Rightarrow> Inr () | Some validate \<Rightarrow> validate grants) of
             Inl e \<Rightarrow> (store, Inl e)
           | Inr _ \<Rightarrow>
               (case checkVersions store inputs of
                  Inl e \<Rightarrow> (store, Inl e)
                | Inr _ \<Rightarrow>
                    (case appendEach lc now store inputs of
                       (_, Inl e) \<Rightarrow> (store, Inl e)
                     | (store', Inr results) \<Rightarrow> (store', Inr results))))"

datatype AppendToStreamsIndependentOutcome = OutcomeAppended | OutcomeNoOp | OutcomeConflict

record AppendToStreamsIndependentResult =
  ir_streamId :: string
  ir_outcome :: AppendToStreamsIndependentOutcome
  ir_storedEvents :: "StoredEvent list"
  ir_error :: "js_error option"

text \<open>\<open>String(error)\<close> of an error that is not the store's own.\<close>

fun error_text :: "js_error \<Rightarrow> string" where
  "error_text (Error m) = ''Error: '' @ m"
| "error_text (RangeError m) = ''RangeError: '' @ m"
| "error_text (SettlementDomainError m) = ''SettlementDomainError: '' @ m"
| "error_text (StagingProofCreditError m) = ''StagingProofCreditError: '' @ m"
| "error_text (InventoryDomainError m) = ''InventoryDomainError: '' @ m"
| "error_text (PaymentsDomainError m c) = ''PaymentsDomainError: '' @ m"
| "error_text (EventStoreError c m) = ''Error: '' @ m"
| "error_text (EventStreamTooLongError i n) =
     ''EventStreamTooLongError: Event stream '' @ [CHR 0x27] @ i @ [CHR 0x27] @ '' exceeded its '' @
     show_int n @ '' event complete-read bound.''"

fun asEventStoreError :: "js_error \<Rightarrow> js_error" where
  "asEventStoreError (EventStoreError c m) = EventStoreError c m"
| "asEventStoreError e = EventStoreError ''infrastructure_failure'' (error_text e)"

fun appendIndependent ::
    "locale_compare \<Rightarrow> string \<Rightarrow> MemoryStore \<Rightarrow> 'g AppendToStreamInput list \<Rightarrow>
     MemoryStore \<times> AppendToStreamsIndependentResult list" where
  "appendIndependent lc now store [] = (store, [])"
| "appendIndependent lc now store (input # inputs) =
     (let (store', result) =
        (if ai_events input = []
         then (store, \<lparr>ir_streamId = ai_streamId input, ir_outcome = OutcomeNoOp, ir_storedEvents = [],
                       ir_error = None\<rparr>)
         else case memAppend lc now store input of
                (s, Inr stored) \<Rightarrow>
                  (s, \<lparr>ir_streamId = ai_streamId input, ir_outcome = OutcomeAppended,
                       ir_storedEvents = stored, ir_error = None\<rparr>)
              | (s, Inl e) \<Rightarrow>
                  (s, \<lparr>ir_streamId = ai_streamId input, ir_outcome = OutcomeConflict,
                       ir_storedEvents = [], ir_error = Some (asEventStoreError e)\<rparr>))
      in let (store'', results) = appendIndependent lc now store' inputs in (store'', result # results))"

definition appendToStreamsIndependently ::
    "locale_compare \<Rightarrow> string \<Rightarrow> MemoryStore \<Rightarrow> 'g AppendToStreamInput list \<Rightarrow>
     MemoryStore \<times> AppendToStreamsIndependentResult list res" where
  "appendToStreamsIndependently lc now store inputs =
     (if list_ex hasGrants inputs then (store, Inl (Error ''Class-C grants require appendToStreams.''))
      else let (store', results) = appendIndependent lc now store inputs in (store', Inr results))"


section \<open>Reading\<close>

definition memReadStream :: "MemoryStore \<Rightarrow> ReadStreamInput \<Rightarrow> StoredEvent list res" where
  "memReadStream store input =
     bindE (assertStorePositiveInteger (case rs_fromVersion input of None \<Rightarrow> numi 1 | Some v \<Rightarrow> v) ''fromVersion'')
       (\<lambda>fromVersion.
     bindE (assertEventStoreReadPageSize
              (case rs_limit input of None \<Rightarrow> numi EVENT_STORE_READ_PAGE_SIZE_MAX | Some l \<Rightarrow> l)) (\<lambda>limit.
       Inr (take (nat limit)
              (filter (\<lambda>e. fromVersion \<le> int (se_streamVersion e)) (streamEvents store (rs_streamId input))))))"

definition memReadAll :: "MemoryStore \<Rightarrow> ReadAllInput \<Rightarrow> StoredEvent list res" where
  "memReadAll store input =
     bindE (case ra_atOrBeforeGlobalPosition input of
              None \<Rightarrow> Inr None
            | Some p \<Rightarrow> bindE (parseGlobalPosition p) (\<lambda>q. Inr (Some q))) (\<lambda>atOrBefore.
     bindE (assertEventStoreReadPageSize
              (case ra_limit input of None \<Rightarrow> numi EVENT_STORE_READ_PAGE_SIZE_MAX | Some l \<Rightarrow> l)) (\<lambda>limit.
     bindE (globalPositionFromBigInt (int (ms_globalPosition store))) (\<lambda>available.
     ensure (\<not> (case atOrBefore of None \<Rightarrow> False | Some p \<Rightarrow> compareGlobalPosition p available > 0))
       (Error (''Event store read horizon '' @ (case atOrBefore of None \<Rightarrow> [] | Some p \<Rightarrow> p) @
               '' exceeds available global position '' @ available @ ''.'')) (
     let after = globalPositionToBigInt (case ra_afterGlobalPosition input of None \<Rightarrow> ''0'' | Some p \<Rightarrow> p)
     in Inr (take (nat limit)
          (filter (\<lambda>e.
             globalPositionToBigInt (se_globalPosition e) > after \<and>
             (case atOrBefore of None \<Rightarrow> True | Some p \<Rightarrow> compareGlobalPosition (se_globalPosition e) p \<le> 0) \<and>
             (case ra_tenantId input of None \<Rightarrow> True | Some t \<Rightarrow> t = [] \<or> se_tenantId e = t) \<and>
             (case ra_eventTypes input of None \<Rightarrow> True | Some ts \<Rightarrow> ts = [] \<or> se_eventType e \<in> set ts) \<and>
             (case ra_streamPrefixes input of None \<Rightarrow> True
              | Some ps \<Rightarrow> ps = [] \<or> list_ex (\<lambda>p. js_startsWith (se_streamId e) p) ps))
             (ms_allEvents store)))))))"

end
