(* ===== verification/MemoryStoreFacts.thy ===== *)
theory MemoryStoreFacts
  imports MemoryStore
begin

text \<open>
  The invariant of the in-memory event store and what an append does to it. The locale
  \<open>event_store\<close> is the contract the aggregate repository and the command handler rely on; its
  interpretation on the model's store is at the end.
\<close>

section \<open>The store invariant\<close>

definition store_wf :: "MemoryStore \<Rightarrow> bool" where
  "store_wf st \<longleftrightarrow>
     (\<forall>sid. streamEvents st sid = filter (\<lambda>e. se_streamId e = sid) (ms_allEvents st)) \<and>
     (\<forall>sid. contiguous 1 (streamEvents st sid)) \<and>
     distinct (map se_eventId (ms_allEvents st)) \<and>
     ms_eventsById st = map_of (map (\<lambda>e. (se_eventId e, e)) (ms_allEvents st)) \<and>
     sorted_wrt (<) (map (\<lambda>e. globalPositionToBigInt (se_globalPosition e)) (ms_allEvents st)) \<and>
     (\<forall>e\<in>set (ms_allEvents st). globalPositionToBigInt (se_globalPosition e) \<le> ms_globalPosition st)"

lemma store_wf_initial: "store_wf createInMemoryEventStore"
  by (simp add: store_wf_def createInMemoryEventStore_def streamEvents_def)

lemma store_wf_contiguous: "store_wf st \<Longrightarrow> contiguous 1 (streamEvents st sid)"
  unfolding store_wf_def by blast

lemma store_wf_version:
  assumes "store_wf st" and "e \<in> set (streamEvents st sid)"
  shows "1 \<le> se_streamVersion e \<and> se_streamVersion e \<le> length (streamEvents st sid)"
  using assms contiguous_version [of 1] unfolding store_wf_def by fastforce

lemma store_wf_lookup:
  assumes "store_wf st" and "ms_eventsById st i = Some e"
  shows "se_eventId e = i" and "e \<in> set (ms_allEvents st)" and "e \<in> set (streamEvents st (se_streamId e))"
  using assms by (auto simp: store_wf_def dest!: map_of_SomeD)

lemma store_wf_lookup_None:
  "store_wf st \<Longrightarrow> ms_eventsById st i = None \<longleftrightarrow> i \<notin> se_eventId ` set (ms_allEvents st)"
  by (auto simp: store_wf_def map_of_eq_None_iff image_image)

lemma assertIdempotentEventMatch_stream:
  assumes "assertIdempotentEventMatch lc e input i ev = Inr ()"
    and "ev \<noteq> None \<or> (\<exists>x\<in>set (ai_events input). er_eventId x = None \<or> er_eventId x = Some i)"
  shows "se_streamId e = ai_streamId input"
proof -
  have "find (\<lambda>entry. (case er_eventId entry of None \<Rightarrow> i | Some j \<Rightarrow> j) = i) (ai_events input) \<noteq> None"
    if "x \<in> set (ai_events input)" "er_eventId x = None \<or> er_eventId x = Some i" for x
    using that by (auto simp: find_None_iff)
  then show ?thesis
    using assms by (auto simp: assertIdempotentEventMatch_def split: option.splits if_splits)
qed


section \<open>The loop of an append\<close>

definition loop_ok :: "MemoryStore \<Rightarrow> 'g AppendToStreamInput \<Rightarrow> AppendLoop \<Rightarrow> bool" where
  "loop_ok store input st \<longleftrightarrow>
     (let n = length (streamEvents store (ai_streamId input))
      in al_nextVersion st = n + length (al_planned st) \<and>
         contiguous (Suc n) (al_planned st) \<and>
         (\<forall>e\<in>set (al_planned st). se_streamId e = ai_streamId input \<and> ms_eventsById store (se_eventId e) = None) \<and>
         distinct (map se_eventId (al_planned st)) \<and>
         sorted_wrt (<) (map (\<lambda>e. globalPositionToBigInt (se_globalPosition e)) (al_planned st)) \<and>
         (\<forall>e\<in>set (al_planned st). ms_globalPosition store < globalPositionToBigInt (se_globalPosition e) \<and>
            globalPositionToBigInt (se_globalPosition e) \<le> al_position st) \<and>
         ms_globalPosition store \<le> al_position st)"

lemma findPlanned_Some: "findPlanned ps i = Some e \<Longrightarrow> e \<in> set ps \<and> se_eventId e = i"
  by (auto simp: findPlanned_def find_Some_iff)

lemma findPlanned_None: "findPlanned ps i = None \<longleftrightarrow> i \<notin> se_eventId ` set ps"
  by (auto simp: findPlanned_def find_None_iff)

lemma newStoredEvent_fields [simp]:
  "se_eventId (newStoredEvent now input ev i v p) = i"
  "se_streamId (newStoredEvent now input ev i v p) = ai_streamId input"
  "se_streamVersion (newStoredEvent now input ev i v p) = v"
  "se_globalPosition (newStoredEvent now input ev i v p) = show_nat p"
  "se_eventType (newStoredEvent now input ev i v p) = er_eventType ev"
  "se_payload (newStoredEvent now input ev i v p) = er_payload ev"
  by (simp_all add: newStoredEvent_def Let_def)

lemma appendOneEvent_ok:
  assumes wf: "store_wf store" and ok: "loop_ok store input st" and ev: "ev \<in> set (ai_events input)"
    and st': "appendOneEvent lc now (ms_eventsById store) input st ev = Inr st'"
  shows "loop_ok store input st'"
proof -
  define i where "i = (case er_eventId ev of Some j \<Rightarrow> j | None \<Rightarrow> generatedEventId (al_position st))"
  note st' = st' [unfolded appendOneEvent_def i_def [symmetric] Let_def]
  let ?n = "length (streamEvents store (ai_streamId input))"
  consider (existing) e where "ms_eventsById store i = Some e"
    | (planned) e where "ms_eventsById store i = None" "findPlanned (al_planned st) i = Some e"
    | (new) "ms_eventsById store i = None" "findPlanned (al_planned st) i = None"
    by (cases "ms_eventsById store i"; cases "findPlanned (al_planned st) i") auto
  then show ?thesis
  proof cases
    case existing
    have m: "assertIdempotentEventMatch lc e input i None = Inr ()"
      and st'': "st' = st\<lparr>al_stored := al_stored st @ [e],
        al_nextVersion := max (al_nextVersion st) (se_streamVersion e)\<rparr>"
      using st' existing by (auto simp: res_simps)
    have "se_streamId e = ai_streamId input"
      by (rule assertIdempotentEventMatch_stream [OF m])
         (use ev store_wf_lookup [OF wf existing] in \<open>auto simp: i_def split: option.splits\<close>)
    then have "se_streamVersion e \<le> ?n"
      using store_wf_version [OF wf] store_wf_lookup(3) [OF wf existing] by simp
    then show ?thesis using ok by (simp add: loop_ok_def st'' Let_def)
  next
    case planned
    have m: "st' = st\<lparr>al_stored := al_stored st @ [e],
        al_nextVersion := max (al_nextVersion st) (se_streamVersion e)\<rparr>"
      using st' planned by (auto simp: res_simps)
    have "se_streamVersion e \<le> al_nextVersion st"
      using ok contiguous_version [of "Suc ?n"] findPlanned_Some [OF planned(2)] by (fastforce simp: loop_ok_def Let_def)
    then show ?thesis using ok by (simp add: loop_ok_def m Let_def)
  next
    case new
    let ?c = "newStoredEvent now input ev i (al_nextVersion st + 1) (al_position st + 1)"
    have m: "st' = \<lparr>al_position = al_position st + 1, al_nextVersion = al_nextVersion st + 1,
        al_planned = al_planned st @ [?c], al_stored = al_stored st @ [?c]\<rparr>"
      using st' new by simp
    show ?thesis
      using ok new by (auto simp: loop_ok_def m Let_def findPlanned_None sorted_wrt_append contiguous_append)
  qed
qed

lemma appendLoop_ok:
  assumes "store_wf store" and "loop_ok store input st" and "set evs \<subseteq> set (ai_events input)"
    and "appendLoop lc now (ms_eventsById store) input st evs = (p, Inr st')"
  shows "loop_ok store input st' \<and> p = al_position st'"
  using assms(2-)
proof (induction evs arbitrary: st)
  case (Cons ev evs)
  obtain t where t: "appendOneEvent lc now (ms_eventsById store) input st ev = Inr t"
    "appendLoop lc now (ms_eventsById store) input t evs = (p, Inr st')"
    using Cons.prems(3) by (auto split: sum.splits)
  have "loop_ok store input t"
    by (rule appendOneEvent_ok [OF assms(1) Cons.prems(1) _ t(1)]) (use Cons.prems(2) in simp)
  then show ?case using Cons.IH [OF _ _ t(2)] Cons.prems(2) by simp
qed auto

lemma appendOneEvent_position:
  "appendOneEvent lc now m input st ev = Inr st' \<Longrightarrow> al_position st \<le> al_position st'"
  by (auto simp: appendOneEvent_def Let_def res_simps split: option.splits)

lemma appendLoop_position:
  "appendLoop lc now m input st evs = (p, r) \<Longrightarrow> al_position st \<le> p"
  by (induction evs arbitrary: st) (auto split: sum.splits dest: appendOneEvent_position order_trans)

lemma loop_ok_start:
  "loop_ok store input \<lparr>al_position = ms_globalPosition store,
     al_nextVersion = length (streamEvents store (ai_streamId input)), al_planned = [], al_stored = []\<rparr>"
  by (simp add: loop_ok_def)


section \<open>What an append leaves behind\<close>

lemma fold_eventsById:
  "fold (\<lambda>e m. m(se_eventId e \<mapsto> e)) es m = m ++ map_of (rev (map (\<lambda>e. (se_eventId e, e)) es))"
  by (induction es arbitrary: m) auto

lemma distinct_map_of_rev: "distinct (map fst xs) \<Longrightarrow> map_of (rev xs) = map_of xs"
  by (rule map_of_inject_set [THEN iffD2]) (auto simp: rev_map [symmetric])

lemma store_wf_commit:
  assumes wf: "store_wf store" and ok: "loop_ok store input st" and new: "al_planned st = new"
  shows "store_wf \<lparr>ms_globalPosition = al_position st,
      ms_streams = (ms_streams store)(ai_streamId input \<mapsto> streamEvents store (ai_streamId input) @ new),
      ms_allEvents = ms_allEvents store @ new,
      ms_eventsById = fold (\<lambda>e m. m(se_eventId e \<mapsto> e)) new (ms_eventsById store)\<rparr>" (is "store_wf ?st")
proof -
  let ?s = "ai_streamId input"
  have streams: "streamEvents ?st sid = (if sid = ?s then streamEvents store ?s @ new else streamEvents store sid)" for sid
    by (simp add: streamEvents_def)
  have ns: "\<And>e. e \<in> set new \<Longrightarrow> se_streamId e = ?s \<and> se_eventId e \<notin> se_eventId ` set (ms_allEvents store)"
    using ok new store_wf_lookup_None [OF wf] by (auto simp: loop_ok_def Let_def)
  have 1: "streamEvents ?st sid = filter (\<lambda>e. se_streamId e = sid) (ms_allEvents ?st)" for sid
  proof -
    have "filter (\<lambda>e. se_streamId e = sid) new = (if sid = ?s then new else [])"
      using ns by (auto simp: filter_id_conv filter_empty_conv)
    moreover have "streamEvents store x = filter (\<lambda>e. se_streamId e = x) (ms_allEvents store)" for x
      using wf unfolding store_wf_def by blast
    ultimately show ?thesis unfolding streams by simp
  qed
  have 2: "contiguous 1 (streamEvents ?st sid)" for sid
  proof -
    have "contiguous 1 (streamEvents store x)" for x using wf unfolding store_wf_def by blast
    moreover have "contiguous (Suc (length (streamEvents store ?s))) new"
      using ok new by (simp add: loop_ok_def Let_def)
    ultimately show ?thesis unfolding streams using contiguous_append [of 1 "streamEvents store ?s" new] by simp
  qed
  have "i \<notin> se_eventId ` set (ms_allEvents store)" if "i \<in> se_eventId ` set new" for i
    using that ns by auto
  then have disj: "se_eventId ` set (ms_allEvents store) \<inter> se_eventId ` set new = {}" by auto
  have "distinct (map se_eventId (ms_allEvents store))" "distinct (map se_eventId new)"
    using wf ok new by (simp_all add: store_wf_def loop_ok_def Let_def)
  then have 3: "distinct (map se_eventId (ms_allEvents ?st))" using disj by simp
  have "ms_eventsById ?st = map_of (map (\<lambda>e. (se_eventId e, e)) (ms_allEvents store)) ++
      map_of (map (\<lambda>e. (se_eventId e, e)) new)"
    using wf 3 by (simp add: store_wf_def fold_eventsById distinct_map_of_rev o_def)
  also have "\<dots> = map_of (map (\<lambda>e. (se_eventId e, e)) (ms_allEvents ?st))"
  proof -
    have "map_of (map (\<lambda>e. (se_eventId e, e)) new) ++ map_of (map (\<lambda>e. (se_eventId e, e)) (ms_allEvents store)) =
        map_of (map (\<lambda>e. (se_eventId e, e)) (ms_allEvents store)) ++ map_of (map (\<lambda>e. (se_eventId e, e)) new)"
      by (rule map_add_comm) (use ns in \<open>auto simp: dom_map_of_conv_image_fst image_image\<close>)
    then show ?thesis by simp
  qed
  finally have 4: "ms_eventsById ?st = map_of (map (\<lambda>e. (se_eventId e, e)) (ms_allEvents ?st))" .
  have 5: "sorted_wrt (<) (map (\<lambda>e. globalPositionToBigInt (se_globalPosition e)) (ms_allEvents ?st))"
    using wf ok new unfolding store_wf_def loop_ok_def Let_def
    by (auto simp: sorted_wrt_append intro: le_less_trans)
  have 6: "\<forall>e\<in>set (ms_allEvents ?st). globalPositionToBigInt (se_globalPosition e) \<le> ms_globalPosition ?st"
    using wf ok new unfolding store_wf_def loop_ok_def Let_def by (auto intro: order_trans)
  show ?thesis unfolding store_wf_def using 1 2 3 4 5 6 by blast
qed

lemma store_wf_position: "store_wf st \<Longrightarrow> ms_globalPosition st \<le> p \<Longrightarrow> store_wf (st\<lparr>ms_globalPosition := p\<rparr>)"
  unfolding store_wf_def by (auto simp: streamEvents_def intro: order_trans)

lemma streamEvents_position [simp]: "streamEvents (st\<lparr>ms_globalPosition := p\<rparr>) sid = streamEvents st sid"
  by (simp add: streamEvents_def)

lemma appendStoredEvents_wf:
  assumes wf: "store_wf store" and r: "appendStoredEvents lc now store input = (store', r)"
  shows "store_wf store'"
proof -
  let ?st = "\<lparr>al_position = ms_globalPosition store, al_nextVersion = length (streamEvents store (ai_streamId input)),
     al_planned = [], al_stored = []\<rparr>"
  obtain p q where loop: "appendLoop lc now (ms_eventsById store) input ?st (ai_events input) = (p, q)"
    by force
  have p: "ms_globalPosition store \<le> p" using appendLoop_position [OF loop] by simp
  show ?thesis
  proof (cases q)
    case (Inl e)
    then show ?thesis using r loop store_wf_position [OF wf p] by (auto simp: appendStoredEvents_def Let_def)
  next
    case (Inr st)
    then have "loop_ok store input st" "p = al_position st"
      using appendLoop_ok [OF wf loop_ok_start] loop by blast+
    then show ?thesis
      using r loop Inr store_wf_commit [OF wf] by (auto simp: appendStoredEvents_def Let_def)
  qed
qed

lemma memAppend_wf: "store_wf store \<Longrightarrow> memAppend lc now store input = (store', r) \<Longrightarrow> store_wf store'"
  by (auto simp: memAppend_def Let_def split: if_splits sum.splits dest: appendStoredEvents_wf)



section \<open>Appends that leave the ids to the store\<close>

definition store_ok :: "MemoryStore \<Rightarrow> bool" where
  "store_ok st \<longleftrightarrow> store_wf st \<and> (\<forall>n. ms_globalPosition st \<le> n \<longrightarrow> ms_eventsById st (generatedEventId n) = None)"

definition no_ids :: "'g AppendToStreamInput \<Rightarrow> bool" where
  "no_ids input \<longleftrightarrow> (\<forall>e\<in>set (ai_events input). er_eventId e = None)"

fun freshEvents ::
    "string \<Rightarrow> 'g AppendToStreamInput \<Rightarrow> nat \<Rightarrow> nat \<Rightarrow> EventRecordToStore list \<Rightarrow> StoredEvent list" where
  "freshEvents now input n p [] = []"
| "freshEvents now input n p (ev # evs) =
     newStoredEvent now input ev (generatedEventId p) (n + 1) (p + 1) # freshEvents now input (n + 1) (p + 1) evs"

lemma generatedEventId_inj [simp]: "generatedEventId m = generatedEventId n \<longleftrightarrow> m = n"
  by (auto simp: generatedEventId_def dest: show_nat_inj)

lemma freshEvents_ids: "e \<in> set (freshEvents now input n p evs) \<Longrightarrow> \<exists>k. p \<le> k \<and> k < p + length evs \<and> se_eventId e = generatedEventId k"
proof (induction evs arbitrary: n p)
  case (Cons ev evs)
  from Cons.prems consider "e = newStoredEvent now input ev (generatedEventId p) (n + 1) (p + 1)"
    | "e \<in> set (freshEvents now input (n + 1) (p + 1) evs)" by auto
  then show ?case
  proof cases
    case 2
    from Cons.IH [OF this] show ?thesis by (auto intro: Suc_leD)
  qed auto
qed simp

lemma length_freshEvents [simp]: "length (freshEvents now input n p evs) = length evs"
  by (induction evs arbitrary: n p) auto

lemma freshEvents_content:
  "map (\<lambda>s. (se_eventType s, se_payload s)) (freshEvents now input n p evs) =
   map (\<lambda>e. (er_eventType e, er_payload e)) evs"
  by (induction evs arbitrary: n p) auto

lemma appendLoop_fresh:
  assumes "\<forall>e\<in>set evs. er_eventId e = None" and "\<forall>n. al_position st \<le> n \<longrightarrow> m (generatedEventId n) = None"
    and "\<forall>e\<in>set (al_planned st). \<exists>k<al_position st. se_eventId e = generatedEventId k"
  shows "appendLoop lc now m input st evs =
    (al_position st + length evs,
     Inr \<lparr>al_position = al_position st + length evs, al_nextVersion = al_nextVersion st + length evs,
          al_planned = al_planned st @ freshEvents now input (al_nextVersion st) (al_position st) evs,
          al_stored = al_stored st @ freshEvents now input (al_nextVersion st) (al_position st) evs\<rparr>)"
  using assms
proof (induction evs arbitrary: st)
  case (Cons ev evs)
  have none: "m (generatedEventId (al_position st)) = None" "er_eventId ev = None" using Cons.prems by auto
  have "findPlanned (al_planned st) (generatedEventId (al_position st)) = None"
    using Cons.prems(3) by (force simp: findPlanned_None)
  let ?c = "newStoredEvent now input ev (generatedEventId (al_position st)) (al_nextVersion st + 1) (al_position st + 1)"
  let ?t = "\<lparr>al_position = al_position st + 1, al_nextVersion = al_nextVersion st + 1,
      al_planned = al_planned st @ [?c], al_stored = al_stored st @ [?c]\<rparr>"
  have "appendOneEvent lc now m input st ev = Inr ?t"
    using none \<open>findPlanned _ _ = None\<close> by (simp add: appendOneEvent_def Let_def)
  moreover have "\<forall>e\<in>set (al_planned ?t). \<exists>k<al_position ?t. se_eventId e = generatedEventId k"
    using Cons.prems(3) by (auto intro: less_SucI)
  ultimately show ?case using Cons.IH [of ?t] Cons.prems by simp
qed simp

lemma memAppend_fresh:
  fixes now :: string
  assumes ok: "store_ok store" and ids: "no_ids input" and ne: "ai_events input \<noteq> []"
  defines "sid \<equiv> ai_streamId input"
  defines "new \<equiv> freshEvents now input (length (streamEvents store sid)) (ms_globalPosition store) (ai_events input)"
  shows "memAppend lc now store input =
    (case assertExpectedVersion (ai_expectedVersion input) (int (length (streamEvents store sid))) of
       Inl e \<Rightarrow> (store, Inl e)
     | Inr _ \<Rightarrow>
         (\<lparr>ms_globalPosition = ms_globalPosition store + length (ai_events input),
           ms_streams = (ms_streams store)(sid \<mapsto> streamEvents store sid @ new),
           ms_allEvents = ms_allEvents store @ new,
           ms_eventsById = fold (\<lambda>e m. m(se_eventId e \<mapsto> e)) new (ms_eventsById store)\<rparr>, Inr new))"
proof -
  have "List.map_filter er_eventId (ai_events input) = []"
    using ids by (auto simp: no_ids_def List.map_filter_def filter_empty_conv)
  then show ?thesis
    using ne appendLoop_fresh [of "ai_events input" "\<lparr>al_position = ms_globalPosition store,
        al_nextVersion = length (streamEvents store sid), al_planned = [], al_stored = []\<rparr>" "ms_eventsById store" lc now input]
      ok ids
    by (simp add: memAppend_def appendStoredEvents_def storeCurrentVersion_def store_ok_def no_ids_def Let_def
        new_def sid_def split: sum.splits)
qed

lemma store_ok_append:
  assumes ok: "store_ok store" and ids: "no_ids input" and r: "memAppend lc now store input = (store', r)"
  shows "store_ok store'"
proof (cases "ai_events input = []")
  case True
  then show ?thesis using r ok by (simp add: memAppend_def)
next
  case False
  have wf: "store_wf store'" using ok r memAppend_wf unfolding store_ok_def by blast
  show ?thesis
  proof (cases r)
    case (Inl e)
    then show ?thesis using r ok memAppend_fresh [OF ok ids False, of lc now] by (auto split: sum.splits)
  next
    case (Inr stored)
    define new where "new = freshEvents now input (length (streamEvents store (ai_streamId input)))
      (ms_globalPosition store) (ai_events input)"
    have gp: "ms_globalPosition store' = ms_globalPosition store + length (ai_events input)"
      and by_id: "ms_eventsById store' = ms_eventsById store ++ map_of (rev (map (\<lambda>e. (se_eventId e, e)) new))"
      using r Inr memAppend_fresh [OF ok ids False, of lc now]
      by (auto simp: new_def fold_eventsById split: sum.splits)
    have "ms_eventsById store' (generatedEventId n) = None" if "ms_globalPosition store' \<le> n" for n
    proof -
      have "generatedEventId n \<notin> se_eventId ` set new"
        using that gp freshEvents_ids unfolding new_def by fastforce
      then have "map_of (rev (map (\<lambda>e. (se_eventId e, e)) new)) (generatedEventId n) = None"
        by (auto simp: map_of_eq_None_iff)
      moreover have "ms_eventsById store (generatedEventId n) = None" using ok that gp by (simp add: store_ok_def)
      ultimately show ?thesis by (simp add: by_id map_add_None)
    qed
    then show ?thesis using wf by (simp add: store_ok_def)
  qed
qed


section \<open>Retries with the same event ids\<close>

text \<open>Every stored event matches the first event of the input with its id.\<close>

definition matches_input :: "locale_compare \<Rightarrow> 'g AppendToStreamInput \<Rightarrow> StoredEvent \<Rightarrow> bool" where
  "matches_input lc input e \<longleftrightarrow> assertIdempotentEventMatch lc e input (se_eventId e) None = Inr ()"

lemma find_first:
  assumes "find P (pre @ x # post) = Some y" and "\<And>z. z \<in> set pre \<Longrightarrow> \<not> P z" and "P x"
  shows "y = x"
  using assms by (induction pre) (auto split: if_splits)

lemma appendOneEvent_matches:
  assumes ids: "\<forall>x\<in>set (ai_events input). er_eventId x \<noteq> None" and wf: "store_wf store"
    and ev: "ai_events input = pre @ ev # post"
    and seen: "\<forall>x\<in>set pre. ms_eventsById store (the (er_eventId x)) \<noteq> None \<or> the (er_eventId x) \<in> se_eventId ` set (al_planned st)"
    and pl: "\<forall>e\<in>set (al_planned st). matches_input lc input e"
    and st': "appendOneEvent lc now (ms_eventsById store) input st ev = Inr st'"
  shows "(\<forall>e\<in>set (al_planned st'). matches_input lc input e) \<and>
    (\<forall>x\<in>set (pre @ [ev]). ms_eventsById store (the (er_eventId x)) \<noteq> None \<or>
       the (er_eventId x) \<in> se_eventId ` set (al_planned st')) \<and>
    set (al_planned st) \<subseteq> set (al_planned st') \<and>
    (\<exists>e. al_stored st' = al_stored st @ [e] \<and> se_eventId e = the (er_eventId ev) \<and> matches_input lc input e \<and>
       (ms_eventsById store (the (er_eventId ev)) = Some e \<or> e \<in> set (al_planned st')))"
proof -
  obtain i where i: "er_eventId ev = Some i" using ids ev by auto
  note st' = st' [unfolded appendOneEvent_def i option.case Let_def]
  consider (existing) e where "ms_eventsById store i = Some e"
    | (planned) e where "ms_eventsById store i = None" "findPlanned (al_planned st) i = Some e"
    | (new) "ms_eventsById store i = None" "findPlanned (al_planned st) i = None"
    by (cases "ms_eventsById store i"; cases "findPlanned (al_planned st) i") auto
  then show ?thesis
  proof cases
    case existing
    then show ?thesis
      using st' pl seen i store_wf_lookup(1) [OF wf existing] by (auto simp: res_simps matches_input_def)
  next
    case planned
    then show ?thesis
      using st' pl seen i findPlanned_Some [OF planned(2)] by (force simp: res_simps)
  next
    case new
    let ?c = "newStoredEvent now input ev i (al_nextVersion st + 1) (al_position st + 1)"
    let ?P = "\<lambda>x. (case er_eventId x of None \<Rightarrow> i | Some j \<Rightarrow> j) = i"
    have none: "\<not> ?P z" if "z \<in> set pre" for z
    proof
      assume "?P z"
      moreover have "er_eventId z \<noteq> None" using ids ev that by simp
      ultimately have "the (er_eventId z) = i" by auto
      then show False using seen that new by (auto simp: findPlanned_None)
    qed
    have "find ?P (ai_events input) \<noteq> None" using ev i by (auto simp: find_None_iff)
    then obtain y where "find ?P (ai_events input) = Some y" by blast
    moreover from this have "y = ev" unfolding ev by (rule find_first) (use none i in auto)
    ultimately have "matches_input lc input ?c"
      by (simp add: matches_input_def assertIdempotentEventMatch_def) (simp add: newStoredEvent_def Let_def)
    then show ?thesis using st' new pl seen i by auto
  qed
qed

lemma appendLoop_matches:
  assumes ids: "\<forall>x\<in>set (ai_events input). er_eventId x \<noteq> None" and wf: "store_wf store"
    and "ai_events input = pre @ evs"
    and "\<forall>x\<in>set pre. ms_eventsById store (the (er_eventId x)) \<noteq> None \<or> the (er_eventId x) \<in> se_eventId ` set (al_planned st)"
    and "\<forall>e\<in>set (al_planned st). matches_input lc input e"
    and "appendLoop lc now (ms_eventsById store) input st evs = (p, Inr st')"
  shows "\<exists>new. al_stored st' = al_stored st @ new \<and> map se_eventId new = map (\<lambda>x. the (er_eventId x)) evs \<and>
    set (al_planned st) \<subseteq> set (al_planned st') \<and>
    (\<forall>e\<in>set new. matches_input lc input e \<and>
       (ms_eventsById store (se_eventId e) = Some e \<or> e \<in> set (al_planned st')))"
  using assms(3-)
proof (induction evs arbitrary: pre st)
  case Nil
  then show ?case by auto
next
  case (Cons ev evs)
  obtain t where t: "appendOneEvent lc now (ms_eventsById store) input st ev = Inr t"
    and rest: "appendLoop lc now (ms_eventsById store) input t evs = (p, Inr st')"
    using Cons.prems(4) by (auto split: sum.splits)
  note one = appendOneEvent_matches [OF ids wf Cons.prems(1,2,3) t]
  then obtain e where e: "al_stored t = al_stored st @ [e]" "se_eventId e = the (er_eventId ev)" "matches_input lc input e"
    "ms_eventsById store (the (er_eventId ev)) = Some e \<or> e \<in> set (al_planned t)" by blast
  have "ai_events input = (pre @ [ev]) @ evs" using Cons.prems(1) by simp
  from Cons.IH [OF this _ _ rest] one obtain new where n: "al_stored st' = al_stored t @ new"
    "map se_eventId new = map (\<lambda>x. the (er_eventId x)) evs" "set (al_planned t) \<subseteq> set (al_planned st')"
    "\<forall>e\<in>set new. matches_input lc input e \<and> (ms_eventsById store (se_eventId e) = Some e \<or> e \<in> set (al_planned st'))"
    by blast
  show ?case
    using e n one by (intro exI [of _ "e # new"]) auto
qed

lemma storedReplay_all:
  assumes "\<forall>e\<in>set es. ms_eventsById store (se_eventId e) = Some e \<and> matches_input lc input e"
  shows "storedReplay lc store input (map se_eventId es) = Inr es"
  using assms by (induction es) (auto simp: storedReplay_def matches_input_def)

lemma explicit_ids:
  assumes "\<forall>x\<in>set evs. er_eventId x \<noteq> None"
  shows "List.map_filter er_eventId evs = map (\<lambda>x. the (er_eventId x)) evs"
  using assms by (induction evs) (auto simp: List.map_filter_def)

lemma memAppend_retry:
  assumes wf: "store_wf store" and ids: "\<forall>x\<in>set (ai_events input). er_eventId x \<noteq> None"
    and r: "memAppend lc now store input = (store', Inr stored)"
  shows "memAppend lc now' store' input = (store', Inr stored)"
proof (cases "ai_events input = []")
  case True
  then show ?thesis using r by (simp add: memAppend_def)
next
  case False
  let ?ids = "map (\<lambda>x. the (er_eventId x)) (ai_events input)"
  show ?thesis
  proof (cases "list_all (\<lambda>i. ms_eventsById store i \<noteq> None) ?ids")
    case True
    then have "store' = store" "storedReplay lc store input ?ids = Inr stored"
      using r False by (auto simp: memAppend_def explicit_ids [OF ids] Let_def)
    then show ?thesis using True False by (simp add: memAppend_def explicit_ids [OF ids] Let_def)
  next
    case no_replay: False
    then have a: "appendStoredEvents lc now store input = (store', Inr stored)"
      using r False unfolding memAppend_def explicit_ids [OF ids] Let_def by (auto split: sum.splits if_splits)
    let ?st = "\<lparr>al_position = ms_globalPosition store,
        al_nextVersion = length (streamEvents store (ai_streamId input)), al_planned = [], al_stored = []\<rparr>"
    obtain p st where loop: "appendLoop lc now (ms_eventsById store) input ?st (ai_events input) = (p, Inr st)"
      and out: "stored = al_stored st"
      and by_id: "ms_eventsById store' = fold (\<lambda>e m. m(se_eventId e \<mapsto> e)) (al_planned st) (ms_eventsById store)"
      using a by (auto simp: appendStoredEvents_def Let_def split: prod.splits sum.splits)
    have ok: "loop_ok store input st" using appendLoop_ok [OF wf loop_ok_start order_refl loop] by simp
    have m: "map se_eventId stored = ?ids"
      "\<forall>e\<in>set stored. matches_input lc input e \<and> (ms_eventsById store (se_eventId e) = Some e \<or> e \<in> set (al_planned st))"
      using appendLoop_matches [OF ids wf _ _ _ loop, of "[]"] out by auto
    have d: "distinct (map se_eventId (al_planned st))" "\<forall>e\<in>set (al_planned st). ms_eventsById store (se_eventId e) = None"
      using ok by (auto simp: loop_ok_def Let_def)
    have mapped: "ms_eventsById store' i = (case map_of (map (\<lambda>e. (se_eventId e, e)) (al_planned st)) i of
        Some e \<Rightarrow> Some e | None \<Rightarrow> ms_eventsById store i)" for i
      using d(1) by (simp add: by_id fold_eventsById distinct_map_of_rev o_def map_add_def)
    have look: "ms_eventsById store' (se_eventId e) = Some e" if "e \<in> set stored" for e
    proof (cases "e \<in> set (al_planned st)")
      case True
      then have "map_of (map (\<lambda>e. (se_eventId e, e)) (al_planned st)) (se_eventId e) = Some e"
        using d(1) by (intro map_of_is_SomeI) (auto simp: o_def)
      then show ?thesis by (simp add: mapped)
    next
      case False
      then have s: "ms_eventsById store (se_eventId e) = Some e" using m(2) that by blast
      then have "se_eventId e \<notin> se_eventId ` set (al_planned st)" using d(2) by force
      then have "map_of (map (\<lambda>e. (se_eventId e, e)) (al_planned st)) (se_eventId e) = None"
        by (auto simp: map_of_eq_None_iff)
      then show ?thesis using s by (simp add: mapped)
    qed
    have "list_all (\<lambda>i. ms_eventsById store' i \<noteq> None) ?ids"
      unfolding m(1) [symmetric] using look by (auto simp: list_all_iff)
    moreover have "storedReplay lc store' input ?ids = Inr stored"
      unfolding m(1) [symmetric] by (rule storedReplay_all) (use look m(2) in blast)
    ultimately show ?thesis using False by (simp add: memAppend_def explicit_ids [OF ids] Let_def)
  qed
qed


section \<open>The contract of an event store\<close>

locale event_store =
  fixes append :: "string \<Rightarrow> 'st \<Rightarrow> 'g AppendToStreamInput \<Rightarrow> 'st \<times> StoredEvent list res"
    and read_page :: "'st \<Rightarrow> string \<Rightarrow> nat \<Rightarrow> StoredEvent list res"
    and history :: "'st \<Rightarrow> string \<Rightarrow> StoredEvent list"
    and ok :: "'st \<Rightarrow> bool"
  assumes append_ok: "ok st \<Longrightarrow> no_ids input \<Longrightarrow> append t st input = (st', r) \<Longrightarrow> ok st'"
    and append_failed: "ok st \<Longrightarrow> no_ids input \<Longrightarrow> append t st input = (st', Inl e) \<Longrightarrow> history st' = history st"
    and append_stored: "ok st \<Longrightarrow> no_ids input \<Longrightarrow> append t st input = (st', Inr stored) \<Longrightarrow>
      history st' = (history st)(ai_streamId input := history st (ai_streamId input) @ stored) \<and>
      map (\<lambda>s. (se_eventType s, se_payload s)) stored = map (\<lambda>e. (er_eventType e, er_payload e)) (ai_events input)"
    and append_expected: "ok st \<Longrightarrow> no_ids input \<Longrightarrow> append t st input = (st', Inr stored) \<Longrightarrow>
      ai_events input \<noteq> [] \<Longrightarrow>
      assertExpectedVersion (ai_expectedVersion input) (int (length (history st (ai_streamId input)))) = Inr ()"
    and append_current: "ok st \<Longrightarrow> no_ids input \<Longrightarrow> \<not> hasGrants input \<Longrightarrow>
      ai_expectedVersion input = ExpectVersion (int (length (history st (ai_streamId input)))) \<Longrightarrow>
      \<exists>st' stored. append t st input = (st', Inr stored)"
    and history_contiguous: "ok st \<Longrightarrow> contiguous 1 (history st sid)"
    and read_page_history: "ok st \<Longrightarrow> 1 \<le> k \<Longrightarrow>
      read_page st sid k = Inr (take 500 (drop (k - 1) (history st sid)))"
begin

lemma stale_append_rejected:
  assumes "ok st" and "no_ids input" and "ai_events input \<noteq> []"
    and "ai_expectedVersion input = ExpectVersion v" and "v \<noteq> int (length (history st (ai_streamId input)))"
    and "append t st input = (st', r)"
  shows "(\<exists>e. r = Inl e) \<and> history st' = history st"
proof (cases r)
  case (Inl e)
  then show ?thesis using append_failed assms by blast
next
  case (Inr stored)
  then show ?thesis using append_expected [OF assms(1,2) _ assms(3)] assms(4-6) by (auto simp: assertExpectedVersion_def)
qed

end

text \<open>The page that the complete stream reader asks for.\<close>

definition memReadPage :: "MemoryStore \<Rightarrow> string \<Rightarrow> nat \<Rightarrow> StoredEvent list res" where
  "memReadPage store streamId fromVersion =
     memReadStream store
       \<lparr>rs_streamId = streamId, rs_fromVersion = Some (numi (int fromVersion)),
        rs_limit = Some (numi EVENT_STORE_READ_PAGE_SIZE_MAX)\<rparr>"

lemma memReadPage_history:
  assumes "store_wf st" and "1 \<le> v"
  shows "memReadPage st sid v = Inr (take 500 (drop (v - 1) (streamEvents st sid)))"
proof -
  have c: "contiguous 1 (streamEvents st sid)" using assms(1) unfolding store_wf_def by blast
  have "filter (\<lambda>e. int v \<le> int (se_streamVersion e)) (streamEvents st sid) = drop (v - 1) (streamEvents st sid)"
    using contiguous_filter [OF c, of "v - 1"] assms(2) by simp
  then show ?thesis
    using assms(2) by (simp add: memReadPage_def memReadStream_def assertStorePositiveInteger_def
        assertEventStoreReadPageSize_def EVENT_STORE_READ_PAGE_SIZE_MAX_def MAX_SAFE_INTEGER_def)
qed

lemma appendToStream_fresh:
  assumes ok: "store_ok st" and ids: "no_ids input" and r: "appendToStream lc now st input = (st', r)"
  shows "store_ok st'"
    and "r = Inl e \<Longrightarrow> streamEvents st' = streamEvents st"
    and "r = Inr stored \<Longrightarrow>
      streamEvents st' = (streamEvents st)(ai_streamId input := streamEvents st (ai_streamId input) @ stored) \<and>
      map (\<lambda>s. (se_eventType s, se_payload s)) stored = map (\<lambda>e. (er_eventType e, er_payload e)) (ai_events input)"
    and "r = Inr stored \<Longrightarrow> ai_events input \<noteq> [] \<Longrightarrow>
      assertExpectedVersion (ai_expectedVersion input) (int (length (streamEvents st (ai_streamId input)))) = Inr ()"
proof -
  have upd: "streamEvents (store\<lparr>ms_globalPosition := p, ms_streams := (ms_streams st)(sid \<mapsto> es), ms_allEvents := a, ms_eventsById := b\<rparr>) =
      (streamEvents st)(sid := es)" for store :: MemoryStore and p sid es a b
    by (rule ext) (simp add: streamEvents_def)
  have upd': "streamEvents \<lparr>ms_globalPosition = p, ms_streams = (ms_streams st)(sid \<mapsto> es), ms_allEvents = a, ms_eventsById = b\<rparr> =
      (streamEvents st)(sid := es)" for p sid es a b
    by (rule ext) (simp add: streamEvents_def)
  consider (grants) "hasGrants input" | (empty) "\<not> hasGrants input" "ai_events input = []"
    | (append) "\<not> hasGrants input" "ai_events input \<noteq> []" by blast
  then have all: "store_ok st' \<and> (\<forall>e. r = Inl e \<longrightarrow> streamEvents st' = streamEvents st) \<and>
    (\<forall>stored. r = Inr stored \<longrightarrow>
      streamEvents st' = (streamEvents st)(ai_streamId input := streamEvents st (ai_streamId input) @ stored) \<and>
      map (\<lambda>s. (se_eventType s, se_payload s)) stored = map (\<lambda>e. (er_eventType e, er_payload e)) (ai_events input) \<and>
      (ai_events input \<noteq> [] \<longrightarrow>
        assertExpectedVersion (ai_expectedVersion input) (int (length (streamEvents st (ai_streamId input)))) = Inr ()))"
  proof cases
    case append
    have m: "memAppend lc now st input = (st', r)" using r append by (simp add: appendToStream_def)
    show ?thesis
      using store_ok_append [OF ok ids m] m append
      unfolding memAppend_fresh [OF ok ids append(2), of lc now]
      by (auto simp: upd' freshEvents_content assertExpectedVersion_def split: sum.splits if_splits ExpectedStreamVersion.splits)
  qed (use r ok in \<open>auto simp: appendToStream_def memAppend_def\<close>)
  show "store_ok st'" and "r = Inl e \<Longrightarrow> streamEvents st' = streamEvents st"
    and "r = Inr stored \<Longrightarrow>
      streamEvents st' = (streamEvents st)(ai_streamId input := streamEvents st (ai_streamId input) @ stored) \<and>
      map (\<lambda>s. (se_eventType s, se_payload s)) stored = map (\<lambda>e. (er_eventType e, er_payload e)) (ai_events input)"
    and "r = Inr stored \<Longrightarrow> ai_events input \<noteq> [] \<Longrightarrow>
      assertExpectedVersion (ai_expectedVersion input) (int (length (streamEvents st (ai_streamId input)))) = Inr ()"
    using all by blast+
qed

lemma appendToStream_current:
  assumes "store_ok st" and "no_ids input" and "\<not> hasGrants input"
    and "ai_expectedVersion input = ExpectVersion (int (length (streamEvents st (ai_streamId input))))"
  shows "\<exists>st' stored. appendToStream lc now st input = (st', Inr stored)"
  using assms memAppend_fresh [of st input lc now]
  by (cases "ai_events input = []") (auto simp: appendToStream_def memAppend_def assertExpectedVersion_def)

lemma store_ok_initial: "store_ok createInMemoryEventStore"
  by (simp add: store_ok_def store_wf_initial) (simp add: createInMemoryEventStore_def)

interpretation mem: event_store "appendToStream lc" memReadPage streamEvents store_ok for lc
proof (unfold_locales, goal_cases)
  case 1
  then show ?case by (rule appendToStream_fresh(1))
next
  case 2
  then show ?case by (rule appendToStream_fresh(2) [OF _ _ _ refl])
next
  case 3
  then show ?case by (rule appendToStream_fresh(3) [OF _ _ _ refl])
next
  case 4
  then show ?case by (rule appendToStream_fresh(4) [OF _ _ _ refl])
next
  case 5
  then show ?case by (rule appendToStream_current)
next
  case 6
  then show ?case unfolding store_ok_def store_wf_def by blast
next
  case 7
  then show ?case by (intro memReadPage_history) (simp_all add: store_ok_def)
qed

end
