(* ===== verification/CommandHandler.thy ===== *)
theory CommandHandler
  imports EventDomain CompleteStream MemoryStoreFacts
begin

text \<open>
  The aggregate repository (\<open>aggregate-repository-internal.ts\<close>), the command handler
  (\<open>command-handler-internal.ts\<close>, \<open>aggregate-command-handler.ts\<close>), the stream id helper and the
  commit metadata (\<open>consistency.ts\<close>). The event store and the snapshot store are arguments.
\<close>

definition extractIdFromStreamId :: "string \<Rightarrow> string \<Rightarrow> string res" where
  "extractIdFromStreamId streamId pre =
     ensure (js_startsWith streamId pre)
       (Error (''Stream ID '' @ [CHR 0x22] @ streamId @ [CHR 0x22] @ '' does not start with prefix '' @
               [CHR 0x22] @ pre @ [CHR 0x22] @ ''.''))
       (Inr (drop (length pre) streamId))"


section \<open>The aggregate repository\<close>

record 's AggregateSnapshot =
  sn_streamVersion :: nat
  sn_schemaVersion :: int
  sn_state :: 's

record AggregateRepositorySnapshotConfig =
  sc_schemaVersion :: jsnum
  sc_everyNEvents :: jsnum

record ('s, 'e) AggregateRepositoryConfig =
  cf_codec :: "'e DomainEventCodec"
  cf_initialState :: 's
  cf_evolve :: "'s \<Rightarrow> 'e \<Rightarrow> 's res"
  cf_maxEvents :: "jsnum option"
  cf_snapshots :: "AggregateRepositorySnapshotConfig option"

record ('s, 'e) LoadedAggregate =
  ld_state :: 's
  ld_version :: nat
  ld_events :: "'e list"
  ld_storedEvents :: "StoredEvent list"

record 'e AppendDomainEventsInput =
  ad_streamId :: string
  ad_expectedVersion :: ExpectedStreamVersion
  ad_context :: EventStoreContext
  ad_events :: "'e list"
  ad_metadata :: "'e \<Rightarrow> nat \<Rightarrow> json option"

definition assertConfigPositiveInteger :: "jsnum \<Rightarrow> string \<Rightarrow> unit res" where
  "assertConfigPositiveInteger value label =
     ensure (isInteger value \<and> num_less (numi 0) value)
       (Error (''AggregateRepositoryConfig.'' @ label @ '' must be a positive integer.'')) (Inr ())"

definition validateRepositoryConfig :: "('s, 'e) AggregateRepositoryConfig \<Rightarrow> unit res" where
  "validateRepositoryConfig config =
     bindE (case cf_maxEvents config of
              None \<Rightarrow> Inr ()
            | Some m \<Rightarrow>
                ensure (isSafeInteger m \<and> num_less (numi 0) m)
                  (Error ''AggregateRepositoryConfig.maxEvents must be a positive safe integer.'')
                  (ensure (cf_snapshots config = None)
                    (Error ''AggregateRepositoryConfig.maxEvents cannot be combined with snapshots.'') (Inr ())))
       (\<lambda>_. case cf_snapshots config of
              None \<Rightarrow> Inr ()
            | Some s \<Rightarrow>
                bindE (assertConfigPositiveInteger (sc_schemaVersion s) ''snapshots.schemaVersion'')
                  (\<lambda>_. assertConfigPositiveInteger (sc_everyNEvents s) ''snapshots.everyNEvents''))"

text \<open>A missing snapshot, another schema version and a failed read all mean a full replay.\<close>

definition loadSnapshotBase ::
    "AggregateRepositorySnapshotConfig \<Rightarrow> (string \<Rightarrow> 's AggregateSnapshot option res) \<Rightarrow> string \<Rightarrow>
     's AggregateSnapshot option" where
  "loadSnapshotBase snapshots loadLatest streamId =
     (case loadLatest streamId of
        Inl _ \<Rightarrow> None
      | Inr None \<Rightarrow> None
      | Inr (Some stored) \<Rightarrow>
          if numi (sn_schemaVersion stored) \<noteq> sc_schemaVersion snapshots then None else Some stored)"

definition repositoryLoad ::
    "('s, 'e) AggregateRepositoryConfig \<Rightarrow> stream_reader \<Rightarrow> (string \<Rightarrow> 's AggregateSnapshot option res) \<Rightarrow>
     string \<Rightarrow> ('s, 'e) LoadedAggregate res" where
  "repositoryLoad config reader loadLatest streamId =
     (let base = (case cf_snapshots config of
                    None \<Rightarrow> None | Some s \<Rightarrow> loadSnapshotBase s loadLatest streamId)
      in bindE (readCompleteStream reader
                  \<lparr>rc_streamId = streamId,
                   rc_fromVersion = map_option (\<lambda>b. numi (int (sn_streamVersion b) + 1)) base,
                   rc_maxEvents = cf_maxEvents config\<rparr>) (\<lambda>storedEvents.
         let domainEvents = map (\<lambda>s. codec_decode (cf_codec config) (se_eventType s) (se_payload s)) storedEvents;
             baseState = (case base of None \<Rightarrow> cf_initialState config | Some b \<Rightarrow> sn_state b)
         in bindE (foldEvents baseState (cf_evolve config) domainEvents) (\<lambda>state.
              Inr \<lparr>ld_state = state,
                   ld_version = (if storedEvents \<noteq> [] then se_streamVersion (last storedEvents)
                                 else case base of None \<Rightarrow> 0 | Some b \<Rightarrow> sn_streamVersion b),
                   ld_events = domainEvents, ld_storedEvents = storedEvents\<rparr>)))"

definition encodeDomainEvents ::
    "'e DomainEventCodec \<Rightarrow> ('e \<Rightarrow> nat \<Rightarrow> json option) \<Rightarrow> 'e list \<Rightarrow> EventRecordToStore list" where
  "encodeDomainEvents codec metadata events =
     map (\<lambda>(i, e). (codec_encode codec e)\<lparr>er_metadata := metadata e i\<rparr>) (zip [0..<length events] events)"

definition checkAppendBound :: "jsnum option \<Rightarrow> 'e AppendDomainEventsInput \<Rightarrow> unit res" where
  "checkAppendBound maxEvents input =
     (case maxEvents of
        None \<Rightarrow> Inr ()
      | Some m \<Rightarrow>
          (case ad_expectedVersion input of
             ExpectAny \<Rightarrow>
               Inl (Error (''Bounded aggregate repositories cannot append with expectedVersion='' @
                           [CHR 0x22] @ ''any'' @ [CHR 0x22] @ ''.''))
           | ExpectNoStream \<Rightarrow>
               ensure (\<not> num_less m (numi (int (length (ad_events input)))))
                 (EventStreamTooLongError (ad_streamId input) (num_to_int m)) (Inr ())
           | ExpectVersion v \<Rightarrow>
               ensure (\<not> num_less m (numi (v + int (length (ad_events input)))))
                 (EventStreamTooLongError (ad_streamId input) (num_to_int m)) (Inr ())))"

definition appendInput :: "'e DomainEventCodec \<Rightarrow> 'e AppendDomainEventsInput \<Rightarrow> 'g AppendToStreamInput" where
  "appendInput codec input =
     \<lparr>ai_streamId = ad_streamId input, ai_expectedVersion = ad_expectedVersion input,
      ai_events = encodeDomainEvents codec (ad_metadata input) (ad_events input),
      ai_context = ad_context input, ai_configurationGrants = None\<rparr>"

definition repositoryAppend ::
    "('s, 'e) AggregateRepositoryConfig \<Rightarrow> ('st \<Rightarrow> 'g AppendToStreamInput \<Rightarrow> 'st \<times> StoredEvent list res) \<Rightarrow>
     'st \<Rightarrow> 'e AppendDomainEventsInput \<Rightarrow> 'st \<times> StoredEvent list res" where
  "repositoryAppend config storeAppend store input =
     (case checkAppendBound (cf_maxEvents config) input of
        Inl e \<Rightarrow> (store, Inl e)
      | Inr _ \<Rightarrow> storeAppend store (appendInput (cf_codec config) input))"

text \<open>\<open>Math.floor(version / everyNEvents)\<close> on integers.\<close>

definition crossesSnapshotThreshold :: "nat \<Rightarrow> nat \<Rightarrow> int \<Rightarrow> bool" where
  "crossesSnapshotThreshold priorVersion version everyNEvents =
     (if everyNEvents \<le> 0 \<or> version \<le> priorVersion then False
      else int version div everyNEvents > int priorVersion div everyNEvents)"

definition scheduleSnapshot ::
    "('s, 'e) AggregateRepositoryConfig \<Rightarrow> nat \<Rightarrow> nat \<Rightarrow> 's \<Rightarrow> 's AggregateSnapshot option" where
  "scheduleSnapshot config priorVersion version state =
     (case cf_snapshots config of
        None \<Rightarrow> None
      | Some s \<Rightarrow>
          if crossesSnapshotThreshold priorVersion version (num_to_int (sc_everyNEvents s))
          then Some \<lparr>sn_streamVersion = version, sn_schemaVersion = num_to_int (sc_schemaVersion s),
                     sn_state = state\<rparr>
          else None)"


section \<open>Commit metadata\<close>

record EventCommitSource =
  es_sourceContextName :: string
  es_eventIds :: "string list"
  es_maxGlobalPosition :: "string option"

text \<open>\<open>sources\<close> is a \<open>Map\<close> by context name, in insertion order.\<close>

record EventCommitMetadata =
  em_eventIds :: "string list"
  em_maxGlobalPosition :: "string option"
  em_sources :: "EventCommitSource list"
  em_committedEvents :: "StoredEvent list"

definition emptyCommitMetadata :: EventCommitMetadata where
  "emptyCommitMetadata =
     \<lparr>em_eventIds = [], em_maxGlobalPosition = None, em_sources = [], em_committedEvents = []\<rparr>"

definition sourceContextNameFromStreamId :: "string \<Rightarrow> string" where
  "sourceContextNameFromStreamId streamId =
     (let before = takeWhile (\<lambda>c. c \<noteq> CHR ''.'') streamId
      in if before \<noteq> [] \<and> length before < length streamId then before else streamId)"

definition maxPosition :: "string option \<Rightarrow> string \<Rightarrow> string option" where
  "maxPosition current globalPosition =
     (case current of
        None \<Rightarrow> Some globalPosition
      | Some m \<Rightarrow>
          if m = [] \<or> globalPositionToBigInt globalPosition > globalPositionToBigInt m
          then Some globalPosition else Some m)"

fun setSource :: "EventCommitSource list \<Rightarrow> EventCommitSource \<Rightarrow> EventCommitSource list" where
  "setSource [] source = [source]"
| "setSource (s # ss) source =
     (if es_sourceContextName s = es_sourceContextName source then source # ss else s # setSource ss source)"

definition recordCommittedEvent ::
    "string option \<Rightarrow> EventCommitMetadata \<Rightarrow> StoredEvent \<Rightarrow> EventCommitMetadata" where
  "recordCommittedEvent sourceContextNameOverride store event =
     (let name = (case sourceContextNameOverride of
                    Some n \<Rightarrow> n | None \<Rightarrow> sourceContextNameFromStreamId (se_streamId event));
          source = (case find (\<lambda>s. es_sourceContextName s = name) (em_sources store) of
                      Some s \<Rightarrow> s
                    | None \<Rightarrow> \<lparr>es_sourceContextName = name, es_eventIds = [], es_maxGlobalPosition = None\<rparr>)
      in \<lparr>em_eventIds = em_eventIds store @ [se_eventId event],
          em_maxGlobalPosition = maxPosition (em_maxGlobalPosition store) (se_globalPosition event),
          em_sources =
            setSource (em_sources store)
              (source\<lparr>es_eventIds := es_eventIds source @ [se_eventId event],
                      es_maxGlobalPosition :=
                        maxPosition (es_maxGlobalPosition source) (se_globalPosition event)\<rparr>),
          em_committedEvents = em_committedEvents store @ [event]\<rparr>)"

definition recordCommittedEvents ::
    "EventCommitMetadata option \<Rightarrow> StoredEvent list \<Rightarrow> string option \<Rightarrow> EventCommitMetadata option" where
  "recordCommittedEvents store events sourceContextNameOverride =
     (case store of
        None \<Rightarrow> None
      | Some s \<Rightarrow> Some (foldl (recordCommittedEvent sourceContextNameOverride) s events))"

definition getEventCommitMetadata :: "locale_compare \<Rightarrow> EventCommitMetadata option \<Rightarrow> EventCommitMetadata" where
  "getEventCommitMetadata lc store =
     (case store of
        None \<Rightarrow> emptyCommitMetadata
      | Some s \<Rightarrow>
          s\<lparr>em_sources :=
             js_sort (\<lambda>l r. lc (es_sourceContextName l) (es_sourceContextName r))
               (filter (\<lambda>src. case es_maxGlobalPosition src of None \<Rightarrow> False | Some m \<Rightarrow> m \<noteq> [])
                 (em_sources s))\<rparr>)"


section \<open>The command handler\<close>

record 'c CommandHandlerInput =
  ch_streamId :: string
  ch_command :: 'c
  ch_context :: EventStoreContext
  ch_expectedVersion :: "ExpectedStreamVersion option"

record ('s, 'e) CommandExecutionResult =
  cr_state :: 's
  cr_version :: nat
  cr_newEvents :: "'e list"
  cr_storedEvents :: "StoredEvent list"

text \<open>
  What a command changes: the event store, and the commit metadata of the request (absent outside
  one). The handler up to the append reads the store and decides; from the append on, the append
  commits, the metadata is recorded, and only then is the new state folded, which may still throw.
  The snapshot it schedules is part of the result.
\<close>

type_synonym ('st, 's, 'e) handler_outcome =
  "('st \<times> EventCommitMetadata option) \<times> (('s, 'e) CommandExecutionResult \<times> 's AggregateSnapshot option) res"

definition handlerAppend ::
    "('s, 'e) AggregateRepositoryConfig \<Rightarrow> ('st \<Rightarrow> 'g AppendToStreamInput \<Rightarrow> 'st \<times> StoredEvent list res) \<Rightarrow>
     string option \<Rightarrow> 'st \<Rightarrow> EventCommitMetadata option \<Rightarrow> 'c CommandHandlerInput \<Rightarrow>
     ('s, 'e) LoadedAggregate \<Rightarrow> 'e list \<Rightarrow> ('st, 's, 'e) handler_outcome" where
  "handlerAppend config storeAppend commitSource store meta input loaded newEvents =
     (let expectedVersion = (case ch_expectedVersion input of
                               None \<Rightarrow> ExpectVersion (int (ld_version loaded)) | Some v \<Rightarrow> v)
      in case repositoryAppend config storeAppend store
                \<lparr>ad_streamId = ch_streamId input, ad_expectedVersion = expectedVersion,
                 ad_context = ch_context input, ad_events = newEvents, ad_metadata = (\<lambda>_ _. None)\<rparr> of
           (store', Inl e) \<Rightarrow> ((store', meta), Inl e)
         | (store', Inr storedEvents) \<Rightarrow>
             ((store', recordCommittedEvents meta storedEvents commitSource),
              bindE (applyEvents (ld_state loaded) (cf_evolve config) newEvents) (\<lambda>state.
                let version = (if storedEvents \<noteq> [] then se_streamVersion (last storedEvents)
                               else ld_version loaded)
                in Inr (\<lparr>cr_state = state, cr_version = version, cr_newEvents = newEvents,
                         cr_storedEvents = storedEvents\<rparr>,
                        scheduleSnapshot config (ld_version loaded) version state))))"

definition handleCommand ::
    "('s, 'e) AggregateRepositoryConfig \<Rightarrow> ('st \<Rightarrow> 'g AppendToStreamInput \<Rightarrow> 'st \<times> StoredEvent list res) \<Rightarrow>
     ('st \<Rightarrow> string \<Rightarrow> nat \<Rightarrow> StoredEvent list res) \<Rightarrow> (string \<Rightarrow> 's AggregateSnapshot option res) \<Rightarrow>
     ('s \<Rightarrow> 'c \<Rightarrow> 'e list res) \<Rightarrow> string option \<Rightarrow> 'st \<Rightarrow> EventCommitMetadata option \<Rightarrow>
     'c CommandHandlerInput \<Rightarrow> ('st, 's, 'e) handler_outcome" where
  "handleCommand config storeAppend readPage loadLatest decide commitSource store meta input =
     (case repositoryLoad config (\<lambda>_. readPage store) loadLatest (ch_streamId input) of
        Inl e \<Rightarrow> ((store, meta), Inl e)
      | Inr loaded \<Rightarrow>
          (case decide (ld_state loaded) (ch_command input) of
             Inl e \<Rightarrow> ((store, meta), Inl e)
           | Inr newEvents \<Rightarrow>
               if newEvents = []
               then ((store, meta),
                     Inr (\<lparr>cr_state = ld_state loaded, cr_version = ld_version loaded,
                           cr_newEvents = [], cr_storedEvents = []\<rparr>, None))
               else handlerAppend config storeAppend commitSource store meta input loaded newEvents))"

end
