(* ===== verification/CommandHandlerFacts.thy ===== *)
theory CommandHandlerFacts
  imports CommandHandler
begin

text \<open>
  What the repository and the command handler guarantee over any event store that meets the
  \<open>event_store\<close> contract and any codec that meets \<open>event_codec\<close>. Handlers that run at the same time
  are the step relation \<open>handler_step\<close>: each one loads and decides at one moment and appends at a
  later one, and other appends may come between. A caller may name the version it expects; the steps leave
  out the callers that accept any version or name a newer one than was loaded, for whom the check of the
  store does not protect the decision.
\<close>

definition plainConfig ::
    "'e DomainEventCodec \<Rightarrow> 's \<Rightarrow> ('s \<Rightarrow> 'e \<Rightarrow> 's res) \<Rightarrow> ('s, 'e) AggregateRepositoryConfig" where
  "plainConfig codec initialState evolve =
     \<lparr>cf_codec = codec, cf_initialState = initialState, cf_evolve = evolve, cf_maxEvents = None,
      cf_snapshots = None\<rparr>"

definition decodeAll :: "'e DomainEventCodec \<Rightarrow> StoredEvent list \<Rightarrow> 'e list" where
  "decodeAll codec es = map (\<lambda>s. codec_decode codec (se_eventType s) (se_payload s)) es"

lemma decodeAll_append [simp]: "decodeAll codec (es @ es') = decodeAll codec es @ decodeAll codec es'"
  by (simp add: decodeAll_def)

lemma length_decodeAll [simp]: "length (decodeAll codec es) = length es"
  by (simp add: decodeAll_def)

type_synonym ('s, 'e, 'c) pending_append = "'c CommandHandlerInput \<times> ('s, 'e) LoadedAggregate \<times> 'e list"

definition expects_loaded :: "'c CommandHandlerInput \<Rightarrow> nat \<Rightarrow> bool" where
  "expects_loaded input version \<longleftrightarrow>
     (case ch_expectedVersion input of
        None \<Rightarrow> True | Some ExpectAny \<Rightarrow> False | Some ExpectNoStream \<Rightarrow> True | Some (ExpectVersion v) \<Rightarrow> v \<le> int version)"

inductive handler_step ::
    "('s, 'e) AggregateRepositoryConfig \<Rightarrow> (string \<Rightarrow> 'st \<Rightarrow> 'g AppendToStreamInput \<Rightarrow> 'st \<times> StoredEvent list res) \<Rightarrow>
     ('st \<Rightarrow> string \<Rightarrow> nat \<Rightarrow> StoredEvent list res) \<Rightarrow> ('s \<Rightarrow> 'c \<Rightarrow> 'e list res) \<Rightarrow>
     'st \<times> ('s, 'e, 'c) pending_append list \<Rightarrow> 'st \<times> ('s, 'e, 'c) pending_append list \<Rightarrow> bool"
  for config storeAppend readPage decide where
  load_and_decide:
    "repositoryLoad config (\<lambda>_. readPage st) (\<lambda>_. Inr None) (ch_streamId input) = Inr loaded \<Longrightarrow>
     decide (ld_state loaded) (ch_command input) = Inr new \<Longrightarrow> new \<noteq> [] \<Longrightarrow>
     expects_loaded input (ld_version loaded) \<Longrightarrow>
     handler_step config storeAppend readPage decide (st, ps) (st, (input, loaded, new) # ps)"
| append_pending:
    "(input, loaded, new) \<in> set ps \<Longrightarrow>
     handlerAppend config (storeAppend now) source st meta input loaded new = ((st', meta'), r) \<Longrightarrow>
     handler_step config storeAppend readPage decide (st, ps) (st', remove1 (input, loaded, new) ps)"

inductive_cases handler_stepE [elim]: "handler_step config storeAppend readPage decide (st, ps) (st', ps')"

text \<open>A handler that nothing interrupts is two such steps, or none.\<close>

lemma handleCommand_steps:
  assumes "handleCommand config (storeAppend now) readPage (\<lambda>_. Inr None) decide source st meta input = ((st', meta'), r)"
    and "\<And>ld. repositoryLoad config (\<lambda>_. readPage st) (\<lambda>_. Inr None) (ch_streamId input) = Inr ld \<Longrightarrow>
      expects_loaded input (ld_version ld)"
  shows "(handler_step config storeAppend readPage decide)\<^sup>*\<^sup>* (st, ps) (st', ps)"
proof (cases "st' = st")
  case False
  with assms(1) obtain ld new where ld: "repositoryLoad config (\<lambda>_. readPage st) (\<lambda>_. Inr None) (ch_streamId input) = Inr ld"
    and new: "decide (ld_state ld) (ch_command input) = Inr new" "new \<noteq> []"
    and app: "handlerAppend config (storeAppend now) source st meta input ld new = ((st', meta'), r)"
    by (auto simp: handleCommand_def split: sum.splits if_splits)
  have "handler_step config storeAppend readPage decide (st, ps) (st, (input, ld, new) # ps)"
    using ld new assms(2) [OF ld] by (rule load_and_decide)
  moreover have "handler_step config storeAppend readPage decide (st, (input, ld, new) # ps)
      (st', remove1 (input, ld, new) ((input, ld, new) # ps))"
    using app by (intro append_pending) simp
  ultimately show ?thesis by (simp add: converse_rtranclp_into_rtranclp)
qed simp

lemma decodeAll_encode:
  assumes "event_codec codec"
    and "map (\<lambda>s. (se_eventType s, se_payload s)) ss =
      map (\<lambda>e. (er_eventType e, er_payload e)) (encodeDomainEvents codec md es)"
  shows "decodeAll codec ss = es"
proof -
  have "map (\<lambda>e. (er_eventType e, er_payload e)) (encodeDomainEvents codec md es) =
      map (\<lambda>(i, e). (er_eventType (codec_encode codec e), er_payload (codec_encode codec e))) (zip [0..<length es] es)"
    unfolding encodeDomainEvents_def by auto
  also have "\<dots> = map (\<lambda>e. (er_eventType (codec_encode codec e), er_payload (codec_encode codec e))) es"
    by (rule nth_equalityI) auto
  finally have "map (\<lambda>s. (se_eventType s, se_payload s)) ss =
      map (\<lambda>e. (er_eventType (codec_encode codec e), er_payload (codec_encode codec e))) es"
    by (rule trans [OF assms(2)])
  then show ?thesis unfolding decodeAll_def by (rule event_codec.decode_all [OF assms(1)])
qed

locale command_runtime =
  event_store storeAppend readPage history ok + event_codec codec
  for storeAppend :: "string \<Rightarrow> 'st \<Rightarrow> 'g AppendToStreamInput \<Rightarrow> 'st \<times> StoredEvent list res"
    and readPage :: "'st \<Rightarrow> string \<Rightarrow> nat \<Rightarrow> StoredEvent list res"
    and history :: "'st \<Rightarrow> string \<Rightarrow> StoredEvent list"
    and ok :: "'st \<Rightarrow> bool"
    and codec :: "'e DomainEventCodec" +
  fixes initialState :: 's
    and evolve :: "'s \<Rightarrow> 'e \<Rightarrow> 's res"
    and decide :: "'s \<Rightarrow> 'c \<Rightarrow> 'e list res"
begin

lemma codec_ok: "event_codec codec"
  by (rule event_codec_axioms)

lemma no_ids_append: "no_ids (appendInput codec input)"
  by (auto simp: no_ids_def appendInput_def encodeDomainEvents_def encode_no_id)

lemma read_complete:
  assumes "ok st" and "readCompleteStream (\<lambda>_. readPage st) \<lparr>rc_streamId = sid, rc_fromVersion = None, rc_maxEvents = m\<rparr> = Inr es"
  shows "es = history st sid"
proof -
  have s: "isSafeInteger (numi 1)" "num_to_int (numi 1) = 1" by (simp_all add: MAX_SAFE_INTEGER_def)
  obtain b where "completeStreamLoop (\<lambda>_. readPage st) sid b 0 1 [] = Inr es"
    using assms(2) s by (auto simp: readCompleteStream_def assertPositiveSafeInteger_def res_simps MAX_SAFE_INTEGER_def)
  from completeStreamLoop_exact [OF history_contiguous [OF assms(1)] _ _ this] read_page_history [OF assms(1)]
  show ?thesis by simp
qed

lemma load_exact:
  assumes "ok st" and "repositoryLoad (plainConfig codec initialState evolve) (\<lambda>_. readPage st) ll sid = Inr ld"
  shows "ld_events ld = decodeAll codec (history st sid) \<and> ld_version ld = length (history st sid) \<and>
    foldEvents initialState evolve (decodeAll codec (history st sid)) = Inr (ld_state ld)"
proof -
  obtain es where es: "readCompleteStream (\<lambda>_. readPage st) \<lparr>rc_streamId = sid, rc_fromVersion = None, rc_maxEvents = None\<rparr> = Inr es"
    and f: "foldEvents initialState evolve (decodeAll codec es) = Inr (ld_state ld)"
    and ev: "ld_events ld = decodeAll codec es"
    and v: "ld_version ld = (if es \<noteq> [] then se_streamVersion (last es) else 0)"
    using assms(2) by (auto simp: repositoryLoad_def plainConfig_def decodeAll_def Let_def res_simps)
  have "es = history st sid" by (rule read_complete [OF assms(1) es])
  moreover have "es \<noteq> [] \<Longrightarrow> se_streamVersion (last es) = length es"
    using contiguous_last [OF history_contiguous [OF assms(1)], of sid] \<open>es = _\<close> by simp
  ultimately show ?thesis using f ev v by auto
qed

text \<open>An append of decided events on top of the history they were decided on.\<close>

lemma append_decided_events:
  assumes ok: "ok st" and new: "new \<noteq> []" and ex: "expects_loaded input (ld_version ld)"
    and le: "ld_version ld \<le> length (history st (ch_streamId input))"
    and r: "handlerAppend (plainConfig codec initialState evolve) (storeAppend now) src st meta input ld new = ((st', meta'), r)"
  shows "ok st' \<and>
    (history st' = history st \<or>
     ld_version ld = length (history st (ch_streamId input)) \<and>
     (\<exists>stored. history st' = (history st)(ch_streamId input := history st (ch_streamId input) @ stored) \<and>
        decodeAll codec stored = new))"
proof -
  define v where "v = (case ch_expectedVersion input of None \<Rightarrow> ExpectVersion (int (ld_version ld)) | Some v \<Rightarrow> v)"
  define inp :: "'g AppendToStreamInput" where "inp = appendInput codec
     \<lparr>ad_streamId = ch_streamId input, ad_expectedVersion = v,
      ad_context = ch_context input, ad_events = new, ad_metadata = (\<lambda>_ _. None)\<rparr>"
  obtain q where q: "storeAppend now st inp = (st', q)"
    using r unfolding v_def inp_def by (auto simp: handlerAppend_def repositoryAppend_def checkAppendBound_def plainConfig_def
        Let_def split: prod.splits sum.splits)
  have ids: "no_ids inp" unfolding inp_def by (rule no_ids_append)
  have f: "ai_events inp \<noteq> []" "ai_streamId inp = ch_streamId input"
      "ai_expectedVersion inp = v"
    using new by (auto simp: inp_def appendInput_def encodeDomainEvents_def)
  show ?thesis
  proof (cases q)
    case (Inl e)
    then show ?thesis using append_ok [OF ok ids q] append_failed [OF ok ids] q by blast
  next
    case (Inr stored)
    note q' = q [unfolded Inr]
    have "decodeAll codec stored = new"
      using append_stored [OF ok ids q'] decodeAll_encode [OF codec_ok] by (auto simp: inp_def appendInput_def)
    moreover have "ld_version ld = length (history st (ch_streamId input))"
      using append_expected [OF ok ids q' f(1)] f(2,3) ex le
      by (auto simp: v_def expects_loaded_def assertExpectedVersion_def split: option.splits ExpectedStreamVersion.splits if_splits)
    ultimately show ?thesis
      using append_ok [OF ok ids q] append_stored [OF ok ids q'] f(2) by auto
  qed
qed

text \<open>One command at a time: the result is what a reload sees.\<close>

lemma handled_state:
  assumes ok: "ok st" and ex: "ch_expectedVersion input = None"
    and h: "handleCommand (plainConfig codec initialState evolve) (storeAppend now) readPage ll decide src st meta input =
      ((st', meta'), Inr (res, snap))"
  shows "ok st' \<and> cr_version res = length (history st' (ch_streamId input)) \<and>
    decodeAll codec (history st' (ch_streamId input)) = decodeAll codec (history st (ch_streamId input)) @ cr_newEvents res \<and>
    foldEvents initialState evolve (decodeAll codec (history st' (ch_streamId input))) = Inr (cr_state res)"
proof -
  let ?sid = "ch_streamId input"
  let ?cfg = "plainConfig codec initialState evolve"
  obtain ld new where ld: "repositoryLoad ?cfg (\<lambda>_. readPage st) ll ?sid = Inr ld"
    and new: "decide (ld_state ld) (ch_command input) = Inr new"
    and rest: "if new = [] then st' = st \<and> res = \<lparr>cr_state = ld_state ld, cr_version = ld_version ld,
                 cr_newEvents = [], cr_storedEvents = []\<rparr>
       else handlerAppend ?cfg (storeAppend now) src st meta input ld new = ((st', meta'), Inr (res, snap))"
    using h by (auto simp: handleCommand_def split: sum.splits if_splits)
  note le = load_exact [OF ok ld]
  show ?thesis
  proof (cases "new = []")
    case True
    then show ?thesis using rest le ok by simp
  next
    case False
    then have ha: "handlerAppend ?cfg (storeAppend now) src st meta input ld new = ((st', meta'), Inr (res, snap))"
      using rest by simp
    define inp :: "'g AppendToStreamInput" where "inp = appendInput codec
      \<lparr>ad_streamId = ?sid, ad_expectedVersion = ExpectVersion (int (ld_version ld)),
       ad_context = ch_context input, ad_events = new, ad_metadata = (\<lambda>_ _. None)\<rparr>"
    obtain stored where q: "storeAppend now st inp = (st', Inr stored)"
      and s: "applyEvents (ld_state ld) evolve new = Inr (cr_state res)" and v: "cr_newEvents res = new"
        "cr_version res = (if stored \<noteq> [] then se_streamVersion (last stored) else ld_version ld)"
      using ha ex
      by (auto simp: handlerAppend_def repositoryAppend_def checkAppendBound_def plainConfig_def inp_def
          Let_def res_simps split: prod.splits sum.splits)
    have i: "no_ids inp" "ai_streamId inp = ?sid"
        "map (\<lambda>e. (er_eventType e, er_payload e)) (ai_events inp) =
           map (\<lambda>e. (er_eventType e, er_payload e)) (encodeDomainEvents codec (\<lambda>_ _. None) new)"
      unfolding inp_def by (rule no_ids_append) (simp_all add: appendInput_def)
    have hist: "history st' ?sid = history st ?sid @ stored" and dec: "decodeAll codec stored = new"
      using append_stored [OF ok i(1) q] i decodeAll_encode [OF codec_ok] by auto
    have ok': "ok st'" by (rule append_ok [OF ok i(1) q])
    have "stored \<noteq> []" using dec False by (auto simp: decodeAll_def)
    then have "se_streamVersion (last stored) = length (history st' ?sid)"
      using contiguous_last [OF history_contiguous [OF ok'], of ?sid] hist by simp
    then show ?thesis using hist dec ok' v s le \<open>stored \<noteq> []\<close> by (simp add: foldEvents_append)
  qed
qed

text \<open>Handlers that interleave: the invariant of the step relation.\<close>

definition pending_ok :: "'st \<Rightarrow> ('s, 'e, 'c) pending_append \<Rightarrow> bool" where
  "pending_ok st p \<longleftrightarrow> (case p of (input, ld, new) \<Rightarrow>
     new \<noteq> [] \<and> expects_loaded input (ld_version ld) \<and>
     (\<exists>h. prefix h (decodeAll codec (history st (ch_streamId input))) \<and> length h = ld_version ld \<and>
        foldEvents initialState evolve h = Inr (ld_state ld)) \<and>
     decide (ld_state ld) (ch_command input) = Inr new)"

definition runtime_inv :: "'st \<times> ('s, 'e, 'c) pending_append list \<Rightarrow> bool" where
  "runtime_inv x \<longleftrightarrow> (case x of (st, ps) \<Rightarrow>
     ok st \<and> (\<forall>sid. reachable_history initialState evolve decide (decodeAll codec (history st sid))) \<and>
     (\<forall>p\<in>set ps. pending_ok st p))"

lemma pending_ok_mono:
  assumes "pending_ok st p" and "\<And>sid. prefix (decodeAll codec (history st sid)) (decodeAll codec (history st' sid))"
  shows "pending_ok st' p"
  using assms prefix_order.trans unfolding pending_ok_def by (fastforce split: prod.splits)

lemma runtime_inv_step:
  assumes "handler_step (plainConfig codec initialState evolve) storeAppend readPage decide x y" and "runtime_inv x"
  shows "runtime_inv y"
  using assms
proof (induction rule: handler_step.induct)
  case (load_and_decide st input ld new ps)
  then have "ok st" by (simp add: runtime_inv_def)
  note le = load_exact [OF this load_and_decide(1)]
  have "\<exists>h. prefix h (decodeAll codec (history st (ch_streamId input))) \<and> length h = ld_version ld \<and>
      foldEvents initialState evolve h = Inr (ld_state ld)"
    using le by (intro exI [of _ "decodeAll codec (history st (ch_streamId input))"]) simp
  then have "pending_ok st (input, ld, new)"
    unfolding pending_ok_def prod.case using load_and_decide by blast
  then show ?case using load_and_decide by (simp add: runtime_inv_def)
next
  case (append_pending input ld new ps now src st meta st' meta' r)
  let ?sid = "ch_streamId input"
  have inv: "ok st" "\<And>sid. reachable_history initialState evolve decide (decodeAll codec (history st sid))"
    "\<And>p. p \<in> set ps \<Longrightarrow> pending_ok st p"
    using append_pending(3) by (auto simp: runtime_inv_def)
  obtain h where p: "new \<noteq> []" "expects_loaded input (ld_version ld)" "prefix h (decodeAll codec (history st ?sid))"
    "length h = ld_version ld" "foldEvents initialState evolve h = Inr (ld_state ld)"
    "decide (ld_state ld) (ch_command input) = Inr new"
    using inv(3) [OF append_pending(1)] by (auto simp: pending_ok_def)
  have "ld_version ld \<le> length (history st ?sid)" using prefix_length_le [OF p(3)] p(4) by simp
  note a = append_decided_events [OF inv(1) p(1,2) this append_pending(2)]
  then consider (same) "history st' = history st"
    | (new) stored where "ld_version ld = length (history st ?sid)" "decodeAll codec stored = new"
        "history st' = (history st)(?sid := history st ?sid @ stored)" by blast
  then have "(\<forall>sid. reachable_history initialState evolve decide (decodeAll codec (history st' sid))) \<and>
      (\<forall>sid. prefix (decodeAll codec (history st sid)) (decodeAll codec (history st' sid)))"
  proof cases
    case same
    then show ?thesis using inv(2) by simp
  next
    case new
    have "h = take (length h) (decodeAll codec (history st ?sid))" using p(3) by (auto simp: prefix_def)
    then have "h = decodeAll codec (history st ?sid)" using p(4) new(1) by simp
    then have "reachable_history initialState evolve decide (decodeAll codec (history st ?sid) @ new)"
      using append_decided [OF inv(2) [of ?sid]] p(5,6) by simp
    then show ?thesis using new inv(2) by simp
  qed
  moreover from this have "pending_ok st' p" if "p \<in> set (remove1 (input, ld, new) ps)" for p
    using pending_ok_mono [OF inv(3)] that set_remove1_subset [of "(input, ld, new)" ps] by blast
  ultimately show ?case using a by (simp add: runtime_inv_def)
qed

lemma interleaved_histories:
  assumes "(handler_step (plainConfig codec initialState evolve) storeAppend readPage decide)\<^sup>*\<^sup>* (st0, []) (st, ps)"
    and "ok st0" and "\<And>sid. history st0 sid = []"
  shows "reachable_history initialState evolve decide (decodeAll codec (history st sid))"
proof -
  have "runtime_inv (st0, [])"
    using assms(2,3) by (simp add: runtime_inv_def decodeAll_def reachable_history.empty_history)
  with assms(1) have "runtime_inv (st, ps)" by (induction rule: rtranclp_induct) (auto intro: runtime_inv_step)
  then show ?thesis by (simp add: runtime_inv_def)
qed

end

section \<open>Snapshots\<close>

definition snapshot_valid ::
    "('s, 'e) AggregateRepositoryConfig \<Rightarrow> StoredEvent list \<Rightarrow> 's AggregateSnapshot \<Rightarrow> bool" where
  "snapshot_valid config es sn \<longleftrightarrow>
     sn_streamVersion sn \<le> length es \<and> int (sn_streamVersion sn) < MAX_SAFE_INTEGER \<and>
     foldEvents (cf_initialState config) (cf_evolve config)
       (take (sn_streamVersion sn) (decodeAll (cf_codec config) es)) = Inr (sn_state sn)"

definition serves_history :: "stream_reader \<Rightarrow> string \<Rightarrow> StoredEvent list \<Rightarrow> bool" where
  "serves_history reader sid h \<longleftrightarrow>
     contiguous 1 h \<and> (\<forall>k v. 1 \<le> v \<longrightarrow> reader k sid v = Inr (take 500 (drop (v - 1) h)))"

lemma readCompleteStream_history:
  assumes "serves_history reader sid h" and "int (length h) < MAX_SAFE_INTEGER"
    and "1 \<le> v" and "int v \<le> MAX_SAFE_INTEGER"
  shows "readCompleteStream reader \<lparr>rc_streamId = sid, rc_fromVersion = Some (numi (int v)), rc_maxEvents = None\<rparr> =
    Inr (drop (v - 1) h)"
proof -
  have "growing_reader reader sid (\<lambda>_. h)" using assms(1,2) by (simp add: growing_reader_def serves_history_def)
  from completeStreamLoop_growing [OF this assms(3), of 0 "[]" None]
  have "completeStreamLoop reader sid None 0 v [] = Inr (drop (v - 1) h)" by (auto simp: Let_def)
  then show ?thesis
    using assms(3,4) by (simp add: readCompleteStream_def assertPositiveSafeInteger_def)
qed

lemma readCompleteStream_default:
  "readCompleteStream reader \<lparr>rc_streamId = sid, rc_fromVersion = None, rc_maxEvents = m\<rparr> =
   readCompleteStream reader \<lparr>rc_streamId = sid, rc_fromVersion = Some (numi (int 1)), rc_maxEvents = m\<rparr>"
  by (simp add: readCompleteStream_def)

lemma load_with_snapshot:
  assumes rd: "serves_history reader sid h" and len: "int (length h) < MAX_SAFE_INTEGER"
    and ll: "ll sid = Inr (Some sn)" and val: "snapshot_valid config h sn" and m: "cf_maxEvents config = None"
  shows "map_sum id (\<lambda>l. (ld_state l, ld_version l)) (repositoryLoad (config\<lparr>cf_snapshots := Some sc\<rparr>) reader ll sid) =
    map_sum id (\<lambda>l. (ld_state l, ld_version l)) (repositoryLoad (config\<lparr>cf_snapshots := None\<rparr>) reader ll sid)"
proof -
  let ?k = "sn_streamVersion sn" and ?f = "foldEvents (cf_initialState config) (cf_evolve config)"
  let ?d = "decodeAll (cf_codec config)"
  have k: "?k \<le> length h" "int ?k < MAX_SAFE_INTEGER" "?f (take ?k (?d h)) = Inr (sn_state sn)"
    using val by (simp_all add: snapshot_valid_def)
  have full: "readCompleteStream reader \<lparr>rc_streamId = sid, rc_fromVersion = None, rc_maxEvents = None\<rparr> = Inr h"
    unfolding readCompleteStream_default
    using readCompleteStream_history [OF rd len, of 1] by (simp add: MAX_SAFE_INTEGER_def)
  have tail: "readCompleteStream reader \<lparr>rc_streamId = sid, rc_fromVersion = Some (numi (int ?k + 1)), rc_maxEvents = None\<rparr> =
      Inr (drop ?k h)"
    using readCompleteStream_history [OF rd len, of "?k + 1"] k(2) by (simp add: add.commute)
  have "?f (?d h) = ?f (take ?k (?d h) @ drop ?k (?d h))" by simp
  also have "\<dots> = foldEvents (sn_state sn) (cf_evolve config) (drop ?k (?d h))"
    unfolding foldEvents_append k(3) by (simp add: foldEvents_def applyEvents_def)
  also have "drop ?k (?d h) = ?d (drop ?k h)" by (simp add: decodeAll_def drop_map)
  finally have st: "?f (?d h) = foldEvents (sn_state sn) (cf_evolve config) (?d (drop ?k h))" .
  have ver: "h \<noteq> [] \<Longrightarrow> se_streamVersion (last h) = length h" using contiguous_last [of 1 h] rd by (simp add: serves_history_def)
  show ?thesis
    using st ver k(1) full tail m ll
    by (cases "foldEvents (sn_state sn) (cf_evolve config) (?d (drop ?k h))")
       (auto simp: repositoryLoad_def loadSnapshotBase_def decodeAll_def [symmetric] Let_def)
qed

interpretation mem_runtime: command_runtime
  "appendToStream lc" memReadPage streamEvents store_ok createPassthroughDomainEventCodec initialState evolve decide
  for lc initialState evolve decide
  by unfold_locales

end
