(* ===== verification/EventStoreProps.thy ===== *)
theory EventStoreProps
  imports CommandHandlerFacts
begin

text \<open>
  The properties of the event store, the complete stream reader, the aggregate repository and the
  command handler.
\<close>

section \<open>Operations of the store\<close>

inductive store_step ::
    "('g list \<Rightarrow> unit res) option \<Rightarrow> locale_compare \<Rightarrow> MemoryStore \<Rightarrow> MemoryStore \<Rightarrow> bool"
  for validate lc where
  one: "appendToStream lc now st (input :: 'g AppendToStreamInput) = (st', r) \<Longrightarrow> store_step validate lc st st'"
| atomic: "appendToStreams validate lc now st inputs = (st', rs) \<Longrightarrow> store_step validate lc st st'"
| independent: "appendToStreamsIndependently lc now st (inputs :: 'g AppendToStreamInput list) = (st', is) \<Longrightarrow>
    store_step validate lc st st'"

lemma appendEach_wf: "store_wf st \<Longrightarrow> appendEach lc now st inputs = (st', r) \<Longrightarrow> store_wf st'"
proof (induction inputs arbitrary: st r)
  case (Cons input inputs)
  obtain st1 r1 where 1: "(if ai_events input = [] then (st, Inr []) else memAppend lc now st input) = (st1, r1)"
    by force
  then have wf: "store_wf st1" using Cons.prems(1) memAppend_wf by (auto split: if_splits)
  show ?case
    using Cons.prems(2) Cons.IH [OF wf] wf unfolding appendEach.simps 1
    by (auto split: sum.splits prod.splits)
qed simp

lemma appendIndependent_wf: "store_wf st \<Longrightarrow> appendIndependent lc now st inputs = (st', r) \<Longrightarrow> store_wf st'"
proof (induction inputs arbitrary: st r)
  case (Cons input inputs)
  obtain st1 r1 where 1: "memAppend lc now st input = (st1, r1)" by force
  then have "store_wf st1" using Cons.prems(1) memAppend_wf by blast
  then show ?case
    using Cons.prems Cons.IH 1 by (auto simp: Let_def split: if_splits prod.splits sum.splits)
qed simp

lemma store_step_wf: "store_step validate lc st st' \<Longrightarrow> store_wf st \<Longrightarrow> store_wf st'"
proof (induction rule: store_step.induct)
  case (one now st input st' r)
  then show ?case by (auto simp: appendToStream_def dest: memAppend_wf split: if_splits)
next
  case (atomic now st inputs st' rs)
  then show ?case
    by (auto simp: appendToStreams_def Let_def dest: appendEach_wf split: if_splits sum.splits prod.splits option.splits)
next
  case (independent now st inputs st' "is")
  then show ?case
    by (auto simp: appendToStreamsIndependently_def dest: appendIndependent_wf split: if_splits prod.splits)
qed

text \<open>
  However the three append operations are mixed, and whether they succeed or throw, every stream of
  the store holds the versions 1, 2, 3, ... in order, the log restricted to a stream is that stream, no
  event id occurs twice, and the log is strictly ordered by global position.
\<close>

theorem store_streams_stay_contiguous:
  assumes "(store_step validate lc)\<^sup>*\<^sup>* createInMemoryEventStore st"
  shows "contiguous 1 (streamEvents st sid) \<and>
    streamEvents st sid = filter (\<lambda>e. se_streamId e = sid) (ms_allEvents st) \<and>
    distinct (map se_eventId (ms_allEvents st)) \<and>
    sorted_wrt (<) (map (\<lambda>e. globalPositionToBigInt (se_globalPosition e)) (ms_allEvents st))"
proof -
  have "store_wf st" using assms
    by (induction rule: rtranclp_induct) (auto simp: store_wf_initial intro: store_step_wf)
  then show ?thesis unfolding store_wf_def by blast
qed

definition sampleContext :: EventStoreContext where
  "sampleContext = \<lparr>cx_tenantId = ''tnt_1'', cx_performedByUserId = ''usr_1'', cx_forAccountId = ''acc_1'', cx_trace = None\<rparr>"

definition sampleAppend :: "ExpectedStreamVersion \<Rightarrow> (string option \<times> string) list \<Rightarrow> unit AppendToStreamInput" where
  "sampleAppend v evs =
     \<lparr>ai_streamId = ''wallet-1'', ai_expectedVersion = v,
      ai_events = map (\<lambda>(i, t). \<lparr>er_eventId = i, er_eventType = t, er_payload = JObject [(''n'', JNumber 1)],
                                er_metadata = None, er_occurredAt = None\<rparr>) evs,
      ai_context = sampleContext, ai_configurationGrants = None\<rparr>"

fun byteCompare :: locale_compare where
  "byteCompare [] [] = 0"
| "byteCompare [] (r # rs) = - 1"
| "byteCompare (l # ls) [] = 1"
| "byteCompare (l # ls) (r # rs) =
     (if of_char l < (of_char r :: nat) then - 1 else if of_char r < (of_char l :: nat) then 1 else byteCompare ls rs)"

definition storeA :: MemoryStore where
  "storeA = fst (appendToStream byteCompare ''now'' createInMemoryEventStore
     (sampleAppend ExpectNoStream [(None, ''opened''), (Some ''e2'', ''posted'')]))"

text \<open>
  An append that names a version other than the stream's is rejected with a concurrency conflict and
  changes nothing, unless all its event ids are already stored.
\<close>

theorem stale_append_conflicts:
  assumes "ai_events input \<noteq> []" and "\<not> hasGrants input"
    and "\<exists>e\<in>set (ai_events input). \<forall>i. er_eventId e = Some i \<longrightarrow> ms_eventsById st i = None"
    and "ai_expectedVersion input = ExpectVersion v" and "v \<noteq> int (length (streamEvents st (ai_streamId input)))"
  shows "appendToStream lc now st input =
    (st, Inl (EventStoreError ''concurrency_conflict'' ''Expected stream version does not match current version.''))"
proof -
  obtain e where e: "e \<in> set (ai_events input)" "\<forall>i. er_eventId e = Some i \<longrightarrow> ms_eventsById st i = None"
    using assms(3) by blast
  have "\<not> (length (List.map_filter er_eventId (ai_events input)) = length (ai_events input) \<and>
      list_all (\<lambda>i. ms_eventsById st i \<noteq> None) (List.map_filter er_eventId (ai_events input)))"
  proof (cases "er_eventId e")
    case None
    then have "length (filter (\<lambda>x. er_eventId x \<noteq> None) (ai_events input)) < length (ai_events input)"
      using e(1) by (intro length_filter_less) auto
    then show ?thesis by (simp add: List.map_filter_def)
  next
    case (Some i)
    then have "i \<in> set (List.map_filter er_eventId (ai_events input))"
      using e(1) by (force simp: List.map_filter_def)
    then show ?thesis using e(2) Some by (auto simp: list_all_iff)
  qed
  then show ?thesis
    using assms
    by (auto simp: appendToStream_def memAppend_def assertExpectedVersion_def storeCurrentVersion_def Let_def)
qed

text \<open>
  C9. An append to several streams is all or nothing: if it throws, the store is exactly what it was, and
  if it returns, every input's expected version held of the store it started from.
\<close>

theorem multi_append_all_or_nothing:
  assumes "appendToStreams validate lc now st inputs = (st', r)"
  shows "(\<forall>e. r = Inl e \<longrightarrow> st' = st) \<and>
    (\<forall>out. r = Inr out \<longrightarrow> map fst out = map ai_streamId inputs \<and>
       (\<forall>input\<in>set inputs.
          assertExpectedVersion (ai_expectedVersion input) (int (length (streamEvents st (ai_streamId input)))) = Inr ()))"
proof -
  have vs: "checkVersions st ins = Inr () \<Longrightarrow> input \<in> set ins \<Longrightarrow>
      assertExpectedVersion (ai_expectedVersion input) (int (length (streamEvents st (ai_streamId input)))) = Inr ()"
    for ins and input :: "'b AppendToStreamInput"
    by (induction ins) (auto simp: res_simps storeCurrentVersion_def)
  have ids: "appendEach lc now s ins = (s', Inr out) \<Longrightarrow> map fst out = map ai_streamId ins" for s s' out
    and ins :: "'b AppendToStreamInput list"
    by (induction ins arbitrary: s s' out) (auto split: sum.splits prod.splits if_splits)
  show ?thesis
    using assms vs ids
    by (auto simp: appendToStreams_def Let_def split: if_splits sum.splits prod.splits option.splits)
qed

theorem multi_append_all_or_nothing_witness:
  "fst (appendToStreams None byteCompare ''now'' storeA
     [sampleAppend ExpectAny [(Some ''e9'', ''again'')], sampleAppend ExpectAny [(Some ''e2'', ''changed'')]]) = storeA"
proof -
  let ?ins = "[sampleAppend ExpectAny [(Some ''e9'', ''again'')], sampleAppend ExpectAny [(Some ''e2'', ''changed'')]]"
  obtain st' r where 1: "appendToStreams None byteCompare ''now'' storeA ?ins = (st', r)" by (rule prod.exhaust)
  have "isl (snd (appendToStreams None byteCompare ''now'' storeA ?ins))" by code_simp
  then show ?thesis using multi_append_all_or_nothing [OF 1] 1 by (cases r) auto
qed

text \<open>
  C30. Repeating an append whose events all carry ids, after it succeeded, changes nothing and returns the
  same stored events, whatever version it expects.
\<close>

theorem append_retry_is_idempotent:
  assumes "store_wf st" and "\<forall>e\<in>set (ai_events input). er_eventId e \<noteq> None"
    and "appendToStream lc now st input = (st', Inr stored)"
  shows "appendToStream lc now' st' input = (st', Inr stored)"
proof -
  have g: "\<not> hasGrants input" and m: "memAppend lc now st input = (st', Inr stored)"
    using assms(3) by (simp_all add: appendToStream_def split: if_splits)
  show ?thesis using g memAppend_retry [OF assms(1,2) m] by (simp add: appendToStream_def)
qed

theorem append_retry_is_idempotent_witness:
  "\<exists>st' stored. appendToStream byteCompare ''t1'' createInMemoryEventStore
      (sampleAppend ExpectNoStream [(Some ''e1'', ''opened''), (Some ''e2'', ''posted''), (Some ''e1'', ''opened'')]) =
      (st', Inr stored) \<and> length stored = 3 \<and>
    appendToStream byteCompare ''t2'' st'
      (sampleAppend ExpectNoStream [(Some ''e1'', ''opened''), (Some ''e2'', ''posted''), (Some ''e1'', ''opened'')]) =
      (st', Inr stored)"
proof -
  let ?in = "sampleAppend ExpectNoStream [(Some ''e1'', ''opened''), (Some ''e2'', ''posted''), (Some ''e1'', ''opened'')]"
  have "case snd (appendToStream byteCompare ''t1'' createInMemoryEventStore ?in) of
      Inr stored \<Rightarrow> length stored = 3 | Inl _ \<Rightarrow> False" by code_simp
  then obtain st' stored where 1: "appendToStream byteCompare ''t1'' createInMemoryEventStore ?in = (st', Inr stored)"
    "length stored = 3"
    by (cases "appendToStream byteCompare ''t1'' createInMemoryEventStore ?in") (auto split: sum.splits)
  from append_retry_is_idempotent [OF store_wf_initial _ 1(1), of "''t2''"] 1 show ?thesis
    by (auto simp: sampleAppend_def)
qed


section \<open>Complete reads\<close>

text \<open>
  C31. Reading a complete stream while it grows returns, whatever is appended between the pages, the whole
  stream as it was at some moment of the read; with a bound it either returns at most that many events
  or says that the stream was longer. It always ends.
\<close>

theorem complete_read_is_a_snapshot:
  assumes "growing_reader reader sid hist"
    and "(case m of None \<Rightarrow> True | Some b \<Rightarrow> 1 \<le> b \<and> int b \<le> MAX_SAFE_INTEGER)"
  defines "input \<equiv> \<lparr>rc_streamId = sid, rc_fromVersion = None, rc_maxEvents = map_option (\<lambda>b. numi (int b)) m\<rparr>"
  shows "\<exists>n. readCompleteStream reader input = Inr (hist n) \<and> (\<forall>b. m = Some b \<longrightarrow> length (hist n) \<le> b) \<or>
    (\<exists>b. m = Some b \<and> b < length (hist n) \<and>
       readCompleteStream reader input = Inl (EventStreamTooLongError sid (int b)))"
proof -
  have "readCompleteStream reader input = completeStreamLoop reader sid m 0 1 []"
    using assms(2) by (cases m) (auto simp: readCompleteStream_def assertPositiveSafeInteger_def input_def MAX_SAFE_INTEGER_def)
  then show ?thesis using completeStreamLoop_growing [OF assms(1), of 1 0 "[]" m] by (auto simp: Let_def)
qed

definition sampleReader :: stream_reader where
  "sampleReader k sid v = memReadPage storeA sid v"

theorem complete_read_is_a_snapshot_witness:
  "\<exists>n::nat. readCompleteStream sampleReader
     \<lparr>rc_streamId = ''wallet-1'', rc_fromVersion = None, rc_maxEvents = Some (numi 1)\<rparr> =
       Inl (EventStreamTooLongError ''wallet-1'' 1)"
proof -
  have wf: "store_wf storeA"
    unfolding storeA_def
    by (rule store_step_wf [OF store_step.one [OF prod.collapse [symmetric]] store_wf_initial])
  have len: "length (streamEvents storeA ''wallet-1'') = 2" by code_simp
  have "growing_reader sampleReader ''wallet-1'' (\<lambda>_. streamEvents storeA ''wallet-1'')"
    using store_wf_contiguous [OF wf] memReadPage_history [OF wf] len
    by (simp add: growing_reader_def sampleReader_def MAX_SAFE_INTEGER_def)
  from complete_read_is_a_snapshot [OF this, of "Some 1"] len show ?thesis by (simp add: MAX_SAFE_INTEGER_def)
qed


section \<open>The command handler\<close>

text \<open>
  When a handled command returns, a reload of the stream gives exactly the state and version it
  returned, and the stream's events are the earlier ones followed by the decided ones.
\<close>

theorem handled_command_matches_reload:
  fixes decide :: "'s \<Rightarrow> 'c \<Rightarrow> DomainEvent list res"
  assumes "store_ok st" and "ch_expectedVersion input = None"
    and "handleCommand (plainConfig createPassthroughDomainEventCodec s0 evolve) (appendToStream lc now) memReadPage ll
      decide src st meta input = ((st', meta'), Inr (res, snap))"
  defines "events \<equiv> \<lambda>store. decodeAll createPassthroughDomainEventCodec (streamEvents store (ch_streamId input))"
  shows "store_ok st' \<and> events st' = events st @ cr_newEvents res \<and> cr_version res = length (events st') \<and>
    foldEvents s0 evolve (events st') = Inr (cr_state res)"
  using mem_runtime.handled_state [OF assms(1-3)] length_decodeAll unfolding events_def by metis

text \<open>A counter aggregate for the witnesses.\<close>

definition countEvolve :: "int \<Rightarrow> DomainEvent \<Rightarrow> int res" where
  "countEvolve s e = (case de_data e of JNumber n \<Rightarrow> Inr (s + n) | _ \<Rightarrow> Inl (Error ''bad''))"

definition countDecide :: "int \<Rightarrow> int \<Rightarrow> DomainEvent list res" where
  "countDecide s c = ensure (0 \<le> s + c) (Error ''negative'') (Inr [\<lparr>de_type = ''counted'', de_data = JNumber c\<rparr>])"

definition countInput :: "int \<Rightarrow> int CommandHandlerInput" where
  "countInput c = \<lparr>ch_streamId = ''counter-1'', ch_command = c, ch_context = sampleContext, ch_expectedVersion = None\<rparr>"

abbreviation countConfig :: "(int, DomainEvent) AggregateRepositoryConfig" where
  "countConfig \<equiv> plainConfig createPassthroughDomainEventCodec 0 countEvolve"

definition countHandle :: "MemoryStore \<Rightarrow> int \<Rightarrow> (MemoryStore, int, DomainEvent) handler_outcome" where
  "countHandle st c = handleCommand countConfig
     (appendToStream byteCompare ''now'' :: MemoryStore \<Rightarrow> unit AppendToStreamInput \<Rightarrow> _) memReadPage (\<lambda>_. Inr None)
     countDecide None st None (countInput c)"

text \<open>
  C7. Handlers of aggregates without snapshots that load, decide and append in any interleaving over the same
  store leave, in every stream, a history that some sequence of commands, each decided on the history before
  it, would have produced one after the other, and so does a handler that then runs without interruption:
  the optimistic version check serialises them. The codec must read back what it writes. A caller may name
  the version it expects, but neither accept any version nor name one above the version that was loaded: for
  such callers the check does not protect the decision.
\<close>

theorem interleaved_handlers_serialise:
  fixes lc :: locale_compare and decide :: "'s \<Rightarrow> 'c \<Rightarrow> 'e list res" and codec :: "'e DomainEventCodec"
    and append :: "string \<Rightarrow> MemoryStore \<Rightarrow> 'g AppendToStreamInput \<Rightarrow> MemoryStore \<times> StoredEvent list res"
  defines "append \<equiv> appendToStream lc"
  assumes "event_codec codec"
    and "(handler_step (plainConfig codec s0 evolve) append memReadPage decide)\<^sup>*\<^sup>* (createInMemoryEventStore, []) (st, pending)"
  shows "reachable_history s0 evolve decide (decodeAll codec (streamEvents st sid)) \<and>
    (\<forall>now source meta input st' meta' r.
       (\<forall>ld. repositoryLoad (plainConfig codec s0 evolve) (\<lambda>_. memReadPage st) (\<lambda>_. Inr None) (ch_streamId input) = Inr ld \<longrightarrow>
          expects_loaded input (ld_version ld)) \<longrightarrow>
       handleCommand (plainConfig codec s0 evolve) (append now) memReadPage (\<lambda>_. Inr None) decide source st meta input =
         ((st', meta'), r) \<longrightarrow>
       reachable_history s0 evolve decide (decodeAll codec (streamEvents st' sid)))"
proof -
  have runtime: "command_runtime append memReadPage streamEvents store_ok codec"
    unfolding append_def by (intro command_runtime.intro mem.event_store_axioms assms(2))
  have empty: "streamEvents createInMemoryEventStore k = []" for k
    by (simp add: streamEvents_def createInMemoryEventStore_def)
  note hist = command_runtime.interleaved_histories [OF runtime _ store_ok_initial empty]
  have "reachable_history s0 evolve decide (decodeAll codec (streamEvents st' sid))"
    if "\<forall>ld. repositoryLoad (plainConfig codec s0 evolve) (\<lambda>_. memReadPage st) (\<lambda>_. Inr None) (ch_streamId input) = Inr ld \<longrightarrow>
          expects_loaded input (ld_version ld)"
      and "handleCommand (plainConfig codec s0 evolve) (append now) memReadPage (\<lambda>_. Inr None) decide source st meta input =
         ((st', meta'), r)" for now source meta input st' meta' r
  proof -
    from handleCommand_steps [where storeAppend = append and now = now, OF that(2)] that(1)
    have "(handler_step (plainConfig codec s0 evolve) append memReadPage decide)\<^sup>*\<^sup>* (st, pending) (st', pending)"
      by blast
    with assms(3) have "(handler_step (plainConfig codec s0 evolve) append memReadPage decide)\<^sup>*\<^sup>*
        (createInMemoryEventStore, []) (st', pending)" by (rule rtranclp_trans)
    then show ?thesis by (rule hist)
  qed
  with hist [OF assms(3)] show ?thesis by blast
qed

text \<open>
  C28. Loading from a valid snapshot and the events after it gives the same state and version, or the
  same error, as replaying the whole stream.
\<close>

theorem snapshot_load_is_replay:
  assumes "store_wf st" and "int (length (streamEvents st sid)) < MAX_SAFE_INTEGER"
    and "loadLatest sid = Inr (Some sn)" and "snapshot_valid config (streamEvents st sid) sn"
    and "cf_maxEvents config = None"
  shows "map_sum id (\<lambda>l. (ld_state l, ld_version l))
      (repositoryLoad (config\<lparr>cf_snapshots := Some sc\<rparr>) (\<lambda>_. memReadPage st) loadLatest sid) =
    map_sum id (\<lambda>l. (ld_state l, ld_version l))
      (repositoryLoad (config\<lparr>cf_snapshots := None\<rparr>) (\<lambda>_. memReadPage st) loadLatest sid)"
proof (rule load_with_snapshot)
  show "serves_history (\<lambda>_. memReadPage st) sid (streamEvents st sid)"
    using store_wf_contiguous [OF assms(1)] memReadPage_history [OF assms(1)] unfolding serves_history_def by blast
qed (use assms in simp_all)

text \<open>The witness of the serialisation: two counters that both read version 0; the second to append loses.\<close>

theorem interleaved_handlers_serialise_witness:
  "\<exists>st. map se_streamVersion (streamEvents st ''counter-1'') = [1] \<and>
     reachable_history 0 countEvolve countDecide
       (decodeAll createPassthroughDomainEventCodec (streamEvents st ''counter-1''))"
proof -
  let ?append = "appendToStream byteCompare :: string \<Rightarrow> MemoryStore \<Rightarrow> unit AppendToStreamInput \<Rightarrow> _"
  let ?step = "handler_step countConfig ?append memReadPage countDecide"
  let ?ld = "\<lparr>ld_state = 0, ld_version = 0, ld_events = [], ld_storedEvents = []\<rparr>"
  let ?p = "\<lambda>c. (countInput c, ?ld, [\<lparr>de_type = ''counted'', de_data = JNumber c\<rparr>])"
  have ld: "repositoryLoad countConfig (\<lambda>_. memReadPage createInMemoryEventStore) (\<lambda>_. Inr None) (ch_streamId (countInput c)) = Inr ?ld" for c
  proof -
    have "repositoryLoad countConfig (\<lambda>_. memReadPage createInMemoryEventStore) (\<lambda>_. Inr None) ''counter-1'' = Inr ?ld" by code_simp
    then show ?thesis by (simp add: countInput_def)
  qed
  have load: "?step (createInMemoryEventStore, ps) (createInMemoryEventStore, ?p c # ps)" if "0 \<le> c" for c ps
    by (rule load_and_decide) (use that ld [of c] in \<open>simp_all add: countDecide_def countInput_def expects_loaded_def\<close>)
  define out where "out = handlerAppend countConfig (?append ''now'') None createInMemoryEventStore None (countInput 3) ?ld
      [\<lparr>de_type = ''counted'', de_data = JNumber 3\<rparr>]"
  obtain st meta r where o: "out = ((st, meta), r)" by (metis prod.exhaust)
  have "map se_streamVersion (streamEvents (fst (fst out)) ''counter-1'') = [1]" unfolding out_def by code_simp
  then have v: "map se_streamVersion (streamEvents st ''counter-1'') = [1]" by (simp add: o)
  define out2 where "out2 = handlerAppend countConfig (?append ''later'') None (fst (fst out)) None (countInput 4) ?ld
      [\<lparr>de_type = ''counted'', de_data = JNumber 4\<rparr>]"
  obtain st2 meta2 r2 where o2: "out2 = ((st2, meta2), r2)" by (metis prod.exhaust)
  have "map se_streamVersion (streamEvents (fst (fst out2)) ''counter-1'') = [1]" unfolding out2_def out_def by code_simp
  then have v2: "map se_streamVersion (streamEvents st2 ''counter-1'') = [1]" by (simp add: o2)
  have 1: "?step (createInMemoryEventStore, [?p 4, ?p 3]) (st, remove1 (?p 3) [?p 4, ?p 3])"
    by (rule append_pending [where meta = None and source = None and now = "''now''"])
       (use o in \<open>simp_all add: out_def\<close>)
  have 2: "?step (st, [?p 4]) (st2, remove1 (?p 4) [?p 4])"
    by (rule append_pending [where meta = None and source = None and now = "''later''"])
       (use o2 o in \<open>simp_all add: out2_def\<close>)
  have "remove1 (?p 3) [?p 4, ?p 3] = [?p 4]" by (simp add: countInput_def)
  then have "?step\<^sup>*\<^sup>* (createInMemoryEventStore, []) (st2, [])"
    using load [of 3 "[]"] load [of 4 "[?p 3]"] 1 2
    by (auto intro: converse_rtranclp_into_rtranclp)
  then have "reachable_history 0 countEvolve countDecide
      (decodeAll createPassthroughDomainEventCodec (streamEvents st2 ''counter-1''))"
    by (rule interleaved_handlers_serialise [OF passthrough.event_codec_axioms, THEN conjunct1])
  with v2 show ?thesis by (intro exI [of _ st2] conjI)
qed

text \<open>A snapshot after the first of two events.\<close>

theorem snapshot_load_is_replay_witness:
  "\<exists>st. streamEvents st ''counter-1'' \<noteq> [] \<and>
     map_sum id (\<lambda>l. (ld_state l, ld_version l))
       (repositoryLoad (countConfig\<lparr>cf_snapshots := Some \<lparr>sc_schemaVersion = numi 1, sc_everyNEvents = numi 1\<rparr>\<rparr>)
         (\<lambda>_. memReadPage st) (\<lambda>_. Inr (Some \<lparr>sn_streamVersion = 1, sn_schemaVersion = 1, sn_state = 3\<rparr>)) ''counter-1'') =
     map_sum id (\<lambda>l. (ld_state l, ld_version l))
       (repositoryLoad (countConfig\<lparr>cf_snapshots := None\<rparr>)
         (\<lambda>_. memReadPage st) (\<lambda>_. Inr (Some \<lparr>sn_streamVersion = 1, sn_schemaVersion = 1, sn_state = 3\<rparr>)) ''counter-1'')"
proof -
  define st where "st = fst (fst (countHandle (fst (fst (countHandle createInMemoryEventStore 3))) 4))"
  have "length (streamEvents st ''counter-1'') = 2 \<and>
      decodeAll createPassthroughDomainEventCodec (streamEvents st ''counter-1'') =
        [\<lparr>de_type = ''counted'', de_data = JNumber 3\<rparr>, \<lparr>de_type = ''counted'', de_data = JNumber 4\<rparr>]"
    unfolding st_def by code_simp
  then have len: "length (streamEvents st ''counter-1'') = 2" and
    dec: "decodeAll createPassthroughDomainEventCodec (streamEvents st ''counter-1'') =
        [\<lparr>de_type = ''counted'', de_data = JNumber 3\<rparr>, \<lparr>de_type = ''counted'', de_data = JNumber 4\<rparr>]" by simp_all
  have step: "store_wf (fst (fst (countHandle s c)))" if "store_wf s" for s c
  proof -
    have "store_wf s'" if "appendToStream byteCompare ''now'' s (i :: unit AppendToStreamInput) = (s', r)" for s' i r
      using store_step_wf [OF store_step.one [OF that] \<open>store_wf s\<close>] .
    then show ?thesis
      using that by (auto simp: countHandle_def handleCommand_def handlerAppend_def repositoryAppend_def Let_def
          split: sum.splits prod.splits)
  qed
  have wf: "store_wf st" unfolding st_def by (intro step store_wf_initial)
  have val: "snapshot_valid countConfig (streamEvents st ''counter-1'') \<lparr>sn_streamVersion = 1, sn_schemaVersion = 1, sn_state = 3\<rparr>"
    using len dec by (simp add: snapshot_valid_def plainConfig_def MAX_SAFE_INTEGER_def foldEvents_def countEvolve_def)
  have "streamEvents st ''counter-1'' \<noteq> []" using len by auto
  moreover have "int (length (streamEvents st ''counter-1'')) < MAX_SAFE_INTEGER" by (simp add: len MAX_SAFE_INTEGER_def)
  ultimately show ?thesis
    using snapshot_load_is_replay [OF wf _ _ val] by (intro exI [of _ st]) (simp add: plainConfig_def)
qed

end
