(* ===== verification/InventoryCommon.thy ===== *)
theory InventoryCommon
  imports JsTime EventDomain
begin

text \<open>
  \<open>bounded-contexts/inventory/support/runtime-support/common.ts\<close> and the closed vocabularies of
  \<open>contracts/event-core/public-event-payloads/inventory.ts\<close> that the inventory deciders check.
  The text normaliser \<open>normalizeOptionalText\<close> is the one of \<open>JsString\<close>: the contexts
  have the same copy.
\<close>

section \<open>Vocabulary\<close>

datatype InventoryHoldStatus = StockHoldActive | StockHoldReleased | StockHoldConsumed | StockHoldExpired

datatype InventoryHoldPurpose =
    PurposeOrder | PurposeManual | PurposeCheckout | PurposePos | PurposeChannel | PurposeTransfer

definition inventoryHoldPurposes :: "(string \<times> InventoryHoldPurpose) list" where
  "inventoryHoldPurposes =
     [(''order'', PurposeOrder), (''manual'', PurposeManual), (''checkout'', PurposeCheckout),
      (''pos'', PurposePos), (''channel'', PurposeChannel), (''transfer'', PurposeTransfer)]"

datatype InventoryHoldReleaseReason =
    ReleaseOrderCancelled | ReleaseCheckoutCancelled | ReleaseCheckoutExpired
  | ReleasePaymentDeadline | ReleaseHoldCollision | ReleaseManual | ReleaseSuperseded

definition inventoryHoldReleaseReasons :: "(string \<times> InventoryHoldReleaseReason) list" where
  "inventoryHoldReleaseReasons =
     [(''order-cancelled'', ReleaseOrderCancelled), (''checkout-cancelled'', ReleaseCheckoutCancelled),
      (''checkout-expired'', ReleaseCheckoutExpired), (''payment-deadline'', ReleasePaymentDeadline),
      (''hold-collision'', ReleaseHoldCollision), (''manual'', ReleaseManual),
      (''superseded'', ReleaseSuperseded)]"

text \<open>The two shapes of a source reference; \<open>"orderId" in sourceRef\<close> tells them apart.\<close>

datatype InventoryHoldSourceRef =
    OrderSourceRef (osr_orderId: string) (osr_reservationRequestId: string)
  | CheckoutSourceRef (csr_checkoutSessionId: string) (csr_lineKey: string)


section \<open>Checks and normalisers\<close>

definition normalizeLabel :: "string \<Rightarrow> string" where
  "normalizeLabel value = js_trim value"

definition ensureInteger :: "jsnum \<Rightarrow> string \<Rightarrow> int res" where
  "ensureInteger value message =
     ensure (isInteger value) (InventoryDomainError message) (Inr (num_to_int value))"

definition ensurePositiveInteger :: "jsnum \<Rightarrow> string \<Rightarrow> int res" where
  "ensurePositiveInteger value message =
     bindE (ensureInteger value message) (\<lambda>n.
       ensure (n > 0) (InventoryDomainError message) (Inr n))"

definition ensureNonNegativeInteger :: "jsnum \<Rightarrow> string \<Rightarrow> int res" where
  "ensureNonNegativeInteger value message =
     bindE (ensureInteger value message) (\<lambda>n.
       ensure (n \<ge> 0) (InventoryDomainError message) (Inr n))"

text \<open>Comparisons of two \<open>Date.parse\<close> results: false when either is NaN.\<close>

fun time_le :: "int option \<Rightarrow> int option \<Rightarrow> bool" where
  "time_le (Some a) (Some b) = (a \<le> b)"
| "time_le _ _ = False"

fun time_less :: "int option \<Rightarrow> int option \<Rightarrow> bool" where
  "time_less (Some a) (Some b) = (a < b)"
| "time_less _ _ = False"

lemma normalizeLabel_idem [simp]: "normalizeLabel (normalizeLabel v) = normalizeLabel v"
  by (simp add: normalizeLabel_def)

lemma ensureInteger_Inr [res_simps]: "ensureInteger v m = Inr n \<longleftrightarrow> v = numi n"
  by (cases v) (auto simp: ensureInteger_def)

lemma ensurePositiveInteger_Inr [res_simps]: "ensurePositiveInteger v m = Inr n \<longleftrightarrow> v = numi n \<and> 0 < n"
  by (auto simp: ensurePositiveInteger_def res_simps)

lemma ensureNonNegativeInteger_Inr [res_simps]:
  "ensureNonNegativeInteger v m = Inr n \<longleftrightarrow> v = numi n \<and> 0 \<le> n"
  by (auto simp: ensureNonNegativeInteger_def res_simps)

lemma time_le_iff: "time_le a b \<longleftrightarrow> (\<exists>x y. a = Some x \<and> b = Some y \<and> x \<le> y)"
  by (cases a; cases b) auto

lemma time_less_iff: "time_less a b \<longleftrightarrow> (\<exists>x y. a = Some x \<and> b = Some y \<and> x < y)"
  by (cases a; cases b) auto

end
