(* ===== verification/InventoryHold.thy ===== *)
theory InventoryHold
  imports InventoryCommon
begin

text \<open>
  Inventory holds: \<open>bounded-contexts/inventory/features/holds/domain/domain.ts\<close>. A hold reserves
  a quantity of an item for an order, for a checkout session (then it expires) or by hand. State,
  commands, events, the decider (one definition per command) and the evolver.
\<close>

section \<open>State, commands and events\<close>

record InventoryHoldState =
  ih_id :: "string option"
  ih_accountId :: "string option"
  ih_itemId :: "string option"
  ih_quantity :: int
  ih_reason :: string
  ih_notes :: "string option"
  ih_purpose :: "InventoryHoldPurpose option"
  ih_sourceRef :: "InventoryHoldSourceRef option"
  ih_expiresAt :: "string option"
  ih_status :: InventoryHoldStatus
  ih_releasedAt :: "string option"
  ih_releaseReason :: "InventoryHoldReleaseReason option"
  ih_consumedAt :: "string option"
  ih_expiredAt :: "string option"
  ih_extensionCount :: int

definition initialInventoryHoldState :: InventoryHoldState where
  "initialInventoryHoldState =
     \<lparr>ih_id = None, ih_accountId = None, ih_itemId = None, ih_quantity = 0, ih_reason = '''',
      ih_notes = None, ih_purpose = None, ih_sourceRef = None, ih_expiresAt = None,
      ih_status = StockHoldActive, ih_releasedAt = None, ih_releaseReason = None,
      ih_consumedAt = None, ih_expiredAt = None, ih_extensionCount = 0\<rparr>"

text \<open>An absent optional field and \<open>null\<close> are read alike (\<open>?? null\<close>): both are \<open>None\<close>.\<close>

record PlaceInventoryHoldCommand =
  ph_holdId :: string
  ph_accountId :: string
  ph_itemId :: string
  ph_quantity :: jsnum
  ph_reason :: string
  ph_notes :: "string option"
  ph_purpose :: string
  ph_sourceRef :: "InventoryHoldSourceRef option"
  ph_expiresAt :: "string option"

datatype InventoryHoldCommand =
    PlaceInventoryHold PlaceInventoryHoldCommand
  | ReleaseInventoryHold (rh_releasedAt: string) (rh_releaseReason: string)
  | ConsumeInventoryHold (ch_consumedAt: string) (ch_consumptionReason: string)
  | ConvertInventoryHold (vh_convertedAt: string) (vh_orderId: string) (vh_reservationRequestId: string)
  | ExpireInventoryHold (eh_expiredAt: string)
  | ExtendInventoryHold (xh_extendedAt: string) (xh_expiresAt: string) (xh_maxExtensionCount: jsnum)

record InventoryHeld =
  hp_holdId :: string
  hp_accountId :: string
  hp_itemId :: string
  hp_quantity :: int
  hp_reason :: string
  hp_notes :: "string option"
  hp_purpose :: InventoryHoldPurpose
  hp_sourceRef :: "InventoryHoldSourceRef option"
  hp_expiresAt :: "string option"

text \<open>A converted event has the literals \<open>purpose: "order"\<close> and \<open>expiresAt: null\<close>.\<close>

datatype InventoryHoldEvent =
    InventoryHoldPlaced InventoryHeld
  | InventoryHoldReleased (hr_holdId: string) (hr_releasedAt: string)
      (hr_releaseReason: InventoryHoldReleaseReason)
  | InventoryHoldConsumed (hc_holdId: string) (hc_consumedAt: string) (hc_consumptionReason: string)
      (hc_sourceRef: InventoryHoldSourceRef)
  | InventoryHoldConverted (hv_holdId: string) (hv_convertedAt: string)
      (hv_sourceRef: InventoryHoldSourceRef)
  | InventoryHoldExpired (he_holdId: string) (he_expiredAt: string)
  | InventoryHoldExtended (hx_holdId: string) (hx_extendedAt: string) (hx_expiresAt: string)
      (hx_extensionCount: int)


section \<open>Validation\<close>

definition requireCreatedInventoryHold :: "InventoryHoldState \<Rightarrow> string res" where
  "requireCreatedInventoryHold state =
     (case ih_id state of
        None \<Rightarrow> Inl (InventoryDomainError ''Inventory hold must be created first.'')
      | Some holdId \<Rightarrow> Inr holdId)"

definition validateHoldPurpose :: "string \<Rightarrow> InventoryHoldPurpose res" where
  "validateHoldPurpose purpose =
     (case map_of inventoryHoldPurposes purpose of
        None \<Rightarrow>
          Inl (InventoryDomainError (''Unsupported inventory hold purpose: '' @ purpose @ ''.''))
      | Some p \<Rightarrow>
          ensure (p = PurposeOrder \<or> p = PurposeManual \<or> p = PurposeCheckout)
            (InventoryDomainError
               (''Inventory hold purpose '' @ purpose @ '' is planned but not active yet.''))
            (Inr p))"

definition validateReleaseReason :: "string \<Rightarrow> InventoryHoldReleaseReason res" where
  "validateReleaseReason releaseReason =
     (case map_of inventoryHoldReleaseReasons releaseReason of
        None \<Rightarrow>
          Inl (InventoryDomainError
                 (''Unsupported inventory hold release reason: '' @ releaseReason @ ''.''))
      | Some r \<Rightarrow> Inr r)"

definition validateHoldSourceRef ::
    "InventoryHoldPurpose \<Rightarrow> InventoryHoldSourceRef option \<Rightarrow> unit res" where
  "validateHoldSourceRef purpose sourceRef =
     (if purpose = PurposeOrder then
        (case sourceRef of
           None \<Rightarrow> Inl (InventoryDomainError ''Order inventory holds require a source reference.'')
         | Some (CheckoutSourceRef s l) \<Rightarrow>
             Inl (InventoryDomainError ''Order inventory holds require an order source reference.'')
         | Some (OrderSourceRef orderId requestId) \<Rightarrow>
             ensure (length (normalizeLabel orderId) > 0)
               (InventoryDomainError ''Order inventory holds require an order id.'')
             (ensure (length (normalizeLabel requestId) > 0)
               (InventoryDomainError ''Order inventory holds require a reservation request id.'')
               (Inr ())))
      else if purpose = PurposeCheckout then
        (case sourceRef of
           None \<Rightarrow> Inl (InventoryDomainError ''Checkout inventory holds require a source reference.'')
         | Some (OrderSourceRef orderId requestId) \<Rightarrow>
             Inl (InventoryDomainError ''Checkout inventory holds require a checkout source reference.'')
         | Some (CheckoutSourceRef sessionId lineKey) \<Rightarrow>
             ensure (length (normalizeLabel sessionId) > 0)
               (InventoryDomainError ''Checkout inventory holds require a checkout session id.'')
             (ensure (length (normalizeLabel lineKey) > 0)
               (InventoryDomainError ''Checkout inventory holds require a line key.'')
               (Inr ())))
      else
        ensure (Option.is_none sourceRef)
          (InventoryDomainError ''Manual inventory holds cannot carry a source reference.'') (Inr ()))"

text \<open>The purposes whose text the message of the first check prints.\<close>

fun holdPurposeText :: "InventoryHoldPurpose \<Rightarrow> string" where
  "holdPurposeText PurposeOrder = ''order''"
| "holdPurposeText PurposeManual = ''manual''"
| "holdPurposeText PurposeCheckout = ''checkout''"
| "holdPurposeText PurposePos = ''pos''"
| "holdPurposeText PurposeChannel = ''channel''"
| "holdPurposeText PurposeTransfer = ''transfer''"

definition validateHoldExpiry :: "InventoryHoldPurpose \<Rightarrow> string option \<Rightarrow> unit res" where
  "validateHoldExpiry purpose expiresAt =
     (if purpose = PurposeOrder \<or> purpose = PurposeManual then
        ensure (Option.is_none expiresAt)
          (InventoryDomainError
             (holdPurposeText purpose @ '' inventory holds do not expire automatically.'')) (Inr ())
      else if purpose = PurposeCheckout then
        ensure (\<not> Option.is_none expiresAt)
          (InventoryDomainError ''Checkout inventory holds require an expiry.'') (Inr ())
      else Inr ())"

definition normalizeOrderSourceRef :: "string \<Rightarrow> string \<Rightarrow> InventoryHoldSourceRef" where
  "normalizeOrderSourceRef orderId reservationRequestId =
     OrderSourceRef (normalizeLabel orderId) (normalizeLabel reservationRequestId)"

fun normalizeHoldSourceRef :: "InventoryHoldSourceRef option \<Rightarrow> InventoryHoldSourceRef option" where
  "normalizeHoldSourceRef None = None"
| "normalizeHoldSourceRef (Some (CheckoutSourceRef sessionId lineKey)) =
     Some (CheckoutSourceRef (normalizeLabel sessionId) (normalizeLabel lineKey))"
| "normalizeHoldSourceRef (Some (OrderSourceRef orderId requestId)) =
     Some (normalizeOrderSourceRef orderId requestId)"

text \<open>\<open>value ? normalizeLabel(value) : null\<close>: the empty text counts as absent.\<close>

fun truthyLabel :: "string option \<Rightarrow> string option" where
  "truthyLabel None = None"
| "truthyLabel (Some v) = (if v = [] then None else Some (normalizeLabel v))"


section \<open>The decider\<close>

definition decidePlaceInventoryHold ::
    "InventoryHoldState \<Rightarrow> PlaceInventoryHoldCommand \<Rightarrow> InventoryHoldEvent list res" where
  "decidePlaceInventoryHold state command =
     ensure (Option.is_none (ih_id state))
       (InventoryDomainError ''Inventory hold has already been created.'') (
     bindE (ensurePositiveInteger (ph_quantity command)
              ''Inventory holds require a positive quantity.'') (\<lambda>quantity.
     bindE (validateHoldPurpose (ph_purpose command)) (\<lambda>purpose.
     bindE (validateHoldSourceRef purpose (ph_sourceRef command)) (\<lambda>_.
     bindE (validateHoldExpiry purpose (ph_expiresAt command)) (\<lambda>_.
       Inr [InventoryHoldPlaced
              \<lparr>hp_holdId = ph_holdId command, hp_accountId = ph_accountId command,
               hp_itemId = normalizeLabel (ph_itemId command), hp_quantity = quantity,
               hp_reason = normalizeLabel (ph_reason command),
               hp_notes = normalizeOptionalText (ph_notes command), hp_purpose = purpose,
               hp_sourceRef = normalizeHoldSourceRef (ph_sourceRef command),
               hp_expiresAt = truthyLabel (ph_expiresAt command)\<rparr>])))))"

definition decideReleaseInventoryHold ::
    "InventoryHoldState \<Rightarrow> string \<Rightarrow> string \<Rightarrow> InventoryHoldEvent list res" where
  "decideReleaseInventoryHold state releasedAt releaseReason =
     bindE (requireCreatedInventoryHold state) (\<lambda>holdId.
     ensure (ih_status state = StockHoldActive)
       (InventoryDomainError ''Only active holds can be released.'') (
     bindE (validateReleaseReason releaseReason) (\<lambda>reason.
       Inr [InventoryHoldReleased holdId releasedAt reason])))"

definition decideConsumeInventoryHold ::
    "InventoryHoldState \<Rightarrow> string \<Rightarrow> string \<Rightarrow> InventoryHoldEvent list res" where
  "decideConsumeInventoryHold state consumedAt consumptionReason =
     bindE (requireCreatedInventoryHold state) (\<lambda>holdId.
     ensure (ih_status state = StockHoldActive)
       (InventoryDomainError ''Only active holds can be consumed.'') (
     case ih_sourceRef state of
       None \<Rightarrow> Inl (InventoryDomainError ''Consumed inventory holds require order provenance.'')
     | Some sourceRef \<Rightarrow>
         Inr [InventoryHoldConsumed holdId consumedAt (normalizeLabel consumptionReason) sourceRef]))"

definition decideConvertInventoryHold ::
    "InventoryHoldState \<Rightarrow> string \<Rightarrow> string \<Rightarrow> string \<Rightarrow> InventoryHoldEvent list res" where
  "decideConvertInventoryHold state convertedAt orderId reservationRequestId =
     bindE (requireCreatedInventoryHold state) (\<lambda>holdId.
     ensure (ih_status state = StockHoldActive)
       (InventoryDomainError ''Only active holds can be converted.'') (
     ensure (ih_purpose state = Some PurposeCheckout)
       (InventoryDomainError ''Only checkout inventory holds can be converted to orders.'') (
       Inr [InventoryHoldConverted holdId (normalizeLabel convertedAt)
              (normalizeOrderSourceRef orderId reservationRequestId)])))"

definition decideExpireInventoryHold ::
    "host \<Rightarrow> InventoryHoldState \<Rightarrow> string \<Rightarrow> InventoryHoldEvent list res" where
  "decideExpireInventoryHold h state expiredAt =
     bindE (requireCreatedInventoryHold state) (\<lambda>holdId.
     ensure (ih_status state = StockHoldActive)
       (InventoryDomainError ''Only active holds can expire.'') (
     ensure (ih_purpose state = Some PurposeCheckout)
       (InventoryDomainError ''Only checkout inventory holds can expire automatically.'') (
     case ih_expiresAt state of
       None \<Rightarrow>
         Inl (InventoryDomainError ''Checkout inventory holds require an expiry before they can expire.'')
     | Some expiresAt \<Rightarrow>
         ensure (time_le (Date_parse h expiresAt) (Date_parse h expiredAt))
           (InventoryDomainError ''Checkout inventory holds cannot expire before their expiry time.'')
           (Inr [InventoryHoldExpired holdId (normalizeLabel expiredAt)]))))"

definition decideExtendInventoryHold ::
    "host \<Rightarrow> InventoryHoldState \<Rightarrow> string \<Rightarrow> string \<Rightarrow> jsnum \<Rightarrow> InventoryHoldEvent list res" where
  "decideExtendInventoryHold h state extendedAt newExpiresAt maxExtensionCount =
     bindE (requireCreatedInventoryHold state) (\<lambda>holdId.
     ensure (ih_status state = StockHoldActive)
       (InventoryDomainError ''Only active holds can be extended.'') (
     ensure (ih_purpose state = Some PurposeCheckout)
       (InventoryDomainError ''Only checkout inventory holds can be extended.'') (
     case ih_expiresAt state of
       None \<Rightarrow>
         Inl (InventoryDomainError
                ''Checkout inventory holds require an expiry before they can be extended.'')
     | Some expiresAt \<Rightarrow>
         ensure (num_less (numi (ih_extensionCount state)) maxExtensionCount)
           (InventoryDomainError ''Checkout reservation extension limit reached.'') (
         ensure (time_less (Date_parse h expiresAt) (Date_parse h newExpiresAt))
           (InventoryDomainError ''Checkout reservation extension must move expiry later.'')
           (Inr [InventoryHoldExtended holdId (normalizeLabel extendedAt) (normalizeLabel newExpiresAt)
                   (js_add (ih_extensionCount state) 1)])))))"

fun decideInventoryHold ::
    "host \<Rightarrow> InventoryHoldState \<Rightarrow> InventoryHoldCommand \<Rightarrow> InventoryHoldEvent list res" where
  "decideInventoryHold h state (PlaceInventoryHold c) = decidePlaceInventoryHold state c"
| "decideInventoryHold h state (ReleaseInventoryHold releasedAt releaseReason) =
     decideReleaseInventoryHold state releasedAt releaseReason"
| "decideInventoryHold h state (ConsumeInventoryHold consumedAt consumptionReason) =
     decideConsumeInventoryHold state consumedAt consumptionReason"
| "decideInventoryHold h state (ConvertInventoryHold convertedAt orderId reservationRequestId) =
     decideConvertInventoryHold state convertedAt orderId reservationRequestId"
| "decideInventoryHold h state (ExpireInventoryHold expiredAt) =
     decideExpireInventoryHold h state expiredAt"
| "decideInventoryHold h state (ExtendInventoryHold extendedAt expiresAt maxExtensionCount) =
     decideExtendInventoryHold h state extendedAt expiresAt maxExtensionCount"


section \<open>The evolver\<close>

fun evolveHold :: "InventoryHoldState \<Rightarrow> InventoryHoldEvent \<Rightarrow> InventoryHoldState" where
  "evolveHold state (InventoryHoldPlaced d) =
     \<lparr>ih_id = Some (hp_holdId d), ih_accountId = Some (hp_accountId d),
      ih_itemId = Some (hp_itemId d), ih_quantity = hp_quantity d, ih_reason = hp_reason d,
      ih_notes = hp_notes d, ih_purpose = Some (hp_purpose d), ih_sourceRef = hp_sourceRef d,
      ih_expiresAt = hp_expiresAt d, ih_status = StockHoldActive, ih_releasedAt = None,
      ih_releaseReason = None, ih_consumedAt = None, ih_expiredAt = None, ih_extensionCount = 0\<rparr>"
| "evolveHold state (InventoryHoldReleased holdId releasedAt releaseReason) =
     state\<lparr>ih_status := StockHoldReleased, ih_releasedAt := Some releasedAt,
           ih_releaseReason := Some releaseReason, ih_consumedAt := None\<rparr>"
| "evolveHold state (InventoryHoldConsumed holdId consumedAt consumptionReason sourceRef) =
     state\<lparr>ih_status := StockHoldConsumed, ih_consumedAt := Some consumedAt\<rparr>"
| "evolveHold state (InventoryHoldConverted holdId convertedAt sourceRef) =
     state\<lparr>ih_purpose := Some PurposeOrder, ih_sourceRef := Some sourceRef,
           ih_expiresAt := None\<rparr>"
| "evolveHold state (InventoryHoldExpired holdId expiredAt) =
     state\<lparr>ih_status := StockHoldExpired, ih_expiredAt := Some expiredAt,
           ih_releasedAt := Some expiredAt, ih_releaseReason := Some ReleaseCheckoutExpired\<rparr>"
| "evolveHold state (InventoryHoldExtended holdId extendedAt expiresAt extensionCount) =
     state\<lparr>ih_expiresAt := Some expiresAt, ih_extensionCount := extensionCount\<rparr>"

definition evolveInventoryHold :: "InventoryHoldState \<Rightarrow> InventoryHoldEvent \<Rightarrow> InventoryHoldState res" where
  "evolveInventoryHold state event = Inr (evolveHold state event)"

end
