(* ===== verification/InventoryHoldFacts.thy ===== *)
theory InventoryHoldFacts
  imports InventoryHold
begin

text \<open>
  What holds of every inventory hold: the well-formedness of its state, and its life cycle as an
  abstract step relation on phases that the decider and the evolver refine.
\<close>

section \<open>Well-formed holds\<close>

fun source_matches :: "InventoryHoldPurpose \<Rightarrow> InventoryHoldSourceRef option \<Rightarrow> bool" where
  "source_matches PurposeOrder r = (case r of Some (OrderSourceRef _ _) \<Rightarrow> True | _ \<Rightarrow> False)"
| "source_matches PurposeCheckout r =
     (case r of Some (CheckoutSourceRef s l) \<Rightarrow> js_trim s = s \<and> s \<noteq> [] \<and> js_trim l = l \<and> l \<noteq> [] | _ \<Rightarrow> False)"
| "source_matches PurposeManual r = (r = None)"
| "source_matches _ r = False"

fun status_matches :: "InventoryHoldState \<Rightarrow> InventoryHoldStatus \<Rightarrow> bool" where
  "status_matches s StockHoldActive =
     (ih_releasedAt s = None \<and> ih_releaseReason s = None \<and> ih_consumedAt s = None \<and> ih_expiredAt s = None)"
| "status_matches s StockHoldReleased =
     (ih_releasedAt s \<noteq> None \<and> ih_releaseReason s \<noteq> None \<and> ih_consumedAt s = None \<and> ih_expiredAt s = None)"
| "status_matches s StockHoldConsumed =
     (ih_releasedAt s = None \<and> ih_releaseReason s = None \<and> ih_consumedAt s \<noteq> None \<and>
      ih_expiredAt s = None \<and> ih_sourceRef s \<noteq> None)"
| "status_matches s StockHoldExpired =
     (ih_expiredAt s \<noteq> None \<and> ih_releasedAt s = ih_expiredAt s \<and>
      ih_releaseReason s = Some ReleaseCheckoutExpired \<and> ih_consumedAt s = None \<and>
      ih_purpose s = Some PurposeCheckout)"

definition hold_wf :: "InventoryHoldState \<Rightarrow> bool" where
  "hold_wf s \<longleftrightarrow>
     0 < ih_quantity s \<and> 0 \<le> ih_extensionCount s \<and>
     (\<exists>p. ih_purpose s = Some p \<and> source_matches p (ih_sourceRef s) \<and>
          (p \<noteq> PurposeCheckout \<longrightarrow> ih_expiresAt s = None)) \<and>
     status_matches s (ih_status s)"

definition hold_inv :: "InventoryHoldState \<Rightarrow> bool" where
  "hold_inv s \<longleftrightarrow> s = initialInventoryHoldState \<or> ih_id s \<noteq> None \<and> hold_wf s"

lemma initial_hold_id [simp]: "ih_id initialInventoryHoldState = None"
  by (simp add: initialInventoryHoldState_def)

lemma hold_inv_initial: "hold_inv initialInventoryHoldState"
  by (simp add: hold_inv_def)

lemma requireCreated_Inr [res_simps]: "requireCreatedInventoryHold s = Inr i \<longleftrightarrow> ih_id s = Some i"
  by (simp add: requireCreatedInventoryHold_def split: option.splits)

lemma validated_source:
  "validateHoldSourceRef p r = Inr u \<Longrightarrow> p = PurposeOrder \<or> p = PurposeManual \<or> p = PurposeCheckout \<Longrightarrow>
   source_matches p (normalizeHoldSourceRef r)"
  by (auto simp: validateHoldSourceRef_def normalizeOrderSourceRef_def normalizeLabel_def Option.is_none_def
      split: option.splits InventoryHoldSourceRef.splits if_splits)

lemma validated_purpose:
  "validateHoldPurpose t = Inr p \<Longrightarrow> p = PurposeOrder \<or> p = PurposeManual \<or> p = PurposeCheckout"
  by (auto simp: validateHoldPurpose_def split: option.splits if_splits)

lemma validated_expiry:
  "validateHoldExpiry p e = Inr u \<Longrightarrow> p = PurposeOrder \<or> p = PurposeManual \<Longrightarrow> e = None"
  by (auto simp: validateHoldExpiry_def Option.is_none_def split: if_splits)

lemma decided_placed:
  assumes "decidePlaceInventoryHold s c = Inr es"
  shows "\<exists>d. es = [InventoryHoldPlaced d] \<and> ih_id s = None \<and> hold_wf (evolveHold s (InventoryHoldPlaced d)) \<and>
             ph_quantity c = numi (hp_quantity d)"
proof -
  from assms obtain q p u where p: "validateHoldPurpose (ph_purpose c) = Inr p"
    and src: "validateHoldSourceRef p (ph_sourceRef c) = Inr ()"
    and ex: "validateHoldExpiry p (ph_expiresAt c) = Inr u" and "0 < q" "ph_quantity c = numi q"
    by (auto simp: decidePlaceInventoryHold_def res_simps)
  moreover have "p \<noteq> PurposeCheckout \<Longrightarrow> ph_expiresAt c = None"
    using validated_purpose [OF p] validated_expiry [OF ex] by blast
  ultimately show ?thesis
    using assms validated_source [OF src validated_purpose [OF p]] validated_purpose [OF p]
    by (auto simp: decidePlaceInventoryHold_def res_simps hold_wf_def Option.is_none_def)
qed

lemmas hold_decide_defs = decideReleaseInventoryHold_def decideConsumeInventoryHold_def
  decideConvertInventoryHold_def decideExpireInventoryHold_def decideExtendInventoryHold_def

lemma decided_hold_cases:
  assumes "decideInventoryHold h s c = Inr es"
  obtains (placed) d where "es = [InventoryHoldPlaced d]" "ih_id s = None"
      "hold_wf (evolveHold s (InventoryHoldPlaced d))"
    | (released) i t r where "es = [InventoryHoldReleased i t r]" "ih_id s = Some i" "ih_status s = StockHoldActive"
    | (consumed) i t r src where "es = [InventoryHoldConsumed i t r src]" "ih_id s = Some i"
        "ih_status s = StockHoldActive" "ih_sourceRef s = Some src"
    | (converted) i t a b where "es = [InventoryHoldConverted i t (OrderSourceRef a b)]" "ih_id s = Some i"
        "ih_status s = StockHoldActive" "ih_purpose s = Some PurposeCheckout"
    | (expired) i t e u where "es = [InventoryHoldExpired i (normalizeLabel u)]" "ih_id s = Some i"
        "ih_status s = StockHoldActive" "ih_purpose s = Some PurposeCheckout" "ih_expiresAt s = Some e"
        "c = ExpireInventoryHold u" "time_le (Date_parse h e) (Date_parse h u)"
    | (extended) i t e u m where
        "es = [InventoryHoldExtended i (normalizeLabel t) (normalizeLabel u) (js_add (ih_extensionCount s) 1)]"
        "ih_id s = Some i" "ih_status s = StockHoldActive" "ih_purpose s = Some PurposeCheckout"
        "ih_expiresAt s = Some e" "c = ExtendInventoryHold t u m"
        "num_less (numi (ih_extensionCount s)) m" "time_less (Date_parse h e) (Date_parse h u)"
proof (cases c)
  case (PlaceInventoryHold c')
  with assms show ?thesis by (auto dest!: decided_placed intro: placed)
qed (use assms in \<open>auto simp: hold_decide_defs res_simps normalizeOrderSourceRef_def split: option.splits if_splits
      intro: released consumed converted expired extended\<close>)

lemma evolveInventoryHold_Inr [res_simps]: "evolveInventoryHold s e = Inr t \<longleftrightarrow> t = evolveHold s e"
  by (auto simp: evolveInventoryHold_def)

lemma hold_inv_step:
  assumes "hold_inv s" and "decideInventoryHold h s c = Inr es"
  shows "\<exists>e. es = [e] \<and> hold_inv (evolveHold s e)"
  using assms(2)
proof (cases rule: decided_hold_cases)
  case (placed d)
  then show ?thesis by (auto simp: hold_inv_def)
qed (use assms(1) in \<open>auto simp: hold_inv_def hold_wf_def js_add_nonneg\<close>)

interpretation hold: replayable_aggregate initialInventoryHoldState evolveInventoryHold
    "decideInventoryHold h" hold_inv for h
proof unfold_locales
  show "hold_inv initialInventoryHoldState" by (rule hold_inv_initial)
next
  fix s c es s'
  assume a: "hold_inv s" "decideInventoryHold h s c = Inr es" and s': "applyEvents s evolveInventoryHold es = Inr s'"
  from hold_inv_step [OF a] obtain e where "es = [e]" "hold_inv (evolveHold s e)" by blast
  with s' show "hold_inv s'" by (simp add: applyEvents_Cons res_simps)
next
  fix s c es
  assume "hold_inv s" "decideInventoryHold h s c = Inr es"
  from hold_inv_step [OF this] obtain e where "es = [e]" by blast
  then show "\<exists>s'. applyEvents s evolveInventoryHold es = Inr s'"
    by (simp add: applyEvents_Cons res_simps)
qed


section \<open>The life cycle\<close>

text \<open>
  The phases of a hold as its users see them: a checkout hold may be extended (the count of its
  extensions is kept), converted to an order hold or expire; a firm hold (for an order or by hand)
  never expires; a closed hold is final.
\<close>

datatype hold_phase = NoHold | CheckoutHeld int | FirmHeld | ClosedHold

inductive hold_step :: "hold_phase \<Rightarrow> InventoryHoldEvent \<Rightarrow> hold_phase \<Rightarrow> bool" where
  step_place_checkout: "hp_purpose d = PurposeCheckout \<Longrightarrow> hold_step NoHold (InventoryHoldPlaced d) (CheckoutHeld 0)"
| step_place_firm: "hp_purpose d \<noteq> PurposeCheckout \<Longrightarrow> hold_step NoHold (InventoryHoldPlaced d) FirmHeld"
| step_extend: "m = js_add n 1 \<Longrightarrow> hold_step (CheckoutHeld n) (InventoryHoldExtended i t e m) (CheckoutHeld m)"
| step_convert: "hold_step (CheckoutHeld n) (InventoryHoldConverted i t r) FirmHeld"
| step_expire: "hold_step (CheckoutHeld n) (InventoryHoldExpired i t) ClosedHold"
| step_release_checkout: "hold_step (CheckoutHeld n) (InventoryHoldReleased i t r) ClosedHold"
| step_release_firm: "hold_step FirmHeld (InventoryHoldReleased i t r) ClosedHold"
| step_consume_checkout: "hold_step (CheckoutHeld n) (InventoryHoldConsumed i t r src) ClosedHold"
| step_consume_firm: "hold_step FirmHeld (InventoryHoldConsumed i t r src) ClosedHold"

inductive_cases hold_step_closedE: "hold_step ClosedHold e p"

inductive_simps hold_step_simps [simp]:
  "hold_step NoHold e p" "hold_step (CheckoutHeld n) e p" "hold_step FirmHeld e p" "hold_step ClosedHold e p"

lemma hold_step_placed: "hold_step p e q \<Longrightarrow> q \<noteq> NoHold"
  by (auto elim: hold_step.cases)

definition hold_phase_of :: "InventoryHoldState \<Rightarrow> hold_phase" where
  "hold_phase_of s =
     (if ih_id s = None then NoHold
      else if ih_status s \<noteq> StockHoldActive then ClosedHold
      else if ih_purpose s = Some PurposeCheckout then CheckoutHeld (ih_extensionCount s) else FirmHeld)"

lemma initial_hold_extensions [simp]: "ih_extensionCount initialInventoryHoldState = 0"
  by (simp add: initialInventoryHoldState_def)

lemma hold_phase_initial [simp]: "hold_phase_of initialInventoryHoldState = NoHold"
  by (simp add: hold_phase_of_def)

text \<open>Every decided event is a step of the life cycle from the phase of the state.\<close>

lemma decided_hold_step:
  assumes "hold_inv s" and "decideInventoryHold h s c = Inr es"
  shows "\<exists>e. es = [e] \<and> hold_step (hold_phase_of s) e (hold_phase_of (evolveHold s e))"
  using assms(2)
proof (cases rule: decided_hold_cases)
  case (released i t r)
  then show ?thesis by (cases "ih_purpose s = Some PurposeCheckout") (auto simp: hold_phase_of_def)
next
  case (consumed i t r src)
  then show ?thesis by (cases "ih_purpose s = Some PurposeCheckout") (auto simp: hold_phase_of_def)
qed (auto simp: hold_phase_of_def)

fun closes_hold :: "InventoryHoldEvent \<Rightarrow> bool" where
  "closes_hold (InventoryHoldReleased _ _ _) = True"
| "closes_hold (InventoryHoldConsumed _ _ _ _) = True"
| "closes_hold (InventoryHoldExpired _ _) = True"
| "closes_hold _ = False"

lemma hold_step_closes: "hold_step p e q \<Longrightarrow> closes_hold e \<longleftrightarrow> q = ClosedHold"
  by (auto elim: hold_step.cases)

lemma hold_decided_path:
  assumes "hold_inv s" and "decideInventoryHold h s c = Inr es" and "applyEvents s evolveInventoryHold es = Inr s'"
  shows "event_path hold_step (hold_phase_of s) es (hold_phase_of s')"
  using decided_hold_step [OF assms(1,2)] assms(3) by (auto simp: applyEvents_Cons res_simps)

text \<open>A closing event ends a path: at most one of them occurs, and nothing follows it.\<close>

interpretation hold_life: closing_lifecycle initialInventoryHoldState evolveInventoryHold
    "decideInventoryHold h" hold_inv hold_phase_of hold_step closes_hold "\<lambda>p. p = ClosedHold" for h
  by unfold_locales (auto simp: hold_step_closes dest: hold_decided_path)


section \<open>Refusals and the extension limit\<close>

lemma closed_hold_refuses:
  assumes "hold_inv s" and "ih_status s \<noteq> StockHoldActive"
  shows "\<exists>m. decideInventoryHold h s c = Inl (InventoryDomainError m)"
proof -
  obtain i where "ih_id s = Some i"
    using assms by (auto simp: hold_inv_def initialInventoryHoldState_def)
  with assms(2) show ?thesis
    by (cases c) (simp_all add: hold_decide_defs decidePlaceInventoryHold_def requireCreatedInventoryHold_def
        Option.is_none_def)
qed

text \<open>A limit that is not above \<open>k\<close> lets no extension count pass \<open>k\<close>.\<close>

lemma limited_count: "num_less (numi n) m \<Longrightarrow> \<not> num_less (numi k) m \<Longrightarrow> n < k"
  by (cases m) (auto simp: not_less dest: order.strict_trans2)

lemma extension_step:
  assumes "hold_inv s" and "ih_extensionCount s \<le> k" and "decideInventoryHold h s c = Inr es"
    and "\<And>t e m. c = ExtendInventoryHold t e m \<Longrightarrow> \<not> num_less (numi k) m"
    and "k \<le> 2 ^ 53" and "0 \<le> k" and "applyEvents s evolveInventoryHold es = Inr s'"
  shows "hold_inv s' \<and> ih_extensionCount s' \<le> k"
proof
  show "hold_inv s'" by (rule hold.inv_decided [OF assms(1,3,7)])
  from assms(3) show "ih_extensionCount s' \<le> k"
  proof (cases rule: decided_hold_cases)
    case (extended i t e u m)
    with assms(4) have "ih_extensionCount s < k" by (blast intro: limited_count)
    moreover have "0 \<le> ih_extensionCount s"
      using assms(1) by (auto simp: hold_inv_def hold_wf_def initialInventoryHoldState_def)
    ultimately show ?thesis
      using extended(1) assms(5,7) by (auto simp: applyEvents_Cons res_simps js_add_exact)
  qed (use assms in \<open>auto simp: applyEvents_Cons res_simps\<close>)
qed

end
