(* ===== verification/InventoryReservation.thy ===== *)
theory InventoryReservation
  imports InventoryCommon
begin

text \<open>
  Inventory reservations: \<open>bounded-contexts/inventory/features/reservations/domain/domain.ts\<close>.
  The answer to an order's request for stock: confirmed with a hold, or rejected; a confirmed
  reservation can be released. Confirming or rejecting again is meant to be a no-op.
\<close>

datatype InventoryReservationStatus =
    ReservationPending | ReservationConfirmed | ReservationRejected | ReservationReleased

record InventoryReservationState =
  ir_reservationRequestId :: "string option"
  ir_orderId :: "string option"
  ir_sellerAccountId :: "string option"
  ir_inventoryItemId :: "string option"
  ir_quantity :: int
  ir_holdId :: "string option"
  ir_status :: "InventoryReservationStatus option"
  ir_rejectionReason :: "string option"
  ir_releasedAt :: "string option"
  ir_releaseReason :: "InventoryHoldReleaseReason option"

definition initialInventoryReservationState :: InventoryReservationState where
  "initialInventoryReservationState =
     \<lparr>ir_reservationRequestId = None, ir_orderId = None, ir_sellerAccountId = None,
      ir_inventoryItemId = None, ir_quantity = 0, ir_holdId = None, ir_status = None,
      ir_rejectionReason = None, ir_releasedAt = None, ir_releaseReason = None\<rparr>"

text \<open>The five fields that the confirm and reject commands share, before and after normalisation.\<close>

record ReservationInput =
  ri_reservationRequestId :: string
  ri_orderId :: string
  ri_sellerAccountId :: string
  ri_inventoryItemId :: string
  ri_quantity :: jsnum

record ReservationFacts =
  rf_reservationRequestId :: string
  rf_orderId :: string
  rf_sellerAccountId :: string
  rf_inventoryItemId :: string
  rf_quantity :: int

datatype InventoryReservationCommand =
    ConfirmInventoryReservation (cr_input: ReservationInput) (cr_holdId: string)
  | RejectInventoryReservation (jr_input: ReservationInput) (jr_reason: string)
  | ReleaseInventoryReservation (rr_releasedAt: string) (rr_releaseReason: InventoryHoldReleaseReason)

datatype InventoryReservationEvent =
    ReservationConfirmedEvent (rc_facts: ReservationFacts) (rc_holdId: string)
  | ReservationRejectedEvent (rj_facts: ReservationFacts) (rj_reason: string)
  | ReservationReleasedEvent (rl_reservationRequestId: "string option") (rl_orderId: "string option")
      (rl_holdId: "string option") (rl_sellerAccountId: "string option") (rl_releasedAt: string)
      (rl_releaseReason: InventoryHoldReleaseReason)

definition normalizeReservationInput :: "ReservationInput \<Rightarrow> ReservationFacts res" where
  "normalizeReservationInput i =
     bindE (ensurePositiveInteger (ri_quantity i)
              ''Inventory reservation quantity must be a positive whole number.'') (\<lambda>quantity.
       Inr \<lparr>rf_reservationRequestId = normalizeLabel (ri_reservationRequestId i),
            rf_orderId = normalizeLabel (ri_orderId i),
            rf_sellerAccountId = normalizeLabel (ri_sellerAccountId i),
            rf_inventoryItemId = normalizeLabel (ri_inventoryItemId i), rf_quantity = quantity\<rparr>)"

definition alreadyResolved :: js_error where
  "alreadyResolved = InventoryDomainError ''Inventory reservation has already been resolved.''"

definition decideConfirmReservation ::
    "InventoryReservationState \<Rightarrow> ReservationInput \<Rightarrow> string \<Rightarrow> InventoryReservationEvent list res" where
  "decideConfirmReservation state reservation rawHoldId =
     bindE (normalizeReservationInput reservation) (\<lambda>normalized.
       let holdId = normalizeLabel rawHoldId
       in if ir_status state = Some ReservationConfirmed \<and> ir_holdId state = Some holdId then Inr []
          else ensure (Option.is_none (ir_status state)) alreadyResolved
                 (Inr [ReservationConfirmedEvent normalized holdId]))"

definition decideRejectReservation ::
    "InventoryReservationState \<Rightarrow> ReservationInput \<Rightarrow> string \<Rightarrow> InventoryReservationEvent list res" where
  "decideRejectReservation state reservation rawReason =
     bindE (normalizeReservationInput reservation) (\<lambda>normalized.
       let reason = normalizeLabel rawReason
       in if ir_status state = Some ReservationRejected \<and> ir_rejectionReason state = Some reason then Inr []
          else ensure (Option.is_none (ir_status state)) alreadyResolved
                 (Inr [ReservationRejectedEvent normalized reason]))"

text \<open>
  The non-null assertions of the release branch (\<open>state.orderId!\<close>) are unchecked in the source:
  the event takes the fields as they are. That they are present is a fact about histories
  (\<open>reservation_history_word\<close>).
\<close>

definition decideReleaseReservation ::
    "InventoryReservationState \<Rightarrow> string \<Rightarrow> InventoryHoldReleaseReason \<Rightarrow>
     InventoryReservationEvent list res" where
  "decideReleaseReservation state releasedAt releaseReason =
     ensure (ir_status state = Some ReservationConfirmed)
       (InventoryDomainError ''Only confirmed inventory reservations can be released.'')
       (Inr [ReservationReleasedEvent (ir_reservationRequestId state) (ir_orderId state)
               (ir_holdId state) (ir_sellerAccountId state)
               (normalizeLabel releasedAt) releaseReason])"

fun decideInventoryReservation ::
    "InventoryReservationState \<Rightarrow> InventoryReservationCommand \<Rightarrow> InventoryReservationEvent list res" where
  "decideInventoryReservation state (ConfirmInventoryReservation reservation holdId) =
     decideConfirmReservation state reservation holdId"
| "decideInventoryReservation state (RejectInventoryReservation reservation reason) =
     decideRejectReservation state reservation reason"
| "decideInventoryReservation state (ReleaseInventoryReservation releasedAt releaseReason) =
     decideReleaseReservation state releasedAt releaseReason"

fun evolveReservation ::
    "InventoryReservationState \<Rightarrow> InventoryReservationEvent \<Rightarrow> InventoryReservationState" where
  "evolveReservation state (ReservationConfirmedEvent d holdId) =
     \<lparr>ir_reservationRequestId = Some (rf_reservationRequestId d), ir_orderId = Some (rf_orderId d),
      ir_sellerAccountId = Some (rf_sellerAccountId d),
      ir_inventoryItemId = Some (rf_inventoryItemId d), ir_quantity = rf_quantity d,
      ir_holdId = Some holdId, ir_status = Some ReservationConfirmed, ir_rejectionReason = None,
      ir_releasedAt = None, ir_releaseReason = None\<rparr>"
| "evolveReservation state (ReservationRejectedEvent d reason) =
     \<lparr>ir_reservationRequestId = Some (rf_reservationRequestId d), ir_orderId = Some (rf_orderId d),
      ir_sellerAccountId = Some (rf_sellerAccountId d),
      ir_inventoryItemId = Some (rf_inventoryItemId d), ir_quantity = rf_quantity d,
      ir_holdId = None, ir_status = Some ReservationRejected,
      ir_rejectionReason = normalizeOptionalText (Some reason),
      ir_releasedAt = None, ir_releaseReason = None\<rparr>"
| "evolveReservation state (ReservationReleasedEvent requestId orderId holdId seller releasedAt releaseReason) =
     state\<lparr>ir_status := Some ReservationReleased, ir_releasedAt := Some releasedAt,
           ir_releaseReason := Some releaseReason\<rparr>"

definition evolveInventoryReservation ::
    "InventoryReservationState \<Rightarrow> InventoryReservationEvent \<Rightarrow> InventoryReservationState res" where
  "evolveInventoryReservation state event = Inr (evolveReservation state event)"


section \<open>Every history of a reservation\<close>

lemma initial_reservation_status [simp]: "ir_status initialInventoryReservationState = None"
  by (simp add: initialInventoryReservationState_def)

text \<open>
  The invariant says what the state of each status remembers; the histories are the four words
  of \<open>reservation_word\<close>.
\<close>

definition reservation_facts :: "InventoryReservationState \<Rightarrow> ReservationFacts \<Rightarrow> bool" where
  "reservation_facts s d \<longleftrightarrow>
     ir_reservationRequestId s = Some (rf_reservationRequestId d) \<and> ir_orderId s = Some (rf_orderId d) \<and>
     ir_sellerAccountId s = Some (rf_sellerAccountId d) \<and>
     ir_inventoryItemId s = Some (rf_inventoryItemId d) \<and> ir_quantity s = rf_quantity d \<and> 0 < rf_quantity d"

definition reservation_inv :: "InventoryReservationState \<Rightarrow> bool" where
  "reservation_inv s \<longleftrightarrow>
     (case ir_status s of
        None \<Rightarrow> s = initialInventoryReservationState
      | Some ReservationPending \<Rightarrow> False
      | Some ReservationConfirmed \<Rightarrow>
          (\<exists>d. reservation_facts s d) \<and> ir_holdId s \<noteq> None \<and> ir_rejectionReason s = None \<and> ir_releasedAt s = None
      | Some ReservationRejected \<Rightarrow> (\<exists>d. reservation_facts s d) \<and> ir_holdId s = None
      | Some ReservationReleased \<Rightarrow>
          (\<exists>d. reservation_facts s d) \<and> ir_holdId s \<noteq> None \<and> ir_releasedAt s \<noteq> None)"

lemma evolveInventoryReservation_Inr [res_simps]:
  "evolveInventoryReservation s e = Inr t \<longleftrightarrow> t = evolveReservation s e"
  by (auto simp: evolveInventoryReservation_def)

lemma normalizeReservationInput_positive:
  "normalizeReservationInput i = Inr d \<Longrightarrow> 0 < rf_quantity d"
  by (auto simp: normalizeReservationInput_def res_simps)

lemma decided_reservation_cases:
  assumes "decideInventoryReservation s c = Inr es"
  obtains (noop) "es = []"
    | (confirmed) d i where "es = [ReservationConfirmedEvent d i]" "ir_status s = None" "0 < rf_quantity d"
    | (rejected) d r where "es = [ReservationRejectedEvent d r]" "ir_status s = None" "0 < rf_quantity d"
        "js_trim r = r"
    | (released) t r where "es = [ReservationReleasedEvent (ir_reservationRequestId s)
        (ir_orderId s) (ir_holdId s) (ir_sellerAccountId s) t r]"
        "ir_status s = Some ReservationConfirmed"
  using assms
  by (cases c) (auto simp: decideConfirmReservation_def decideRejectReservation_def decideReleaseReservation_def
      res_simps Let_def Option.is_none_def normalizeLabel_def split: if_splits
      dest!: normalizeReservationInput_positive)

lemma reservation_inv_step:
  assumes "reservation_inv s" and "decideInventoryReservation s c = Inr es" and "e \<in> set es"
  shows "es = [e] \<and> reservation_inv (evolveReservation s e)"
  using assms(2)
proof (cases rule: decided_reservation_cases)
  case (released t r)
  then show ?thesis using assms(1,3)
    by (auto simp: reservation_inv_def reservation_facts_def split: option.splits)
qed (use assms(3) in \<open>auto simp: reservation_inv_def reservation_facts_def\<close>)

lemma reservation_decided_apply:
  assumes "reservation_inv s" and "decideInventoryReservation s c = Inr es"
  shows "\<exists>t. applyEvents s evolveInventoryReservation es = Inr t \<and> reservation_inv t"
proof (cases es)
  case Nil
  with assms(1) show ?thesis by simp
next
  case (Cons e l)
  with reservation_inv_step [OF assms, of e] show ?thesis by (auto simp: applyEvents_Cons res_simps)
qed

interpretation reservation: replayable_aggregate initialInventoryReservationState
    evolveInventoryReservation decideInventoryReservation reservation_inv
proof unfold_locales
  show "reservation_inv initialInventoryReservationState"
    by (simp add: reservation_inv_def initialInventoryReservationState_def)
qed (use reservation_decided_apply in fastforce)+

fun reservation_word :: "InventoryReservationEvent list \<Rightarrow> bool" where
  "reservation_word [] = True"
| "reservation_word [ReservationConfirmedEvent d i] = True"
| "reservation_word [ReservationRejectedEvent d r] = (js_trim r = r)"
| "reservation_word [ReservationConfirmedEvent d i, ReservationReleasedEvent a b i' s t r] =
     (a = Some (rf_reservationRequestId d) \<and> b = Some (rf_orderId d) \<and> i' = Some i \<and>
      s = Some (rf_sellerAccountId d))"
| "reservation_word _ = False"

fun_cases reservation_wordE: "reservation_word (e # es)"

lemma reservation_history_word:
  assumes "reachable_history initialInventoryReservationState evolveInventoryReservation decideInventoryReservation es"
  shows "reservation_word es"
  using assms
proof (induction rule: reachable_history.induct)
  case (append_decided h s c es)
  have loaded: "foldEvents initialInventoryReservationState evolveInventoryReservation h = Inr s" by fact
  note word = append_decided.IH
  consider "h = []" | d i where "h = [ReservationConfirmedEvent d i]"
    | d r where "h = [ReservationRejectedEvent d r]"
    | d i a b i' s' t r where "h = [ReservationConfirmedEvent d i, ReservationReleasedEvent a b i' s' t r]"
    using word by (cases h rule: reservation_word.cases) auto
  then have state: "h = [] \<and> s = initialInventoryReservationState \<or>
      (\<exists>d i. h = [ReservationConfirmedEvent d i] \<and> s = evolveReservation initialInventoryReservationState (ReservationConfirmedEvent d i)) \<or>
      h \<noteq> [] \<and> (ir_status s = Some ReservationRejected \<or> ir_status s = Some ReservationReleased)"
    using loaded by cases (auto simp: foldEvents_def res_simps)
  from append_decided.hyps(3) show ?case
  proof (cases rule: decided_reservation_cases)
    case noop
    with word show ?thesis by simp
  next
    case (released t r)
    with state show ?thesis by auto
  qed (use state in \<open>auto\<close>)
qed simp

text \<open>The state after a non-empty history, by its word.\<close>

lemma reservation_word_state:
  assumes "reservation_word es" and "foldEvents initialInventoryReservationState evolveInventoryReservation es = Inr s"
  obtains (fresh) "es = []" "s = initialInventoryReservationState"
    | (confirmed) d i where "es = [ReservationConfirmedEvent d i]" "ir_status s = Some ReservationConfirmed"
        "ir_holdId s = Some i"
    | (rejected) d r where "es = [ReservationRejectedEvent d r]" "ir_status s = Some ReservationRejected"
        "ir_rejectionReason s = normalizeOptionalText (Some r)" "js_trim r = r"
    | (released) d i a b i' s' t r where
        "es = [ReservationConfirmedEvent d i, ReservationReleasedEvent a b i' s' t r]"
        "ir_status s = Some ReservationReleased"
  using assms by (cases es rule: reservation_word.cases) (auto simp: foldEvents_def res_simps)

lemma fresh_reservation_reason: "normalizeOptionalText (Some r) = Some t \<longleftrightarrow> js_trim r = t \<and> t \<noteq> []"
  by (auto simp: normalizeOptionalText_def Let_def)

end
