(* ===== verification/InventoryItem.thy ===== *)
theory InventoryItem
  imports InventoryCommon MoneyFacts Storage
begin

text \<open>
  Inventory items: \<open>bounded-contexts/inventory/features/inventory-items/domain/domain.ts\<close>. An item
  counts the units a seller has of a product in a place; commands adjust the count, record sales
  outside the marketplace and claim stock. The units held by open orders come with the command.

  An acquisition occurrence arrives as an object of any shape, which the normaliser reads
  property by property: it is the association list of its own properties here. Whole numbers in
  messages are printed in decimal, as \<open>Number.prototype.toString\<close> does below \<open>10^21\<close>.
\<close>

section \<open>State\<close>

record SelectedOptionEntry =
  so_dimensionId :: string
  so_optionId :: string

record GradedCardPopulation =
  gp_populationAtGrade :: "jsnum option"
  gp_populationHigher :: "jsnum option"
  gp_source :: "string option"
  gp_asOf :: "string option"

record GradedCardDetails =
  gd_gradingCompany :: string
  gd_grade :: string
  gd_certificationNumber :: "string option"
  gd_population :: "GradedCardPopulation option"
  gd_conditionDescriptors :: "string list"

record InventoryItemState =
  it_id :: "string option"
  it_accountId :: "string option"
  it_catalogItemId :: "string option"
  it_productId :: "string option"
  it_selectedOptions :: "SelectedOptionEntry list"
  it_gradedCard :: "GradedCardDetails option"
  it_storageLocationId :: "string option"
  it_totalQuantity :: int
  it_acquisitionCostAmount :: "string option"
  it_acquisitionCostCurrencyCode :: "string option"

definition initialInventoryItemState :: InventoryItemState where
  "initialInventoryItemState =
     \<lparr>it_id = None, it_accountId = None, it_catalogItemId = None, it_productId = None,
      it_selectedOptions = [], it_gradedCard = None, it_storageLocationId = None,
      it_totalQuantity = 0, it_acquisitionCostAmount = None, it_acquisitionCostCurrencyCode = None\<rparr>"


section \<open>Commands and events\<close>

type_synonym js_object = "(string \<times> json) list"

datatype AcquisitionOccurrence =
    AcquisitionUnknown
  | AcquisitionOccurred (ao_occurredAt: string) (ao_source: string)

datatype InventoryAdjustmentReason =
    SoldOffline | SoldExternalChannel | Damaged | Lost | Found | Correction | Intake | ReturnRestocked

datatype StockAuthorityOperation = HoldPlacement | StockReduction

text \<open>
  Optional fields: \<open>None\<close> stands for absent, and also for \<open>null\<close> where the decider does not tell
  them apart; a note has both, \<open>None\<close> (absent) and \<open>Some None\<close> (\<open>null\<close>).
\<close>

record CreateInventoryItemCommand =
  ci_csatOutcomeFact :: "json option"
  ci_itemId :: string
  ci_accountId :: string
  ci_catalogItemId :: string
  ci_productId :: string
  ci_selectedOptions :: "SelectedOptionEntry list option"
  ci_gradedCard :: "GradedCardDetails option"
  ci_storageLocationId :: string
  ci_totalQuantity :: jsnum
  ci_acquisitionCostAmount :: "string option"
  ci_acquisitionCostCurrencyCode :: "string option"
  ci_acquisitionOccurrence :: "js_object option"
  ci_commandOccurredAt :: "string option"

record AdjustInventoryItemQuantityCommand =
  ai_csatOutcomeFact :: "json option"
  ai_quantityDelta :: jsnum
  ai_heldQuantity :: jsnum
  ai_reason :: string
  ai_reasonCode :: "InventoryAdjustmentReason option"
  ai_note :: "string option option"
  ai_sourceRef :: "InventoryHoldSourceRef option"
  ai_acquisitionOccurrence :: "js_object option"
  ai_commandOccurredAt :: "string option"

record RecordOfflineSaleCommand =
  os_csatOutcomeFact :: "json option"
  os_quantity :: jsnum
  os_heldQuantity :: jsnum
  os_salePriceAmount :: "string option"
  os_channel :: string
  os_note :: "string option option"
  os_recordedAt :: string

datatype InventoryItemCommand =
    CreateInventoryItem CreateInventoryItemCommand
  | AdjustInventoryItemQuantity AdjustInventoryItemQuantityCommand
  | RecordOfflineSale RecordOfflineSaleCommand
  | RecordExternalChannelSaleAdjustment (xs_quantity: jsnum) (xs_heldQuantity: jsnum)
  | ClaimInventoryStockAuthority (cl_authorityRef: string) (cl_operation: StockAuthorityOperation)
      (cl_quantity: jsnum)

record InventoryItemCreated =
  ic_itemId :: string
  ic_accountId :: string
  ic_catalogItemId :: string
  ic_productId :: string
  ic_selectedOptions :: "SelectedOptionEntry list"
  ic_gradedCard :: "GradedCardDetails option"
  ic_storageLocationId :: string
  ic_totalQuantity :: int
  ic_acquisitionCostAmount :: "string option"
  ic_acquisitionCostCurrencyCode :: "string option"
  ic_acquisitionOccurrence :: AcquisitionOccurrence
  ic_csatOutcomeFact :: "json option"

record InventoryItemAdjusted =
  ia_itemId :: string
  ia_quantityDelta :: int
  ia_reason :: string
  ia_reasonCode :: "InventoryAdjustmentReason option"
  ia_note :: "string option option"
  ia_sourceRef :: "InventoryHoldSourceRef option"
  ia_acquisitionOccurrence :: "AcquisitionOccurrence option"
  ia_csatOutcomeFact :: "json option"

record OfflineSaleRecorded =
  or_itemId :: string
  or_quantity :: int
  or_salePriceAmount :: "string option"
  or_channel :: string
  or_storageLocationId :: "string option"
  or_acquisitionCostAmount :: "string option"
  or_recordedAt :: string

datatype InventoryItemEvent =
    InventoryItemCreatedEvent InventoryItemCreated
  | InventoryItemAdjustedEvent InventoryItemAdjusted
  | InventoryItemOfflineSaleRecordedEvent OfflineSaleRecorded
  | InventoryItemStockAuthorityClaimedEvent (sa_itemId: string) (sa_authorityRef: string)
      (sa_operation: StockAuthorityOperation) (sa_quantity: int)

definition inventoryOfflineSaleChannels :: "string list" where
  "inventoryOfflineSaleChannels = [''in-store'', ''card-show'', ''other'']"


section \<open>Acquisition facts\<close>

definition requireCreatedInventoryItem :: "InventoryItemState \<Rightarrow> string res" where
  "requireCreatedInventoryItem state =
     (case it_id state of
        None \<Rightarrow> Inl (InventoryDomainError ''Inventory item must be created first.'')
      | Some itemId \<Rightarrow> Inr itemId)"

definition upper_letter :: "char \<Rightarrow> bool" where
  "upper_letter c \<longleftrightarrow> 65 \<le> (of_char c :: nat) \<and> (of_char c :: nat) \<le> 90"

definition normalizeAcquisitionCost ::
    "string option \<Rightarrow> string option \<Rightarrow> (string option \<times> string option) res" where
  "normalizeAcquisitionCost amount currencyCode =
     ensure (Option.is_none amount = Option.is_none currencyCode)
       (InventoryDomainError ''Acquisition cost amount and currency must be supplied together.'') (
     case (amount, currencyCode) of
       (Some a, Some c) \<Rightarrow>
         ensure (length c = 3 \<and> list_all upper_letter c)
           (InventoryDomainError ''Acquisition cost currency must be an uppercase three-letter code.'') (
         bindE (primNormalizeMoneyAmount a) (\<lambda>normalized. Inr (Some normalized, Some c)))
     | _ \<Rightarrow> Inr (None, None))"

text \<open>
  The pattern of an RFC 3339 instant: \<open>\d{4}-\d{2}-\d{2}T\d{2}:\d{2}:\d{2}\<close>, an optional fraction
  of one to nine digits, and \<open>Z\<close> or an offset. \<open>digit_shape\<close> matches a text against a shape in
  which \<open>d\<close> stands for a digit.
\<close>

fun digit_shape :: "string \<Rightarrow> string \<Rightarrow> string option" where
  "digit_shape [] s = Some s"
| "digit_shape (p # ps) [] = None"
| "digit_shape (p # ps) (c # cs) =
     (if (if p = CHR ''d'' then is_digit c else c = p) then digit_shape ps cs else None)"

definition instant_zone :: "string \<Rightarrow> bool" where
  "instant_zone s \<longleftrightarrow>
     s = ''Z'' \<or> digit_shape ''+dd:dd'' s = Some [] \<or> digit_shape ''-dd:dd'' s = Some []"

definition rfc3339_instant :: "string \<Rightarrow> bool" where
  "rfc3339_instant s =
     (case digit_shape ''dddd-dd-ddTdd:dd:dd'' s of
        None \<Rightarrow> False
      | Some r \<Rightarrow>
          instant_zone r \<or>
          (case r of
             [] \<Rightarrow> False
           | c # cs \<Rightarrow>
               c = CHR ''.'' \<and>
               (let n = length (takeWhile is_digit cs)
                in 1 \<le> n \<and> n \<le> 9 \<and> instant_zone (drop n cs))))"

definition parseOccurrenceInstant :: "host \<Rightarrow> json option \<Rightarrow> string \<Rightarrow> string res" where
  "parseOccurrenceInstant h value name =
     (case value of
        Some (JString text) \<Rightarrow>
          ensure (rfc3339_instant text \<and> \<not> Option.is_none (Date_parse h text))
            (InventoryDomainError (name @ '' must be a timezone-bearing RFC3339 instant.'')) (Inr text)
      | _ \<Rightarrow> Inl (InventoryDomainError (name @ '' must be a timezone-bearing RFC3339 instant.'')))"

definition occurrenceKeys :: "js_object \<Rightarrow> string list" where
  "occurrenceKeys occurrence = js_sort js_text_compare (map fst occurrence)"

definition normalizeAcquisitionOccurrence ::
    "host \<Rightarrow> js_object option \<Rightarrow> string option \<Rightarrow> AcquisitionOccurrence res" where
  "normalizeAcquisitionOccurrence h occurrence commandOccurredAt =
     (case occurrence of
        None \<Rightarrow>
          Inl (InventoryDomainError
                 ''Positive inventory quantities require an explicit acquisition occurrence.'')
      | Some obj \<Rightarrow>
     bindE (parseOccurrenceInstant h (map_option JString commandOccurredAt)
              ''Inventory command occurrence'') (\<lambda>commandAt.
     if map_of obj ''kind'' = Some (JString ''unknown'') then
       ensure (occurrenceKeys obj = [''kind''])
         (InventoryDomainError ''Unknown acquisition occurrence must contain only kind.'')
         (Inr AcquisitionUnknown)
     else
     ensure (map_of obj ''kind'' = Some (JString ''occurred''))
       (InventoryDomainError ''Acquisition occurrence kind is not supported.'') (
     ensure (join_text [CHR 0x00] (occurrenceKeys obj) = join_text [CHR 0x00] [''kind'', ''occurredAt'', ''source''])
       (InventoryDomainError
          ''Occurred acquisition occurrence must contain exactly kind, occurredAt, and source.'') (
     case map_of obj ''source'' of
       Some (JString source) \<Rightarrow>
         ensure (source = ''seller-supplied'' \<or> source = ''import-supplied'')
           (InventoryDomainError ''Acquisition occurrence source is not supported.'') (
         bindE (parseOccurrenceInstant h (map_of obj ''occurredAt'') ''Acquisition occurrence'') (\<lambda>occurredAt.
         ensure (time_le (Date_parse h occurredAt) (Date_parse h commandAt))
           (InventoryDomainError
              ''Acquisition occurrence cannot be later than the Inventory command occurrence.'')
           (Inr (AcquisitionOccurred occurredAt source))))
     | _ \<Rightarrow> Inl (InventoryDomainError ''Acquisition occurrence source is not supported.'')))))"

definition population_count_ok :: "jsnum option \<Rightarrow> bool" where
  "population_count_ok v = (case v of None \<Rightarrow> True | Some x \<Rightarrow> isInteger x \<and> num_to_int x \<ge> 0)"

definition normalizeGradedCardDetails :: "GradedCardDetails option \<Rightarrow> GradedCardDetails option res" where
  "normalizeGradedCardDetails details =
     (case details of
        None \<Rightarrow> Inr None
      | Some d \<Rightarrow>
     let gradingCompany = normalizeLabel (gd_gradingCompany d);
         grade = normalizeLabel (gd_grade d);
         population = map_option (\<lambda>p. p\<lparr>gp_source := normalizeOptionalText (gp_source p),
                                        gp_asOf := normalizeOptionalText (gp_asOf p)\<rparr>) (gd_population d)
     in
     ensure (length gradingCompany > 0)
       (InventoryDomainError ''Graded cards require a grading company.'') (
     ensure (length grade > 0) (InventoryDomainError ''Graded cards require a grade.'') (
     ensure (case population of
               None \<Rightarrow> True
             | Some p \<Rightarrow> population_count_ok (gp_populationAtGrade p) \<and> population_count_ok (gp_populationHigher p))
       (InventoryDomainError
          ''Population metadata must use whole numbers greater than or equal to zero.'')
       (Inr (Some
          \<lparr>gd_gradingCompany = gradingCompany, gd_grade = grade,
           gd_certificationNumber = normalizeOptionalText (gd_certificationNumber d),
           gd_population = population,
           gd_conditionDescriptors =
             js_unique (filter (\<lambda>descriptor. length descriptor > 0)
               (map js_trim (gd_conditionDescriptors d)))\<rparr>)))))"


section \<open>The decider\<close>

definition decideCreateInventoryItem ::
    "host \<Rightarrow> InventoryItemState \<Rightarrow> CreateInventoryItemCommand \<Rightarrow> InventoryItemEvent list res" where
  "decideCreateInventoryItem h state command =
     ensure (Option.is_none (it_id state))
       (InventoryDomainError ''Inventory item has already been created.'') (
     bindE (ensurePositiveInteger (ci_totalQuantity command)
              ''Inventory items require a positive total quantity.'') (\<lambda>totalQuantity.
     bindE (normalizeAcquisitionOccurrence h (ci_acquisitionOccurrence command)
              (ci_commandOccurredAt command)) (\<lambda>occurrence.
     bindE (normalizeAcquisitionCost (ci_acquisitionCostAmount command)
              (ci_acquisitionCostCurrencyCode command)) (\<lambda>(amount, currencyCode).
     bindE (normalizeGradedCardDetails (ci_gradedCard command)) (\<lambda>gradedCard.
       Inr [InventoryItemCreatedEvent
              \<lparr>ic_itemId = ci_itemId command, ic_accountId = ci_accountId command,
               ic_catalogItemId = normalizeLabel (ci_catalogItemId command),
               ic_productId = ci_productId command,
               ic_selectedOptions =
                 map (\<lambda>entry. \<lparr>so_dimensionId = normalizeLabel (so_dimensionId entry),
                                so_optionId = normalizeLabel (so_optionId entry)\<rparr>)
                   (case ci_selectedOptions command of None \<Rightarrow> [] | Some entries \<Rightarrow> entries),
               ic_gradedCard = gradedCard,
               ic_storageLocationId = normalizeLabel (ci_storageLocationId command),
               ic_totalQuantity = totalQuantity, ic_acquisitionCostAmount = amount,
               ic_acquisitionCostCurrencyCode = currencyCode,
               ic_acquisitionOccurrence = occurrence,
               ic_csatOutcomeFact = ci_csatOutcomeFact command\<rparr>])))))"

text \<open>The checks that every change of the count shares: the held units are a whole number that is
  not negative, and the new count covers both zero and the held units.\<close>

definition checkHeldQuantity ::
    "InventoryItemState \<Rightarrow> int \<Rightarrow> int \<Rightarrow> 'a res \<Rightarrow> 'a res" where
  "checkHeldQuantity state delta heldQuantity k =
     ensure (js_add (it_totalQuantity state) delta \<ge> 0)
       (InventoryDomainError ''Inventory quantity cannot fall below zero.'') (
     ensure (js_add (it_totalQuantity state) delta \<ge> heldQuantity)
       (InventoryDomainError (show_int heldQuantity @ '' units are committed to open orders.'')) k)"

definition decideAdjustInventoryItemQuantity ::
    "host \<Rightarrow> InventoryItemState \<Rightarrow> AdjustInventoryItemQuantityCommand \<Rightarrow> InventoryItemEvent list res" where
  "decideAdjustInventoryItemQuantity h state command =
     bindE (requireCreatedInventoryItem state) (\<lambda>itemId.
     bindE (ensureInteger (ai_quantityDelta command)
              ''Inventory adjustments must use a whole-number quantity delta.'') (\<lambda>delta.
     bindE (ensureInteger (ai_heldQuantity command)
              ''Inventory adjustments require a whole-number held quantity.'') (\<lambda>heldQuantity.
     ensure (heldQuantity \<ge> 0)
       (InventoryDomainError ''Inventory held quantity cannot be negative.'') (
     ensure (delta \<noteq> 0) (InventoryDomainError ''Quantity adjustments must change inventory.'') (
     ensure (ai_reasonCode command \<noteq> Some SoldExternalChannel)
       (InventoryDomainError
          ''External channel sale adjustments require the Inventory-owned external sale command.'') (
     checkHeldQuantity state delta heldQuantity (
     bindE (if delta > 0
            then bindE (normalizeAcquisitionOccurrence h (ai_acquisitionOccurrence command)
                          (ai_commandOccurredAt command)) (\<lambda>o'. Inr (Some o'))
            else Inr None) (\<lambda>occurrence.
     ensure (delta > 0 \<or> Option.is_none (ai_acquisitionOccurrence command))
       (InventoryDomainError ''Stock reductions cannot claim an acquisition occurrence.'')
       (Inr [InventoryItemAdjustedEvent
               \<lparr>ia_itemId = itemId, ia_quantityDelta = delta,
                ia_reason = normalizeLabel (ai_reason command),
                ia_reasonCode = ai_reasonCode command,
                ia_note = map_option normalizeOptionalText (ai_note command),
                ia_sourceRef = ai_sourceRef command, ia_acquisitionOccurrence = occurrence,
                ia_csatOutcomeFact = ai_csatOutcomeFact command\<rparr>])))))))))"

definition decideRecordExternalChannelSale ::
    "InventoryItemState \<Rightarrow> jsnum \<Rightarrow> jsnum \<Rightarrow> InventoryItemEvent list res" where
  "decideRecordExternalChannelSale state rawQuantity rawHeldQuantity =
     bindE (requireCreatedInventoryItem state) (\<lambda>itemId.
     bindE (ensurePositiveInteger rawQuantity
              ''External channel sales require a positive applied quantity.'') (\<lambda>quantity.
     bindE (ensureInteger rawHeldQuantity
              ''External channel sales require a whole-number held quantity.'') (\<lambda>heldQuantity.
     ensure (heldQuantity \<ge> 0)
       (InventoryDomainError ''Inventory held quantity cannot be negative.'') (
     checkHeldQuantity state (- quantity) heldQuantity
       (Inr [InventoryItemAdjustedEvent
               \<lparr>ia_itemId = itemId, ia_quantityDelta = - quantity,
                ia_reason = ''External channel sale'', ia_reasonCode = Some SoldExternalChannel,
                ia_note = None, ia_sourceRef = None, ia_acquisitionOccurrence = None,
                ia_csatOutcomeFact = None\<rparr>])))))"

definition decideRecordOfflineSale ::
    "host \<Rightarrow> InventoryItemState \<Rightarrow> RecordOfflineSaleCommand \<Rightarrow> InventoryItemEvent list res" where
  "decideRecordOfflineSale h state command =
     bindE (requireCreatedInventoryItem state) (\<lambda>itemId.
     bindE (ensurePositiveInteger (os_quantity command)
              ''Offline sales require a positive whole-number quantity.'') (\<lambda>quantity.
     bindE (ensureInteger (os_heldQuantity command)
              ''Offline sales require a whole-number held quantity.'') (\<lambda>heldQuantity.
     ensure (heldQuantity \<ge> 0)
       (InventoryDomainError ''Inventory held quantity cannot be negative.'') (
     checkHeldQuantity state (- quantity) heldQuantity (
     ensure (os_channel command \<in> set inventoryOfflineSaleChannels)
       (InventoryDomainError ''Offline sales require a supported channel.'') (
     bindE (case os_salePriceAmount command of
              None \<Rightarrow> Inr None
            | Some amount \<Rightarrow> bindE (primNormalizeMoneyAmount amount) (\<lambda>a. Inr (Some a))) (\<lambda>salePriceAmount.
     let recordedAt = Date_parse h (os_recordedAt command) in
     ensure (\<not> Option.is_none recordedAt)
       (InventoryDomainError ''Offline sales require a valid server-recorded time.'') (
     bindE (toISOString recordedAt) (\<lambda>recordedText.
       Inr [InventoryItemAdjustedEvent
              \<lparr>ia_itemId = itemId, ia_quantityDelta = - quantity, ia_reason = ''Offline sale'',
               ia_reasonCode = Some SoldOffline,
               ia_note = map_option normalizeOptionalText (os_note command),
               ia_sourceRef = None, ia_acquisitionOccurrence = None,
               ia_csatOutcomeFact = os_csatOutcomeFact command\<rparr>,
            InventoryItemOfflineSaleRecordedEvent
              \<lparr>or_itemId = itemId, or_quantity = quantity, or_salePriceAmount = salePriceAmount,
               or_channel = os_channel command, or_storageLocationId = it_storageLocationId state,
               or_acquisitionCostAmount = it_acquisitionCostAmount state,
               or_recordedAt = recordedText\<rparr>])))))))))"

definition decideClaimStockAuthority ::
    "InventoryItemState \<Rightarrow> string \<Rightarrow> StockAuthorityOperation \<Rightarrow> jsnum \<Rightarrow> InventoryItemEvent list res" where
  "decideClaimStockAuthority state authorityRef stockOperation rawQuantity =
     bindE (requireCreatedInventoryItem state) (\<lambda>itemId.
     bindE (ensurePositiveInteger rawQuantity
              ''Inventory stock authority requires a positive quantity.'') (\<lambda>quantity.
       Inr [InventoryItemStockAuthorityClaimedEvent itemId (normalizeLabel authorityRef)
              stockOperation quantity]))"

fun decideInventoryItem ::
    "host \<Rightarrow> InventoryItemState \<Rightarrow> InventoryItemCommand \<Rightarrow> InventoryItemEvent list res" where
  "decideInventoryItem h state (CreateInventoryItem c) = decideCreateInventoryItem h state c"
| "decideInventoryItem h state (AdjustInventoryItemQuantity c) =
     decideAdjustInventoryItemQuantity h state c"
| "decideInventoryItem h state (RecordExternalChannelSaleAdjustment quantity heldQuantity) =
     decideRecordExternalChannelSale state quantity heldQuantity"
| "decideInventoryItem h state (RecordOfflineSale c) = decideRecordOfflineSale h state c"
| "decideInventoryItem h state (ClaimInventoryStockAuthority authorityRef stockOperation quantity) =
     decideClaimStockAuthority state authorityRef stockOperation quantity"


section \<open>The evolver\<close>

fun evolveItem :: "InventoryItemState \<Rightarrow> InventoryItemEvent \<Rightarrow> InventoryItemState" where
  "evolveItem state (InventoryItemCreatedEvent d) =
     \<lparr>it_id = Some (ic_itemId d), it_accountId = Some (ic_accountId d),
      it_catalogItemId = Some (ic_catalogItemId d), it_productId = Some (ic_productId d),
      it_selectedOptions = ic_selectedOptions d, it_gradedCard = ic_gradedCard d,
      it_storageLocationId = Some (ic_storageLocationId d), it_totalQuantity = ic_totalQuantity d,
      it_acquisitionCostAmount = ic_acquisitionCostAmount d,
      it_acquisitionCostCurrencyCode = ic_acquisitionCostCurrencyCode d\<rparr>"
| "evolveItem state (InventoryItemAdjustedEvent d) =
     state\<lparr>it_totalQuantity := js_add (it_totalQuantity state) (ia_quantityDelta d)\<rparr>"
| "evolveItem state (InventoryItemOfflineSaleRecordedEvent d) = state"
| "evolveItem state (InventoryItemStockAuthorityClaimedEvent itemId authorityRef stockOperation quantity) = state"

definition evolveInventoryItem :: "InventoryItemState \<Rightarrow> InventoryItemEvent \<Rightarrow> InventoryItemState res" where
  "evolveInventoryItem state event = Inr (evolveItem state event)"

end
