(* ===== verification/InventoryItemFacts.thy ===== *)
theory InventoryItemFacts
  imports InventoryItem
begin

text \<open>
  What holds of every inventory item: its state is well formed, its count is never negative and is
  the sum of its history, and every gain of stock says when it was acquired.
\<close>

section \<open>What the normalisers return\<close>

lemma requireCreatedItem_Inr [res_simps]: "requireCreatedInventoryItem s = Inr i \<longleftrightarrow> it_id s = Some i"
  by (simp add: requireCreatedInventoryItem_def split: option.splits)

lemma parseOccurrenceInstant_Inr [res_simps]:
  "parseOccurrenceInstant h v n = Inr t \<longleftrightarrow>
   v = Some (JString t) \<and> rfc3339_instant t \<and> Date_parse h t \<noteq> None"
  by (auto simp: parseOccurrenceInstant_def Option.is_none_def split: option.splits json.splits if_splits)

fun occurrence_ok :: "host \<Rightarrow> string option \<Rightarrow> AcquisitionOccurrence \<Rightarrow> bool" where
  "occurrence_ok h cmd AcquisitionUnknown = True"
| "occurrence_ok h cmd (AcquisitionOccurred t source) =
     (source \<in> {''seller-supplied'', ''import-supplied''} \<and> rfc3339_instant t \<and>
      time_le (Date_parse h t) (Option.bind cmd (Date_parse h)))"

lemma normalizeAcquisitionOccurrence_Inr:
  assumes "normalizeAcquisitionOccurrence h v cmd = Inr a"
  shows "v \<noteq> None \<and> occurrence_ok h cmd a"
proof (cases v)
  case None
  with assms show ?thesis by (simp add: normalizeAcquisitionOccurrence_def)
next
  case (Some obj)
  show ?thesis
  proof (cases "map_of obj ''kind'' = Some (JString ''unknown'')")
    case True
    with assms Some show ?thesis by (auto simp: normalizeAcquisitionOccurrence_def res_simps)
  next
    case False
    with assms Some show ?thesis
      by (simp add: normalizeAcquisitionOccurrence_def res_simps)
        (elim exE conjE, simp split: option.split_asm json.split_asm, auto simp: res_simps split: if_splits)
  qed
qed

lemma normalizeAcquisitionCost_Inr:
  "normalizeAcquisitionCost a c = Inr (a', c') \<Longrightarrow>
   (a' = None) = (c' = None) \<and> (\<forall>t. a' = Some t \<longrightarrow> canonical t \<and> 0 \<le> centsOf t)"
  by (auto simp: normalizeAcquisitionCost_def primNormalizeMoneyAmount_def res_simps Option.is_none_def
      moneyToCents_def money_simps split: option.splits if_splits dest!: tryMoneyToCents_range)

definition graded_card_ok :: "GradedCardDetails \<Rightarrow> bool" where
  "graded_card_ok d \<longleftrightarrow>
     gd_gradingCompany d \<noteq> [] \<and> js_trim (gd_gradingCompany d) = gd_gradingCompany d \<and>
     gd_grade d \<noteq> [] \<and> js_trim (gd_grade d) = gd_grade d \<and>
     distinct (gd_conditionDescriptors d) \<and>
     (\<forall>t\<in>set (gd_conditionDescriptors d). t \<noteq> [] \<and> js_trim t = t) \<and>
     (case gd_population d of None \<Rightarrow> True
      | Some p \<Rightarrow> population_count_ok (gp_populationAtGrade p) \<and> population_count_ok (gp_populationHigher p))"

lemma normalizeGradedCardDetails_Inr:
  "normalizeGradedCardDetails d = Inr (Some d') \<Longrightarrow> graded_card_ok d'"
  by (auto simp: normalizeGradedCardDetails_def graded_card_ok_def Let_def normalizeLabel_def
      split: option.splits if_splits)


section \<open>Well-formed items\<close>

definition item_inv :: "InventoryItemState \<Rightarrow> bool" where
  "item_inv s \<longleftrightarrow>
     0 \<le> it_totalQuantity s \<and>
     (it_id s = None \<longrightarrow> s = initialInventoryItemState) \<and>
     (it_acquisitionCostAmount s = None) = (it_acquisitionCostCurrencyCode s = None) \<and>
     (\<forall>a. it_acquisitionCostAmount s = Some a \<longrightarrow> canonical a \<and> 0 \<le> centsOf a) \<and>
     (\<forall>d. it_gradedCard s = Some d \<longrightarrow> graded_card_ok d)"

lemma item_inv_initial: "item_inv initialInventoryItemState"
  by (simp add: item_inv_def initialInventoryItemState_def)

lemma evolveInventoryItem_Inr [res_simps]: "evolveInventoryItem s e = Inr t \<longleftrightarrow> t = evolveItem s e"
  by (auto simp: evolveInventoryItem_def)

lemma checkHeldQuantity_Inr [res_simps]:
  "checkHeldQuantity s d k r = Inr x \<longleftrightarrow>
   0 \<le> js_add (it_totalQuantity s) d \<and> k \<le> js_add (it_totalQuantity s) d \<and> r = Inr x"
  by (simp add: checkHeldQuantity_def)

text \<open>The units held by open orders that the commands bring along.\<close>

fun heldOf :: "InventoryItemCommand \<Rightarrow> jsnum option" where
  "heldOf (AdjustInventoryItemQuantity c) = Some (ai_heldQuantity c)"
| "heldOf (RecordOfflineSale c) = Some (os_heldQuantity c)"
| "heldOf (RecordExternalChannelSaleAdjustment q held) = Some held"
| "heldOf _ = None"

text \<open>An adjustment says when stock was acquired exactly when it gains stock.\<close>

definition adjustment_ok :: "host \<Rightarrow> InventoryItemAdjusted \<Rightarrow> bool" where
  "adjustment_ok h d \<longleftrightarrow>
     ia_quantityDelta d \<noteq> 0 \<and> (ia_acquisitionOccurrence d \<noteq> None) = (0 < ia_quantityDelta d) \<and>
     (ia_reasonCode d = Some SoldExternalChannel \<longrightarrow> ia_quantityDelta d < 0) \<and>
     (\<forall>t source. ia_acquisitionOccurrence d = Some (AcquisitionOccurred t source) \<longrightarrow>
        rfc3339_instant t \<and> source \<in> {''seller-supplied'', ''import-supplied''})"

lemma occurrence_okD:
  "occurrence_ok h cmd (AcquisitionOccurred t source) \<Longrightarrow>
   rfc3339_instant t \<and> source \<in> {''seller-supplied'', ''import-supplied''}"
  by auto

lemma decided_create:
  assumes "decideCreateInventoryItem h s c = Inr es"
  shows "\<exists>d. es = [InventoryItemCreatedEvent d] \<and> it_id s = None \<and> 0 < ic_totalQuantity d \<and>
             item_inv (evolveItem s (InventoryItemCreatedEvent d)) \<and>
             occurrence_ok h (ci_commandOccurredAt c) (ic_acquisitionOccurrence d)"
  using assms unfolding decideCreateInventoryItem_def
  by (auto simp: res_simps item_inv_def Option.is_none_def
      dest!: normalizeAcquisitionOccurrence_Inr normalizeAcquisitionCost_Inr
      dest: normalizeGradedCardDetails_Inr)

lemma decided_adjust:
  assumes "decideAdjustInventoryItemQuantity h s c = Inr es"
  shows "\<exists>d k. es = [InventoryItemAdjustedEvent d] \<and> it_id s \<noteq> None \<and> ai_heldQuantity c = numi k \<and>
               0 \<le> k \<and> k \<le> js_add (it_totalQuantity s) (ia_quantityDelta d) \<and> adjustment_ok h d \<and>
               (\<forall>a. ia_acquisitionOccurrence d = Some a \<longrightarrow> occurrence_ok h (ai_commandOccurredAt c) a)"
  using assms unfolding decideAdjustInventoryItemQuantity_def
  by (auto simp: res_simps adjustment_ok_def split: if_splits
      dest!: normalizeAcquisitionOccurrence_Inr dest: occurrence_okD)

lemma decided_external:
  assumes "decideRecordExternalChannelSale s q held = Inr es"
  shows "\<exists>d k. es = [InventoryItemAdjustedEvent d] \<and> it_id s \<noteq> None \<and> held = numi k \<and> 0 \<le> k \<and>
               k \<le> js_add (it_totalQuantity s) (ia_quantityDelta d) \<and> adjustment_ok h d"
  using assms unfolding decideRecordExternalChannelSale_def
  by (auto simp: res_simps adjustment_ok_def)

lemma decided_offline:
  assumes "decideRecordOfflineSale h s c = Inr es"
  shows "\<exists>d r k. es = [InventoryItemAdjustedEvent d, InventoryItemOfflineSaleRecordedEvent r] \<and>
               it_id s \<noteq> None \<and> os_heldQuantity c = numi k \<and> 0 \<le> k \<and>
               k \<le> js_add (it_totalQuantity s) (ia_quantityDelta d) \<and> adjustment_ok h d \<and>
               ia_quantityDelta d = - or_quantity r \<and> 0 < or_quantity r"
  using assms unfolding decideRecordOfflineSale_def
  by (auto simp: res_simps adjustment_ok_def Let_def)

lemma decided_item_cases:
  assumes "decideInventoryItem h s c = Inr es"
  obtains (created) d where "es = [InventoryItemCreatedEvent d]" "it_id s = None" "0 < ic_totalQuantity d"
      "item_inv (evolveItem s (InventoryItemCreatedEvent d))" "heldOf c = None"
    | (adjusted) d rest k where "es = InventoryItemAdjustedEvent d # rest" "it_id s \<noteq> None"
        "heldOf c = Some (numi k)" "0 \<le> k" "k \<le> js_add (it_totalQuantity s) (ia_quantityDelta d)"
        "adjustment_ok h d"
        "rest = [] \<or> (\<exists>r. rest = [InventoryItemOfflineSaleRecordedEvent r] \<and> ia_quantityDelta d = - or_quantity r)"
    | (claimed) i a p n where "es = [InventoryItemStockAuthorityClaimedEvent i a p n]" "it_id s \<noteq> None"
        "heldOf c = None" "0 < n"
proof (cases c)
  case (CreateInventoryItem x1)
  with assms show ?thesis by (auto dest!: decided_create intro: created)
next
  case (AdjustInventoryItemQuantity x2)
  with assms show ?thesis by (auto dest!: decided_adjust intro: adjusted)
next
  case (RecordOfflineSale x3)
  with assms show ?thesis by (auto dest!: decided_offline intro: adjusted)
next
  case (RecordExternalChannelSaleAdjustment q held)
  with assms have "decideRecordExternalChannelSale s q held = Inr es" by simp
  from decided_external [OF this, of h] RecordExternalChannelSaleAdjustment show ?thesis by (auto intro: adjusted)
next
  case (ClaimInventoryStockAuthority a p n)
  with assms show ?thesis by (auto simp: decideClaimStockAuthority_def res_simps intro: claimed)
qed

lemma item_inv_adjusted:
  "item_inv s \<Longrightarrow> it_id s \<noteq> None \<Longrightarrow> 0 \<le> js_add (it_totalQuantity s) (ia_quantityDelta d) \<Longrightarrow>
   item_inv (evolveItem s (InventoryItemAdjustedEvent d))"
  by (auto simp: item_inv_def)

lemma item_decided_apply:
  assumes "item_inv s" and "decideInventoryItem h s c = Inr es"
  shows "\<exists>t. applyEvents s evolveInventoryItem es = Inr t \<and> item_inv t \<and>
             (\<forall>k. heldOf c = Some (numi k) \<longrightarrow> 0 \<le> k \<and> k \<le> it_totalQuantity t)"
  using assms(2)
proof (cases rule: decided_item_cases)
  case (created d)
  then show ?thesis by (auto simp: applyEvents_Cons res_simps)
next
  case (adjusted d rest k)
  let ?t = "evolveItem s (InventoryItemAdjustedEvent d)"
  have "applyEvents s evolveInventoryItem es = Inr ?t"
    using adjusted(1,7) by (auto simp: applyEvents_Cons res_simps)
  with adjusted item_inv_adjusted [OF assms(1) adjusted(2), of d] show ?thesis by auto
next
  case (claimed i a p n)
  then show ?thesis using assms(1) by (auto simp: applyEvents_Cons res_simps)
qed

interpretation item: replayable_aggregate initialInventoryItemState evolveInventoryItem
    "decideInventoryItem h" item_inv for h
proof unfold_locales
  show "item_inv initialInventoryItemState" by (rule item_inv_initial)
qed (use item_decided_apply in fastforce)+


section \<open>The count of a history\<close>

fun unit_change :: "InventoryItemEvent \<Rightarrow> int" where
  "unit_change (InventoryItemCreatedEvent d) = ic_totalQuantity d"
| "unit_change (InventoryItemAdjustedEvent d) = ia_quantityDelta d"
| "unit_change _ = 0"

definition units_of :: "InventoryItemEvent list \<Rightarrow> int" where
  "units_of es = sum_list (map unit_change es)"

definition units_moved :: "InventoryItemEvent list \<Rightarrow> int" where
  "units_moved es = sum_list (map (\<lambda>e. \<bar>unit_change e\<bar>) es)"

text \<open>As long as less than \<open>2^53\<close> units have moved, the count is exact.\<close>

lemma units_of_bounded: "\<bar>units_of es\<bar> \<le> units_moved es"
  by (induction es) (auto simp: units_of_def units_moved_def)

lemma units_moved_append [simp]: "units_moved (es @ es') = units_moved es + units_moved es'"
  by (simp add: units_moved_def)

lemma units_of_append [simp]: "units_of (es @ es') = units_of es + units_of es'"
  by (simp add: units_of_def)

lemma units_moved_nonneg [simp]: "0 \<le> units_moved es"
  by (induction es) (auto simp: units_moved_def)

lemma item_history_counts:
  assumes "reachable_history initialInventoryItemState evolveInventoryItem (decideInventoryItem h) es"
    and "foldEvents initialInventoryItemState evolveInventoryItem es = Inr s"
    and "units_moved es \<le> 2 ^ 53"
  shows "it_totalQuantity s = units_of es"
  using assms
proof (induction arbitrary: s rule: reachable_history.induct)
  case empty_history
  then show ?case by (auto simp: foldEvents_def units_of_def initialInventoryItemState_def)
next
  case (append_decided hist t c new)
  have "units_moved hist \<le> 2 ^ 53"
    using append_decided.prems(2) units_moved_nonneg [of new] by (simp del: units_moved_nonneg)
  with append_decided have t: "it_totalQuantity t = units_of hist" by simp
  have s: "applyEvents t evolveInventoryItem new = Inr s"
    using append_decided.prems(1) append_decided.hyps(2) by (simp add: foldEvents_append)
  have inv: "item_inv t" using append_decided.hyps(1,2) by (rule item.loaded_inv)
  have bound: "\<bar>units_of (hist @ new)\<bar> \<le> 2 ^ 53"
    using units_of_bounded [of "hist @ new"] append_decided.prems(2) by linarith
  from append_decided.hyps(3) show ?case
  proof (cases rule: decided_item_cases)
    case (created d)
    then have "it_totalQuantity t = 0" using inv by (simp add: item_inv_def initialInventoryItemState_def)
    with created s t show ?thesis by (auto simp: applyEvents_Cons res_simps units_of_def)
  next
    case (adjusted d rest k)
    then have "units_of new = ia_quantityDelta d" by (auto simp: units_of_def)
    with adjusted(1,7) s t bound show ?thesis by (auto simp: applyEvents_Cons res_simps js_add_exact)
  next
    case (claimed i a p n)
    with s t show ?thesis by (auto simp: applyEvents_Cons res_simps units_of_def)
  qed
qed

lemma item_history_adjustments:
  assumes "reachable_history initialInventoryItemState evolveInventoryItem (decideInventoryItem h) es"
    and "InventoryItemAdjustedEvent d \<in> set es"
  shows "adjustment_ok h d"
  using assms
proof (induction rule: reachable_history.induct)
  case (append_decided hist t c new)
  show ?case
  proof (cases "InventoryItemAdjustedEvent d \<in> set hist")
    case False
    with append_decided.prems have "InventoryItemAdjustedEvent d \<in> set new" by simp
    with append_decided.hyps(3) show ?thesis by (auto elim!: decided_item_cases)
  qed (use append_decided in simp)
qed simp

end
