(* ===== verification/InventoryProps.thy ===== *)
theory InventoryProps
  imports InventoryHoldFacts InventoryReservation InventoryItemFacts
begin

text \<open>
  The properties of the inventory aggregates, over the histories their streams can hold. The
  witnesses run short command sequences from the initial states.
\<close>

section \<open>Sample commands\<close>

definition stockHost :: host where
  "stockHost = \<lparr>host_dateParse = (\<lambda>_. None), host_sha256Hex = (\<lambda>_. [])\<rparr>"

definition placeCheckout :: InventoryHoldCommand where
  "placeCheckout = PlaceInventoryHold
     \<lparr>ph_holdId = ''hld_1'', ph_accountId = ''acc_1'', ph_itemId = ''itm_1'', ph_quantity = Fin 2,
      ph_reason = ''checkout'', ph_notes = None, ph_purpose = ''checkout'',
      ph_sourceRef = Some (CheckoutSourceRef ''cks_1'' ''line-1''), ph_expiresAt = Some ''2026-01-02''\<rparr>"

definition extendOnce :: InventoryHoldCommand where
  "extendOnce = ExtendInventoryHold ''2026-01-01'' ''2026-01-03'' (Fin 2)"

definition checkoutRun :: "InventoryHoldCommand list" where
  "checkoutRun = [placeCheckout, extendOnce]"

definition convertedRun :: "InventoryHoldCommand list" where
  "convertedRun = [placeCheckout, extendOnce, ConvertInventoryHold ''2026-01-02'' ''ord_1'' ''rrq_1'',
     ReleaseInventoryHold ''2026-01-04'' ''order-cancelled'']"

definition reservationRequest :: ReservationInput where
  "reservationRequest =
     \<lparr>ri_reservationRequestId = ''rrq_1'', ri_orderId = '' ord_1'', ri_sellerAccountId = ''acc_1'',
      ri_inventoryItemId = ''itm_1'', ri_quantity = Fin 3\<rparr>"

definition createItem :: InventoryItemCommand where
  "createItem = CreateInventoryItem
     \<lparr>ci_csatOutcomeFact = None, ci_itemId = ''itm_1'', ci_accountId = ''acc_1'',
      ci_catalogItemId = ''cat_1'', ci_productId = ''prd_1'', ci_selectedOptions = None,
      ci_gradedCard = None, ci_storageLocationId = ''loc_1'', ci_totalQuantity = Fin 5,
      ci_acquisitionCostAmount = Some ''3.5'', ci_acquisitionCostCurrencyCode = Some ''USD'',
      ci_acquisitionOccurrence = Some [(''kind'', JString ''occurred''),
        (''source'', JString ''seller-supplied''), (''occurredAt'', JString ''2026-01-01T10:00:00Z'')],
      ci_commandOccurredAt = Some ''2026-01-02T10:00:00Z''\<rparr>"

definition offlineSale :: InventoryItemCommand where
  "offlineSale = RecordOfflineSale
     \<lparr>os_csatOutcomeFact = None, os_quantity = Fin 2, os_heldQuantity = Fin 3,
      os_salePriceAmount = Some ''9'', os_channel = ''card-show'', os_note = None,
      os_recordedAt = ''2026-01-03''\<rparr>"

definition itemRun :: "InventoryItemCommand list" where
  "itemRun = [createItem, offlineSale]"


section \<open>Holds\<close>

text \<open>
  C35. Every history of a hold loads, and to a well-formed state: the quantity is positive, the
  source reference has the shape its purpose asks for (none for a manual hold), only a checkout hold
  has an expiry, and exactly the timestamps of its status are set; a consumed hold has a source and
  an expired one is a checkout hold released for expiry.
\<close>

theorem hold_history_well_formed:
  assumes "reachable_history initialInventoryHoldState evolveInventoryHold (decideInventoryHold h) es"
  shows "\<exists>s. foldEvents initialInventoryHoldState evolveInventoryHold es = Inr s \<and>
             (if es = [] then s = initialInventoryHoldState else ih_id s \<noteq> None \<and> hold_wf s)"
proof -
  obtain s where s: "foldEvents initialInventoryHoldState evolveInventoryHold es = Inr s" "hold_inv s"
    using hold.history_loads [OF assms] by blast
  show ?thesis
  proof (cases es rule: rev_cases)
    case Nil
    with s show ?thesis by (simp add: foldEvents_def)
  next
    case (snoc es' e)
    with hold_life.history_path [OF assms s(1)] have "hold_phase_of s \<noteq> NoHold"
      by (auto simp: event_path_snoc dest: hold_step_placed)
    with s snoc show ?thesis by (auto simp: hold_inv_def hold_phase_of_def)
  qed
qed

theorem hold_history_well_formed_witness:
  "\<exists>es s. es \<noteq> [] \<and> foldEvents initialInventoryHoldState evolveInventoryHold es = Inr s \<and> hold_wf s \<and>
          ih_status s = StockHoldReleased"
proof -
  have "case runAndLoad initialInventoryHoldState evolveInventoryHold (decideInventoryHold stockHost) convertedRun of
          Inr s \<Rightarrow> ih_status s = StockHoldReleased | Inl _ \<Rightarrow> False"
    by code_simp
  then show ?thesis
  proof (rule runAndLoad_cases)
    fix s es
    assume s: "ih_status s = StockHoldReleased" "foldEvents initialInventoryHoldState evolveInventoryHold es = Inr s"
      and r: "reachable_history initialInventoryHoldState evolveInventoryHold (decideInventoryHold stockHost) es"
    have "es \<noteq> []" using s by (auto simp: foldEvents_def initialInventoryHoldState_def)
    with hold_history_well_formed [OF r] s show ?thesis by auto
  qed
qed

text \<open>
  C25. The decider and the evolver of holds refine the life cycle \<open>hold_step\<close>: placed once, then for
  a checkout hold any number of extensions, counted, and at most one conversion to an order hold,
  then at most one closing event, which nothing follows; a hold is expired only before a conversion.
  The hold is active until then, and when it is closed every command is refused.
\<close>

theorem hold_history_follows_life_cycle:
  assumes "reachable_history initialInventoryHoldState evolveInventoryHold (decideInventoryHold h) es"
    and "foldEvents initialInventoryHoldState evolveInventoryHold es = Inr s"
  shows "event_path hold_step NoHold es (hold_phase_of s) \<and>
    (\<forall>e\<in>set (butlast es). \<not> closes_hold e) \<and>
    (ih_status s \<noteq> StockHoldActive \<longleftrightarrow> es \<noteq> [] \<and> closes_hold (last es)) \<and>
    (ih_status s \<noteq> StockHoldActive \<longrightarrow> (\<forall>c. \<exists>m. decideInventoryHold h s c = Inl (InventoryDomainError m)))"
proof -
  note path = hold_life.history_path [OF assms]
  have inv: "hold_inv s" using assms by (rule hold.loaded_inv)
  have closed: "hold_phase_of s = ClosedHold \<longleftrightarrow> ih_status s \<noteq> StockHoldActive"
    using inv by (auto simp: hold_phase_of_def hold_inv_def initialInventoryHoldState_def)
  show ?thesis
    using path hold_life.history_closes_last [OF assms] closed closed_hold_refuses [OF inv] by auto
qed

theorem hold_history_follows_life_cycle_witness:
  "\<exists>es s. event_path hold_step NoHold es ClosedHold \<and> closes_hold (last es) \<and>
     foldEvents initialInventoryHoldState evolveInventoryHold es = Inr s \<and> length es = 4"
proof -
  have "case runCommands initialInventoryHoldState evolveInventoryHold (decideInventoryHold stockHost) [] convertedRun of
          Inr es \<Rightarrow> length es = 4 \<and> (case foldEvents initialInventoryHoldState evolveInventoryHold es of
            Inr s \<Rightarrow> hold_phase_of s = ClosedHold | Inl _ \<Rightarrow> False) | Inl _ \<Rightarrow> False"
    by code_simp
  then obtain es s where es: "runCommands initialInventoryHoldState evolveInventoryHold
      (decideInventoryHold stockHost) [] convertedRun = Inr es" "length es = 4"
    and s: "foldEvents initialInventoryHoldState evolveInventoryHold es = Inr s" "hold_phase_of s = ClosedHold"
    by (auto split: sum.splits)
  from hold_history_follows_life_cycle [OF run_reachable [OF es(1)] s(1)] s es(2) show ?thesis
    by (auto simp: hold_phase_of_def split: if_splits)
qed

text \<open>
  When every extension a client sends is limited to \<open>k\<close> extensions (\<open>k\<close> a whole number of at
  most \<open>2^53\<close>), no sequence of commands extends a hold more than \<open>k\<close> times.
\<close>

theorem hold_extensions_bounded:
  assumes "runAndLoad initialInventoryHoldState evolveInventoryHold (decideInventoryHold h) cs = Inr s"
    and "\<And>t e m. ExtendInventoryHold t e m \<in> set cs \<Longrightarrow> \<not> num_less (numi k) m"
    and "0 \<le> k" and "k \<le> 2 ^ 53"
  shows "0 \<le> ih_extensionCount s \<and> ih_extensionCount s \<le> k"
proof -
  obtain es where es: "runCommands initialInventoryHoldState evolveInventoryHold (decideInventoryHold h) [] cs = Inr es"
    "foldEvents initialInventoryHoldState evolveInventoryHold es = Inr s"
    using assms(1) by (auto simp: runAndLoad_Inr)
  have "hold_inv s \<and> ih_extensionCount s \<le> k"
    by (rule runCommands_keeps [OF es(1) _ _ _ es(2), where s\<^sub>0 = initialInventoryHoldState])
      (use assms(3,4) in \<open>auto simp: foldEvents_def hold_inv_initial
         dest: extension_step [OF _ _ _ assms(2)]\<close>)
  then show ?thesis using assms(3) by (auto simp: hold_inv_def hold_wf_def initialInventoryHoldState_def)
qed

section \<open>Reservations\<close>

text \<open>
  A reservation is resolved once: its history is empty, a rejection, a confirmation, or a
  confirmation followed by the release of the same hold. A well-formed confirm command appends on a
  new reservation only, repeats as a no-op while the reservation is confirmed with the same hold, and
  is refused otherwise; a reject command repeats as a no-op for the same reason, unless that reason
  is blank: a rejection recorded without a reason refuses its own retry.
\<close>

theorem reservation_resolved_once:
  assumes "reachable_history initialInventoryReservationState evolveInventoryReservation decideInventoryReservation es"
    and "foldEvents initialInventoryReservationState evolveInventoryReservation es = Inr s"
    and "normalizeReservationInput i = Inr d"
  shows "reservation_word es \<and>
    decideInventoryReservation s (ConfirmInventoryReservation i holdId) =
      (if es = [] then Inr [ReservationConfirmedEvent d (normalizeLabel holdId)]
       else if \<exists>d'. es = [ReservationConfirmedEvent d' (normalizeLabel holdId)] then Inr []
       else Inl alreadyResolved) \<and>
    decideInventoryReservation s (RejectInventoryReservation i reason) =
      (if es = [] then Inr [ReservationRejectedEvent d (normalizeLabel reason)]
       else if normalizeLabel reason \<noteq> [] \<and> (\<exists>d'. es = [ReservationRejectedEvent d' (normalizeLabel reason)])
       then Inr [] else Inl alreadyResolved)"
proof -
  have word: "reservation_word es" using assms(1) by (rule reservation_history_word)
  then show ?thesis using assms(2)
    by (cases rule: reservation_word_state)
      (insert word, auto simp: decideConfirmReservation_def decideRejectReservation_def assms(3) Let_def
         Option.is_none_def normalizeLabel_def fresh_reservation_reason)
qed

section \<open>Items\<close>

text \<open>
  Every history of an item loads, to a state whose count is never negative and, as long as at
  most \<open>2^53\<close> units have moved, is exactly the sum of the units its events created, gained and
  removed; the acquisition cost is a canonical amount with a currency, or neither is there. Every
  adjustment changes the count, says how the stock was acquired exactly when it gains stock, and
  gains nothing when it is booked as an external channel sale.
\<close>

theorem item_history_adds_up:
  assumes "reachable_history initialInventoryItemState evolveInventoryItem (decideInventoryItem h) es"
  shows "\<exists>s. foldEvents initialInventoryItemState evolveInventoryItem es = Inr s \<and> item_inv s \<and>
    (units_moved es \<le> 2 ^ 53 \<longrightarrow> it_totalQuantity s = units_of es) \<and>
    (\<forall>d. InventoryItemAdjustedEvent d \<in> set es \<longrightarrow> adjustment_ok h d)"
  using item.history_loads [OF assms] item_history_counts [OF assms] item_history_adjustments [OF assms]
  by blast

text \<open>
  A command that brings the number of units held by open orders leaves at least that many units:
  after every accepted adjustment, offline sale or external sale the count covers the held units,
  which are a whole number that is not negative.
\<close>

theorem item_keeps_held_units:
  assumes "reachable_history initialInventoryItemState evolveInventoryItem (decideInventoryItem h) es"
    and "foldEvents initialInventoryItemState evolveInventoryItem es = Inr s"
    and "decideInventoryItem h s c = Inr new" and "heldOf c = Some held"
  shows "\<exists>k s'. held = numi k \<and> applyEvents s evolveInventoryItem new = Inr s' \<and>
                0 \<le> k \<and> k \<le> it_totalQuantity s'"
proof -
  have inv: "item_inv s" using assms(1,2) by (rule item.loaded_inv)
  obtain k where k: "held = numi k"
    using assms(3,4) by (auto elim!: decided_item_cases)
  then show ?thesis using item_decided_apply [OF inv assms(3)] assms(4) by auto
qed

end
