(* ===== verification/Payout.thy ===== *)
theory Payout
  imports SettlementCommon EventDomain Storage
begin

text \<open>
  Payouts: \<open>bounded-contexts/settlement/features/payouts/domain/domain.ts\<close>. The payout aggregate
  (request, provider references, transit, completion, failure), the ledger of the payouts of an
  account in a month, from which the first payout of the month is told, and the month of an instant.
\<close>

section \<open>State, commands and events\<close>

record PayoutState =
  po_payoutId :: "string option"
  po_accountId :: "string option"
  po_requestedAmount :: "string option"
  po_feeAmount :: "string option"
  po_netAmount :: "string option"
  po_currencyCode :: "CurrencyCode option"
  po_destinationReference :: "string option"
  po_note :: "string option"
  po_status :: "PayoutStatus option"
  po_providerTransferReference :: "string option"
  po_providerPayoutReference :: "string option"
  po_providerStatus :: "string option"
  po_providerFailureCode :: "string option"
  po_providerFailureMessage :: "string option"
  po_notificationEmail :: "string option"
  po_requestedAt :: "string option"
  po_sentAt :: "string option"
  po_completedAt :: "string option"
  po_failedAt :: "string option"
  po_failureReason :: "string option"

definition initialPayoutState :: PayoutState where
  "initialPayoutState =
     \<lparr>po_payoutId = None, po_accountId = None, po_requestedAmount = None, po_feeAmount = None,
      po_netAmount = None, po_currencyCode = None, po_destinationReference = None, po_note = None,
      po_status = None, po_providerTransferReference = None, po_providerPayoutReference = None,
      po_providerStatus = None, po_providerFailureCode = None, po_providerFailureMessage = None,
      po_notificationEmail = None, po_requestedAt = None, po_sentAt = None, po_completedAt = None,
      po_failedAt = None, po_failureReason = None\<rparr>"

record RequestPayoutCommand =
  rp_payoutId :: string
  rp_accountId :: string
  rp_requestedAmount :: string
  rp_feeAmount :: string
  rp_netAmount :: string
  rp_currencyCode :: string
  rp_destinationReference :: "string option"
  rp_note :: "string option"
  rp_notificationEmail :: "string option"
  rp_requestedAt :: string

datatype PayoutCommand =
    RequestPayout RequestPayoutCommand
  | RecordPayoutProviderReferences (rpr_transferReference: "string option")
      (rpr_payoutReference: "string option") (rpr_providerStatus: "string option") (rpr_recordedAt: string)
  | MarkPayoutInTransit (mpt_transferReference: "string option")
      (mpt_payoutReference: "string option") (mpt_providerStatus: "string option") (mpt_sentAt: string)
  | CompletePayout (cp_csatOutcomeFact: "json option") (cp_providerStatus: "string option")
      (cp_completedAt: string)
  | FailPayout (fp_failureReason: "string option") (fp_providerStatus: "string option")
      (fp_providerFailureCode: "string option") (fp_providerFailureMessage: "string option")
      (fp_failedAt: string)

text \<open>The amounts of a historical request event may be absent, except the requested one, \<open>amount\<close>.\<close>

record PayoutRequested =
  pq_payoutId :: string
  pq_accountId :: string
  pq_amount :: string
  pq_requestedAmount :: "string option"
  pq_feeAmount :: "string option"
  pq_netAmount :: "string option"
  pq_currencyCode :: CurrencyCode
  pq_destinationReference :: "string option"
  pq_note :: "string option"
  pq_notificationEmail :: "string option"
  pq_requestedAt :: string

record PayoutInTransit =
  pt_payoutId :: string
  pt_providerTransferReference :: "string option"
  pt_providerPayoutReference :: "string option"
  pt_providerStatus :: "string option"
  pt_requestedAmount :: string
  pt_feeAmount :: string
  pt_netAmount :: string
  pt_sentAt :: string

record PayoutCompleted =
  pc_payoutId :: string
  pc_accountId :: string
  pc_providerStatus :: "string option"
  pc_amount :: string
  pc_requestedAmount :: string
  pc_feeAmount :: string
  pc_netAmount :: string
  pc_notificationEmail :: "string option"
  pc_completedAt :: string
  pc_csatOutcomeFact :: "json option"

record PayoutFailed =
  pf_payoutId :: string
  pf_failureReason :: "string option"
  pf_providerStatus :: "string option"
  pf_providerFailureCode :: "string option"
  pf_providerFailureMessage :: "string option"
  pf_requestedAmount :: string
  pf_feeAmount :: string
  pf_netAmount :: string
  pf_failedAt :: string

datatype PayoutEvent =
    PayoutRequestedEvent PayoutRequested
  | PayoutProviderReferencesRecordedEvent (pp_payoutId: string)
      (pp_transferReference: "string option") (pp_payoutReference: "string option")
      (pp_providerStatus: "string option") (pp_recordedAt: string)
  | PayoutInTransitEvent PayoutInTransit
  | PayoutCompletedEvent PayoutCompleted
  | PayoutFailedEvent PayoutFailed


section \<open>The decider\<close>

definition decideRequestPayout ::
    "host \<Rightarrow> PayoutState \<Rightarrow> RequestPayoutCommand \<Rightarrow> PayoutEvent list res" where
  "decideRequestPayout h state command =
     ensure (Option.is_none (po_payoutId state))
       (SettlementDomainError ''Payout has already been requested.'') (
     bindE (normalizeMoneyAmount (rp_requestedAmount command) False ''Payout requested amount'') (\<lambda>requestedAmount.
     bindE (normalizeMoneyAmount (rp_feeAmount command) True ''Payout fee amount'') (\<lambda>feeAmount.
     bindE (normalizeMoneyAmount (rp_netAmount command) False ''Payout net amount'') (\<lambda>netAmount.
     bindE (addMoney netAmount feeAmount) (\<lambda>total.
     bindE (compareMoney total requestedAmount) (\<lambda>order.
     ensure (order = 0)
       (SettlementDomainError ''Payout net amount plus fee must equal requested amount.'') (
     bindE (normalizeCurrencyCode (rp_currencyCode command)) (\<lambda>currencyCode.
     bindE (ensureIsoTimestamp h (rp_requestedAt command) ''Payout request must record a timestamp.'') (\<lambda>requestedAt.
       Inr [PayoutRequestedEvent
              \<lparr>pq_payoutId = rp_payoutId command, pq_accountId = rp_accountId command,
               pq_amount = requestedAmount, pq_requestedAmount = Some requestedAmount,
               pq_feeAmount = Some feeAmount, pq_netAmount = Some netAmount,
               pq_currencyCode = currencyCode,
               pq_destinationReference = normalizeOptionalText (rp_destinationReference command),
               pq_note = normalizeOptionalText (rp_note command),
               pq_notificationEmail = normalizeOptionalText (rp_notificationEmail command),
               pq_requestedAt = requestedAt\<rparr>])))))))))"

text \<open>\<open>assert(value !== null, message)\<close> followed by the code that uses the value.\<close>

definition requirePresent :: "'a option \<Rightarrow> string \<Rightarrow> 'a res" where
  "requirePresent value message =
     (case value of None \<Rightarrow> Inl (SettlementDomainError message) | Some x \<Rightarrow> Inr x)"

definition decideRecordPayoutProviderReferences ::
    "host \<Rightarrow> PayoutState \<Rightarrow> string option \<Rightarrow> string option \<Rightarrow> string option \<Rightarrow> string \<Rightarrow> PayoutEvent list res" where
  "decideRecordPayoutProviderReferences h state rawTransfer rawPayout rawStatus rawRecordedAt =
     bindE (requirePresent (po_payoutId state) ''Payout must be requested first.'') (\<lambda>payoutId.
     ensure (po_status state = Some PayoutRequestedSt \<or> po_status state = Some PayoutInTransitSt)
       (SettlementDomainError ''Only active payouts can record provider references.'') (
     let transferReference = normalizeOptionalText rawTransfer;
         payoutReference = normalizeOptionalText rawPayout;
         providerStatus = normalizeOptionalText rawStatus
     in
     if (transferReference = None \<or> transferReference = po_providerTransferReference state) \<and>
        (payoutReference = None \<or> payoutReference = po_providerPayoutReference state) \<and>
        (providerStatus = None \<or> providerStatus = po_providerStatus state)
     then Inr []
     else
     bindE (ensureIsoTimestamp h rawRecordedAt
              ''Provider reference recording must include a timestamp.'') (\<lambda>recordedAt.
       Inr [PayoutProviderReferencesRecordedEvent payoutId transferReference payoutReference
              providerStatus recordedAt])))"

definition decideMarkPayoutInTransit ::
    "host \<Rightarrow> PayoutState \<Rightarrow> string option \<Rightarrow> string option \<Rightarrow> string option \<Rightarrow> string \<Rightarrow> PayoutEvent list res" where
  "decideMarkPayoutInTransit h state rawTransfer rawPayout rawStatus rawSentAt =
     bindE (requirePresent (po_payoutId state) ''Payout must be requested first.'') (\<lambda>payoutId.
     bindE (requirePresent (po_requestedAmount state)
              ''Payout must include a requested amount before sending.'') (\<lambda>requestedAmount.
     bindE (requirePresent (po_feeAmount state)
              ''Payout must include a fee amount before sending.'') (\<lambda>feeAmount.
     bindE (requirePresent (po_netAmount state)
              ''Payout must include a net amount before sending.'') (\<lambda>netAmount.
     if po_status state = Some PayoutInTransitSt then Inr []
     else
     ensure (po_status state = Some PayoutRequestedSt)
       (SettlementDomainError ''Only requested payouts can be sent.'') (
     bindE (ensureIsoTimestamp h rawSentAt ''Payout send must record a timestamp.'') (\<lambda>sentAt.
       Inr [PayoutInTransitEvent
              \<lparr>pt_payoutId = payoutId,
               pt_providerTransferReference = normalizeOptionalText rawTransfer,
               pt_providerPayoutReference = normalizeOptionalText rawPayout,
               pt_providerStatus = normalizeOptionalText rawStatus,
               pt_requestedAmount = requestedAmount, pt_feeAmount = feeAmount,
               pt_netAmount = netAmount, pt_sentAt = sentAt\<rparr>]))))))"

definition decideCompletePayout ::
    "host \<Rightarrow> PayoutState \<Rightarrow> json option \<Rightarrow> string option \<Rightarrow> string \<Rightarrow> PayoutEvent list res" where
  "decideCompletePayout h state csatOutcomeFact rawStatus rawCompletedAt =
     bindE (requirePresent (po_payoutId state) ''Payout must be requested first.'') (\<lambda>payoutId.
     bindE (requirePresent (po_accountId state)
              ''Payout must reference an account before completion.'') (\<lambda>accountId.
     bindE (requirePresent (po_requestedAmount state)
              ''Payout must include a requested amount before completion.'') (\<lambda>requestedAmount.
     bindE (requirePresent (po_feeAmount state)
              ''Payout must include a fee amount before completion.'') (\<lambda>feeAmount.
     bindE (requirePresent (po_netAmount state)
              ''Payout must include a net amount before completion.'') (\<lambda>netAmount.
     if po_status state = Some PayoutCompletedSt then Inr []
     else
     ensure (po_status state = Some PayoutRequestedSt \<or> po_status state = Some PayoutInTransitSt)
       (SettlementDomainError ''Only requested or in-transit payouts can complete.'') (
     bindE (ensureIsoTimestamp h rawCompletedAt ''Payout completion must record a timestamp.'') (\<lambda>completedAt.
       Inr [PayoutCompletedEvent
              \<lparr>pc_payoutId = payoutId, pc_accountId = accountId,
               pc_providerStatus = normalizeOptionalText rawStatus, pc_amount = requestedAmount,
               pc_requestedAmount = requestedAmount, pc_feeAmount = feeAmount,
               pc_netAmount = netAmount, pc_notificationEmail = po_notificationEmail state,
               pc_completedAt = completedAt, pc_csatOutcomeFact = csatOutcomeFact\<rparr>])))))))"

definition decideFailPayout ::
    "host \<Rightarrow> PayoutState \<Rightarrow> string option \<Rightarrow> string option \<Rightarrow> string option \<Rightarrow> string option \<Rightarrow>
     string \<Rightarrow> PayoutEvent list res" where
  "decideFailPayout h state rawReason rawStatus rawCode rawMessage rawFailedAt =
     bindE (requirePresent (po_payoutId state) ''Payout must be requested first.'') (\<lambda>payoutId.
     bindE (requirePresent (po_requestedAmount state)
              ''Payout must include a requested amount before failure.'') (\<lambda>requestedAmount.
     bindE (requirePresent (po_feeAmount state)
              ''Payout must include a fee amount before failure.'') (\<lambda>feeAmount.
     bindE (requirePresent (po_netAmount state)
              ''Payout must include a net amount before failure.'') (\<lambda>netAmount.
     if po_status state = Some PayoutFailedSt then Inr []
     else
     ensure (po_status state \<noteq> Some PayoutCompletedSt)
       (SettlementDomainError ''Completed payouts cannot fail.'') (
     bindE (ensureIsoTimestamp h rawFailedAt ''Payout failure must record a timestamp.'') (\<lambda>failedAt.
       Inr [PayoutFailedEvent
              \<lparr>pf_payoutId = payoutId, pf_failureReason = normalizeOptionalText rawReason,
               pf_providerStatus = normalizeOptionalText rawStatus,
               pf_providerFailureCode = normalizeOptionalText rawCode,
               pf_providerFailureMessage = normalizeOptionalText rawMessage,
               pf_requestedAmount = requestedAmount, pf_feeAmount = feeAmount,
               pf_netAmount = netAmount, pf_failedAt = failedAt\<rparr>]))))))"

fun decidePayout :: "host \<Rightarrow> PayoutState \<Rightarrow> PayoutCommand \<Rightarrow> PayoutEvent list res" where
  "decidePayout h state (RequestPayout c) = decideRequestPayout h state c"
| "decidePayout h state (RecordPayoutProviderReferences transfer payout status recordedAt) =
     decideRecordPayoutProviderReferences h state transfer payout status recordedAt"
| "decidePayout h state (MarkPayoutInTransit transfer payout status sentAt) =
     decideMarkPayoutInTransit h state transfer payout status sentAt"
| "decidePayout h state (CompletePayout csatOutcomeFact status completedAt) =
     decideCompletePayout h state csatOutcomeFact status completedAt"
| "decidePayout h state (FailPayout failureReason status code failureMessage failedAt) =
     decideFailPayout h state failureReason status code failureMessage failedAt"


section \<open>The evolver\<close>

text \<open>\<open>left ?? right\<close>\<close>

fun or_else :: "'a option \<Rightarrow> 'a option \<Rightarrow> 'a option" where
  "or_else (Some x) r = Some x"
| "or_else None r = r"

fun evolvePayoutState :: "PayoutState \<Rightarrow> PayoutEvent \<Rightarrow> PayoutState" where
  "evolvePayoutState state (PayoutRequestedEvent d) =
     \<lparr>po_payoutId = Some (pq_payoutId d), po_accountId = Some (pq_accountId d),
      po_requestedAmount = or_else (pq_requestedAmount d) (Some (pq_amount d)),
      po_feeAmount = or_else (pq_feeAmount d) (Some ''0.00''),
      po_netAmount = or_else (pq_netAmount d) (Some (pq_amount d)),
      po_currencyCode = Some (pq_currencyCode d),
      po_destinationReference = pq_destinationReference d, po_note = pq_note d,
      po_status = Some PayoutRequestedSt, po_providerTransferReference = None,
      po_providerPayoutReference = None, po_providerStatus = None, po_providerFailureCode = None,
      po_providerFailureMessage = None, po_notificationEmail = pq_notificationEmail d,
      po_requestedAt = Some (pq_requestedAt d), po_sentAt = None, po_completedAt = None,
      po_failedAt = None, po_failureReason = None\<rparr>"
| "evolvePayoutState state (PayoutProviderReferencesRecordedEvent payoutId transfer payout status recordedAt) =
     state\<lparr>po_providerTransferReference := or_else transfer (po_providerTransferReference state),
           po_providerPayoutReference := or_else payout (po_providerPayoutReference state),
           po_providerStatus := or_else status (po_providerStatus state)\<rparr>"
| "evolvePayoutState state (PayoutInTransitEvent d) =
     state\<lparr>po_status := Some PayoutInTransitSt,
           po_providerTransferReference :=
             or_else (pt_providerTransferReference d) (po_providerTransferReference state),
           po_providerPayoutReference :=
             or_else (pt_providerPayoutReference d) (po_providerPayoutReference state),
           po_providerStatus := or_else (pt_providerStatus d) (po_providerStatus state),
           po_providerFailureCode := None, po_providerFailureMessage := None,
           po_sentAt := Some (pt_sentAt d)\<rparr>"
| "evolvePayoutState state (PayoutCompletedEvent d) =
     state\<lparr>po_status := Some PayoutCompletedSt,
           po_providerStatus := or_else (pc_providerStatus d) (po_providerStatus state),
           po_providerFailureCode := None, po_providerFailureMessage := None,
           po_completedAt := Some (pc_completedAt d), po_failedAt := None, po_failureReason := None\<rparr>"
| "evolvePayoutState state (PayoutFailedEvent d) =
     state\<lparr>po_status := Some PayoutFailedSt,
           po_providerStatus := or_else (pf_providerStatus d) (po_providerStatus state),
           po_providerFailureCode := pf_providerFailureCode d,
           po_providerFailureMessage := pf_providerFailureMessage d,
           po_failedAt := Some (pf_failedAt d), po_failureReason := pf_failureReason d\<rparr>"

definition evolvePayout :: "PayoutState \<Rightarrow> PayoutEvent \<Rightarrow> PayoutState res" where
  "evolvePayout state event = Inr (evolvePayoutState state event)"


section \<open>The payouts of a month\<close>

record PayoutMonthState =
  pm_initialized :: bool
  pm_activePayoutIds :: "string list"

definition initialPayoutMonthState :: PayoutMonthState where
  "initialPayoutMonthState = \<lparr>pm_initialized = False, pm_activePayoutIds = []\<rparr>"

datatype PayoutMonthEvent =
    MonthBaselineRecorded (mb_accountId: string) (mb_activePayoutIds: "string list") (mb_recordedAt: string)
  | MonthRequestCounted (mc_accountId: string) (mc_payoutId: string) (mc_requestedAt: string)
  | MonthRequestReleased (mr_accountId: string) (mr_payoutId: string) (mr_failedAt: string)

fun evolvePayoutMonth :: "PayoutMonthState \<Rightarrow> PayoutMonthEvent \<Rightarrow> PayoutMonthState" where
  "evolvePayoutMonth state (MonthBaselineRecorded accountId activePayoutIds recordedAt) =
     (if pm_initialized state then state
      else state\<lparr>pm_initialized := True, pm_activePayoutIds := js_unique activePayoutIds\<rparr>)"
| "evolvePayoutMonth state (MonthRequestCounted accountId payoutId requestedAt) =
     (if payoutId \<in> set (pm_activePayoutIds state) then state
      else state\<lparr>pm_activePayoutIds := pm_activePayoutIds state @ [payoutId]\<rparr>)"
| "evolvePayoutMonth state (MonthRequestReleased accountId payoutId failedAt) =
     state\<lparr>pm_activePayoutIds := filter (\<lambda>i. i \<noteq> payoutId) (pm_activePayoutIds state)\<rparr>"

definition payoutMonthHasActivePayout :: "PayoutMonthState \<Rightarrow> bool" where
  "payoutMonthHasActivePayout state \<longleftrightarrow> length (pm_activePayoutIds state) > 0"

record PayoutMonthInput =
  mi_accountId :: string
  mi_payoutId :: string
  mi_at :: string
  mi_baselineActivePayoutIds :: "string list"

text \<open>The baseline event that both planners begin with on a month that has none.\<close>

definition planMonthBaseline ::
    "host \<Rightarrow> PayoutMonthState \<Rightarrow> PayoutMonthInput \<Rightarrow> PayoutMonthEvent list res" where
  "planMonthBaseline h state input =
     (if pm_initialized state then Inr []
      else bindE (ensureIsoTimestamp h (mi_at input)
                    ''Payout month baseline must include a timestamp.'') (\<lambda>recordedAt.
        Inr [MonthBaselineRecorded (mi_accountId input)
               (js_unique (mi_baselineActivePayoutIds input)) recordedAt]))"

definition planPayoutMonthRequest ::
    "host \<Rightarrow> PayoutMonthState \<Rightarrow> PayoutMonthInput \<Rightarrow> (bool \<times> PayoutMonthEvent list) res" where
  "planPayoutMonthRequest h state input =
     bindE (planMonthBaseline h state input) (\<lambda>baseline.
     let effectiveState = foldl evolvePayoutMonth state baseline;
         isFirstPayoutOfMonth = (\<not> payoutMonthHasActivePayout effectiveState)
     in if mi_payoutId input \<in> set (pm_activePayoutIds effectiveState)
        then Inr (isFirstPayoutOfMonth, baseline)
        else bindE (ensureIsoTimestamp h (mi_at input)
                      ''Payout month request must include a timestamp.'') (\<lambda>requestedAt.
          Inr (isFirstPayoutOfMonth,
               baseline @ [MonthRequestCounted (mi_accountId input) (mi_payoutId input) requestedAt])))"

definition planPayoutMonthFailure ::
    "host \<Rightarrow> PayoutMonthState \<Rightarrow> PayoutMonthInput \<Rightarrow> PayoutMonthEvent list res" where
  "planPayoutMonthFailure h state input =
     bindE (planMonthBaseline h state input) (\<lambda>baseline.
     let effectiveState = foldl evolvePayoutMonth state baseline
     in if mi_payoutId input \<in> set (pm_activePayoutIds effectiveState)
        then bindE (ensureIsoTimestamp h (mi_at input)
                      ''Payout month failure must include a timestamp.'') (\<lambda>failedAt.
          Inr (baseline @ [MonthRequestReleased (mi_accountId input) (mi_payoutId input) failedAt]))
        else Inr baseline)"


section \<open>The month of an instant\<close>

definition payoutMonthStreamId :: "host \<Rightarrow> string \<Rightarrow> string \<Rightarrow> string res" where
  "payoutMonthStreamId h accountId occurredAt =
     bindE (ensureIsoTimestamp h occurredAt ''Payout month selection must include a timestamp.'') (\<lambda>timestamp.
     bindE (toISOString (Date_parse h timestamp)) (\<lambda>utcTimestamp.
       Inr (''settlement.payout-month-'' @ accountId @ ''-'' @ take 7 utcTimestamp)))"

definition payoutUtcMonthWindow :: "host \<Rightarrow> string \<Rightarrow> (string \<times> string) res" where
  "payoutUtcMonthWindow h occurredAt =
     bindE (ensureIsoTimestamp h occurredAt ''Payout month selection must include a timestamp.'') (\<lambda>timestamp.
       case Date_parse h timestamp of
         None \<Rightarrow> Inl (RangeError ''Invalid time value'')
       | Some instant \<Rightarrow>
           let year = utc_year instant; monthIndex = utc_month_index instant in
           bindE (toISOString (date_utc_month year monthIndex)) (\<lambda>startsAt.
           bindE (toISOString (date_utc_month year (monthIndex + 1))) (\<lambda>endsAt.
             Inr (startsAt, endsAt))))"

end
