(* ===== verification/CalendarFacts.thy ===== *)
theory CalendarFacts
  imports JsTime
begin

text \<open>
  The calendar of \<open>JsTime\<close> is the proleptic Gregorian one: every day lies in exactly one year and
  month, months are the intervals between \<open>month_start\<close>s, and a printed instant begins with its
  year and month.
\<close>

section \<open>Years\<close>

lemma div_bounds:
  fixes a :: int
  shows "4 * (a div 4) \<le> a" and "a \<le> 4 * (a div 4) + 3"
    and "100 * (a div 100) \<le> a" and "a \<le> 100 * (a div 100) + 99"
    and "400 * (a div 400) \<le> a" and "a \<le> 400 * (a div 400) + 399"
    and "146097 * (a div 146097) \<le> a" and "a \<le> 146097 * (a div 146097) + 146096"
  by auto

lemma day_from_year_bounds:
  "400 * day_from_year y \<le> 146097 * (y - 1970) + 589"
  "146097 * (y - 1970) - 506 \<le> 400 * day_from_year y"
  using div_bounds(1,2) [of "y - 1969"] div_bounds(3,4) [of "y - 1901"] div_bounds(5,6) [of "y - 1601"]
  by (auto simp: day_from_year_def)

lemma year_of_day_range:
  "day_from_year (year_of_day d) \<le> d \<and> d < day_from_year (year_of_day d + 1)"
proof -
  define y where "y = 1970 + (400 * d) div 146097"
  have k: "146097 * (y - 1970) \<le> 400 * d \<and> 400 * d \<le> 146097 * (y - 1970) + 146096"
    using div_bounds(7,8) [of "400 * d"] by (simp add: y_def)
  have unfold: "year_of_day d =
      (if d < day_from_year y then y - 1 else if day_from_year (y + 1) \<le> d then y + 1 else y)"
    by (simp add: year_of_day_def y_def Let_def)
  consider "d < day_from_year y" | "\<not> d < day_from_year y" "day_from_year (y + 1) \<le> d"
    | "\<not> d < day_from_year y" "\<not> day_from_year (y + 1) \<le> d" by blast
  then show ?thesis
  proof cases
    case 1
    then have "year_of_day d = y - 1" by (simp add: unfold)
    with 1 day_from_year_bounds [of "y - 1"] k show ?thesis by simp
  next
    case 2
    then have "year_of_day d = y + 1" by (simp add: unfold)
    with 2 day_from_year_bounds [of "y + 1 + 1"] k show ?thesis by simp
  qed (simp add: unfold)
qed

definition year_length :: "int \<Rightarrow> int" where
  "year_length y = (if is_leap y then 366 else 365)"

lemma div_step:
  fixes a n :: int
  assumes "0 < n"
  shows "(a + 1) div n = a div n + (if (a + 1) mod n = 0 then 1 else 0)"
proof -
  have a: "a + 1 = n * (a div n) + (a mod n + 1)" and r: "0 \<le> a mod n" "a mod n < n"
    using assms by simp_all
  show ?thesis
  proof (cases "a mod n + 1 = n")
    case True
    moreover have "n * (a div n + 1) = n * (a div n) + n" by (simp add: algebra_simps)
    ultimately have "a + 1 = n * (a div n + 1) + 0" using a by linarith
    then show ?thesis
      using assms int_div_pos_eq [of "a + 1" n "a div n + 1" 0] int_mod_pos_eq [of "a + 1" n "a div n + 1" 0] by simp
  next
    case False
    then have "a mod n + 1 < n" using r by linarith
    then show ?thesis
      using a r int_div_pos_eq [of "a + 1" n "a div n" "a mod n + 1"]
        int_mod_pos_eq [of "a + 1" n "a div n" "a mod n + 1"] by simp
  qed
qed

lemma mod_shift: "(y - 1968) mod 4 = y mod (4::int)" "(y - 1900) mod 100 = y mod (100::int)"
  "(y - 1600) mod 400 = y mod (400::int)"
  using mod_mult_self1 [of y "- 492" 4] mod_mult_self1 [of y "- 19" 100] mod_mult_self1 [of y "- 4" 400]
  by simp_all

lemma mod_chain: "y mod 400 = (0::int) \<Longrightarrow> y mod 100 = 0" "y mod 100 = (0::int) \<Longrightarrow> y mod 4 = 0"
  using dvd_trans [of "100::int" 400 y] dvd_trans [of "4::int" 100 y] by (simp_all add: dvd_eq_mod_eq_0)

lemma leap_count:
  "(r \<longrightarrow> q) \<Longrightarrow> (q \<longrightarrow> p) \<Longrightarrow>
   (if p \<and> (\<not> q \<or> r) then 366 else 365) =
   (365 :: int) + (if p then 1 else 0) - (if q then 1 else 0) + (if r then 1 else 0)"
  by (cases p; cases q; cases r) simp_all

lemma day_from_next_year: "day_from_year (y + 1) = day_from_year y + year_length y"
proof -
  have a: "(y + 1 - 1969) div 4 = (y - 1969) div 4 + (if y mod 4 = 0 then 1 else 0)"
    using div_step [of 4 "y - 1969"] mod_shift(1) [of y] by simp
  have b: "(y + 1 - 1901) div 100 = (y - 1901) div 100 + (if y mod 100 = 0 then 1 else 0)"
    using div_step [of 100 "y - 1901"] mod_shift(2) [of y] by simp
  have c: "(y + 1 - 1601) div 400 = (y - 1601) div 400 + (if y mod 400 = 0 then 1 else 0)"
    using div_step [of 400 "y - 1601"] mod_shift(3) [of y] by simp
  have l: "year_length y =
      365 + (if y mod 4 = 0 then 1 else 0) - (if y mod 100 = 0 then 1 else 0) + (if y mod 400 = 0 then 1 else 0)"
    unfolding year_length_def is_leap_def using mod_chain [of y] by (intro leap_count) blast+
  define p q r :: int where "p = (if y mod 4 = 0 then 1 else 0)"
    and "q = (if y mod 100 = 0 then 1 else 0)" and "r = (if y mod 400 = 0 then 1 else 0)"
  note folds = p_def [symmetric] q_def [symmetric] r_def [symmetric]
  from l show ?thesis
    unfolding day_from_year_def a b c folds by (simp add: algebra_simps)
qed

lemma day_from_year_mono: "y \<le> z \<Longrightarrow> day_from_year y \<le> day_from_year z"
proof (induction "nat (z - y)" arbitrary: z)
  case (Suc n)
  then have "day_from_year y \<le> day_from_year (z - 1)" by auto
  with day_from_next_year [of "z - 1"] show ?case by (simp add: year_length_def split: if_splits)
qed simp

lemma year_of_day_eq:
  assumes "day_from_year y \<le> d" and "d < day_from_year (y + 1)"
  shows "year_of_day d = y"
proof (rule ccontr)
  assume "year_of_day d \<noteq> y"
  then consider "year_of_day d + 1 \<le> y" | "y + 1 \<le> year_of_day d" by linarith
  then show False
    using day_from_year_mono year_of_day_range [of d] assms by cases fastforce+
qed


section \<open>Months\<close>

lemma sorted_filter_le:
  fixes xs :: "int list"
  assumes "sorted_wrt (<) xs" and "xs \<noteq> []" and "hd xs \<le> r"
  defines "m \<equiv> length (filter (\<lambda>x. x \<le> r) xs)"
  shows "1 \<le> m \<and> m \<le> length xs \<and> xs ! (m - 1) \<le> r \<and> (m < length xs \<longrightarrow> r < xs ! m)"
  using assms(1-3) unfolding m_def
proof (induction xs)
  case (Cons x xs)
  show ?case
  proof (cases "xs \<noteq> [] \<and> hd xs \<le> r")
    case True
    with Cons show ?thesis by (auto simp: nth_Cons split: nat.splits)
  next
    case False
    have "filter (\<lambda>x. x \<le> r) xs = []"
    proof (cases xs)
      case (Cons y ys)
      with False have "r < y" by simp
      with Cons Cons.prems(1) show ?thesis by (auto simp: filter_empty_conv)
    qed simp
    with False Cons.prems show ?thesis by (cases xs) auto
  qed
qed simp

definition month_end :: "int \<Rightarrow> nat \<Rightarrow> int" where
  "month_end y m = (if m < 12 then month_offsets (is_leap y) ! m else year_length y)"

lemma month_offsets_sorted [simp]: "sorted_wrt (<) (month_offsets l)" "length (month_offsets l) = 12"
  "month_offsets l \<noteq> []" "hd (month_offsets l) = 0" "month_offsets l ! 0 = 0"
  by (simp_all add: month_offsets_def)

lemma month_offset_mono: "i \<le> j \<Longrightarrow> j < 12 \<Longrightarrow> month_offsets l ! i \<le> month_offsets l ! j"
  using sorted_wrt_nth_less [OF month_offsets_sorted(1) [of l], of i j] by (cases "i = j") auto

lemma month_offset_bounds: "i < 12 \<Longrightarrow> 0 \<le> month_offsets l ! i \<and> month_offsets l ! i \<le> 335"
  using month_offset_mono [of 0 i l] month_offset_mono [of i 11 l] by (auto simp: month_offsets_def)

text \<open>The day number of the first of a month.\<close>

abbreviation first_of :: "int \<Rightarrow> nat \<Rightarrow> int" where
  "first_of y m \<equiv> day_from_year y + month_offsets (is_leap y) ! (m - 1)"

lemma month_of_day_alt:
  "month_of_day d =
   length (filter (\<lambda>off. off \<le> d - day_from_year (year_of_day d)) (month_offsets (is_leap (year_of_day d))))"
  by (simp add: month_of_day_def Let_def)

lemma month_of_day_range:
  fixes d :: int
  defines "y \<equiv> year_of_day d" and "m \<equiv> month_of_day d"
  shows "1 \<le> m \<and> m \<le> 12 \<and> first_of y m \<le> d \<and> d < day_from_year y + month_end y m"
proof -
  have r: "day_from_year y \<le> d" "d < day_from_year y + year_length y"
    using year_of_day_range [of d] by (simp_all add: y_def day_from_next_year)
  then have "hd (month_offsets (is_leap y)) \<le> d - day_from_year y" by simp
  from sorted_filter_le [OF month_offsets_sorted(1,3) this] r show ?thesis
    unfolding m_def y_def month_of_day_alt [symmetric] month_end_def by auto
qed

lemma month_of_day_eq:
  assumes "year_of_day d = y" and "1 \<le> m" and "m \<le> 12"
    and "first_of y m \<le> d" and "d < day_from_year y + month_end y m"
  shows "month_of_day d = m"
proof -
  let ?o = "month_offsets (is_leap y)" and ?n = "month_of_day d"
  note n = month_of_day_range [of d, unfolded assms(1)]
  show ?thesis
  proof (rule ccontr)
    assume "?n \<noteq> m"
    then consider "?n < m" | "m < ?n" by linarith
    then show False
    proof cases
      case 1
      then have "month_end y ?n \<le> ?o ! (m - 1)"
        using assms(3) month_offset_mono [of ?n "m - 1" "is_leap y"] by (simp add: month_end_def)
      with n assms(4) show False by linarith
    next
      case 2
      then have "month_end y m \<le> ?o ! (?n - 1)"
        using n month_offset_mono [of m "?n - 1" "is_leap y"] by (auto simp: month_end_def)
      with n assms(5) show False by linarith
    qed
  qed
qed

text \<open>The first day after a month is the first of the next month.\<close>

lemma month_end_next:
  "1 \<le> m \<Longrightarrow> m < 12 \<Longrightarrow> day_from_year y + month_end y m = first_of y (m + 1)"
  "day_from_year y + month_end y 12 = first_of (y + 1) 1"
  by (simp_all add: month_end_def day_from_next_year)

lemma month_end_le_year: "month_end y m \<le> year_length y"
  using month_offset_bounds [of m "is_leap y"] by (auto simp: month_end_def year_length_def)

text \<open>The days of a month are exactly those between its first and the first of the next month.\<close>

lemma days_of_month:
  assumes "1 \<le> m" and "m \<le> 12"
  shows "first_of y m \<le> d \<and> d < day_from_year y + month_end y m \<longleftrightarrow>
         year_of_day d = y \<and> month_of_day d = m"
proof
  assume d: "first_of y m \<le> d \<and> d < day_from_year y + month_end y m"
  have "0 \<le> month_offsets (is_leap y) ! (m - 1)"
    using assms month_offset_bounds [of "m - 1" "is_leap y"] by simp
  with d month_end_le_year [of y m] have y: "year_of_day d = y"
    by (intro year_of_day_eq) (auto simp: day_from_next_year)
  with d assms show "year_of_day d = y \<and> month_of_day d = m" by (simp add: month_of_day_eq)
qed (use month_of_day_range [of d] in auto)


section \<open>Printed months\<close>

lemma length_pad_num: "0 \<le> k \<Longrightarrow> k < 10 ^ n \<Longrightarrow> 0 < n \<Longrightarrow> length (pad_num n k) = n"
proof -
  assume a: "0 \<le> k" "k < 10 ^ n" "0 < n"
  have "length (show_nat j) \<le> n" if "j < 10 ^ n" "0 < n" for j n :: nat
    using that
  proof (induction j arbitrary: n rule: show_nat.induct)
    case (1 j)
    show ?case
    proof (cases "j < 10")
      case True
      with 1 show ?thesis by (subst show_nat.simps) auto
    next
      case False
      then obtain n' where n: "n = Suc n'" "0 < n'"
        using "1.prems" False by (cases n; cases "n = 1") auto
      have "j div 10 < 10 ^ n'" using "1.prems" n by (simp add: less_mult_imp_div_less)
      from "1.IH" [OF False this n(2)] False n show ?thesis by (subst show_nat.simps) simp
    qed
  qed
  from this [of "nat k" n] a have "length (show_nat (nat k)) \<le> n"
    by (metis nat_less_iff of_nat_numeral of_nat_power)
  then show ?thesis by (simp add: pad_num_def js_padStart_def)
qed

lemma pad_num_inj: "0 \<le> a \<Longrightarrow> 0 \<le> b \<Longrightarrow> pad_num n a = pad_num n b \<Longrightarrow> a = b"
  unfolding pad_num_def by (metis digits_val_padStart digits_val_show nat_eq_iff2)

lemma take_iso_string:
  assumes "0 \<le> utc_year t" and "utc_year t \<le> 9999"
  shows "take 7 (iso_string t) = pad_num 4 (utc_year t) @ ''-'' @ pad_num 2 (utc_month_index t + 1)"
proof -
  let ?d = "t div ms_per_day"
  have "length (pad_num 4 (utc_year t)) = 4" "length (pad_num 2 (utc_month_index t + 1)) = 2"
    using assms month_of_day_range [of ?d] by (auto intro!: length_pad_num simp: utc_month_index_def)
  then show ?thesis
    using assms by (simp add: iso_string_def Let_def iso_year_def utc_year_def utc_month_index_def)
qed

lemma take_iso_string_eq_iff:
  assumes "0 \<le> utc_year s" "utc_year s \<le> 9999" "0 \<le> utc_year t" "utc_year t \<le> 9999"
  shows "take 7 (iso_string s) = take 7 (iso_string t) \<longleftrightarrow>
         utc_year s = utc_year t \<and> utc_month_index s = utc_month_index t"
proof -
  have m: "0 \<le> utc_month_index t + 1" for t by (simp add: utc_month_index_def)
  have "length (pad_num 4 (utc_year s)) = length (pad_num 4 (utc_year t))"
    using assms by (simp add: length_pad_num)
  then show ?thesis
    using assms by (auto simp: take_iso_string dest: pad_num_inj dest!: pad_num_inj [OF m m])
qed

end
