(* ===== verification/PayoutFacts.thy ===== *)
theory PayoutFacts
  imports Payout CalendarFacts
begin

text \<open>
  What holds of every payout and of every month of payouts: the amounts of a payout add up and never
  change, its life cycle, the set of active payouts that a month ledger stands for, and the months
  that instants fall into.
\<close>

section \<open>The invariant of a payout\<close>

definition amounts_ok :: "string \<Rightarrow> string \<Rightarrow> string \<Rightarrow> bool" where
  "amounts_ok requested fee net \<longleftrightarrow>
     canonical requested \<and> canonical fee \<and> canonical net \<and> 0 \<le> centsOf fee \<and> 0 < centsOf net \<and>
     centsOf net + centsOf fee = centsOf requested"

fun payout_times :: "PayoutState \<Rightarrow> PayoutStatus \<Rightarrow> bool" where
  "payout_times s PayoutRequestedSt = (po_sentAt s = None \<and> po_completedAt s = None \<and> po_failedAt s = None)"
| "payout_times s PayoutInTransitSt = (po_sentAt s \<noteq> None \<and> po_completedAt s = None \<and> po_failedAt s = None)"
| "payout_times s PayoutCompletedSt = (po_completedAt s \<noteq> None \<and> po_failedAt s = None)"
| "payout_times s PayoutFailedSt = (po_failedAt s \<noteq> None \<and> po_completedAt s = None)"

definition payout_wf :: "PayoutState \<Rightarrow> bool" where
  "payout_wf s \<longleftrightarrow>
     po_accountId s \<noteq> None \<and> po_currencyCode s = Some Usd \<and>
     (\<exists>r f n. po_requestedAmount s = Some r \<and> po_feeAmount s = Some f \<and> po_netAmount s = Some n \<and>
              amounts_ok r f n) \<and>
     (\<exists>st. po_status s = Some st \<and> payout_times s st)"

definition payout_inv :: "PayoutState \<Rightarrow> bool" where
  "payout_inv s \<longleftrightarrow> s = initialPayoutState \<or> po_payoutId s \<noteq> None \<and> payout_wf s"

lemma initial_payout [simp]: "po_payoutId initialPayoutState = None" "po_status initialPayoutState = None"
  by (simp_all add: initialPayoutState_def)

lemma requirePresent_Inr [res_simps]: "requirePresent v m = Inr x \<longleftrightarrow> v = Some x"
  by (simp add: requirePresent_def split: option.splits)

lemma evolvePayout_Inr [res_simps]: "evolvePayout s e = Inr t \<longleftrightarrow> t = evolvePayoutState s e"
  by (auto simp: evolvePayout_def)

lemma or_else_None [simp]: "or_else l None = l"
  by (cases l) auto

lemmas payout_decide_defs = decideRecordPayoutProviderReferences_def decideMarkPayoutInTransit_def
  decideCompletePayout_def decideFailPayout_def

lemma requested_amounts:
  assumes "normalizeMoneyAmount a False x = Inr r" and "normalizeMoneyAmount b True y = Inr f"
    and "normalizeMoneyAmount c False z = Inr n" and "addMoney n f = Inr t" and "compareMoney t r = Inr 0"
  shows "amounts_ok r f n"
  using assms(4,5) assms(1-3) [THEN normalizeMoneyAmount_canonical]
  by (auto simp: amounts_ok_def canon_simps split: if_splits)

lemma decided_request:
  assumes "decideRequestPayout h s c = Inr es"
  shows "\<exists>d r f n. es = [PayoutRequestedEvent d] \<and> po_payoutId s = None \<and>
               pq_requestedAmount d = Some r \<and> pq_feeAmount d = Some f \<and> pq_netAmount d = Some n \<and>
               amounts_ok r f n \<and> payout_wf (evolvePayoutState s (PayoutRequestedEvent d))"
  using assms unfolding decideRequestPayout_def
  by (auto simp: res_simps Option.is_none_def payout_wf_def dest: requested_amounts dest!: normalizeCurrencyCode_Inr)

fun event_amounts :: "PayoutEvent \<Rightarrow> (string option \<times> string option \<times> string option) option" where
  "event_amounts (PayoutRequestedEvent d) = Some (pq_requestedAmount d, pq_feeAmount d, pq_netAmount d)"
| "event_amounts (PayoutProviderReferencesRecordedEvent i a b c t) = None"
| "event_amounts (PayoutInTransitEvent d) = Some (Some (pt_requestedAmount d), Some (pt_feeAmount d), Some (pt_netAmount d))"
| "event_amounts (PayoutCompletedEvent d) = Some (Some (pc_requestedAmount d), Some (pc_feeAmount d), Some (pc_netAmount d))"
| "event_amounts (PayoutFailedEvent d) = Some (Some (pf_requestedAmount d), Some (pf_feeAmount d), Some (pf_netAmount d))"

definition state_amounts :: "PayoutState \<Rightarrow> string option \<times> string option \<times> string option" where
  "state_amounts s = (po_requestedAmount s, po_feeAmount s, po_netAmount s)"

lemma decided_payout_cases:
  assumes "decidePayout h s c = Inr es"
  obtains (noop) "es = []"
    | (requested) d r f n where "es = [PayoutRequestedEvent d]" "po_payoutId s = None"
        "pq_requestedAmount d = Some r" "pq_feeAmount d = Some f" "pq_netAmount d = Some n"
        "amounts_ok r f n" "payout_wf (evolvePayoutState s (PayoutRequestedEvent d))"
    | (references) i a b x t where "es = [PayoutProviderReferencesRecordedEvent i a b x t]" "po_payoutId s = Some i"
        "po_status s = Some PayoutRequestedSt \<or> po_status s = Some PayoutInTransitSt"
    | (transit) d where "es = [PayoutInTransitEvent d]" "po_payoutId s = Some (pt_payoutId d)"
        "po_status s = Some PayoutRequestedSt" "event_amounts (PayoutInTransitEvent d) = Some (state_amounts s)"
    | (completed) d where "es = [PayoutCompletedEvent d]" "po_payoutId s = Some (pc_payoutId d)"
        "po_status s = Some PayoutRequestedSt \<or> po_status s = Some PayoutInTransitSt"
        "event_amounts (PayoutCompletedEvent d) = Some (state_amounts s)"
    | (failed) d where "es = [PayoutFailedEvent d]" "po_payoutId s = Some (pf_payoutId d)"
        "po_status s \<noteq> Some PayoutCompletedSt" "po_status s \<noteq> Some PayoutFailedSt"
        "event_amounts (PayoutFailedEvent d) = Some (state_amounts s)"
proof (cases c)
  case (RequestPayout r)
  with assms show ?thesis by (auto dest!: decided_request intro: requested)
qed (use assms in \<open>auto simp: payout_decide_defs res_simps Let_def state_amounts_def split: if_splits
      intro: noop references transit completed failed\<close>)


section \<open>The life cycle\<close>

datatype payout_phase = NoPayout | Requested | Sent | Completed | Failed

inductive payout_step :: "payout_phase \<Rightarrow> PayoutEvent \<Rightarrow> payout_phase \<Rightarrow> bool" where
  step_request: "payout_step NoPayout (PayoutRequestedEvent d) Requested"
| step_references: "p = Requested \<or> p = Sent \<Longrightarrow> payout_step p (PayoutProviderReferencesRecordedEvent i a b x t) p"
| step_send: "payout_step Requested (PayoutInTransitEvent d) Sent"
| step_complete: "p = Requested \<or> p = Sent \<Longrightarrow> payout_step p (PayoutCompletedEvent d) Completed"
| step_fail: "p = Requested \<or> p = Sent \<Longrightarrow> payout_step p (PayoutFailedEvent d) Failed"

inductive_cases payout_stepE: "payout_step p e q"

inductive_simps payout_step_simps [simp]:
  "payout_step p (PayoutRequestedEvent d) q"
  "payout_step p (PayoutProviderReferencesRecordedEvent i a b x t) q"
  "payout_step p (PayoutInTransitEvent d) q"
  "payout_step p (PayoutCompletedEvent d) q"
  "payout_step p (PayoutFailedEvent d) q"

fun closes_payout :: "PayoutEvent \<Rightarrow> bool" where
  "closes_payout (PayoutCompletedEvent d) = True"
| "closes_payout (PayoutFailedEvent d) = True"
| "closes_payout _ = False"

fun phase_of_status :: "PayoutStatus option \<Rightarrow> payout_phase" where
  "phase_of_status None = NoPayout"
| "phase_of_status (Some PayoutRequestedSt) = Requested"
| "phase_of_status (Some PayoutInTransitSt) = Sent"
| "phase_of_status (Some PayoutCompletedSt) = Completed"
| "phase_of_status (Some PayoutFailedSt) = Failed"

abbreviation payout_phase_of :: "PayoutState \<Rightarrow> payout_phase" where
  "payout_phase_of s \<equiv> phase_of_status (po_status s)"

lemma payout_step_closes: "payout_step p e q \<Longrightarrow> closes_payout e \<longleftrightarrow> q = Completed \<or> q = Failed"
  by (auto elim!: payout_stepE)

lemma payout_step_target: "payout_step p e q \<Longrightarrow> q \<noteq> NoPayout"
  by (auto elim!: payout_stepE)

lemma payout_path_started: "event_path payout_step p es q \<Longrightarrow> es \<noteq> [] \<Longrightarrow> q \<noteq> NoPayout"
  by (cases es rule: rev_cases) (auto simp: event_path_snoc dest: payout_step_target)

lemma phase_of_status_iff [simp]:
  "phase_of_status st = Completed \<longleftrightarrow> st = Some PayoutCompletedSt"
  "phase_of_status st = Failed \<longleftrightarrow> st = Some PayoutFailedSt"
  "phase_of_status st = NoPayout \<longleftrightarrow> st = None"
  by (cases st rule: phase_of_status.cases; simp)+

lemma payout_status_cases:
  "payout_inv s \<Longrightarrow> po_payoutId s = Some i \<Longrightarrow> po_status s \<noteq> Some PayoutCompletedSt \<Longrightarrow>
   po_status s \<noteq> Some PayoutFailedSt \<Longrightarrow> po_status s = Some PayoutRequestedSt \<or> po_status s = Some PayoutInTransitSt"
  by (auto simp: payout_inv_def payout_wf_def intro: PayoutStatus.exhaust)

lemma payout_decided_step:
  assumes "payout_inv s" and "decidePayout h s c = Inr es" and "e \<in> set es"
  shows "es = [e] \<and> payout_inv (evolvePayoutState s e) \<and>
         payout_step (payout_phase_of s) e (payout_phase_of (evolvePayoutState s e)) \<and>
         (po_payoutId s \<noteq> None \<longrightarrow> state_amounts (evolvePayoutState s e) = state_amounts s) \<and>
         event_amounts e \<in> {None, Some (state_amounts (evolvePayoutState s e))}"
  using assms(2)
proof (cases rule: decided_payout_cases)
  case (requested d r f n)
  then have "s = initialPayoutState" using assms(1) by (simp add: payout_inv_def)
  with requested assms(3) show ?thesis by (auto simp: payout_inv_def state_amounts_def intro: step_request)
next
  case (references i a b x t)
  then have "payout_wf s" "po_payoutId s \<noteq> None" using assms(1) by (auto simp: payout_inv_def)
  with references assms(3) show ?thesis
    by (elim disjE) (simp_all add: payout_inv_def payout_wf_def state_amounts_def)
next
  case (transit d)
  then have "payout_wf s" "po_payoutId s \<noteq> None" using assms(1) by (auto simp: payout_inv_def)
  with transit assms(3) show ?thesis
    by (simp add: payout_inv_def payout_wf_def state_amounts_def)
next
  case (completed d)
  then have "payout_wf s" "po_payoutId s \<noteq> None" using assms(1) by (auto simp: payout_inv_def)
  with completed assms(3) show ?thesis
    by (elim disjE) (simp_all add: payout_inv_def payout_wf_def state_amounts_def)
next
  case (failed d)
  then have wf: "payout_wf s" "po_payoutId s \<noteq> None" using assms(1) by (auto simp: payout_inv_def)
  have "po_status s = Some PayoutRequestedSt \<or> po_status s = Some PayoutInTransitSt"
    using payout_status_cases [OF assms(1) failed(2-4)] .
  with wf failed(1,2,5) assms(3) show ?thesis
    by (elim disjE) (simp_all add: payout_inv_def payout_wf_def state_amounts_def)
qed (use assms(3) in simp)

lemma payout_decided_apply:
  assumes "payout_inv s" and "decidePayout h s c = Inr es"
  obtains "es = []" | e where "es = [e]" "applyEvents s evolvePayout es = Inr (evolvePayoutState s e)"
    "payout_inv (evolvePayoutState s e)"
    "payout_step (payout_phase_of s) e (payout_phase_of (evolvePayoutState s e))"
    "po_payoutId s \<noteq> None \<longrightarrow> state_amounts (evolvePayoutState s e) = state_amounts s"
    "event_amounts e \<in> {None, Some (state_amounts (evolvePayoutState s e))}"
proof (cases es)
  case (Cons e l)
  then have "e \<in> set es" by simp
  from payout_decided_step [OF assms this] that(2) [of e] show ?thesis
    by (simp add: applyEvents_Cons res_simps)
qed (rule that(1))

interpretation payout_life: closing_lifecycle initialPayoutState evolvePayout "decidePayout h" payout_inv
    payout_phase_of payout_step closes_payout "\<lambda>p. p = Completed \<or> p = Failed" for h
proof unfold_locales
  show "payout_inv initialPayoutState" by (simp add: payout_inv_def)
next
  fix s c es s'
  assume a: "payout_inv s" "decidePayout h s c = Inr es" "applyEvents s evolvePayout es = Inr s'"
  from a(1,2) show "payout_inv s'" by (cases rule: payout_decided_apply) (use a in auto)
next
  fix s c es s'
  assume a: "payout_inv s" "decidePayout h s c = Inr es" "applyEvents s evolvePayout es = Inr s'"
  from a(1,2) show "event_path payout_step (payout_phase_of s) es (payout_phase_of s')"
    by (cases rule: payout_decided_apply) (use a in auto)
qed (auto simp: payout_step_closes elim: payout_stepE)

interpretation payout: replayable_aggregate initialPayoutState evolvePayout "decidePayout h" payout_inv for h
proof unfold_locales
  fix s c es
  assume "payout_inv s" "decidePayout h s c = Inr es"
  then show "\<exists>s'. applyEvents s evolvePayout es = Inr s'" by (cases rule: payout_decided_apply) auto
qed

text \<open>Every event of a history carries the amounts of the state it loads to.\<close>

lemma payout_history_amounts:
  assumes "reachable_history initialPayoutState evolvePayout (decidePayout h) es"
    and "foldEvents initialPayoutState evolvePayout es = Inr s" and "e \<in> set es"
  shows "event_amounts e \<in> {None, Some (state_amounts s)}"
  using assms
proof (induction arbitrary: s rule: reachable_history.induct)
  case (append_decided hist t c new)
  have inv: "payout_inv t" using append_decided.hyps(1,2) by (rule payout_life.loaded_inv)
  have app: "applyEvents t evolvePayout new = Inr s"
    using append_decided.prems(1) append_decided.hyps(2) by (simp add: foldEvents_append)
  have keep: "hist \<noteq> [] \<Longrightarrow> po_payoutId t \<noteq> None"
    using payout_life.history_path [OF append_decided.hyps(1,2)] inv
    by (cases hist rule: rev_cases) (auto simp: payout_inv_def event_path_snoc elim!: payout_stepE)
  from inv append_decided.hyps(3) show ?case
  proof (cases rule: payout_decided_apply)
    case 1
    with append_decided.prems(2) append_decided.IH [OF append_decided.hyps(2)] app show ?thesis by simp
  next
    case (2 e')
    with app have s: "s = evolvePayoutState t e'" by simp
    show ?thesis
    proof (cases "e \<in> set hist")
      case True
      then have "hist \<noteq> []" by auto
      with 2(5) keep s append_decided.IH [OF append_decided.hyps(2) True] show ?thesis by simp
    qed (use append_decided.prems(2) 2 s in auto)
  qed
qed simp


section \<open>What closed payouts answer\<close>

lemma closed_payout_present:
  assumes "payout_inv s" and "po_status s \<noteq> None"
  obtains i a r f n where "po_payoutId s = Some i" "po_accountId s = Some a" "po_requestedAmount s = Some r"
    "po_feeAmount s = Some f" "po_netAmount s = Some n"
  using assms by (auto simp: payout_inv_def payout_wf_def)

lemma completed_answers:
  assumes "payout_inv s" and "po_status s = Some PayoutCompletedSt"
  shows "if \<exists>f st t. c = CompletePayout f st t then decidePayout h s c = Inr []
         else \<exists>m. decidePayout h s c = Inl (SettlementDomainError m)"
proof -
  from assms(2) have "po_status s \<noteq> None" by simp
  then obtain i a r f n where "po_payoutId s = Some i" "po_accountId s = Some a"
    "po_requestedAmount s = Some r" "po_feeAmount s = Some f" "po_netAmount s = Some n"
    using closed_payout_present [OF assms(1)] by metis
  then show ?thesis
    by (cases c) (simp_all add: payout_decide_defs decideRequestPayout_def requirePresent_def assms(2)
        Option.is_none_def)
qed

lemma failed_answers:
  assumes "payout_inv s" and "po_status s = Some PayoutFailedSt"
  shows "if \<exists>r st x m t. c = FailPayout r st x m t then decidePayout h s c = Inr []
         else \<exists>m. decidePayout h s c = Inl (SettlementDomainError m)"
proof -
  from assms(2) have "po_status s \<noteq> None" by simp
  then obtain i a r f n where "po_payoutId s = Some i" "po_accountId s = Some a"
    "po_requestedAmount s = Some r" "po_feeAmount s = Some f" "po_netAmount s = Some n"
    using closed_payout_present [OF assms(1)] by metis
  then show ?thesis
    by (cases c) (simp_all add: payout_decide_defs decideRequestPayout_def requirePresent_def assms(2)
        Option.is_none_def)
qed

end
