(* ===== verification/PayoutMonthFacts.thy ===== *)
theory PayoutMonthFacts
  imports PayoutFacts
begin

text \<open>
  The ledger of a month refines a set of active payouts that the first baseline starts, and the
  month streams and windows are those of the calendar.
\<close>

section \<open>The ledger as a set\<close>

text \<open>What the month ledger promises: a set of payouts, unknown until the first baseline; a request
  is the first of the month when the set is empty, and then belongs to it; a failure leaves it.\<close>

datatype MonthOp = MonthRequest PayoutMonthInput | MonthFailure PayoutMonthInput

definition known_set :: "string set option \<Rightarrow> PayoutMonthInput \<Rightarrow> string set" where
  "known_set m i = (case m of None \<Rightarrow> set (mi_baselineActivePayoutIds i) | Some S \<Rightarrow> S)"

fun specMonth :: "string set option \<Rightarrow> MonthOp list \<Rightarrow> bool list \<times> string set option" where
  "specMonth m [] = ([], m)"
| "specMonth m (MonthRequest i # ops) =
     (let S = known_set m i; (flags, m') = specMonth (Some (insert (mi_payoutId i) S)) ops
      in ((S = {}) # flags, m'))"
| "specMonth m (MonthFailure i # ops) = specMonth (Some (known_set m i - {mi_payoutId i})) ops"

text \<open>The planners as their callers use them: the planned events are appended to the month.\<close>

fun runMonth :: "host \<Rightarrow> PayoutMonthState \<Rightarrow> MonthOp list \<Rightarrow> (bool list \<times> PayoutMonthState) res" where
  "runMonth h s [] = Inr ([], s)"
| "runMonth h s (MonthRequest i # ops) =
     bindE (planPayoutMonthRequest h s i) (\<lambda>(first, events).
     bindE (runMonth h (foldl evolvePayoutMonth s events) ops) (\<lambda>(flags, t). Inr (first # flags, t)))"
| "runMonth h s (MonthFailure i # ops) =
     bindE (planPayoutMonthFailure h s i) (\<lambda>events.
       runMonth h (foldl evolvePayoutMonth s events) ops)"

definition month_wf :: "PayoutMonthState \<Rightarrow> bool" where
  "month_wf s \<longleftrightarrow> distinct (pm_activePayoutIds s) \<and> (\<not> pm_initialized s \<longrightarrow> pm_activePayoutIds s = [])"

definition month_abs :: "PayoutMonthState \<Rightarrow> string set option" where
  "month_abs s = (if pm_initialized s then Some (set (pm_activePayoutIds s)) else None)"

lemma month_initial [simp]: "month_wf initialPayoutMonthState" "month_abs initialPayoutMonthState = None"
  by (simp_all add: month_wf_def month_abs_def initialPayoutMonthState_def)

lemma baseline_effective:
  assumes "month_wf s" and "planMonthBaseline h s i = Inr base"
  defines "t \<equiv> foldl evolvePayoutMonth s base"
  shows "month_wf t \<and> pm_initialized t \<and> set (pm_activePayoutIds t) = known_set (month_abs s) i"
  using assms by (auto simp: planMonthBaseline_def res_simps month_wf_def month_abs_def known_set_def split: if_splits)

lemma request_simulates:
  assumes "month_wf s" and "planPayoutMonthRequest h s i = Inr (first, events)"
  shows "month_wf (foldl evolvePayoutMonth s events) \<and>
    first = (known_set (month_abs s) i = {}) \<and>
    month_abs (foldl evolvePayoutMonth s events) = Some (insert (mi_payoutId i) (known_set (month_abs s) i))"
proof -
  obtain base where base: "planMonthBaseline h s i = Inr base"
    using assms(2) by (auto simp: planPayoutMonthRequest_def res_simps)
  note eff = baseline_effective [OF assms(1) base]
  define t where "t = foldl evolvePayoutMonth s base"
  have "first = (pm_activePayoutIds t = []) \<and>
      (events = base \<and> mi_payoutId i \<in> set (pm_activePayoutIds t) \<or>
       (\<exists>x. events = base @ [MonthRequestCounted (mi_accountId i) (mi_payoutId i) x] \<and>
            mi_payoutId i \<notin> set (pm_activePayoutIds t)))"
    using assms(2) unfolding planPayoutMonthRequest_def base
    by (auto simp: res_simps Let_def payoutMonthHasActivePayout_def t_def split: if_splits)
  then have first: "first = (pm_activePayoutIds t = [])"
    and events: "events = base \<and> mi_payoutId i \<in> set (pm_activePayoutIds t) \<or>
       (\<exists>x. events = base @ [MonthRequestCounted (mi_accountId i) (mi_payoutId i) x] \<and>
            mi_payoutId i \<notin> set (pm_activePayoutIds t))" by (rule conjunct1, rule conjunct2)
  note eff = eff [folded t_def]
  from eff have set: "set (pm_activePayoutIds t) = known_set (month_abs s) i" by blast
  have "pm_activePayoutIds t = [] \<longleftrightarrow> known_set (month_abs s) i = {}" unfolding set [symmetric] by simp
  moreover from events have "month_wf (foldl evolvePayoutMonth s events) \<and>
      month_abs (foldl evolvePayoutMonth s events) = Some (insert (mi_payoutId i) (set (pm_activePayoutIds t)))"
  proof (elim disjE conjE exE)
    assume "events = base" "mi_payoutId i \<in> set (pm_activePayoutIds t)"
    with eff show ?thesis by (simp add: t_def [symmetric] month_abs_def insert_absorb)
  next
    fix x assume e: "events = base @ [MonthRequestCounted (mi_accountId i) (mi_payoutId i) x]"
      "mi_payoutId i \<notin> set (pm_activePayoutIds t)"
    then have "foldl evolvePayoutMonth s events = t\<lparr>pm_activePayoutIds := pm_activePayoutIds t @ [mi_payoutId i]\<rparr>"
      by (simp add: t_def [symmetric])
    with eff e(2) show ?thesis by (simp add: month_wf_def month_abs_def)
  qed
  ultimately show ?thesis unfolding set first by blast
qed

lemma failure_simulates:
  assumes "month_wf s" and "planPayoutMonthFailure h s i = Inr events"
  shows "month_wf (foldl evolvePayoutMonth s events) \<and>
    month_abs (foldl evolvePayoutMonth s events) = Some (known_set (month_abs s) i - {mi_payoutId i})"
proof -
  obtain base where base: "planMonthBaseline h s i = Inr base"
    using assms(2) by (auto simp: planPayoutMonthFailure_def res_simps)
  note eff = baseline_effective [OF assms(1) base]
  define t where "t = foldl evolvePayoutMonth s base"
  have "events = base \<and> mi_payoutId i \<notin> set (pm_activePayoutIds t) \<or>
      (\<exists>x. events = base @ [MonthRequestReleased (mi_accountId i) (mi_payoutId i) x])"
    using assms(2) unfolding planPayoutMonthFailure_def base
    by (auto simp: res_simps Let_def t_def split: if_splits)
  then show ?thesis
    using eff unfolding t_def [symmetric]
    by (elim conjE disjE exE) (auto simp: t_def [symmetric] month_wf_def month_abs_def)
qed

lemma runMonth_simulates:
  "month_wf s \<Longrightarrow> runMonth h s ops = Inr (flags, t) \<Longrightarrow>
   month_wf t \<and> specMonth (month_abs s) ops = (flags, month_abs t)"
proof (induction h s ops arbitrary: flags rule: runMonth.induct)
  case (2 h s i ops)
  then obtain first events rest where
    plan: "planPayoutMonthRequest h s i = Inr (first, events)" and flags: "flags = first # rest"
    and run: "runMonth h (foldl evolvePayoutMonth s events) ops = Inr (rest, t)"
    by (auto simp: res_simps)
  note sim = request_simulates [OF "2.prems"(1) plan]
  have "month_wf t \<and> specMonth (month_abs (foldl evolvePayoutMonth s events)) ops = (rest, month_abs t)"
    using "2.IH" [OF plan refl] sim run by blast
  with sim flags show ?case by (simp add: Let_def)
next
  case (3 h s i ops)
  then obtain events where plan: "planPayoutMonthFailure h s i = Inr events"
    and run: "runMonth h (foldl evolvePayoutMonth s events) ops = Inr (flags, t)"
    by (auto simp: res_simps)
  note sim = failure_simulates [OF "3.prems"(1) plan]
  have "month_wf t \<and> specMonth (month_abs (foldl evolvePayoutMonth s events)) ops = (flags, month_abs t)"
    using "3.IH" [OF plan] sim run by blast
  with sim show ?case by simp
qed simp


section \<open>Months of instants\<close>

lemma day_bounds: "100 \<le> y \<Longrightarrow> y \<le> 10000 \<Longrightarrow> \<bar>day_from_year y\<bar> \<le> 3000000"
  using day_from_year_bounds [of y] by (simp add: abs_le_iff)

lemma first_day_clip:
  assumes "100 \<le> y" and "y \<le> 10000" and "i < 12"
  shows "time_clip ((day_from_year y + month_offsets (is_leap y) ! i) * ms_per_day) =
         Some ((day_from_year y + month_offsets (is_leap y) ! i) * ms_per_day)"
  using day_bounds [OF assms(1,2)] month_offset_bounds [OF assms(3), of "is_leap y"]
  by (simp add: time_clip_def ms_per_day_def abs_if split: if_splits)

lemma date_utc_month_start:
  assumes "100 \<le> y" and "y \<le> 9999" and "1 \<le> m" and "m \<le> 12"
  shows "date_utc_month y (int m - 1) = Some (first_of y m * ms_per_day)"
    and "date_utc_month y (int m) = Some ((day_from_year y + month_end y m) * ms_per_day)"
proof -
  have "(int m - 1) div 12 = 0" "(int m - 1) mod 12 = int m - 1" "nat (int m - 1) = m - 1"
    using assms by simp_all
  then show "date_utc_month y (int m - 1) = Some (first_of y m * ms_per_day)"
    using assms first_day_clip [of y "m - 1"] by (simp add: date_utc_month_def Let_def day_number_def)
  show "date_utc_month y (int m) = Some ((day_from_year y + month_end y m) * ms_per_day)"
  proof (cases "m = 12")
    case True
    then show ?thesis
      using assms first_day_clip [of "y + 1" 0]
      by (simp add: date_utc_month_def Let_def day_number_def month_end_def day_from_next_year)
  next
    case False
    then have "int m div 12 = 0" "int m mod 12 = int m" "m < 12" using assms by simp_all
    then show ?thesis
      using assms first_day_clip [of y m] by (simp add: date_utc_month_def Let_def day_number_def month_end_def)
  qed
qed

lemma instant_interval: "a * ms_per_day \<le> z \<and> z < b * ms_per_day \<longleftrightarrow> a \<le> z div ms_per_day \<and> z div ms_per_day < b"
proof -
  have "ms_per_day * (z div ms_per_day) \<le> z" "z < ms_per_day * (z div ms_per_day) + ms_per_day"
    by (simp_all add: ms_per_day_def)
  then show ?thesis unfolding ms_per_day_def by auto
qed

lemma month_window:
  assumes "Date_parse h text = Some x" and "100 \<le> utc_year x" and "utc_year x \<le> 9999"
  shows "\<exists>a b. payoutUtcMonthWindow h text = Inr (iso_string a, iso_string b) \<and>
    (\<forall>z. a \<le> z \<and> z < b \<longleftrightarrow> utc_year z = utc_year x \<and> utc_month_index z = utc_month_index x)"
proof -
  let ?y = "utc_year x" and ?m = "month_of_day (x div ms_per_day)"
  have m: "1 \<le> ?m" "?m \<le> 12" using month_of_day_range by blast+
  let ?a = "first_of ?y ?m * ms_per_day" and ?b = "(day_from_year ?y + month_end ?y ?m) * ms_per_day"
  have "payoutUtcMonthWindow h text = Inr (iso_string ?a, iso_string ?b)"
    using assms date_utc_month_start [OF assms(2,3) m]
    by (simp add: payoutUtcMonthWindow_def ensureIsoTimestamp_def Let_def utc_month_index_def toISOString_def)
  moreover have "?a \<le> z \<and> z < ?b \<longleftrightarrow> ?y = utc_year z \<and> utc_month_index z = utc_month_index x" for z
    unfolding instant_interval days_of_month [OF m] by (auto simp: utc_year_def utc_month_index_def)
  ultimately show ?thesis by (metis (no_types, lifting))
qed

lemma month_stream:
  assumes "Date_parse h text = Some x"
  shows "payoutMonthStreamId h account text =
    Inr (''settlement.payout-month-'' @ account @ ''-'' @ take 7 (iso_string x))"
  using assms by (simp add: payoutMonthStreamId_def ensureIsoTimestamp_def toISOString_def)

end
