(* ===== verification/PayoutProps.thy ===== *)
theory PayoutProps
  imports PayoutMonthFacts
begin

text \<open>The properties of payouts and of the ledger of a month.\<close>

section \<open>Samples\<close>

definition payoutHost :: host where
  "payoutHost = \<lparr>host_dateParse = (\<lambda>_. None), host_sha256Hex = (\<lambda>_. [])\<rparr>"

definition requestSample :: PayoutCommand where
  "requestSample = RequestPayout
     \<lparr>rp_payoutId = ''pyt_1'', rp_accountId = ''acc_1'', rp_requestedAmount = ''100'',
      rp_feeAmount = ''0.25'', rp_netAmount = ''99.75'', rp_currencyCode = ''USD'',
      rp_destinationReference = None, rp_note = None, rp_notificationEmail = None,
      rp_requestedAt = ''2026-01-31''\<rparr>"

definition paidRun :: "PayoutCommand list" where
  "paidRun = [requestSample, RecordPayoutProviderReferences (Some ''tr_1'') None None ''2026-01-31'',
     MarkPayoutInTransit None (Some ''po_1'') (Some ''pending'') ''2026-02-01'',
     CompletePayout None (Some ''paid'') ''2026-02-03'']"

definition monthInput :: "string \<Rightarrow> PayoutMonthInput" where
  "monthInput i = \<lparr>mi_accountId = ''acc_1'', mi_payoutId = i, mi_at = ''2026-02-01'', mi_baselineActivePayoutIds = []\<rparr>"

definition monthOps :: "MonthOp list" where
  "monthOps = [MonthRequest (monthInput ''pyt_1''), MonthRequest (monthInput ''pyt_1''),
     MonthRequest (monthInput ''pyt_2''), MonthFailure (monthInput ''pyt_1''),
     MonthFailure (monthInput ''pyt_2''), MonthRequest (monthInput ''pyt_3'')]"


section \<open>Payouts\<close>

text \<open>
  C26. In every payout that has been requested the net amount and the fee, both canonical, add up to
  the requested amount, the net amount is positive and the fee is not negative; and every event of
  its history that carries amounts carries exactly these three.
\<close>

theorem payout_amounts_conserved:
  assumes "reachable_history initialPayoutState evolvePayout (decidePayout h) es" and "es \<noteq> []"
  shows "\<exists>s r f n. foldEvents initialPayoutState evolvePayout es = Inr s \<and>
    state_amounts s = (Some r, Some f, Some n) \<and> amounts_ok r f n \<and>
    (\<forall>e\<in>set es. event_amounts e \<in> {None, Some (state_amounts s)})"
proof -
  obtain s where s: "foldEvents initialPayoutState evolvePayout es = Inr s" "payout_inv s"
    using payout.history_loads [OF assms(1)] by blast
  have "payout_phase_of s \<noteq> NoPayout"
    by (rule payout_path_started [OF payout_life.history_path [OF assms(1) s(1)] assms(2)])
  then have "payout_wf s" using s(2) by (auto simp: payout_inv_def)
  with payout_history_amounts [OF assms(1) s(1)] s(1) show ?thesis
    by (auto simp: payout_wf_def state_amounts_def)
qed

theorem payout_amounts_conserved_witness:
  "\<exists>es s. foldEvents initialPayoutState evolvePayout es = Inr s \<and> length es = 4 \<and>
     (\<exists>r f n. state_amounts s = (Some r, Some f, Some n) \<and> amounts_ok r f n)"
proof -
  have "case runCommands initialPayoutState evolvePayout (decidePayout payoutHost) [] paidRun of
          Inr es \<Rightarrow> length es = 4 | Inl _ \<Rightarrow> False"
    by code_simp
  then obtain es where es: "runCommands initialPayoutState evolvePayout (decidePayout payoutHost) [] paidRun = Inr es"
    "length es = 4"
    by (auto split: sum.splits)
  then have "es \<noteq> []" by auto
  from payout_amounts_conserved [OF run_reachable [OF es(1)] this] es(2) show ?thesis by blast
qed

text \<open>
  A payout moves from requested to sent to completed or failed, a completion or failure may come
  before it is sent, and either closes it: it is the last event of the history and there is no other.
  A closed payout answers the command that closed it with no event and refuses every other one.
\<close>

theorem payout_follows_life_cycle:
  assumes "reachable_history initialPayoutState evolvePayout (decidePayout h) es"
    and "foldEvents initialPayoutState evolvePayout es = Inr s"
  shows "event_path payout_step NoPayout es (payout_phase_of s) \<and>
    (\<forall>e\<in>set (butlast es). \<not> closes_payout e) \<and>
    (po_status s = Some PayoutCompletedSt \<longrightarrow>
       (\<forall>c. if \<exists>f st t. c = CompletePayout f st t then decidePayout h s c = Inr []
            else \<exists>m. decidePayout h s c = Inl (SettlementDomainError m))) \<and>
    (po_status s = Some PayoutFailedSt \<longrightarrow>
       (\<forall>c. if \<exists>r st x m t. c = FailPayout r st x m t then decidePayout h s c = Inr []
            else \<exists>m. decidePayout h s c = Inl (SettlementDomainError m)))"
  using payout_life.history_path [OF assms] payout_life.history_closes_last [OF assms]
    completed_answers [OF payout_life.loaded_inv [OF assms]] failed_answers [OF payout_life.loaded_inv [OF assms]]
  by simp

section \<open>The month ledger\<close>

text \<open>
  However requests and failures of payouts follow each other in a month, the planned events keep
  the set of active payouts that the specification keeps, without duplicates, and a request is told
  to be the first of the month exactly when that set is empty: neither a repeated request nor a
  second payout is, unless all before it have failed.
\<close>

theorem month_ledger_refines_set:
  assumes "runMonth h initialPayoutMonthState ops = Inr (flags, s)"
  shows "specMonth None ops = (flags, month_abs s) \<and> distinct (pm_activePayoutIds s)"
  using runMonth_simulates [OF month_initial(1) assms] by (simp add: month_wf_def)

text \<open>
  For instants of the years 100 to 9999 the month window is printed from two instants between
  which lie exactly the instants of the same year and month, and two instants share the month stream
  of an account exactly when each lies in the window of the other.
\<close>

theorem payout_month_is_calendar_month:
  assumes "Date_parse h s = Some x" and "100 \<le> utc_year x" and "utc_year x \<le> 9999"
    and "Date_parse h t = Some y" and "100 \<le> utc_year y" and "utc_year y \<le> 9999"
  shows "\<exists>a b. payoutUtcMonthWindow h s = Inr (iso_string a, iso_string b) \<and>
    (\<forall>z. a \<le> z \<and> z < b \<longleftrightarrow> utc_year z = utc_year x \<and> utc_month_index z = utc_month_index x) \<and>
    (payoutMonthStreamId h account s = payoutMonthStreamId h account t \<longleftrightarrow> a \<le> y \<and> y < b)"
proof -
  obtain a b where ab: "payoutUtcMonthWindow h s = Inr (iso_string a, iso_string b)"
    "\<forall>z. a \<le> z \<and> z < b \<longleftrightarrow> utc_year z = utc_year x \<and> utc_month_index z = utc_month_index x"
    using month_window [OF assms(1-3)] by blast
  have "payoutMonthStreamId h account s = payoutMonthStreamId h account t \<longleftrightarrow>
      take 7 (iso_string x) = take 7 (iso_string y)"
    by (simp add: month_stream [OF assms(1)] month_stream [OF assms(4)])
  also have "\<dots> \<longleftrightarrow> utc_year x = utc_year y \<and> utc_month_index x = utc_month_index y"
    by (rule take_iso_string_eq_iff) (use assms in linarith)+
  also have "\<dots> \<longleftrightarrow> a \<le> y \<and> y < b" using ab(2) [THEN spec, of y] by metis
  finally have "payoutMonthStreamId h account s = payoutMonthStreamId h account t \<longleftrightarrow> a \<le> y \<and> y < b" .
  with ab show ?thesis by blast
qed

end
