(* ===== verification/PlatformCoverage.thy ===== *)
theory PlatformCoverage
  imports MoneyFacts
begin

text \<open>
  \<open>contracts/primitives/platform-coverage.ts\<close>: the vocabularies of platform-covered resolutions and
  the value objects that bind the buyer's remedy to the split of who funds it. Settlement and
  Payments both construct and read them.

  A closed vocabulary is the list of its texts with their values; the \<open>is...\<close> guards look a text up
  and the \<open>assert...\<close> functions throw when it is not there.
\<close>

section \<open>Currency\<close>

definition lower_letter :: "char \<Rightarrow> bool" where
  "lower_letter c \<longleftrightarrow> 97 \<le> (of_char c :: nat) \<and> (of_char c :: nat) \<le> 122"

definition normalizePlatformCoverageCurrencyCode :: "string \<Rightarrow> string res" where
  "normalizePlatformCoverageCurrencyCode value =
     (let currencyCode = js_lower (js_trim value)
      in ensure (length currencyCode = 3 \<and> list_all lower_letter currencyCode)
           (Error ''Platform-coverage currency must be a three-letter code.'') (Inr currencyCode))"


section \<open>Vocabularies\<close>

datatype ReturnDirective = ReturnToSeller | ReturnToPlatform | NoReturn

definition returnDirectives :: "(string \<times> ReturnDirective) list" where
  "returnDirectives =
     [(''return-to-seller'', ReturnToSeller), (''return-to-platform'', ReturnToPlatform), (''no-return'', NoReturn)]"

definition isReturnDirective :: "string \<Rightarrow> bool" where
  "isReturnDirective value \<longleftrightarrow> value \<in> set (map fst returnDirectives)"

definition assertReturnDirective :: "string \<Rightarrow> ReturnDirective res" where
  "assertReturnDirective value =
     (case map_of returnDirectives value of
        None \<Rightarrow> Inl (Error (''Unknown return directive: '' @ value)) | Some d \<Rightarrow> Inr d)"

datatype RefundTrigger =
    TriggerImmediate | TriggerCarrierAccepted | TriggerDelivered | TriggerFacilityIntake | TriggerOperatorRelease

definition refundTriggers :: "(string \<times> RefundTrigger) list" where
  "refundTriggers =
     [(''immediate'', TriggerImmediate), (''carrier-accepted'', TriggerCarrierAccepted),
      (''delivered'', TriggerDelivered), (''facility-intake'', TriggerFacilityIntake),
      (''operator-release'', TriggerOperatorRelease)]"

definition isRefundTrigger :: "string \<Rightarrow> bool" where
  "isRefundTrigger value \<longleftrightarrow> value \<in> set (map fst refundTriggers)"

definition assertRefundTrigger :: "string \<Rightarrow> RefundTrigger res" where
  "assertRefundTrigger value =
     (case map_of refundTriggers value of
        None \<Rightarrow> Inl (Error (''Unknown refund trigger: '' @ value)) | Some t \<Rightarrow> Inr t)"

datatype CoverageRejectionReasonCode =
    InsufficientReserve | PolicyLimitExceeded | CurrencyMismatchRejection | ConflictingTerms | CoverageExpiredRejection

definition coverageRejectionReasonCodes :: "(string \<times> CoverageRejectionReasonCode) list" where
  "coverageRejectionReasonCodes =
     [(''insufficient-reserve'', InsufficientReserve), (''policy-limit-exceeded'', PolicyLimitExceeded),
      (''currency-mismatch'', CurrencyMismatchRejection), (''conflicting-terms'', ConflictingTerms),
      (''coverage-expired'', CoverageExpiredRejection)]"

definition isCoverageRejectionReasonCode :: "string \<Rightarrow> bool" where
  "isCoverageRejectionReasonCode value \<longleftrightarrow> value \<in> set (map fst coverageRejectionReasonCodes)"

definition assertCoverageRejectionReasonCode :: "string \<Rightarrow> CoverageRejectionReasonCode res" where
  "assertCoverageRejectionReasonCode value =
     (case map_of coverageRejectionReasonCodes value of
        None \<Rightarrow> Inl (Error (''Unknown coverage rejection reason code: '' @ value)) | Some c \<Rightarrow> Inr c)"


section \<open>Buyer remedy\<close>

datatype BuyerRemedyKind = FullRefund | PartialRefund

definition buyerRemedyKinds :: "(string \<times> BuyerRemedyKind) list" where
  "buyerRemedyKinds = [(''full-refund'', FullRefund), (''partial-refund'', PartialRefund)]"

definition isBuyerRemedyKind :: "string \<Rightarrow> bool" where
  "isBuyerRemedyKind value \<longleftrightarrow> value \<in> set (map fst buyerRemedyKinds)"

record BuyerRemedyInput =
  bi_kind :: string
  bi_amount :: string
  bi_currencyCode :: string

record BuyerRemedy =
  br_kind :: BuyerRemedyKind
  br_amount :: string
  br_currencyCode :: string

definition normalizeBuyerRemedy :: "BuyerRemedyInput \<Rightarrow> BuyerRemedy res" where
  "normalizeBuyerRemedy i =
     (case map_of buyerRemedyKinds (bi_kind i) of
        None \<Rightarrow> Inl (Error (''Unknown buyer remedy kind: '' @ bi_kind i))
      | Some kind \<Rightarrow>
     bindE (normalizePlatformCoverageCurrencyCode (bi_currencyCode i)) (\<lambda>currencyCode.
     bindE (primNormalizeMoneyAmount (bi_amount i)) (\<lambda>amount.
     bindE (moneyToCents amount) (\<lambda>cents.
     ensure (\<not> cents \<le> 0) (Error ''Buyer remedy amount must be a positive monetary amount.'')
       (Inr \<lparr>br_kind = kind, br_amount = amount, br_currencyCode = currencyCode\<rparr>)))))"


section \<open>Liability allocation\<close>

datatype LiabilityFundingKind = SellerFunded | PlatformFunded | SplitFunded

definition liabilityFundingKinds :: "(string \<times> LiabilityFundingKind) list" where
  "liabilityFundingKinds =
     [(''seller-funded'', SellerFunded), (''platform-funded'', PlatformFunded), (''split'', SplitFunded)]"

definition isLiabilityFundingKind :: "string \<Rightarrow> bool" where
  "isLiabilityFundingKind value \<longleftrightarrow> value \<in> set (map fst liabilityFundingKinds)"

record LiabilityAllocationInput =
  li_sellerFundedAmount :: string
  li_platformFundedAmount :: string
  li_currencyCode :: string

record LiabilityAllocation =
  la_sellerFundedAmount :: string
  la_platformFundedAmount :: string
  la_currencyCode :: string
  la_fundingKind :: LiabilityFundingKind

definition classifyLiabilityFundingKind :: "int \<Rightarrow> int \<Rightarrow> LiabilityFundingKind res" where
  "classifyLiabilityFundingKind sellerFundedCents platformFundedCents =
     (if sellerFundedCents < 0 \<or> platformFundedCents < 0
      then Inl (Error ''Liability allocation components must be non-negative.'')
      else if platformFundedCents = 0 then Inr SellerFunded
      else if sellerFundedCents = 0 then Inr PlatformFunded
      else Inr SplitFunded)"

definition normalizeLiabilityAllocation :: "LiabilityAllocationInput \<Rightarrow> LiabilityAllocation res" where
  "normalizeLiabilityAllocation i =
     bindE (normalizePlatformCoverageCurrencyCode (li_currencyCode i)) (\<lambda>currencyCode.
     bindE (primNormalizeMoneyAmount (li_sellerFundedAmount i)) (\<lambda>sellerFundedAmount.
     bindE (primNormalizeMoneyAmount (li_platformFundedAmount i)) (\<lambda>platformFundedAmount.
     bindE (moneyToCents sellerFundedAmount) (\<lambda>sellerCents.
     bindE (moneyToCents platformFundedAmount) (\<lambda>platformCents.
     bindE (classifyLiabilityFundingKind sellerCents platformCents) (\<lambda>fundingKind.
       Inr \<lparr>la_sellerFundedAmount = sellerFundedAmount, la_platformFundedAmount = platformFundedAmount,
            la_currencyCode = currencyCode, la_fundingKind = fundingKind\<rparr>))))))"

definition normalizeLiabilityAllocationForRemedy ::
    "BuyerRemedy \<Rightarrow> LiabilityAllocationInput \<Rightarrow> LiabilityAllocation res" where
  "normalizeLiabilityAllocationForRemedy remedy i =
     bindE (normalizeLiabilityAllocation i) (\<lambda>allocation.
     ensure (la_currencyCode allocation = br_currencyCode remedy)
       (Error ''Liability allocation currency must match the authorized remedy currency.'') (
     bindE (addMoneyAmounts (la_sellerFundedAmount allocation) (la_platformFundedAmount allocation)) (\<lambda>componentSum.
     bindE (moneyToCents componentSum) (\<lambda>sumCents.
     bindE (moneyToCents (br_amount remedy)) (\<lambda>remedyCents.
     ensure (sumCents = remedyCents)
       (Error ''Liability allocation components must sum exactly to the authorized remedy amount.'')
       (Inr allocation))))))"


section \<open>What the normalisers return\<close>

lemma primNormalizeMoneyAmount_Inr:
  "primNormalizeMoneyAmount v = Inr t \<Longrightarrow> canonical t \<and> 0 \<le> centsOf t \<and> moneyToCents v = Inr (centsOf t)"
  by (auto simp: primNormalizeMoneyAmount_def res_simps money_simps dest: moneyToCents_range)

lemma primNormalizeMoneyAmount_canonical [money_simps]:
  "canonical t \<Longrightarrow> 0 \<le> centsOf t \<Longrightarrow> primNormalizeMoneyAmount t = Inr t"
  by (auto elim!: canonicalE simp: primNormalizeMoneyAmount_def money_simps)

lemma moneyToCents_canonical [money_simps]:
  "canonical t \<Longrightarrow> 0 \<le> centsOf t \<Longrightarrow> moneyToCents t = Inr (centsOf t)"
  by (auto elim!: canonicalE simp: money_simps)

lemma coverage_currency_idem:
  "normalizePlatformCoverageCurrencyCode v = Inr c \<Longrightarrow> normalizePlatformCoverageCurrencyCode c = Inr c"
  by (auto simp: normalizePlatformCoverageCurrencyCode_def Let_def length_Suc_conv numeral_3_eq_3
      js_trim_def js_space_def js_lower_def lower_char_def lower_letter_def split: if_splits)

lemma classify_Inr [res_simps]:
  "classifyLiabilityFundingKind s p = Inr k \<longleftrightarrow>
   0 \<le> s \<and> 0 \<le> p \<and> k = (if p = 0 then SellerFunded else if s = 0 then PlatformFunded else SplitFunded)"
  by (auto simp: classifyLiabilityFundingKind_def)

text \<open>A normalised allocation: canonical amounts that are not negative, classified by what is funded.\<close>

definition allocation_ok :: "LiabilityAllocation \<Rightarrow> bool" where
  "allocation_ok a \<longleftrightarrow>
     canonical (la_sellerFundedAmount a) \<and> canonical (la_platformFundedAmount a) \<and>
     0 \<le> centsOf (la_sellerFundedAmount a) \<and> 0 \<le> centsOf (la_platformFundedAmount a) \<and>
     normalizePlatformCoverageCurrencyCode (la_currencyCode a) = Inr (la_currencyCode a) \<and>
     la_fundingKind a =
       (if centsOf (la_platformFundedAmount a) = 0 then SellerFunded
        else if centsOf (la_sellerFundedAmount a) = 0 then PlatformFunded else SplitFunded)"

lemma normalizeLiabilityAllocation_ok: "normalizeLiabilityAllocation i = Inr a \<Longrightarrow> allocation_ok a"
  by (auto simp: normalizeLiabilityAllocation_def allocation_ok_def res_simps money_simps
      dest!: primNormalizeMoneyAmount_Inr intro: coverage_currency_idem)

lemma allocation_ok_normal:
  assumes "allocation_ok a"
  shows "normalizeLiabilityAllocation \<lparr>li_sellerFundedAmount = la_sellerFundedAmount a,
           li_platformFundedAmount = la_platformFundedAmount a, li_currencyCode = la_currencyCode a\<rparr> = Inr a"
  using assms
  by (simp add: normalizeLiabilityAllocation_def allocation_ok_def money_simps classifyLiabilityFundingKind_def)

end
