(* ===== verification/LiabilityAllocation.thy ===== *)
theory LiabilityAllocation
  imports PlatformCoverage
begin

text \<open>
  \<open>bounded-contexts/settlement/features/liability-allocation/domain/liability-allocation.ts\<close>: what a
  completed refund costs the seller and the platform, and how the seller's part is distributed over
  the payouts. Both functions are pure.
\<close>

section \<open>The decision\<close>

datatype CoverageStatus = CoverageReserved | CoverageSettled | CoverageReleased | CoverageExpired

fun coverageStatusText :: "CoverageStatus \<Rightarrow> string" where
  "coverageStatusText CoverageReserved = ''reserved''"
| "coverageStatusText CoverageSettled = ''settled''"
| "coverageStatusText CoverageReleased = ''released''"
| "coverageStatusText CoverageExpired = ''expired''"

record AuthorizedRefundAllocation =
  aa_refundId :: string
  aa_remedyId :: string
  aa_coverageId :: "string option"
  aa_sellerFundedAmount :: string
  aa_platformFundedAmount :: string
  aa_currencyCode :: string
  aa_fundingKind :: LiabilityFundingKind

record CoverageReservationState =
  cv_reservedAmount :: string
  cv_status :: CoverageStatus
  cv_refundId :: "string option"
  cv_policyVersion :: string
  cv_currencyCode :: string
  cv_supportRequestId :: string
  cv_remedyId :: string

datatype RefundLiabilityQuarantineReason =
    QCurrencyMismatch | QAmountMismatch | QCoverageMissing | QCoverageNotReserved
  | QCoverageAlreadySettled | QReservationMismatch | QNoSellerExposure

record AllocatedLiability =
  al_fundingKind :: LiabilityFundingKind
  al_sellerDebitAmount :: string
  al_platformSettleAmount :: string
  al_coverageId :: "string option"
  al_alreadySettled :: bool

datatype RefundLiabilityDecision =
    SellerFundedDefault (sf_sellerDebitAmount: string)
  | Allocated AllocatedLiability
  | Quarantined (qu_reasonCode: RefundLiabilityQuarantineReason) (qu_detail: string)

record DecideRefundLiabilityInput =
  dl_allocation :: "AuthorizedRefundAllocation option"
  dl_completedRefundAmount :: string
  dl_completedCurrencyCode :: string
  dl_reservation :: "CoverageReservationState option"

text \<open>The part of the decision that draws a platform-funded portion from a coverage reservation.\<close>

definition drawFromCoverage ::
    "AuthorizedRefundAllocation \<Rightarrow> CoverageReservationState option \<Rightarrow> LiabilityFundingKind \<Rightarrow>
     string \<Rightarrow> string \<Rightarrow> int \<Rightarrow> RefundLiabilityDecision res" where
  "drawFromCoverage allocation reservation fundingKind sellerFundedAmount platformFundedAmount platformCents =
     (case aa_coverageId allocation of
        None \<Rightarrow> Inr (Quarantined QCoverageMissing ''A platform-funded refund requires an approved coverage id.'')
      | Some coverageId \<Rightarrow>
     if length (js_trim coverageId) = 0
     then Inr (Quarantined QCoverageMissing ''A platform-funded refund requires an approved coverage id.'')
     else case reservation of
        None \<Rightarrow> Inr (Quarantined QCoverageNotReserved
                  (''Coverage '' @ coverageId @ '' has no protection reservation to consume.''))
      | Some r \<Rightarrow>
     if cv_status r = CoverageSettled then
       (if cv_refundId r = Some (aa_refundId allocation)
        then Inr (Allocated \<lparr>al_fundingKind = fundingKind, al_sellerDebitAmount = sellerFundedAmount,
                    al_platformSettleAmount = platformFundedAmount,
                    al_coverageId = Some coverageId, al_alreadySettled = True\<rparr>)
        else Inr (Quarantined QCoverageAlreadySettled
                    (''Coverage '' @ coverageId @ '' is already settled against refund '' @
                     (case cv_refundId r of None \<Rightarrow> ''unknown'' | Some i \<Rightarrow> i) @ ''.'')))
     else if cv_status r \<noteq> CoverageReserved
     then Inr (Quarantined QCoverageNotReserved
                 (''Coverage '' @ coverageId @ '' is '' @ coverageStatusText (cv_status r) @
                  '' and cannot be consumed.''))
     else
     bindE (primNormalizeMoneyAmount (cv_reservedAmount r)) (\<lambda>reservedAmount.
     bindE (moneyToCents reservedAmount) (\<lambda>reservedCents.
     if platformCents \<noteq> reservedCents
     then Inr (Quarantined QReservationMismatch
                 (''Platform-funded portion '' @ platformFundedAmount @
                  '' does not equal the reserved coverage amount '' @ cv_reservedAmount r @ ''.''))
     else Inr (Allocated \<lparr>al_fundingKind = fundingKind, al_sellerDebitAmount = sellerFundedAmount,
                 al_platformSettleAmount = platformFundedAmount,
                 al_coverageId = Some coverageId, al_alreadySettled = False\<rparr>))))"

definition decideRefundLiability :: "DecideRefundLiabilityInput \<Rightarrow> RefundLiabilityDecision res" where
  "decideRefundLiability i =
     bindE (primNormalizeMoneyAmount (dl_completedRefundAmount i)) (\<lambda>completedRefundAmount.
     bindE (normalizePlatformCoverageCurrencyCode (dl_completedCurrencyCode i)) (\<lambda>completedCurrencyCode.
     case dl_allocation i of
       None \<Rightarrow> Inr (SellerFundedDefault completedRefundAmount)
     | Some allocation \<Rightarrow>
     bindE (primNormalizeMoneyAmount (aa_sellerFundedAmount allocation)) (\<lambda>sellerFundedAmount.
     bindE (primNormalizeMoneyAmount (aa_platformFundedAmount allocation)) (\<lambda>platformFundedAmount.
     bindE (normalizePlatformCoverageCurrencyCode (aa_currencyCode allocation)) (\<lambda>allocationCurrency.
     bindE (moneyToCents sellerFundedAmount) (\<lambda>sellerCents.
     bindE (moneyToCents platformFundedAmount) (\<lambda>platformCents.
     bindE (classifyLiabilityFundingKind sellerCents platformCents) (\<lambda>fundingKind.
     if allocationCurrency \<noteq> completedCurrencyCode
     then Inr (Quarantined QCurrencyMismatch
                 (''Authorized allocation currency '' @ allocationCurrency @
                  '' does not match completed refund currency '' @ completedCurrencyCode @ ''.''))
     else
     bindE (moneyToCents completedRefundAmount) (\<lambda>completedCents.
     if sellerCents + platformCents \<noteq> completedCents
     then Inr (Quarantined QAmountMismatch
                 (''Authorized allocation ('' @ sellerFundedAmount @ '' + '' @ platformFundedAmount @
                  '') does not sum to the completed refund '' @ completedRefundAmount @ ''.''))
     else if platformCents = 0
     then Inr (Allocated \<lparr>al_fundingKind = fundingKind, al_sellerDebitAmount = sellerFundedAmount,
                 al_platformSettleAmount = ''0.00'', al_coverageId = None, al_alreadySettled = False\<rparr>)
     else drawFromCoverage allocation (dl_reservation i) fundingKind sellerFundedAmount
            platformFundedAmount platformCents)))))))))"


section \<open>The seller's part\<close>

record SellerPayoutWeight =
  sw_orderId :: string
  sw_sellerAccountId :: string
  sw_weightAmount :: string

definition payoutWeightCents :: "SellerPayoutWeight \<Rightarrow> int res" where
  "payoutWeightCents payout =
     bindE (primNormalizeMoneyAmount (sw_weightAmount payout)) moneyToCents"

definition distributeSellerFundedPortion :: "string \<Rightarrow> SellerPayoutWeight list \<Rightarrow> string list res" where
  "distributeSellerFundedPortion sellerDebitAmount payouts =
     bindE (primNormalizeMoneyAmount sellerDebitAmount) (\<lambda>normalized.
     bindE (moneyToCents normalized) (\<lambda>debitCents.
     if debitCents = 0 \<or> payouts = [] then Inr (map (\<lambda>_. ''0.00'') payouts)
     else
     bindE (mapE payoutWeightCents payouts) (\<lambda>weights.
     if sum_list weights = 0 then Inr (map (\<lambda>_. ''0.00'') payouts)
     else
     bindE (centsToMoneyAmount (JBig debitCents)) (\<lambda>total.
       allocateMoneyByLargestRemainder total (map (\<lambda>w. WNumeric (JBig w)) weights)))))"

end
