(* ===== verification/LiabilityFacts.thy ===== *)
theory LiabilityFacts
  imports LiabilityAllocation
begin

text \<open>
  What the liability decision and the distribution of the seller's part guarantee.
\<close>

section \<open>The decision\<close>

text \<open>A platform-funded portion is drawn from a coverage that is reserved for exactly its amount, or
  was already settled against the same refund.\<close>

definition coverage_backs :: "AuthorizedRefundAllocation \<Rightarrow> CoverageReservationState option \<Rightarrow> AllocatedLiability \<Rightarrow> bool" where
  "coverage_backs a reservation d \<longleftrightarrow>
     (\<exists>c r. aa_coverageId a = Some c \<and> js_trim c \<noteq> [] \<and> al_coverageId d = Some c \<and> reservation = Some r \<and>
        (if al_alreadySettled d then cv_status r = CoverageSettled \<and> cv_refundId r = Some (aa_refundId a)
         else cv_status r = CoverageReserved \<and>
              moneyToCents (cv_reservedAmount r) = Inr (centsOf (al_platformSettleAmount d))))"

lemma drawFromCoverage_backed:
  assumes "drawFromCoverage a rv k s p n = Inr (Allocated d)" and "canonical p" and "n = centsOf p"
  shows "coverage_backs a rv d \<and> al_fundingKind d = k \<and> al_sellerDebitAmount d = s \<and> al_platformSettleAmount d = p"
  using assms unfolding drawFromCoverage_def coverage_backs_def
  by (auto simp: res_simps money_simps split: option.splits if_splits dest!: primNormalizeMoneyAmount_Inr)

lemma drawFromCoverage_not_default: "drawFromCoverage a rv k s p n \<noteq> Inr (SellerFundedDefault x)"
  by (auto simp: drawFromCoverage_def res_simps split: option.splits if_splits)

lemma drawFromCoverage_reason:
  "drawFromCoverage a rv k s p n = Inr (Quarantined q t) \<Longrightarrow>
   q \<in> {QCoverageMissing, QCoverageNotReserved, QCoverageAlreadySettled, QReservationMismatch} \<and>
   (q = QCoverageMissing \<longrightarrow> aa_coverageId a = None \<or> (\<exists>c. aa_coverageId a = Some c \<and> js_trim c = []))"
  by (auto simp: drawFromCoverage_def res_simps split: option.splits if_splits)

text \<open>The values the decision works with, when it does not throw and there is an allocation.\<close>

lemma decideRefundLiability_unfold:
  assumes "decideRefundLiability i = Inr d" and "dl_allocation i = Some a"
  obtains total cur seller platform acur kind where
    "primNormalizeMoneyAmount (dl_completedRefundAmount i) = Inr total"
    "normalizePlatformCoverageCurrencyCode (dl_completedCurrencyCode i) = Inr cur"
    "primNormalizeMoneyAmount (aa_sellerFundedAmount a) = Inr seller"
    "primNormalizeMoneyAmount (aa_platformFundedAmount a) = Inr platform"
    "normalizePlatformCoverageCurrencyCode (aa_currencyCode a) = Inr acur"
    "canonical total" "canonical seller" "canonical platform" "0 \<le> centsOf seller" "0 \<le> centsOf platform"
    "kind = (if centsOf platform = 0 then SellerFunded else if centsOf seller = 0 then PlatformFunded else SplitFunded)"
    "(\<exists>t. acur \<noteq> cur \<and> d = Quarantined QCurrencyMismatch t) \<or>
     (\<exists>t. acur = cur \<and> centsOf seller + centsOf platform \<noteq> centsOf total \<and> d = Quarantined QAmountMismatch t) \<or>
     acur = cur \<and> centsOf seller + centsOf platform = centsOf total \<and>
       (if centsOf platform = 0
        then d = Allocated \<lparr>al_fundingKind = kind, al_sellerDebitAmount = seller,
               al_platformSettleAmount = ''0.00'', al_coverageId = None, al_alreadySettled = False\<rparr>
        else drawFromCoverage a (dl_reservation i) kind seller platform (centsOf platform) = Inr d)"
proof -
  from assms obtain total cur seller platform acur sc pc kind where
    n: "primNormalizeMoneyAmount (dl_completedRefundAmount i) = Inr total"
    "normalizePlatformCoverageCurrencyCode (dl_completedCurrencyCode i) = Inr cur"
    "primNormalizeMoneyAmount (aa_sellerFundedAmount a) = Inr seller"
    "primNormalizeMoneyAmount (aa_platformFundedAmount a) = Inr platform"
    "normalizePlatformCoverageCurrencyCode (aa_currencyCode a) = Inr acur"
    and c: "moneyToCents seller = Inr sc" "moneyToCents platform = Inr pc"
    and k: "classifyLiabilityFundingKind sc pc = Inr kind"
    by (auto simp: decideRefundLiability_def res_simps split: option.splits)
  note canon = n(1) [THEN primNormalizeMoneyAmount_Inr] n(3,4) [THEN primNormalizeMoneyAmount_Inr]
  then have cents: "moneyToCents total = Inr (centsOf total)" "sc = centsOf seller" "pc = centsOf platform"
    using c by (simp_all add: money_simps)
  have "(\<exists>t. acur \<noteq> cur \<and> d = Quarantined QCurrencyMismatch t) \<or>
     (\<exists>t. acur = cur \<and> sc + pc \<noteq> centsOf total \<and> d = Quarantined QAmountMismatch t) \<or>
     acur = cur \<and> sc + pc = centsOf total \<and>
       (if pc = 0
        then d = Allocated \<lparr>al_fundingKind = kind, al_sellerDebitAmount = seller,
               al_platformSettleAmount = ''0.00'', al_coverageId = None, al_alreadySettled = False\<rparr>
        else drawFromCoverage a (dl_reservation i) kind seller platform pc = Inr d)"
    using assms n c k cents(1) by (auto simp: decideRefundLiability_def split: if_splits)
  then show thesis
    using n canon k cents(2,3) by (intro that [of total cur seller platform acur kind]) (auto simp: classify_Inr)
qed

lemma allocated_liability:
  assumes "decideRefundLiability i = Inr (Allocated d)" and "dl_allocation i = Some a"
  shows "canonical (al_sellerDebitAmount d) \<and> canonical (al_platformSettleAmount d) \<and>
    0 \<le> centsOf (al_sellerDebitAmount d) \<and> 0 \<le> centsOf (al_platformSettleAmount d) \<and>
    moneyToCents (dl_completedRefundAmount i) =
      Inr (centsOf (al_sellerDebitAmount d) + centsOf (al_platformSettleAmount d)) \<and>
    (if centsOf (al_platformSettleAmount d) = 0 then al_coverageId d = None
     else coverage_backs a (dl_reservation i) d) \<and>
    al_fundingKind d =
      (if centsOf (al_platformSettleAmount d) = 0 then SellerFunded
       else if centsOf (al_sellerDebitAmount d) = 0 then PlatformFunded else SplitFunded)"
  using decideRefundLiability_unfold [OF assms]
proof cases
  case (1 total cur seller platform acur kind)
  have total: "moneyToCents (dl_completedRefundAmount i) = Inr (centsOf total)"
    using 1(1) primNormalizeMoneyAmount_Inr by blast
  have sum: "centsOf seller + centsOf platform = centsOf total" using 1(12) by auto
  show ?thesis
  proof (cases "centsOf platform = 0")
    case True
    with 1 total sum show ?thesis by auto
  next
    case False
    with 1(12) have "drawFromCoverage a (dl_reservation i) kind seller platform (centsOf platform) = Inr (Allocated d)"
      by auto
    from drawFromCoverage_backed [OF this 1(8) refl] 1 total sum False show ?thesis by auto
  qed
qed

lemma undecided_liability:
  "decideRefundLiability i = Inr d \<Longrightarrow> dl_allocation i = None \<Longrightarrow>
   \<exists>s. d = SellerFundedDefault s \<and> canonical s \<and> moneyToCents (dl_completedRefundAmount i) = Inr (centsOf s)"
  by (auto simp: decideRefundLiability_def res_simps dest!: primNormalizeMoneyAmount_Inr)

lemma default_liability:
  assumes "decideRefundLiability i = Inr (SellerFundedDefault s)"
  shows "dl_allocation i = None"
proof (rule ccontr)
  assume "dl_allocation i \<noteq> None"
  then obtain a where a: "dl_allocation i = Some a" by blast
  from decideRefundLiability_unfold [OF assms a] show False
    by cases (auto simp: drawFromCoverage_not_default split: if_splits)
qed

text \<open>Once its coverage is settled against the refund, the decision is repeated with the same amounts.\<close>

definition settled_by :: "AuthorizedRefundAllocation \<Rightarrow> CoverageReservationState \<Rightarrow> bool" where
  "settled_by a r \<longleftrightarrow> cv_status r = CoverageSettled \<and> cv_refundId r = Some (aa_refundId a)"

lemma drawFromCoverage_again:
  "drawFromCoverage a rv k s p n = Inr (Allocated l) \<Longrightarrow> settled_by a r \<Longrightarrow>
   drawFromCoverage a (Some r) k s p n = Inr (Allocated (l\<lparr>al_alreadySettled := True\<rparr>))"
  by (auto simp: drawFromCoverage_def settled_by_def res_simps split: option.splits if_splits)

lemma settled_liability:
  assumes "decideRefundLiability i = Inr (Allocated l)" and "dl_allocation i = Some a" and "settled_by a r"
  shows "decideRefundLiability (i\<lparr>dl_reservation := Some r\<rparr>) =
    Inr (Allocated (if al_coverageId l = None then l else l\<lparr>al_alreadySettled := True\<rparr>))"
proof -
  have cov: "al_coverageId l' \<noteq> None" if "drawFromCoverage a rv k s p n = Inr (Allocated l')" for rv k s p n l'
    using that by (auto simp: drawFromCoverage_def res_simps split: option.splits if_splits)
  from assms(1,2) obtain total cur seller platform acur sc pc kind tc where
    n: "primNormalizeMoneyAmount (dl_completedRefundAmount i) = Inr total"
    "normalizePlatformCoverageCurrencyCode (dl_completedCurrencyCode i) = Inr cur"
    "primNormalizeMoneyAmount (aa_sellerFundedAmount a) = Inr seller"
    "primNormalizeMoneyAmount (aa_platformFundedAmount a) = Inr platform"
    "normalizePlatformCoverageCurrencyCode (aa_currencyCode a) = Inr acur"
    "moneyToCents seller = Inr sc" "moneyToCents platform = Inr pc"
    "classifyLiabilityFundingKind sc pc = Inr kind"
    by (auto simp: decideRefundLiability_def res_simps split: option.splits)
  then have "acur = cur \<and> moneyToCents total = Inr (sc + pc) \<and>
      (if pc = 0 then al_coverageId l = None
       else drawFromCoverage a (dl_reservation i) kind seller platform pc = Inr (Allocated l))"
    using assms(1,2) by (cases "moneyToCents total") (auto simp: decideRefundLiability_def split: if_splits)
  moreover from calculation cov have "pc \<noteq> 0 \<Longrightarrow> al_coverageId l \<noteq> None" by auto
  ultimately show ?thesis
    using n assms(1,2) drawFromCoverage_again [OF _ assms(3)]
    by (cases "pc = 0") (auto simp: decideRefundLiability_def)
qed

lemma reservation_ignored_fields:
  "decideRefundLiability (i\<lparr>dl_reservation :=
     Some (r\<lparr>cv_currencyCode := c, cv_remedyId := m, cv_supportRequestId := q, cv_policyVersion := v\<rparr>)\<rparr>) =
   decideRefundLiability (i\<lparr>dl_reservation := Some r\<rparr>)"
  by (auto simp: decideRefundLiability_def drawFromCoverage_def intro!: bindE_cong split: option.splits)


section \<open>The seller's part\<close>

lemma payoutWeightCents_Inr:
  "payoutWeightCents p = Inr w \<Longrightarrow> 0 \<le> w \<and> moneyToCents (sw_weightAmount p) = Inr w"
  by (auto simp: payoutWeightCents_def res_simps money_simps dest!: primNormalizeMoneyAmount_Inr)

lemma weightValue_big: "\<forall>w\<in>set ws. 0 \<le> w \<Longrightarrow> mapE weightValue (map (\<lambda>w. WNumeric (JBig w)) ws) = Inr ws"
  by (induction ws) (auto simp: weightValue_def toIntegerBigInt_def)

lemma payout_weights_nonneg: "mapE payoutWeightCents ps = Inr ws \<Longrightarrow> w \<in> set ws \<Longrightarrow> 0 \<le> w"
  by (induction ps arbitrary: ws) (auto simp: res_simps dest: payoutWeightCents_Inr)

lemma distribute_exact:
  assumes "distributeSellerFundedPortion amount payouts = Inr out"
    and "moneyToCents amount = Inr c" and "c \<noteq> 0" and "payouts \<noteq> []"
    and "mapE payoutWeightCents payouts = Inr ws" and "sum_list ws \<noteq> 0"
  shows "\<exists>shares. out = map formatCents shares \<and> length shares = length payouts \<and> sum_list shares = c \<and>
    (\<forall>i<length payouts. in_range (shares ! i) \<and>
       (shares ! i = (c * ws ! i) div sum_list ws \<or> shares ! i = (c * ws ! i) div sum_list ws + 1))"
proof -
  obtain norm where prim: "primNormalizeMoneyAmount amount = Inr norm"
    using assms(1) by (auto simp: distributeSellerFundedPortion_def res_simps)
  then have canon: "canonical norm" "centsOf norm = c" "0 \<le> c"
    using primNormalizeMoneyAmount_Inr [OF prim] assms(2) by auto
  then have norm: "primNormalizeMoneyAmount amount = Inr norm" "moneyToCents norm = Inr c"
    using prim by (simp_all add: money_simps)
  have len: "length ws = length payouts" using mapE_Inr_length [OF assms(5)] .
  have total: "centsToMoneyAmount (JBig c) = Inr (formatCents c)" and cents: "moneyToCents (formatCents c) = Inr c"
    using canon canonical_in_range [OF canon(1)] by (simp_all add: money_simps)
  have "allocateMoneyByLargestRemainder (formatCents c) (map (\<lambda>w. WNumeric (JBig w)) ws) = Inr out"
    using assms(1,3-6) norm total by (simp add: distributeSellerFundedPortion_def)
  moreover have ne: "map (\<lambda>w. WNumeric (JBig w)) ws \<noteq> []" using len assms(4) by auto
  moreover have ok: "mapE weightValue (map (\<lambda>w. WNumeric (JBig w)) ws) = Inr ws"
    using payout_weights_nonneg [OF assms(5)] by (simp add: weightValue_big)
  ultimately show ?thesis using largest_remainder_exact [OF cents ne ok assms(6)]
    by (simp only: length_map len) (metis sum.inject(2))
qed

lemma distribute_nothing:
  assumes "distributeSellerFundedPortion amount payouts = Inr out"
    and "moneyToCents amount = Inr 0 \<or> payouts = [] \<or>
         (\<exists>ws. mapE payoutWeightCents payouts = Inr ws \<and> sum_list ws = 0)"
  shows "out = map (\<lambda>_. ''0.00'') payouts"
  using assms primNormalizeMoneyAmount_Inr
  by (fastforce simp: distributeSellerFundedPortion_def res_simps money_simps split: if_splits)

end
