(* ===== verification/LiabilityProps.thy ===== *)
theory LiabilityProps
  imports LiabilityFacts
begin

text \<open>The properties of the liability of a completed refund.\<close>

section \<open>Samples\<close>

definition splitRefund :: DecideRefundLiabilityInput where
  "splitRefund = \<lparr>dl_allocation = Some \<lparr>aa_refundId = ''rfd_1'', aa_remedyId = ''rmd_1'',
       aa_coverageId = Some ''cov_1'', aa_sellerFundedAmount = ''7.50'', aa_platformFundedAmount = ''2.50'',
       aa_currencyCode = ''USD'', aa_fundingKind = SplitFunded\<rparr>,
     dl_completedRefundAmount = ''10'', dl_completedCurrencyCode = ''usd'',
     dl_reservation = Some \<lparr>cv_reservedAmount = ''2.5'', cv_status = CoverageReserved, cv_refundId = None,
       cv_policyVersion = ''v1'', cv_currencyCode = ''usd'', cv_supportRequestId = ''sup_1'',
       cv_remedyId = ''rmd_1''\<rparr>\<rparr>"

definition splitLiability :: AllocatedLiability where
  "splitLiability = \<lparr>al_fundingKind = SplitFunded, al_sellerDebitAmount = ''7.50'',
     al_platformSettleAmount = ''2.50'', al_coverageId = Some ''cov_1'', al_alreadySettled = False\<rparr>"

lemma splitRefund_decided: "decideRefundLiability splitRefund = Inr (Allocated splitLiability)"
  by code_simp

definition threePayouts :: "SellerPayoutWeight list" where
  "threePayouts = map (\<lambda>w. \<lparr>sw_orderId = ''ord_1'', sw_sellerAccountId = ''acc_1'', sw_weightAmount = w\<rparr>)
     [''20.00'', ''20.00'', ''20.00'']"


section \<open>The decision\<close>

text \<open>
  C27. A refund whose liability is decided costs the seller and the platform together exactly the
  completed refund, neither of them a negative amount. Without an authorized allocation the seller
  bears all of it. What the platform bears is drawn from a coverage that is reserved for exactly that
  amount or was settled against this refund before, and the funding kind names who bears anything.
\<close>

theorem refund_liability_conserved:
  assumes "decideRefundLiability i = Inr d"
  shows "case d of
      SellerFundedDefault s \<Rightarrow> dl_allocation i = None \<and> canonical s \<and>
        moneyToCents (dl_completedRefundAmount i) = Inr (centsOf s)
    | Allocated l \<Rightarrow> (\<exists>a. dl_allocation i = Some a \<and>
        0 \<le> centsOf (al_sellerDebitAmount l) \<and> 0 \<le> centsOf (al_platformSettleAmount l) \<and>
        moneyToCents (dl_completedRefundAmount i) =
          Inr (centsOf (al_sellerDebitAmount l) + centsOf (al_platformSettleAmount l)) \<and>
        (if centsOf (al_platformSettleAmount l) = 0 then al_coverageId l = None
         else coverage_backs a (dl_reservation i) l) \<and>
        al_fundingKind l =
          (if centsOf (al_platformSettleAmount l) = 0 then SellerFunded
           else if centsOf (al_sellerDebitAmount l) = 0 then PlatformFunded else SplitFunded))
    | Quarantined q t \<Rightarrow> dl_allocation i \<noteq> None"
proof (cases "dl_allocation i")
  case None
  with undecided_liability [OF assms None] show ?thesis by auto
next
  case (Some a)
  then show ?thesis
    using assms default_liability allocated_liability [of i _ a] by (cases d) auto
qed

theorem refund_liability_conserved_witness:
  "moneyToCents (dl_completedRefundAmount splitRefund) =
     Inr (centsOf (al_sellerDebitAmount splitLiability) + centsOf (al_platformSettleAmount splitLiability))"
  using refund_liability_conserved [OF splitRefund_decided] by (simp only: RefundLiabilityDecision.case) blast

text \<open>
  Redelivery is safe: once the coverage has been settled against the refund, deciding the same
  refund again yields the same amounts, and says that the coverage needs no further settlement.
\<close>

theorem settled_refund_decides_the_same:
  assumes "decideRefundLiability i = Inr (Allocated l)" and "dl_allocation i = Some a" and "settled_by a r"
  shows "decideRefundLiability (i\<lparr>dl_reservation := Some r\<rparr>) =
    Inr (Allocated (if al_coverageId l = None then l else l\<lparr>al_alreadySettled := True\<rparr>))"
  using assms by (rule settled_liability)

section \<open>The seller's part\<close>

text \<open>
  The seller's part of a refund is distributed over the payouts without losing a cent: every
  payout gets its proportional share rounded down, or one cent more, and the shares add up to the
  part that is distributed.
\<close>

theorem seller_part_distributed_exactly:
  assumes "distributeSellerFundedPortion amount payouts = Inr out"
    and "moneyToCents amount = Inr c" and "c \<noteq> 0" and "payouts \<noteq> []"
    and "mapE payoutWeightCents payouts = Inr ws" and "sum_list ws \<noteq> 0"
  shows "\<exists>shares. out = map formatCents shares \<and> length shares = length payouts \<and> sum_list shares = c \<and>
    (\<forall>i<length payouts. in_range (shares ! i) \<and>
       (shares ! i = (c * ws ! i) div sum_list ws \<or> shares ! i = (c * ws ! i) div sum_list ws + 1))"
  using assms by (rule distribute_exact)

end
