(* ===== verification/PaymentsCommon.thy ===== *)
theory PaymentsCommon
  imports MoneyFacts JsTime EventDomain
begin

text \<open>
  \<open>bounded-contexts/payments/support/runtime-support/common.ts\<close>: the vocabulary of the payments
  context and the normalisers its deciders run. The names carry \<open>payments\<close> where the settlement
  context has a function of the same name and other messages.
\<close>

section \<open>Vocabulary\<close>

datatype PaymentStatus =
    PendingConfirmation | Captured | PaymentFailed | PaymentCancelled | PartiallyRefunded
  | Refunded | Disputed

datatype RefundStatus = RefundRequestedSt | RefundIssuedSt | RefundFailedSt

datatype PaymentsCurrencyCode = UsdPayments

fun paymentsCurrencyText :: "PaymentsCurrencyCode \<Rightarrow> string" where
  "paymentsCurrencyText UsdPayments = ''usd''"

datatype PaymentProcessorName = Stripe


section \<open>Checks and normalisers\<close>

abbreviation PaymentsInvalid :: "string \<Rightarrow> js_error" where
  "PaymentsInvalid message \<equiv> PaymentsDomainError message ''validation_failed''"

definition paymentsRequiredText :: "string \<Rightarrow> string \<Rightarrow> string res" where
  "paymentsRequiredText value message =
     (let normalized = js_trim value
      in ensure (length normalized > 0) (PaymentsInvalid message) (Inr normalized))"

definition paymentsIsoTimestamp :: "host \<Rightarrow> string \<Rightarrow> string \<Rightarrow> string res" where
  "paymentsIsoTimestamp h value message =
     ensure (Date_parse h value \<noteq> None) (PaymentsInvalid message) (Inr value)"

definition paymentsMoneyAmount :: "string \<Rightarrow> bool \<Rightarrow> string \<Rightarrow> string res" where
  "paymentsMoneyAmount value allowZero fieldName =
     (let normalized = js_trim value
      in case tryMoneyToCents normalized of
        None \<Rightarrow> Inl (PaymentsInvalid (fieldName @ '' must be a valid decimal.''))
      | Some cents \<Rightarrow>
          ensure (if allowZero then cents \<ge> 0 else cents > 0)
            (PaymentsInvalid
               (fieldName @ '' must be '' @
                (if allowZero then ''zero or greater'' else ''greater than zero'') @ ''.''))
            (centsToMoneyAmount (JBig cents)))"

text \<open>\<open>Number(cents)\<close> of an amount in range is exact.\<close>

definition moneyToMinorUnits :: "string \<Rightarrow> int res" where
  "moneyToMinorUnits value =
     bindE (paymentsMoneyAmount value True ''Amount'') moneyToCents"

definition paymentsAddMoney :: "string \<Rightarrow> string \<Rightarrow> string res" where
  "paymentsAddMoney left right = addMoneyAmounts left right"

definition paymentsSubtractMoney :: "string \<Rightarrow> string \<Rightarrow> string res" where
  "paymentsSubtractMoney left right = subtractMoneyAmounts left right"

definition paymentsCompareMoney :: "string \<Rightarrow> string \<Rightarrow> int res" where
  "paymentsCompareMoney left right = compareMoneyAmounts left right"

definition paymentsCurrencyCode :: "string \<Rightarrow> PaymentsCurrencyCode res" where
  "paymentsCurrencyCode value =
     ensure (js_lower (js_trim value) = ''usd'') (PaymentsInvalid ''Only USD payments are supported.'')
       (Inr UsdPayments)"

definition normalizePaymentStatus :: "string \<Rightarrow> PaymentStatus res" where
  "normalizePaymentStatus value =
     (let v = js_trim value
      in if v = ''pending-confirmation'' then Inr PendingConfirmation
         else if v = ''captured'' then Inr Captured
         else if v = ''failed'' then Inr PaymentFailed
         else if v = ''cancelled'' then Inr PaymentCancelled
         else if v = ''partially-refunded'' then Inr PartiallyRefunded
         else if v = ''refunded'' then Inr Refunded
         else if v = ''disputed'' then Inr Disputed
         else Inl (PaymentsInvalid ''Payment status is not supported.''))"

definition normalizeRefundStatus :: "string \<Rightarrow> RefundStatus res" where
  "normalizeRefundStatus value =
     (let v = js_trim value
      in if v = ''requested'' then Inr RefundRequestedSt
         else if v = ''issued'' then Inr RefundIssuedSt
         else if v = ''failed'' then Inr RefundFailedSt
         else Inl (PaymentsInvalid ''Refund status is not supported.''))"

definition normalizeProcessorName :: "string \<Rightarrow> PaymentProcessorName res" where
  "normalizeProcessorName value =
     ensure (js_lower (js_trim value) = ''stripe'') (PaymentsInvalid ''Only Stripe payments are supported.'')
       (Inr Stripe)"

definition normalizeOrderIds :: "string list \<Rightarrow> string list res" where
  "normalizeOrderIds orderIds =
     ensure (length orderIds > 0) (PaymentsInvalid ''Payments must include at least one order.'') (
     bindE (mapE (\<lambda>orderId. paymentsRequiredText orderId ''Payments must reference valid orders.'') orderIds) (\<lambda>texts.
     let normalized = js_unique texts
     in ensure (length normalized > 0) (PaymentsInvalid ''Payments must include at least one order.'')
          (Inr normalized)))"


section \<open>What the normalisers return\<close>

lemma paymentsRequiredText_Inr [res_simps]:
  "paymentsRequiredText v m = Inr t \<longleftrightarrow> t = js_trim v \<and> js_trim v \<noteq> []"
  by (auto simp: paymentsRequiredText_def Let_def)

lemma paymentsIsoTimestamp_Inr [res_simps]:
  "paymentsIsoTimestamp h v m = Inr t \<longleftrightarrow> t = v \<and> (\<exists>n. Date_parse h v = Some n)"
  by (auto simp: paymentsIsoTimestamp_def)

lemma paymentsMoneyAmount_Inr:
  "paymentsMoneyAmount v z f = Inr t \<Longrightarrow>
   canonical t \<and> 0 \<le> centsOf t \<and> (\<not> z \<longrightarrow> 0 < centsOf t) \<and> tryMoneyToCents (js_trim v) = Some (centsOf t)"
  by (auto simp: paymentsMoneyAmount_def Let_def money_simps split: option.splits if_splits
      dest: tryMoneyToCents_range)

lemma paymentsMoneyAmount_canonical [money_simps]:
  "canonical t \<Longrightarrow> 0 \<le> centsOf t \<Longrightarrow> z \<or> 0 < centsOf t \<Longrightarrow> paymentsMoneyAmount t z f = Inr t"
  by (auto elim!: canonicalE simp: paymentsMoneyAmount_def money_simps)

lemma paymentsAddMoney_canonical:
  "canonical a \<Longrightarrow> canonical b \<Longrightarrow> 0 \<le> centsOf a \<Longrightarrow> 0 \<le> centsOf b \<Longrightarrow>
   paymentsAddMoney a b = centsToMoneyAmount (JBig (centsOf a + centsOf b))"
  by (auto elim!: canonicalE simp: paymentsAddMoney_def money_simps)

lemma compareMoneyAmounts_canonical:
  "canonical a \<Longrightarrow> canonical b \<Longrightarrow>
   compareMoneyAmounts a b = Inr (if centsOf a < centsOf b then - 1 else if centsOf b < centsOf a then 1 else 0)"
  by (auto elim!: canonicalE simp: money_simps)

lemma normalizeProcessorName_Inr: "normalizeProcessorName v = Inr p \<Longrightarrow> p = Stripe"
  by (cases p) simp

lemma paymentsCurrencyCode_Inr: "paymentsCurrencyCode v = Inr c \<Longrightarrow> c = UsdPayments"
  by (cases c) simp

lemma required_texts:
  "mapE (\<lambda>i. paymentsRequiredText i m) xs = Inr ys \<longleftrightarrow> ys = map js_trim xs \<and> (\<forall>x\<in>set xs. js_trim x \<noteq> [])"
  by (induction xs arbitrary: ys) (auto simp: res_simps)

lemma js_unique_Nil_iff: "js_unique xs = [] \<longleftrightarrow> xs = []"
  by (metis set_empty set_js_unique)

lemma normalizeOrderIds_Inr:
  "normalizeOrderIds xs = Inr ys \<longleftrightarrow>
   xs \<noteq> [] \<and> (\<forall>x\<in>set xs. js_trim x \<noteq> []) \<and> ys = js_unique (map js_trim xs)"
  by (auto simp: normalizeOrderIds_def Let_def res_simps required_texts js_unique_Nil_iff)

lemma normalizeOrderIds_idem: "normalizeOrderIds xs = Inr ys \<Longrightarrow> normalizeOrderIds ys = Inr ys"
proof -
  assume "normalizeOrderIds xs = Inr ys"
  then have ys: "ys = js_unique (map js_trim xs)" "xs \<noteq> []" "\<forall>x\<in>set xs. js_trim x \<noteq> []"
    by (simp_all add: normalizeOrderIds_Inr)
  then have "set ys = js_trim ` set xs" by simp
  then have "map js_trim ys = ys" by (intro map_idI) auto
  moreover have "js_unique ys = ys" using ys(1) by simp
  moreover have "ys \<noteq> []" using \<open>set ys = js_trim ` set xs\<close> ys(2) by auto
  moreover have "\<forall>y\<in>set ys. js_trim y \<noteq> []" using \<open>set ys = js_trim ` set xs\<close> ys(3) by simp
  ultimately show ?thesis by (simp add: normalizeOrderIds_Inr)
qed

end
