(* ===== verification/JsonText.thy ===== *)
theory JsonText
  imports Storage
begin

text \<open>
  \<open>JSON.stringify\<close> of a JSON value: an object prints its entries in the order it holds them. The
  sources compare recorded values with new ones by their printed text; the lemmas show that the text
  determines the value, the order of the entries included.
\<close>

section \<open>Printing\<close>

fun JSON_stringify :: "json \<Rightarrow> string" where
  "JSON_stringify JNull = ''null''"
| "JSON_stringify (JBool b) = (if b then ''true'' else ''false'')"
| "JSON_stringify (JNumber n) = show_int n"
| "JSON_stringify (JString s) = json_string s"
| "JSON_stringify (JArray xs) = ''['' @ join_text '','' (map JSON_stringify xs) @ '']''"
| "JSON_stringify (JObject entries) =
     CHR 0x7B # join_text '','' (map (\<lambda>(k, v). json_string k @ '':'' @ JSON_stringify v) entries) @ [CHR 0x7D]"

text \<open>A nullable text as a JSON value.\<close>

definition nullable_text :: "string option \<Rightarrow> json" where
  "nullable_text v = (case v of None \<Rightarrow> JNull | Some t \<Rightarrow> JString t)"


section \<open>The text of a string determines it\<close>

lemma hex_digit_inj: "a < 16 \<Longrightarrow> b < 16 \<Longrightarrow> hex_digit a = hex_digit b \<Longrightarrow> a = b"
  by (auto simp: hex_digit_def split: if_splits dest!: arg_cong [where f = "of_char :: char \<Rightarrow> nat"])

lemma char_code_eq: "(of_char c :: nat) = n \<Longrightarrow> (of_char d :: nat) = n \<Longrightarrow> c = d"
  by (metis of_char_eq_iff)

lemma json_char_shape:
  obtains (plain) "json_char c = [c]" "c \<noteq> char_of (92::nat)" "c \<noteq> char_of (34::nat)"
    | (escape) x where "json_char c = [char_of (92::nat), x]" "x \<noteq> CHR ''u''"
    | (unicode) "json_char c = char_of (92::nat) # ''u00'' @ [hex_digit (of_char c div 16), hex_digit (of_char c mod 16)]"
proof -
  have u: "c \<noteq> CHR ''u''" if "(of_char c :: nat) < 100"
    using that by auto
  have n: "c \<noteq> char_of m" if "(of_char c :: nat) \<noteq> m" "m < 256" for m :: nat
    using that by auto
  consider "(of_char c :: nat) = 34 \<or> (of_char c :: nat) = 92" | "(of_char c :: nat) \<in> {8, 9, 10, 12, 13}"
    | "(of_char c :: nat) < 32" "(of_char c :: nat) \<notin> {8, 9, 10, 12, 13}"
    | "32 \<le> (of_char c :: nat)" "(of_char c :: nat) \<noteq> 34" "(of_char c :: nat) \<noteq> 92"
    by fastforce
  then show thesis
  proof cases
    case 1
    then have "json_char c = [char_of (92::nat), c]" "c \<noteq> CHR ''u''"
      using u by (auto simp: json_char_def Let_def)
    then show thesis by (rule escape)
  next
    case 2
    then have "\<exists>x\<in>{CHR ''b'', CHR ''t'', CHR ''n'', CHR ''f'', CHR ''r''}. json_char c = [char_of (92::nat), x]"
      by (auto simp: json_char_def)
    then show thesis using escape by auto
  next
    case 3
    then show thesis by (intro unicode) (simp add: json_char_def Let_def)
  next
    case 4
    then have "json_char c = [c]" by (simp add: json_char_def)
    then show thesis using plain n [of 92] n [of 34] 4 by simp
  qed
qed

lemma json_char_escape_inj:
  "json_char c = [char_of (92::nat), x] \<Longrightarrow> json_char d = [char_of (92::nat), x] \<Longrightarrow> c = d"
  by (auto simp: json_char_def Let_def split: if_splits intro: char_code_eq)

lemma json_char_prefix_free:
  assumes "json_char c @ r = json_char d @ r'"
  shows "c = d \<and> r = r'"
proof (cases c rule: json_char_shape)
  case plain
  with assms show ?thesis by (cases d rule: json_char_shape) auto
next
  case (escape x)
  with assms show ?thesis by (cases d rule: json_char_shape) (auto intro: json_char_escape_inj)
next
  case unicode
  with assms have d: "json_char d = char_of (92::nat) # ''u00'' @
      [hex_digit (of_char d div 16), hex_digit (of_char d mod 16)]"
    by (cases d rule: json_char_shape) auto
  have less: "(of_char c :: nat) div 16 < 16" "(of_char d :: nat) div 16 < 16"
    using nat_of_char_less_256 [of c] nat_of_char_less_256 [of d] by linarith+
  have eq: "hex_digit (of_char c div 16) = hex_digit (of_char d div 16)"
    "hex_digit (of_char c mod 16) = hex_digit (of_char d mod 16)" "r = r'"
    using assms unfolding unicode d by simp_all
  from eq(1) have "(of_char c :: nat) div 16 = of_char d div 16" by (rule hex_digit_inj [OF less])
  moreover from eq(2) have "(of_char c :: nat) mod 16 = of_char d mod 16"
    by (intro hex_digit_inj) simp_all
  ultimately have "(of_char c :: nat) = of_char d" by (metis div_mod_decomp)
  then show ?thesis using eq(3) by simp
qed

lemma json_char_not_quote: "json_char c @ r = char_of (34::nat) # r' \<Longrightarrow> False"
  by (cases c rule: json_char_shape) auto

lemma json_chars_prefix_free:
  "concat (map json_char s) @ char_of (34::nat) # r = concat (map json_char t) @ char_of (34::nat) # r' \<Longrightarrow>
   s = t \<and> r = r'"
proof (induction s arbitrary: t)
  case Nil
  then show ?case by (cases t) (auto dest!: json_char_not_quote [OF sym])
next
  case (Cons c s)
  then show ?case by (cases t) (auto dest: json_char_not_quote dest!: json_char_prefix_free)
qed

lemma json_string_prefix_free: "json_string s @ r = json_string t @ r' \<Longrightarrow> s = t \<and> r = r'"
  by (auto simp: json_string_def dest!: json_chars_prefix_free)

lemma json_string_head [simp]: "hd (json_string s @ r) = char_of (34::nat)" "json_string s \<noteq> []"
  by (simp_all add: json_string_def)


section \<open>The text of a value determines it\<close>

lemma quote_char: "char_of (34::nat) = CHR 0x22"
  by code_simp

lemma json_string_text: "json_string s = CHR 0x22 # concat (map json_char s) @ [CHR 0x22]"
  by (simp add: json_string_def quote_char)

lemmas json_chars_quote = json_chars_prefix_free [unfolded quote_char]

text \<open>What follows a value never starts with a digit.\<close>

definition stops :: "string \<Rightarrow> bool" where
  "stops r \<longleftrightarrow> r = [] \<or> \<not> is_digit (hd r)"

lemma stops_simps [simp]: "stops []" "stops (c # r) \<longleftrightarrow> \<not> is_digit c"
  by (simp_all add: stops_def)

lemma json_punctuation_not_digit [simp]:
  "\<not> is_digit (CHR '','')" "\<not> is_digit (CHR '':'')" "\<not> is_digit (CHR '']'')" "\<not> is_digit (CHR 0x7D)"
  "\<not> is_digit (CHR ''-'')" "\<not> is_digit (CHR ''['')" "\<not> is_digit (CHR 0x7B)" "\<not> is_digit (CHR 0x22)"
  "\<not> is_digit (CHR ''n'')" "\<not> is_digit (CHR ''t'')" "\<not> is_digit (CHR ''f'')"
  by (simp_all add: is_digit_def)

lemma show_nat_prefix_free:
  assumes "show_nat m @ r = show_nat n @ r'" and "stops r" and "stops r'"
  shows "m = n \<and> r = r'"
proof -
  have digits: "takeWhile is_digit (show_nat k @ q) = show_nat k" if "stops q" for k q
    using that show_nat_digits by (cases q) (simp_all add: takeWhile_append)
  have "show_nat m = show_nat n" using digits [OF assms(2), of m] digits [OF assms(3), of n] assms(1) by simp
  then show ?thesis using assms(1) by (simp add: show_nat_inj)
qed

lemma show_nat_head: "show_nat n @ r = c # s \<Longrightarrow> is_digit c"
  by (cases "show_nat n") (auto intro!: show_nat_digits [of c n])

lemma show_int_head: "show_int n @ r = c # s \<Longrightarrow> is_digit c \<or> c = CHR ''-''"
  by (auto simp: show_int_def split: if_splits dest: show_nat_head)

lemma show_int_prefix_free:
  assumes "show_int m @ r = show_int n @ r'" and "stops r" and "stops r'"
  shows "m = n \<and> r = r'"
proof (cases "m < 0"; cases "n < 0")
  assume "m < 0" "n < 0"
  then show ?thesis using assms by (auto simp: show_int_def dest!: show_nat_prefix_free)
next
  assume "\<not> m < 0" "\<not> n < 0"
  then show ?thesis using assms by (auto simp: show_int_def dest!: show_nat_prefix_free)
qed (use assms in \<open>auto simp: show_int_def dest: show_nat_head dest!: show_nat_head [OF sym]\<close>)

lemma join_text_Cons: "join_text sep (x # xs) = x @ (if xs = [] then [] else sep @ join_text sep xs)"
  by (cases xs) auto

text \<open>A list of printed items, closed by a character that neither separates nor starts an item.\<close>

lemma join_prefix_free:
  assumes "\<And>x y r r'. x \<in> set xs \<Longrightarrow> g x @ r = g y @ r' \<Longrightarrow> stops r \<Longrightarrow> stops r' \<Longrightarrow> x = y \<and> r = r'"
    and "\<And>y q. g y @ q \<noteq> [] \<and> hd (g y @ q) \<noteq> c" and "c \<noteq> CHR '',''" and "\<not> is_digit c"
    and "join_text '','' (map g xs) @ c # r = join_text '','' (map g ys) @ c # r'"
  shows "xs = ys \<and> r = r'"
  using assms(1,5)
proof (induction xs arbitrary: ys)
  case Nil
  show ?case
  proof (cases ys)
    case (Cons y ys')
    with Nil(2) assms(2) [of y] show ?thesis by (simp add: join_text_Cons) (metis list.sel(1))
  qed (use Nil in simp)
next
  case (Cons x xs)
  show ?case
  proof (cases ys)
    case Nil
    with Cons.prems(2) assms(2) [of x] show ?thesis by (simp add: join_text_Cons) (metis list.sel(1))
  next
    case ys: (Cons y ys')
    have stop: "stops ((if zs = [] then [] else '','' @ t) @ c # q)" for zs t q
      using assms(4) by simp
    from Cons.prems(2) ys have "g x @ ((if map g xs = [] then [] else '','' @ join_text '','' (map g xs)) @ c # r) =
        g y @ ((if map g ys' = [] then [] else '','' @ join_text '','' (map g ys')) @ c # r')"
      by (simp only: list.map join_text_Cons append_assoc)
    from Cons.prems(1) [OF list.set_intros(1) this stop stop] have xy: "x = y" and
      rest: "(if xs = [] then [] else '','' @ join_text '','' (map g xs)) @ c # r =
        (if ys' = [] then [] else '','' @ join_text '','' (map g ys')) @ c # r'"
      by simp_all
    show ?thesis
    proof (cases "xs = [] \<or> ys' = []")
      case True
      with rest assms(3) xy ys show ?thesis by (auto split: if_splits)
    next
      case False
      with rest have "join_text '','' (map g xs) @ c # r = join_text '','' (map g ys') @ c # r'" by simp
      from Cons.IH [OF Cons.prems(1) this] xy ys show ?thesis by simp
    qed
  qed
qed

lemma JSON_stringify_head:
  "JSON_stringify j @ r \<noteq> [] \<and> hd (JSON_stringify j @ r) \<noteq> CHR '']''"
proof (cases j)
  case (JNumber n)
  have "\<not> is_digit (CHR '']'')" by simp
  then show ?thesis using JNumber show_int_head [of n r]
    by (cases "show_int n @ r") (auto simp: show_int_def split: if_splits)
qed (auto simp: json_string_text)

abbreviation json_entry :: "string \<times> json \<Rightarrow> string" where
  "json_entry \<equiv> \<lambda>(k, v). json_string k @ '':'' @ JSON_stringify v"

lemma json_entry_head: "json_entry e @ r \<noteq> [] \<and> hd (json_entry e @ r) \<noteq> CHR 0x7D"
  by (cases e) (simp add: json_string_text)

lemma JSON_stringify_prefix_free:
  "JSON_stringify j @ r = JSON_stringify j' @ r' \<Longrightarrow> stops r \<Longrightarrow> stops r' \<Longrightarrow> j = j' \<and> r = r'"
proof (induction j arbitrary: j' r r')
  case JNull
  then show ?case by (cases j') (auto simp: json_string_text split: if_splits dest!: show_int_head [OF sym])
next
  case (JBool b)
  then show ?case
    by (cases j') (auto simp: json_string_text split: if_splits dest!: show_int_head [OF sym])
next
  case (JNumber n)
  then show ?case
    by (cases j') (auto simp: json_string_text split: if_splits dest!: show_int_head dest: show_int_prefix_free)
next
  case (JString s)
  then show ?case
    by (cases j') (auto simp: json_string_text split: if_splits
        dest!: show_int_head [OF sym] json_chars_quote)
next
  case (JArray xs)
  show ?case
  proof (cases j')
    case (JArray ys)
    with JArray.prems have "join_text '','' (map JSON_stringify xs) @ CHR '']'' # r =
        join_text '','' (map JSON_stringify ys) @ CHR '']'' # r'" by simp
    from join_prefix_free [OF _ JSON_stringify_head _ _ this] JArray.IH JArray show ?thesis by simp
  qed (use JArray.prems in \<open>auto simp: json_string_text split: if_splits dest!: show_int_head [OF sym]\<close>)
next
  case (JObject xs)
  show ?case
  proof (cases j')
    case (JObject ys)
    with JObject.prems have eq: "join_text '','' (map json_entry xs) @ CHR 0x7D # r =
        join_text '','' (map json_entry ys) @ CHR 0x7D # r'" by simp
    have "x = y \<and> q = q'"
      if x: "x \<in> set xs" and e: "json_entry x @ q = json_entry y @ q'" and st: "stops q" "stops q'" for x y q q'
    proof -
      obtain k v l w where xy: "x = (k, v)" "y = (l, w)" by (cases x; cases y)
      from e xy have "k = l" and "JSON_stringify v @ q = JSON_stringify w @ q'"
        by (auto dest!: json_string_prefix_free)
      with JObject.IH [OF x, of v] xy st show ?thesis by simp
    qed
    from join_prefix_free [OF this json_entry_head _ _ eq] JObject show ?thesis by simp
  qed (use JObject.prems in \<open>auto simp: json_string_text split: if_splits dest!: show_int_head [OF sym]\<close>)
qed

declare JSON_stringify.simps [simp del]

lemma JSON_stringify_inj: "JSON_stringify j = JSON_stringify j' \<longleftrightarrow> j = j'"
  using JSON_stringify_prefix_free [of j "[]" j' "[]"] by auto

end
