(* ===== verification/Refund.thy ===== *)
theory Refund
  imports PaymentsCommon PlatformCoverage JsonText
begin

text \<open>
  \<open>bounded-contexts/payments/features/refunds/domain\<close>: the refund aggregate of \<open>domain.ts\<close> and
  the causation of \<open>causation.ts\<close>, the references to a remedy and its allocation that a refund
  carries. The repeat of a request is compared with the recorded one by the printed text of its
  causation, so the state and the events hold the causation as the JSON object it is, with the order
  of its keys; \<open>causationJson\<close> is the object literal that \<open>normalizeRefundCausation\<close> returns.
\<close>

section \<open>Causation\<close>

text \<open>An allocation's \<open>fundingKind\<close> and the trigger are the texts their caller sent.\<close>

record LiabilityAllocationFactInput =
  lf_sellerFundedAmount :: string
  lf_platformFundedAmount :: string
  lf_currencyCode :: string
  lf_fundingKind :: string

record RefundCausationInput =
  ci_remedyId :: string
  ci_coverageId :: "string option"
  ci_allocation :: LiabilityAllocationFactInput
  ci_reasonCode :: string
  ci_refundTrigger :: string
  ci_refundTriggerEvidenceRef :: "string option"
  ci_policyVersion :: "string option"

record RefundCausation =
  rc_remedyId :: string
  rc_coverageId :: "string option"
  rc_allocation :: LiabilityAllocation
  rc_reasonCode :: string
  rc_refundTrigger :: RefundTrigger
  rc_refundTriggerEvidenceRef :: "string option"
  rc_policyVersion :: "string option"

fun fundingKindText :: "LiabilityFundingKind \<Rightarrow> string" where
  "fundingKindText SellerFunded = ''seller-funded''"
| "fundingKindText PlatformFunded = ''platform-funded''"
| "fundingKindText SplitFunded = ''split''"

fun refundTriggerText :: "RefundTrigger \<Rightarrow> string" where
  "refundTriggerText TriggerImmediate = ''immediate''"
| "refundTriggerText TriggerCarrierAccepted = ''carrier-accepted''"
| "refundTriggerText TriggerDelivered = ''delivered''"
| "refundTriggerText TriggerFacilityIntake = ''facility-intake''"
| "refundTriggerText TriggerOperatorRelease = ''operator-release''"

definition requiredText :: "string \<Rightarrow> string \<Rightarrow> string res" where
  "requiredText value message =
     (let trimmed = js_trim value in if trimmed = [] then Inl (Error message) else Inr trimmed)"

definition reconcileCoverageReference :: "LiabilityFundingKind \<Rightarrow> string option \<Rightarrow> string option res" where
  "reconcileCoverageReference fundingKind coverageId =
     (let trimmed = (case coverageId of None \<Rightarrow> [] | Some c \<Rightarrow> js_trim c);
          platformFunded = (fundingKind \<noteq> SellerFunded)
      in if platformFunded then
           (if trimmed = [] then Inl (Error ''A platform-funded refund requires an approved coverage reference.'')
            else Inr (Some trimmed))
         else if trimmed \<noteq> [] then Inl (Error ''A seller-funded refund must not carry a coverage reference.'')
         else Inr None)"

definition normalizeRefundCausation :: "RefundCausationInput \<Rightarrow> string \<Rightarrow> string \<Rightarrow> RefundCausation res" where
  "normalizeRefundCausation i refundAmount refundCurrencyCode =
     bindE (requiredText (ci_remedyId i) ''Refund causation requires a remedy id.'') (\<lambda>remedyId.
     bindE (normalizeLiabilityAllocation
              \<lparr>li_sellerFundedAmount = lf_sellerFundedAmount (ci_allocation i),
               li_platformFundedAmount = lf_platformFundedAmount (ci_allocation i),
               li_currencyCode = lf_currencyCode (ci_allocation i)\<rparr>) (\<lambda>allocation.
     if lf_fundingKind (ci_allocation i) \<noteq> [] \<and>
        lf_fundingKind (ci_allocation i) \<noteq> fundingKindText (la_fundingKind allocation)
     then Inl (Error ''Refund causation funding kind disagrees with its allocation components.'')
     else if la_currencyCode allocation \<noteq> refundCurrencyCode
     then Inl (Error ''Refund causation currency must match the refund currency.'')
     else
     bindE (moneyToCents (la_sellerFundedAmount allocation)) (\<lambda>sellerCents.
     bindE (moneyToCents (la_platformFundedAmount allocation)) (\<lambda>platformCents.
     bindE (moneyToCents refundAmount) (\<lambda>refundCents.
     if sellerCents + platformCents \<noteq> refundCents
     then Inl (Error ''Refund causation allocation must sum exactly to the refund amount.'')
     else
     bindE (reconcileCoverageReference (la_fundingKind allocation) (ci_coverageId i)) (\<lambda>coverageId.
     bindE (requiredText (ci_reasonCode i) ''Refund causation requires a structured reason code.'') (\<lambda>reasonCode.
     bindE (assertRefundTrigger (ci_refundTrigger i)) (\<lambda>refundTrigger.
       Inr \<lparr>rc_remedyId = remedyId, rc_coverageId = coverageId, rc_allocation = allocation,
            rc_reasonCode = reasonCode, rc_refundTrigger = refundTrigger,
            rc_refundTriggerEvidenceRef = normalizeOptionalText (ci_refundTriggerEvidenceRef i),
            rc_policyVersion = normalizeOptionalText (ci_policyVersion i)\<rparr>))))))))"

definition causationJson :: "RefundCausation \<Rightarrow> json" where
  "causationJson c = JObject
     [(''remedyId'', JString (rc_remedyId c)),
      (''coverageId'', nullable_text (rc_coverageId c)),
      (''allocation'', JObject
        [(''sellerFundedAmount'', JString (la_sellerFundedAmount (rc_allocation c))),
         (''platformFundedAmount'', JString (la_platformFundedAmount (rc_allocation c))),
         (''currencyCode'', JString (la_currencyCode (rc_allocation c))),
         (''fundingKind'', JString (fundingKindText (la_fundingKind (rc_allocation c))))]),
      (''reasonCode'', JString (rc_reasonCode c)),
      (''refundTrigger'', JString (refundTriggerText (rc_refundTrigger c))),
      (''refundTriggerEvidenceRef'', nullable_text (rc_refundTriggerEvidenceRef c)),
      (''policyVersion'', nullable_text (rc_policyVersion c))]"

definition refundCausationsEqual :: "json option \<Rightarrow> json option \<Rightarrow> bool" where
  "refundCausationsEqual left right \<longleftrightarrow>
     JSON_stringify (case left of None \<Rightarrow> JNull | Some j \<Rightarrow> j) =
     JSON_stringify (case right of None \<Rightarrow> JNull | Some j \<Rightarrow> j)"

definition refundIdForRemedy :: "string \<Rightarrow> string res" where
  "refundIdForRemedy remedyId =
     bindE (requiredText remedyId ''A remedy id is required to derive a refund id.'') (\<lambda>text.
       Inr (''rfd_'' @ (if js_startsWith text ''rmd_'' then drop 4 text else text)))"


section \<open>State, commands and events\<close>

record RefundState =
  rf_refundId :: "string option"
  rf_paymentId :: "string option"
  rf_orderIds :: "string list"
  rf_amount :: "string option"
  rf_currencyCode :: "PaymentsCurrencyCode option"
  rf_reason :: "string option"
  rf_processorName :: "PaymentProcessorName option"
  rf_processorRefundReference :: "string option"
  rf_processorStatus :: "string option"
  rf_status :: "RefundStatus option"
  rf_failureCode :: "string option"
  rf_failureMessage :: "string option"
  rf_causation :: "json option"
  rf_requestedAt :: "string option"
  rf_issuedAt :: "string option"
  rf_failedAt :: "string option"

definition initialRefundState :: RefundState where
  "initialRefundState =
     \<lparr>rf_refundId = None, rf_paymentId = None, rf_orderIds = [], rf_amount = None,
      rf_currencyCode = None, rf_reason = None, rf_processorName = None,
      rf_processorRefundReference = None, rf_processorStatus = None, rf_status = None,
      rf_failureCode = None, rf_failureMessage = None, rf_causation = None,
      rf_requestedAt = None, rf_issuedAt = None, rf_failedAt = None\<rparr>"

record RequestRefundCommand =
  rr_refundId :: string
  rr_paymentId :: string
  rr_orderIds :: "string list"
  rr_amount :: string
  rr_currencyCode :: string
  rr_reason :: string
  rr_processorName :: string
  rr_causation :: "RefundCausationInput option"
  rr_requestedAt :: string

datatype RefundCommand =
    RequestRefund RequestRefundCommand
  | RecordRefundIssued (ri_processorRefundReference: string) (ri_processorStatus: string) (ri_issuedAt: string)
  | RecordRefundFailure (rx_processorStatus: string) (rx_failureCode: "string option")
      (rx_failureMessage: "string option") (rx_failedAt: string)

record RefundRequested =
  eq_refundId :: string
  eq_paymentId :: string
  eq_orderIds :: "string list"
  eq_amount :: string
  eq_currencyCode :: PaymentsCurrencyCode
  eq_reason :: string
  eq_processorName :: PaymentProcessorName
  eq_causation :: "json option"
  eq_requestedAt :: string

text \<open>
  The two later events copy the fields of the state without a check (\<open>state.paymentId!\<close>), so
  their values may be null like the state's.
\<close>

record RefundReferences =
  ref_refundId :: string
  ref_paymentId :: "string option"
  ref_orderIds :: "string list"
  ref_amount :: "string option"
  ref_currencyCode :: "PaymentsCurrencyCode option"
  ref_reason :: "string option"
  ref_processorName :: "PaymentProcessorName option"
  ref_causation :: "json option"

datatype RefundEvent =
    RefundRequestedEvent RefundRequested
  | RefundIssuedEvent (ie_references: RefundReferences) (ie_processorRefundReference: string)
      (ie_processorStatus: string) (ie_issuedAt: string)
  | RefundFailedEvent (fe_references: RefundReferences) (fe_processorStatus: string)
      (fe_failureCode: "string option") (fe_failureMessage: "string option") (fe_failedAt: string)

definition refundReferences :: "RefundState \<Rightarrow> string \<Rightarrow> RefundReferences" where
  "refundReferences state refundId =
     \<lparr>ref_refundId = refundId, ref_paymentId = rf_paymentId state, ref_orderIds = rf_orderIds state,
      ref_amount = rf_amount state, ref_currencyCode = rf_currencyCode state,
      ref_reason = rf_reason state, ref_processorName = rf_processorName state,
      ref_causation = rf_causation state\<rparr>"


section \<open>The decider\<close>

definition refundCausationOf :: "RefundCausationInput option \<Rightarrow> string \<Rightarrow> PaymentsCurrencyCode \<Rightarrow> json option res" where
  "refundCausationOf input amount currencyCode =
     (case input of
        None \<Rightarrow> Inr None
      | Some i \<Rightarrow> bindE (normalizeRefundCausation i amount (paymentsCurrencyText currencyCode))
                   (\<lambda>c. Inr (Some (causationJson c))))"

definition decideRequestRefund :: "host \<Rightarrow> RefundState \<Rightarrow> RequestRefundCommand \<Rightarrow> RefundEvent list res" where
  "decideRequestRefund h state command =
     bindE (normalizeOrderIds (rr_orderIds command)) (\<lambda>orderIds.
     bindE (paymentsMoneyAmount (rr_amount command) False ''Refund amount'') (\<lambda>amount.
     bindE (paymentsCurrencyCode (rr_currencyCode command)) (\<lambda>currencyCode.
     bindE (paymentsRequiredText (rr_reason command) ''Refund reason is required.'') (\<lambda>reason.
     bindE (normalizeProcessorName (rr_processorName command)) (\<lambda>processorName.
     bindE (paymentsIsoTimestamp h (rr_requestedAt command) ''Refund request must include a timestamp.'') (\<lambda>requestedAt.
     bindE (refundCausationOf (rr_causation command) amount currencyCode) (\<lambda>causation.
     if rf_refundId state \<noteq> None then
       ensure (rf_refundId state = Some (rr_refundId command) \<and>
               rf_paymentId state = Some (rr_paymentId command) \<and>
               rf_orderIds state = orderIds \<and> rf_amount state = Some amount \<and>
               rf_currencyCode state = Some currencyCode \<and> rf_reason state = Some reason \<and>
               rf_processorName state = Some processorName \<and>
               refundCausationsEqual (rf_causation state) causation)
         (PaymentsInvalid ''Refund request does not match the existing refund.'') (Inr [])
     else
       Inr [RefundRequestedEvent
              \<lparr>eq_refundId = rr_refundId command, eq_paymentId = rr_paymentId command,
               eq_orderIds = orderIds, eq_amount = amount, eq_currencyCode = currencyCode,
               eq_reason = reason, eq_processorName = processorName, eq_causation = causation,
               eq_requestedAt = requestedAt\<rparr>])))))))"

definition decideRecordRefundIssued ::
    "host \<Rightarrow> RefundState \<Rightarrow> string \<Rightarrow> string \<Rightarrow> string \<Rightarrow> RefundEvent list res" where
  "decideRecordRefundIssued h state rawReference rawStatus rawIssuedAt =
     (case rf_refundId state of
        None \<Rightarrow> Inl (PaymentsInvalid ''Refund must be requested first.'')
      | Some refundId \<Rightarrow>
     if rf_status state = Some RefundIssuedSt then Inr []
     else
     bindE (paymentsRequiredText rawReference ''Processor refund reference is required.'') (\<lambda>reference.
     bindE (paymentsRequiredText rawStatus ''Processor refund status is required.'') (\<lambda>processorStatus.
     bindE (paymentsIsoTimestamp h rawIssuedAt ''Refund issuance must include a timestamp.'') (\<lambda>issuedAt.
       Inr [RefundIssuedEvent (refundReferences state refundId) reference processorStatus issuedAt]))))"

definition decideRecordRefundFailure ::
    "host \<Rightarrow> RefundState \<Rightarrow> string \<Rightarrow> string option \<Rightarrow> string option \<Rightarrow> string \<Rightarrow> RefundEvent list res" where
  "decideRecordRefundFailure h state rawStatus rawCode rawMessage rawFailedAt =
     (case rf_refundId state of
        None \<Rightarrow> Inl (PaymentsInvalid ''Refund must be requested first.'')
      | Some refundId \<Rightarrow>
     if rf_status state = Some RefundFailedSt then Inr []
     else
     ensure (rf_status state \<noteq> Some RefundIssuedSt) (PaymentsInvalid ''Issued refunds cannot fail.'') (
     bindE (paymentsRequiredText rawStatus ''Processor refund status is required.'') (\<lambda>processorStatus.
     bindE (paymentsIsoTimestamp h rawFailedAt ''Refund failure must include a timestamp.'') (\<lambda>failedAt.
       Inr [RefundFailedEvent (refundReferences state refundId) processorStatus
              (normalizeOptionalText rawCode) (normalizeOptionalText rawMessage) failedAt]))))"

fun decideRefund :: "host \<Rightarrow> RefundState \<Rightarrow> RefundCommand \<Rightarrow> RefundEvent list res" where
  "decideRefund h state (RequestRefund c) = decideRequestRefund h state c"
| "decideRefund h state (RecordRefundIssued reference status issuedAt) =
     decideRecordRefundIssued h state reference status issuedAt"
| "decideRefund h state (RecordRefundFailure status code failureMessage failedAt) =
     decideRecordRefundFailure h state status code failureMessage failedAt"


section \<open>The evolver\<close>

fun evolveRefund :: "RefundState \<Rightarrow> RefundEvent \<Rightarrow> RefundState res" where
  "evolveRefund state (RefundRequestedEvent d) =
     Inr \<lparr>rf_refundId = Some (eq_refundId d), rf_paymentId = Some (eq_paymentId d),
          rf_orderIds = eq_orderIds d, rf_amount = Some (eq_amount d),
          rf_currencyCode = Some (eq_currencyCode d), rf_reason = Some (eq_reason d),
          rf_processorName = Some (eq_processorName d), rf_processorRefundReference = None,
          rf_processorStatus = Some ''requested'', rf_status = Some RefundRequestedSt,
          rf_failureCode = None, rf_failureMessage = None, rf_causation = eq_causation d,
          rf_requestedAt = Some (eq_requestedAt d), rf_issuedAt = None, rf_failedAt = None\<rparr>"
| "evolveRefund state (RefundIssuedEvent refs reference processorStatus issuedAt) =
     bindE (normalizeRefundStatus ''issued'') (\<lambda>status.
       Inr (state\<lparr>rf_processorRefundReference := Some reference, rf_processorStatus := Some processorStatus,
                  rf_status := Some status, rf_failureCode := None, rf_failureMessage := None,
                  rf_issuedAt := Some issuedAt\<rparr>))"
| "evolveRefund state (RefundFailedEvent refs processorStatus code failureMessage failedAt) =
     bindE (normalizeRefundStatus ''failed'') (\<lambda>status.
       Inr (state\<lparr>rf_processorStatus := Some processorStatus, rf_status := Some status,
                  rf_failureCode := code, rf_failureMessage := failureMessage,
                  rf_failedAt := Some failedAt\<rparr>))"

end
