(* ===== verification/RefundReconciliation.thy ===== *)
theory RefundReconciliation
  imports Refund LiabilityFacts
begin

text \<open>
  The part of \<open>settlement/features/wallets/integrations/payment-source/payment-source-projection.ts\<close>
  that settles a completed refund: the allocation it reads from the causation a refund carries
  (\<open>recordRefundCausationAllocation\<close>), and what \<open>reconcileRefundLiability\<close> posts, settles or
  quarantines. The wallet postings and the rows it writes are effects; the model returns them as a
  plan. The read of a coverage is a parameter, absent when the port is not configured.
\<close>

section \<open>The allocation a refund carries\<close>

definition json_field :: "string \<Rightarrow> json \<Rightarrow> json option" where
  "json_field k j = (case j of JObject entries \<Rightarrow> map_of entries k | _ \<Rightarrow> None)"

definition text_field :: "string \<Rightarrow> json \<Rightarrow> string option" where
  "text_field k j = (case json_field k j of Some (JString s) \<Rightarrow> Some s | _ \<Rightarrow> None)"

definition defaultText :: "string option \<Rightarrow> string \<Rightarrow> string" where
  "defaultText value fallback = (case value of None \<Rightarrow> fallback | Some s \<Rightarrow> s)"

definition recordRefundCausationAllocation :: "string option \<Rightarrow> json option \<Rightarrow> AuthorizedRefundAllocation option" where
  "recordRefundCausationAllocation refundId causation =
     (case (refundId, causation) of
        (Some i, Some c) \<Rightarrow>
          (case (text_field ''remedyId'' c, json_field ''allocation'' c) of
             (Some remedyId, Some allocation) \<Rightarrow>
               (case map_of liabilityFundingKinds (defaultText (text_field ''fundingKind'' allocation) []) of
                  Some fundingKind \<Rightarrow>
                    if i = [] \<or> remedyId = [] then None
                    else Some
                      \<lparr>aa_refundId = i, aa_remedyId = remedyId, aa_coverageId = text_field ''coverageId'' c,
                       aa_sellerFundedAmount = defaultText (text_field ''sellerFundedAmount'' allocation) ''0.00'',
                       aa_platformFundedAmount = defaultText (text_field ''platformFundedAmount'' allocation) ''0.00'',
                       aa_currencyCode = defaultText (text_field ''currencyCode'' allocation) ''usd'',
                       aa_fundingKind = fundingKind\<rparr>
                | None \<Rightarrow> None)
           | _ \<Rightarrow> None)
      | _ \<Rightarrow> None)"


section \<open>The plan of a completed refund\<close>

record CoverageSettlement =
  cs_coverageId :: string
  cs_refundId :: string
  cs_platformFundedAmount :: string
  cs_sellerFundedAmount :: string
  cs_policyVersion :: string

record RefundPlan =
  rp_debitAmounts :: "string list"
  rp_settlement :: "CoverageSettlement option"

datatype ReconcileOutcome =
    SellerDefault
  | Quarantine RefundLiabilityQuarantineReason string
  | Reconciled RefundPlan

definition coverageReservationFor ::
    "AuthorizedRefundAllocation \<Rightarrow> (string \<Rightarrow> CoverageReservationState option) option \<Rightarrow>
     CoverageReservationState option" where
  "coverageReservationFor allocation protectionCoverage =
     (case (aa_coverageId allocation, protectionCoverage) of
        (Some coverageId, Some getCoverage) \<Rightarrow> if coverageId = [] then None else getCoverage coverageId
      | _ \<Rightarrow> None)"

definition settlementFor ::
    "AllocatedLiability \<Rightarrow> string \<Rightarrow> CoverageReservationState option \<Rightarrow> CoverageSettlement option res" where
  "settlementFor decision refundId reservation =
     bindE (compareMoneyAmounts (al_platformSettleAmount decision) ''0.00'') (\<lambda>order.
       Inr (case (al_coverageId decision, reservation) of
              (Some coverageId, Some r) \<Rightarrow>
                if order > 0 \<and> \<not> al_alreadySettled decision \<and> coverageId \<noteq> []
                then Some \<lparr>cs_coverageId = coverageId, cs_refundId = refundId,
                           cs_platformFundedAmount = al_platformSettleAmount decision,
                           cs_sellerFundedAmount = al_sellerDebitAmount decision,
                           cs_policyVersion = cv_policyVersion r\<rparr>
                else None
            | _ \<Rightarrow> None))"

definition reconcileRefundLiability ::
    "AuthorizedRefundAllocation option \<Rightarrow> string \<Rightarrow> string \<Rightarrow>
     (string \<Rightarrow> CoverageReservationState option) option \<Rightarrow> SellerPayoutWeight list \<Rightarrow> ReconcileOutcome res" where
  "reconcileRefundLiability allocationRow refundAmount currencyCode protectionCoverage weights =
     (case allocationRow of
        None \<Rightarrow> Inr SellerDefault
      | Some allocation \<Rightarrow>
     let reservation = coverageReservationFor allocation protectionCoverage in
     bindE (decideRefundLiability
              \<lparr>dl_allocation = Some allocation, dl_completedRefundAmount = refundAmount,
               dl_completedCurrencyCode = currencyCode, dl_reservation = reservation\<rparr>) (\<lambda>decision.
     case decision of
       Quarantined reasonCode detail \<Rightarrow> Inr (Quarantine reasonCode detail)
     | SellerFundedDefault _ \<Rightarrow> Inr SellerDefault
     | Allocated d \<Rightarrow>
     bindE (distributeSellerFundedPortion (al_sellerDebitAmount d) weights) (\<lambda>debitAmounts.
     bindE (mapE moneyToCents debitAmounts) (\<lambda>debitCents.
     bindE (moneyToCents (al_sellerDebitAmount d)) (\<lambda>sellerCents.
     if sum_list debitCents \<noteq> sellerCents
     then Inr (Quarantine QNoSellerExposure
                 (''Seller-funded portion '' @ al_sellerDebitAmount d @
                  '' has no seller exposure to post against.''))
     else
     bindE (settlementFor d (aa_refundId allocation) reservation) (\<lambda>settlement.
       Inr (Reconciled \<lparr>rp_debitAmounts = debitAmounts, rp_settlement = settlement\<rparr>)))))))"

end
