(* ===== verification/RefundFacts.thy ===== *)
theory RefundFacts
  imports Refund RefundReconciliation
begin

text \<open>
  What holds of every refund: its invariant, its life cycle, what a repeated request answers, and
  what the causation it carries means to settlement.
\<close>

section \<open>Causation\<close>

definition causation_ok :: "RefundCausation \<Rightarrow> string \<Rightarrow> bool" where
  "causation_ok c amount \<longleftrightarrow>
     rc_remedyId c \<noteq> [] \<and> allocation_ok (rc_allocation c) \<and>
     la_currencyCode (rc_allocation c) = ''usd'' \<and>
     centsOf (la_sellerFundedAmount (rc_allocation c)) + centsOf (la_platformFundedAmount (rc_allocation c)) = centsOf amount \<and>
     (case rc_coverageId c of
        None \<Rightarrow> la_fundingKind (rc_allocation c) = SellerFunded
      | Some i \<Rightarrow> la_fundingKind (rc_allocation c) \<noteq> SellerFunded \<and> i \<noteq> [] \<and> js_trim i = i)"

lemma requiredText_Inr [res_simps]: "requiredText v m = Inr t \<longleftrightarrow> t = js_trim v \<and> js_trim v \<noteq> []"
  by (auto simp: requiredText_def Let_def)

lemma reconcileCoverageReference_Inr:
  "reconcileCoverageReference k v = Inr c \<Longrightarrow>
   (case c of None \<Rightarrow> k = SellerFunded | Some i \<Rightarrow> k \<noteq> SellerFunded \<and> i \<noteq> [] \<and> js_trim i = i)"
  by (auto simp: reconcileCoverageReference_def Let_def split: if_splits option.splits)

lemma normalizeRefundCausation_ok:
  assumes "normalizeRefundCausation i amount ''usd'' = Inr c" and "canonical amount" and "0 \<le> centsOf amount"
  shows "causation_ok c amount"
proof -
  from assms(1) obtain a seller platform total where
    n: "normalizeLiabilityAllocation \<lparr>li_sellerFundedAmount = lf_sellerFundedAmount (ci_allocation i),
         li_platformFundedAmount = lf_platformFundedAmount (ci_allocation i),
         li_currencyCode = lf_currencyCode (ci_allocation i)\<rparr> = Inr a"
    and c: "moneyToCents (la_sellerFundedAmount a) = Inr seller" "moneyToCents (la_platformFundedAmount a) = Inr platform"
      "moneyToCents amount = Inr total" "seller + platform = total" "la_currencyCode a = ''usd''"
    and r: "rc_allocation c = a" "rc_remedyId c \<noteq> []" "reconcileCoverageReference (la_fundingKind a) (ci_coverageId i) = Inr (rc_coverageId c)"
    by (auto simp: normalizeRefundCausation_def res_simps split: if_splits)
  have ok: "allocation_ok a" by (rule normalizeLiabilityAllocation_ok [OF n])
  then have "seller = centsOf (la_sellerFundedAmount a)" "platform = centsOf (la_platformFundedAmount a)"
    "total = centsOf amount"
    using c assms(2,3) by (simp_all add: allocation_ok_def money_simps)
  then show ?thesis
    using ok c r reconcileCoverageReference_Inr [OF r(3)]
    by (simp add: causation_ok_def) (simp split: option.splits)
qed

lemma refundCausationsEqual_iff:
  "refundCausationsEqual (map_option causationJson l) (map_option causationJson r) \<longleftrightarrow>
   map_option causationJson l = map_option causationJson r"
  by (cases l; cases r) (simp_all add: refundCausationsEqual_def JSON_stringify_inj causationJson_def)

lemma refundCausationsEqual_object:
  "refundCausationsEqual (Some (JObject a)) (Some (JObject b)) \<longleftrightarrow> a = b"
  by (simp add: refundCausationsEqual_def JSON_stringify_inj)


section \<open>The invariant\<close>

definition refund_wf :: "RefundState \<Rightarrow> bool" where
  "refund_wf s \<longleftrightarrow>
     rf_paymentId s \<noteq> None \<and> rf_orderIds s \<noteq> [] \<and> normalizeOrderIds (rf_orderIds s) = Inr (rf_orderIds s) \<and>
     (\<exists>a. rf_amount s = Some a \<and> canonical a \<and> 0 < centsOf a \<and>
          (\<forall>j. rf_causation s = Some j \<longrightarrow> (\<exists>c. j = causationJson c \<and> causation_ok c a))) \<and>
     rf_currencyCode s = Some UsdPayments \<and> rf_processorName s = Some Stripe \<and>
     (\<exists>r. rf_reason s = Some r \<and> r \<noteq> [] \<and> js_trim r = r) \<and> rf_requestedAt s \<noteq> None \<and>
     (case rf_status s of
        None \<Rightarrow> False
      | Some RefundRequestedSt \<Rightarrow> rf_issuedAt s = None \<and> rf_failedAt s = None \<and> rf_processorRefundReference s = None
      | Some RefundIssuedSt \<Rightarrow> rf_issuedAt s \<noteq> None \<and> rf_processorRefundReference s \<noteq> None \<and>
                              rf_failureCode s = None \<and> rf_failureMessage s = None
      | Some RefundFailedSt \<Rightarrow> rf_failedAt s \<noteq> None \<and> rf_issuedAt s = None)"

definition refund_inv :: "RefundState \<Rightarrow> bool" where
  "refund_inv s \<longleftrightarrow> s = initialRefundState \<or> rf_refundId s \<noteq> None \<and> refund_wf s"

lemma initial_refund [simp]: "rf_refundId initialRefundState = None" "rf_status initialRefundState = None"
  by (simp_all add: initialRefundState_def)

lemma refund_status_texts [simp]:
  "normalizeRefundStatus ''issued'' = Inr RefundIssuedSt" "normalizeRefundStatus ''failed'' = Inr RefundFailedSt"
  by code_simp+

text \<open>What a request normalises to, whatever the refund's state.\<close>

definition refund_request :: "host \<Rightarrow> RequestRefundCommand \<Rightarrow> RefundRequested res" where
  "refund_request h c =
     bindE (decideRequestRefund h initialRefundState c) (\<lambda>es.
       case es of [RefundRequestedEvent d] \<Rightarrow> Inr d | _ \<Rightarrow> Inl (Error []))"

definition matches_refund :: "RefundState \<Rightarrow> RefundRequested \<Rightarrow> bool" where
  "matches_refund s d \<longleftrightarrow>
     rf_refundId s = Some (eq_refundId d) \<and> rf_paymentId s = Some (eq_paymentId d) \<and>
     rf_orderIds s = eq_orderIds d \<and> rf_amount s = Some (eq_amount d) \<and>
     rf_currencyCode s = Some (eq_currencyCode d) \<and> rf_reason s = Some (eq_reason d) \<and>
     rf_processorName s = Some (eq_processorName d) \<and> rf_causation s = eq_causation d"

lemma refundCausationOf_Inr:
  "refundCausationOf i a cur = Inr j \<Longrightarrow> j = None \<or>
   (\<exists>c x. j = Some (causationJson c) \<and> normalizeRefundCausation x a (paymentsCurrencyText cur) = Inr c)"
  by (auto simp: refundCausationOf_def res_simps split: option.splits)

lemma causation_compare:
  "(\<forall>j. x = Some j \<longrightarrow> (\<exists>c. j = causationJson c)) \<Longrightarrow> (\<forall>j. y = Some j \<longrightarrow> (\<exists>c. j = causationJson c)) \<Longrightarrow>
   refundCausationsEqual x y \<longleftrightarrow> x = y"
  using refundCausationsEqual_iff
  by (cases x; cases y) (auto simp: refundCausationsEqual_def JSON_stringify_inj causationJson_def)

lemma refund_request_Inr:
  "refund_request h c = Inr d \<longleftrightarrow> decideRequestRefund h initialRefundState c = Inr [RefundRequestedEvent d]"
  by (auto simp: refund_request_def res_simps decideRequestRefund_def)

lemma request_on_new:
  "decideRequestRefund h s c = Inr es \<Longrightarrow> rf_refundId s = None \<Longrightarrow>
   \<exists>d. es = [RefundRequestedEvent d] \<and> refund_request h c = Inr d"
  by (auto simp: refund_request_Inr decideRequestRefund_def res_simps)

lemma request_on_existing:
  assumes "rf_refundId s \<noteq> None"
  shows "decideRequestRefund h s c = bindE (refund_request h c) (\<lambda>d.
     ensure (matches_refund (s\<lparr>rf_causation := eq_causation d\<rparr>) d \<and>
             refundCausationsEqual (rf_causation s) (eq_causation d))
       (PaymentsInvalid ''Refund request does not match the existing refund.'') (Inr []))"
  using assms
  by (auto simp: refund_request_def decideRequestRefund_def bindE_assoc matches_refund_def intro!: bindE_cong)

lemma request_on_old:
  assumes "rf_refundId s \<noteq> None" and "\<forall>j. rf_causation s = Some j \<longrightarrow> (\<exists>c. j = causationJson c)"
  shows "decideRequestRefund h s c = bindE (refund_request h c) (\<lambda>d.
     ensure (matches_refund s d) (PaymentsInvalid ''Refund request does not match the existing refund.'') (Inr []))"
proof -
  have "\<forall>j. eq_causation d = Some j \<longrightarrow> (\<exists>c. j = causationJson c)" if "refund_request h c = Inr d" for d
    using that refundCausationOf_Inr by (fastforce simp: refund_request_Inr decideRequestRefund_def res_simps)
  then show ?thesis
    by (auto simp: request_on_existing [OF assms(1)] causation_compare [OF assms(2)] matches_refund_def
        intro!: bindE_cong)
qed

lemma refund_request_wf:
  assumes "refund_request h c = Inr d" and "evolveRefund s (RefundRequestedEvent d) = Inr s'"
  shows "rf_refundId s' \<noteq> None \<and> refund_wf s' \<and> matches_refund s' d \<and> rf_status s' = Some RefundRequestedSt"
proof -
  from assms(1) obtain j where j: "eq_causation d = j" "refundCausationOf (rr_causation c) (eq_amount d) UsdPayments = Inr j"
    and am: "paymentsMoneyAmount (rr_amount c) False ''Refund amount'' = Inr (eq_amount d)"
    and ids: "normalizeOrderIds (rr_orderIds c) = Inr (eq_orderIds d)"
    and rest: "eq_currencyCode d = UsdPayments" "eq_processorName d = Stripe" "eq_reason d \<noteq> []"
      "js_trim (eq_reason d) = eq_reason d"
    by (auto simp: refund_request_Inr decideRequestRefund_def res_simps
        dest!: paymentsCurrencyCode_Inr normalizeProcessorName_Inr)
  have amount: "canonical (eq_amount d)" "0 < centsOf (eq_amount d)"
    using paymentsMoneyAmount_Inr [OF am] by simp_all
  have "\<exists>k. x = causationJson k \<and> causation_ok k (eq_amount d)" if "j = Some x" for x
    using refundCausationOf_Inr [OF j(2)] that normalizeRefundCausation_ok [OF _ amount(1)] amount(2) by auto
  moreover have "eq_orderIds d \<noteq> []" using ids by (auto simp: normalizeOrderIds_Inr js_unique_Nil_iff)
  ultimately show ?thesis
    using assms(2) j(1) amount rest normalizeOrderIds_idem [OF ids]
    by (auto simp: refund_wf_def matches_refund_def)
qed


section \<open>The life cycle\<close>

datatype refund_phase = NoRefund | RefundOpen | RefundFailed | RefundIssued

inductive refund_step :: "refund_phase \<Rightarrow> RefundEvent \<Rightarrow> refund_phase \<Rightarrow> bool" where
  step_requested: "refund_step NoRefund (RefundRequestedEvent d) RefundOpen"
| step_issued: "p = RefundOpen \<or> p = RefundFailed \<Longrightarrow> refund_step p (RefundIssuedEvent refs r st t) RefundIssued"
| step_failed: "refund_step RefundOpen (RefundFailedEvent refs st c m t) RefundFailed"

inductive_cases refund_stepE: "refund_step p e q"

inductive_simps refund_step_simps [simp]:
  "refund_step p (RefundRequestedEvent d) q"
  "refund_step p (RefundIssuedEvent refs r st t) q"
  "refund_step p (RefundFailedEvent refs st c m t) q"

fun refund_phase_of_status :: "RefundStatus option \<Rightarrow> refund_phase" where
  "refund_phase_of_status None = NoRefund"
| "refund_phase_of_status (Some RefundRequestedSt) = RefundOpen"
| "refund_phase_of_status (Some RefundFailedSt) = RefundFailed"
| "refund_phase_of_status (Some RefundIssuedSt) = RefundIssued"

abbreviation refund_phase_of :: "RefundState \<Rightarrow> refund_phase" where
  "refund_phase_of s \<equiv> refund_phase_of_status (rf_status s)"

fun issues_refund :: "RefundEvent \<Rightarrow> bool" where
  "issues_refund (RefundIssuedEvent refs r st t) = True"
| "issues_refund _ = False"

text \<open>The references an event carries: those of the request.\<close>

fun event_references :: "RefundEvent \<Rightarrow> RefundReferences" where
  "event_references (RefundRequestedEvent d) =
     \<lparr>ref_refundId = eq_refundId d, ref_paymentId = Some (eq_paymentId d), ref_orderIds = eq_orderIds d,
      ref_amount = Some (eq_amount d), ref_currencyCode = Some (eq_currencyCode d),
      ref_reason = Some (eq_reason d), ref_processorName = Some (eq_processorName d),
      ref_causation = eq_causation d\<rparr>"
| "event_references (RefundIssuedEvent refs r st t) = refs"
| "event_references (RefundFailedEvent refs st c m t) = refs"

definition keeps_request :: "RefundState \<Rightarrow> RefundState \<Rightarrow> bool" where
  "keeps_request s s' \<longleftrightarrow> (\<forall>d. matches_refund s d \<longrightarrow> matches_refund s' d)"

lemma refund_status_cases:
  "refund_inv s \<Longrightarrow> rf_refundId s = Some i \<Longrightarrow>
   rf_status s = Some RefundRequestedSt \<or> rf_status s = Some RefundIssuedSt \<or> rf_status s = Some RefundFailedSt"
  by (auto simp: refund_inv_def refund_wf_def split: option.splits RefundStatus.splits)

lemma refund_references_match:
  "matches_refund s d \<Longrightarrow> refundReferences s (eq_refundId d) = event_references (RefundRequestedEvent d)"
  by (simp add: matches_refund_def refundReferences_def)

lemma refund_causation_json:
  "refund_inv s \<Longrightarrow> rf_refundId s \<noteq> None \<Longrightarrow> \<forall>j. rf_causation s = Some j \<longrightarrow> (\<exists>c. j = causationJson c)"
  by (auto simp: refund_inv_def refund_wf_def)

lemma decided_refund_cases:
  assumes "decideRefund h s c = Inr es" and "refund_inv s"
  obtains (noop) "es = []"
    | (requested) d k s' where "c = RequestRefund k" "es = [RefundRequestedEvent d]" "s = initialRefundState"
        "refund_request h k = Inr d" "evolveRefund s (RefundRequestedEvent d) = Inr s'"
        "rf_refundId s' \<noteq> None" "refund_wf s'" "matches_refund s' d" "refund_phase_of s' = RefundOpen"
    | (issued) i r st t s' where "es = [RefundIssuedEvent (refundReferences s i) r st t]" "rf_refundId s = Some i"
        "refund_phase_of s = RefundOpen \<or> refund_phase_of s = RefundFailed"
        "evolveRefund s (RefundIssuedEvent (refundReferences s i) r st t) = Inr s'"
        "refund_inv s'" "refund_phase_of s' = RefundIssued" "keeps_request s s'"
    | (failed) i st x m t s' where "es = [RefundFailedEvent (refundReferences s i) st x m t]" "rf_refundId s = Some i"
        "refund_phase_of s = RefundOpen"
        "evolveRefund s (RefundFailedEvent (refundReferences s i) st x m t) = Inr s'"
        "refund_inv s'" "refund_phase_of s' = RefundFailed" "keeps_request s s'"
proof (cases c)
  case (RequestRefund k)
  show ?thesis
  proof (cases "rf_refundId s")
    case None
    then have s: "s = initialRefundState" using assms(2) by (auto simp: refund_inv_def)
    from request_on_new [of h s k es] assms(1) RequestRefund None obtain d where
      d: "es = [RefundRequestedEvent d]" "refund_request h k = Inr d" by auto
    obtain s' where s': "evolveRefund s (RefundRequestedEvent d) = Inr s'" by simp
    from refund_request_wf [OF d(2) s'] requested [OF RequestRefund d(1) s d(2) s'] show ?thesis by simp
  next
    case (Some i)
    with request_on_old [of s h k] refund_causation_json [OF assms(2)] assms(1) RequestRefund
    have "es = []" by (auto simp: res_simps)
    then show ?thesis by (rule noop)
  qed
next
  case (RecordRefundIssued r st t)
  show ?thesis
  proof (cases "es = []")
    case False
    with RecordRefundIssued assms(1) obtain i where i: "rf_refundId s = Some i" "rf_status s \<noteq> Some RefundIssuedSt"
      "es = [RefundIssuedEvent (refundReferences s i) (js_trim r) (js_trim st) t]"
      by (auto simp: decideRecordRefundIssued_def res_simps split: option.splits if_splits)
    then have "refund_wf s" using assms(2) by (auto simp: refund_inv_def)
    with i refund_status_cases [OF assms(2) i(1)] show ?thesis
      by (intro issued [OF i(3,1) _]) (auto simp: refund_inv_def refund_wf_def keeps_request_def matches_refund_def)
  qed (rule noop)
next
  case (RecordRefundFailure st x m t)
  show ?thesis
  proof (cases "es = []")
    case False
    with RecordRefundFailure assms(1) obtain i where i: "rf_refundId s = Some i" "rf_status s \<noteq> Some RefundIssuedSt"
      "rf_status s \<noteq> Some RefundFailedSt"
      "es = [RefundFailedEvent (refundReferences s i) (js_trim st) (normalizeOptionalText x) (normalizeOptionalText m) t]"
      by (auto simp: decideRecordRefundFailure_def res_simps split: option.splits if_splits)
    then have "refund_wf s" "rf_status s = Some RefundRequestedSt"
      using assms(2) refund_status_cases [OF assms(2) i(1)] by (auto simp: refund_inv_def)
    with i show ?thesis
      by (intro failed [OF i(4,1)]) (auto simp: refund_inv_def refund_wf_def keeps_request_def matches_refund_def)
  qed (rule noop)
qed

interpretation refund_life: closing_lifecycle initialRefundState evolveRefund "decideRefund h" refund_inv
    refund_phase_of refund_step issues_refund "\<lambda>p. p = RefundIssued" for h
proof unfold_locales
  show "refund_inv initialRefundState" by (simp add: refund_inv_def)
next
  fix s c es s'
  assume a: "refund_inv s" "decideRefund h s c = Inr es" "applyEvents s evolveRefund es = Inr s'"
  from a(2,1) show "refund_inv s'"
    by (cases rule: decided_refund_cases) (use a in \<open>auto simp: applyEvents_Cons refund_inv_def\<close>)
next
  fix s c es s'
  assume a: "refund_inv s" "decideRefund h s c = Inr es" "applyEvents s evolveRefund es = Inr s'"
  from a(2,1) show "event_path refund_step (refund_phase_of s) es (refund_phase_of s')"
    by (cases rule: decided_refund_cases) (use a in \<open>auto simp: applyEvents_Cons\<close>)
qed (auto elim: refund_stepE)

interpretation refund: replayable_aggregate initialRefundState evolveRefund "decideRefund h" refund_inv for h
proof unfold_locales
  fix s c es
  assume "refund_inv s" "decideRefund h s c = Inr es"
  from this(2,1) show "\<exists>s'. applyEvents s evolveRefund es = Inr s'"
    by (cases rule: decided_refund_cases) (auto simp: applyEvents_Cons)
qed

text \<open>A history starts with the request, whose references every event carries and every state keeps.\<close>

lemma refund_history_request:
  assumes "reachable_history initialRefundState evolveRefund (decideRefund h) es"
    and "foldEvents initialRefundState evolveRefund es = Inr s" and "es \<noteq> []"
  shows "\<exists>d k. hd es = RefundRequestedEvent d \<and> refund_request h k = Inr d \<and> matches_refund s d \<and>
    (\<forall>e\<in>set es. event_references e = event_references (hd es))"
  using assms
proof (induction arbitrary: s rule: reachable_history.induct)
  case (append_decided hist t c new)
  have inv: "refund_inv t" using append_decided.hyps(1,2) by (rule refund_life.loaded_inv)
  have app: "applyEvents t evolveRefund new = Inr s"
    using append_decided.prems(1) append_decided.hyps(2) by (simp add: foldEvents_append)
  show ?case
  proof (cases "hist = []")
    case True
    then have "t = initialRefundState" using append_decided.hyps(2) by (simp add: foldEvents_def)
    from append_decided.hyps(3) inv show ?thesis
      by (cases rule: decided_refund_cases)
        (use True append_decided.prems app \<open>t = initialRefundState\<close> in \<open>auto simp: applyEvents_Cons\<close>)
  next
    case False
    then obtain d k where d: "hd hist = RefundRequestedEvent d" "refund_request h k = Inr d" "matches_refund t d"
      "\<forall>e\<in>set hist. event_references e = event_references (hd hist)"
      using append_decided.IH [OF append_decided.hyps(2)] by blast
    then have id: "rf_refundId t = Some (eq_refundId d)" by (simp add: matches_refund_def)
    from append_decided.hyps(3) inv show ?thesis
      by (cases rule: decided_refund_cases)
        (use False d id app refund_references_match [OF d(3)] in
         \<open>auto simp: applyEvents_Cons keeps_request_def\<close>)
  qed
qed simp


section \<open>What the causation means to settlement\<close>

lemma fundingKind_roundtrip [simp]: "map_of liabilityFundingKinds (fundingKindText k) = Some k"
  by (cases k) (simp_all add: liabilityFundingKinds_def)

definition allocationOf :: "string \<Rightarrow> RefundCausation \<Rightarrow> AuthorizedRefundAllocation" where
  "allocationOf i c =
     \<lparr>aa_refundId = i, aa_remedyId = rc_remedyId c, aa_coverageId = rc_coverageId c,
      aa_sellerFundedAmount = la_sellerFundedAmount (rc_allocation c),
      aa_platformFundedAmount = la_platformFundedAmount (rc_allocation c),
      aa_currencyCode = la_currencyCode (rc_allocation c), aa_fundingKind = la_fundingKind (rc_allocation c)\<rparr>"

lemma recorded_allocation:
  "i \<noteq> [] \<Longrightarrow> causation_ok c a \<Longrightarrow>
   recordRefundCausationAllocation (Some i) (Some (causationJson c)) = Some (allocationOf i c)"
  by (simp add: recordRefundCausationAllocation_def causationJson_def json_field_def text_field_def
      defaultText_def allocationOf_def nullable_text_def causation_ok_def split: option.splits)

text \<open>A refund that carries its causation is never quarantined for what Payments has checked.\<close>

lemma causation_decides:
  assumes "causation_ok c a" and "canonical a" and "0 \<le> centsOf a"
    and "decideRefundLiability \<lparr>dl_allocation = Some (allocationOf i c), dl_completedRefundAmount = a,
      dl_completedCurrencyCode = ''usd'', dl_reservation = r\<rparr> = Inr d"
  shows "if la_fundingKind (rc_allocation c) = SellerFunded
    then d = Allocated \<lparr>al_fundingKind = SellerFunded, al_sellerDebitAmount = la_sellerFundedAmount (rc_allocation c),
           al_platformSettleAmount = ''0.00'', al_coverageId = None, al_alreadySettled = False\<rparr>
    else (\<exists>q t. d = Quarantined q t \<and> q \<in> {QCoverageNotReserved, QCoverageAlreadySettled, QReservationMismatch}) \<or>
         (\<exists>l. d = Allocated l \<and> al_sellerDebitAmount l = la_sellerFundedAmount (rc_allocation c) \<and>
              al_platformSettleAmount l = la_platformFundedAmount (rc_allocation c) \<and>
              coverage_backs (allocationOf i c) r l)"
proof -
  let ?a = "rc_allocation c"
  have ok: "allocation_ok ?a" "la_currencyCode ?a = ''usd''"
    and sum: "centsOf (la_sellerFundedAmount ?a) + centsOf (la_platformFundedAmount ?a) = centsOf a"
    using assms(1) by (simp_all add: causation_ok_def)
  have usd: "normalizePlatformCoverageCurrencyCode ''usd'' = Inr ''usd''" by code_simp
  have step: "(if centsOf (la_platformFundedAmount ?a) = 0
      then d = Allocated \<lparr>al_fundingKind = la_fundingKind ?a, al_sellerDebitAmount = la_sellerFundedAmount ?a,
             al_platformSettleAmount = ''0.00'', al_coverageId = None, al_alreadySettled = False\<rparr>
      else drawFromCoverage (allocationOf i c) r (la_fundingKind ?a) (la_sellerFundedAmount ?a)
             (la_platformFundedAmount ?a) (centsOf (la_platformFundedAmount ?a)) = Inr d)"
    using assms(2-4) ok sum usd
    by (auto simp: decideRefundLiability_def allocationOf_def allocation_ok_def money_simps
        classifyLiabilityFundingKind_def split: if_splits)
  show ?thesis
  proof (cases "centsOf (la_platformFundedAmount ?a) = 0")
    case True
    with step ok(1) show ?thesis by (simp add: allocation_ok_def)
  next
    case False
    then obtain cov where cov: "rc_coverageId c = Some cov" "js_trim cov \<noteq> []" and kind: "la_fundingKind ?a \<noteq> SellerFunded"
      using assms(1) ok(1) by (auto simp: causation_ok_def allocation_ok_def split: option.splits if_splits)
    from step False have draw: "drawFromCoverage (allocationOf i c) r (la_fundingKind ?a) (la_sellerFundedAmount ?a)
             (la_platformFundedAmount ?a) (centsOf (la_platformFundedAmount ?a)) = Inr d" by simp
    show ?thesis
    proof (cases d)
      case (Quarantined q t)
      with drawFromCoverage_reason [OF draw [unfolded Quarantined]] cov kind show ?thesis
        by (auto simp: allocationOf_def)
    next
      case (Allocated l)
      with drawFromCoverage_backed [of "allocationOf i c" r] draw ok(1) kind show ?thesis
        by (auto simp: allocation_ok_def)
    qed (use draw drawFromCoverage_not_default in blast)
  qed
qed


section \<open>What a reconciliation posts\<close>

text \<open>A plan debits and settles exactly the completed refund; only what was settled before is not settled again.\<close>

definition plan_conserves :: "AuthorizedRefundAllocation \<Rightarrow> CoverageReservationState option \<Rightarrow> string \<Rightarrow> RefundPlan \<Rightarrow> bool" where
  "plan_conserves a r refund p \<longleftrightarrow>
     (\<exists>debits platform. mapE moneyToCents (rp_debitAmounts p) = Inr debits \<and>
        moneyToCents refund = Inr (sum_list debits + platform) \<and>
        (case rp_settlement p of
           Some s \<Rightarrow> 0 < platform \<and> moneyToCents (cs_platformFundedAmount s) = Inr platform \<and>
             cs_refundId s = aa_refundId a \<and> aa_coverageId a = Some (cs_coverageId s) \<and>
             (\<exists>v. r = Some v \<and> cv_status v = CoverageReserved \<and> moneyToCents (cv_reservedAmount v) = Inr platform)
         | None \<Rightarrow> platform = 0 \<or>
             (\<exists>v. r = Some v \<and> cv_status v = CoverageSettled \<and> cv_refundId v = Some (aa_refundId a))))"

lemma reconcile_cases:
  assumes "reconcileRefundLiability (Some a) refund cur cov ws = Inr out"
  defines "i \<equiv> \<lparr>dl_allocation = Some a, dl_completedRefundAmount = refund,
               dl_completedCurrencyCode = cur, dl_reservation = coverageReservationFor a cov\<rparr>"
  obtains (quarantined) q t where "decideRefundLiability i = Inr (Quarantined q t)" "out = Quarantine q t"
    | (exposure) d t where "decideRefundLiability i = Inr (Allocated d)" "out = Quarantine QNoSellerExposure t"
    | (reconciled) d p debits where "decideRefundLiability i = Inr (Allocated d)" "out = Reconciled p"
        "mapE moneyToCents (rp_debitAmounts p) = Inr debits"
        "moneyToCents (al_sellerDebitAmount d) = Inr (sum_list debits)"
        "settlementFor d (aa_refundId a) (coverageReservationFor a cov) = Inr (rp_settlement p)"
proof -
  obtain decision where d: "decideRefundLiability i = Inr decision"
    using assms by (auto simp: reconcileRefundLiability_def Let_def res_simps)
  show thesis
  proof (cases decision)
    case (SellerFundedDefault x)
    with d default_liability have "dl_allocation i = None" by blast
    then show thesis by (simp add: i_def)
  next
    case (Quarantined q t)
    with d assms(1) show thesis by (intro quarantined) (auto simp: reconcileRefundLiability_def i_def)
  next
    case (Allocated l)
    with d assms(1) show thesis
      by (auto simp: reconcileRefundLiability_def Let_def i_def res_simps split: if_splits
          intro: exposure reconciled)
  qed
qed

lemma reconciled_conserves:
  assumes "reconcileRefundLiability (Some a) refund cur cov ws = Inr (Reconciled p)"
  shows "plan_conserves a (coverageReservationFor a cov) refund p"
proof -
  let ?r = "coverageReservationFor a cov"
  let ?i = "\<lparr>dl_allocation = Some a, dl_completedRefundAmount = refund,
               dl_completedCurrencyCode = cur, dl_reservation = ?r\<rparr>"
  from assms obtain d debits seller where
    d: "decideRefundLiability ?i = Inr (Allocated d)" and
    m: "mapE moneyToCents (rp_debitAmounts p) = Inr debits" "moneyToCents (al_sellerDebitAmount d) = Inr seller"
      "sum_list debits = seller" and
    s: "settlementFor d (aa_refundId a) ?r = Inr (rp_settlement p)"
    by (cases rule: reconcile_cases) auto
  have al: "canonical (al_sellerDebitAmount d)" "canonical (al_platformSettleAmount d)"
    "0 \<le> centsOf (al_sellerDebitAmount d)" "0 \<le> centsOf (al_platformSettleAmount d)"
    "moneyToCents refund = Inr (centsOf (al_sellerDebitAmount d) + centsOf (al_platformSettleAmount d))"
    "if centsOf (al_platformSettleAmount d) = 0 then al_coverageId d = None else coverage_backs a ?r d"
    using allocated_liability [OF d] by (auto split: if_splits)
  have seller: "seller = centsOf (al_sellerDebitAmount d)" using m(2) al by (simp add: money_simps)
  have zero: "compareMoneyAmounts (al_platformSettleAmount d) ''0.00'' =
      Inr (if 0 < centsOf (al_platformSettleAmount d) then 1 else 0)"
    using al(2,4) compareMoneyAmounts_canonical [of _ "''0.00''"] canonical_zero by simp
  have cents: "moneyToCents (al_platformSettleAmount d) = Inr (centsOf (al_platformSettleAmount d))"
    using al by (simp add: money_simps)
  show ?thesis
  proof (cases "centsOf (al_platformSettleAmount d) = 0")
    case True
    with s al(6) zero have "rp_settlement p = None" by (simp add: settlementFor_def)
    with True m al(5) seller show ?thesis by (auto simp: plan_conserves_def)
  next
    case False
    with al(4,6) have pos: "0 < centsOf (al_platformSettleAmount d)" and b: "coverage_backs a ?r d" by simp_all
    then obtain c v where c: "aa_coverageId a = Some c" "js_trim c \<noteq> []" "al_coverageId d = Some c" "?r = Some v"
      and v: "if al_alreadySettled d then cv_status v = CoverageSettled \<and> cv_refundId v = Some (aa_refundId a)
         else cv_status v = CoverageReserved \<and>
              moneyToCents (cv_reservedAmount v) = Inr (centsOf (al_platformSettleAmount d))"
      by (auto simp: coverage_backs_def)
    have "c \<noteq> []" using c(2) by (auto simp: js_trim_def)
    with s zero pos c have "rp_settlement p = (if al_alreadySettled d then None
        else Some \<lparr>cs_coverageId = c, cs_refundId = aa_refundId a,
                   cs_platformFundedAmount = al_platformSettleAmount d,
                   cs_sellerFundedAmount = al_sellerDebitAmount d, cs_policyVersion = cv_policyVersion v\<rparr>)"
      by (auto simp: settlementFor_def)
    with m al(5) seller pos c v cents show ?thesis by (auto simp: plan_conserves_def)
  qed
qed

text \<open>A refund with causation, reconciled: the plan conserves it, or the coverage or the exposure is missing.\<close>

lemma refund_reconciled:
  assumes "refund_inv s" and "rf_refundId s = Some i" and "i \<noteq> []" and "rf_causation s = Some j"
    and "rf_amount s = Some a"
    and "reconcileRefundLiability (recordRefundCausationAllocation (rf_refundId s) (rf_causation s)) a ''usd'' cov ws = Inr out"
  shows "case out of
      SellerDefault \<Rightarrow> False
    | Quarantine q t \<Rightarrow> q \<in> {QCoverageNotReserved, QCoverageAlreadySettled, QReservationMismatch, QNoSellerExposure}
    | Reconciled p \<Rightarrow> (\<exists>al. recordRefundCausationAllocation (rf_refundId s) (rf_causation s) = Some al \<and>
        aa_refundId al = i \<and> plan_conserves al (coverageReservationFor al cov) a p)"
proof -
  from assms(1,2,4,5) obtain c where c: "j = causationJson c" "causation_ok c a" "canonical a" "0 \<le> centsOf a"
    by (auto simp: refund_inv_def refund_wf_def)
  have al: "recordRefundCausationAllocation (rf_refundId s) (rf_causation s) = Some (allocationOf i c)"
    using recorded_allocation [OF assms(3) c(2)] assms(2,4) c(1) by simp
  from assms(6) have "reconcileRefundLiability (Some (allocationOf i c)) a ''usd'' cov ws = Inr out"
    unfolding al .
  then show ?thesis
  proof (cases rule: reconcile_cases)
    case (quarantined q t)
    with causation_decides [OF c(2,3,4) quarantined(1)] show ?thesis by (auto split: if_splits)
  next
    case (reconciled d p debits)
    with assms(6) al reconciled_conserves show ?thesis by (auto simp: allocationOf_def)
  qed simp
qed

end
