(* ===== verification/RefundProps.thy ===== *)
theory RefundProps
  imports RefundFacts
begin

text \<open>The properties of refunds, and of their settlement.\<close>

section \<open>Samples\<close>

definition refundHost :: host where
  "refundHost = \<lparr>host_dateParse = (\<lambda>_. None), host_sha256Hex = (\<lambda>_. [])\<rparr>"

definition splitCausation :: RefundCausationInput where
  "splitCausation = \<lparr>ci_remedyId = ''rmd_1'', ci_coverageId = Some ''cov_1'',
     ci_allocation = \<lparr>lf_sellerFundedAmount = ''7.5'', lf_platformFundedAmount = ''2.5'',
       lf_currencyCode = ''USD'', lf_fundingKind = ''split''\<rparr>,
     ci_reasonCode = ''item-damaged'', ci_refundTrigger = ''immediate'',
     ci_refundTriggerEvidenceRef = None, ci_policyVersion = Some ''v1''\<rparr>"

definition refundCommand :: RequestRefundCommand where
  "refundCommand = \<lparr>rr_refundId = ''rfd_1'', rr_paymentId = ''pay_1'', rr_orderIds = ['' ord_1 '', ''ord_2'', ''ord_1''],
     rr_amount = ''10'', rr_currencyCode = ''USD'', rr_reason = ''damaged'', rr_processorName = ''stripe'',
     rr_causation = Some splitCausation, rr_requestedAt = ''2026-01-31''\<rparr>"

definition issuedRun :: "RefundCommand list" where
  "issuedRun = [RequestRefund refundCommand,
     RecordRefundFailure ''failed'' (Some ''card_expired'') None ''2026-02-01'',
     RecordRefundIssued ''re_1'' ''succeeded'' ''2026-02-02'']"

definition coverageSample :: "string \<Rightarrow> CoverageReservationState option" where
  "coverageSample i = (if i = ''cov_1''
     then Some \<lparr>cv_reservedAmount = ''2.50'', cv_status = CoverageReserved, cv_refundId = None,
       cv_policyVersion = ''v1'', cv_currencyCode = ''usd'', cv_supportRequestId = ''sup_1'', cv_remedyId = ''rmd_1''\<rparr>
     else None)"

definition twoPayouts :: "SellerPayoutWeight list" where
  "twoPayouts = map (\<lambda>w. \<lparr>sw_orderId = ''ord_1'', sw_sellerAccountId = ''acc_1'', sw_weightAmount = w\<rparr>)
     [''1.00'', ''2.00'']"

lemma issuedRun_loads:
  obtains s es where "rf_status s = Some RefundIssuedSt" "rf_refundId s = Some ''rfd_1''" "rf_causation s \<noteq> None"
    "rf_amount s = Some ''10.00''"
    "case reconcileRefundLiability (recordRefundCausationAllocation (rf_refundId s) (rf_causation s)) ''10.00''
       ''usd'' (Some coverageSample) twoPayouts of Inr (Reconciled p) \<Rightarrow> rp_debitAmounts p = [''2.50'', ''5.00''] | _ \<Rightarrow> False"
    "reachable_history initialRefundState evolveRefund (decideRefund refundHost) es"
    "foldEvents initialRefundState evolveRefund es = Inr s" "es \<noteq> []"
proof -
  have "case runAndLoad initialRefundState evolveRefund (decideRefund refundHost) issuedRun of
      Inr s \<Rightarrow> rf_status s = Some RefundIssuedSt \<and> rf_refundId s = Some ''rfd_1'' \<and> \<not> Option.is_none (rf_causation s) \<and>
        rf_amount s = Some ''10.00'' \<and>
        (case reconcileRefundLiability (recordRefundCausationAllocation (rf_refundId s) (rf_causation s)) ''10.00''
           ''usd'' (Some coverageSample) twoPayouts of Inr (Reconciled p) \<Rightarrow> rp_debitAmounts p = [''2.50'', ''5.00''] | _ \<Rightarrow> False)
    | Inl _ \<Rightarrow> False"
    by code_simp
  then show thesis
  proof (rule runAndLoad_cases, elim conjE)
    fix s es
    assume a: "rf_status s = Some RefundIssuedSt" "rf_refundId s = Some ''rfd_1''" "\<not> Option.is_none (rf_causation s)"
      "rf_amount s = Some ''10.00''"
      "case reconcileRefundLiability (recordRefundCausationAllocation (rf_refundId s) (rf_causation s)) ''10.00''
         ''usd'' (Some coverageSample) twoPayouts of Inr (Reconciled p) \<Rightarrow> rp_debitAmounts p = [''2.50'', ''5.00''] | _ \<Rightarrow> False"
      "reachable_history initialRefundState evolveRefund (decideRefund refundHost) es"
      "foldEvents initialRefundState evolveRefund es = Inr s"
    have "es \<noteq> []" using a(1,7) by (auto simp: foldEvents_def)
    with a show thesis by (intro that [of s es]) (auto simp: Option.is_none_def)
  qed
qed


section \<open>Refunds\<close>

text \<open>
  A refund is requested, then issued or failed, and a failed refund can still be issued; the
  issue is the last event of a history and there is only one. Every event carries the references of
  the request, among them the causation, unchanged.
\<close>

theorem refund_follows_life_cycle:
  assumes "reachable_history initialRefundState evolveRefund (decideRefund h) es"
    and "foldEvents initialRefundState evolveRefund es = Inr s"
  shows "event_path refund_step NoRefund es (refund_phase_of s) \<and>
    (\<forall>e\<in>set (butlast es). \<not> issues_refund e) \<and>
    (rf_status s = Some RefundIssuedSt \<longleftrightarrow> es \<noteq> [] \<and> issues_refund (last es)) \<and>
    (\<forall>e\<in>set es. event_references e = event_references (hd es))"
proof -
  have "refund_phase_of s = RefundIssued \<longleftrightarrow> rf_status s = Some RefundIssuedSt"
    by (cases "rf_status s" rule: refund_phase_of_status.cases) auto
  then show ?thesis
    using refund_life.history_path [OF assms] refund_life.history_closes_last [OF assms] refund_history_request [OF assms]
    by (cases "es = []") auto
qed

text \<open>
  A request for a refund that exists appends nothing when it normalises to the recorded request,
  its timestamp apart, and is refused when it does not, whatever has happened to the refund since.
\<close>

theorem refund_request_repeats_safely:
  assumes "reachable_history initialRefundState evolveRefund (decideRefund h) es"
    and "foldEvents initialRefundState evolveRefund es = Inr s" and "es \<noteq> []"
  shows "\<exists>d. hd es = RefundRequestedEvent d \<and>
    (\<forall>c. decideRefund h s (RequestRefund c) =
       bindE (refund_request h c) (\<lambda>d'.
         ensure (d'\<lparr>eq_requestedAt := eq_requestedAt d\<rparr> = d)
           (PaymentsInvalid ''Refund request does not match the existing refund.'') (Inr [])))"
proof -
  obtain d where d: "hd es = RefundRequestedEvent d" "matches_refund s d"
    using refund_history_request [OF assms] by blast
  then have id: "rf_refundId s \<noteq> None" by (simp add: matches_refund_def)
  have inv: "refund_inv s" by (rule refund_life.loaded_inv [OF assms(1,2)])
  have "matches_refund s d' \<longleftrightarrow> d'\<lparr>eq_requestedAt := eq_requestedAt d\<rparr> = d" for d'
    using d(2) by (cases d; cases d') (auto simp: matches_refund_def)
  with d(1) request_on_old [OF id refund_causation_json [OF inv id]] show ?thesis by simp
qed

text \<open>
  C36. The comparison of causations sees the order of keys: when a store returns the recorded causation
  with its keys in another order, the very same request is refused as not matching the refund.
\<close>

theorem reordered_causation_refuses_retry:
  assumes "refund_request h c = Inr d" and "eq_causation d = Some (JObject entries)"
    and "mset entries' = mset entries" and "entries' \<noteq> entries"
    and "foldEvents initialRefundState evolveRefund
           [RefundRequestedEvent (d\<lparr>eq_causation := Some (JObject entries')\<rparr>)] = Inr s"
  shows "decideRefund h s (RequestRefund c) =
    Inl (PaymentsInvalid ''Refund request does not match the existing refund.'')"
proof -
  have s: "rf_refundId s \<noteq> None" "rf_causation s = Some (JObject entries')"
    using assms(5) by (auto simp: foldEvents_def)
  with assms(1,2,4) show ?thesis
    by (simp add: request_on_existing [OF s(1)] refundCausationsEqual_object)
qed

text \<open>The order of PostgreSQL's \<open>jsonb\<close>, shorter keys first, is another one.\<close>

theorem reordered_causation_refuses_retry_witness:
  "\<exists>s. rf_status s = Some RefundRequestedSt \<and> decideRefund refundHost s (RequestRefund refundCommand) =
     Inl (PaymentsInvalid ''Refund request does not match the existing refund.'')"
proof -
  have "case refund_request refundHost refundCommand of
      Inr d \<Rightarrow> (case eq_causation d of Some (JObject [a, b, c, e, f, g, i]) \<Rightarrow> fst a \<noteq> fst c | _ \<Rightarrow> False)
    | Inl _ \<Rightarrow> False"
    by code_simp
  then obtain d a b c e f g i where d: "refund_request refundHost refundCommand = Inr d"
    "eq_causation d = Some (JObject [a, b, c, e, f, g, i])" "fst a \<noteq> fst c"
    by (auto split: sum.splits option.splits json.splits list.splits)
  then have "mset [c, a, b, e, f, g, i] = mset [a, b, c, e, f, g, i]" "[c, a, b, e, f, g, i] \<noteq> [a, b, c, e, f, g, i]"
    by auto
  moreover obtain s where s: "foldEvents initialRefundState evolveRefund
      [RefundRequestedEvent (d\<lparr>eq_causation := Some (JObject [c, a, b, e, f, g, i])\<rparr>)] = Inr s"
    by (simp add: foldEvents_def)
  ultimately have "decideRefund refundHost s (RequestRefund refundCommand) =
     Inl (PaymentsInvalid ''Refund request does not match the existing refund.'')"
    by (intro reordered_causation_refuses_retry [OF d(1,2)])
  moreover have "rf_status s = Some RefundRequestedSt" using s by (auto simp: foldEvents_def)
  ultimately show ?thesis by blast
qed


section \<open>Settlement of a refund\<close>

text \<open>
  C1. From request to settlement: when a refund that carries a causation completes, settlement reads
  the allocation back and either debits and settles exactly the refunded amount, drawing the
  platform's part from a coverage that is reserved for it and never settling a coverage twice, or
  quarantines it for want of the coverage or of a payout to debit. It never finds the currency or the
  amounts of the allocation wrong, and never falls back to debiting the seller for all of it.
\<close>

theorem refund_with_causation_settles_exactly:
  assumes "reachable_history initialRefundState evolveRefund (decideRefund h) es"
    and "foldEvents initialRefundState evolveRefund es = Inr s"
    and "rf_refundId s = Some i" and "i \<noteq> []" and "rf_causation s = Some j" and "rf_amount s = Some a"
    and "reconcileRefundLiability (recordRefundCausationAllocation (rf_refundId s) (rf_causation s)) a ''usd'' cov ws = Inr out"
  shows "case out of
      SellerDefault \<Rightarrow> False
    | Quarantine q t \<Rightarrow> q \<in> {QCoverageNotReserved, QCoverageAlreadySettled, QReservationMismatch, QNoSellerExposure}
    | Reconciled p \<Rightarrow> (\<exists>al. recordRefundCausationAllocation (rf_refundId s) (rf_causation s) = Some al \<and>
        aa_refundId al = i \<and> plan_conserves al (coverageReservationFor al cov) a p)"
  using refund_reconciled [OF refund_life.loaded_inv [OF assms(1,2)] assms(3-7)] .

theorem refund_with_causation_settles_exactly_witness:
  "\<exists>(s :: RefundState) (p :: RefundPlan) al. rf_causation s \<noteq> None \<and> rp_debitAmounts p = [''2.50'', ''5.00''] \<and>
     plan_conserves al (coverageReservationFor al (Some coverageSample)) ''10.00'' p"
proof (rule issuedRun_loads)
  fix s es
  assume s: "rf_refundId s = Some ''rfd_1''" "rf_causation s \<noteq> None" "rf_amount s = Some ''10.00''"
    "case reconcileRefundLiability (recordRefundCausationAllocation (rf_refundId s) (rf_causation s)) ''10.00''
       ''usd'' (Some coverageSample) twoPayouts of Inr (Reconciled p) \<Rightarrow> rp_debitAmounts p = [''2.50'', ''5.00''] | _ \<Rightarrow> False"
    and r: "reachable_history initialRefundState evolveRefund (decideRefund refundHost) es"
    "foldEvents initialRefundState evolveRefund es = Inr s"
  from s(4) obtain p where p: "reconcileRefundLiability (recordRefundCausationAllocation (rf_refundId s) (rf_causation s))
      ''10.00'' ''usd'' (Some coverageSample) twoPayouts = Inr (Reconciled p)" "rp_debitAmounts p = [''2.50'', ''5.00'']"
    by (auto split: sum.splits ReconcileOutcome.splits)
  from s(2) obtain j where "rf_causation s = Some j" by blast
  have "''rfd_1'' \<noteq> []" by simp
  from refund_with_causation_settles_exactly [OF r s(1) this \<open>rf_causation s = Some j\<close> s(3) p(1)] s(2) p(2)
  show ?thesis
    by (simp only: ReconcileOutcome.case) (blast intro: exI [of _ s] exI [of _ p])
qed

end
