(* ===== verification/WalletFundingRefund.thy ===== *)
theory WalletFundingRefund
  imports PaymentsCommon JsonText
begin

text \<open>
  \<open>payments/features/wallet-funding/domain/refund-operation.ts\<close> and the identity of a prepaid
  refund in \<open>api/prepaid-refund-authority.ts\<close>: one refund of a wallet funding, from the intent over
  the reservation with settlement and the submission to the provider to the commit or the release.
  An operation and a reservation extend the identity, as the intersection types of the source do.
\<close>

section \<open>Identity\<close>

record PrepaidRefundIdentity =
  pi_accountId :: string
  pi_fundingId :: string
  pi_refundId :: string
  pi_currencyCode :: string
  pi_amount :: string

record PrepaidRefundReservation = PrepaidRefundIdentity +
  pr_reservationId :: string

definition matchesPrepaidRefundIdentity ::
    "'a PrepaidRefundIdentity_scheme \<Rightarrow> 'b PrepaidRefundIdentity_scheme \<Rightarrow> bool" where
  "matchesPrepaidRefundIdentity value expected \<longleftrightarrow>
     pi_accountId value = pi_accountId expected \<and> pi_fundingId value = pi_fundingId expected \<and>
     pi_refundId value = pi_refundId expected \<and> pi_currencyCode value = pi_currencyCode expected \<and>
     pi_amount value = pi_amount expected"

definition identityFields :: "json \<Rightarrow> (string \<times> json) list option" where
  "identityFields value = (case value of JObject entries \<Rightarrow> Some entries | _ \<Rightarrow> None)"

definition jsonTextIs :: "(string \<times> json) list \<Rightarrow> string \<Rightarrow> string \<Rightarrow> bool" where
  "jsonTextIs entries key value \<longleftrightarrow> map_of entries key = Some (JString value)"

text \<open>The parse of an external grant: exactly the six keys, the five expected values and a
  reservation id that is not blank and not longer than 200 characters.\<close>

definition parsePrepaidRefundReservation ::
    "json \<Rightarrow> 'a PrepaidRefundIdentity_scheme \<Rightarrow> PrepaidRefundReservation option" where
  "parsePrepaidRefundReservation value expected =
     (case identityFields value of
        None \<Rightarrow> None
      | Some entries \<Rightarrow>
     if join_text '','' (js_sort js_text_compare (map fst entries)) \<noteq>
        ''accountId,amount,currencyCode,fundingId,refundId,reservationId''
     then None
     else if \<not> (jsonTextIs entries ''accountId'' (pi_accountId expected) \<and>
                jsonTextIs entries ''fundingId'' (pi_fundingId expected) \<and>
                jsonTextIs entries ''refundId'' (pi_refundId expected) \<and>
                jsonTextIs entries ''currencyCode'' (pi_currencyCode expected) \<and>
                jsonTextIs entries ''amount'' (pi_amount expected))
     then None
     else case map_of entries ''reservationId'' of
            Some (JString reservationId) \<Rightarrow>
              if js_trim reservationId = [] \<or> length reservationId > 200 then None
              else Some \<lparr>pi_accountId = pi_accountId expected, pi_fundingId = pi_fundingId expected,
                         pi_refundId = pi_refundId expected, pi_currencyCode = pi_currencyCode expected,
                         pi_amount = pi_amount expected, pr_reservationId = reservationId\<rparr>
          | _ \<Rightarrow> None)"


section \<open>Operations\<close>

datatype WalletFundingRefundStatus =
    OpIntent | OpReserved | OpSubmitting | OpPending | OpUnknown | OpSuccessAwaitingCommit
  | OpCommitted | OpFailureAwaitingRelease | OpReleased | OpRefused

datatype RefundProcessorStatus = ProcSucceeded | ProcFailed | ProcCancelled | ProcPending | ProcUnknown

datatype RefundException =
    ExProviderOutcomeUnknown | ExRefundPending | ExAuthorityUnavailable | ExAuthorityRefused | ExMalformedGrant

record WalletFundingRefundOperation = PrepaidRefundIdentity +
  op_status :: WalletFundingRefundStatus
  op_reservationId :: "string option"
  op_processorRefundReference :: "string option"
  op_providerIdempotencyKey :: string
  op_processorStatus :: RefundProcessorStatus
  op_outcomeEvidenceId :: "string option"
  op_updatedAt :: string
  op_exception :: "RefundException option"

record WalletFundingRefundObservation =
  ob_refundId :: string
  ob_processorRefundReference :: string
  ob_amount :: string
  ob_currencyCode :: string
  ob_status :: RefundProcessorStatus
  ob_evidenceId :: string
  ob_at :: string

datatype AttentionReason =
    ObservationConflict | ProviderReferenceConflict | SubmissionRequired | TerminalOutcomeConflict
  | UnknownRefundIdentity

fun attentionReasonText :: "AttentionReason \<Rightarrow> string" where
  "attentionReasonText ObservationConflict = ''refund_observation_conflict''"
| "attentionReasonText ProviderReferenceConflict = ''refund_provider_reference_conflict''"
| "attentionReasonText SubmissionRequired = ''refund_submission_required''"
| "attentionReasonText TerminalOutcomeConflict = ''refund_terminal_outcome_conflict''"
| "attentionReasonText UnknownRefundIdentity = ''unknown-refund-identity''"

fun processorStatusText :: "RefundProcessorStatus \<Rightarrow> string" where
  "processorStatusText ProcSucceeded = ''succeeded''"
| "processorStatusText ProcFailed = ''failed''"
| "processorStatusText ProcCancelled = ''cancelled''"
| "processorStatusText ProcPending = ''pending''"
| "processorStatusText ProcUnknown = ''unknown''"

text \<open>What an attention keeps of an observation; the fields of a webhook may be missing.\<close>

record AttentionObservation =
  ao_refundId :: "string option"
  ao_processorRefundReference :: "string option"
  ao_amount :: "string option"
  ao_currencyCode :: "string option"
  ao_status :: RefundProcessorStatus
  ao_evidenceId :: string
  ao_at :: string

datatype WalletFundingRefundAttention =
    ReservationAfterRefusal PrepaidRefundReservation string
  | ObservationAttention AttentionReason AttentionObservation

fun refundAttentionKey :: "WalletFundingRefundAttention \<Rightarrow> string" where
  "refundAttentionKey (ReservationAfterRefusal r t) =
     JSON_stringify (JArray [JString ''reservation-after-refusal'', JString (pi_accountId r),
       JString (pi_fundingId r), JString (pi_refundId r), JString (pi_currencyCode r),
       JString (pi_amount r), JString (pr_reservationId r)])"
| "refundAttentionKey (ObservationAttention reason obs) =
     JSON_stringify (JArray [JString (attentionReasonText reason), nullable_text (ao_refundId obs),
       nullable_text (ao_processorRefundReference obs), nullable_text (ao_amount obs),
       nullable_text (ao_currencyCode obs), JString (processorStatusText (ao_status obs))])"

definition normalizeRefundOperation :: "WalletFundingRefundOperation \<Rightarrow> WalletFundingRefundOperation" where
  "normalizeRefundOperation operation =
     (if op_status operation = OpIntent \<and> op_exception operation = Some ExAuthorityRefused
      then operation\<lparr>op_status := OpRefused\<rparr> else operation)"

abbreviation FundingRule :: "string \<Rightarrow> js_error" where
  "FundingRule code \<equiv> PaymentsDomainError code code"

definition refundIntent :: "PrepaidRefundIdentity \<Rightarrow> string \<Rightarrow> WalletFundingRefundOperation" where
  "refundIntent identity occurredAt =
     \<lparr>pi_accountId = pi_accountId identity, pi_fundingId = pi_fundingId identity,
      pi_refundId = pi_refundId identity, pi_currencyCode = pi_currencyCode identity,
      pi_amount = pi_amount identity, op_status = OpIntent, op_reservationId = None,
      op_processorRefundReference = None,
      op_providerIdempotencyKey =
        ''payments:wallet-funding:'' @ pi_fundingId identity @ '':refund:'' @ pi_refundId identity,
      op_processorStatus = ProcUnknown, op_outcomeEvidenceId = None, op_updatedAt = occurredAt,
      op_exception = None\<rparr>"

definition reserveRefund ::
    "WalletFundingRefundOperation \<Rightarrow> PrepaidRefundReservation \<Rightarrow> string \<Rightarrow> WalletFundingRefundOperation res" where
  "reserveRefund operation reservation occurredAt =
     (if \<not> matchesPrepaidRefundIdentity operation reservation
      then Inl (FundingRule ''refund_identity_conflict'')
      else if op_reservationId operation \<noteq> None \<and> op_reservationId operation \<noteq> Some (pr_reservationId reservation)
      then Inl (FundingRule ''refund_reservation_conflict'')
      else if op_status operation \<noteq> OpIntent then Inr operation
      else Inr (operation\<lparr>op_reservationId := Some (pr_reservationId reservation), op_status := OpReserved,
                          op_updatedAt := occurredAt, op_exception := None\<rparr>))"

text \<open>The truth of a nullable text: neither null nor empty.\<close>

definition truthy :: "string option \<Rightarrow> bool" where
  "truthy v \<longleftrightarrow> (case v of None \<Rightarrow> False | Some t \<Rightarrow> t \<noteq> [])"

definition claimRefundSubmission ::
    "WalletFundingRefundOperation \<Rightarrow> string \<Rightarrow> WalletFundingRefundOperation res" where
  "claimRefundSubmission operation occurredAt =
     (if op_status operation \<noteq> OpReserved then Inr operation
      else if \<not> truthy (op_reservationId operation) then Inl (FundingRule ''refund_reservation_required'')
      else Inr (operation\<lparr>op_status := OpSubmitting, op_updatedAt := occurredAt,
                          op_exception := Some ExProviderOutcomeUnknown\<rparr>))"

definition op_succeeded :: "WalletFundingRefundStatus \<Rightarrow> bool" where
  "op_succeeded st \<longleftrightarrow> st = OpCommitted \<or> st = OpSuccessAwaitingCommit"

definition op_failed :: "WalletFundingRefundStatus \<Rightarrow> bool" where
  "op_failed st \<longleftrightarrow> st = OpReleased \<or> st = OpFailureAwaitingRelease"

definition refundObservationConflict ::
    "WalletFundingRefundOperation \<Rightarrow> WalletFundingRefundObservation \<Rightarrow> AttentionReason option" where
  "refundObservationConflict operation observation =
     (if ob_refundId observation \<noteq> pi_refundId operation \<or> ob_amount observation \<noteq> pi_amount operation \<or>
         ob_currencyCode observation \<noteq> pi_currencyCode operation \<or>
         ob_processorRefundReference observation = [] \<or> ob_evidenceId observation = []
      then Some ObservationConflict
      else if truthy (op_processorRefundReference operation) \<and>
              op_processorRefundReference operation \<noteq> Some (ob_processorRefundReference observation)
      then Some ProviderReferenceConflict
      else if \<not> truthy (op_reservationId operation) \<or> op_status operation = OpIntent \<or> op_status operation = OpReserved
      then Some SubmissionRequired
      else if op_succeeded (op_status operation) \<and>
                (ob_status observation = ProcFailed \<or> ob_status observation = ProcCancelled) \<or>
              op_failed (op_status operation) \<and> ob_status observation = ProcSucceeded
      then Some TerminalOutcomeConflict
      else None)"

fun observedStatus :: "RefundProcessorStatus \<Rightarrow> WalletFundingRefundStatus" where
  "observedStatus ProcSucceeded = OpSuccessAwaitingCommit"
| "observedStatus ProcFailed = OpFailureAwaitingRelease"
| "observedStatus ProcCancelled = OpFailureAwaitingRelease"
| "observedStatus ProcPending = OpPending"
| "observedStatus ProcUnknown = OpUnknown"

definition observeRefund ::
    "WalletFundingRefundOperation \<Rightarrow> WalletFundingRefundObservation \<Rightarrow> WalletFundingRefundOperation res" where
  "observeRefund operation observation =
     (case refundObservationConflict operation observation of
        Some conflict \<Rightarrow> Inl (FundingRule (attentionReasonText conflict))
      | None \<Rightarrow>
     if op_succeeded (op_status operation) \<or> op_failed (op_status operation) then Inr operation
     else let status = observedStatus (ob_status observation) in
       Inr (operation\<lparr>op_status := status, op_processorStatus := ob_status observation,
              op_processorRefundReference := Some (ob_processorRefundReference observation),
              op_outcomeEvidenceId := Some (ob_evidenceId observation), op_updatedAt := ob_at observation,
              op_exception := (if status = OpPending then Some ExRefundPending
                               else if status = OpUnknown then Some ExProviderOutcomeUnknown else None)\<rparr>))"

datatype AuthorityOutcome = AuthorityCommitted | AuthorityReleased

fun settledStatus :: "AuthorityOutcome \<Rightarrow> WalletFundingRefundStatus" where
  "settledStatus AuthorityCommitted = OpCommitted"
| "settledStatus AuthorityReleased = OpReleased"

fun awaitingStatus :: "AuthorityOutcome \<Rightarrow> WalletFundingRefundStatus" where
  "awaitingStatus AuthorityCommitted = OpSuccessAwaitingCommit"
| "awaitingStatus AuthorityReleased = OpFailureAwaitingRelease"

definition settleRefundAuthority ::
    "WalletFundingRefundOperation \<Rightarrow> AuthorityOutcome \<Rightarrow> string \<Rightarrow> WalletFundingRefundOperation res" where
  "settleRefundAuthority operation outcome occurredAt =
     (if op_status operation = settledStatus outcome then Inr operation
      else if op_status operation \<noteq> awaitingStatus outcome
      then Inl (FundingRule ''refund_terminal_authority_conflict'')
      else Inr (operation\<lparr>op_status := settledStatus outcome, op_updatedAt := occurredAt, op_exception := None\<rparr>))"

end
