(* ===== verification/WalletFunding.thy ===== *)
theory WalletFunding
  imports WalletFundingRefund "HOL-Library.AList"
begin

text \<open>
  \<open>payments/features/wallet-funding/domain/domain.ts\<close>: money a buyer adds to a wallet, its quote,
  its payment, the refunds of the prepaid money and the disputes. The maps of the state are
  association lists in the order of their keys' insertion; a key is never the name of a property of
  \<open>Object.prototype\<close>. \<open>JSON.stringify(next) === JSON.stringify(prior)\<close> compares an operation with
  one that was spread from it, so it is equality of the records.
\<close>

section \<open>State and events\<close>

datatype WalletFundingStatus =
    FundingQuoted | FundingPendingConfirmation | FundingAuthorized | FundingCaptured
  | FundingPartiallyRefunded | FundingRefunded | FundingDisputed | FundingFailed | FundingCancelled

record WalletFundingQuote =
  wq_fundingId :: string
  wq_accountId :: string
  wq_requestedAmount :: string
  wq_feeAmount :: string
  wq_grossAmount :: string
  wq_currencyCode :: string
  wq_quoteFingerprint :: string
  wq_quotedAt :: string
  wq_savedInstrumentId :: "string option"

record WalletFundingFact =
  wt_fundingId :: string
  wt_accountId :: string
  wt_requestedAmount :: string
  wt_feeAmount :: string
  wt_grossAmount :: string
  wt_currencyCode :: string
  wt_processorPaymentReference :: "string option"
  wt_occurredAt :: string

record WalletFundingRefundFact =
  wr_fact :: WalletFundingFact
  wr_refundId :: string
  wr_refundAmount :: string
  wr_reservationId :: string
  wr_processorRefundReference :: string
  wr_factId :: string

datatype DisputeLifecycle = DisputeOpened | DisputeWon | DisputeLost

record WalletFundingDisputeFact =
  wd_fact :: WalletFundingFact
  wd_disputeId :: string
  wd_lifecycle :: DisputeLifecycle
  wd_disputeAmount :: string
  wd_disputeFeeAmount :: string

record WalletFundingState =
  wf_quote :: "WalletFundingQuote option"
  wf_status :: "WalletFundingStatus option"
  wf_processorPaymentReference :: "string option"
  wf_processorRedirectUrl :: "string option"
  wf_submissionClaimed :: bool
  wf_capturedAt :: "string option"
  wf_refundedAmount :: string
  wf_refunds :: "(string \<times> WalletFundingRefundOperation) list"
  wf_refundAttention :: "WalletFundingRefundAttention list"
  wf_disputes :: "(string \<times> DisputeLifecycle) list"
  wf_fraudWarningIds :: "string list"

definition initialWalletFundingState :: WalletFundingState where
  "initialWalletFundingState =
     \<lparr>wf_quote = None, wf_status = None, wf_processorPaymentReference = None,
      wf_processorRedirectUrl = None, wf_submissionClaimed = False, wf_capturedAt = None,
      wf_refundedAmount = ''0.00'', wf_refunds = [], wf_refundAttention = [], wf_disputes = [],
      wf_fraudWarningIds = []\<rparr>"

datatype WalletFundingEvent =
    FundingQuotedEvent WalletFundingQuote
  | FundingSubmissionClaimed string
  | FundingCreated string "string option"
  | FundingAuthorizedEvent WalletFundingFact
  | FundingCapturedEvent WalletFundingFact
  | FundingFailedEvent WalletFundingFact string
  | FundingCancelledEvent WalletFundingFact
  | RefundOperationRecorded WalletFundingRefundOperation
  | RefundAttentionRecorded WalletFundingRefundAttention
  | FundingRefundedEvent WalletFundingRefundFact
  | FundingDisputeRecorded WalletFundingDisputeFact
  | FundingFraudWarningRecorded WalletFundingFact string

datatype FundingOutcome = OutcomeAuthorized | OutcomeCaptured | OutcomeFailed | OutcomeCancelled

datatype WalletFundingCommand =
    Quote WalletFundingQuote
  | ClaimCreation string
  | FailUnsubmitted string
  | RecordCreated string "string option"
  | ObserveFunding FundingOutcome string string "string option"
  | RecordDispute string DisputeLifecycle string string string
  | RecordFraudWarning string string
  | RequestFundingRefund PrepaidRefundIdentity string
  | ReserveRefund PrepaidRefundReservation string
  | ClaimRefundSubmission string string
  | ObserveRefund WalletFundingRefundObservation
  | RecordRefundAttention WalletFundingRefundAttention
  | SettleRefundAuthority string AuthorityOutcome string
  | RecordRefundException string "RefundException option" string

definition fundingRule :: "bool \<Rightarrow> string \<Rightarrow> 'a res \<Rightarrow> 'a res" where
  "fundingRule condition code k = (if condition then k else Inl (FundingRule code))"

definition fact :: "WalletFundingState \<Rightarrow> string \<Rightarrow> WalletFundingFact res" where
  "fact state occurredAt =
     (case wf_quote state of
        None \<Rightarrow> Inl (FundingRule ''funding_quote_required'')
      | Some q \<Rightarrow> Inr
          \<lparr>wt_fundingId = wq_fundingId q, wt_accountId = wq_accountId q,
           wt_requestedAmount = wq_requestedAmount q, wt_feeAmount = wq_feeAmount q,
           wt_grossAmount = wq_grossAmount q, wt_currencyCode = wq_currencyCode q,
           wt_processorPaymentReference = wf_processorPaymentReference state,
           wt_occurredAt = occurredAt\<rparr>)"


section \<open>The evolver\<close>

definition capturedStatus :: "WalletFundingState \<Rightarrow> WalletFundingStatus" where
  "capturedStatus state =
     (if map_option wq_requestedAmount (wf_quote state) = Some (wf_refundedAmount state) then FundingRefunded
      else if wf_refundedAmount state = ''0.00'' then FundingCaptured
      else FundingPartiallyRefunded)"

definition disputedOr :: "(string \<times> DisputeLifecycle) list \<Rightarrow> WalletFundingStatus \<Rightarrow> WalletFundingStatus" where
  "disputedOr disputes status = (if \<exists>d\<in>set disputes. snd d \<noteq> DisputeWon then FundingDisputed else status)"

definition has_attention :: "WalletFundingState \<Rightarrow> WalletFundingRefundAttention \<Rightarrow> bool" where
  "has_attention state attention \<longleftrightarrow>
     list_ex (\<lambda>entry. refundAttentionKey entry = refundAttentionKey attention) (wf_refundAttention state)"

fun evolveWalletFunding :: "WalletFundingState \<Rightarrow> WalletFundingEvent \<Rightarrow> WalletFundingState res" where
  "evolveWalletFunding state (FundingQuotedEvent q) =
     Inr (state\<lparr>wf_quote := Some q, wf_status := Some FundingQuoted\<rparr>)"
| "evolveWalletFunding state (FundingSubmissionClaimed occurredAt) = Inr (state\<lparr>wf_submissionClaimed := True\<rparr>)"
| "evolveWalletFunding state (FundingCreated reference redirectUrl) =
     Inr (state\<lparr>wf_processorPaymentReference := Some reference, wf_processorRedirectUrl := redirectUrl,
                wf_status := (if wf_status state = Some FundingQuoted then Some FundingPendingConfirmation
                              else wf_status state)\<rparr>)"
| "evolveWalletFunding state (FundingAuthorizedEvent d) = Inr (state\<lparr>wf_status := Some FundingAuthorized\<rparr>)"
| "evolveWalletFunding state (FundingCapturedEvent d) =
     Inr (state\<lparr>wf_capturedAt := Some (wt_occurredAt d),
                wf_status := Some (disputedOr (wf_disputes state) (capturedStatus state))\<rparr>)"
| "evolveWalletFunding state (FundingFailedEvent d reason) = Inr (state\<lparr>wf_status := Some FundingFailed\<rparr>)"
| "evolveWalletFunding state (FundingCancelledEvent d) = Inr (state\<lparr>wf_status := Some FundingCancelled\<rparr>)"
| "evolveWalletFunding state (RefundOperationRecorded operation) =
     Inr (state\<lparr>wf_refunds := AList.update (pi_refundId operation) (normalizeRefundOperation operation)
                                (wf_refunds state)\<rparr>)"
| "evolveWalletFunding state (RefundAttentionRecorded attention) =
     Inr (if has_attention state attention then state
          else state\<lparr>wf_refundAttention := wf_refundAttention state @ [attention]\<rparr>)"
| "evolveWalletFunding state (FundingRefundedEvent d) =
     bindE (paymentsAddMoney (wf_refundedAmount state) (wr_refundAmount d)) (\<lambda>refundedAmount.
     let next = state\<lparr>wf_refundedAmount := refundedAmount\<rparr> in
       Inr (next\<lparr>wf_status := Some (if wf_status state = Some FundingDisputed then FundingDisputed
                                    else capturedStatus next)\<rparr>))"
| "evolveWalletFunding state (FundingDisputeRecorded d) =
     (let next = state\<lparr>wf_disputes := AList.update (wd_disputeId d) (wd_lifecycle d) (wf_disputes state)\<rparr> in
       Inr (next\<lparr>wf_status := Some (disputedOr (wf_disputes next) (capturedStatus next))\<rparr>))"
| "evolveWalletFunding state (FundingFraudWarningRecorded d warningId) =
     Inr (state\<lparr>wf_fraudWarningIds := wf_fraudWarningIds state @ [warningId]\<rparr>)"


section \<open>The decider: the funding\<close>

definition quote_amount_rule :: "string \<Rightarrow> string \<Rightarrow> bool \<Rightarrow> 'a res \<Rightarrow> 'a res" where
  "quote_amount_rule amount key allowZero k =
     bindE (paymentsMoneyAmount amount allowZero key) (\<lambda>normalized.
       fundingRule (normalized = amount) ''funding_amount_invalid'' k)"

definition same_quote :: "WalletFundingQuote \<Rightarrow> WalletFundingQuote \<Rightarrow> bool" where
  "same_quote a b \<longleftrightarrow>
     wq_fundingId a = wq_fundingId b \<and> wq_accountId a = wq_accountId b \<and>
     wq_requestedAmount a = wq_requestedAmount b \<and> wq_feeAmount a = wq_feeAmount b \<and>
     wq_grossAmount a = wq_grossAmount b \<and> wq_currencyCode a = wq_currencyCode b \<and>
     wq_quoteFingerprint a = wq_quoteFingerprint b \<and> wq_savedInstrumentId a = wq_savedInstrumentId b"

definition decideQuote :: "WalletFundingState \<Rightarrow> WalletFundingQuote \<Rightarrow> WalletFundingEvent list res" where
  "decideQuote state quote =
     fundingRule (js_startsWith (wq_fundingId quote) ''wfp_'' \<and> js_startsWith (wq_accountId quote) ''acc_'' \<and>
                  wq_currencyCode quote = ''usd'') ''funding_identity_invalid'' (
     quote_amount_rule (wq_requestedAmount quote) ''requestedAmount'' False (
     quote_amount_rule (wq_feeAmount quote) ''feeAmount'' True (
     quote_amount_rule (wq_grossAmount quote) ''grossAmount'' False (
     bindE (paymentsAddMoney (wq_requestedAmount quote) (wq_feeAmount quote)) (\<lambda>gross.
     fundingRule (gross = wq_grossAmount quote \<and> length (wq_quoteFingerprint quote) > 0)
       ''funding_gross_invalid'' (
     case wf_quote state of
       Some q \<Rightarrow> fundingRule (same_quote q quote) ''funding_identity_conflict'' (Inr [])
     | None \<Rightarrow> Inr [FundingQuotedEvent quote]))))))"

definition decideClaimCreation :: "WalletFundingState \<Rightarrow> string \<Rightarrow> WalletFundingEvent list res" where
  "decideClaimCreation state occurredAt =
     (if wf_submissionClaimed state then Inr []
      else fundingRule (wf_status state = Some FundingQuoted) ''funding_creation_terminal''
             (Inr [FundingSubmissionClaimed occurredAt]))"

definition decideFailUnsubmitted :: "WalletFundingState \<Rightarrow> string \<Rightarrow> WalletFundingEvent list res" where
  "decideFailUnsubmitted state occurredAt =
     (if wf_submissionClaimed state \<or> wf_status state \<noteq> Some FundingQuoted then Inr []
      else bindE (fact state occurredAt) (\<lambda>d. Inr [FundingFailedEvent d ''stale_pending'']))"

definition decideRecordCreated ::
    "WalletFundingState \<Rightarrow> string \<Rightarrow> string option \<Rightarrow> WalletFundingEvent list res" where
  "decideRecordCreated state reference redirectUrl =
     fundingRule (js_trim reference \<noteq> []) ''funding_provider_reference_required'' (
     if truthy (wf_processorPaymentReference state)
     then fundingRule (wf_processorPaymentReference state = Some reference)
            ''funding_provider_reference_conflict'' (Inr [])
     else Inr [FundingCreated reference redirectUrl])"

fun outcomeStatus :: "FundingOutcome \<Rightarrow> WalletFundingStatus" where
  "outcomeStatus OutcomeAuthorized = FundingAuthorized"
| "outcomeStatus OutcomeCaptured = FundingCaptured"
| "outcomeStatus OutcomeFailed = FundingFailed"
| "outcomeStatus OutcomeCancelled = FundingCancelled"

definition decideObserveFunding ::
    "WalletFundingState \<Rightarrow> FundingOutcome \<Rightarrow> string \<Rightarrow> string \<Rightarrow> string option \<Rightarrow> WalletFundingEvent list res" where
  "decideObserveFunding state outcome reference occurredAt reason =
     fundingRule (Some reference = wf_processorPaymentReference state)
       ''funding_provider_reference_conflict'' (
     if outcome = OutcomeCaptured
     then (if truthy (wf_capturedAt state) then Inr []
           else bindE (fact state occurredAt) (\<lambda>d. Inr [FundingCapturedEvent d]))
     else if truthy (wf_capturedAt state) \<or> wf_status state = Some (outcomeStatus outcome) \<or>
             wf_status state = Some FundingFailed \<or> wf_status state = Some FundingCancelled
     then Inr []
     else if outcome = OutcomeAuthorized
     then bindE (fact state occurredAt) (\<lambda>d. Inr [FundingAuthorizedEvent d])
     else if outcome = OutcomeFailed
     then bindE (fact state occurredAt) (\<lambda>d.
            Inr [FundingFailedEvent d (case reason of None \<Rightarrow> ''provider_failed'' | Some r \<Rightarrow> r)])
     else bindE (fact state occurredAt) (\<lambda>d. Inr [FundingCancelledEvent d]))"

definition decideRecordDispute ::
    "WalletFundingState \<Rightarrow> string \<Rightarrow> DisputeLifecycle \<Rightarrow> string \<Rightarrow> string \<Rightarrow> string \<Rightarrow> WalletFundingEvent list res" where
  "decideRecordDispute state disputeId lifecycle rawAmount rawFee occurredAt =
     (let prior = map_of (wf_disputes state) disputeId in
      if prior = Some lifecycle \<or>
         prior \<noteq> None \<and> prior \<noteq> Some DisputeOpened \<and> lifecycle = DisputeOpened
      then Inr []
      else
      fundingRule (prior = None \<or> prior = Some DisputeOpened) ''funding_dispute_outcome_conflict'' (
      bindE (paymentsMoneyAmount rawAmount False ''Dispute principal'') (\<lambda>amount.
      bindE (paymentsMoneyAmount rawFee True ''Dispute fee'') (\<lambda>fee.
      bindE (fact state occurredAt) (\<lambda>d.
        Inr [FundingDisputeRecorded
               \<lparr>wd_fact = d, wd_disputeId = disputeId, wd_lifecycle = lifecycle,
                wd_disputeAmount = amount, wd_disputeFeeAmount = fee\<rparr>])))))"

definition decideRecordFraudWarning ::
    "WalletFundingState \<Rightarrow> string \<Rightarrow> string \<Rightarrow> WalletFundingEvent list res" where
  "decideRecordFraudWarning state warningId occurredAt =
     (if warningId \<in> set (wf_fraudWarningIds state) then Inr []
      else bindE (fact state occurredAt) (\<lambda>d. Inr [FundingFraudWarningRecorded d warningId]))"


section \<open>The decider: refunds\<close>

text \<open>\<open>/^wfr_[A-Za-z0-9_-]{1,100}$/\<close>\<close>

definition refund_id_char :: "char \<Rightarrow> bool" where
  "refund_id_char c \<longleftrightarrow>
     (let n = of_char c :: nat
      in 48 \<le> n \<and> n \<le> 57 \<or> 65 \<le> n \<and> n \<le> 90 \<or> 97 \<le> n \<and> n \<le> 122 \<or> n = 95 \<or> n = 45)"

definition refund_id_pattern :: "string \<Rightarrow> bool" where
  "refund_id_pattern t \<longleftrightarrow>
     js_startsWith t ''wfr_'' \<and> 1 \<le> length (drop 4 t) \<and> length (drop 4 t) \<le> 100 \<and>
     list_all refund_id_char (drop 4 t)"

definition active_refund :: "WalletFundingRefundOperation \<Rightarrow> bool" where
  "active_refund r \<longleftrightarrow> op_status r \<noteq> OpReleased \<and> op_status r \<noteq> OpRefused"

definition pendingRefundAmount :: "(string \<times> WalletFundingRefundOperation) list \<Rightarrow> string res" where
  "pendingRefundAmount refunds =
     foldE (\<lambda>sum r. paymentsAddMoney sum (pi_amount r)) ''0.00'' (filter active_refund (map snd refunds))"

definition decideRequestFundingRefund ::
    "WalletFundingState \<Rightarrow> WalletFundingQuote \<Rightarrow> PrepaidRefundIdentity \<Rightarrow> string \<Rightarrow> WalletFundingEvent list res" where
  "decideRequestFundingRefund state quote identity occurredAt =
     fundingRule (refund_id_pattern (pi_refundId identity)) ''refund_identity_invalid'' (
     case map_of (wf_refunds state) (pi_refundId identity) of
       Some prior \<Rightarrow> fundingRule (matchesPrepaidRefundIdentity prior identity) ''refund_identity_conflict'' (Inr [])
     | None \<Rightarrow>
     fundingRule (pi_accountId identity = wq_accountId quote \<and> pi_fundingId identity = wq_fundingId quote \<and>
                  pi_currencyCode identity = wq_currencyCode quote) ''refund_identity_conflict'' (
     fundingRule (wf_status state = Some FundingCaptured \<or> wf_status state = Some FundingPartiallyRefunded)
       ''funding_not_refundable'' (
     bindE (paymentsMoneyAmount (pi_amount identity) False ''Refund amount'') (\<lambda>amount.
     fundingRule (amount = pi_amount identity) ''refund_amount_invalid'' (
     bindE (pendingRefundAmount (wf_refunds state)) (\<lambda>pending.
     bindE (paymentsAddMoney pending amount) (\<lambda>total.
     bindE (paymentsCompareMoney total (wq_requestedAmount quote)) (\<lambda>order.
     fundingRule (order \<le> 0) ''funding_refund_exceeds_requested''
       (Inr [RefundOperationRecorded (refundIntent identity occurredAt)])))))))))"

definition attentionEvents :: "WalletFundingState \<Rightarrow> WalletFundingRefundAttention \<Rightarrow> WalletFundingEvent list" where
  "attentionEvents state attention =
     (if has_attention state attention then [] else [RefundAttentionRecorded attention])"

definition observationAttention ::
    "AttentionReason \<Rightarrow> WalletFundingRefundObservation \<Rightarrow> WalletFundingRefundAttention" where
  "observationAttention reason obs = ObservationAttention reason
     \<lparr>ao_refundId = Some (ob_refundId obs),
      ao_processorRefundReference = Some (ob_processorRefundReference obs),
      ao_amount = Some (ob_amount obs), ao_currencyCode = Some (ob_currencyCode obs),
      ao_status = ob_status obs, ao_evidenceId = ob_evidenceId obs, ao_at = ob_at obs\<rparr>"

text \<open>The events of an operation that changed: its record and, once, the refund fact.\<close>

definition operationEvents ::
    "WalletFundingState \<Rightarrow> WalletFundingQuote \<Rightarrow> WalletFundingRefundOperation \<Rightarrow>
     WalletFundingRefundOperation \<Rightarrow> WalletFundingEvent list res" where
  "operationEvents state quote prior next =
     (if next = prior then Inr []
      else if op_status next = OpSuccessAwaitingCommit \<and> op_status prior \<noteq> OpSuccessAwaitingCommit then
        fundingRule (truthy (op_reservationId next) \<and> truthy (op_processorRefundReference next))
          ''refund_success_identity_required'' (
        bindE (fact state (op_updatedAt next)) (\<lambda>d.
          Inr [RefundOperationRecorded next,
               FundingRefundedEvent
                 \<lparr>wr_fact = d, wr_refundId = pi_refundId next, wr_refundAmount = pi_amount next,
                  wr_reservationId = the (op_reservationId next),
                  wr_processorRefundReference = the (op_processorRefundReference next),
                  wr_factId = ''payments.wallet-funding-refunded:'' @ wq_fundingId quote @ '':'' @ pi_refundId next\<rparr>]))
      else Inr [RefundOperationRecorded next])"

definition exceptionOperation ::
    "WalletFundingRefundOperation \<Rightarrow> RefundException option \<Rightarrow> string \<Rightarrow> WalletFundingRefundOperation" where
  "exceptionOperation prior ex occurredAt =
     prior\<lparr>op_status :=
             (if op_status prior = OpIntent \<and> (ex = Some ExAuthorityRefused \<or> ex = Some ExMalformedGrant) then OpRefused
              else if op_status prior = OpSubmitting \<and> ex = Some ExProviderOutcomeUnknown then OpUnknown
              else op_status prior),
           op_exception := ex, op_updatedAt := occurredAt\<rparr>"

definition ignores_exception :: "WalletFundingRefundOperation \<Rightarrow> RefundException option \<Rightarrow> bool" where
  "ignores_exception prior ex \<longleftrightarrow>
     op_status prior = OpCommitted \<or> op_status prior = OpReleased \<or> op_status prior = OpRefused \<or>
     (ex = Some ExAuthorityRefused \<or> ex = Some ExMalformedGrant) \<and> op_status prior \<noteq> OpIntent"

definition withRefund ::
    "WalletFundingState \<Rightarrow> string \<Rightarrow> (WalletFundingRefundOperation \<Rightarrow> WalletFundingEvent list res) \<Rightarrow>
     WalletFundingEvent list res" where
  "withRefund state refundId k =
     (case map_of (wf_refunds state) refundId of
        None \<Rightarrow> Inl (FundingRule ''refund_not_found'')
      | Some prior \<Rightarrow> k prior)"

definition decideReserveRefund ::
    "WalletFundingState \<Rightarrow> WalletFundingQuote \<Rightarrow> PrepaidRefundReservation \<Rightarrow> string \<Rightarrow> WalletFundingEvent list res" where
  "decideReserveRefund state quote reservation occurredAt =
     withRefund state (pi_refundId reservation) (\<lambda>prior.
     bindE (reserveRefund prior reservation occurredAt) (\<lambda>next.
     if op_status prior = OpRefused
     then Inr (attentionEvents state (ReservationAfterRefusal reservation occurredAt))
     else operationEvents state quote prior next))"

definition decideObserveRefund ::
    "WalletFundingState \<Rightarrow> WalletFundingQuote \<Rightarrow> WalletFundingRefundObservation \<Rightarrow> WalletFundingEvent list res" where
  "decideObserveRefund state quote obs =
     (case map_of (wf_refunds state) (ob_refundId obs) of
        None \<Rightarrow> Inr (attentionEvents state (observationAttention UnknownRefundIdentity obs))
      | Some prior \<Rightarrow>
     case refundObservationConflict prior obs of
       Some reason \<Rightarrow> Inr (attentionEvents state (observationAttention reason obs))
     | None \<Rightarrow> bindE (observeRefund prior obs) (\<lambda>next. operationEvents state quote prior next))"

fun decideFunding :: "WalletFundingState \<Rightarrow> WalletFundingQuote \<Rightarrow> WalletFundingCommand \<Rightarrow> WalletFundingEvent list res" where
  "decideFunding state quote (Quote q) = decideQuote state q"
| "decideFunding state quote (ClaimCreation occurredAt) = decideClaimCreation state occurredAt"
| "decideFunding state quote (FailUnsubmitted occurredAt) = decideFailUnsubmitted state occurredAt"
| "decideFunding state quote (RecordCreated reference redirectUrl) = decideRecordCreated state reference redirectUrl"
| "decideFunding state quote (ObserveFunding outcome reference occurredAt reason) =
     decideObserveFunding state outcome reference occurredAt reason"
| "decideFunding state quote (RecordDispute disputeId lifecycle amount fee occurredAt) =
     decideRecordDispute state disputeId lifecycle amount fee occurredAt"
| "decideFunding state quote (RecordFraudWarning warningId occurredAt) = decideRecordFraudWarning state warningId occurredAt"
| "decideFunding state quote (RequestFundingRefund identity occurredAt) =
     decideRequestFundingRefund state quote identity occurredAt"
| "decideFunding state quote (RecordRefundAttention attention) = Inr (attentionEvents state attention)"
| "decideFunding state quote (ReserveRefund reservation occurredAt) = decideReserveRefund state quote reservation occurredAt"
| "decideFunding state quote (ObserveRefund obs) = decideObserveRefund state quote obs"
| "decideFunding state quote (ClaimRefundSubmission refundId occurredAt) =
     withRefund state refundId (\<lambda>prior.
     bindE (claimRefundSubmission prior occurredAt) (operationEvents state quote prior))"
| "decideFunding state quote (SettleRefundAuthority refundId outcome occurredAt) =
     withRefund state refundId (\<lambda>prior.
     bindE (settleRefundAuthority prior outcome occurredAt) (operationEvents state quote prior))"
| "decideFunding state quote (RecordRefundException refundId ex occurredAt) =
     withRefund state refundId (\<lambda>prior.
     if ignores_exception prior ex then Inr []
     else operationEvents state quote prior (exceptionOperation prior ex occurredAt))"

definition decideWalletFunding :: "WalletFundingState \<Rightarrow> WalletFundingCommand \<Rightarrow> WalletFundingEvent list res" where
  "decideWalletFunding state command =
     (case (command, wf_quote state) of
        (Quote q, _) \<Rightarrow> decideQuote state q
      | (_, None) \<Rightarrow> Inl (FundingRule ''funding_not_found'')
      | (_, Some quote) \<Rightarrow> decideFunding state quote command)"

end
