(* ===== verification/KeyedTotals.thy ===== *)
theory KeyedTotals
  imports Main "HOL-Library.AList"
begin

text \<open>
  Totals over the values of a map in insertion order. The states of several aggregates keep a JavaScript
  object by id next to a running total of it; these lemmas say what an insertion or a change of one
  entry does to such a total.
\<close>

definition keyed_total :: "('v \<Rightarrow> int) \<Rightarrow> ('k \<times> 'v) list \<Rightarrow> int" where
  "keyed_total f xs = sum_list (map (\<lambda>(k, v). f v) xs)"

lemma keyed_total_simps [simp]:
  "keyed_total f [] = 0"
  "keyed_total f ((k, v) # xs) = f v + keyed_total f xs"
  by (simp_all add: keyed_total_def)

lemma keyed_total_new:
  "map_of xs k = None \<Longrightarrow> keyed_total f (AList.update k v xs) = keyed_total f xs + f v"
  by (induction xs) (auto split: if_splits)

lemma keyed_total_changed:
  "map_of xs k = Some v \<Longrightarrow> keyed_total f (AList.update k v' xs) = keyed_total f xs - f v + f v'"
  by (induction xs) (auto split: if_splits)

lemma keyed_total_nonneg: "(\<And>k v. (k, v) \<in> set xs \<Longrightarrow> 0 \<le> f v) \<Longrightarrow> 0 \<le> keyed_total f xs"
  by (auto simp: keyed_total_def intro!: sum_list_nonneg)

lemma keyed_total_mono:
  "(\<And>k v. (k, v) \<in> set xs \<Longrightarrow> f v \<le> g v) \<Longrightarrow> keyed_total f xs \<le> keyed_total g xs"
  unfolding keyed_total_def by (rule sum_list_mono) auto

lemma keyed_total_member:
  "map_of xs k = Some v \<Longrightarrow> (\<And>k v. (k, v) \<in> set xs \<Longrightarrow> 0 \<le> f v) \<Longrightarrow> f v \<le> keyed_total f xs"
proof (induction xs)
  case (Cons x xs)
  obtain k' v' where x: "x = (k', v')" by force
  have "0 \<le> f v'" "0 \<le> keyed_total f xs" using Cons.prems(2) x by (auto intro: keyed_total_nonneg)
  with Cons x show ?case by (force split: if_splits)
qed simp

lemma keyed_total_cong: "(\<And>k v. (k, v) \<in> set xs \<Longrightarrow> f v = g v) \<Longrightarrow> keyed_total f xs = keyed_total g xs"
  unfolding keyed_total_def by (rule arg_cong [where f = sum_list], rule map_cong) auto

lemma keyed_total_zero: "(\<And>k v. (k, v) \<in> set xs \<Longrightarrow> f v = 0) \<Longrightarrow> keyed_total f xs = 0"
  using keyed_total_cong [of xs f "\<lambda>_. 0"] by (auto simp: keyed_total_def sum_list_0 split_def)

lemma keyed_total_add: "keyed_total (\<lambda>v. f v + g v) xs = keyed_total f xs + keyed_total g xs"
  by (induction xs) auto

lemma keyed_total_diff: "keyed_total (\<lambda>v. f v - g v) xs = keyed_total f xs - keyed_total g xs"
  by (induction xs) auto

lemma set_update: "distinct (map fst xs) \<Longrightarrow> set (AList.update k v xs) = insert (k, v) {e \<in> set xs. fst e \<noteq> k}"
  by (induction xs) (auto simp: image_iff)

text \<open>The change of one entry keeps what holds of all entries.\<close>

lemma keyed_all_update:
  "distinct (map fst xs) \<Longrightarrow> \<forall>e\<in>set xs. P e \<Longrightarrow> P (k, v) \<Longrightarrow> \<forall>e\<in>set (AList.update k v xs). P e"
  by (simp add: set_update)

end
