(* ===== verification/WalletFundingFacts.thy ===== *)
theory WalletFundingFacts
  imports WalletFunding KeyedTotals
begin

text \<open>
  What holds of every wallet funding: the refunds it has accepted never exceed what was funded, and
  each refund moves through its states in order and stops at an outcome.
\<close>

section \<open>One operation\<close>

inductive op_step :: "WalletFundingRefundStatus \<Rightarrow> WalletFundingRefundStatus \<Rightarrow> bool" where
  op_reserve: "op_step OpIntent OpReserved"
| op_refuse: "op_step OpIntent OpRefused"
| op_claim: "op_step OpReserved OpSubmitting"
| op_observe: "st \<in> {OpSubmitting, OpPending, OpUnknown} \<Longrightarrow>
    st' \<in> {OpPending, OpUnknown, OpSuccessAwaitingCommit, OpFailureAwaitingRelease} \<Longrightarrow> op_step st st'"
| op_commit: "op_step OpSuccessAwaitingCommit OpCommitted"
| op_release: "op_step OpFailureAwaitingRelease OpReleased"

definition op_terminal :: "WalletFundingRefundStatus \<Rightarrow> bool" where
  "op_terminal st \<longleftrightarrow> st = OpCommitted \<or> st = OpReleased \<or> st = OpRefused"

definition op_claimed :: "WalletFundingRefundStatus \<Rightarrow> bool" where
  "op_claimed st \<longleftrightarrow> st \<noteq> OpIntent \<and> st \<noteq> OpReserved"

inductive_cases op_stepE: "op_step st st'"

lemma op_step_claimed: "op_step st st' \<Longrightarrow> op_claimed st \<Longrightarrow> op_claimed st'"
  by (auto simp: op_claimed_def elim!: op_stepE)

lemma op_step_terminal: "op_step st st' \<Longrightarrow> \<not> op_terminal st"
  by (auto simp: op_terminal_def elim!: op_stepE)

lemma op_step_succeeded: "op_step st st' \<Longrightarrow> op_succeeded st \<Longrightarrow> op_succeeded st'"
  by (auto simp: op_succeeded_def elim!: op_stepE)

lemma op_step_inactive:
  "op_step st st' \<Longrightarrow> st \<noteq> OpReleased \<and> st \<noteq> OpRefused"
  by (auto elim!: op_stepE)

lemma op_succeeded_active: "op_succeeded (op_status r) \<Longrightarrow> active_refund r"
  by (auto simp: op_succeeded_def active_refund_def)

definition op_ok :: "WalletFundingQuote \<Rightarrow> WalletFundingRefundOperation \<Rightarrow> bool" where
  "op_ok q r \<longleftrightarrow>
     canonical (pi_amount r) \<and> 0 < centsOf (pi_amount r) \<and> pi_accountId r = wq_accountId q \<and>
     pi_fundingId r = wq_fundingId q \<and> pi_currencyCode r = wq_currencyCode q \<and>
     (op_status r = OpIntent \<or> op_status r = OpRefused \<longrightarrow> op_reservationId r = None) \<and>
     (op_status r = OpIntent \<longrightarrow> op_exception r \<noteq> Some ExAuthorityRefused)"

definition same_identity :: "WalletFundingRefundOperation \<Rightarrow> WalletFundingRefundOperation \<Rightarrow> bool" where
  "same_identity r r' \<longleftrightarrow> matchesPrepaidRefundIdentity r r' \<and> op_providerIdempotencyKey r = op_providerIdempotencyKey r'"

text \<open>A change of an operation: a step or a note on a state that is not final.\<close>

definition op_moves :: "WalletFundingQuote \<Rightarrow> WalletFundingRefundOperation \<Rightarrow> WalletFundingRefundOperation \<Rightarrow> bool" where
  "op_moves q r r' \<longleftrightarrow>
     same_identity r' r \<and> op_ok q r' \<and>
     (op_step (op_status r) (op_status r') \<or> op_status r' = op_status r \<and> \<not> op_terminal (op_status r))"

lemma same_identity_refl [simp]: "same_identity r r"
  by (simp add: same_identity_def matchesPrepaidRefundIdentity_def)

lemma op_ok_normal: "op_ok q r \<Longrightarrow> normalizeRefundOperation r = r"
  by (auto simp: op_ok_def normalizeRefundOperation_def)

lemmas op_defs = op_moves_def op_ok_def same_identity_def matchesPrepaidRefundIdentity_def

lemma reserve_moves:
  "op_ok q r \<Longrightarrow> reserveRefund r v t = Inr r' \<Longrightarrow> r' = r \<or> op_moves q r r'"
  by (auto simp: reserveRefund_def op_defs split: if_splits intro: op_reserve)

lemma claim_moves:
  "op_ok q r \<Longrightarrow> claimRefundSubmission r t = Inr r' \<Longrightarrow> r' = r \<or> op_moves q r r'"
  by (auto simp: claimRefundSubmission_def op_defs split: if_splits intro: op_claim)

lemma settle_moves:
  "op_ok q r \<Longrightarrow> settleRefundAuthority r v t = Inr r' \<Longrightarrow> r' = r \<or> op_moves q r r'"
  by (cases v) (auto simp: settleRefundAuthority_def op_defs split: if_splits intro: op_commit op_release)

lemma observedStatus_range:
  "observedStatus p \<in> {OpPending, OpUnknown, OpSuccessAwaitingCommit, OpFailureAwaitingRelease}"
  by (cases p) auto

lemma observe_moves:
  assumes "op_ok q r" and "observeRefund r obs = Inr r'"
  shows "r' = r \<or> op_moves q r r'"
proof -
  have none: "refundObservationConflict r obs = None"
    using assms(2) by (auto simp: observeRefund_def split: option.splits)
  have res: "truthy (op_reservationId r)" "op_status r \<noteq> OpIntent" "op_status r \<noteq> OpReserved"
    using none by (auto simp: refundObservationConflict_def split: if_splits)
  then have refused: "op_status r \<noteq> OpRefused" using assms(1) by (auto simp: op_ok_def truthy_def)
  show ?thesis
  proof (cases "op_succeeded (op_status r) \<or> op_failed (op_status r)")
    case True
    with assms(2) none show ?thesis by (simp add: observeRefund_def)
  next
    case False
    then have "op_status r \<in> {OpSubmitting, OpPending, OpUnknown}"
      using res refused by (cases "op_status r") (auto simp: op_succeeded_def op_failed_def)
    from op_observe [OF this observedStatus_range [of "ob_status obs"]]
    have step: "op_step (op_status r) (op_status r')"
      and status: "op_status r' = observedStatus (ob_status obs)"
      and same: "same_identity r' r"
      using False none assms(2)
      by (auto simp: observeRefund_def Let_def same_identity_def matchesPrepaidRefundIdentity_def)
    have "op_status r' \<noteq> OpIntent" "op_status r' \<noteq> OpRefused"
      unfolding status by (cases "ob_status obs"; simp)+
    with same assms(1) have "op_ok q r'"
      by (simp add: op_ok_def same_identity_def matchesPrepaidRefundIdentity_def)
    with step same show ?thesis by (simp add: op_moves_def)
  qed
qed

lemma exception_moves:
  assumes "op_ok q r" and "\<not> ignores_exception r ex"
  shows "op_moves q r (exceptionOperation r ex t)"
proof -
  have "\<not> op_terminal (op_status r)" using assms(2) by (auto simp: ignores_exception_def op_terminal_def)
  then show ?thesis
    using assms by (auto simp: exceptionOperation_def op_defs op_terminal_def ignores_exception_def
        intro: op_refuse op_observe)
qed


section \<open>Totals\<close>

definition contribution :: "(WalletFundingRefundOperation \<Rightarrow> bool) \<Rightarrow> WalletFundingRefundOperation \<Rightarrow> int" where
  "contribution P r = (if P r then centsOf (pi_amount r) else 0)"

definition refund_total ::
    "(WalletFundingRefundOperation \<Rightarrow> bool) \<Rightarrow> (string \<times> WalletFundingRefundOperation) list \<Rightarrow> int" where
  "refund_total P refunds = keyed_total (contribution P) refunds"

abbreviation paid_back :: "WalletFundingRefundOperation \<Rightarrow> bool" where
  "paid_back r \<equiv> op_succeeded (op_status r)"

lemma refund_total_simps [simp]:
  "refund_total P [] = 0"
  "refund_total P ((k, r) # refunds) = contribution P r + refund_total P refunds"
  by (simp_all add: refund_total_def)

lemma refund_total_new:
  "map_of refunds k = None \<Longrightarrow> refund_total P (AList.update k r refunds) = refund_total P refunds + contribution P r"
  by (simp add: refund_total_def keyed_total_new)

lemma refund_total_changed:
  "map_of refunds k = Some r \<Longrightarrow>
   refund_total P (AList.update k r' refunds) = refund_total P refunds - contribution P r + contribution P r'"
  by (simp add: refund_total_def keyed_total_changed)

lemma refund_total_nonneg:
  "(\<And>k r. (k, r) \<in> set refunds \<Longrightarrow> 0 \<le> centsOf (pi_amount r)) \<Longrightarrow> 0 \<le> refund_total P refunds"
  by (auto simp: refund_total_def contribution_def intro!: keyed_total_nonneg)

lemma refund_total_mono:
  assumes "\<And>k r. (k, r) \<in> set refunds \<Longrightarrow> 0 \<le> centsOf (pi_amount r)" and "\<And>r. P r \<Longrightarrow> Q r"
  shows "refund_total P refunds \<le> refund_total Q refunds"
  unfolding refund_total_def by (rule keyed_total_mono) (use assms in \<open>auto simp: contribution_def\<close>)


section \<open>The invariant of a funding\<close>

definition quote_ok :: "WalletFundingQuote \<Rightarrow> bool" where
  "quote_ok q \<longleftrightarrow>
     canonical (wq_requestedAmount q) \<and> canonical (wq_feeAmount q) \<and> canonical (wq_grossAmount q) \<and>
     0 < centsOf (wq_requestedAmount q) \<and> 0 \<le> centsOf (wq_feeAmount q) \<and>
     centsOf (wq_grossAmount q) = centsOf (wq_requestedAmount q) + centsOf (wq_feeAmount q)"

definition refunds_ok :: "WalletFundingQuote \<Rightarrow> (string \<times> WalletFundingRefundOperation) list \<Rightarrow> bool" where
  "refunds_ok q refunds \<longleftrightarrow>
     distinct (map fst refunds) \<and> (\<forall>(k, r)\<in>set refunds. k = pi_refundId r \<and> op_ok q r) \<and>
     refund_total active_refund refunds \<le> centsOf (wq_requestedAmount q)"

definition funding_inv :: "WalletFundingState \<Rightarrow> bool" where
  "funding_inv s \<longleftrightarrow>
     (case wf_quote s of
        None \<Rightarrow> s = initialWalletFundingState
      | Some q \<Rightarrow> quote_ok q \<and> refunds_ok q (wf_refunds s) \<and> canonical (wf_refundedAmount s) \<and>
                  centsOf (wf_refundedAmount s) = refund_total paid_back (wf_refunds s))"

lemma fundingRule_Inr [res_simps]: "fundingRule c m k = Inr x \<longleftrightarrow> c \<and> k = Inr x"
  by (simp add: fundingRule_def)

lemma refunds_okD:
  assumes "refunds_ok q refunds" and "map_of refunds k = Some r"
  shows "pi_refundId r = k \<and> op_ok q r"
  using assms by (auto simp: refunds_ok_def dest!: map_of_SomeD)

lemma refunds_amounts_nonneg: "refunds_ok q refunds \<Longrightarrow> (k, r) \<in> set refunds \<Longrightarrow> 0 \<le> centsOf (pi_amount r)"
  by (auto simp: refunds_ok_def op_ok_def)

lemma refunds_ok_update:
  assumes "refunds_ok q refunds" and "op_ok q r" and "pi_refundId r = k"
    and "refund_total active_refund (AList.update k r refunds) \<le> centsOf (wq_requestedAmount q)"
  shows "refunds_ok q (AList.update k r refunds)"
  using assms by (auto simp: refunds_ok_def set_update intro: distinct_update)

lemma quote_rule_Inr [res_simps]:
  "quote_amount_rule a key z k = Inr x \<longleftrightarrow> paymentsMoneyAmount a z key = Inr a \<and> k = Inr x"
  by (auto simp: quote_amount_rule_def res_simps)

lemma centsToMoneyAmount_Inr:
  "0 \<le> c \<Longrightarrow> centsToMoneyAmount (JBig c) = Inr t \<Longrightarrow> canonical t \<and> centsOf t = c"
  by (auto simp: money_simps split: if_splits)

lemma paymentsAddMoney_Inr:
  assumes "paymentsAddMoney a b = Inr t" and "canonical a" and "canonical b" and "0 \<le> centsOf a" and "0 \<le> centsOf b"
  shows "canonical t \<and> centsOf t = centsOf a + centsOf b"
proof (rule centsToMoneyAmount_Inr)
  show "centsToMoneyAmount (JBig (centsOf a + centsOf b)) = Inr t"
    using paymentsAddMoney_canonical [OF assms(2-5)] assms(1) by simp
qed (use assms(4,5) in simp)

lemma decided_quote:
  assumes "decideQuote s q = Inr es"
  shows "es = [] \<or> es = [FundingQuotedEvent q] \<and> wf_quote s = None \<and> quote_ok q"
proof -
  from assms have a: "paymentsMoneyAmount (wq_requestedAmount q) False ''requestedAmount'' = Inr (wq_requestedAmount q)"
    "paymentsMoneyAmount (wq_feeAmount q) True ''feeAmount'' = Inr (wq_feeAmount q)"
    "paymentsMoneyAmount (wq_grossAmount q) False ''grossAmount'' = Inr (wq_grossAmount q)"
    "paymentsAddMoney (wq_requestedAmount q) (wq_feeAmount q) = Inr (wq_grossAmount q)"
    by (auto simp: decideQuote_def res_simps)
  note n = a(1-3) [THEN paymentsMoneyAmount_Inr]
  then have "centsOf (wq_grossAmount q) = centsOf (wq_requestedAmount q) + centsOf (wq_feeAmount q)"
    using paymentsAddMoney_Inr [OF a(4)] by blast
  with n have ok: "quote_ok q" by (simp add: quote_ok_def)
  show ?thesis
  proof (cases "wf_quote s")
    case None
    with assms ok show ?thesis by (simp add: decideQuote_def res_simps)
  next
    case (Some q')
    with assms show ?thesis by (simp add: decideQuote_def res_simps)
  qed
qed

lemma pending_total:
  assumes "foldE (\<lambda>sum r. paymentsAddMoney sum (pi_amount r)) t rs = Inr p" and "canonical t" and "0 \<le> centsOf t"
    and "\<forall>r\<in>set rs. canonical (pi_amount r) \<and> 0 \<le> centsOf (pi_amount r)"
  shows "canonical p \<and> centsOf p = centsOf t + sum_list (map (\<lambda>r. centsOf (pi_amount r)) rs)"
  using assms
proof (induction rs arbitrary: t)
  case (Cons r rs)
  then obtain u where u: "paymentsAddMoney t (pi_amount r) = Inr u"
    "foldE (\<lambda>sum r. paymentsAddMoney sum (pi_amount r)) u rs = Inr p" by (auto simp: res_simps)
  have "canonical u \<and> centsOf u = centsOf t + centsOf (pi_amount r)"
    using paymentsAddMoney_Inr [OF u(1)] Cons.prems(2-4) by simp
  with Cons.IH [OF u(2)] Cons.prems(3,4) show ?case by simp
qed simp

lemma pendingRefundAmount_total:
  assumes "pendingRefundAmount refunds = Inr p" and "refunds_ok q refunds"
  shows "canonical p \<and> centsOf p = refund_total active_refund refunds"
proof -
  have "\<forall>r\<in>set (filter active_refund (map snd refunds)). canonical (pi_amount r) \<and> 0 \<le> centsOf (pi_amount r)"
    using assms(2) by (auto simp: refunds_ok_def op_ok_def)
  moreover have "sum_list (map (\<lambda>r. centsOf (pi_amount r)) (filter active_refund (map snd refunds))) =
      refund_total active_refund refunds"
    by (induction refunds) (auto simp: contribution_def)
  ultimately show ?thesis using pending_total [OF assms(1) [unfolded pendingRefundAmount_def]] by simp
qed

lemma decided_refund_request:
  assumes "decideRequestFundingRefund s q i t = Inr es" and "refunds_ok q (wf_refunds s)" and "quote_ok q"
  shows "es = [] \<or> es = [RefundOperationRecorded (refundIntent i t)] \<and>
    map_of (wf_refunds s) (pi_refundId i) = None \<and> op_ok q (refundIntent i t) \<and>
    refund_total active_refund (wf_refunds s) + centsOf (pi_amount i) \<le> centsOf (wq_requestedAmount q)"
proof (cases "es = []")
  case False
  with assms(1) obtain p total ord where
    k: "map_of (wf_refunds s) (pi_refundId i) = None" "es = [RefundOperationRecorded (refundIntent i t)]"
      "pi_accountId i = wq_accountId q" "pi_fundingId i = wq_fundingId q" "pi_currencyCode i = wq_currencyCode q"
    and am: "paymentsMoneyAmount (pi_amount i) False ''Refund amount'' = Inr (pi_amount i)"
    and p: "pendingRefundAmount (wf_refunds s) = Inr p" "paymentsAddMoney p (pi_amount i) = Inr total"
      "paymentsCompareMoney total (wq_requestedAmount q) = Inr ord" "ord \<le> 0"
    by (auto simp: decideRequestFundingRefund_def res_simps split: option.splits)
  have amount: "canonical (pi_amount i)" "0 < centsOf (pi_amount i)" using paymentsMoneyAmount_Inr [OF am] by simp_all
  have pending: "canonical p" "centsOf p = refund_total active_refund (wf_refunds s)"
    using pendingRefundAmount_total [OF p(1) assms(2)] by simp_all
  then have "0 \<le> centsOf p"
    using refund_total_nonneg refunds_amounts_nonneg [OF assms(2)] by metis
  then have total: "canonical total" "centsOf total = centsOf p + centsOf (pi_amount i)"
    using paymentsAddMoney_Inr [OF p(2) pending(1) amount(1)] amount(2) by simp_all
  have "canonical (wq_requestedAmount q)" using assms(3) by (simp add: quote_ok_def)
  from compareMoneyAmounts_canonical [OF total(1) this] p(3,4)
  have "centsOf total \<le> centsOf (wq_requestedAmount q)"
    by (simp add: paymentsCompareMoney_def split: if_splits)
  moreover have "op_ok q (refundIntent i t)"
    using k(3-5) amount by (simp add: op_ok_def refundIntent_def)
  ultimately show ?thesis using k(1,2) total(2) pending(2) by simp
qed simp

text \<open>The events that leave the quote, the refunds and the refunded amount alone.\<close>

fun neutral :: "WalletFundingEvent \<Rightarrow> bool" where
  "neutral (FundingQuotedEvent q) = False"
| "neutral (RefundOperationRecorded r) = False"
| "neutral (FundingRefundedEvent d) = False"
| "neutral _ = True"

lemma evolve_neutral:
  "neutral e \<Longrightarrow> \<exists>s'. evolveWalletFunding s e = Inr s' \<and> wf_quote s' = wf_quote s \<and>
     wf_refunds s' = wf_refunds s \<and> wf_refundedAmount s' = wf_refundedAmount s"
  by (cases e) (auto simp: Let_def)

lemma fact_Inr: "wf_quote s = Some q \<Longrightarrow> \<exists>d. fact s t = Inr d"
  by (simp add: fact_def)


section \<open>What a command changes\<close>

text \<open>The batches a decider answers with.\<close>

inductive funding_batch :: "WalletFundingState \<Rightarrow> WalletFundingQuote \<Rightarrow> WalletFundingEvent list \<Rightarrow> bool" for s q where
  batch_none: "funding_batch s q []"
| batch_neutral: "neutral e \<Longrightarrow> funding_batch s q [e]"
| batch_request: "map_of (wf_refunds s) (pi_refundId r) = None \<Longrightarrow> op_ok q r \<Longrightarrow> op_status r = OpIntent \<Longrightarrow>
    refund_total active_refund (wf_refunds s) + centsOf (pi_amount r) \<le> centsOf (wq_requestedAmount q) \<Longrightarrow>
    funding_batch s q [RefundOperationRecorded r]"
| batch_move: "map_of (wf_refunds s) (pi_refundId r) = Some r \<Longrightarrow> op_moves q r r' \<Longrightarrow>
    (paid_back r' \<longrightarrow> paid_back r) \<Longrightarrow> funding_batch s q [RefundOperationRecorded r']"
| batch_success: "map_of (wf_refunds s) (pi_refundId r) = Some r \<Longrightarrow> op_moves q r r' \<Longrightarrow>
    paid_back r' \<Longrightarrow> \<not> paid_back r \<Longrightarrow> wr_refundAmount d = pi_amount r' \<Longrightarrow>
    funding_batch s q [RefundOperationRecorded r', FundingRefundedEvent d]"

lemma attention_batch: "funding_batch s q (attentionEvents s a)"
  by (auto simp: attentionEvents_def intro: funding_batch.intros)

lemma op_moves_paid_back:
  assumes "op_moves q r r'" and "paid_back r'" and "\<not> paid_back r"
  shows "op_status r' = OpSuccessAwaitingCommit"
  using assms by (auto simp: op_moves_def op_succeeded_def elim!: op_stepE)

lemma operationEvents_batch:
  assumes "operationEvents s q r r' = Inr es" and "r' = r \<or> op_moves q r r'"
    and "map_of (wf_refunds s) (pi_refundId r) = Some r"
  shows "funding_batch s q es"
proof (cases "r' = r")
  case True
  with assms(1) show ?thesis by (simp add: operationEvents_def batch_none)
next
  case False
  then have moves: "op_moves q r r'" using assms(2) by simp
  show ?thesis
  proof (cases "op_status r' = OpSuccessAwaitingCommit \<and> op_status r \<noteq> OpSuccessAwaitingCommit")
    case True
    then have "op_step (op_status r) (op_status r')" using moves by (auto simp: op_moves_def)
    then have "op_status r \<noteq> OpCommitted" by (auto elim: op_stepE)
    with True have paid: "paid_back r'" "\<not> paid_back r" by (simp_all add: op_succeeded_def)
    obtain d where "es = [RefundOperationRecorded r', FundingRefundedEvent d]" "wr_refundAmount d = pi_amount r'"
      using assms(1) False True by (auto simp: operationEvents_def res_simps)
    with batch_success [OF assms(3) moves paid, of d] show ?thesis by simp
  next
    case not_success: False
    have "paid_back r" if "paid_back r'"
    proof (rule ccontr)
      assume open_op: "\<not> paid_back r"
      have "op_status r' = OpSuccessAwaitingCommit" by (rule op_moves_paid_back [OF moves that open_op])
      with not_success open_op show False by (simp add: op_succeeded_def)
    qed
    moreover have "es = [RefundOperationRecorded r']"
      using assms(1) unfolding operationEvents_def if_not_P [OF False] if_not_P [OF not_success] by simp
    ultimately show ?thesis using batch_move [OF assms(3) moves] by simp
  qed
qed

lemma withRefund_Inr:
  "withRefund s i k = Inr x \<longleftrightarrow> (\<exists>r. map_of (wf_refunds s) i = Some r \<and> k r = Inr x)"
  by (simp add: withRefund_def split: option.splits)

lemma withRefund_batch:
  assumes "withRefund s i (\<lambda>r. bindE (f r) (operationEvents s q r)) = Inr es" and "refunds_ok q (wf_refunds s)"
    and "\<And>r r'. op_ok q r \<Longrightarrow> f r = Inr r' \<Longrightarrow> r' = r \<or> op_moves q r r'"
  shows "funding_batch s q es"
proof -
  from assms(1) obtain r r' where r: "map_of (wf_refunds s) i = Some r" "f r = Inr r'" "operationEvents s q r r' = Inr es"
    by (auto simp: withRefund_Inr res_simps)
  with refunds_okD [OF assms(2) r(1)] assms(3) operationEvents_batch show ?thesis by blast
qed

lemma decideFunding_batch:
  assumes "decideFunding s q c = Inr es" and "wf_quote s = Some q" and "refunds_ok q (wf_refunds s)" and "quote_ok q"
  shows "funding_batch s q es"
proof (cases c)
  case (Quote x1)
  with assms(1,2) decided_quote [of s x1 es] show ?thesis by (auto intro: batch_none)
next
  case (RequestFundingRefund i t)
  with assms(1) decided_refund_request [OF _ assms(3,4), of i t es] show ?thesis
    by (auto intro!: batch_none batch_request simp: refundIntent_def)
next
  case (ReserveRefund v t)
  with assms(1) obtain r r' where r: "map_of (wf_refunds s) (pi_refundId v) = Some r" "reserveRefund r v t = Inr r'"
    and es: "es = attentionEvents s (ReservationAfterRefusal v t) \<or> operationEvents s q r r' = Inr es"
    by (auto simp: decideReserveRefund_def withRefund_Inr res_simps split: if_splits)
  from refunds_okD [OF assms(3) r(1)] r reserve_moves [of q r v t r'] es operationEvents_batch [of s q r r' es]
  show ?thesis by (auto simp: attention_batch)
next
  case (ObserveRefund obs)
  show ?thesis
  proof (cases "map_of (wf_refunds s) (ob_refundId obs)")
    case None
    with assms(1) ObserveRefund show ?thesis by (auto simp: decideObserveRefund_def attention_batch)
  next
    case (Some r)
    with refunds_okD [OF assms(3) Some] observe_moves [of q r obs] operationEvents_batch [of s q r] assms(1) ObserveRefund
    show ?thesis by (auto simp: decideObserveRefund_def res_simps attention_batch split: option.splits)
  qed
next
  case (ClaimRefundSubmission i t)
  with assms(1) have "withRefund s i (\<lambda>r. bindE (claimRefundSubmission r t) (operationEvents s q r)) = Inr es" by simp
  then show ?thesis using assms(3) by (rule withRefund_batch) (rule claim_moves)
next
  case (SettleRefundAuthority i v t)
  with assms(1) have "withRefund s i (\<lambda>r. bindE (settleRefundAuthority r v t) (operationEvents s q r)) = Inr es" by simp
  then show ?thesis using assms(3) by (rule withRefund_batch) (rule settle_moves)
next
  case (RecordRefundException i ex t)
  with assms(1) obtain r where r: "map_of (wf_refunds s) i = Some r"
    "if ignores_exception r ex then es = [] else operationEvents s q r (exceptionOperation r ex t) = Inr es"
    by (auto simp: withRefund_Inr split: if_splits)
  with refunds_okD [OF assms(3) r(1)] exception_moves [of q r ex t] operationEvents_batch [of s q r "exceptionOperation r ex t" es]
  show ?thesis by (auto intro: batch_none split: if_splits)
next
  case (RecordRefundAttention a)
  with assms(1) show ?thesis by (auto simp: attention_batch)
next
  case (ClaimCreation t)
  with assms(1) show ?thesis
    by (auto simp: decideClaimCreation_def res_simps intro!: batch_none batch_neutral split: if_splits)
next
  case (FailUnsubmitted t)
  with assms(1) show ?thesis
    by (auto simp: decideFailUnsubmitted_def res_simps intro!: batch_none batch_neutral split: if_splits)
next
  case (RecordCreated r u)
  with assms(1) show ?thesis
    by (auto simp: decideRecordCreated_def res_simps intro!: batch_none batch_neutral split: if_splits)
next
  case (ObserveFunding x r t m)
  with assms(1) show ?thesis
    by (auto simp: decideObserveFunding_def res_simps intro!: batch_none batch_neutral split: if_splits)
next
  case (RecordDispute i l a f t)
  with assms(1) show ?thesis
    by (auto simp: decideRecordDispute_def Let_def res_simps intro!: batch_none batch_neutral split: if_splits)
next
  case (RecordFraudWarning i t)
  with assms(1) show ?thesis
    by (auto simp: decideRecordFraudWarning_def res_simps intro!: batch_none batch_neutral split: if_splits)
qed


text \<open>The fields of the state the invariant speaks of.\<close>

definition funding_core :: "WalletFundingQuote \<Rightarrow> (string \<times> WalletFundingRefundOperation) list \<Rightarrow> string \<Rightarrow> bool" where
  "funding_core q refunds refunded \<longleftrightarrow>
     quote_ok q \<and> refunds_ok q refunds \<and> canonical refunded \<and> centsOf refunded = refund_total paid_back refunds"

lemma funding_inv_Some: "wf_quote s = Some q \<Longrightarrow> funding_inv s \<longleftrightarrow> funding_core q (wf_refunds s) (wf_refundedAmount s)"
  by (simp add: funding_inv_def funding_core_def)

lemma op_moves_amount: "op_moves q r r' \<Longrightarrow> pi_amount r' = pi_amount r \<and> pi_refundId r' = pi_refundId r \<and> op_ok q r'"
  by (simp add: op_moves_def same_identity_def matchesPrepaidRefundIdentity_def)

lemma op_moves_positive:
  assumes "op_moves q r r'"
  shows "canonical (pi_amount r)" "0 \<le> centsOf (pi_amount r)"
  using assms by (auto simp: op_moves_def same_identity_def matchesPrepaidRefundIdentity_def op_ok_def)

lemma op_moves_active:
  assumes "op_moves q r r'"
  shows "active_refund r"
proof -
  have "op_status r \<noteq> OpReleased \<and> op_status r \<noteq> OpRefused"
    using assms op_step_inactive by (auto simp: op_moves_def op_terminal_def)
  then show ?thesis by (simp add: active_refund_def)
qed

lemma op_moves_paid_on: "op_moves q r r' \<Longrightarrow> paid_back r \<Longrightarrow> paid_back r'"
  using op_step_succeeded by (auto simp: op_moves_def)

lemma move_totals:
  assumes "map_of refunds (pi_refundId r) = Some r" and "op_moves q r r'" and "0 \<le> centsOf (pi_amount r)"
  shows "refund_total active_refund (AList.update (pi_refundId r) r' refunds) \<le> refund_total active_refund refunds"
    and "paid_back r' = paid_back r \<Longrightarrow>
      refund_total paid_back (AList.update (pi_refundId r) r' refunds) = refund_total paid_back refunds"
    and "paid_back r' \<Longrightarrow> \<not> paid_back r \<Longrightarrow>
      refund_total paid_back (AList.update (pi_refundId r) r' refunds) = refund_total paid_back refunds + centsOf (pi_amount r)"
  using op_moves_amount [OF assms(2)] op_moves_active [OF assms(2)] assms(3)
  by (simp_all add: refund_total_changed [OF assms(1)] contribution_def)

definition moves_on :: "WalletFundingState \<Rightarrow> WalletFundingState \<Rightarrow> bool" where
  "moves_on s s' \<longleftrightarrow> (\<forall>i r. map_of (wf_refunds s) i = Some r \<longrightarrow>
     (\<exists>r'. map_of (wf_refunds s') i = Some r' \<and> (r' = r \<or> (\<exists>q. op_moves q r r'))))"

lemma moves_on_update:
  assumes "map_of refunds k = Some r" and "op_moves q r r'" and "wf_refunds s = refunds"
    and "wf_refunds s' = AList.update k r' refunds"
  shows "moves_on s s'"
  using assms by (auto simp: moves_on_def update_conv')

lemma batch_applies:
  assumes "funding_batch s q es" and "wf_quote s = Some q" and "funding_inv s"
  shows "\<exists>s'. applyEvents s evolveWalletFunding es = Inr s' \<and> wf_quote s' = Some q \<and>
    funding_core q (wf_refunds s') (wf_refundedAmount s') \<and> moves_on s s'"
proof -
  let ?refunds = "wf_refunds s"
  have core: "quote_ok q" "refunds_ok q ?refunds" "canonical (wf_refundedAmount s)"
    "centsOf (wf_refundedAmount s) = refund_total paid_back ?refunds"
    using assms(2,3) by (simp_all add: funding_inv_Some funding_core_def)
  have limit: "refund_total active_refund ?refunds \<le> centsOf (wq_requestedAmount q)"
    using core(2) by (simp add: refunds_ok_def)
  from assms(1) show ?thesis
  proof cases
    case batch_none
    with core assms(2) show ?thesis by (auto simp: funding_core_def moves_on_def)
  next
    case (batch_neutral e)
    from evolve_neutral [OF batch_neutral(2), of s] obtain s' where
      "evolveWalletFunding s e = Inr s'" "wf_quote s' = wf_quote s" "wf_refunds s' = ?refunds"
      "wf_refundedAmount s' = wf_refundedAmount s" by blast
    with batch_neutral(1) core assms(2) show ?thesis
      by (auto simp: funding_core_def moves_on_def applyEvents_Cons)
  next
    case (batch_request r)
    have amount: "0 < centsOf (pi_amount r)" using batch_request(3) by (simp add: op_ok_def)
    have totals: "refund_total active_refund (AList.update (pi_refundId r) r ?refunds) \<le> centsOf (wq_requestedAmount q)"
      "refund_total paid_back (AList.update (pi_refundId r) r ?refunds) = refund_total paid_back ?refunds"
      using batch_request(4,5) refund_total_new [OF batch_request(2)]
      by (simp_all add: contribution_def active_refund_def op_succeeded_def)
    have "moves_on s (s\<lparr>wf_refunds := AList.update (pi_refundId r) r ?refunds\<rparr>)"
      using batch_request(2) by (auto simp: moves_on_def update_conv')
    with batch_request(1,3) core totals assms(2) refunds_ok_update [OF core(2) batch_request(3) refl totals(1)]
    show ?thesis by (simp add: applyEvents_Cons op_ok_normal funding_core_def)
  next
    case (batch_move r r')
    note m = op_moves_amount [OF batch_move(3)]
    then have normal: "normalizeRefundOperation r' = r'" using op_ok_normal by blast
    note totals = move_totals [OF batch_move(2,3) op_moves_positive(2) [OF batch_move(3)]]
    have "paid_back r' = paid_back r" using batch_move(4) op_moves_paid_on [OF batch_move(3)] by blast
    note paid = totals(2) [OF this]
    let ?s = "s\<lparr>wf_refunds := AList.update (pi_refundId r) r' ?refunds\<rparr>"
    have "refunds_ok q (AList.update (pi_refundId r) r' ?refunds)"
      using m totals(1) limit by (intro refunds_ok_update [OF core(2)]) simp_all
    moreover have "moves_on s ?s" by (rule moves_on_update [OF batch_move(2,3)]) simp_all
    ultimately show ?thesis
      using batch_move(1) m normal core paid assms(2) by (simp add: applyEvents_Cons funding_core_def)
  next
    case (batch_success r r' d)
    note m = op_moves_amount [OF batch_success(3)]
    then have normal: "normalizeRefundOperation r' = r'" using op_ok_normal by blast
    note amount = op_moves_positive [OF batch_success(3)]
    note totals = move_totals [OF batch_success(2,3) amount(2)]
    note paid = totals(3) [OF batch_success(4,5)]
    let ?new = "AList.update (pi_refundId r) r' ?refunds"
    let ?s = "s\<lparr>wf_refunds := ?new\<rparr>"
    have ok: "refunds_ok q ?new"
      using m totals(1) limit by (intro refunds_ok_update [OF core(2)]) simp_all
    have "refund_total paid_back ?new \<le> refund_total active_refund ?new"
      by (rule refund_total_mono [OF refunds_amounts_nonneg [OF ok] op_succeeded_active])
    with totals(1) limit have bound: "refund_total paid_back ?new \<le> centsOf (wq_requestedAmount q)" by simp
    have range: "in_range (centsOf (wq_requestedAmount q))"
      using core(1) canonical_in_range by (simp add: quote_ok_def)
    have zero: "0 \<le> refund_total paid_back ?refunds"
      by (rule refund_total_nonneg [OF refunds_amounts_nonneg [OF core(2)]])
    define total where "total = centsOf (wf_refundedAmount s) + centsOf (pi_amount r)"
    have total: "0 \<le> total" "in_range total" "total = refund_total paid_back ?new"
      using bound paid zero amount(2) core(4) range by (simp_all add: total_def in_range_def)
    have "paymentsAddMoney (wf_refundedAmount s) (pi_amount r) = Inr (formatCents total)"
      using paymentsAddMoney_canonical [OF core(3) amount(1)] zero core(4) amount(2) total(1,2)
      by (simp add: total_def money_simps)
    moreover have "canonical (formatCents total)" "centsOf (formatCents total) = total"
      using total(1,2) by (simp_all add: canonical_format)
    moreover have "moves_on s (?s\<lparr>wf_refundedAmount := x, wf_status := y\<rparr>)" for x y
      by (rule moves_on_update [OF batch_success(2,3)]) simp_all
    ultimately show ?thesis
      using batch_success(1,6) m normal core ok total(3) assms(2)
      by (simp add: applyEvents_Cons funding_core_def Let_def)
  qed
qed


lemma funding_decided:
  assumes "funding_inv s" and "decideWalletFunding s c = Inr es"
  shows "\<exists>s'. applyEvents s evolveWalletFunding es = Inr s' \<and> funding_inv s' \<and> moves_on s s'"
proof (cases "wf_quote s")
  case None
  with assms have s: "s = initialWalletFundingState" by (simp add: funding_inv_def)
  from assms(2) None obtain q where q: "decideQuote s q = Inr es"
    by (cases c) (simp_all add: decideWalletFunding_def)
  have "moves_on s t" for t by (simp add: moves_on_def s initialWalletFundingState_def)
  moreover from decided_quote [OF q]
  have "\<exists>s'. applyEvents s evolveWalletFunding es = Inr s' \<and> funding_inv s'"
    using assms(1) by (auto simp: applyEvents_Cons s funding_inv_def initialWalletFundingState_def refunds_ok_def quote_ok_def)
  ultimately show ?thesis by blast
next
  case (Some q)
  have core: "quote_ok q" "refunds_ok q (wf_refunds s)"
    using assms(1) Some by (simp_all add: funding_inv_Some funding_core_def)
  have "decideFunding s q c = Inr es"
    using assms(2) Some by (cases c) (simp_all add: decideWalletFunding_def)
  from decideFunding_batch [OF this Some core(2,1)] batch_applies [OF _ Some assms(1)] show ?thesis
    by (metis funding_inv_Some)
qed

interpretation funding: replayable_aggregate initialWalletFundingState evolveWalletFunding decideWalletFunding funding_inv
proof unfold_locales
  show "funding_inv initialWalletFundingState" by (simp add: funding_inv_def initialWalletFundingState_def)
next
  fix s c es s'
  assume "funding_inv s" "decideWalletFunding s c = Inr es" "applyEvents s evolveWalletFunding es = Inr s'"
  with funding_decided [of s c es] show "funding_inv s'" by auto
next
  fix s c es
  assume "funding_inv s" "decideWalletFunding s c = Inr es"
  with funding_decided show "\<exists>s'. applyEvents s evolveWalletFunding es = Inr s'" by blast
qed


section \<open>The course of a refund\<close>

definition follows :: "WalletFundingRefundOperation \<Rightarrow> WalletFundingRefundOperation \<Rightarrow> bool" where
  "follows r r' \<longleftrightarrow>
     same_identity r' r \<and> op_step\<^sup>*\<^sup>* (op_status r) (op_status r') \<and>
     (op_terminal (op_status r) \<longrightarrow> r' = r) \<and> (op_claimed (op_status r) \<longrightarrow> op_claimed (op_status r'))"

lemma op_moves_follows:
  assumes "follows r r'" and "r'' = r' \<or> op_moves q r' r''"
  shows "follows r r''"
proof (cases "r'' = r'")
  case False
  then have m: "op_moves q r' r''" using assms(2) by simp
  then have status: "op_step (op_status r') (op_status r'') \<or> op_status r'' = op_status r' \<and> \<not> op_terminal (op_status r')"
    and same: "same_identity r'' r'" by (simp_all add: op_moves_def)
  then have open_op: "\<not> op_terminal (op_status r')" using op_step_terminal by blast
  have "same_identity r'' r" using same assms(1)
    by (simp add: follows_def same_identity_def matchesPrepaidRefundIdentity_def)
  moreover have "op_step\<^sup>*\<^sup>* (op_status r) (op_status r'')"
    using status assms(1) by (auto simp: follows_def intro: rtranclp.rtrancl_into_rtrancl)
  moreover have "op_claimed (op_status r) \<longrightarrow> op_claimed (op_status r'')"
    using status assms(1) op_step_claimed by (auto simp: follows_def)
  moreover have "op_terminal (op_status r) \<longrightarrow> r'' = r"
    using assms(1) open_op by (auto simp: follows_def)
  ultimately show ?thesis by (simp add: follows_def)
qed (use assms(1) in simp)

lemma follows_refl: "follows r r"
  by (simp add: follows_def)

lemma refund_course:
  assumes "reachable_history initialWalletFundingState evolveWalletFunding decideWalletFunding es"
    and "foldEvents initialWalletFundingState evolveWalletFunding es = Inr s"
    and "map_of (wf_refunds s) i = Some r"
    and "runCommands initialWalletFundingState evolveWalletFunding decideWalletFunding es cs = Inr es'"
    and "foldEvents initialWalletFundingState evolveWalletFunding es' = Inr s'"
  shows "\<exists>r'. map_of (wf_refunds s') i = Some r' \<and> follows r r'"
proof -
  let ?P = "\<lambda>s. funding_inv s \<and> (\<exists>r'. map_of (wf_refunds s) i = Some r' \<and> follows r r')"
  have start: "?P s" using assms(3) follows_refl funding.loaded_inv [OF assms(1,2)] by blast
  have keep: "?P t'" if "?P t" "decideWalletFunding t c = Inr new" "applyEvents t evolveWalletFunding new = Inr t'" for t c new t'
  proof -
    from that(1) obtain r' where r': "funding_inv t" "map_of (wf_refunds t) i = Some r'" "follows r r'" by blast
    with funding_decided [OF _ that(2)] that(3) have "funding_inv t'" "moves_on t t'" by auto
    then obtain r'' where "map_of (wf_refunds t') i = Some r''" "r'' = r' \<or> (\<exists>q. op_moves q r' r'')"
      using r'(2) unfolding moves_on_def by blast
    with op_moves_follows [OF r'(3)] \<open>funding_inv t'\<close> show ?thesis by blast
  qed
  have "?P s'" by (rule runCommands_keeps [where P = ?P, OF assms(4,2) start keep assms(5)])
  then show ?thesis by blast
qed

text \<open>Once a submission was claimed, no other claim is answered with an event.\<close>

lemma claimed_once:
  assumes "wf_quote s \<noteq> None" and "map_of (wf_refunds s) i = Some r" and "op_claimed (op_status r)"
  shows "decideWalletFunding s (ClaimRefundSubmission i t) = Inr []"
  using assms
  by (auto simp: decideWalletFunding_def withRefund_def claimRefundSubmission_def op_claimed_def operationEvents_def)

lemma quote_present: "funding_inv s \<Longrightarrow> map_of (wf_refunds s) i = Some r \<Longrightarrow> wf_quote s \<noteq> None"
  by (auto simp: funding_inv_def initialWalletFundingState_def split: option.splits)

end
