(* ===== verification/WalletFundingProps.thy ===== *)
theory WalletFundingProps
  imports WalletFundingFacts
begin

text \<open>The properties of wallet funding and of the refunds of prepaid money.\<close>

section \<open>Samples\<close>

definition fundingQuote :: WalletFundingQuote where
  "fundingQuote = \<lparr>wq_fundingId = ''wfp_1'', wq_accountId = ''acc_1'', wq_requestedAmount = ''50.00'',
     wq_feeAmount = ''1.50'', wq_grossAmount = ''51.50'', wq_currencyCode = ''usd'',
     wq_quoteFingerprint = ''q'', wq_quotedAt = ''2026-01-31'', wq_savedInstrumentId = None\<rparr>"

definition refundIdentity :: "string \<Rightarrow> string \<Rightarrow> PrepaidRefundIdentity" where
  "refundIdentity i a = \<lparr>pi_accountId = ''acc_1'', pi_fundingId = ''wfp_1'', pi_refundId = i,
     pi_currencyCode = ''usd'', pi_amount = a\<rparr>"

definition refundReservation :: PrepaidRefundReservation where
  "refundReservation = \<lparr>pi_accountId = ''acc_1'', pi_fundingId = ''wfp_1'', pi_refundId = ''wfr_1'',
     pi_currencyCode = ''usd'', pi_amount = ''20.00'', pr_reservationId = ''res_1''\<rparr>"

definition refundSuccess :: WalletFundingRefundObservation where
  "refundSuccess = \<lparr>ob_refundId = ''wfr_1'', ob_processorRefundReference = ''re_1'', ob_amount = ''20.00'',
     ob_currencyCode = ''usd'', ob_status = ProcSucceeded, ob_evidenceId = ''evt_1'', ob_at = ''2026-02-03''\<rparr>"

definition capturedRun :: "WalletFundingCommand list" where
  "capturedRun = [Quote fundingQuote, ClaimCreation ''2026-01-31'', RecordCreated ''pi_1'' None,
     ObserveFunding OutcomeCaptured ''pi_1'' ''2026-02-01'' None]"

definition claimedRun :: "WalletFundingCommand list" where
  "claimedRun = capturedRun @ [RequestFundingRefund (refundIdentity ''wfr_1'' ''20.00'') ''2026-02-02'',
     ReserveRefund refundReservation ''2026-02-02'', ClaimRefundSubmission ''wfr_1'' ''2026-02-02'']"

definition settlingRun :: "WalletFundingCommand list" where
  "settlingRun = [ObserveRefund refundSuccess, SettleRefundAuthority ''wfr_1'' AuthorityCommitted ''2026-02-04'']"

definition refundStatusOf :: "WalletFundingState \<Rightarrow> string \<Rightarrow> WalletFundingRefundStatus option" where
  "refundStatusOf s i = map_option op_status (map_of (wf_refunds s) i)"


section \<open>Properties\<close>

text \<open>
  C10. The refunds a wallet funding has accepted and that are not released or refused never exceed the
  requested amount together, and what it counts as refunded is exactly the sum of the refunds that the
  provider paid back; every history a stream can hold loads.
\<close>

theorem prepaid_refunds_never_exceed_funding:
  assumes "reachable_history initialWalletFundingState evolveWalletFunding decideWalletFunding es"
  shows "\<exists>s. foldEvents initialWalletFundingState evolveWalletFunding es = Inr s \<and>
    (case wf_quote s of
       None \<Rightarrow> wf_refunds s = []
     | Some q \<Rightarrow>
         centsOf (wf_refundedAmount s) = refund_total paid_back (wf_refunds s) \<and>
         refund_total paid_back (wf_refunds s) \<le> refund_total active_refund (wf_refunds s) \<and>
         refund_total active_refund (wf_refunds s) \<le> centsOf (wq_requestedAmount q) \<and>
         centsOf (wq_grossAmount q) = centsOf (wq_requestedAmount q) + centsOf (wq_feeAmount q))"
proof -
  obtain s where s: "foldEvents initialWalletFundingState evolveWalletFunding es = Inr s" "funding_inv s"
    using funding.history_loads [OF assms] by blast
  have "refund_total paid_back (wf_refunds s) \<le> refund_total active_refund (wf_refunds s)"
    if "refunds_ok q (wf_refunds s)" for q
    by (rule refund_total_mono [OF refunds_amounts_nonneg [OF that] op_succeeded_active])
  with s show ?thesis
    by (auto simp: funding_inv_def refunds_ok_def quote_ok_def initialWalletFundingState_def split: option.splits)
qed

theorem prepaid_refunds_never_exceed_funding_witness:
  "\<exists>es s. length es = 10 \<and> foldEvents initialWalletFundingState evolveWalletFunding es = Inr s \<and>
     (\<forall>q. wf_quote s = Some q \<longrightarrow> refund_total active_refund (wf_refunds s) \<le> centsOf (wq_requestedAmount q))"
proof -
  have "case runCommands initialWalletFundingState evolveWalletFunding decideWalletFunding [] (claimedRun @ settlingRun) of
          Inr es \<Rightarrow> length es = 10 | Inl _ \<Rightarrow> False"
    by code_simp
  then obtain es where es: "runCommands initialWalletFundingState evolveWalletFunding decideWalletFunding []
      (claimedRun @ settlingRun) = Inr es" "length es = 10"
    by (auto split: sum.splits)
  from prepaid_refunds_never_exceed_funding [OF run_reachable [OF es(1)]] es(2) show ?thesis
    by (fastforce split: option.splits)
qed

text \<open>
  C23. Whatever commands follow, a refund keeps its identity and its provider idempotency key and moves
  only along its life cycle: committed, released and refused refunds never change again, and once its
  submission to the provider was claimed no other claim is granted, so that it is submitted once.
\<close>

theorem refund_is_submitted_at_most_once:
  assumes "reachable_history initialWalletFundingState evolveWalletFunding decideWalletFunding es"
    and "foldEvents initialWalletFundingState evolveWalletFunding es = Inr s"
    and "map_of (wf_refunds s) i = Some r"
    and "runCommands initialWalletFundingState evolveWalletFunding decideWalletFunding es cs = Inr es'"
    and "foldEvents initialWalletFundingState evolveWalletFunding es' = Inr s'"
  shows "\<exists>r'. map_of (wf_refunds s') i = Some r' \<and> same_identity r' r \<and>
    op_step\<^sup>*\<^sup>* (op_status r) (op_status r') \<and> (op_terminal (op_status r) \<longrightarrow> r' = r) \<and>
    (op_claimed (op_status r) \<longrightarrow> (\<forall>t. decideWalletFunding s' (ClaimRefundSubmission i t) = Inr []))"
proof -
  obtain r' where r': "map_of (wf_refunds s') i = Some r'" "follows r r'"
    using refund_course [OF assms] by blast
  have "funding_inv s'"
    using funding.loaded_inv [OF runCommands_reachable [OF assms(1,4)] assms(5)] .
  with claimed_once [OF quote_present r'(1)] r' show ?thesis by (auto simp: follows_def)
qed

theorem refund_is_submitted_at_most_once_witness:
  "\<exists>s. refundStatusOf s ''wfr_1'' = Some OpCommitted \<and>
     decideWalletFunding s (ClaimRefundSubmission ''wfr_1'' ''2026-03-01'') = Inr []"
proof -
  have "case runCommands initialWalletFundingState evolveWalletFunding decideWalletFunding [] claimedRun of
      Inl _ \<Rightarrow> False
    | Inr es \<Rightarrow> (case foldEvents initialWalletFundingState evolveWalletFunding es of Inl _ \<Rightarrow> False
        | Inr s \<Rightarrow> refundStatusOf s ''wfr_1'' = Some OpSubmitting \<and>
            (case runCommands initialWalletFundingState evolveWalletFunding decideWalletFunding es settlingRun of
               Inl _ \<Rightarrow> False
             | Inr es' \<Rightarrow> (case foldEvents initialWalletFundingState evolveWalletFunding es' of Inl _ \<Rightarrow> False
                 | Inr s' \<Rightarrow> refundStatusOf s' ''wfr_1'' = Some OpCommitted)))"
    by code_simp
  then obtain es s es' s' where
    r: "runCommands initialWalletFundingState evolveWalletFunding decideWalletFunding [] claimedRun = Inr es"
      "foldEvents initialWalletFundingState evolveWalletFunding es = Inr s"
      "runCommands initialWalletFundingState evolveWalletFunding decideWalletFunding es settlingRun = Inr es'"
      "foldEvents initialWalletFundingState evolveWalletFunding es' = Inr s'"
    and st: "refundStatusOf s ''wfr_1'' = Some OpSubmitting" "refundStatusOf s' ''wfr_1'' = Some OpCommitted"
    by (auto split: sum.splits)
  from st(1) obtain r where "map_of (wf_refunds s) ''wfr_1'' = Some r" "op_status r = OpSubmitting"
    by (auto simp: refundStatusOf_def)
  with refund_is_submitted_at_most_once [OF run_reachable [OF r(1)] r(2) this(1) r(3,4)] st(2)
  show ?thesis by (auto simp: op_claimed_def)
qed

text \<open>
  A dispute that was won before the capture is observed leaves the funding in the state captured, and a
  refund of money that was never captured is accepted.
\<close>

lemma won_dispute_allows_refund_before_capture:
  "case runThenStep initialWalletFundingState evolveWalletFunding decideWalletFunding
      [Quote fundingQuote, ClaimCreation ''2026-01-31'', RecordCreated ''pi_1'' None,
       RecordDispute ''dp_1'' DisputeWon ''51.50'' ''0.00'' ''2026-02-01'']
      (RequestFundingRefund (refundIdentity ''wfr_1'' ''50.00'') ''2026-02-02'') of
     Inr (s, new, s') \<Rightarrow> Option.is_none (wf_capturedAt s) \<and> wf_status s = Some FundingCaptured \<and> length new = 1
   | Inl _ \<Rightarrow> False"
  by code_simp

end
