(* ===== verification/CoverageFactPayloads.thy ===== *)
theory CoverageFactPayloads
  imports PlatformCoverage JsTime
begin

text \<open>
  \<open>contracts/event-core/platform-coverage-facts.ts\<close>: the facts that Support, Settlement, Payments and
  Fulfillment exchange about a platform-covered remedy, and the normalisers that every published and
  every replayed fact runs through. A payload extends the envelope all facts share. An input carries the
  texts its sender wrote; the schema version is an integer number.
\<close>

section \<open>The envelope\<close>

record PlatformCoverageFactEnvelopeV1 =
  pe_factSchemaVersion :: int
  pe_supportRequestId :: string
  pe_remedyId :: string
  pe_idempotencyKey :: string
  pe_causationId :: "string option"
  pe_policyVersion :: string
  pe_occurredAt :: string

definition assertNonEmpty :: "string \<Rightarrow> string \<Rightarrow> string res" where
  "assertNonEmpty value field =
     (let trimmed = js_trim value
      in if length trimmed = 0 then Inl (Error (''Platform-coverage fact requires '' @ field @ ''.''))
         else Inr trimmed)"

definition assertIsoTimestamp :: "host \<Rightarrow> string \<Rightarrow> string \<Rightarrow> string res" where
  "assertIsoTimestamp h value field =
     bindE (assertNonEmpty value field) (\<lambda>trimmed.
       if Date_parse h trimmed = None
       then Inl (Error (''Platform-coverage fact '' @ field @ '' must be an ISO timestamp.''))
       else Inr trimmed)"

definition show_integer :: "int \<Rightarrow> string" where
  "show_integer n = (if n < 0 then ''-'' else []) @ show_nat (nat \<bar>n\<bar>)"

definition optionalNonEmpty :: "string option \<Rightarrow> string \<Rightarrow> string option res" where
  "optionalNonEmpty value field =
     (case value of None \<Rightarrow> Inr None | Some v \<Rightarrow> bindE (assertNonEmpty v field) (\<lambda>t. Inr (Some t)))"

definition normalizeEnvelope ::
    "host \<Rightarrow> PlatformCoverageFactEnvelopeV1 \<Rightarrow> PlatformCoverageFactEnvelopeV1 res" where
  "normalizeEnvelope h i =
     (if pe_factSchemaVersion i \<noteq> 1
      then Inl (Error (''Unsupported platform-coverage fact schema version: '' @
                       show_integer (pe_factSchemaVersion i)))
      else
      bindE (assertNonEmpty (pe_supportRequestId i) ''a support request id'') (\<lambda>supportRequestId.
      bindE (assertNonEmpty (pe_remedyId i) ''a remedy id'') (\<lambda>remedyId.
      bindE (assertNonEmpty (pe_idempotencyKey i) ''an idempotency key'') (\<lambda>idempotencyKey.
      bindE (optionalNonEmpty (pe_causationId i) ''a causation id'') (\<lambda>causationId.
      bindE (assertNonEmpty (pe_policyVersion i) ''a policy version'') (\<lambda>policyVersion.
      bindE (assertIsoTimestamp h (pe_occurredAt i) ''occurredAt'') (\<lambda>occurredAt.
        Inr \<lparr>pe_factSchemaVersion = 1, pe_supportRequestId = supportRequestId, pe_remedyId = remedyId,
             pe_idempotencyKey = idempotencyKey, pe_causationId = causationId,
             pe_policyVersion = policyVersion, pe_occurredAt = occurredAt\<rparr>)))))))"


section \<open>Allocations and coverage ids\<close>

fun fundingKindText :: "LiabilityFundingKind \<Rightarrow> string" where
  "fundingKindText SellerFunded = ''seller-funded''"
| "fundingKindText PlatformFunded = ''platform-funded''"
| "fundingKindText SplitFunded = ''split''"

text \<open>An allocation on the wire says its funding kind in text.\<close>

record LiabilityAllocationFactInput = LiabilityAllocationInput +
  li_fundingKind :: string

definition allocationInput :: "LiabilityAllocationFactInput \<Rightarrow> LiabilityAllocationInput" where
  "allocationInput i =
     \<lparr>li_sellerFundedAmount = li_sellerFundedAmount i, li_platformFundedAmount = li_platformFundedAmount i,
      li_currencyCode = li_currencyCode i\<rparr>"

definition normalizeAllocationFact ::
    "LiabilityAllocationFactInput \<Rightarrow> LiabilityAllocation \<Rightarrow> LiabilityAllocation res" where
  "normalizeAllocationFact allocation source =
     (if isLiabilityFundingKind (li_fundingKind allocation) \<and>
         li_fundingKind allocation \<noteq> fundingKindText (la_fundingKind source)
      then Inl (Error (''Liability allocation fundingKind '' @ [CHR 0x27] @ li_fundingKind allocation @
                       [CHR 0x27] @ '' disagrees with its components ('' @ [CHR 0x27] @
                       fundingKindText (la_fundingKind source) @ [CHR 0x27] @ '').''))
      else Inr source)"

definition reconcileCoverageId :: "LiabilityFundingKind \<Rightarrow> string option \<Rightarrow> string option res" where
  "reconcileCoverageId fundingKind coverageId =
     (if fundingKind \<noteq> SellerFunded
      then (case coverageId of
              None \<Rightarrow> Inl (Error ''A platform-funded remedy fact requires a coverageId.'')
            | Some c \<Rightarrow> bindE (assertNonEmpty c ''a coverage id'') (\<lambda>t. Inr (Some t)))
      else if coverageId \<noteq> None \<and> js_trim (the coverageId) \<noteq> []
      then Inl (Error ''A seller-funded remedy fact must not carry a coverageId.'')
      else Inr None)"


section \<open>Coverage facts\<close>

record PlatformCoverageRequestedV1 = PlatformCoverageFactEnvelopeV1 +
  prq_coverageId :: string
  prq_requestedAmount :: string
  prq_currencyCode :: string
  prq_reasonCode :: string

definition normalizeSupportRequestPlatformCoverageRequestedV1 ::
    "host \<Rightarrow> PlatformCoverageRequestedV1 \<Rightarrow> PlatformCoverageRequestedV1 res" where
  "normalizeSupportRequestPlatformCoverageRequestedV1 h i =
     bindE (normalizeEnvelope h (PlatformCoverageFactEnvelopeV1.truncate i)) (\<lambda>envelope.
     bindE (normalizePlatformCoverageCurrencyCode (prq_currencyCode i)) (\<lambda>currencyCode.
     bindE (primNormalizeMoneyAmount (prq_requestedAmount i)) (\<lambda>requestedAmount.
     bindE (moneyToCents requestedAmount) (\<lambda>cents.
     ensure (\<not> cents \<le> 0)
       (Error ''A platform-coverage reservation request must be for a positive amount.'') (
     bindE (assertNonEmpty (prq_coverageId i) ''a coverage id'') (\<lambda>coverageId.
     bindE (assertNonEmpty (prq_reasonCode i) ''a reason code'') (\<lambda>reasonCode.
       Inr (PlatformCoverageFactEnvelopeV1.extend envelope
              (PlatformCoverageRequestedV1.fields coverageId requestedAmount currencyCode reasonCode)))))))))"

record ProtectionCoverageReservedV1 = PlatformCoverageFactEnvelopeV1 +
  prv_coverageId :: string
  prv_reservedAmount :: string
  prv_currencyCode :: string

definition normalizeProtectionCoverageReservedV1 ::
    "host \<Rightarrow> ProtectionCoverageReservedV1 \<Rightarrow> ProtectionCoverageReservedV1 res" where
  "normalizeProtectionCoverageReservedV1 h i =
     bindE (normalizeEnvelope h (PlatformCoverageFactEnvelopeV1.truncate i)) (\<lambda>envelope.
     bindE (normalizePlatformCoverageCurrencyCode (prv_currencyCode i)) (\<lambda>currencyCode.
     bindE (primNormalizeMoneyAmount (prv_reservedAmount i)) (\<lambda>reservedAmount.
     bindE (moneyToCents reservedAmount) (\<lambda>cents.
     ensure (\<not> cents \<le> 0) (Error ''A reserved coverage amount must be positive.'') (
     bindE (assertNonEmpty (prv_coverageId i) ''a coverage id'') (\<lambda>coverageId.
       Inr (PlatformCoverageFactEnvelopeV1.extend envelope
              (ProtectionCoverageReservedV1.fields coverageId reservedAmount currencyCode))))))))"

record ProtectionCoverageRejectedV1Input = PlatformCoverageFactEnvelopeV1 +
  prji_coverageId :: string
  prji_requestedAmount :: string
  prji_currencyCode :: string
  prji_reasonCode :: string

record ProtectionCoverageRejectedV1 = PlatformCoverageFactEnvelopeV1 +
  prj_coverageId :: string
  prj_requestedAmount :: string
  prj_currencyCode :: string
  prj_reasonCode :: CoverageRejectionReasonCode

definition normalizeProtectionCoverageRejectedV1 ::
    "host \<Rightarrow> ProtectionCoverageRejectedV1Input \<Rightarrow> ProtectionCoverageRejectedV1 res" where
  "normalizeProtectionCoverageRejectedV1 h i =
     bindE (normalizeEnvelope h (PlatformCoverageFactEnvelopeV1.truncate i)) (\<lambda>envelope.
     bindE (normalizePlatformCoverageCurrencyCode (prji_currencyCode i)) (\<lambda>currencyCode.
     bindE (primNormalizeMoneyAmount (prji_requestedAmount i)) (\<lambda>requestedAmount.
     bindE (assertNonEmpty (prji_coverageId i) ''a coverage id'') (\<lambda>coverageId.
     bindE (assertCoverageRejectionReasonCode (prji_reasonCode i)) (\<lambda>reasonCode.
       Inr (PlatformCoverageFactEnvelopeV1.extend envelope
              (ProtectionCoverageRejectedV1.fields coverageId requestedAmount currencyCode reasonCode)))))))"

record ProtectionCoverageSettledV1Input = PlatformCoverageFactEnvelopeV1 +
  psti_coverageId :: string
  psti_refundId :: string
  psti_allocation :: LiabilityAllocationFactInput
  psti_currencyCode :: string

record ProtectionCoverageSettledV1 = PlatformCoverageFactEnvelopeV1 +
  pst_coverageId :: string
  pst_refundId :: string
  pst_allocation :: LiabilityAllocation
  pst_currencyCode :: string

definition normalizeProtectionCoverageSettledV1 ::
    "host \<Rightarrow> ProtectionCoverageSettledV1Input \<Rightarrow> ProtectionCoverageSettledV1 res" where
  "normalizeProtectionCoverageSettledV1 h i =
     bindE (normalizeEnvelope h (PlatformCoverageFactEnvelopeV1.truncate i)) (\<lambda>envelope.
     bindE (normalizePlatformCoverageCurrencyCode (psti_currencyCode i)) (\<lambda>currencyCode.
     bindE (normalizeLiabilityAllocation
              ((allocationInput (psti_allocation i))\<lparr>li_currencyCode := currencyCode\<rparr>)) (\<lambda>allocation.
     bindE (moneyToCents (la_platformFundedAmount allocation)) (\<lambda>platformCents.
     ensure (\<not> platformCents \<le> 0)
       (Error ''A settled protection-coverage fact must consume a positive platform-funded amount.'') (
     bindE (assertNonEmpty (psti_coverageId i) ''a coverage id'') (\<lambda>coverageId.
     bindE (assertNonEmpty (psti_refundId i) ''a refund id'') (\<lambda>refundId.
     bindE (normalizeAllocationFact (psti_allocation i) allocation) (\<lambda>fact.
       Inr (PlatformCoverageFactEnvelopeV1.extend envelope
              (ProtectionCoverageSettledV1.fields coverageId refundId fact currencyCode))))))))))"


section \<open>Remedy facts\<close>

record RemedyAuthorizedV1Input = PlatformCoverageFactEnvelopeV1 +
  prai_coverageId :: "string option"
  prai_remedy :: BuyerRemedyInput
  prai_allocation :: LiabilityAllocationFactInput
  prai_returnDirective :: string
  prai_refundTrigger :: string
  prai_reasonCode :: string

record RemedyAuthorizedV1 = PlatformCoverageFactEnvelopeV1 +
  pra_coverageId :: "string option"
  pra_remedy :: BuyerRemedy
  pra_allocation :: LiabilityAllocation
  pra_returnDirective :: ReturnDirective
  pra_refundTrigger :: RefundTrigger
  pra_reasonCode :: string

definition normalizeSupportRequestRemedyAuthorizedV1 ::
    "host \<Rightarrow> RemedyAuthorizedV1Input \<Rightarrow> RemedyAuthorizedV1 res" where
  "normalizeSupportRequestRemedyAuthorizedV1 h i =
     bindE (normalizeEnvelope h (PlatformCoverageFactEnvelopeV1.truncate i)) (\<lambda>envelope.
     bindE (normalizeBuyerRemedy (prai_remedy i)) (\<lambda>remedy.
     bindE (normalizeLiabilityAllocationForRemedy remedy (allocationInput (prai_allocation i))) (\<lambda>allocation.
     bindE (reconcileCoverageId (la_fundingKind allocation) (prai_coverageId i)) (\<lambda>coverageId.
     bindE (normalizeAllocationFact (prai_allocation i) allocation) (\<lambda>fact.
     bindE (assertReturnDirective (prai_returnDirective i)) (\<lambda>returnDirective.
     bindE (assertRefundTrigger (prai_refundTrigger i)) (\<lambda>refundTrigger.
     bindE (assertNonEmpty (prai_reasonCode i) ''a reason code'') (\<lambda>reasonCode.
       Inr (PlatformCoverageFactEnvelopeV1.extend envelope
              (RemedyAuthorizedV1.fields coverageId remedy fact returnDirective refundTrigger reasonCode))))))))))"

record RefundReleasedV1Input = PlatformCoverageFactEnvelopeV1 +
  prri_coverageId :: "string option"
  prri_refundAmount :: string
  prri_currencyCode :: string
  prri_allocation :: LiabilityAllocationFactInput
  prri_refundTrigger :: string

record RefundReleasedV1 = PlatformCoverageFactEnvelopeV1 +
  prr_coverageId :: "string option"
  prr_refundAmount :: string
  prr_currencyCode :: string
  prr_allocation :: LiabilityAllocation
  prr_refundTrigger :: RefundTrigger

definition normalizeSupportRequestRefundReleasedV1 ::
    "host \<Rightarrow> RefundReleasedV1Input \<Rightarrow> RefundReleasedV1 res" where
  "normalizeSupportRequestRefundReleasedV1 h i =
     bindE (normalizeEnvelope h (PlatformCoverageFactEnvelopeV1.truncate i)) (\<lambda>envelope.
     bindE (normalizePlatformCoverageCurrencyCode (prri_currencyCode i)) (\<lambda>currencyCode.
     bindE (primNormalizeMoneyAmount (prri_refundAmount i)) (\<lambda>refundAmount.
     bindE (normalizeLiabilityAllocation
              ((allocationInput (prri_allocation i))\<lparr>li_currencyCode := currencyCode\<rparr>)) (\<lambda>allocation.
     bindE (moneyToCents (la_sellerFundedAmount allocation)) (\<lambda>sellerCents.
     bindE (moneyToCents (la_platformFundedAmount allocation)) (\<lambda>platformCents.
     bindE (moneyToCents refundAmount) (\<lambda>refundCents.
     ensure (sellerCents + platformCents = refundCents)
       (Error ''Refund-released allocation components must sum exactly to the released refund amount.'') (
     bindE (reconcileCoverageId (la_fundingKind allocation) (prri_coverageId i)) (\<lambda>coverageId.
     bindE (normalizeAllocationFact (prri_allocation i) allocation) (\<lambda>fact.
     bindE (assertRefundTrigger (prri_refundTrigger i)) (\<lambda>refundTrigger.
       Inr (PlatformCoverageFactEnvelopeV1.extend envelope
              (RefundReleasedV1.fields coverageId refundAmount currencyCode fact refundTrigger)))))))))))))"

record RemedyCompletedV1Input = PlatformCoverageFactEnvelopeV1 +
  pcmi_coverageId :: "string option"
  pcmi_refundId :: "string option"
  pcmi_allocation :: LiabilityAllocationFactInput
  pcmi_returnDirective :: string
  pcmi_completedAt :: string

record RemedyCompletedV1 = PlatformCoverageFactEnvelopeV1 +
  pcm_coverageId :: "string option"
  pcm_refundId :: "string option"
  pcm_allocation :: LiabilityAllocation
  pcm_returnDirective :: ReturnDirective
  pcm_completedAt :: string

definition normalizeSupportRequestRemedyCompletedV1 ::
    "host \<Rightarrow> RemedyCompletedV1Input \<Rightarrow> RemedyCompletedV1 res" where
  "normalizeSupportRequestRemedyCompletedV1 h i =
     bindE (normalizeEnvelope h (PlatformCoverageFactEnvelopeV1.truncate i)) (\<lambda>envelope.
     bindE (normalizeLiabilityAllocation (allocationInput (pcmi_allocation i))) (\<lambda>allocation.
     bindE (reconcileCoverageId (la_fundingKind allocation) (pcmi_coverageId i)) (\<lambda>coverageId.
     bindE (optionalNonEmpty (pcmi_refundId i) ''a refund id'') (\<lambda>refundId.
     bindE (normalizeAllocationFact (pcmi_allocation i) allocation) (\<lambda>fact.
     bindE (assertReturnDirective (pcmi_returnDirective i)) (\<lambda>returnDirective.
     bindE (assertIsoTimestamp h (pcmi_completedAt i) ''completedAt'') (\<lambda>completedAt.
       Inr (PlatformCoverageFactEnvelopeV1.extend envelope
              (RemedyCompletedV1.fields coverageId refundId fact returnDirective completedAt)))))))))"


section \<open>What the normalisers return\<close>

definition clean_text :: "string \<Rightarrow> bool" where
  "clean_text t \<longleftrightarrow> js_trim t = t \<and> t \<noteq> []"

lemma assertNonEmpty_Inr [res_simps]: "assertNonEmpty v f = Inr t \<longleftrightarrow> t = js_trim v \<and> js_trim v \<noteq> []"
  by (auto simp: assertNonEmpty_def Let_def)

lemma clean_trim: "js_trim v \<noteq> [] \<Longrightarrow> clean_text (js_trim v)"
  by (simp add: clean_text_def)

lemma clean_textD: "clean_text t \<Longrightarrow> js_trim t = t" "clean_text t \<Longrightarrow> t \<noteq> []"
  by (simp_all add: clean_text_def)

lemma assertNonEmpty_clean [simp]: "clean_text t \<Longrightarrow> assertNonEmpty t f = Inr t"
  by (simp add: res_simps clean_text_def)

lemma assertIsoTimestamp_Inr [res_simps]:
  "assertIsoTimestamp h v f = Inr t \<longleftrightarrow> t = js_trim v \<and> js_trim v \<noteq> [] \<and> Date_parse h t \<noteq> None"
  by (auto simp: assertIsoTimestamp_def res_simps split: if_splits)

lemma optionalNonEmpty_Inr [res_simps]:
  "optionalNonEmpty v f = Inr t \<longleftrightarrow> t = map_option js_trim v \<and> (\<forall>x. v = Some x \<longrightarrow> js_trim x \<noteq> [])"
  by (cases v) (auto simp: optionalNonEmpty_def res_simps)

definition envelope_ok :: "host \<Rightarrow> 'a PlatformCoverageFactEnvelopeV1_scheme \<Rightarrow> bool" where
  "envelope_ok h e \<longleftrightarrow>
     pe_factSchemaVersion e = 1 \<and> clean_text (pe_supportRequestId e) \<and> clean_text (pe_remedyId e) \<and>
     clean_text (pe_idempotencyKey e) \<and> (\<forall>c. pe_causationId e = Some c \<longrightarrow> clean_text c) \<and>
     clean_text (pe_policyVersion e) \<and> clean_text (pe_occurredAt e) \<and> Date_parse h (pe_occurredAt e) \<noteq> None"

lemma normalizeEnvelope_ok: "normalizeEnvelope h i = Inr e \<Longrightarrow> envelope_ok h e"
  by (auto simp: normalizeEnvelope_def envelope_ok_def res_simps clean_trim split: if_splits)

lemma normalizeEnvelope_remedy: "normalizeEnvelope h i = Inr e \<Longrightarrow> pe_remedyId e = js_trim (pe_remedyId i)"
  by (auto simp: normalizeEnvelope_def res_simps split: if_splits)

lemma normalizeEnvelope_normal: "envelope_ok h e \<Longrightarrow> normalizeEnvelope h e = Inr e"
  by (cases "pe_causationId e")
    (auto simp: normalizeEnvelope_def envelope_ok_def optionalNonEmpty_def assertIsoTimestamp_def clean_textD)

lemma envelope_truncate [simp]:
  "envelope_ok h (PlatformCoverageFactEnvelopeV1.truncate e) = envelope_ok h e"
  by (simp add: envelope_ok_def PlatformCoverageFactEnvelopeV1.defs)

lemmas payload_defs = PlatformCoverageFactEnvelopeV1.defs PlatformCoverageRequestedV1.defs
  ProtectionCoverageReservedV1.defs ProtectionCoverageRejectedV1.defs ProtectionCoverageSettledV1.defs
  RemedyAuthorizedV1.defs RefundReleasedV1.defs RemedyCompletedV1.defs

lemma positive_amount:
  "primNormalizeMoneyAmount v = Inr t \<Longrightarrow> moneyToCents t = Inr c \<Longrightarrow> c = centsOf t \<and> canonical t \<and> 0 \<le> c"
  by (auto simp: money_simps dest!: primNormalizeMoneyAmount_Inr)

lemma reservedPayload_Inr:
  assumes "normalizeProtectionCoverageReservedV1 h i = Inr d"
  shows "envelope_ok h d \<and> pe_remedyId d = js_trim (pe_remedyId i) \<and>
    prv_coverageId d = js_trim (prv_coverageId i) \<and> clean_text (prv_coverageId d) \<and>
    canonical (prv_reservedAmount d) \<and> 0 < centsOf (prv_reservedAmount d) \<and>
    moneyToCents (prv_reservedAmount i) = Inr (centsOf (prv_reservedAmount d)) \<and>
    normalizePlatformCoverageCurrencyCode (prv_currencyCode i) = Inr (prv_currencyCode d) \<and>
    normalizePlatformCoverageCurrencyCode (prv_currencyCode d) = Inr (prv_currencyCode d)"
proof -
  from assms obtain e cur amount cents where
    e: "normalizeEnvelope h (PlatformCoverageFactEnvelopeV1.truncate i) = Inr e"
    and cur: "normalizePlatformCoverageCurrencyCode (prv_currencyCode i) = Inr cur"
    and amount: "primNormalizeMoneyAmount (prv_reservedAmount i) = Inr amount" "moneyToCents amount = Inr cents"
    and pos: "0 < cents" and id: "js_trim (prv_coverageId i) \<noteq> []"
    and d: "d = PlatformCoverageFactEnvelopeV1.extend e
      (ProtectionCoverageReservedV1.fields (js_trim (prv_coverageId i)) amount cur)"
    by (auto simp: normalizeProtectionCoverageReservedV1_def res_simps not_le)
  have env: "envelope_ok h d"
    using normalizeEnvelope_ok [OF e] d by (simp add: envelope_ok_def payload_defs)
  have remedy: "pe_remedyId d = js_trim (pe_remedyId i)"
    using normalizeEnvelope_remedy [OF e] d by (simp add: payload_defs)
  from positive_amount [OF amount] pos d
  have "canonical (prv_reservedAmount d) \<and> 0 < centsOf (prv_reservedAmount d)" by (simp add: payload_defs)
  moreover have "prv_coverageId d = js_trim (prv_coverageId i)" "prv_currencyCode d = cur" "prv_reservedAmount d = amount"
    using d by (simp_all add: payload_defs)
  ultimately show ?thesis
    using env remedy cur coverage_currency_idem [OF cur] clean_trim [OF id] primNormalizeMoneyAmount_Inr [OF amount(1)]
    by simp
qed

lemma settledPayload_Inr:
  assumes "normalizeProtectionCoverageSettledV1 h i = Inr d"
  shows "envelope_ok h d \<and> pst_coverageId d = js_trim (psti_coverageId i) \<and>
    pst_refundId d = js_trim (psti_refundId i) \<and> clean_text (pst_refundId d) \<and>
    allocation_ok (pst_allocation d) \<and>
    primNormalizeMoneyAmount (li_platformFundedAmount (psti_allocation i)) =
      Inr (la_platformFundedAmount (pst_allocation d)) \<and>
    primNormalizeMoneyAmount (li_sellerFundedAmount (psti_allocation i)) =
      Inr (la_sellerFundedAmount (pst_allocation d))"
proof -
  from assms obtain e cur a where
    e: "normalizeEnvelope h (PlatformCoverageFactEnvelopeV1.truncate i) = Inr e"
    and a: "normalizeLiabilityAllocation
      ((allocationInput (psti_allocation i))\<lparr>li_currencyCode := cur\<rparr>) = Inr a"
    and fact: "normalizeAllocationFact (psti_allocation i) a = Inr a"
    and id: "js_trim (psti_refundId i) \<noteq> []"
    and d: "d = PlatformCoverageFactEnvelopeV1.extend e
      (ProtectionCoverageSettledV1.fields (js_trim (psti_coverageId i)) (js_trim (psti_refundId i)) a cur)"
    by (auto simp: normalizeProtectionCoverageSettledV1_def normalizeAllocationFact_def res_simps split: if_splits)
  have env: "envelope_ok h d"
    using normalizeEnvelope_ok [OF e] d by (simp add: envelope_ok_def payload_defs)
  have "primNormalizeMoneyAmount (li_platformFundedAmount (psti_allocation i)) = Inr (la_platformFundedAmount a) \<and>
    primNormalizeMoneyAmount (li_sellerFundedAmount (psti_allocation i)) = Inr (la_sellerFundedAmount a)"
    using a by (auto simp: normalizeLiabilityAllocation_def allocationInput_def res_simps)
  with env normalizeLiabilityAllocation_ok [OF a] clean_trim [OF id] d show ?thesis
    by (simp add: payload_defs)
qed

lemma requestedPayload_Inr:
  assumes "normalizeSupportRequestPlatformCoverageRequestedV1 h i = Inr d"
  shows "clean_text (prq_coverageId d) \<and> clean_text (pe_remedyId d)"
proof -
  from assms obtain e where
    e: "normalizeEnvelope h (PlatformCoverageFactEnvelopeV1.truncate i) = Inr e"
    and id: "js_trim (prq_coverageId i) \<noteq> []"
    and d: "prq_coverageId d = js_trim (prq_coverageId i)" "pe_remedyId d = pe_remedyId e"
    by (auto simp: normalizeSupportRequestPlatformCoverageRequestedV1_def res_simps payload_defs)
  from normalizeEnvelope_ok [OF e] d clean_trim [OF id] show ?thesis by (simp add: envelope_ok_def)
qed

end
