(* ===== verification/ProtectionCoverage.thy ===== *)
theory ProtectionCoverage
  imports CoverageFactPayloads SettlementCommon LiabilityAllocation EventDomain "HOL-Library.AList"
begin

text \<open>
  \<open>settlement/features/protection-coverage/domain/protection-coverage.ts\<close>: the protection reserve of a
  currency, one aggregate per pool. It reserves the platform's part of a remedy, consumes it when the
  refund settles, and gives it back when the remedy never refunds. \<open>CoverageStatus\<close> of
  \<open>LiabilityAllocation\<close> has the four literals of the status of a reservation. The maps of the
  state are association lists in the order of their keys' insertion; a key is never the name of a
  property of \<open>Object.prototype\<close>.
\<close>

section \<open>State\<close>

definition coverageReleaseReasons :: "string list" where
  "coverageReleaseReasons = [''operator-release'', ''superseded'', ''case-cancelled'']"

definition isCoverageReleaseReason :: "string \<Rightarrow> bool" where
  "isCoverageReleaseReason value \<longleftrightarrow> value \<in> set coverageReleaseReasons"

record CoverageReservationRecord =
  cvr_coverageId :: string
  cvr_remedyId :: string
  cvr_supportRequestId :: string
  cvr_reservedAmount :: string
  cvr_currencyCode :: string
  cvr_policyVersion :: string
  cvr_status :: CoverageStatus
  cvr_consumedAmount :: string
  cvr_refundId :: "string option"
  cvr_reservedAt :: string
  cvr_terminalAt :: "string option"

record ProtectionRecoveryRecord =
  pry_recoveryId :: string
  pry_coverageId :: string
  pry_remedyId :: string
  pry_recoveredItemId :: string
  pry_returnShipmentId :: string
  pry_recoveryType :: string
  pry_grossAmount :: string
  pry_costAmount :: string
  pry_netAmount :: string
  pry_currencyCode :: string
  pry_policyVersion :: string
  pry_evidenceReferences :: "string list"
  pry_occurredAt :: string

record ProtectionReserveState =
  prs_currencyCode :: "string option"
  prs_outstandingReservedAmount :: string
  prs_consumedAmount :: string
  prs_releasedAmount :: string
  prs_recoveredGrossAmount :: string
  prs_recoveryCostAmount :: string
  prs_recoveredNetAmount :: string
  prs_reservations :: "(string \<times> CoverageReservationRecord) list"
  prs_recoveryRecords :: "(string \<times> ProtectionRecoveryRecord) list"

definition initialProtectionReserveState :: ProtectionReserveState where
  "initialProtectionReserveState =
     \<lparr>prs_currencyCode = None, prs_outstandingReservedAmount = ''0.00'', prs_consumedAmount = ''0.00'',
      prs_releasedAmount = ''0.00'', prs_recoveredGrossAmount = ''0.00'', prs_recoveryCostAmount = ''0.00'',
      prs_recoveredNetAmount = ''0.00'', prs_reservations = [], prs_recoveryRecords = []\<rparr>"

definition availableProtectionAmount :: "string \<Rightarrow> ProtectionReserveState \<Rightarrow> string res" where
  "availableProtectionAmount fundedAmount state =
     bindE (subtractMoney fundedAmount (prs_outstandingReservedAmount state)) (\<lambda>unreserved.
     bindE (subtractMoney unreserved (prs_consumedAmount state)) (\<lambda>unconsumed.
       addMoney unconsumed (prs_recoveredNetAmount state)))"


section \<open>Commands and events\<close>

record ReserveProtectionCoverageCommand =
  rsv_coverageId :: string
  rsv_remedyId :: string
  rsv_supportRequestId :: string
  rsv_requestedAmount :: string
  rsv_currencyCode :: string
  rsv_policyVersion :: string
  rsv_reasonCode :: string
  rsv_idempotencyKey :: string
  rsv_causationId :: "string option"
  rsv_occurredAt :: string
  rsv_fundedAmount :: string
  rsv_policyLimitAmount :: "string option"

record SettleProtectionCoverageCommand =
  stl_coverageId :: string
  stl_refundId :: string
  stl_platformFundedAmount :: string
  stl_sellerFundedAmount :: string
  stl_currencyCode :: string
  stl_policyVersion :: string
  stl_idempotencyKey :: string
  stl_causationId :: "string option"
  stl_occurredAt :: string

text \<open>Release and expiry share these fields; the first adds a reason, the second a deadline.\<close>

record TerminateProtectionCoverageCommand =
  trm_coverageId :: string
  trm_policyVersion :: string
  trm_idempotencyKey :: string
  trm_causationId :: "string option"
  trm_occurredAt :: string

record RecordProtectionRecoveryCommand =
  rcv_coverageId :: string
  rcv_remedyId :: string
  rcv_recoveredItemId :: string
  rcv_returnShipmentId :: string
  rcv_recoveryId :: string
  rcv_recoveryType :: string
  rcv_grossAmount :: string
  rcv_costAmount :: string
  rcv_currencyCode :: string
  rcv_policyVersion :: string
  rcv_evidenceReferences :: "string list"
  rcv_causationId :: "string option"
  rcv_occurredAt :: string

datatype CoverageTermination = ReleaseFor string | ExpireAt string

datatype ProtectionCoverageCommand =
    ReserveProtectionCoverage ReserveProtectionCoverageCommand
  | SettleProtectionCoverage SettleProtectionCoverageCommand
  | ReleaseProtectionCoverage TerminateProtectionCoverageCommand string
  | ExpireProtectionCoverage TerminateProtectionCoverageCommand string
  | RecordProtectionRecovery RecordProtectionRecoveryCommand

record ProtectionCoverageTerminationPayload =
  tmn_supportRequestId :: string
  tmn_remedyId :: string
  tmn_coverageId :: string
  tmn_idempotencyKey :: string
  tmn_causationId :: "string option"
  tmn_policyVersion :: string
  tmn_releasedAmount :: string
  tmn_currencyCode :: string
  tmn_reasonCode :: string
  tmn_occurredAt :: string

datatype ProtectionCoverageEvent =
    CoverageReservedEvent ProtectionCoverageReservedV1
  | CoverageRejectedEvent ProtectionCoverageRejectedV1
  | CoverageSettledEvent ProtectionCoverageSettledV1
  | CoverageReleasedEvent ProtectionCoverageTerminationPayload
  | CoverageExpiredEvent ProtectionCoverageTerminationPayload
  | RecoveryPostedEvent ProtectionRecoveryRecord "string option"


section \<open>Deciding\<close>

definition rejectionText :: "CoverageRejectionReasonCode \<Rightarrow> string" where
  "rejectionText code =
     (case find (\<lambda>(t, c). c = code) coverageRejectionReasonCodes of Some (t, _) \<Rightarrow> t | None \<Rightarrow> [])"

definition rejected ::
    "host \<Rightarrow> ReserveProtectionCoverageCommand \<Rightarrow> string \<Rightarrow> string \<Rightarrow> CoverageRejectionReasonCode \<Rightarrow>
     ProtectionCoverageEvent list res" where
  "rejected h command currencyCode requestedAmount reasonCode =
     bindE (normalizeProtectionCoverageRejectedV1 h
              \<lparr>pe_factSchemaVersion = 1, pe_supportRequestId = rsv_supportRequestId command,
               pe_remedyId = rsv_remedyId command, pe_idempotencyKey = rsv_idempotencyKey command,
               pe_causationId = rsv_causationId command, pe_policyVersion = rsv_policyVersion command,
               pe_occurredAt = rsv_occurredAt command, prji_coverageId = rsv_coverageId command,
               prji_requestedAmount = requestedAmount, prji_currencyCode = currencyCode,
               prji_reasonCode = rejectionText reasonCode\<rparr>) (\<lambda>data.
       Inr [CoverageRejectedEvent data])"

definition reservedFact ::
    "host \<Rightarrow> ReserveProtectionCoverageCommand \<Rightarrow> string \<Rightarrow> string \<Rightarrow> ProtectionCoverageEvent list res" where
  "reservedFact h command currencyCode requestedAmount =
     bindE (ensureIsoTimestamp h (rsv_occurredAt command)
              ''Protection coverage reservation must record a timestamp.'') (\<lambda>occurredAt.
     bindE (normalizeProtectionCoverageReservedV1 h
              \<lparr>pe_factSchemaVersion = 1, pe_supportRequestId = rsv_supportRequestId command,
               pe_remedyId = rsv_remedyId command, pe_idempotencyKey = rsv_idempotencyKey command,
               pe_causationId = rsv_causationId command, pe_policyVersion = rsv_policyVersion command,
               pe_occurredAt = occurredAt, prv_coverageId = rsv_coverageId command,
               prv_reservedAmount = requestedAmount, prv_currencyCode = currencyCode\<rparr>) (\<lambda>data.
       Inr [CoverageReservedEvent data]))"

definition withinReserve ::
    "host \<Rightarrow> ProtectionReserveState \<Rightarrow> ReserveProtectionCoverageCommand \<Rightarrow> string \<Rightarrow> string \<Rightarrow>
     ProtectionCoverageEvent list res" where
  "withinReserve h state command currencyCode requestedAmount =
     bindE (normalizeMoneyAmount (rsv_fundedAmount command) True ''Protection reserve funded amount'') (\<lambda>funded.
     bindE (availableProtectionAmount funded state) (\<lambda>available.
     bindE (compareMoney requestedAmount available) (\<lambda>order.
       if order > 0 then rejected h command currencyCode requestedAmount InsufficientReserve
       else reservedFact h command currencyCode requestedAmount)))"

definition decideReserve ::
    "host \<Rightarrow> ProtectionReserveState \<Rightarrow> ReserveProtectionCoverageCommand \<Rightarrow> ProtectionCoverageEvent list res" where
  "decideReserve h state command =
     bindE (normalizeMoneyAmount (rsv_requestedAmount command) False
              ''Protection coverage requested amount'') (\<lambda>requestedAmount.
     bindE (normalizePlatformCoverageCurrencyCode (rsv_currencyCode command)) (\<lambda>currencyCode.
     case map_of (prs_reservations state) (rsv_coverageId command) of
       Some existing \<Rightarrow>
         bindE (compareMoney (cvr_reservedAmount existing) requestedAmount) (\<lambda>order.
           if order = 0 \<and> cvr_currencyCode existing = currencyCode \<and>
              cvr_remedyId existing = rsv_remedyId command
           then Inr []
           else rejected h command currencyCode requestedAmount ConflictingTerms)
     | None \<Rightarrow>
         if prs_currencyCode state \<noteq> None \<and> prs_currencyCode state \<noteq> Some currencyCode
         then rejected h command currencyCode requestedAmount CurrencyMismatchRejection
         else case rsv_policyLimitAmount command of
           None \<Rightarrow> withinReserve h state command currencyCode requestedAmount
         | Some limit \<Rightarrow>
             bindE (normalizeMoneyAmount limit True ''Protection coverage policy limit'') (\<lambda>policyLimitAmount.
             bindE (compareMoney requestedAmount policyLimitAmount) (\<lambda>order.
               if order > 0 then rejected h command currencyCode requestedAmount PolicyLimitExceeded
               else withinReserve h state command currencyCode requestedAmount))))"

definition settledFact ::
    "host \<Rightarrow> CoverageReservationRecord \<Rightarrow> SettleProtectionCoverageCommand \<Rightarrow> string \<Rightarrow> string \<Rightarrow> string \<Rightarrow>
     LiabilityFundingKind \<Rightarrow> ProtectionCoverageEvent list res" where
  "settledFact h existing command currencyCode sellerFundedAmount platformFundedAmount fundingKind =
     bindE (ensureIsoTimestamp h (stl_occurredAt command)
              ''Protection coverage settlement must record a timestamp.'') (\<lambda>occurredAt.
     bindE (normalizeProtectionCoverageSettledV1 h
              \<lparr>pe_factSchemaVersion = 1, pe_supportRequestId = cvr_supportRequestId existing,
               pe_remedyId = cvr_remedyId existing, pe_idempotencyKey = stl_idempotencyKey command,
               pe_causationId = stl_causationId command, pe_policyVersion = stl_policyVersion command,
               pe_occurredAt = occurredAt, psti_coverageId = stl_coverageId command,
               psti_refundId = stl_refundId command,
               psti_allocation =
                 \<lparr>li_sellerFundedAmount = sellerFundedAmount, li_platformFundedAmount = platformFundedAmount,
                  li_currencyCode = currencyCode, li_fundingKind = fundingKindText fundingKind\<rparr>,
               psti_currencyCode = currencyCode\<rparr>) (\<lambda>data.
       Inr [CoverageSettledEvent data]))"

definition decideSettle ::
    "host \<Rightarrow> ProtectionReserveState \<Rightarrow> SettleProtectionCoverageCommand \<Rightarrow> ProtectionCoverageEvent list res" where
  "decideSettle h state command =
     (case map_of (prs_reservations state) (stl_coverageId command) of
        None \<Rightarrow> Inl (SettlementDomainError ''Cannot settle protection coverage that was never reserved.'')
      | Some existing \<Rightarrow>
     if cvr_status existing = CoverageSettled
     then ensure (cvr_refundId existing = Some (stl_refundId command))
            (SettlementDomainError ''Protection coverage is already settled against a different refund.'')
            (Inr [])
     else
     ensure (cvr_status existing = CoverageReserved)
       (SettlementDomainError
          ''Only a reserved protection coverage can be settled; it was released or expired.'') (
     bindE (normalizePlatformCoverageCurrencyCode (stl_currencyCode command)) (\<lambda>currencyCode.
     ensure (currencyCode = cvr_currencyCode existing)
       (SettlementDomainError ''Settlement currency must match the reserved currency.'') (
     bindE (normalizeMoneyAmount (stl_platformFundedAmount command) False
              ''Settled platform-funded amount'') (\<lambda>platformFundedAmount.
     bindE (normalizeMoneyAmount (stl_sellerFundedAmount command) True
              ''Settled seller-funded amount'') (\<lambda>sellerFundedAmount.
     bindE (compareMoney platformFundedAmount (cvr_reservedAmount existing)) (\<lambda>order.
     ensure (order = 0)
       (SettlementDomainError ''Settled platform-funded amount must equal the reserved amount.'') (
     bindE (moneyToCents sellerFundedAmount) (\<lambda>sellerCents.
     bindE (moneyToCents platformFundedAmount) (\<lambda>platformCents.
     bindE (classifyLiabilityFundingKind sellerCents platformCents) (\<lambda>fundingKind.
       settledFact h existing command currencyCode sellerFundedAmount platformFundedAmount fundingKind)))))))))))"

fun terminationStatus :: "CoverageTermination \<Rightarrow> CoverageStatus" where
  "terminationStatus (ReleaseFor reason) = CoverageReleased"
| "terminationStatus (ExpireAt deadline) = CoverageExpired"

fun notTerminable :: "CoverageTermination \<Rightarrow> string" where
  "notTerminable (ExpireAt deadline) =
     ''Only a reserved protection coverage can expire; it was settled or released.''"
| "notTerminable (ReleaseFor reason) =
     ''Only a reserved protection coverage can be released; it was settled or expired.''"

fun checkDeadline :: "host \<Rightarrow> string \<Rightarrow> CoverageTermination \<Rightarrow> unit res" where
  "checkDeadline h occurredAt (ReleaseFor reason) = Inr ()"
| "checkDeadline h occurredAt (ExpireAt deadline) =
     bindE (ensureIsoTimestamp h deadline ''Protection coverage expiry must carry a policy deadline.'') (\<lambda>d.
       ensure (case (Date_parse h occurredAt, Date_parse h d) of
                 (Some t, Some limit) \<Rightarrow> t \<ge> limit | _ \<Rightarrow> False)
         (SettlementDomainError ''Protection coverage cannot expire before its policy deadline.'') (Inr ()))"

definition decideTerminate ::
    "host \<Rightarrow> ProtectionReserveState \<Rightarrow> TerminateProtectionCoverageCommand \<Rightarrow> CoverageTermination \<Rightarrow>
     ProtectionCoverageEvent list res" where
  "decideTerminate h state command termination =
     (case map_of (prs_reservations state) (trm_coverageId command) of
        None \<Rightarrow> Inl (SettlementDomainError ''Cannot release protection coverage that was never reserved.'')
      | Some existing \<Rightarrow>
     if cvr_status existing = terminationStatus termination then Inr []
     else
     ensure (cvr_status existing = CoverageReserved) (SettlementDomainError (notTerminable termination)) (
     bindE (checkDeadline h (trm_occurredAt command) termination) (\<lambda>_.
     bindE (ensureIsoTimestamp h (trm_occurredAt command)
              ''Protection coverage release must record a timestamp.'') (\<lambda>occurredAt.
     let payload = \<lparr>tmn_supportRequestId = cvr_supportRequestId existing, tmn_remedyId = cvr_remedyId existing,
           tmn_coverageId = cvr_coverageId existing, tmn_idempotencyKey = trm_idempotencyKey command,
           tmn_causationId = trm_causationId command, tmn_policyVersion = trm_policyVersion command,
           tmn_releasedAmount = cvr_reservedAmount existing, tmn_currencyCode = cvr_currencyCode existing,
           tmn_reasonCode = (case termination of ReleaseFor reason \<Rightarrow> reason | ExpireAt _ \<Rightarrow> ''coverage-expired''),
           tmn_occurredAt = occurredAt\<rparr>
     in Inr [case termination of ReleaseFor _ \<Rightarrow> CoverageReleasedEvent payload
                               | ExpireAt _ \<Rightarrow> CoverageExpiredEvent payload]))))"

definition protectionRecoveryTypes :: "string list" where
  "protectionRecoveryTypes =
     [''resale-proceeds'', ''liquidation-proceeds'', ''carrier-claim'', ''postage-refund'', ''disposition-cost'']"

definition sameRecovery ::
    "ProtectionRecoveryRecord \<Rightarrow> RecordProtectionRecoveryCommand \<Rightarrow> string \<Rightarrow> string \<Rightarrow> string \<Rightarrow> bool" where
  "sameRecovery existing command grossAmount costAmount currencyCode \<longleftrightarrow>
     pry_coverageId existing = rcv_coverageId command \<and> pry_recoveryType existing = rcv_recoveryType command \<and>
     pry_grossAmount existing = grossAmount \<and> pry_costAmount existing = costAmount \<and>
     pry_currencyCode existing = currencyCode"

definition recoveryEvidence :: "string list \<Rightarrow> string list" where
  "recoveryEvidence references = js_unique (filter (\<lambda>v. v \<noteq> []) (map js_trim references))"

definition postRecovery ::
    "host \<Rightarrow> ProtectionReserveState \<Rightarrow> RecordProtectionRecoveryCommand \<Rightarrow> string \<Rightarrow> string \<Rightarrow> string \<Rightarrow>
     ProtectionCoverageEvent list res" where
  "postRecovery h state command grossAmount costAmount currencyCode =
     (case map_of (prs_reservations state) (rcv_coverageId command) of
        None \<Rightarrow> Inl (SettlementDomainError ''Recovered value can only reconcile to settled coverage.'')
      | Some coverage \<Rightarrow>
     ensure (cvr_status coverage = CoverageSettled)
       (SettlementDomainError ''Recovered value can only reconcile to settled coverage.'') (
     ensure (cvr_remedyId coverage = rcv_remedyId command)
       (SettlementDomainError ''Recovered value must match the originating remedy.'') (
     ensure (cvr_currencyCode coverage = currencyCode)
       (SettlementDomainError ''Recovered value currency must match the originating coverage.'') (
     ensure (rcv_recoveryType command \<in> set protectionRecoveryTypes)
       (SettlementDomainError ''Unsupported protection recovery type.'') (
     let evidenceReferences = recoveryEvidence (rcv_evidenceReferences command) in
     ensure (length evidenceReferences > 0)
       (SettlementDomainError ''Protection recovery requires evidence.'') (
     bindE (settlementRequiredText (rcv_recoveryId command) ''Recovery id is required.'') (\<lambda>recoveryId.
     bindE (settlementRequiredText (rcv_recoveredItemId command) ''Recovered item id is required.'') (\<lambda>recoveredItemId.
     bindE (settlementRequiredText (rcv_returnShipmentId command) ''Return shipment id is required.'') (\<lambda>returnShipmentId.
     bindE (subtractMoney grossAmount costAmount) (\<lambda>netAmount.
     bindE (settlementRequiredText (rcv_policyVersion command) ''Recovery policy version is required.'') (\<lambda>policyVersion.
     bindE (ensureIsoTimestamp h (rcv_occurredAt command)
              ''Protection recovery must record a timestamp.'') (\<lambda>occurredAt.
       Inr [RecoveryPostedEvent
              \<lparr>pry_recoveryId = recoveryId, pry_coverageId = cvr_coverageId coverage,
               pry_remedyId = cvr_remedyId coverage, pry_recoveredItemId = recoveredItemId,
               pry_returnShipmentId = returnShipmentId, pry_recoveryType = rcv_recoveryType command,
               pry_grossAmount = grossAmount, pry_costAmount = costAmount, pry_netAmount = netAmount,
               pry_currencyCode = currencyCode, pry_policyVersion = policyVersion,
               pry_evidenceReferences = evidenceReferences, pry_occurredAt = occurredAt\<rparr>
              (rcv_causationId command)]))))))))))))"

definition decideRecovery ::
    "host \<Rightarrow> ProtectionReserveState \<Rightarrow> RecordProtectionRecoveryCommand \<Rightarrow> ProtectionCoverageEvent list res" where
  "decideRecovery h state command =
     bindE (normalizeMoneyAmount (rcv_grossAmount command) True ''Recovered gross amount'') (\<lambda>grossAmount.
     bindE (normalizeMoneyAmount (rcv_costAmount command) True ''Recovered disposition cost'') (\<lambda>costAmount.
     ensure (grossAmount \<noteq> ''0.00'' \<or> costAmount \<noteq> ''0.00'')
       (SettlementDomainError ''A protection recovery posting cannot be zero.'') (
     bindE (normalizePlatformCoverageCurrencyCode (rcv_currencyCode command)) (\<lambda>currencyCode.
     case map_of (prs_recoveryRecords state) (rcv_recoveryId command) of
       Some existing \<Rightarrow>
         ensure (sameRecovery existing command grossAmount costAmount currencyCode)
           (SettlementDomainError ''Recovery id was reused with different value terms.'') (Inr [])
     | None \<Rightarrow> postRecovery h state command grossAmount costAmount currencyCode))))"

fun decideProtectionCoverage ::
    "host \<Rightarrow> ProtectionReserveState \<Rightarrow> ProtectionCoverageCommand \<Rightarrow> ProtectionCoverageEvent list res" where
  "decideProtectionCoverage h state (ReserveProtectionCoverage command) = decideReserve h state command"
| "decideProtectionCoverage h state (SettleProtectionCoverage command) = decideSettle h state command"
| "decideProtectionCoverage h state (ReleaseProtectionCoverage command releaseReason) =
     ensure (isCoverageReleaseReason releaseReason)
       (Error (''Unknown protection coverage release reason: '' @ releaseReason))
       (decideTerminate h state command (ReleaseFor releaseReason))"
| "decideProtectionCoverage h state (ExpireProtectionCoverage command deadline) =
     decideTerminate h state command (ExpireAt deadline)"
| "decideProtectionCoverage h state (RecordProtectionRecovery command) = decideRecovery h state command"


section \<open>Evolving\<close>

definition reservedRecord :: "ProtectionCoverageReservedV1 \<Rightarrow> CoverageReservationRecord" where
  "reservedRecord d =
     \<lparr>cvr_coverageId = prv_coverageId d, cvr_remedyId = pe_remedyId d,
      cvr_supportRequestId = pe_supportRequestId d, cvr_reservedAmount = prv_reservedAmount d,
      cvr_currencyCode = prv_currencyCode d, cvr_policyVersion = pe_policyVersion d,
      cvr_status = CoverageReserved, cvr_consumedAmount = ''0.00'', cvr_refundId = None,
      cvr_reservedAt = pe_occurredAt d, cvr_terminalAt = None\<rparr>"

definition evolveReserved ::
    "ProtectionReserveState \<Rightarrow> ProtectionCoverageReservedV1 \<Rightarrow> ProtectionReserveState res" where
  "evolveReserved state d =
     bindE (addMoney (prs_outstandingReservedAmount state) (prv_reservedAmount d)) (\<lambda>outstanding.
       Inr (state\<lparr>prs_currencyCode := (case prs_currencyCode state of
                                         None \<Rightarrow> Some (prv_currencyCode d) | Some c \<Rightarrow> Some c),
                  prs_outstandingReservedAmount := outstanding,
                  prs_reservations := AList.update (prv_coverageId d) (reservedRecord d) (prs_reservations state)\<rparr>))"

definition evolveSettled ::
    "ProtectionReserveState \<Rightarrow> ProtectionCoverageSettledV1 \<Rightarrow> ProtectionReserveState res" where
  "evolveSettled state d =
     (case map_of (prs_reservations state) (pst_coverageId d) of
        None \<Rightarrow> Inr state
      | Some existing \<Rightarrow>
     if cvr_status existing \<noteq> CoverageReserved then Inr state
     else
     let consumed = la_platformFundedAmount (pst_allocation d) in
     bindE (subtractMoney (prs_outstandingReservedAmount state) (cvr_reservedAmount existing)) (\<lambda>outstanding.
     bindE (addMoney (prs_consumedAmount state) consumed) (\<lambda>consumedAmount.
       Inr (state\<lparr>prs_outstandingReservedAmount := outstanding, prs_consumedAmount := consumedAmount,
                  prs_reservations :=
                    AList.update (pst_coverageId d)
                      (existing\<lparr>cvr_status := CoverageSettled, cvr_consumedAmount := consumed,
                                cvr_refundId := Some (pst_refundId d),
                                cvr_terminalAt := Some (pe_occurredAt d)\<rparr>)
                      (prs_reservations state)\<rparr>))))"

definition evolveTerminated ::
    "ProtectionReserveState \<Rightarrow> ProtectionCoverageTerminationPayload \<Rightarrow> CoverageStatus \<Rightarrow>
     ProtectionReserveState res" where
  "evolveTerminated state d terminalStatus =
     (case map_of (prs_reservations state) (tmn_coverageId d) of
        None \<Rightarrow> Inr state
      | Some existing \<Rightarrow>
     if cvr_status existing \<noteq> CoverageReserved then Inr state
     else
     bindE (subtractMoney (prs_outstandingReservedAmount state) (cvr_reservedAmount existing)) (\<lambda>outstanding.
     bindE (addMoney (prs_releasedAmount state) (cvr_reservedAmount existing)) (\<lambda>releasedAmount.
       Inr (state\<lparr>prs_outstandingReservedAmount := outstanding, prs_releasedAmount := releasedAmount,
                  prs_reservations :=
                    AList.update (tmn_coverageId d)
                      (existing\<lparr>cvr_status := terminalStatus, cvr_terminalAt := Some (tmn_occurredAt d)\<rparr>)
                      (prs_reservations state)\<rparr>))))"

definition evolveRecovery ::
    "ProtectionReserveState \<Rightarrow> ProtectionRecoveryRecord \<Rightarrow> ProtectionReserveState res" where
  "evolveRecovery state d =
     bindE (addMoney (prs_recoveredGrossAmount state) (pry_grossAmount d)) (\<lambda>gross.
     bindE (addMoney (prs_recoveryCostAmount state) (pry_costAmount d)) (\<lambda>cost.
     bindE (addMoney (prs_recoveredNetAmount state) (pry_netAmount d)) (\<lambda>net.
       Inr (state\<lparr>prs_recoveredGrossAmount := gross, prs_recoveryCostAmount := cost,
                  prs_recoveredNetAmount := net,
                  prs_recoveryRecords := AList.update (pry_recoveryId d) d (prs_recoveryRecords state)\<rparr>))))"

fun evolveProtectionCoverage ::
    "ProtectionReserveState \<Rightarrow> ProtectionCoverageEvent \<Rightarrow> ProtectionReserveState res" where
  "evolveProtectionCoverage state (CoverageReservedEvent d) = evolveReserved state d"
| "evolveProtectionCoverage state (CoverageRejectedEvent d) = Inr state"
| "evolveProtectionCoverage state (CoverageSettledEvent d) = evolveSettled state d"
| "evolveProtectionCoverage state (CoverageReleasedEvent d) = evolveTerminated state d CoverageReleased"
| "evolveProtectionCoverage state (CoverageExpiredEvent d) = evolveTerminated state d CoverageExpired"
| "evolveProtectionCoverage state (RecoveryPostedEvent d causationId) = evolveRecovery state d"

definition protectionReserveStreamId :: "string \<Rightarrow> string res" where
  "protectionReserveStreamId currencyCode =
     bindE (normalizePlatformCoverageCurrencyCode currencyCode) (\<lambda>c.
       Inr (''settlement.protection-reserve-'' @ c))"

end
