(* ===== verification/ProtectionCoverageFacts.thy ===== *)
theory ProtectionCoverageFacts
  imports ProtectionCoverage KeyedTotals LiabilityFacts
begin

text \<open>
  What holds of every pool that only commands with trimmed ids reached: the running totals are the sums
  over the reservations and the recoveries, a coverage is reserved once and ends once, and what is
  reserved can always be given back.
\<close>

section \<open>The invariant\<close>

definition reservation_ok :: "string option \<Rightarrow> string \<times> CoverageReservationRecord \<Rightarrow> bool" where
  "reservation_ok cur = (\<lambda>(k, r).
     k = cvr_coverageId r \<and> clean_text k \<and> clean_text (cvr_remedyId r) \<and> clean_text (cvr_supportRequestId r) \<and>
     clean_text (cvr_policyVersion r) \<and> cur = Some (cvr_currencyCode r) \<and>
     normalizePlatformCoverageCurrencyCode (cvr_currencyCode r) = Inr (cvr_currencyCode r) \<and>
     canonical (cvr_reservedAmount r) \<and> 0 < centsOf (cvr_reservedAmount r) \<and>
     cvr_consumedAmount r = (if cvr_status r = CoverageSettled then cvr_reservedAmount r else ''0.00'') \<and>
     (cvr_refundId r \<noteq> None \<longleftrightarrow> cvr_status r = CoverageSettled))"

definition recovery_ok ::
    "(string \<times> CoverageReservationRecord) list \<Rightarrow> string \<times> ProtectionRecoveryRecord \<Rightarrow> bool" where
  "recovery_ok reservations = (\<lambda>(k, y).
     k = pry_recoveryId y \<and> canonical (pry_grossAmount y) \<and> canonical (pry_costAmount y) \<and>
     canonical (pry_netAmount y) \<and> 0 \<le> centsOf (pry_grossAmount y) \<and> 0 \<le> centsOf (pry_costAmount y) \<and>
     centsOf (pry_netAmount y) = centsOf (pry_grossAmount y) - centsOf (pry_costAmount y) \<and>
     (\<exists>r. map_of reservations (pry_coverageId y) = Some r \<and> cvr_status r = CoverageSettled \<and>
          cvr_remedyId r = pry_remedyId y \<and> cvr_currencyCode r = pry_currencyCode y))"

definition reserved_in :: "CoverageStatus set \<Rightarrow> CoverageReservationRecord \<Rightarrow> int" where
  "reserved_in S r = (if cvr_status r \<in> S then centsOf (cvr_reservedAmount r) else 0)"

abbreviation pool_total :: "CoverageStatus set \<Rightarrow> ProtectionReserveState \<Rightarrow> int" where
  "pool_total S s \<equiv> keyed_total (reserved_in S) (prs_reservations s)"

definition amount_is :: "string \<Rightarrow> int \<Rightarrow> bool" where
  "amount_is t c \<longleftrightarrow> canonical t \<and> centsOf t = c"

lemma amount_isD: "amount_is t c \<Longrightarrow> canonical t" "amount_is t c \<Longrightarrow> centsOf t = c"
  by (simp_all add: amount_is_def)

lemma amount_is_zero [simp]: "amount_is ''0.00'' 0"
  by (simp add: amount_is_def)

lemma addMoney_amount:
  "addMoney a b = Inr t \<Longrightarrow> amount_is a m \<Longrightarrow> canonical b \<Longrightarrow> amount_is t (m + centsOf b)"
  by (auto simp: amount_is_def canon_simps)

lemma subtractMoney_amount:
  "subtractMoney a b = Inr t \<Longrightarrow> amount_is a m \<Longrightarrow> canonical b \<Longrightarrow> amount_is t (m - centsOf b)"
  by (auto simp: amount_is_def canon_simps)

definition ledger_ok :: "ProtectionReserveState \<Rightarrow> bool" where
  "ledger_ok s \<longleftrightarrow>
     amount_is (prs_outstandingReservedAmount s) (pool_total {CoverageReserved} s) \<and>
     amount_is (prs_consumedAmount s) (pool_total {CoverageSettled} s) \<and>
     amount_is (prs_releasedAmount s) (pool_total {CoverageReleased, CoverageExpired} s)"

definition recoveries_ok :: "ProtectionReserveState \<Rightarrow> bool" where
  "recoveries_ok s \<longleftrightarrow>
     distinct (map fst (prs_recoveryRecords s)) \<and>
     (\<forall>e\<in>set (prs_recoveryRecords s). recovery_ok (prs_reservations s) e) \<and>
     amount_is (prs_recoveredGrossAmount s) (keyed_total (\<lambda>y. centsOf (pry_grossAmount y)) (prs_recoveryRecords s)) \<and>
     amount_is (prs_recoveryCostAmount s) (keyed_total (\<lambda>y. centsOf (pry_costAmount y)) (prs_recoveryRecords s)) \<and>
     amount_is (prs_recoveredNetAmount s) (keyed_total (\<lambda>y. centsOf (pry_netAmount y)) (prs_recoveryRecords s))"

definition pool_inv :: "ProtectionReserveState \<Rightarrow> bool" where
  "pool_inv s \<longleftrightarrow>
     distinct (map fst (prs_reservations s)) \<and>
     (\<forall>e\<in>set (prs_reservations s). reservation_ok (prs_currencyCode s) e) \<and> ledger_ok s \<and> recoveries_ok s"

lemma pool_invD:
  assumes "pool_inv s"
  shows "distinct (map fst (prs_reservations s))" "\<forall>e\<in>set (prs_reservations s). reservation_ok (prs_currencyCode s) e"
    "ledger_ok s" "recoveries_ok s"
  using assms by (simp_all add: pool_inv_def)

text \<open>What holds of the coverages alone does not need the ids of commands to be trimmed.\<close>

definition coverages_ok :: "ProtectionReserveState \<Rightarrow> bool" where
  "coverages_ok s \<longleftrightarrow> distinct (map fst (prs_reservations s)) \<and>
     (\<forall>e\<in>set (prs_reservations s). reservation_ok (prs_currencyCode s) e)"

lemma pool_coverages: "pool_inv s \<Longrightarrow> coverages_ok s"
  by (simp add: pool_inv_def coverages_ok_def)

lemma coverage_record:
  "coverages_ok s \<Longrightarrow> map_of (prs_reservations s) k = Some r \<Longrightarrow> reservation_ok (prs_currencyCode s) (k, r)"
  by (auto simp: coverages_ok_def dest: map_of_SomeD)

lemmas pool_reservation = coverage_record [OF pool_coverages]

lemma pool_inv_initial: "pool_inv initialProtectionReserveState"
  by (simp add: pool_inv_def ledger_ok_def recoveries_ok_def initialProtectionReserveState_def)

text \<open>Recoveries look at settled coverages only, so they survive every change that keeps those.\<close>

lemma recovery_ok_update:
  assumes "recovery_ok xs e" and "\<And>r. map_of xs k = Some r \<Longrightarrow> cvr_status r \<noteq> CoverageSettled"
  shows "recovery_ok (AList.update k v xs) e"
  using assms by (auto simp: recovery_ok_def update_conv)

lemma reserved_in_nonneg:
  "\<forall>e\<in>set xs. reservation_ok cur e \<Longrightarrow> 0 \<le> keyed_total (reserved_in S) xs"
  by (rule keyed_total_nonneg) (auto simp: reserved_in_def reservation_ok_def)


section \<open>Events keep the invariant\<close>

lemma reserved_keeps:
  assumes inv: "pool_inv s" and new: "map_of (prs_reservations s) (prv_coverageId d) = None"
    and cur: "prs_currencyCode s = None \<or> prs_currencyCode s = Some (prv_currencyCode d)"
    and ok: "reservation_ok (Some (prv_currencyCode d)) (prv_coverageId d, reservedRecord d)"
    and ev: "evolveReserved s d = Inr s'"
  shows "pool_inv s'"
proof -
  from ev obtain out where out: "addMoney (prs_outstandingReservedAmount s) (prv_reservedAmount d) = Inr out"
    and s': "s' = s\<lparr>prs_currencyCode := Some (prv_currencyCode d), prs_outstandingReservedAmount := out,
      prs_reservations := AList.update (prv_coverageId d) (reservedRecord d) (prs_reservations s)\<rparr>"
    using cur by (auto simp: evolveReserved_def res_simps)
  note I = pool_invD [OF inv]
  have amount: "canonical (prv_reservedAmount d)" using ok by (simp add: reservation_ok_def reservedRecord_def)
  have old: "\<forall>e\<in>set (prs_reservations s). reservation_ok (Some (prv_currencyCode d)) e"
    using I(2) cur by (auto simp: reservation_ok_def)
  have "ledger_ok s'"
    using I(3) addMoney_amount [OF out _ amount] unfolding ledger_ok_def s'
    by (simp add: keyed_total_new [OF new]) (simp add: reserved_in_def reservedRecord_def)
  moreover have "recoveries_ok s'"
    using I(4) new unfolding recoveries_ok_def s' by (auto intro!: recovery_ok_update)
  ultimately show ?thesis
    using I(1) keyed_all_update [OF I(1) old ok] by (simp add: pool_inv_def s' distinct_update)
qed

lemma settled_keeps:
  assumes inv: "pool_inv s"
    and ex: "map_of (prs_reservations s) (pst_coverageId d) = Some r" "cvr_status r = CoverageReserved"
    and same: "la_platformFundedAmount (pst_allocation d) = cvr_reservedAmount r"
    and ev: "evolveSettled s d = Inr s'"
  shows "pool_inv s'"
proof -
  let ?r = "r\<lparr>cvr_status := CoverageSettled, cvr_consumedAmount := cvr_reservedAmount r,
     cvr_refundId := Some (pst_refundId d), cvr_terminalAt := Some (pe_occurredAt d)\<rparr>"
  from ev ex same obtain out con where
    out: "subtractMoney (prs_outstandingReservedAmount s) (cvr_reservedAmount r) = Inr out"
    and con: "addMoney (prs_consumedAmount s) (cvr_reservedAmount r) = Inr con"
    and s': "s' = s\<lparr>prs_outstandingReservedAmount := out, prs_consumedAmount := con,
      prs_reservations := AList.update (pst_coverageId d) ?r (prs_reservations s)\<rparr>"
    by (auto simp: evolveSettled_def Let_def res_simps)
  note I = pool_invD [OF inv]
  have ok: "reservation_ok (prs_currencyCode s) (pst_coverageId d, r)" using pool_reservation [OF inv ex(1)] .
  then have amount: "canonical (cvr_reservedAmount r)" by (simp add: reservation_ok_def)
  have "ledger_ok s'"
    using I(3) subtractMoney_amount [OF out _ amount] addMoney_amount [OF con _ amount] ex(2) unfolding ledger_ok_def s'
    by (simp add: keyed_total_changed [OF ex(1)]) (simp add: reserved_in_def)
  moreover have "recoveries_ok s'"
    using I(4) ex unfolding recoveries_ok_def s' by (auto intro!: recovery_ok_update)
  moreover have "reservation_ok (prs_currencyCode s) (pst_coverageId d, ?r)"
    using ok by (auto simp: reservation_ok_def)
  ultimately show ?thesis
    using I(1) keyed_all_update [OF I(1) I(2)] by (simp add: pool_inv_def s' distinct_update)
qed

lemma terminated_keeps:
  assumes inv: "pool_inv s"
    and ex: "map_of (prs_reservations s) (tmn_coverageId d) = Some r" "cvr_status r = CoverageReserved"
    and st: "st \<in> {CoverageReleased, CoverageExpired}"
    and ev: "evolveTerminated s d st = Inr s'"
  shows "pool_inv s'"
proof -
  let ?r = "r\<lparr>cvr_status := st, cvr_terminalAt := Some (tmn_occurredAt d)\<rparr>"
  from ev ex obtain out rel where
    out: "subtractMoney (prs_outstandingReservedAmount s) (cvr_reservedAmount r) = Inr out"
    and rel: "addMoney (prs_releasedAmount s) (cvr_reservedAmount r) = Inr rel"
    and s': "s' = s\<lparr>prs_outstandingReservedAmount := out, prs_releasedAmount := rel,
      prs_reservations := AList.update (tmn_coverageId d) ?r (prs_reservations s)\<rparr>"
    by (auto simp: evolveTerminated_def res_simps)
  note I = pool_invD [OF inv]
  have ok: "reservation_ok (prs_currencyCode s) (tmn_coverageId d, r)" using pool_reservation [OF inv ex(1)] .
  then have amount: "canonical (cvr_reservedAmount r)" by (simp add: reservation_ok_def)
  have "ledger_ok s'"
    using I(3) subtractMoney_amount [OF out _ amount] addMoney_amount [OF rel _ amount] ex(2) st unfolding ledger_ok_def s'
    by (auto simp: keyed_total_changed [OF ex(1)] reserved_in_def)
  moreover have "recoveries_ok s'"
    using I(4) ex unfolding recoveries_ok_def s' by (auto intro!: recovery_ok_update)
  moreover have "reservation_ok (prs_currencyCode s) (tmn_coverageId d, ?r)"
    using ok ex(2) st by (auto simp: reservation_ok_def)
  ultimately show ?thesis
    using I(1) keyed_all_update [OF I(1) I(2)] by (simp add: pool_inv_def s' distinct_update)
qed

lemma recovery_keeps:
  assumes inv: "pool_inv s" and new: "map_of (prs_recoveryRecords s) (pry_recoveryId d) = None"
    and ok: "recovery_ok (prs_reservations s) (pry_recoveryId d, d)"
    and ev: "evolveRecovery s d = Inr s'"
  shows "pool_inv s'"
proof -
  from ev obtain gross cost net where
    a: "addMoney (prs_recoveredGrossAmount s) (pry_grossAmount d) = Inr gross"
    "addMoney (prs_recoveryCostAmount s) (pry_costAmount d) = Inr cost"
    "addMoney (prs_recoveredNetAmount s) (pry_netAmount d) = Inr net"
    and s': "s' = s\<lparr>prs_recoveredGrossAmount := gross, prs_recoveryCostAmount := cost, prs_recoveredNetAmount := net,
      prs_recoveryRecords := AList.update (pry_recoveryId d) d (prs_recoveryRecords s)\<rparr>"
    by (auto simp: evolveRecovery_def res_simps)
  note I = pool_invD [OF inv]
  have c: "canonical (pry_grossAmount d)" "canonical (pry_costAmount d)" "canonical (pry_netAmount d)"
    using ok by (simp_all add: recovery_ok_def)
  have dist: "distinct (map fst (prs_recoveryRecords s))" and all: "\<forall>e\<in>set (prs_recoveryRecords s). recovery_ok (prs_reservations s) e"
    using I(4) by (simp_all add: recoveries_ok_def)
  have "recoveries_ok s'"
    using I(4) a [THEN addMoney_amount] c dist keyed_all_update [OF dist all ok] unfolding recoveries_ok_def s'
    by (simp add: keyed_total_new [OF new] distinct_update)
  then show ?thesis using I(1-3) by (simp add: pool_inv_def ledger_ok_def s')
qed


section \<open>Decided batches\<close>

definition trimmed_command :: "ProtectionCoverageCommand \<Rightarrow> bool" where
  "trimmed_command c \<longleftrightarrow>
     (case c of ReserveProtectionCoverage r \<Rightarrow> js_trim (rsv_coverageId r) = rsv_coverageId r
              | RecordProtectionRecovery y \<Rightarrow> js_trim (rcv_recoveryId y) = rcv_recoveryId y
              | _ \<Rightarrow> True)"

inductive pool_batch :: "ProtectionReserveState \<Rightarrow> ProtectionCoverageEvent list \<Rightarrow> bool" for s where
  nothing_new: "pool_batch s []"
| reservation_refused: "pool_batch s [CoverageRejectedEvent d]"
| coverage_reserved:
    "map_of (prs_reservations s) (prv_coverageId d) = None \<Longrightarrow>
     prs_currencyCode s = None \<or> prs_currencyCode s = Some (prv_currencyCode d) \<Longrightarrow>
     reservation_ok (Some (prv_currencyCode d)) (prv_coverageId d, reservedRecord d) \<Longrightarrow>
     pool_batch s [CoverageReservedEvent d]"
| coverage_settled:
    "map_of (prs_reservations s) (pst_coverageId d) = Some r \<Longrightarrow> cvr_status r = CoverageReserved \<Longrightarrow>
     la_platformFundedAmount (pst_allocation d) = cvr_reservedAmount r \<Longrightarrow>
     pool_batch s [CoverageSettledEvent d]"
| coverage_released:
    "map_of (prs_reservations s) (tmn_coverageId d) = Some r \<Longrightarrow> cvr_status r = CoverageReserved \<Longrightarrow>
     pool_batch s [CoverageReleasedEvent d]"
| coverage_expired:
    "map_of (prs_reservations s) (tmn_coverageId d) = Some r \<Longrightarrow> cvr_status r = CoverageReserved \<Longrightarrow>
     pool_batch s [CoverageExpiredEvent d]"
| value_recovered:
    "map_of (prs_recoveryRecords s) (pry_recoveryId d) = None \<Longrightarrow>
     recovery_ok (prs_reservations s) (pry_recoveryId d, d) \<Longrightarrow>
     pool_batch s [RecoveryPostedEvent d c]"

lemma rejected_Inr: "rejected h c cur a reason = Inr es \<Longrightarrow> \<exists>d. es = [CoverageRejectedEvent d]"
  by (auto simp: rejected_def res_simps)

lemma reservedFact_Inr:
  assumes "reservedFact h c cur a = Inr es"
  obtains d where "es = [CoverageReservedEvent d]" "prv_coverageId d = js_trim (rsv_coverageId c)"
    "reservation_ok (Some (prv_currencyCode d)) (prv_coverageId d, reservedRecord d)"
    "moneyToCents a = Inr (centsOf (prv_reservedAmount d))"
    "normalizePlatformCoverageCurrencyCode cur = Inr (prv_currencyCode d)"
    "pe_remedyId d = js_trim (rsv_remedyId c)"
proof -
  from assms obtain i d where d: "normalizeProtectionCoverageReservedV1 h i = Inr d" "es = [CoverageReservedEvent d]"
    and i: "prv_coverageId i = rsv_coverageId c" "prv_reservedAmount i = a" "prv_currencyCode i = cur"
      "pe_remedyId i = rsv_remedyId c"
    by (auto simp: reservedFact_def res_simps)
  have "reservation_ok (Some (prv_currencyCode d)) (prv_coverageId d, reservedRecord d)"
    using reservedPayload_Inr [OF d(1)] by (auto simp: reservation_ok_def reservedRecord_def envelope_ok_def)
  then show thesis using reservedPayload_Inr [OF d(1)] d(2) i by (intro that) auto
qed

text \<open>A reservation that the pool accepts, and the room it was given.\<close>

lemma decided_reserve:
  assumes "decideReserve h s c = Inr es"
  shows "es = [] \<or> (\<exists>d. es = [CoverageRejectedEvent d]) \<or>
    (\<exists>a cur funded available.
       normalizeMoneyAmount (rsv_requestedAmount c) False ''Protection coverage requested amount'' = Inr a \<and>
       normalizePlatformCoverageCurrencyCode (rsv_currencyCode c) = Inr cur \<and>
       map_of (prs_reservations s) (rsv_coverageId c) = None \<and>
       (prs_currencyCode s = None \<or> prs_currencyCode s = Some cur) \<and>
       normalizeMoneyAmount (rsv_fundedAmount c) True ''Protection reserve funded amount'' = Inr funded \<and>
       availableProtectionAmount funded s = Inr available \<and>
       (\<exists>order\<le>0. compareMoney a available = Inr order) \<and>
       reservedFact h c cur a = Inr es)"
proof (cases "map_of (prs_reservations s) (rsv_coverageId c)")
  case None
  have within: "(\<exists>d. es = [CoverageRejectedEvent d]) \<or>
      (\<exists>funded available.
         normalizeMoneyAmount (rsv_fundedAmount c) True ''Protection reserve funded amount'' = Inr funded \<and>
         availableProtectionAmount funded s = Inr available \<and>
         (\<exists>order\<le>0. compareMoney a available = Inr order) \<and> reservedFact h c cur a = Inr es)"
    if "withinReserve h s c cur a = Inr es" for cur a
    using that by (fastforce simp: withinReserve_def res_simps not_less split: if_splits dest!: rejected_Inr)
  from assms None obtain a cur where a:
    "normalizeMoneyAmount (rsv_requestedAmount c) False ''Protection coverage requested amount'' = Inr a"
    "normalizePlatformCoverageCurrencyCode (rsv_currencyCode c) = Inr cur"
    "(\<exists>reason. rejected h c cur a reason = Inr es) \<or>
     (prs_currencyCode s = None \<or> prs_currencyCode s = Some cur) \<and> withinReserve h s c cur a = Inr es"
    by (auto simp: decideReserve_def res_simps split: option.splits if_splits)
  from a(3) show ?thesis using rejected_Inr within None a(1,2) by blast
next
  case (Some r)
  with assms show ?thesis
    by (auto simp: decideReserve_def res_simps split: if_splits dest!: rejected_Inr)
qed

lemma reserve_events:
  assumes "decideReserve h s c = Inr es"
  shows "es = [] \<or> (\<exists>d. es = [CoverageRejectedEvent d]) \<or>
    (\<exists>d. es = [CoverageReservedEvent d] \<and> prv_coverageId d = js_trim (rsv_coverageId c) \<and>
       map_of (prs_reservations s) (rsv_coverageId c) = None \<and>
       (prs_currencyCode s = None \<or> prs_currencyCode s = Some (prv_currencyCode d)) \<and>
       reservation_ok (Some (prv_currencyCode d)) (prv_coverageId d, reservedRecord d))"
proof -
  from decided_reserve [OF assms] consider "es = []" | d where "es = [CoverageRejectedEvent d]"
    | (accepted) a cur where "normalizePlatformCoverageCurrencyCode (rsv_currencyCode c) = Inr cur"
        "map_of (prs_reservations s) (rsv_coverageId c) = None"
        "prs_currencyCode s = None \<or> prs_currencyCode s = Some cur" "reservedFact h c cur a = Inr es"
    by blast
  then show ?thesis
  proof cases
    case accepted
    from reservedFact_Inr [OF accepted(4)] obtain d where d: "es = [CoverageReservedEvent d]"
      "prv_coverageId d = js_trim (rsv_coverageId c)"
      "reservation_ok (Some (prv_currencyCode d)) (prv_coverageId d, reservedRecord d)" "prv_currencyCode d = cur"
      using coverage_currency_idem [OF accepted(1)] by (metis sum.inject(2))
    with accepted(2,3) show ?thesis by blast
  qed auto
qed

lemma reserve_batch:
  assumes "decideReserve h s c = Inr es" and "js_trim (rsv_coverageId c) = rsv_coverageId c"
  shows "pool_batch s es"
  using reserve_events [OF assms(1)] assms(2)
  by (auto intro: nothing_new reservation_refused coverage_reserved)

lemma settle_batch:
  assumes "decideSettle h s c = Inr es" and "coverages_ok s"
  shows "pool_batch s es"
proof (cases "map_of (prs_reservations s) (stl_coverageId c)")
  case None
  with assms(1) show ?thesis by (simp add: decideSettle_def)
next
  case (Some r)
  show ?thesis
  proof (cases "cvr_status r = CoverageSettled")
    case True
    with assms(1) Some show ?thesis by (auto simp: decideSettle_def res_simps intro: nothing_new)
  next
    case False
    with assms(1) Some obtain cur seller platform kind where
      st: "cvr_status r = CoverageReserved"
      and platform: "normalizeMoneyAmount (stl_platformFundedAmount c) False ''Settled platform-funded amount'' = Inr platform"
      and cmp: "compareMoney platform (cvr_reservedAmount r) = Inr 0"
      and fact: "settledFact h r c cur seller platform kind = Inr es"
      by (auto simp: decideSettle_def res_simps)
    from fact obtain i d where d: "normalizeProtectionCoverageSettledV1 h i = Inr d" "es = [CoverageSettledEvent d]"
      and i: "psti_coverageId i = stl_coverageId c" "li_platformFundedAmount (psti_allocation i) = platform"
      by (auto simp: settledFact_def res_simps)
    note ok = coverage_record [OF assms(2) Some]
    have canon: "canonical platform" "0 \<le> centsOf platform"
      using normalizeMoneyAmount_canonical [OF platform] by simp_all
    have same: "platform = cvr_reservedAmount r"
      using canon ok cmp by (intro canonical_eqI) (auto simp: reservation_ok_def canon_simps split: if_splits)
    have "la_platformFundedAmount (pst_allocation d) = platform"
      using settledPayload_Inr [OF d(1)] i(2) primNormalizeMoneyAmount_canonical [OF canon] by simp
    moreover have "pst_coverageId d = stl_coverageId c"
      using settledPayload_Inr [OF d(1)] i(1) ok by (auto simp: reservation_ok_def clean_text_def)
    ultimately show ?thesis unfolding d(2) using Some st same by (intro coverage_settled) simp_all
  qed
qed

lemma terminate_batch:
  assumes "decideTerminate h s c t = Inr es" and "coverages_ok s"
  shows "pool_batch s es"
proof (cases "map_of (prs_reservations s) (trm_coverageId c)")
  case None
  with assms(1) show ?thesis by (simp add: decideTerminate_def)
next
  case (Some r)
  then have id: "cvr_coverageId r = trm_coverageId c"
    using coverage_record [OF assms(2) Some] by (simp add: reservation_ok_def)
  show ?thesis
    using assms(1) Some id
    by (cases t) (auto simp: decideTerminate_def Let_def res_simps split: if_splits
        intro: nothing_new coverage_released coverage_expired)
qed

lemma recovery_batch:
  assumes "decideRecovery h s c = Inr es" and "pool_inv s" and "js_trim (rcv_recoveryId c) = rcv_recoveryId c"
  shows "pool_batch s es"
proof (cases "map_of (prs_recoveryRecords s) (rcv_recoveryId c)")
  case (Some y)
  with assms(1) show ?thesis by (auto simp: decideRecovery_def res_simps intro: nothing_new)
next
  case None
  with assms(1) obtain gross cost cur where
    amounts: "normalizeMoneyAmount (rcv_grossAmount c) True ''Recovered gross amount'' = Inr gross"
    "normalizeMoneyAmount (rcv_costAmount c) True ''Recovered disposition cost'' = Inr cost"
    and post: "postRecovery h s c gross cost cur = Inr es"
    by (auto simp: decideRecovery_def res_simps)
  note canon = amounts [THEN normalizeMoneyAmount_canonical]
  from post obtain r net where r: "map_of (prs_reservations s) (rcv_coverageId c) = Some r" "cvr_status r = CoverageSettled"
    "cvr_currencyCode r = cur"
    and net: "subtractMoney gross cost = Inr net"
    and es: "\<exists>d. es = [RecoveryPostedEvent d (rcv_causationId c)] \<and> pry_recoveryId d = rcv_recoveryId c \<and>
      pry_coverageId d = cvr_coverageId r \<and> pry_remedyId d = cvr_remedyId r \<and> pry_grossAmount d = gross \<and>
      pry_costAmount d = cost \<and> pry_netAmount d = net \<and> pry_currencyCode d = cur"
    using assms(3)
    by (auto simp: postRecovery_def Let_def settlementRequiredText_def res_simps split: option.splits)
  from es obtain d where d: "es = [RecoveryPostedEvent d (rcv_causationId c)]" "pry_recoveryId d = rcv_recoveryId c"
      "pry_coverageId d = cvr_coverageId r" "pry_remedyId d = cvr_remedyId r" "pry_grossAmount d = gross"
      "pry_costAmount d = cost" "pry_netAmount d = net" "pry_currencyCode d = cur" by blast
  have "amount_is (pry_netAmount d) (centsOf gross - centsOf cost)"
    using subtractMoney_amount [OF net] canon d(7) by (simp add: amount_is_def)
  moreover have "cvr_coverageId r = rcv_coverageId c"
    using pool_reservation [OF assms(2) r(1)] by (simp add: reservation_ok_def)
  ultimately have "recovery_ok (prs_reservations s) (pry_recoveryId d, d)"
    using r d canon by (auto simp: recovery_ok_def amount_is_def)
  then show ?thesis unfolding d(1) using None d(2) by (intro value_recovered) simp_all
qed

lemma decided_batch:
  "decideProtectionCoverage h s c = Inr es \<Longrightarrow> pool_inv s \<Longrightarrow> trimmed_command c \<Longrightarrow> pool_batch s es"
  by (cases c) (auto simp: trimmed_command_def res_simps
      intro: reserve_batch settle_batch terminate_batch recovery_batch pool_coverages)

lemma batch_keeps:
  assumes "pool_batch s es" and "pool_inv s" and "applyEvents s evolveProtectionCoverage es = Inr s'"
  shows "pool_inv s'"
  using assms
  by (cases rule: pool_batch.cases)
    (auto simp: applyEvents_Cons intro: reserved_keeps settled_keeps terminated_keeps recovery_keeps)

end
