(* ===== verification/ProtectionCoverageLife.thy ===== *)
theory ProtectionCoverageLife
  imports ProtectionCoverageFacts
begin

text \<open>
  The life of a pool and of each coverage in it: the histories that commands with trimmed ids build, the
  events of one coverage, the room a reservation needs, and the way to give everything back.
\<close>

section \<open>Histories\<close>

abbreviation pool_decide :: "host \<Rightarrow> ProtectionReserveState \<Rightarrow> ProtectionCoverageCommand \<Rightarrow> ProtectionCoverageEvent list res" where
  "pool_decide h \<equiv> decidingOnly trimmed_command (decideProtectionCoverage h)"

abbreviation pool_history :: "host \<Rightarrow> ProtectionCoverageEvent list \<Rightarrow> bool" where
  "pool_history h \<equiv> reachable_history initialProtectionReserveState evolveProtectionCoverage (pool_decide h)"

abbreviation pool_load :: "ProtectionCoverageEvent list \<Rightarrow> ProtectionReserveState res" where
  "pool_load \<equiv> foldEvents initialProtectionReserveState evolveProtectionCoverage"

lemma sent_batch: "pool_inv s \<Longrightarrow> pool_decide h s c = Inr es \<Longrightarrow> pool_batch s es"
  by (auto simp: decidingOnly_def intro: decided_batch nothing_new split: if_splits)

interpretation pool: aggregate initialProtectionReserveState evolveProtectionCoverage "pool_decide h" pool_inv for h
  by unfold_locales (auto intro: pool_inv_initial dest: sent_batch batch_keeps)


section \<open>The events of one coverage\<close>

fun concerns :: "string \<Rightarrow> ProtectionCoverageEvent \<Rightarrow> bool" where
  "concerns k (CoverageReservedEvent d) = (prv_coverageId d = k)"
| "concerns k (CoverageRejectedEvent d) = False"
| "concerns k (CoverageSettledEvent d) = (pst_coverageId d = k)"
| "concerns k (CoverageReleasedEvent d) = (tmn_coverageId d = k)"
| "concerns k (CoverageExpiredEvent d) = (tmn_coverageId d = k)"
| "concerns k (RecoveryPostedEvent d c) = False"

definition settledRecord :: "CoverageReservationRecord \<Rightarrow> ProtectionCoverageSettledV1 \<Rightarrow> CoverageReservationRecord" where
  "settledRecord r d =
     r\<lparr>cvr_status := CoverageSettled, cvr_consumedAmount := cvr_reservedAmount r,
       cvr_refundId := Some (pst_refundId d), cvr_terminalAt := Some (pe_occurredAt d)\<rparr>"

definition endedRecord ::
    "CoverageReservationRecord \<Rightarrow> CoverageStatus \<Rightarrow> ProtectionCoverageTerminationPayload \<Rightarrow> CoverageReservationRecord" where
  "endedRecord r st d = r\<lparr>cvr_status := st, cvr_terminalAt := Some (tmn_occurredAt d)\<rparr>"

text \<open>The abstract life of one coverage: absent, reserved, and ended in one of three ways.\<close>

inductive coverage_step ::
    "string \<Rightarrow> CoverageReservationRecord option \<Rightarrow> ProtectionCoverageEvent \<Rightarrow> CoverageReservationRecord option \<Rightarrow> bool"
  for k where
  step_reserve: "prv_coverageId d = k \<Longrightarrow> coverage_step k None (CoverageReservedEvent d) (Some (reservedRecord d))"
| step_settle: "pst_coverageId d = k \<Longrightarrow> cvr_status r = CoverageReserved \<Longrightarrow>
    la_platformFundedAmount (pst_allocation d) = cvr_reservedAmount r \<Longrightarrow>
    coverage_step k (Some r) (CoverageSettledEvent d) (Some (settledRecord r d))"
| step_release: "tmn_coverageId d = k \<Longrightarrow> cvr_status r = CoverageReserved \<Longrightarrow>
    coverage_step k (Some r) (CoverageReleasedEvent d) (Some (endedRecord r CoverageReleased d))"
| step_expire: "tmn_coverageId d = k \<Longrightarrow> cvr_status r = CoverageReserved \<Longrightarrow>
    coverage_step k (Some r) (CoverageExpiredEvent d) (Some (endedRecord r CoverageExpired d))"
| step_elsewhere: "\<not> concerns k e \<Longrightarrow> coverage_step k p e p"

definition coverage_of :: "string \<Rightarrow> ProtectionReserveState \<Rightarrow> CoverageReservationRecord option" where
  "coverage_of k s = map_of (prs_reservations s) k"

lemma batch_phase:
  assumes "pool_batch s es" and "applyEvents s evolveProtectionCoverage es = Inr s'"
  shows "event_path (coverage_step k) (coverage_of k s) es (coverage_of k s')"
  using assms(1)
proof cases
  case (coverage_reserved d)
  then have "coverage_of k s' = (if prv_coverageId d = k then Some (reservedRecord d) else coverage_of k s)"
    using assms(2) by (auto simp: coverage_of_def evolveReserved_def applyEvents_Cons res_simps update_conv)
  with coverage_reserved show ?thesis by (auto simp: coverage_of_def intro: step_reserve step_elsewhere)
next
  case (coverage_settled d r)
  then have "coverage_of k s' = (if pst_coverageId d = k then Some (settledRecord r d) else coverage_of k s)"
    using assms(2)
    by (auto simp: coverage_of_def evolveSettled_def settledRecord_def Let_def applyEvents_Cons res_simps update_conv)
  with coverage_settled show ?thesis by (auto simp: coverage_of_def intro: step_settle step_elsewhere)
next
  case (coverage_released d r)
  then have "coverage_of k s' =
      (if tmn_coverageId d = k then Some (endedRecord r CoverageReleased d) else coverage_of k s)"
    using assms(2) by (auto simp: coverage_of_def evolveTerminated_def endedRecord_def applyEvents_Cons res_simps update_conv)
  with coverage_released show ?thesis by (auto simp: coverage_of_def intro: step_release step_elsewhere)
next
  case (coverage_expired d r)
  then have "coverage_of k s' =
      (if tmn_coverageId d = k then Some (endedRecord r CoverageExpired d) else coverage_of k s)"
    using assms(2) by (auto simp: coverage_of_def evolveTerminated_def endedRecord_def applyEvents_Cons res_simps update_conv)
  with coverage_expired show ?thesis by (auto simp: coverage_of_def intro: step_expire step_elsewhere)
next
  case (value_recovered d c)
  then have "coverage_of k s' = coverage_of k s"
    using assms(2) by (auto simp: coverage_of_def evolveRecovery_def applyEvents_Cons res_simps)
  with value_recovered show ?thesis by (auto intro: step_elsewhere)
qed (use assms(2) in \<open>auto simp: applyEvents_Cons intro: step_elsewhere\<close>)

interpretation coverage: aggregate_lifecycle initialProtectionReserveState evolveProtectionCoverage "pool_decide h"
  pool_inv "coverage_of k" "coverage_step k" for h k
  by unfold_locales (blast intro: batch_phase sent_batch)

text \<open>What the events that concern a coverage are, and the record they leave.\<close>

definition coverage_log :: "CoverageReservationRecord option \<Rightarrow> ProtectionCoverageEvent list \<Rightarrow> bool" where
  "coverage_log p es \<longleftrightarrow>
     p = None \<and> es = [] \<or>
     (\<exists>d. es = [CoverageReservedEvent d] \<and> p = Some (reservedRecord d)) \<or>
     (\<exists>d e. es = [CoverageReservedEvent d, CoverageSettledEvent e] \<and>
            la_platformFundedAmount (pst_allocation e) = prv_reservedAmount d \<and>
            p = Some (settledRecord (reservedRecord d) e)) \<or>
     (\<exists>d e. es = [CoverageReservedEvent d, CoverageReleasedEvent e] \<and>
            p = Some (endedRecord (reservedRecord d) CoverageReleased e)) \<or>
     (\<exists>d e. es = [CoverageReservedEvent d, CoverageExpiredEvent e] \<and>
            p = Some (endedRecord (reservedRecord d) CoverageExpired e))"

lemma reservedRecord_amount: "cvr_reservedAmount (reservedRecord d) = prv_reservedAmount d"
  by (simp add: reservedRecord_def)

lemma coverage_log_open:
  "coverage_log (Some r) es \<Longrightarrow> cvr_status r = CoverageReserved \<Longrightarrow>
   \<exists>d. es = [CoverageReservedEvent d] \<and> r = reservedRecord d"
  by (auto simp: coverage_log_def settledRecord_def endedRecord_def)

lemma coverage_path_log:
  "event_path (coverage_step k) None es q \<Longrightarrow> coverage_log q (filter (concerns k) es)"
proof (induction es arbitrary: q rule: rev_induct)
  case (snoc e es)
  then obtain p where p: "event_path (coverage_step k) None es p" "coverage_step k p e q"
    by (auto simp: event_path_snoc)
  note log = snoc.IH [OF p(1)]
  from p(2) show ?case
  proof cases
    case (step_reserve d)
    with log show ?thesis by (auto simp: coverage_log_def)
  next
    case (step_settle d r)
    with log obtain d' where "filter (concerns k) es = [CoverageReservedEvent d']" "r = reservedRecord d'"
      using coverage_log_open by blast
    with step_settle show ?thesis by (simp add: coverage_log_def reservedRecord_amount)
  next
    case (step_release d r)
    with log obtain d' where "filter (concerns k) es = [CoverageReservedEvent d']" "r = reservedRecord d'"
      using coverage_log_open by blast
    with step_release show ?thesis by (simp add: coverage_log_def)
  next
    case (step_expire d r)
    with log obtain d' where "filter (concerns k) es = [CoverageReservedEvent d']" "r = reservedRecord d'"
      using coverage_log_open by blast
    with step_expire show ?thesis by (simp add: coverage_log_def)
  qed (use log in simp)
qed (simp add: coverage_log_def)

lemma coverage_history_log:
  assumes "pool_history h es" and "pool_load es = Inr s"
  shows "coverage_log (map_of (prs_reservations s) k) (filter (concerns k) es)"
  using coverage.history_path [OF assms, of k] coverage_path_log
  by (simp add: coverage_of_def initialProtectionReserveState_def)


section \<open>Room for a reservation\<close>

lemma available_amount:
  assumes "pool_inv s" and "availableProtectionAmount funded s = Inr available" and "canonical funded"
  shows "amount_is available (centsOf funded - pool_total {CoverageReserved} s - pool_total {CoverageSettled} s +
    keyed_total (\<lambda>y. centsOf (pry_netAmount y)) (prs_recoveryRecords s))"
proof -
  from assms(2) obtain a b where a: "subtractMoney funded (prs_outstandingReservedAmount s) = Inr a"
    and b: "subtractMoney a (prs_consumedAmount s) = Inr b" and c: "addMoney b (prs_recoveredNetAmount s) = Inr available"
    by (auto simp: availableProtectionAmount_def res_simps)
  note I = pool_invD(3,4) [OF assms(1), unfolded ledger_ok_def recoveries_ok_def]
  have "amount_is a (centsOf funded - pool_total {CoverageReserved} s)"
    using subtractMoney_amount [OF a, of "centsOf funded"] I(1) assms(3) by (simp add: amount_is_def)
  from subtractMoney_amount [OF b this] I(1)
  have "amount_is b (centsOf funded - pool_total {CoverageReserved} s - pool_total {CoverageSettled} s)"
    by (simp add: amount_is_def)
  from addMoney_amount [OF c this] I(2) show ?thesis by (simp add: amount_is_def)
qed

lemma reserved_within_funds:
  assumes inv: "pool_inv s" and dec: "decideReserve h s c = Inr es" and ne: "CoverageReservedEvent d \<in> set es"
  shows "\<exists>funded. normalizeMoneyAmount (rsv_fundedAmount c) True ''Protection reserve funded amount'' = Inr funded \<and>
    pool_total {CoverageReserved} s + centsOf (prv_reservedAmount d) + pool_total {CoverageSettled} s \<le>
      centsOf funded + keyed_total (\<lambda>y. centsOf (pry_netAmount y)) (prs_recoveryRecords s) \<and>
    normalizeMoneyAmount (rsv_requestedAmount c) False ''Protection coverage requested amount'' =
      Inr (prv_reservedAmount d)"
proof -
  from decided_reserve [OF dec] ne obtain a cur funded available order where
    a: "normalizeMoneyAmount (rsv_requestedAmount c) False ''Protection coverage requested amount'' = Inr a"
    and f: "normalizeMoneyAmount (rsv_fundedAmount c) True ''Protection reserve funded amount'' = Inr funded"
    and av: "availableProtectionAmount funded s = Inr available"
    and cmp: "compareMoney a available = Inr order" "order \<le> 0"
    and fact: "reservedFact h c cur a = Inr es"
    by auto
  note ca = normalizeMoneyAmount_canonical [OF a] and cf = normalizeMoneyAmount_canonical [OF f]
  from reservedFact_Inr [OF fact] ne have d: "moneyToCents a = Inr (centsOf (prv_reservedAmount d))"
    "reservation_ok (Some (prv_currencyCode d)) (prv_coverageId d, reservedRecord d)"
    by (metis ProtectionCoverageEvent.inject(1) list.set_cases set_ConsD empty_iff empty_set)+
  then have same: "centsOf a = centsOf (prv_reservedAmount d)" "canonical (prv_reservedAmount d)"
    using ca by (simp_all add: money_simps reservation_ok_def reservedRecord_def)
  have av': "amount_is available (centsOf funded - pool_total {CoverageReserved} s - pool_total {CoverageSettled} s +
    keyed_total (\<lambda>y. centsOf (pry_netAmount y)) (prs_recoveryRecords s))"
    using available_amount [OF inv av] cf by simp
  then have "centsOf a \<le> centsOf available"
    using cmp ca by (auto simp: amount_is_def canon_simps split: if_splits)
  with av' f same canonical_eqI [OF _ same(2) same(1)] a ca show ?thesis by (auto simp: amount_is_def)
qed


section \<open>Everything can be given back\<close>

definition releaseCoverage :: "string \<Rightarrow> string \<Rightarrow> ProtectionCoverageCommand" where
  "releaseCoverage t k =
     ReleaseProtectionCoverage
       \<lparr>trm_coverageId = k, trm_policyVersion = ''v1'', trm_idempotencyKey = ''coverage-release:'' @ k,
        trm_causationId = None, trm_occurredAt = t\<rparr> ''operator-release''"

definition open_coverages :: "ProtectionReserveState \<Rightarrow> nat" where
  "open_coverages s = length (filter (\<lambda>(k, r). cvr_status r = CoverageReserved) (prs_reservations s))"

lemma open_coverages_total:
  "int (open_coverages s) = keyed_total (\<lambda>r. if cvr_status r = CoverageReserved then 1 else 0) (prs_reservations s)"
proof -
  have "int (length (filter (\<lambda>(k, r). cvr_status r = CoverageReserved) xs)) =
      keyed_total (\<lambda>r. if cvr_status r = CoverageReserved then 1 else 0) xs" for xs :: "('a \<times> CoverageReservationRecord) list"
    by (induction xs) auto
  then show ?thesis by (simp add: open_coverages_def)
qed

lemma reserved_nonneg: "pool_inv s \<Longrightarrow> (k, r) \<in> set (prs_reservations s) \<Longrightarrow> 0 \<le> reserved_in S r"
  by (auto simp: pool_inv_def reserved_in_def reservation_ok_def)

lemma reserved_le_total:
  assumes "pool_inv s" and "map_of (prs_reservations s) k = Some r" and "cvr_status r \<in> S"
  shows "centsOf (cvr_reservedAmount r) \<le> pool_total S s"
proof -
  have "reserved_in S r \<le> pool_total S s"
    by (rule keyed_total_member [OF assms(2)]) (rule reserved_nonneg [OF assms(1)])
  with assms(3) show ?thesis by (simp add: reserved_in_def)
qed

lemma pool_total_nonneg: "pool_inv s \<Longrightarrow> 0 \<le> pool_total S s"
  by (rule keyed_total_nonneg) (rule reserved_nonneg)

text \<open>One release: it is accepted, it applies, and it moves the amount from reserved to released.\<close>

lemma release_applies:
  assumes inv: "pool_inv s" and r: "map_of (prs_reservations s) k = Some r" "cvr_status r = CoverageReserved"
    and t: "Date_parse h t = Some n"
    and room: "pool_total {CoverageReleased, CoverageExpired} s + centsOf (cvr_reservedAmount r) \<le> MONEY_AMOUNT_MAX_CENTS"
  obtains d s' where "pool_decide h s (releaseCoverage t k) = Inr [CoverageReleasedEvent d]" "tmn_coverageId d = k"
    "applyEvents s evolveProtectionCoverage [CoverageReleasedEvent d] = Inr s'"
    "prs_reservations s' = AList.update k (r\<lparr>cvr_status := CoverageReleased, cvr_terminalAt := Some t\<rparr>) (prs_reservations s)"
    "prs_consumedAmount s' = prs_consumedAmount s" "prs_recoveredNetAmount s' = prs_recoveredNetAmount s"
proof -
  have ok: "reservation_ok (prs_currencyCode s) (k, r)" by (rule pool_reservation [OF inv r(1)])
  then have id: "cvr_coverageId r = k" and a: "canonical (cvr_reservedAmount r)" "0 < centsOf (cvr_reservedAmount r)"
    by (simp_all add: reservation_ok_def)
  define d where "d = \<lparr>tmn_supportRequestId = cvr_supportRequestId r, tmn_remedyId = cvr_remedyId r,
     tmn_coverageId = k, tmn_idempotencyKey = ''coverage-release:'' @ k, tmn_causationId = None,
     tmn_policyVersion = ''v1'', tmn_releasedAmount = cvr_reservedAmount r, tmn_currencyCode = cvr_currencyCode r,
     tmn_reasonCode = ''operator-release'', tmn_occurredAt = t\<rparr>"
  have dec: "pool_decide h s (releaseCoverage t k) = Inr [CoverageReleasedEvent d]"
    using r t id by (simp add: decidingOnly_def trimmed_command_def releaseCoverage_def decideTerminate_def d_def
        isCoverageReleaseReason_def coverageReleaseReasons_def ensureIsoTimestamp_def)
  note I = pool_invD [OF inv]
  have le: "centsOf (cvr_reservedAmount r) \<le> pool_total {CoverageReserved} s"
    by (rule reserved_le_total [OF inv r(1)]) (simp add: r(2))
  have "0 \<le> pool_total {CoverageReleased, CoverageExpired} s" by (rule pool_total_nonneg [OF inv])
  moreover have L: "amount_is (prs_outstandingReservedAmount s) (pool_total {CoverageReserved} s)"
    "amount_is (prs_releasedAmount s) (pool_total {CoverageReleased, CoverageExpired} s)"
    using I(3) by (simp_all add: ledger_ok_def)
  ultimately have "\<exists>out. subtractMoney (prs_outstandingReservedAmount s) (cvr_reservedAmount r) = Inr out"
    "\<exists>rel. addMoney (prs_releasedAmount s) (cvr_reservedAmount r) = Inr rel"
    using a le room canonical_in_range [of "prs_outstandingReservedAmount s"]
    by (auto simp: amount_is_def canon_simps in_range_def)
  then obtain out rel where "subtractMoney (prs_outstandingReservedAmount s) (cvr_reservedAmount r) = Inr out"
    "addMoney (prs_releasedAmount s) (cvr_reservedAmount r) = Inr rel" by blast
  then obtain s' where s': "s' = s\<lparr>prs_outstandingReservedAmount := out, prs_releasedAmount := rel,
      prs_reservations := AList.update k (r\<lparr>cvr_status := CoverageReleased, cvr_terminalAt := Some t\<rparr>)
        (prs_reservations s)\<rparr>" "applyEvents s evolveProtectionCoverage [CoverageReleasedEvent d] = Inr s'"
    using r by (simp add: applyEvents_Cons evolveTerminated_def d_def)
  have "tmn_coverageId d = k" by (simp add: d_def)
  from that [OF dec this s'(2)] show thesis by (simp add: s'(1))
qed

definition clearable :: "string \<Rightarrow> string \<Rightarrow> ProtectionReserveState \<Rightarrow> bool" where
  "clearable consumed recovered s \<longleftrightarrow>
     pool_total {CoverageReleased, CoverageExpired} s + pool_total {CoverageReserved} s \<le> MONEY_AMOUNT_MAX_CENTS \<and>
     prs_consumedAmount s = consumed \<and> prs_recoveredNetAmount s = recovered"

lemma clearing_progress:
  assumes inv: "pool_inv s" and ready: "clearable consumed recovered s" and pos: "0 < open_coverages s"
    and t: "Date_parse h t = Some n"
  shows "\<exists>c es s'. c \<in> range (releaseCoverage t) \<and> pool_decide h s c = Inr es \<and>
    applyEvents s evolveProtectionCoverage es = Inr s' \<and> clearable consumed recovered s' \<and>
    open_coverages s' < open_coverages s"
proof -
  from pos obtain k r where kr: "(k, r) \<in> set (prs_reservations s)" "cvr_status r = CoverageReserved"
    by (fastforce simp: open_coverages_def filter_empty_conv)
  then have r: "map_of (prs_reservations s) k = Some r" using pool_invD(1) [OF inv] by simp
  have "centsOf (cvr_reservedAmount r) \<le> pool_total {CoverageReserved} s"
    by (rule reserved_le_total [OF inv r]) (simp add: kr(2))
  with ready have "pool_total {CoverageReleased, CoverageExpired} s + centsOf (cvr_reservedAmount r) \<le> MONEY_AMOUNT_MAX_CENTS"
    by (simp add: clearable_def)
  from release_applies [OF inv r kr(2) t this] obtain d s' where
    1: "pool_decide h s (releaseCoverage t k) = Inr [CoverageReleasedEvent d]"
      "applyEvents s evolveProtectionCoverage [CoverageReleasedEvent d] = Inr s'"
    and s': "prs_reservations s' = AList.update k (r\<lparr>cvr_status := CoverageReleased, cvr_terminalAt := Some t\<rparr>) (prs_reservations s)"
      "prs_consumedAmount s' = prs_consumedAmount s" "prs_recoveredNetAmount s' = prs_recoveredNetAmount s" by blast
  have "int (open_coverages s') < int (open_coverages s)"
    using kr(2) by (simp add: open_coverages_total s'(1) keyed_total_changed [OF r])
  moreover have "clearable consumed recovered s'"
    using ready kr(2) s' by (simp add: clearable_def keyed_total_changed [OF r]) (simp add: reserved_in_def)
  ultimately show ?thesis using 1 by (meson of_nat_less_iff rangeI)
qed

lemma nothing_open: "open_coverages s = 0 \<Longrightarrow> pool_total {CoverageReserved} s = 0"
  by (rule keyed_total_zero) (auto simp: open_coverages_def reserved_in_def filter_empty_conv)

interpretation clearing: progressing_aggregate initialProtectionReserveState evolveProtectionCoverage "pool_decide h"
  pool_inv open_coverages "clearable consumed recovered" "\<lambda>c. c \<in> range (releaseCoverage readableTime)"
  for h consumed recovered
proof unfold_locales
  fix s h consumed recovered
  assume s: "pool_inv s" "clearable consumed recovered s" "0 < open_coverages s"
  obtain n where "Date_parse h readableTime = Some n" using readableTime_parses by blast
  with s show "\<exists>c es s'. c \<in> range (releaseCoverage readableTime) \<and> pool_decide h s c = Inr es \<and>
      applyEvents s evolveProtectionCoverage es = Inr s' \<and> clearable consumed recovered s' \<and>
      open_coverages s' < open_coverages s"
    by (rule clearing_progress)
qed

end
