(* ===== verification/CoverageSettlement.thy ===== *)
theory CoverageSettlement
  imports ProtectionCoverageLife RefundFacts
begin

text \<open>
  How the pool is driven. The runtime \<open>protection-coverage-runtime.ts\<close> turns its inputs into commands and
  runs them with retries on a conflict; \<open>coverage-reservation-projection.ts\<close> reserves what Support
  requests; \<open>payment-source-projection.ts\<close> settles the coverage a completed refund draws on. The row the
  last one reads is a coverage of the pool, projected; \<open>coveragePort\<close> is the port over an up to date
  projection.
\<close>

section \<open>The runtime\<close>

record ReserveProtectionCoverageInput =
  ri_coverageId :: string
  ri_remedyId :: string
  ri_supportRequestId :: string
  ri_requestedAmount :: string
  ri_currencyCode :: string
  ri_policyVersion :: string
  ri_reasonCode :: string
  ri_causationId :: "string option"
  ri_idempotencyKey :: "string option"
  ri_occurredAt :: "string option"
  ri_policyLimitAmount :: "string option"

record SettleProtectionCoverageInput =
  si_coverageId :: string
  si_currencyCode :: string
  si_refundId :: string
  si_platformFundedAmount :: string
  si_sellerFundedAmount :: string
  si_policyVersion :: string
  si_causationId :: "string option"
  si_idempotencyKey :: "string option"
  si_occurredAt :: "string option"

definition reserveCommand :: "ReserveProtectionCoverageInput \<Rightarrow> string \<Rightarrow> string \<Rightarrow> ProtectionCoverageCommand" where
  "reserveCommand input fundedAmount now =
     ReserveProtectionCoverage
       \<lparr>rsv_coverageId = ri_coverageId input, rsv_remedyId = ri_remedyId input,
        rsv_supportRequestId = ri_supportRequestId input, rsv_requestedAmount = ri_requestedAmount input,
        rsv_currencyCode = ri_currencyCode input, rsv_policyVersion = ri_policyVersion input,
        rsv_reasonCode = ri_reasonCode input,
        rsv_idempotencyKey = orElse (ri_idempotencyKey input) (''coverage-reserve:'' @ ri_coverageId input),
        rsv_causationId = ri_causationId input, rsv_occurredAt = orElse (ri_occurredAt input) now,
        rsv_fundedAmount = fundedAmount, rsv_policyLimitAmount = ri_policyLimitAmount input\<rparr>"

definition settleCommand :: "SettleProtectionCoverageInput \<Rightarrow> string \<Rightarrow> SettleProtectionCoverageCommand" where
  "settleCommand input now =
     \<lparr>stl_coverageId = si_coverageId input, stl_refundId = si_refundId input,
      stl_platformFundedAmount = si_platformFundedAmount input,
      stl_sellerFundedAmount = si_sellerFundedAmount input, stl_currencyCode = si_currencyCode input,
      stl_policyVersion = si_policyVersion input,
      stl_idempotencyKey = orElse (si_idempotencyKey input) (''coverage-settle:'' @ si_coverageId input),
      stl_causationId = si_causationId input, stl_occurredAt = orElse (si_occurredAt input) now\<rparr>"

datatype ReserveOutcome =
    ReserveReserved (ro_reservedAmount: string)
  | ReserveRejected (ro_rejectionReason: CoverageRejectionReasonCode)
  | ReserveAlreadyReserved

fun reserveOutcome :: "ProtectionCoverageEvent list \<Rightarrow> ReserveOutcome" where
  "reserveOutcome newEvents =
     (case List.map_filter (\<lambda>e. case e of CoverageReservedEvent d \<Rightarrow> Some d | _ \<Rightarrow> None) newEvents of
        d # _ \<Rightarrow> ReserveReserved (prv_reservedAmount d)
      | [] \<Rightarrow>
     (case List.map_filter (\<lambda>e. case e of CoverageRejectedEvent d \<Rightarrow> Some d | _ \<Rightarrow> None) newEvents of
        d # _ \<Rightarrow> ReserveRejected (prj_reasonCode d)
      | [] \<Rightarrow> ReserveAlreadyReserved))"

text \<open>
  The retry loop. An attempt reads the pool, decides and appends; it may change the store \<open>'st\<close>, and so may
  the writers that ran before it, which is why it is a function of its number.
\<close>

definition MAX_CONCURRENCY_RETRIES :: nat where
  "MAX_CONCURRENCY_RETRIES = 8"

definition isConcurrencyConflict :: "js_error \<Rightarrow> bool" where
  "isConcurrencyConflict error =
     (case error of EventStoreError code _ \<Rightarrow> code = ''concurrency_conflict''
                  | PaymentsDomainError _ code \<Rightarrow> code = ''concurrency_conflict'' | _ \<Rightarrow> False)"

fun runAttempts :: "nat \<Rightarrow> (nat \<Rightarrow> 'st \<Rightarrow> 'st \<times> 'r res) \<Rightarrow> nat \<Rightarrow> 'st \<Rightarrow> 'st \<times> 'r res" where
  "runAttempts 0 attempt k st =
     (st, Inl (SettlementDomainError
                 ''Protection coverage command could not be serialized after repeated concurrent writes.''))"
| "runAttempts (Suc n) attempt k st =
     (case attempt k st of
        (st', Inr r) \<Rightarrow> (st', Inr r)
      | (st', Inl e) \<Rightarrow>
          if isConcurrencyConflict e then runAttempts n attempt (Suc k) st' else (st', Inl e))"

definition runCommand :: "(nat \<Rightarrow> 'st \<Rightarrow> 'st \<times> 'r res) \<Rightarrow> 'st \<Rightarrow> 'st \<times> 'r res" where
  "runCommand attempt st = runAttempts MAX_CONCURRENCY_RETRIES attempt 0 st"


section \<open>The integrations\<close>

definition reservationInput :: "PlatformCoverageRequestedV1 \<Rightarrow> ReserveProtectionCoverageInput" where
  "reservationInput request =
     \<lparr>ri_coverageId = prq_coverageId request, ri_remedyId = pe_remedyId request,
      ri_supportRequestId = pe_supportRequestId request, ri_requestedAmount = prq_requestedAmount request,
      ri_currencyCode = prq_currencyCode request, ri_policyVersion = pe_policyVersion request,
      ri_reasonCode = prq_reasonCode request, ri_causationId = pe_causationId request,
      ri_idempotencyKey = Some (pe_idempotencyKey request), ri_occurredAt = Some (pe_occurredAt request),
      ri_policyLimitAmount = None\<rparr>"

definition requestCoverage ::
    "host \<Rightarrow> PlatformCoverageRequestedV1 \<Rightarrow> string \<Rightarrow> string \<Rightarrow> ProtectionCoverageCommand res" where
  "requestCoverage h event fundedAmount now =
     bindE (normalizeSupportRequestPlatformCoverageRequestedV1 h event) (\<lambda>request.
       Inr (reserveCommand (reservationInput request) fundedAmount now))"

definition coverageView :: "CoverageReservationRecord \<Rightarrow> CoverageReservationState" where
  "coverageView r =
     \<lparr>cv_reservedAmount = cvr_reservedAmount r, cv_status = cvr_status r, cv_refundId = cvr_refundId r,
      cv_policyVersion = cvr_policyVersion r, cv_currencyCode = cvr_currencyCode r,
      cv_supportRequestId = cvr_supportRequestId r, cv_remedyId = cvr_remedyId r\<rparr>"

definition coveragePort ::
    "ProtectionReserveState \<Rightarrow> (string \<Rightarrow> CoverageReservationState option) option" where
  "coveragePort s = Some (\<lambda>coverageId. map_option coverageView (map_of (prs_reservations s) coverageId))"

definition settlementInput ::
    "CoverageSettlement \<Rightarrow> string \<Rightarrow> string \<Rightarrow> string option \<Rightarrow> SettleProtectionCoverageInput" where
  "settlementInput st currencyCode refundedAt eventId =
     \<lparr>si_coverageId = cs_coverageId st, si_currencyCode = currencyCode, si_refundId = cs_refundId st,
      si_platformFundedAmount = cs_platformFundedAmount st, si_sellerFundedAmount = cs_sellerFundedAmount st,
      si_policyVersion = cs_policyVersion st, si_causationId = eventId, si_idempotencyKey = None,
      si_occurredAt = Some refundedAt\<rparr>"


section \<open>Support's requests carry trimmed ids\<close>

lemma requested_trimmed: "requestCoverage h event funded now = Inr c \<Longrightarrow> trimmed_command c"
  using requestedPayload_Inr
  by (fastforce simp: requestCoverage_def res_simps trimmed_command_def reserveCommand_def reservationInput_def clean_text_def)


section \<open>The retry loop\<close>

lemma runAttempts_outcome:
  "runAttempts n attempt k st = (st', out) \<Longrightarrow>
   (case out of Inr r \<Rightarrow> \<exists>j st0. k \<le> j \<and> j < k + n \<and> attempt j st0 = (st', Inr r)
              | Inl e \<Rightarrow> \<not> isConcurrencyConflict e)"
proof (induction n arbitrary: k st)
  case (Suc n)
  obtain s1 r1 where a: "attempt k st = (s1, r1)" by force
  show ?case
  proof (cases r1)
    case (Inl e)
    show ?thesis
    proof (cases "isConcurrencyConflict e")
      case True
      with Suc.prems a Inl have "runAttempts n attempt (Suc k) s1 = (st', out)" by simp
      from Suc.IH [OF this] show ?thesis by (auto split: sum.splits) (metis Suc_leD)
    qed (use Suc.prems a Inl in auto)
  next
    case (Inr r)
    with Suc.prems a show ?thesis by force
  qed
qed (auto simp: isConcurrencyConflict_def)


section \<open>A refund settles its coverage\<close>

lemma settlementFor_Some:
  assumes "settlementFor d i v = Inr (Some st)"
  obtains c r order where "al_coverageId d = Some c" "v = Some r"
    "compareMoneyAmounts (al_platformSettleAmount d) ''0.00'' = Inr order" "0 < order"
    "\<not> al_alreadySettled d" "c \<noteq> []"
    "st = \<lparr>cs_coverageId = c, cs_refundId = i, cs_platformFundedAmount = al_platformSettleAmount d,
           cs_sellerFundedAmount = al_sellerDebitAmount d, cs_policyVersion = cv_policyVersion r\<rparr>"
  using assms
  by (cases "al_coverageId d"; cases v) (auto simp: settlementFor_def res_simps split: if_splits)

text \<open>The plan of a refund settles a coverage only when the pool holds it reserved for that amount.\<close>

lemma planned_settlement:
  assumes plan: "reconcileRefundLiability (Some a) refund cur (coveragePort s) ws = Inr (Reconciled p)"
    and st: "rp_settlement p = Some st"
  obtains d r where "aa_coverageId a = Some (cs_coverageId st)"
    "map_of (prs_reservations s) (cs_coverageId st) = Some r" "cvr_status r = CoverageReserved"
    "moneyToCents (cvr_reservedAmount r) = Inr (centsOf (cs_platformFundedAmount st))"
    "canonical (cs_platformFundedAmount st)" "canonical (cs_sellerFundedAmount st)"
    "0 < centsOf (cs_platformFundedAmount st)" "0 \<le> centsOf (cs_sellerFundedAmount st)"
    "cs_refundId st = aa_refundId a" "cs_policyVersion st = cvr_policyVersion r"
    "decideRefundLiability \<lparr>dl_allocation = Some a, dl_completedRefundAmount = refund,
       dl_completedCurrencyCode = cur, dl_reservation = Some (coverageView r)\<rparr> = Inr (Allocated d)"
    "al_coverageId d = Some (cs_coverageId st)" "al_sellerDebitAmount d = cs_sellerFundedAmount st"
    "al_platformSettleAmount d = cs_platformFundedAmount st"
  using plan
proof (cases rule: reconcile_cases)
  case (reconciled d p' debits)
  then have p': "p' = p" by simp
  from reconciled(5) st p' have "settlementFor d (aa_refundId a) (coverageReservationFor a (coveragePort s)) = Inr (Some st)"
    by simp
  then obtain c v order where
    c: "al_coverageId d = Some c" "coverageReservationFor a (coveragePort s) = Some v"
      "compareMoneyAmounts (al_platformSettleAmount d) ''0.00'' = Inr order" "0 < order" "\<not> al_alreadySettled d" "c \<noteq> []"
    and st': "st = \<lparr>cs_coverageId = c, cs_refundId = aa_refundId a, cs_platformFundedAmount = al_platformSettleAmount d,
      cs_sellerFundedAmount = al_sellerDebitAmount d, cs_policyVersion = cv_policyVersion v\<rparr>"
    by (rule settlementFor_Some)
  have dl: "dl_allocation \<lparr>dl_allocation = Some a, dl_completedRefundAmount = refund,
      dl_completedCurrencyCode = cur, dl_reservation = Some v\<rparr> = Some a" by simp
  note dec = reconciled(1) [unfolded c(2)]
  note al = allocated_liability [OF dec dl]
  have pos: "0 < centsOf (al_platformSettleAmount d)"
    using al c(3,4) compareMoney_canonical [of "al_platformSettleAmount d" "''0.00''"]
    by (auto simp: compareMoney_def split: if_splits)
  with al c(1,5) have b: "aa_coverageId a = Some c" "cv_status v = CoverageReserved"
    "moneyToCents (cv_reservedAmount v) = Inr (centsOf (al_platformSettleAmount d))"
    by (auto simp: coverage_backs_def)
  from b(1) c(2,6) obtain r where r: "map_of (prs_reservations s) c = Some r" "v = coverageView r"
    by (auto simp: coverageReservationFor_def coveragePort_def)
  show thesis
    by (rule that [of r d]) (use r b c(1) al pos dec st' in \<open>simp_all add: coverageView_def\<close>)
qed simp_all


lemma normalizeMoneyAmount_id:
  "canonical t \<Longrightarrow> 0 \<le> centsOf t \<Longrightarrow> z \<or> 0 < centsOf t \<Longrightarrow> normalizeMoneyAmount t z f = Inr t"
  by (auto elim!: canonicalE simp: money_simps)

lemma clean_prefixed: "clean_text k \<Longrightarrow> \<not> js_space c \<Longrightarrow> clean_text (c # p @ k)"
  using js_trim_ends [of k] js_trim_fixed [of "c # p @ k"] by (auto simp: clean_text_def)

text \<open>A settlement that fits the reservation is accepted as it is.\<close>

lemma settle_accepted:
  assumes inv: "pool_inv s" and r: "map_of (prs_reservations s) (stl_coverageId c) = Some r" "cvr_status r = CoverageReserved"
    and amounts: "canonical (stl_platformFundedAmount c)" "canonical (stl_sellerFundedAmount c)"
      "0 \<le> centsOf (stl_sellerFundedAmount c)" "stl_platformFundedAmount c = cvr_reservedAmount r"
    and cur: "normalizePlatformCoverageCurrencyCode (stl_currencyCode c) = Inr (cvr_currencyCode r)"
    and texts: "clean_text (stl_refundId c)" "clean_text (stl_policyVersion c)" "clean_text (stl_idempotencyKey c)"
      "\<forall>e. stl_causationId c = Some e \<longrightarrow> clean_text e" "clean_text (stl_occurredAt c)"
    and t: "Date_parse h (stl_occurredAt c) = Some n"
  obtains d where "decideSettle h s c = Inr [CoverageSettledEvent d]" "pst_coverageId d = stl_coverageId c"
    "pst_refundId d = stl_refundId c" "la_platformFundedAmount (pst_allocation d) = cvr_reservedAmount r"
    "pe_occurredAt d = stl_occurredAt c"
proof -
  have ok: "reservation_ok (prs_currencyCode s) (stl_coverageId c, r)" by (rule pool_reservation [OF inv r(1)])
  then have R: "clean_text (stl_coverageId c)" "clean_text (cvr_remedyId r)" "clean_text (cvr_supportRequestId r)"
    "canonical (cvr_reservedAmount r)" "0 < centsOf (cvr_reservedAmount r)"
    "normalizePlatformCoverageCurrencyCode (cvr_currencyCode r) = Inr (cvr_currencyCode r)"
    by (auto simp: reservation_ok_def)
  let ?kind = "if centsOf (stl_sellerFundedAmount c) = 0 then PlatformFunded else SplitFunded"
  define al where "al = \<lparr>la_sellerFundedAmount = stl_sellerFundedAmount c, la_platformFundedAmount = cvr_reservedAmount r,
     la_currencyCode = cvr_currencyCode r, la_fundingKind = ?kind\<rparr>"
  define e where "e = \<lparr>pe_factSchemaVersion = 1, pe_supportRequestId = cvr_supportRequestId r,
     pe_remedyId = cvr_remedyId r, pe_idempotencyKey = stl_idempotencyKey c, pe_causationId = stl_causationId c,
     pe_policyVersion = stl_policyVersion c, pe_occurredAt = stl_occurredAt c\<rparr>"
  have "envelope_ok h e" using R texts t by (simp add: envelope_ok_def e_def)
  then have env: "normalizeEnvelope h e = Inr e" by (rule normalizeEnvelope_normal)
  have "allocation_ok al" using R amounts by (simp add: allocation_ok_def al_def)
  from allocation_ok_normal [OF this] have alloc: "normalizeLiabilityAllocation
      \<lparr>li_sellerFundedAmount = stl_sellerFundedAmount c, li_platformFundedAmount = cvr_reservedAmount r,
       li_currencyCode = cvr_currencyCode r\<rparr> = Inr al" by (simp add: al_def)
  have cents: "moneyToCents (cvr_reservedAmount r) = Inr (centsOf (cvr_reservedAmount r))"
    "moneyToCents (stl_sellerFundedAmount c) = Inr (centsOf (stl_sellerFundedAmount c))"
    using R amounts by (simp_all add: money_simps)
  have "decideSettle h s c = settledFact h r c (cvr_currencyCode r) (stl_sellerFundedAmount c) (cvr_reservedAmount r) ?kind"
    using r cur amounts R cents
    by (simp add: decideSettle_def normalizeMoneyAmount_id compareMoney_canonical classifyLiabilityFundingKind_def)
  also have "\<dots> = Inr [CoverageSettledEvent (PlatformCoverageFactEnvelopeV1.extend e
      (ProtectionCoverageSettledV1.fields (stl_coverageId c) (stl_refundId c) al (cvr_currencyCode r)))]"
    using t env alloc R texts cents
    by (auto simp: settledFact_def ensureIsoTimestamp_def normalizeProtectionCoverageSettledV1_def e_def
        PlatformCoverageFactEnvelopeV1.defs allocationInput_def normalizeAllocationFact_def al_def isLiabilityFundingKind_def)
  finally show thesis by (rule that) (simp_all add: payload_defs al_def e_def)
qed

text \<open>Once the coverage is settled against the refund, the same refund is reconciled with the same debits
  and nothing left to settle.\<close>

lemma reconciled_again:
  assumes plan: "reconcileRefundLiability (Some a) refund cur port ws = Inr (Reconciled p)"
    and d: "decideRefundLiability \<lparr>dl_allocation = Some a, dl_completedRefundAmount = refund,
       dl_completedCurrencyCode = cur, dl_reservation = coverageReservationFor a port\<rparr> = Inr (Allocated d)"
    and cov: "al_coverageId d \<noteq> None"
    and v: "coverageReservationFor a port' = Some v" "settled_by a v"
  shows "reconcileRefundLiability (Some a) refund cur port' ws = Inr (Reconciled (p\<lparr>rp_settlement := None\<rparr>))"
proof -
  have "decideRefundLiability \<lparr>dl_allocation = Some a, dl_completedRefundAmount = refund,
       dl_completedCurrencyCode = cur, dl_reservation = Some v\<rparr> = Inr (Allocated (d\<lparr>al_alreadySettled := True\<rparr>))"
    using settled_liability [OF d _ v(2)] cov by simp
  moreover have "settlementFor (d\<lparr>al_alreadySettled := True\<rparr>) (aa_refundId a) (Some v) = Inr None"
    if "settlementFor d (aa_refundId a) w = Inr x" for w x
    using that by (auto simp: settlementFor_def res_simps split: option.splits)
  ultimately show ?thesis
    using plan d v(1)
    by (auto simp: reconcileRefundLiability_def Let_def res_simps split: if_splits)
qed


text \<open>The state after a settlement, when the consumed total stays in range.\<close>

lemma settled_applies:
  assumes inv: "pool_inv s" and r: "map_of (prs_reservations s) (pst_coverageId d) = Some r" "cvr_status r = CoverageReserved"
    and same: "la_platformFundedAmount (pst_allocation d) = cvr_reservedAmount r"
    and room: "pool_total {CoverageSettled} s + centsOf (cvr_reservedAmount r) \<le> MONEY_AMOUNT_MAX_CENTS"
  obtains s' where "applyEvents s evolveProtectionCoverage [CoverageSettledEvent d] = Inr s'"
    "prs_reservations s' = AList.update (pst_coverageId d)
       (r\<lparr>cvr_status := CoverageSettled, cvr_consumedAmount := cvr_reservedAmount r,
          cvr_refundId := Some (pst_refundId d), cvr_terminalAt := Some (pe_occurredAt d)\<rparr>) (prs_reservations s)"
    "amount_is (prs_outstandingReservedAmount s') (pool_total {CoverageReserved} s - centsOf (cvr_reservedAmount r))"
    "amount_is (prs_consumedAmount s') (pool_total {CoverageSettled} s + centsOf (cvr_reservedAmount r))"
proof -
  have ok: "reservation_ok (prs_currencyCode s) (pst_coverageId d, r)" by (rule pool_reservation [OF inv r(1)])
  then have a: "canonical (cvr_reservedAmount r)" "0 < centsOf (cvr_reservedAmount r)" by (auto simp: reservation_ok_def)
  have L: "amount_is (prs_outstandingReservedAmount s) (pool_total {CoverageReserved} s)"
    "amount_is (prs_consumedAmount s) (pool_total {CoverageSettled} s)"
    using pool_invD(3) [OF inv] by (simp_all add: ledger_ok_def)
  have "centsOf (cvr_reservedAmount r) \<le> pool_total {CoverageReserved} s"
    by (rule reserved_le_total [OF inv r(1)]) (simp add: r(2))
  then have "\<exists>out. subtractMoney (prs_outstandingReservedAmount s) (cvr_reservedAmount r) = Inr out"
    "\<exists>con. addMoney (prs_consumedAmount s) (cvr_reservedAmount r) = Inr con"
    using L a room pool_total_nonneg [OF inv] canonical_in_range [of "prs_outstandingReservedAmount s"]
    by (auto simp: amount_is_def canon_simps in_range_def)
  then obtain out con where
    out: "subtractMoney (prs_outstandingReservedAmount s) (cvr_reservedAmount r) = Inr out"
    and con: "addMoney (prs_consumedAmount s) (cvr_reservedAmount r) = Inr con" by blast
  obtain s' where s': "s' = s\<lparr>prs_outstandingReservedAmount := out, prs_consumedAmount := con,
      prs_reservations := AList.update (pst_coverageId d)
        (r\<lparr>cvr_status := CoverageSettled, cvr_consumedAmount := cvr_reservedAmount r,
           cvr_refundId := Some (pst_refundId d), cvr_terminalAt := Some (pe_occurredAt d)\<rparr>) (prs_reservations s)\<rparr>"
    "applyEvents s evolveProtectionCoverage [CoverageSettledEvent d] = Inr s'"
    using r out con same by (simp add: applyEvents_Cons evolveSettled_def Let_def)
  from that [OF s'(2)] subtractMoney_amount [OF out L(1) a(1)] addMoney_amount [OF con L(2) a(1)]
  show thesis by (simp add: s'(1))
qed

lemma refund_settles:
  assumes inv: "pool_inv s"
    and plan: "reconcileRefundLiability (Some a) refund cur (coveragePort s) ws = Inr (Reconciled p)"
    and st: "rp_settlement p = Some st" and i: "i = settlementInput st cur refundedAt eventId"
    and cur: "normalizePlatformCoverageCurrencyCode cur = Inr c" "prs_currencyCode s = Some c"
    and texts: "clean_text (aa_refundId a)" "\<forall>e. eventId = Some e \<longrightarrow> clean_text e" "clean_text refundedAt"
      "Date_parse h refundedAt = Some n"
    and room: "centsOf (prs_consumedAmount s) + centsOf (cs_platformFundedAmount st) \<le> MONEY_AMOUNT_MAX_CENTS"
  shows "\<exists>d s' r. decideSettle h s (settleCommand i now) = Inr [CoverageSettledEvent d] \<and>
    applyEvents s evolveProtectionCoverage [CoverageSettledEvent d] = Inr s' \<and>
    map_of (prs_reservations s') (cs_coverageId st) = Some r \<and> cvr_status r = CoverageSettled \<and>
    cvr_refundId r = Some (aa_refundId a) \<and>
    centsOf (prs_consumedAmount s') = centsOf (prs_consumedAmount s) + centsOf (cs_platformFundedAmount st) \<and>
    centsOf (prs_outstandingReservedAmount s') =
      centsOf (prs_outstandingReservedAmount s) - centsOf (cs_platformFundedAmount st) \<and>
    reconcileRefundLiability (Some a) refund cur (coveragePort s') ws = Inr (Reconciled (p\<lparr>rp_settlement := None\<rparr>)) \<and>
    decideSettle h s' (settleCommand i now) = Inr []"
  using plan st
proof (rule planned_settlement)
  fix d r
  assume cov: "aa_coverageId a = Some (cs_coverageId st)"
    and r: "map_of (prs_reservations s) (cs_coverageId st) = Some r" "cvr_status r = CoverageReserved"
    and amount: "moneyToCents (cvr_reservedAmount r) = Inr (centsOf (cs_platformFundedAmount st))"
      "canonical (cs_platformFundedAmount st)" "canonical (cs_sellerFundedAmount st)"
      "0 < centsOf (cs_platformFundedAmount st)" "0 \<le> centsOf (cs_sellerFundedAmount st)"
    and ids: "cs_refundId st = aa_refundId a" "cs_policyVersion st = cvr_policyVersion r"
    and dec: "decideRefundLiability \<lparr>dl_allocation = Some a, dl_completedRefundAmount = refund,
       dl_completedCurrencyCode = cur, dl_reservation = Some (coverageView r)\<rparr> = Inr (Allocated d)"
    and al: "al_coverageId d = Some (cs_coverageId st)"
  have ok: "reservation_ok (prs_currencyCode s) (cs_coverageId st, r)" by (rule pool_reservation [OF inv r(1)])
  then have R: "canonical (cvr_reservedAmount r)" "0 < centsOf (cvr_reservedAmount r)" "clean_text (cs_coverageId st)"
    "clean_text (cvr_policyVersion r)" "cvr_currencyCode r = c"
    using cur(2) by (auto simp: reservation_ok_def)
  have same: "cs_platformFundedAmount st = cvr_reservedAmount r"
    using amount R by (intro canonical_eqI) (simp_all add: money_simps)
  let ?c = "settleCommand i now"
  have C: "stl_coverageId ?c = cs_coverageId st" "stl_refundId ?c = aa_refundId a"
    "stl_platformFundedAmount ?c = cs_platformFundedAmount st" "stl_sellerFundedAmount ?c = cs_sellerFundedAmount st"
    "stl_currencyCode ?c = cur" "stl_policyVersion ?c = cvr_policyVersion r" "stl_causationId ?c = eventId"
    "stl_occurredAt ?c = refundedAt" "stl_idempotencyKey ?c = ''coverage-settle:'' @ cs_coverageId st"
    by (simp_all add: settleCommand_def settlementInput_def i orElse_def ids)
  have key: "clean_text (stl_idempotencyKey ?c)"
    using clean_prefixed [OF R(3), of "CHR ''c''" "''overage-settle:''"] by (simp add: C js_space_def)
  obtain e where e: "decideSettle h s ?c = Inr [CoverageSettledEvent e]" "pst_coverageId e = cs_coverageId st"
    "pst_refundId e = aa_refundId a" "la_platformFundedAmount (pst_allocation e) = cvr_reservedAmount r"
    by (rule settle_accepted [OF inv, of ?c r h n]) (use r amount same cur R texts key C in auto)
  have L: "amount_is (prs_outstandingReservedAmount s) (pool_total {CoverageReserved} s)"
    "amount_is (prs_consumedAmount s) (pool_total {CoverageSettled} s)"
    using pool_invD(3) [OF inv] by (simp_all add: ledger_ok_def)
  obtain s' where s': "applyEvents s evolveProtectionCoverage [CoverageSettledEvent e] = Inr s'"
    "prs_reservations s' = AList.update (cs_coverageId st)
       (r\<lparr>cvr_status := CoverageSettled, cvr_consumedAmount := cvr_reservedAmount r,
          cvr_refundId := Some (aa_refundId a), cvr_terminalAt := Some (pe_occurredAt e)\<rparr>) (prs_reservations s)"
    "amount_is (prs_outstandingReservedAmount s') (pool_total {CoverageReserved} s - centsOf (cvr_reservedAmount r))"
    "amount_is (prs_consumedAmount s') (pool_total {CoverageSettled} s + centsOf (cvr_reservedAmount r))"
    by (rule settled_applies [OF inv, of e r]) (use e r room same L in \<open>auto simp: amount_is_def\<close>)
  let ?r = "r\<lparr>cvr_status := CoverageSettled, cvr_consumedAmount := cvr_reservedAmount r,
     cvr_refundId := Some (aa_refundId a), cvr_terminalAt := Some (pe_occurredAt e)\<rparr>"
  have r': "map_of (prs_reservations s') (cs_coverageId st) = Some ?r" by (simp add: s'(2) update_conv)
  have port: "coverageReservationFor a (coveragePort s) = Some (coverageView r)"
    "coverageReservationFor a (coveragePort s') = Some (coverageView ?r)"
    using cov r(1) r' R(3) by (simp_all add: coverageReservationFor_def coveragePort_def clean_text_def)
  have again: "reconcileRefundLiability (Some a) refund cur (coveragePort s') ws = Inr (Reconciled (p\<lparr>rp_settlement := None\<rparr>))"
    by (rule reconciled_again [OF plan, where d = d and v = "coverageView ?r"])
      (use dec al port in \<open>simp_all add: settled_by_def coverageView_def\<close>)
  have noop: "decideSettle h s' ?c = Inr []" using r' C by (simp add: decideSettle_def)
  show ?thesis
    using e(1) s'(1) r' again noop amount_isD(2) [OF s'(3)] amount_isD(2) [OF s'(4)] L same
    by (intro exI [of _ e] exI [of _ s'] exI [of _ ?r]) (auto simp: amount_is_def)
qed

end
