(* ===== verification/CoveragePadding.thy ===== *)
theory CoveragePadding
  imports ProtectionCoverageLife
begin

text \<open>
  Pools that commands with any ids reach. A reservation is looked up under the id as it was sent and
  recorded under the trimmed one, so an id with white space around it can replace the record of an open
  coverage. What then stays reserved without a coverage never comes back: the amount by which the
  reserved total exceeds the open coverages does not decrease.
\<close>

abbreviation any_pool_history :: "host \<Rightarrow> ProtectionCoverageEvent list \<Rightarrow> bool" where
  "any_pool_history h \<equiv>
     reachable_history initialProtectionReserveState evolveProtectionCoverage (decideProtectionCoverage h)"

abbreviation pool_run ::
    "host \<Rightarrow> ProtectionCoverageEvent list \<Rightarrow> ProtectionCoverageCommand list \<Rightarrow> ProtectionCoverageEvent list res" where
  "pool_run h \<equiv> runCommands initialProtectionReserveState evolveProtectionCoverage (decideProtectionCoverage h)"

text \<open>A run of commands with trimmed ids builds a history of the pool.\<close>

lemma trimmed_run_history:
  "pool_run h [] cs = Inr es \<Longrightarrow> \<forall>c\<in>set cs. trimmed_command c \<Longrightarrow> pool_history h es"
  using runCommands_only [of cs trimmed_command] run_reachable by metis

definition strands :: "int \<Rightarrow> ProtectionReserveState \<Rightarrow> bool" where
  "strands n s \<longleftrightarrow> coverages_ok s \<and> canonical (prs_outstandingReservedAmount s) \<and>
     pool_total {CoverageReserved} s + n \<le> centsOf (prs_outstandingReservedAmount s)"

lemma strands_initial: "strands 0 initialProtectionReserveState"
  by (simp add: strands_def coverages_ok_def initialProtectionReserveState_def)

text \<open>The batches of any command: those of a trimmed one, a reservation, or a recovery.\<close>

lemma any_batch:
  assumes "decideProtectionCoverage h s c = Inr es" and "coverages_ok s"
  shows "pool_batch s es \<or>
    (\<exists>d. es = [CoverageReservedEvent d] \<and>
       (prs_currencyCode s = None \<or> prs_currencyCode s = Some (prv_currencyCode d)) \<and>
       reservation_ok (Some (prv_currencyCode d)) (prv_coverageId d, reservedRecord d)) \<or>
    (\<exists>d k. es = [RecoveryPostedEvent d k])"
proof (cases c)
  case (ReserveProtectionCoverage r)
  with assms(1) have "decideReserve h s r = Inr es" by simp
  from reserve_events [OF this] show ?thesis by (auto intro: nothing_new reservation_refused)
next
  case (RecordProtectionRecovery y)
  with assms(1) have dec: "decideRecovery h s y = Inr es" by simp
  have "es = [] \<or> (\<exists>d k. es = [RecoveryPostedEvent d k])"
    using dec by (auto simp: decideRecovery_def postRecovery_def Let_def res_simps split: option.splits if_splits)
  then show ?thesis by (auto intro: nothing_new)
qed (use assms in \<open>auto simp: res_simps intro: settle_batch terminate_batch\<close>)

lemma reserving_strands:
  assumes s: "strands n s" and cur: "prs_currencyCode s = None \<or> prs_currencyCode s = Some (prv_currencyCode d)"
    and ok: "reservation_ok (Some (prv_currencyCode d)) (prv_coverageId d, reservedRecord d)"
    and ev: "evolveReserved s d = Inr s'"
  shows "strands (n + (case map_of (prs_reservations s) (prv_coverageId d) of
    None \<Rightarrow> 0 | Some r \<Rightarrow> reserved_in {CoverageReserved} r)) s'"
proof -
  from ev obtain out where out: "addMoney (prs_outstandingReservedAmount s) (prv_reservedAmount d) = Inr out"
    and s': "s' = s\<lparr>prs_currencyCode := Some (prv_currencyCode d), prs_outstandingReservedAmount := out,
      prs_reservations := AList.update (prv_coverageId d) (reservedRecord d) (prs_reservations s)\<rparr>"
    using cur by (auto simp: evolveReserved_def res_simps)
  have amount: "canonical (prv_reservedAmount d)" using ok by (simp add: reservation_ok_def reservedRecord_def)
  have new: "reserved_in {CoverageReserved} (reservedRecord d) = centsOf (prv_reservedAmount d)"
    by (simp add: reserved_in_def reservedRecord_def)
  have C: "distinct (map fst (prs_reservations s))"
    "\<forall>e\<in>set (prs_reservations s). reservation_ok (Some (prv_currencyCode d)) e"
    using s cur by (auto simp: strands_def coverages_ok_def reservation_ok_def)
  have "amount_is out (centsOf (prs_outstandingReservedAmount s) + centsOf (prv_reservedAmount d))"
    using addMoney_amount [OF out _ amount] s by (simp add: strands_def amount_is_def)
  moreover have "coverages_ok s'"
    using keyed_all_update [OF C ok] C(1) by (simp add: coverages_ok_def s' distinct_update)
  ultimately show ?thesis
    using s new by (cases "map_of (prs_reservations s) (prv_coverageId d)")
      (auto simp: strands_def s' amount_is_def keyed_total_new keyed_total_changed)
qed

text \<open>Ending a coverage takes its amount from both totals.\<close>

lemma ending_strands:
  assumes s: "strands n s" and r: "map_of (prs_reservations s) k = Some r" "cvr_status r = CoverageReserved"
    and out: "subtractMoney (prs_outstandingReservedAmount s) (cvr_reservedAmount r) = Inr out"
    and r': "reservation_ok (prs_currencyCode s) (k, r')" "cvr_status r' \<noteq> CoverageReserved"
    and s': "prs_outstandingReservedAmount s' = out" "prs_currencyCode s' = prs_currencyCode s"
      "prs_reservations s' = AList.update k r' (prs_reservations s)"
  shows "strands n s'"
proof -
  have C: "coverages_ok s" using s by (simp add: strands_def)
  then have amount: "canonical (cvr_reservedAmount r)" using coverage_record [OF C r(1)] by (simp add: reservation_ok_def)
  have "amount_is out (centsOf (prs_outstandingReservedAmount s) - centsOf (cvr_reservedAmount r))"
    using subtractMoney_amount [OF out _ amount] s by (simp add: strands_def amount_is_def)
  moreover have "coverages_ok s'"
    using keyed_all_update [of "prs_reservations s" "reservation_ok (prs_currencyCode s)", OF _ _ r'(1)] C
    by (simp add: coverages_ok_def s' distinct_update)
  ultimately show ?thesis
    using s r(2) r'(2) by (auto simp: strands_def s' amount_is_def keyed_total_changed [OF r(1)] reserved_in_def)
qed

lemma any_command_strands:
  assumes s: "strands n s" and dec: "decideProtectionCoverage h s c = Inr es"
    and app: "applyEvents s evolveProtectionCoverage es = Inr s'"
  shows "strands n s'"
proof -
  have C: "coverages_ok s" using s by (simp add: strands_def)
  have reserve: "strands n s'" if "es = [CoverageReservedEvent d]"
    "prs_currencyCode s = None \<or> prs_currencyCode s = Some (prv_currencyCode d)"
    "reservation_ok (Some (prv_currencyCode d)) (prv_coverageId d, reservedRecord d)" for d
  proof -
    have "evolveReserved s d = Inr s'" using app that(1) by (auto simp: applyEvents_Cons)
    from reserving_strands [OF s that(2,3) this] have "strands (n + (case map_of (prs_reservations s) (prv_coverageId d) of
        None \<Rightarrow> 0 | Some r \<Rightarrow> reserved_in {CoverageReserved} r)) s'" .
    moreover have "0 \<le> reserved_in {CoverageReserved} r" if "map_of (prs_reservations s) (prv_coverageId d) = Some r" for r
      using coverage_record [OF C that] by (auto simp: reserved_in_def reservation_ok_def)
    ultimately show ?thesis
      by (cases "map_of (prs_reservations s) (prv_coverageId d)") (fastforce simp: strands_def)+
  qed
  have batch: "strands n s'" if "pool_batch s es"
    using that
  proof cases
    case (coverage_settled d r)
    note ok = coverage_record [OF C coverage_settled(2)]
    from coverage_settled app show ?thesis
      by (auto simp: applyEvents_Cons evolveSettled_def Let_def res_simps intro!: ending_strands [OF s coverage_settled(2,3)])
        (use ok in \<open>auto simp: reservation_ok_def\<close>)
  next
    case (coverage_released d r)
    note ok = coverage_record [OF C coverage_released(2)]
    from coverage_released app show ?thesis
      by (auto simp: applyEvents_Cons evolveTerminated_def res_simps intro!: ending_strands [OF s coverage_released(2,3)])
        (use ok coverage_released(3) in \<open>auto simp: reservation_ok_def\<close>)
  next
    case (coverage_expired d r)
    note ok = coverage_record [OF C coverage_expired(2)]
    from coverage_expired app show ?thesis
      by (auto simp: applyEvents_Cons evolveTerminated_def res_simps intro!: ending_strands [OF s coverage_expired(2,3)])
        (use ok coverage_expired(3) in \<open>auto simp: reservation_ok_def\<close>)
  next
    case (value_recovered d k)
    with app s show ?thesis by (auto simp: applyEvents_Cons evolveRecovery_def res_simps strands_def coverages_ok_def)
  qed (use app s reserve in \<open>auto simp: applyEvents_Cons\<close>)
  have "strands n s'" if "es = [RecoveryPostedEvent d k]" for d k
    using that app s by (auto simp: applyEvents_Cons evolveRecovery_def res_simps strands_def coverages_ok_def)
  with any_batch [OF dec C] reserve batch show ?thesis by blast
qed

interpretation any_pool: aggregate initialProtectionReserveState evolveProtectionCoverage "decideProtectionCoverage h"
  "strands 0" for h
  by unfold_locales (rule strands_initial, rule any_command_strands)

text \<open>A reservation that replaces an open coverage strands its amount, whatever follows.\<close>

lemma replaced_coverage_strands:
  assumes hist: "any_pool_history h es" "pool_load es = Inr s"
    and r: "map_of (prs_reservations s) (js_trim (rsv_coverageId c)) = Some r" "cvr_status r = CoverageReserved"
    and dec: "decideReserve h s c = Inr new" and ne: "CoverageReservedEvent d \<in> set new"
    and run: "pool_run h (es @ new) cs = Inr es'" and load: "pool_load es' = Inr s'"
  shows "js_trim (rsv_coverageId c) \<noteq> rsv_coverageId c" "strands (centsOf (cvr_reservedAmount r)) s'"
proof -
  from reserve_events [OF dec] ne have d: "new = [CoverageReservedEvent d]" "prv_coverageId d = js_trim (rsv_coverageId c)"
    "map_of (prs_reservations s) (rsv_coverageId c) = None"
    "prs_currencyCode s = None \<or> prs_currencyCode s = Some (prv_currencyCode d)"
    "reservation_ok (Some (prv_currencyCode d)) (prv_coverageId d, reservedRecord d)" by auto
  from r(1) d(3) show "js_trim (rsv_coverageId c) \<noteq> rsv_coverageId c" by auto
  have "\<exists>t. pool_load (es @ new) = Inr t"
    using run load by (cases cs) (auto simp: res_simps)
  then obtain t where t: "pool_load (es @ new) = Inr t" by blast
  then have "evolveReserved s d = Inr t" by (simp add: fold_run [OF hist(2)] d(1) applyEvents_Cons)
  from reserving_strands [OF any_pool.loaded_inv [OF hist] d(4,5) this] r d(2)
  have "strands (centsOf (cvr_reservedAmount r)) t" by (simp add: reserved_in_def)
  from runCommands_keeps [where P = "strands (centsOf (cvr_reservedAmount r))", OF run t this _ load]
  show "strands (centsOf (cvr_reservedAmount r)) s'" using any_command_strands by blast
qed

end
