(* ===== verification/CoverageProps.thy ===== *)
theory CoverageProps
  imports CoverageSettlement CoveragePadding
begin

text \<open>The properties of the protection reserve and of its interplay with refunds.\<close>

section \<open>Samples\<close>

definition coverageHost :: host where
  "coverageHost = \<lparr>host_dateParse = (\<lambda>_. None), host_sha256Hex = (\<lambda>_. [])\<rparr>"

definition reserveSample :: "string \<Rightarrow> string \<Rightarrow> string \<Rightarrow> ReserveProtectionCoverageCommand" where
  "reserveSample i amount funded =
     \<lparr>rsv_coverageId = i, rsv_remedyId = ''rmd_1'', rsv_supportRequestId = ''sup_1'', rsv_requestedAmount = amount,
      rsv_currencyCode = ''USD'', rsv_policyVersion = ''v1'', rsv_reasonCode = ''late'', rsv_idempotencyKey = ''k1'',
      rsv_causationId = None, rsv_occurredAt = ''2026-03-01'', rsv_fundedAmount = funded, rsv_policyLimitAmount = None\<rparr>"

definition settleSample :: "string \<Rightarrow> string \<Rightarrow> string \<Rightarrow> ProtectionCoverageCommand" where
  "settleSample i r amount = SettleProtectionCoverage
     \<lparr>stl_coverageId = i, stl_refundId = r, stl_platformFundedAmount = amount, stl_sellerFundedAmount = ''7.50'',
      stl_currencyCode = ''usd'', stl_policyVersion = ''v1'', stl_idempotencyKey = ''k2'', stl_causationId = None,
      stl_occurredAt = ''2026-03-02''\<rparr>"

definition recoverSample :: "string \<Rightarrow> ProtectionCoverageCommand" where
  "recoverSample i = RecordProtectionRecovery
     \<lparr>rcv_coverageId = ''cov_1'', rcv_remedyId = ''rmd_1'', rcv_recoveredItemId = ''itm_1'',
      rcv_returnShipmentId = ''shp_1'', rcv_recoveryId = i, rcv_recoveryType = ''resale-proceeds'',
      rcv_grossAmount = ''2.00'', rcv_costAmount = ''0.75'', rcv_currencyCode = ''usd'', rcv_policyVersion = ''v1'',
      rcv_evidenceReferences = ['' ev_1 ''], rcv_causationId = None, rcv_occurredAt = ''2026-03-09''\<rparr>"

definition poolRun :: "ProtectionCoverageCommand list" where
  "poolRun = [ReserveProtectionCoverage (reserveSample ''cov_1'' ''2.5'' ''10''),
     ReserveProtectionCoverage (reserveSample ''cov_2'' ''4.00'' ''10''),
     settleSample ''cov_1'' ''rfd_1'' ''2.50'', recoverSample ''rec_1'']"


text \<open>Two coverages are reserved, one of them is settled and then recovered in part; all samples read this state.\<close>

definition refundWeights :: "SellerPayoutWeight list" where
  "refundWeights = [\<lparr>sw_orderId = ''ord_1'', sw_sellerAccountId = ''acc_1'', sw_weightAmount = ''20.00''\<rparr>]"

definition settledRefund :: AuthorizedRefundAllocation where
  "settledRefund = \<lparr>aa_refundId = ''rfd_2'', aa_remedyId = ''rmd_1'', aa_coverageId = Some ''cov_2'',
     aa_sellerFundedAmount = ''6.00'', aa_platformFundedAmount = ''4.00'', aa_currencyCode = ''usd'',
     aa_fundingKind = SplitFunded\<rparr>"

definition plannedSettlement :: CoverageSettlement where
  "plannedSettlement = \<lparr>cs_coverageId = ''cov_2'', cs_refundId = ''rfd_2'', cs_platformFundedAmount = ''4.00'',
     cs_sellerFundedAmount = ''6.00'', cs_policyVersion = ''v1''\<rparr>"

definition poolReading :: "ProtectionReserveState \<Rightarrow> bool" where
  "poolReading s \<longleftrightarrow> prs_outstandingReservedAmount s = ''4.00'' \<and> prs_recoveredNetAmount s = ''1.25'' \<and>
     prs_releasedAmount s = ''0.00'' \<and> prs_consumedAmount s = ''2.50'' \<and> prs_currencyCode s = Some ''usd'' \<and>
     map (\<lambda>(k, r). (k, cvr_status r)) (prs_reservations s) =
       [(''cov_1'', CoverageSettled), (''cov_2'', CoverageReserved)] \<and>
     reconcileRefundLiability (Some settledRefund) ''10.00'' ''usd'' (coveragePort s) refundWeights =
       Inr (Reconciled \<lparr>rp_debitAmounts = [''6.00''], rp_settlement = Some plannedSettlement\<rparr>)"

abbreviation lastReservation :: ReserveProtectionCoverageCommand where
  "lastReservation \<equiv> reserveSample ''cov_4'' ''4.75'' ''10''"

lemma poolSample:
  obtains s es d where "poolReading s" "pool_run coverageHost [] poolRun = Inr es" "\<forall>c\<in>set poolRun. trimmed_command c"
    "pool_load es = Inr s" "prv_reservedAmount d = ''4.75''"
    "decideProtectionCoverage coverageHost s (ReserveProtectionCoverage lastReservation) = Inr [CoverageReservedEvent d]"
proof -
  have "case runThenStep initialProtectionReserveState evolveProtectionCoverage (decideProtectionCoverage coverageHost) poolRun
      (ReserveProtectionCoverage lastReservation) of
      Inr (s, new, s') \<Rightarrow> poolReading s \<and>
        (case new of [CoverageReservedEvent d] \<Rightarrow> prv_reservedAmount d = ''4.75'' | _ \<Rightarrow> False)
    | Inl _ \<Rightarrow> False" by code_simp
  then obtain s new s' where r: "poolReading s \<and>
        (case new of [CoverageReservedEvent d] \<Rightarrow> prv_reservedAmount d = ''4.75'' | _ \<Rightarrow> False)"
    and l: "runAndLoad initialProtectionReserveState evolveProtectionCoverage (decideProtectionCoverage coverageHost) poolRun = Inr s"
    and dec: "decideProtectionCoverage coverageHost s (ReserveProtectionCoverage lastReservation) = Inr new"
    by (rule runThenStep_cases)
  from r obtain d where d: "new = [CoverageReservedEvent d]" "prv_reservedAmount d = ''4.75''"
    by (cases new; cases "tl new"; cases "hd new") auto
  have "list_all trimmed_command poolRun" by code_simp
  with that r l dec d show thesis unfolding runAndLoad_Inr list_all_iff by blast
qed

lemma poolHistory:
  obtains s es where "poolReading s" "pool_history coverageHost es" "pool_load es = Inr s"
  using poolSample trimmed_run_history by metis


section \<open>The ledger\<close>



text \<open>
  The reserve is never overdrawn by a reservation: one is accepted only if everything that is
  reserved and consumed, the new coverage included, is covered by the funds the command brought and by
  what was recovered, and it reserves exactly the requested amount.
\<close>

theorem reservation_within_funds:
  assumes "pool_history h es" and "pool_load es = Inr s"
    and "decideProtectionCoverage h s (ReserveProtectionCoverage c) = Inr new" and "CoverageReservedEvent d \<in> set new"
  shows "\<exists>funded. normalizeMoneyAmount (rsv_fundedAmount c) True ''Protection reserve funded amount'' = Inr funded \<and>
    centsOf (prs_outstandingReservedAmount s) + centsOf (prv_reservedAmount d) + centsOf (prs_consumedAmount s) \<le>
      centsOf funded + centsOf (prs_recoveredNetAmount s) \<and>
    normalizeMoneyAmount (rsv_requestedAmount c) False ''Protection coverage requested amount'' =
      Inr (prv_reservedAmount d)"
proof -
  note inv = pool.loaded_inv [OF assms(1,2)]
  from reserved_within_funds [OF inv _ assms(4)] assms(3) pool_invD(3,4) [OF inv] show ?thesis
    by (simp add: ledger_ok_def recoveries_ok_def amount_is_def)
qed

text \<open>
  C21. A coverage is consumed or given back at most once: in every history of a pool whose commands name
  coverages and recoveries by ids without white space around them, the events of a coverage are its
  reservation followed by at most one settlement, release or expiry, a settlement is for exactly the
  reserved amount, and the pool's record of the coverage is what these events say.
\<close>

theorem coverage_ends_at_most_once:
  assumes "pool_run h [] cs = Inr es" and "\<forall>c\<in>set cs. trimmed_command c" and "pool_load es = Inr s"
  shows "coverage_log (map_of (prs_reservations s) k) (filter (concerns k) es)"
  using trimmed_run_history [OF assms(1,2)] assms(3) by (rule coverage_history_log)

theorem coverage_ends_at_most_once_witness:
  "\<exists>es (s :: ProtectionReserveState) d e.
     filter (concerns ''cov_1'') es = [CoverageReservedEvent d, CoverageSettledEvent e] \<and>
     map_of (prs_reservations s) ''cov_1'' = Some (settledRecord (reservedRecord d) e)"
proof -
  obtain s es where s: "poolReading s" and l: "pool_run coverageHost [] poolRun = Inr es"
    "\<forall>c\<in>set poolRun. trimmed_command c" "pool_load es = Inr s" by (rule poolSample)
  from s have st: "map_option cvr_status (map_of (prs_reservations s) ''cov_1'') = Some CoverageSettled"
    by (auto simp: poolReading_def map_eq_Cons_conv split: prod.splits)
  have "cvr_status (reservedRecord d) = CoverageReserved" "cvr_status (endedRecord r k e) = k" for d r k e
    by (simp_all add: reservedRecord_def endedRecord_def)
  with coverage_ends_at_most_once [OF l, of "''cov_1''"] st
  have "\<exists>d e. filter (concerns ''cov_1'') es = [CoverageReservedEvent d, CoverageSettledEvent e] \<and>
      map_of (prs_reservations s) ''cov_1'' = Some (settledRecord (reservedRecord d) e)"
    by (auto simp: coverage_log_def)
  then show ?thesis by blast
qed


section \<open>Nothing stays reserved for ever\<close>

text \<open>
  C22. A reserve can be cleared: from every history of a pool whose commands name coverages and recoveries by
  ids without white space around them, and whose released total, which is only a statistic, has room for
  what is reserved, releasing the open coverages one by one, with commands the pool accepts, leads to a
  pool with nothing reserved and with the same consumed and recovered amounts. It takes at most as many
  commands as coverages are open.
\<close>

theorem reserve_can_always_be_cleared:
  assumes "pool_run h [] cs = Inr es" and "\<forall>c\<in>set cs. trimmed_command c" and "pool_load es = Inr s"
    and "centsOf (prs_releasedAmount s) + centsOf (prs_outstandingReservedAmount s) \<le> MONEY_AMOUNT_MAX_CENTS"
  shows "\<exists>cs' es' s'. (\<forall>c\<in>set cs'. c \<in> range (releaseCoverage readableTime)) \<and> length cs' \<le> open_coverages s \<and>
    pool_run h es cs' = Inr es' \<and>
    pool_load es' = Inr s' \<and> (\<forall>(k, r)\<in>set (prs_reservations s'). cvr_status r \<noteq> CoverageReserved) \<and>
    prs_outstandingReservedAmount s' = ''0.00'' \<and> prs_consumedAmount s' = prs_consumedAmount s \<and>
    prs_recoveredNetAmount s' = prs_recoveredNetAmount s"
proof -
  note hist = trimmed_run_history [OF assms(1,2)]
  note L = pool_invD(3) [OF pool.loaded_inv [OF hist assms(3)], unfolded ledger_ok_def amount_is_def]
  have "clearable (prs_consumedAmount s) (prs_recoveredNetAmount s) s"
    using L assms(4) by (simp add: clearable_def)
  from clearing.can_finish [OF hist assms(3) this] obtain cs' es' s' where
    cs: "\<forall>c\<in>set cs'. c \<in> range (releaseCoverage readableTime)" "length cs' \<le> open_coverages s"
      "runCommands initialProtectionReserveState evolveProtectionCoverage (pool_decide h) es cs' = Inr es'"
    and s': "pool_load es' = Inr s'" "pool_inv s'" "clearable (prs_consumedAmount s) (prs_recoveredNetAmount s) s'"
      "open_coverages s' = 0" by blast
  have "\<forall>c\<in>set cs'. trimmed_command c" using cs(1) by (auto simp: trimmed_command_def releaseCoverage_def)
  then have run: "runCommands initialProtectionReserveState evolveProtectionCoverage (decideProtectionCoverage h) es cs' = Inr es'"
    using cs(3) by (simp add: runCommands_only)
  have closed: "\<forall>(k, r)\<in>set (prs_reservations s'). cvr_status r \<noteq> CoverageReserved"
    using s'(4) by (auto simp: open_coverages_def filter_empty_conv)
  have "prs_outstandingReservedAmount s' = ''0.00''"
    using pool_invD(3) [OF s'(2)] nothing_open [OF s'(4)]
    by (intro canonical_eqI) (simp_all add: ledger_ok_def amount_is_def)
  with cs(1,2) run s'(1,3) closed show ?thesis unfolding clearable_def by blast
qed

theorem reserve_can_always_be_cleared_witness:
  "\<exists>(s :: ProtectionReserveState) cs es' s'. prs_outstandingReservedAmount s = ''4.00'' \<and> length cs \<le> 1 \<and>
     set cs \<subseteq> range (releaseCoverage readableTime) \<and> pool_load es' = Inr s' \<and>
     prs_outstandingReservedAmount s' = ''0.00'' \<and> prs_consumedAmount s' = ''2.50''"
proof -
  obtain s es where s: "poolReading s" and l: "pool_run coverageHost [] poolRun = Inr es"
    "\<forall>c\<in>set poolRun. trimmed_command c" "pool_load es = Inr s" by (rule poolSample)
  have "centsOf ''0.00'' + centsOf ''4.00'' \<le> MONEY_AMOUNT_MAX_CENTS" by code_simp
  with s have room: "centsOf (prs_releasedAmount s) + centsOf (prs_outstandingReservedAmount s) \<le> MONEY_AMOUNT_MAX_CENTS"
    by (simp add: poolReading_def)
  from s have "open_coverages s = 1"
    by (auto simp: poolReading_def open_coverages_def map_eq_Cons_conv)
  with reserve_can_always_be_cleared [OF l room] s show ?thesis
    unfolding poolReading_def by (metis subsetI)
qed


section \<open>Refunds\<close>

text \<open>
  C11. When a completed refund is reconciled and its plan settles a coverage, the pool, reached by commands
  whose ids of coverages and recoveries have no white space around them, accepts the
  settlement as the projection sends it: the coverage is settled against that refund, exactly the
  platform-funded amount moves from reserved to consumed, and redelivery is harmless, because the same
  refund then reconciles to the same debits with nothing left to settle and the same settlement changes
  nothing. The refund must name the pool's currency, and the consumed total must stay in range.
\<close>

theorem refund_settles_its_coverage_once:
  assumes "pool_history h es" and "pool_load es = Inr s"
    and "reconcileRefundLiability (Some a) refund cur (coveragePort s) ws = Inr (Reconciled p)"
    and "rp_settlement p = Some st" and "i = settlementInput st cur refundedAt eventId"
    and "normalizePlatformCoverageCurrencyCode cur = Inr c" and "prs_currencyCode s = Some c"
    and "clean_text (aa_refundId a)" and "\<forall>e. eventId = Some e \<longrightarrow> clean_text e" and "clean_text refundedAt"
    and "Date_parse h refundedAt = Some n"
    and "centsOf (prs_consumedAmount s) + centsOf (cs_platformFundedAmount st) \<le> MONEY_AMOUNT_MAX_CENTS"
  shows "\<exists>d s' r. decideSettle h s (settleCommand i now) = Inr [CoverageSettledEvent d] \<and>
    applyEvents s evolveProtectionCoverage [CoverageSettledEvent d] = Inr s' \<and>
    map_of (prs_reservations s') (cs_coverageId st) = Some r \<and> cvr_status r = CoverageSettled \<and>
    cvr_refundId r = Some (aa_refundId a) \<and>
    centsOf (prs_consumedAmount s') = centsOf (prs_consumedAmount s) + centsOf (cs_platformFundedAmount st) \<and>
    centsOf (prs_outstandingReservedAmount s') =
      centsOf (prs_outstandingReservedAmount s) - centsOf (cs_platformFundedAmount st) \<and>
    reconcileRefundLiability (Some a) refund cur (coveragePort s') ws = Inr (Reconciled (p\<lparr>rp_settlement := None\<rparr>)) \<and>
    decideSettle h s' (settleCommand i now) = Inr []"
  using assms(3-12) by (rule refund_settles [OF pool.loaded_inv [OF assms(1,2)]])

theorem refund_settles_its_coverage_once_witness:
  "\<exists>(s :: ProtectionReserveState) s'. centsOf (prs_consumedAmount s') = centsOf (prs_consumedAmount s) + 400 \<and>
     reconcileRefundLiability (Some settledRefund) ''10.00'' ''usd'' (coveragePort s') refundWeights =
       Inr (Reconciled \<lparr>rp_debitAmounts = [''6.00''], rp_settlement = None\<rparr>)"
proof -
  let ?p = "\<lparr>rp_debitAmounts = [''6.00''], rp_settlement = Some plannedSettlement\<rparr>"
  obtain s es where s: "poolReading s" and l: "pool_history coverageHost es" "pool_load es = Inr s" by (rule poolHistory)
  have t: "clean_text (aa_refundId settledRefund)" "clean_text ''2026-04-01''" "Date_parse coverageHost ''2026-04-01'' \<noteq> None"
    "normalizePlatformCoverageCurrencyCode ''usd'' = Inr ''usd''" "centsOf (cs_platformFundedAmount plannedSettlement) = 400"
    "centsOf ''2.50'' + centsOf (cs_platformFundedAmount plannedSettlement) \<le> MONEY_AMOUNT_MAX_CENTS"
    by code_simp+
  from t(3) obtain n where n: "Date_parse coverageHost ''2026-04-01'' = Some n" by blast
  have st: "rp_settlement ?p = Some plannedSettlement" by simp
  from s have r: "reconcileRefundLiability (Some settledRefund) ''10.00'' ''usd'' (coveragePort s) refundWeights =
      Inr (Reconciled ?p)" and u: "prs_currencyCode s = Some ''usd''"
    and m: "centsOf (prs_consumedAmount s) + centsOf (cs_platformFundedAmount plannedSettlement) \<le> MONEY_AMOUNT_MAX_CENTS"
    using t(6) by (simp_all add: poolReading_def)
  obtain s' where
    "centsOf (prs_consumedAmount s') = centsOf (prs_consumedAmount s) + centsOf (cs_platformFundedAmount plannedSettlement)"
    "reconcileRefundLiability (Some settledRefund) ''10.00'' ''usd'' (coveragePort s') refundWeights =
       Inr (Reconciled (?p\<lparr>rp_settlement := None\<rparr>))"
    using refund_settles_its_coverage_once
      [where eventId = None, OF l r st refl t(4) u t(1) _ t(2) n m] by blast
  then show ?thesis using t(5) by auto
qed

section \<open>Without trimmed ids\<close>

text \<open>
  C37. Only an id with white space around it lets a reservation pass for a coverage that is open: it is looked
  up as it was sent but recorded trimmed, so it replaces the record of the open coverage and adds its amount
  again. Then the amount of the replaced coverage stays reserved for ever: whatever commands follow, what the
  pool counts as reserved exceeds its open coverages by at least that positive amount, so no release,
  settlement or expiry can give it back.
\<close>

theorem padded_coverage_id_strands_reserve:
  assumes "any_pool_history h es" and "pool_load es = Inr s"
    and "map_of (prs_reservations s) (js_trim (rsv_coverageId c)) = Some r" and "cvr_status r = CoverageReserved"
    and "decideProtectionCoverage h s (ReserveProtectionCoverage c) = Inr new" and "CoverageReservedEvent d \<in> set new"
    and "pool_run h (es @ new) cs = Inr es'" and "pool_load es' = Inr s'"
  shows "js_trim (rsv_coverageId c) \<noteq> rsv_coverageId c \<and> 0 < centsOf (cvr_reservedAmount r) \<and>
    pool_total {CoverageReserved} s' + centsOf (cvr_reservedAmount r) \<le> centsOf (prs_outstandingReservedAmount s')"
proof -
  have "coverages_ok s" using any_pool.loaded_inv [OF assms(1,2)] by (simp add: strands_def)
  from coverage_record [OF this assms(3)] have "0 < centsOf (cvr_reservedAmount r)" by (simp add: reservation_ok_def)
  with replaced_coverage_strands [OF assms(1-4) _ assms(6-8)] assms(5) show ?thesis by (simp add: strands_def)
qed

abbreviation paddedReservation :: ReserveProtectionCoverageCommand where
  "paddedReservation \<equiv> reserveSample '' cov_1'' ''5.00'' ''10.00''"

theorem padded_coverage_id_strands_reserve_witness:
  "\<exists>es' (s' :: ProtectionReserveState). any_pool_history coverageHost es' \<and> pool_load es' = Inr s' \<and>
     map (\<lambda>(k, r). (k, cvr_status r)) (prs_reservations s') = [(''cov_1'', CoverageReleased)] \<and>
     pool_total {CoverageReserved} s' + 500 \<le> centsOf (prs_outstandingReservedAmount s')"
proof -
  let ?P = "\<lambda>s new t. (case map_of (prs_reservations s) (js_trim (rsv_coverageId paddedReservation)) of
        Some r \<Rightarrow> cvr_status r = CoverageReserved \<and> centsOf (cvr_reservedAmount r) = 500 | None \<Rightarrow> False) \<and>
      (case new of [CoverageReservedEvent d] \<Rightarrow> True | _ \<Rightarrow> False) \<and>
      (case runStates evolveProtectionCoverage (decideProtectionCoverage coverageHost) t [releaseCoverage readableTime ''cov_1''] of
         Inr s' \<Rightarrow> map (\<lambda>(k, r). (k, cvr_status r)) (prs_reservations s') = [(''cov_1'', CoverageReleased)] | Inl _ \<Rightarrow> False)"
  have "case runThenStep initialProtectionReserveState evolveProtectionCoverage (decideProtectionCoverage coverageHost)
      [ReserveProtectionCoverage (reserveSample ''cov_1'' ''5.00'' ''10.00'')] (ReserveProtectionCoverage paddedReservation) of
      Inr (s, new, t) \<Rightarrow> ?P s new t | Inl _ \<Rightarrow> False" by code_simp
  then obtain s new t es where P: "?P s new t" and l: "any_pool_history coverageHost es" "pool_load es = Inr s"
    and dec: "decideProtectionCoverage coverageHost s (ReserveProtectionCoverage paddedReservation) = Inr new"
    and app: "applyEvents s evolveProtectionCoverage new = Inr t" by (rule runThenStep_cases)
  from P obtain r s' where r: "map_of (prs_reservations s) (js_trim (rsv_coverageId paddedReservation)) = Some r"
      "cvr_status r = CoverageReserved" "centsOf (cvr_reservedAmount r) = 500"
    and s': "runStates evolveProtectionCoverage (decideProtectionCoverage coverageHost) t [releaseCoverage readableTime ''cov_1''] = Inr s'"
      "map (\<lambda>(k, r). (k, cvr_status r)) (prs_reservations s') = [(''cov_1'', CoverageReleased)]"
    by (auto split: option.splits sum.splits)
  from P obtain d where d: "CoverageReservedEvent d \<in> set new"
    by (cases new; cases "hd new") auto
  have t: "pool_load (es @ new) = Inr t" by (simp add: fold_run [OF l(2)] app)
  from s'(1) obtain es' where
    run: "pool_run coverageHost (es @ new) [releaseCoverage readableTime ''cov_1''] = Inr es'" "pool_load es' = Inr s'"
    unfolding runStates_run [OF t, symmetric] bindE_Inr by blast
  have "any_pool_history coverageHost (es @ new)" by (rule append_decided) (rule l(1), rule l(2), rule dec)
  then have "any_pool_history coverageHost es'" by (rule runCommands_reachable) (rule run(1))
  moreover have "pool_total {CoverageReserved} s' + 500 \<le> centsOf (prs_outstandingReservedAmount s')"
    using padded_coverage_id_strands_reserve [OF l r(1,2) dec d run, unfolded r(3)] by (elim conjE)
  ultimately show ?thesis using s'(2) run(2) by (intro exI conjI)
qed

end
