(* ===== verification/Payment.thy ===== *)
theory Payment
  imports PaymentsCommon KeyedTotals
begin

text \<open>
  \<open>bounded-contexts/payments/features/payments/domain/domain.ts\<close>: the data of the payment aggregate
  and the functions its decider and evolver share; \<open>PaymentDecide\<close> holds these two. Also
  \<open>payments/support/request-support/csat-outcome-fact.ts\<close> with the code table it reads,
  \<open>customer-feedback/features/csat/domain/workflow-outcomes.ts\<close>.

  The decider copies nullable fields of the state into events without a check (\<open>state.amount!\<close>); such
  a field of an event may be null like the state's. A field of an event that the evolver reads with a
  fallback, because events of older versions lack it, is an option.
\<close>

section \<open>Data\<close>

record OrderMoneyAmount =
  oma_orderId :: string
  oma_amount :: string

record PaymentRefundRequest =
  pmq_refundId :: string
  pmq_orderIds :: "string list"
  pmq_amount :: string

record IssuedPaymentRefund =
  pmi_refundId :: "string option"
  pmi_processorRefundReference :: "string option"
  pmi_orderIds :: "string list"
  pmi_amount :: string

datatype FraudReviewStatus = ReviewOpened | ReviewClosed

record PaymentFraudReview =
  pfr_providerReviewId :: string
  pfr_providerChargeReference :: "string option"
  pfr_reason :: "string option"
  pfr_status :: FraudReviewStatus
  pfr_outcome :: "string option"
  pfr_openedAt :: "string option"
  pfr_closedAt :: "string option"

datatype ThreeDSecureRequest = ThreeDSecureAutomatic | ThreeDSecureAny

text \<open>The status is the text that the decider has normalised; its cast to the union has no effect.\<close>

record PaymentLiabilityShiftOutcome =
  pls_providerEventId :: string
  pls_threeDSecureRequested :: "ThreeDSecureRequest option"
  pls_status :: string
  pls_authenticationResult :: "string option"
  pls_radarRiskLevel :: "string option"
  pls_recordedAt :: string

datatype PaymentDisputeLifecycleState =
    PaymentDisputeCreated | PaymentDisputeUpdated | PaymentDisputeWon | PaymentDisputeLost

datatype PaymentDisputeEvidenceStatus = EvidenceSubmitted | EvidenceUnavailable

record PaymentDisputeEvidenceRecord =
  pde_providerDisputeId :: string
  pde_status :: PaymentDisputeEvidenceStatus
  pde_reason :: "string option"
  pde_submittedAt :: "string option"
  pde_recordedAt :: string

record PaymentDisputeEvidenceSummary =
  pds_trackingNumbers :: "string list"
  pds_carriers :: "string list"
  pds_deliveredAt :: "string option"
  pds_orderIds :: "string list"
  pds_hasDeliveryProof :: bool

record MarketplaceSalesFeeLine =
  msl_lineId :: string
  msl_unitPriceAmount :: string
  msl_quantity :: jsnum
  msl_marketplaceSalesFeePercentageBps :: jsnum
  msl_marketplaceSalesFeeFixedAmount :: string
  msl_marketplaceSalesFeeCapAmount :: "string option"
  msl_marketplaceSalesFeeUnitAmount :: string
  msl_marketplaceSalesFeeTotalAmount :: string

record SellerPayoutComponent =
  spc_orderId :: string
  spc_sellerAccountId :: string
  spc_marketplaceSalesFeeAmount :: "string option"
  spc_marketplaceSalesFeeLines :: "MarketplaceSalesFeeLine list option"
  spc_sellerItemNetAmount :: string
  spc_shippingAllowanceAmount :: string
  spc_sellerShippingPayoutAmount :: "string option"
  spc_protectionAmount :: "string option"
  spc_protectionAllowanceAmount :: "string option"
  spc_protectionOverageAmount :: "string option"
  spc_sellerPayoutAmount :: string

datatype ProcessorPaymentKind = CheckoutSession | PaymentIntent | BalanceCredit

record PaymentState =
  py_paymentId :: "string option"
  py_buyerAccountId :: "string option"
  py_orderIds :: "string list"
  py_orderRefundCaps :: "OrderMoneyAmount list"
  py_amount :: "string option"
  py_balanceCreditAmount :: string
  py_processorAmount :: "string option"
  py_marketplaceSalesFeeAmount :: "string option"
  py_authenticityFeeAmount :: "string option"
  py_marketplaceCheckoutFeeAmount :: "string option"
  py_marketplaceCheckoutFeePolicyVersion :: "string option"
  py_marketplaceCheckoutFeeQuoteFingerprint :: "string option"
  py_paymentMethodCategory :: "string option"
  py_savedCheckoutInstrumentId :: "string option"
  py_sellerNetAmount :: "string option"
  py_sellerPayoutAmount :: "string option"
  py_sellerPayouts :: "SellerPayoutComponent list"
  py_currencyCode :: "PaymentsCurrencyCode option"
  py_processorName :: "PaymentProcessorName option"
  py_processorPaymentKind :: "ProcessorPaymentKind option"
  py_processorPaymentReference :: "string option"
  py_processorClientSecret :: "string option"
  py_processorRedirectUrl :: "string option"
  py_processorStatus :: "string option"
  py_sourceContext :: "string option"
  py_sourceReferenceId :: "string option"
  py_status :: "PaymentStatus option"
  py_failureCode :: "string option"
  py_failureMessage :: "string option"
  py_createdAt :: "string option"
  py_authorizedAt :: "string option"
  py_capturedAt :: "string option"
  py_failedAt :: "string option"
  py_cancelledAt :: "string option"
  py_refundedAt :: "string option"
  py_refundedAmount :: string
  py_refundedOrderAmounts :: "OrderMoneyAmount list"
  py_refundRequests :: "PaymentRefundRequest list"
  py_issuedRefunds :: "IssuedPaymentRefund list"
  py_disputedAt :: "string option"
  py_disputeProviderEventIds :: "string list"
  py_disputeEvidenceRecords :: "PaymentDisputeEvidenceRecord list"
  py_earlyFraudWarningIds :: "string list"
  py_fraudReviews :: "PaymentFraudReview list"
  py_threeDSecureRequest :: "ThreeDSecureRequest option"
  py_threeDSecureReasonCodes :: "string list"
  py_liabilityShiftOutcomes :: "PaymentLiabilityShiftOutcome list"

definition initialPaymentState :: PaymentState where
  "initialPaymentState =
     \<lparr>py_paymentId = None, py_buyerAccountId = None, py_orderIds = [], py_orderRefundCaps = [],
      py_amount = None, py_balanceCreditAmount = ''0.00'', py_processorAmount = None,
      py_marketplaceSalesFeeAmount = None, py_authenticityFeeAmount = None,
      py_marketplaceCheckoutFeeAmount = None, py_marketplaceCheckoutFeePolicyVersion = None,
      py_marketplaceCheckoutFeeQuoteFingerprint = None, py_paymentMethodCategory = None,
      py_savedCheckoutInstrumentId = None, py_sellerNetAmount = None, py_sellerPayoutAmount = None,
      py_sellerPayouts = [], py_currencyCode = None, py_processorName = None,
      py_processorPaymentKind = None, py_processorPaymentReference = None,
      py_processorClientSecret = None, py_processorRedirectUrl = None, py_processorStatus = None,
      py_sourceContext = None, py_sourceReferenceId = None, py_status = None, py_failureCode = None,
      py_failureMessage = None, py_createdAt = None, py_authorizedAt = None, py_capturedAt = None,
      py_failedAt = None, py_cancelledAt = None, py_refundedAt = None, py_refundedAmount = ''0.00'',
      py_refundedOrderAmounts = [], py_refundRequests = [], py_issuedRefunds = [],
      py_disputedAt = None, py_disputeProviderEventIds = [], py_disputeEvidenceRecords = [],
      py_earlyFraudWarningIds = [], py_fraudReviews = [], py_threeDSecureRequest = None,
      py_threeDSecureReasonCodes = [], py_liabilityShiftOutcomes = []\<rparr>"


section \<open>Commands\<close>

record CreatePaymentCommand =
  cpm_paymentId :: string
  cpm_buyerAccountId :: string
  cpm_orderIds :: "string list"
  cpm_amount :: string
  cpm_balanceCreditAmount :: "string option"
  cpm_processorAmount :: "string option"
  cpm_marketplaceSalesFeeAmount :: string
  cpm_authenticityFeeAmount :: "string option"
  cpm_marketplaceCheckoutFeeAmount :: string
  cpm_marketplaceCheckoutFeePolicyVersion :: "string option"
  cpm_marketplaceCheckoutFeeQuoteFingerprint :: "string option"
  cpm_paymentMethodCategory :: "string option"
  cpm_savedCheckoutInstrumentId :: "string option"
  cpm_sellerNetAmount :: string
  cpm_sellerPayoutAmount :: "string option"
  cpm_sellerPayouts :: "SellerPayoutComponent list option"
  cpm_orderRefundCaps :: "OrderMoneyAmount list option"
  cpm_currencyCode :: string
  cpm_processorName :: string
  cpm_processorPaymentKind :: ProcessorPaymentKind
  cpm_processorPaymentReference :: string
  cpm_processorClientSecret :: "string option"
  cpm_processorRedirectUrl :: "string option"
  cpm_processorStatus :: string
  cpm_sourceContext :: "string option"
  cpm_sourceReferenceId :: "string option"
  cpm_threeDSecureRequest :: "ThreeDSecureRequest option"
  cpm_threeDSecureReasonCodes :: "string list option"
  cpm_createdAt :: string

record RecordPaymentRefundCommand =
  rpr_refundId :: "string option"
  rpr_orderIds :: "string list option"
  rpr_processorStatus :: string
  rpr_processorRefundReference :: "string option"
  rpr_amount :: "string option"
  rpr_refundedAmount :: "string option"
  rpr_refundedAt :: string

record RequestPaymentRefundCommand =
  rqp_refundId :: string
  rqp_orderIds :: "string list"
  rqp_amount :: string
  rqp_requestedAt :: string

record RecordPaymentDisputeCommand =
  rpd_providerEventId :: "string option"
  rpd_providerDisputeId :: "string option"
  rpd_providerChargeReference :: "string option"
  rpd_processorStatus :: string
  rpd_disputeStatus :: "string option"
  rpd_disputeMessage :: "string option"
  rpd_disputeLifecycleState :: "PaymentDisputeLifecycleState option"
  rpd_disputeReason :: "string option"
  rpd_disputeEvidenceDueAt :: "string option"
  rpd_amount :: "string option"
  rpd_disputedAt :: string

text \<open>What the three fraud commands share; the subject is the warning or the review.\<close>

record PaymentFraudSignal =
  pfs_providerEventId :: string
  pfs_subjectId :: string
  pfs_providerChargeReference :: "string option"
  pfs_processorStatus :: string
  pfs_occurredAt :: string

record RecordLiabilityShiftCommand =
  rls_providerEventId :: string
  rls_threeDSecureRequested :: "ThreeDSecureRequest option"
  rls_status :: string
  rls_authenticationResult :: "string option"
  rls_radarRiskLevel :: "string option"
  rls_recordedAt :: string

datatype PaymentCommand =
    CreatePayment CreatePaymentCommand
  | RecordPaymentAuthorization (pa_processorStatus: string) (pa_authorizedAt: string)
  | RecordPaymentCapture (pc_processorStatus: string) (pc_capturedAt: string)
  | RecordPaymentFailure (pf_processorStatus: string) (pf_failureCode: "string option")
      (pf_failureMessage: "string option") (pf_failedAt: string)
  | CancelPayment (px_cancelledAt: string)
  | RequestPaymentRefund RequestPaymentRefundCommand
  | RecordPaymentRefund RecordPaymentRefundCommand
  | RecordPaymentDispute RecordPaymentDisputeCommand
  | RecordPaymentDisputeEvidenceSubmitted (ps_providerDisputeId: string) (ps_processorStatus: string)
      (ps_evidenceSummary: PaymentDisputeEvidenceSummary) (ps_submittedAt: string)
  | RecordPaymentDisputeEvidenceUnavailable (pn_providerDisputeId: string) (pn_reason: string)
      (pn_evidenceSummary: PaymentDisputeEvidenceSummary) (pn_recordedAt: string)
  | RecordPaymentEarlyFraudWarning PaymentFraudSignal (pw_fraudType: "string option") (pw_chargeDisputed: bool)
  | RecordPaymentFraudReviewOpened PaymentFraudSignal (po_reason: "string option")
  | RecordPaymentFraudReviewClosed PaymentFraudSignal (pl_reason: "string option") (pl_outcome: "string option")
  | RecordPaymentLiabilityShiftOutcome RecordLiabilityShiftCommand


section \<open>Events\<close>

record PaymentCreated =
  pce_paymentId :: string
  pce_buyerAccountId :: string
  pce_orderIds :: "string list"
  pce_amount :: string
  pce_balanceCreditAmount :: string
  pce_processorAmount :: string
  pce_marketplaceSalesFeeAmount :: string
  pce_authenticityFeeAmount :: "string option"
  pce_marketplaceCheckoutFeeAmount :: string
  pce_marketplaceCheckoutFeePolicyVersion :: "string option"
  pce_marketplaceCheckoutFeeQuoteFingerprint :: "string option"
  pce_paymentMethodCategory :: "string option"
  pce_savedCheckoutInstrumentId :: "string option"
  pce_sellerNetAmount :: string
  pce_sellerPayoutAmount :: "string option"
  pce_sellerPayouts :: "SellerPayoutComponent list option"
  pce_orderRefundCaps :: "OrderMoneyAmount list option"
  pce_currencyCode :: PaymentsCurrencyCode
  pce_processorName :: PaymentProcessorName
  pce_processorPaymentKind :: ProcessorPaymentKind
  pce_processorPaymentReference :: string
  pce_processorClientSecret :: "string option"
  pce_processorRedirectUrl :: "string option"
  pce_processorStatus :: string
  pce_sourceContext :: "string option"
  pce_sourceReferenceId :: "string option"
  pce_threeDSecureRequest :: "ThreeDSecureRequest option"
  pce_threeDSecureReasonCodes :: "string list option"
  pce_createdAt :: string

text \<open>The terms of the payment that the capture and the failure repeat.\<close>

record PaymentTerms =
  ptm_paymentId :: string
  ptm_orderIds :: "string list"
  ptm_buyerAccountId :: "string option"
  ptm_amount :: "string option"
  ptm_balanceCreditAmount :: string
  ptm_processorAmount :: "string option"
  ptm_marketplaceSalesFeeAmount :: "string option"
  ptm_marketplaceCheckoutFeeAmount :: "string option"
  ptm_marketplaceCheckoutFeePolicyVersion :: "string option"
  ptm_marketplaceCheckoutFeeQuoteFingerprint :: "string option"
  ptm_paymentMethodCategory :: "string option"
  ptm_sellerNetAmount :: "string option"
  ptm_sellerPayoutAmount :: "string option"
  ptm_sellerPayouts :: "SellerPayoutComponent list"
  ptm_currencyCode :: "PaymentsCurrencyCode option"
  ptm_processorName :: "PaymentProcessorName option"
  ptm_processorPaymentReference :: "string option"
  ptm_processorStatus :: string

record PaymentRefunded =
  pre_paymentId :: string
  pre_refundId :: "string option"
  pre_orderIds :: "string list"
  pre_buyerAccountId :: "string option"
  pre_amount :: string
  pre_refundedAmount :: string
  pre_orderRefundAmounts :: "OrderMoneyAmount list option"
  pre_refundedOrderAmounts :: "OrderMoneyAmount list option"
  pre_orderRefundCaps :: "OrderMoneyAmount list"
  pre_currencyCode :: "PaymentsCurrencyCode option"
  pre_processorName :: "PaymentProcessorName option"
  pre_processorPaymentReference :: "string option"
  pre_sellerPayouts :: "SellerPayoutComponent list"
  pre_processorRefundReference :: "string option"
  pre_processorStatus :: string
  pre_refundedAt :: string

record PaymentDisputed =
  pdd_paymentId :: string
  pdd_orderIds :: "string list"
  pdd_buyerAccountId :: "string option"
  pdd_amount :: "string option"
  pdd_currencyCode :: "PaymentsCurrencyCode option"
  pdd_processorName :: "PaymentProcessorName option"
  pdd_processorPaymentReference :: "string option"
  pdd_providerEventId :: "string option"
  pdd_providerDisputeId :: string
  pdd_providerChargeReference :: "string option"
  pdd_processorStatus :: string
  pdd_disputeStatus :: "string option"
  pdd_disputeMessage :: "string option"
  pdd_disputeLifecycleState :: PaymentDisputeLifecycleState
  pdd_disputeReason :: "string option"
  pdd_disputeEvidenceDueAt :: "string option"
  pdd_sellerPayouts :: "SellerPayoutComponent list"
  pdd_disputedAt :: string

text \<open>The payment that the events about evidence, liability and fraud are about, from the few fields that
  missing evidence names to all that a fraud signal names.\<close>

record PaymentSubject =
  psu_paymentId :: string
  psu_orderIds :: "string list"

record PaymentProcessing = PaymentSubject +
  psu_processorName :: "PaymentProcessorName option"
  psu_processorPaymentReference :: "string option"

record PaymentParties = PaymentProcessing +
  psu_buyerAccountId :: "string option"

record PaymentExposure = PaymentParties +
  psu_sellerPayouts :: "SellerPayoutComponent list"

record CsatOutcomeFact =
  csf_outcomeCode :: string
  csf_sourceContext :: string
  csf_subjectAccountId :: string
  csf_subjectKind :: string
  csf_subjectEntityType :: string
  csf_subjectEntityId :: string
  csf_outcomeOccurredAt :: string
  csf_idempotencyKey :: string
  csf_correlationId :: "string option"

datatype PaymentEvent =
    PaymentCreatedEvent PaymentCreated
  | PaymentAuthorizedEvent (pae_paymentId: string) (pae_processorStatus: string) (pae_authorizedAt: string)
  | PaymentCapturedEvent (pke_terms: PaymentTerms) (pke_authenticityFeeAmount: string) (pke_capturedAt: string)
  | PaymentFailedEvent (pfe_terms: PaymentTerms) (pfe_failureCode: "string option")
      (pfe_failureMessage: "string option") (pfe_failedAt: string)
  | PaymentCancelledEvent (pxe_paymentId: string) (pxe_cancelledAt: string)
  | PaymentRefundRequestedEvent (pqe_paymentId: string) (pqe_request: PaymentRefundRequest)
      (pqe_requestedAt: string)
  | PaymentRefundedEvent PaymentRefunded
  | PaymentDisputedEvent PaymentDisputed
  | PaymentDisputeEvidenceSubmittedEvent (pse_subject: PaymentProcessing) (pse_providerDisputeId: string)
      (pse_processorStatus: string) (pse_evidenceSummary: PaymentDisputeEvidenceSummary) (pse_submittedAt: string)
  | PaymentDisputeEvidenceUnavailableEvent (pne_subject: PaymentSubject) (pne_providerDisputeId: string)
      (pne_reason: string) (pne_evidenceSummary: PaymentDisputeEvidenceSummary) (pne_recordedAt: string)
  | PaymentEarlyFraudWarningReceivedEvent (pwe_subject: PaymentExposure) (pwe_signal: PaymentFraudSignal)
      (pwe_fraudType: "string option") (pwe_chargeDisputed: bool)
  | PaymentFraudReviewOpenedEvent (poe_subject: PaymentExposure) (poe_signal: PaymentFraudSignal)
      (poe_reason: "string option")
  | PaymentFraudReviewClosedEvent (ple_subject: PaymentExposure) (ple_signal: PaymentFraudSignal)
      (ple_reason: "string option") (ple_outcome: "string option")
  | PaymentLiabilityShiftRecordedEvent (phe_subject: PaymentParties) (phe_outcome: PaymentLiabilityShiftOutcome)
  | PaymentsCsatOutcomeFactEvent CsatOutcomeFact


section \<open>The outcome fact for customer surveys\<close>

definition csatWorkflowOutcomeSourceContext :: "(string \<times> string) list" where
  "csatWorkflowOutcomeSourceContext =
     [(''checkout.completed'', ''checkout''), (''checkout.recovered'', ''checkout''),
      (''order.delivered'', ''fulfillment''), (''return.resolved'', ''platform-operations''),
      (''support.request-resolved'', ''platform-operations''),
      (''reputation.review-received'', ''marketplace''), (''listing.published'', ''marketplace''),
      (''offer.accepted'', ''marketplace''), (''inventory.item-adjusted'', ''inventory''),
      (''payout.completed'', ''settlement''), (''discovery.search-completed'', ''discovery''),
      (''registration.completed'', ''identity''), (''authentication.completed'', ''auth''),
      (''onboarding.completed'', ''identity'')]"

definition csatWorkflowOutcomeCodes :: "string list" where
  "csatWorkflowOutcomeCodes = map fst csatWorkflowOutcomeSourceContext"

definition isCsatWorkflowOutcomeCode :: "string \<Rightarrow> bool" where
  "isCsatWorkflowOutcomeCode value \<longleftrightarrow> value \<in> set csatWorkflowOutcomeCodes"

definition sourceContextForOutcomeCode :: "string \<Rightarrow> string option" where
  "sourceContextForOutcomeCode code = map_of csatWorkflowOutcomeSourceContext code"

definition csatRequiredText :: "string \<Rightarrow> string \<Rightarrow> string res" where
  "csatRequiredText value message =
     (let normalized = js_trim value in if length normalized = 0 then Inl (Error message) else Inr normalized)"

definition csatIsoTimestamp :: "host \<Rightarrow> string \<Rightarrow> string \<Rightarrow> string res" where
  "csatIsoTimestamp h value message =
     bindE (csatRequiredText value message) (\<lambda>normalized.
       if Date_parse h normalized = None then Inl (Error message) else Inr normalized)"

text \<open>A null account has no \<open>trim\<close>.\<close>

definition createPaymentsCsatOutcomeFact ::
    "host \<Rightarrow> string \<Rightarrow> string option \<Rightarrow> string \<Rightarrow> string \<Rightarrow> string \<Rightarrow> string \<Rightarrow> string \<Rightarrow> string option \<Rightarrow>
     CsatOutcomeFact res" where
  "createPaymentsCsatOutcomeFact h outcomeCode subjectAccountId subjectKind subjectEntityType subjectEntityId
       outcomeOccurredAt idempotencyKey correlationId =
     (if \<not> isCsatWorkflowOutcomeCode outcomeCode then
        Inl (Error (''Unsupported CSAT workflow outcome code: '' @ outcomeCode))
      else if sourceContextForOutcomeCode outcomeCode \<noteq> Some ''checkout'' then
        Inl (Error (''Payments cannot publish CSAT outcome code: '' @ outcomeCode))
      else
        bindE (case subjectAccountId of
                 None \<Rightarrow> Inl (TypeError ''Cannot read properties of null'')
               | Some account \<Rightarrow> csatRequiredText account ''CSAT outcome requires a subject account.'') (\<lambda>account.
        bindE (csatRequiredText subjectEntityType ''CSAT outcome requires a subject type.'') (\<lambda>entityType.
        bindE (csatRequiredText subjectEntityId ''CSAT outcome requires a subject id.'') (\<lambda>entityId.
        bindE (csatIsoTimestamp h outcomeOccurredAt ''CSAT outcome requires an occurrence timestamp.'') (\<lambda>occurredAt.
        bindE (csatRequiredText idempotencyKey ''CSAT outcome requires an idempotency key.'') (\<lambda>key.
          Inr \<lparr>csf_outcomeCode = outcomeCode, csf_sourceContext = ''checkout'', csf_subjectAccountId = account,
               csf_subjectKind = subjectKind, csf_subjectEntityType = entityType, csf_subjectEntityId = entityId,
               csf_outcomeOccurredAt = occurredAt, csf_idempotencyKey = key,
               csf_correlationId = correlationId\<rparr>))))))"


section \<open>Shared functions\<close>

definition normalizeSellerPayoutComponent :: "SellerPayoutComponent \<Rightarrow> SellerPayoutComponent res" where
  "normalizeSellerPayoutComponent component =
     bindE (paymentsRequiredText (spc_orderId component)
              ''Seller payout component must include an order.'') (\<lambda>orderId.
     bindE (paymentsRequiredText (spc_sellerAccountId component)
              ''Seller payout component must include a seller account.'') (\<lambda>sellerAccountId.
     bindE (paymentsMoneyAmount (orElse (spc_marketplaceSalesFeeAmount component) ''0.00'') True
              ''Marketplace sales fee amount'') (\<lambda>salesFee.
     bindE (paymentsMoneyAmount (spc_sellerItemNetAmount component) True ''Seller item net amount'') (\<lambda>itemNet.
     bindE (paymentsMoneyAmount (spc_shippingAllowanceAmount component) True ''Shipping allowance amount'') (\<lambda>allowance.
     bindE (paymentsMoneyAmount
              (orElse (spc_sellerShippingPayoutAmount component) (spc_shippingAllowanceAmount component)) True
              ''Seller shipping payout amount'') (\<lambda>shippingPayout.
     bindE (paymentsMoneyAmount (orElse (spc_protectionAmount component) ''0.00'') True
              ''Order protection amount'') (\<lambda>protection.
     bindE (paymentsMoneyAmount (orElse (spc_protectionAllowanceAmount component) ''0.00'') True
              ''Allowance-funded Order Protection amount'') (\<lambda>protectionAllowance.
     bindE (paymentsMoneyAmount (orElse (spc_protectionOverageAmount component) ''0.00'') True
              ''Overage-funded Order Protection amount'') (\<lambda>protectionOverage.
     bindE (paymentsMoneyAmount (spc_sellerPayoutAmount component) True ''Seller payout amount'') (\<lambda>payout.
       Inr \<lparr>spc_orderId = orderId, spc_sellerAccountId = sellerAccountId,
            spc_marketplaceSalesFeeAmount = Some salesFee,
            spc_marketplaceSalesFeeLines = Some (orElse (spc_marketplaceSalesFeeLines component) []),
            spc_sellerItemNetAmount = itemNet, spc_shippingAllowanceAmount = allowance,
            spc_sellerShippingPayoutAmount = Some shippingPayout, spc_protectionAmount = Some protection,
            spc_protectionAllowanceAmount = Some protectionAllowance,
            spc_protectionOverageAmount = Some protectionOverage, spc_sellerPayoutAmount = payout\<rparr>))))))))))"

definition normalizeSellerPayoutComponents :: "SellerPayoutComponent list \<Rightarrow> SellerPayoutComponent list res" where
  "normalizeSellerPayoutComponents components = mapE normalizeSellerPayoutComponent components"

definition presentTexts :: "string list \<Rightarrow> string list" where
  "presentTexts values = List.map_filter (\<lambda>v. normalizeOptionalText (Some v)) values"

definition normalizePaymentDisputeEvidenceSummary ::
    "host \<Rightarrow> PaymentDisputeEvidenceSummary \<Rightarrow> PaymentDisputeEvidenceSummary res" where
  "normalizePaymentDisputeEvidenceSummary h summary =
     bindE (normalizeOrderIds (pds_orderIds summary)) (\<lambda>orderIds.
     bindE (case pds_deliveredAt summary of
              None \<Rightarrow> Inr None
            | Some t \<Rightarrow>
                if t = [] then Inr None
                else bindE (paymentsIsoTimestamp h t
                              ''Dispute evidence delivery proof must be an ISO timestamp.'') (\<lambda>d. Inr (Some d)))
       (\<lambda>deliveredAt.
       Inr \<lparr>pds_trackingNumbers = js_unique (presentTexts (pds_trackingNumbers summary)),
            pds_carriers = js_unique (presentTexts (pds_carriers summary)), pds_deliveredAt = deliveredAt,
            pds_orderIds = orderIds, pds_hasDeliveryProof = pds_hasDeliveryProof summary\<rparr>))"

text \<open>A JavaScript \<open>Map\<close> from order ids to cents is an association list in insertion order.\<close>

definition addCents :: "(string \<times> int) list \<Rightarrow> string \<Rightarrow> int \<Rightarrow> (string \<times> int) list" where
  "addCents totals orderId cents = AList.update orderId (orElse (map_of totals orderId) 0 + cents) totals"

definition orderMoneyAmounts :: "(string \<times> int) list \<Rightarrow> OrderMoneyAmount list res" where
  "orderMoneyAmounts totals =
     mapE (\<lambda>(orderId, cents). bindE (centsToMoneyAmount (JBig cents)) (\<lambda>amount.
             Inr \<lparr>oma_orderId = orderId, oma_amount = amount\<rparr>)) totals"

definition normalizeOrderMoneyAmounts :: "OrderMoneyAmount list \<Rightarrow> string \<Rightarrow> OrderMoneyAmount list res" where
  "normalizeOrderMoneyAmounts entries fieldName =
     bindE (foldE (\<lambda>amounts entry.
              bindE (paymentsRequiredText (oma_orderId entry) (fieldName @ '' must include an order.'')) (\<lambda>orderId.
              bindE (paymentsMoneyAmount (oma_amount entry) True fieldName) (\<lambda>amount.
              bindE (moneyToCents amount) (\<lambda>cents. Inr (addCents amounts orderId cents))))) [] entries)
       orderMoneyAmounts"

definition moneyForOrder :: "OrderMoneyAmount list \<Rightarrow> string \<Rightarrow> string" where
  "moneyForOrder entries orderId =
     (case find (\<lambda>entry. oma_orderId entry = orderId) entries of Some entry \<Rightarrow> oma_amount entry | None \<Rightarrow> ''0.00'')"

definition refundableCapsForState :: "PaymentState \<Rightarrow> OrderMoneyAmount list" where
  "refundableCapsForState state =
     (if length (py_orderRefundCaps state) > 0 then py_orderRefundCaps state
      else case py_amount state of
        None \<Rightarrow> []
      | Some amount \<Rightarrow>
          if amount = [] then []
          else map (\<lambda>orderId. \<lparr>oma_orderId = orderId, oma_amount = amount\<rparr>) (py_orderIds state))"

definition requestedAmountForOrder :: "PaymentState \<Rightarrow> string \<Rightarrow> string option \<Rightarrow> string res" where
  "requestedAmountForOrder state orderId excludingRefundId =
     sumMoneyAmounts
       (map pmq_amount
         (filter (\<lambda>request. Some (pmq_refundId request) \<noteq> excludingRefundId \<and> orderId \<in> set (pmq_orderIds request))
           (py_refundRequests state)))"

definition remainingRefundableAmountForOrder :: "PaymentState \<Rightarrow> string \<Rightarrow> string option \<Rightarrow> string res" where
  "remainingRefundableAmountForOrder state orderId excludingRefundId =
     (let cap = moneyForOrder (refundableCapsForState state) orderId;
          refunded = moneyForOrder (py_refundedOrderAmounts state) orderId
      in bindE (requestedAmountForOrder state orderId excludingRefundId) (\<lambda>requested.
         bindE (moneyToCents cap) (\<lambda>capCents. bindE (moneyToCents refunded) (\<lambda>refundedCents.
         bindE (moneyToCents requested) (\<lambda>requestedCents.
         let remainingCents = capCents - refundedCents - requestedCents
         in centsToMoneyAmount (JBig (if remainingCents < 0 then 0 else remainingCents)))))))"

definition remainingRefundableAmountForOrders :: "PaymentState \<Rightarrow> string list \<Rightarrow> string option \<Rightarrow> string res" where
  "remainingRefundableAmountForOrders state orderIds excludingRefundId =
     bindE (mapE (\<lambda>orderId. remainingRefundableAmountForOrder state orderId excludingRefundId) orderIds) sumMoneyAmounts"

definition refundOrdersBelongToPayment :: "PaymentState \<Rightarrow> string list \<Rightarrow> bool" where
  "refundOrdersBelongToPayment state orderIds \<longleftrightarrow> (\<forall>orderId\<in>set orderIds. orderId \<in> set (py_orderIds state))"

fun allocateLoop ::
    "PaymentState \<Rightarrow> int \<Rightarrow> OrderMoneyAmount list \<Rightarrow> string list \<Rightarrow> (int \<times> OrderMoneyAmount list) res" where
  "allocateLoop state remainingCents allocations [] = Inr (remainingCents, allocations)"
| "allocateLoop state remainingCents allocations (orderId # orderIds) =
     (if remainingCents \<le> 0 then Inr (remainingCents, allocations)
      else
        bindE (moneyToCents (moneyForOrder (refundableCapsForState state) orderId)) (\<lambda>capCents.
        bindE (moneyToCents (moneyForOrder (py_refundedOrderAmounts state) orderId)) (\<lambda>refundedCents.
        let remainingOrderCents = capCents - refundedCents;
            availableCents = (if remainingOrderCents < 0 then 0 else remainingOrderCents);
            allocationCents = (if remainingCents < availableCents then remainingCents else availableCents)
        in if allocationCents > 0 then
             bindE (centsToMoneyAmount (JBig allocationCents)) (\<lambda>amount.
               allocateLoop state (remainingCents - allocationCents)
                 (allocations @ [\<lparr>oma_orderId = orderId, oma_amount = amount\<rparr>]) orderIds)
           else allocateLoop state remainingCents allocations orderIds)))"

definition allocateRefundAmountToOrders :: "PaymentState \<Rightarrow> string list \<Rightarrow> string \<Rightarrow> OrderMoneyAmount list res" where
  "allocateRefundAmountToOrders state orderIds amount =
     bindE (moneyToCents amount) (\<lambda>cents.
     bindE (allocateLoop state cents [] orderIds) (\<lambda>(remainingCents, allocations).
       ensure (remainingCents = 0)
         (PaymentsInvalid ''Refund amount cannot exceed the remaining refundable order amount.'') (Inr allocations)))"

definition mergeRefundedOrderAmounts :: "OrderMoneyAmount list \<Rightarrow> OrderMoneyAmount list \<Rightarrow> OrderMoneyAmount list res" where
  "mergeRefundedOrderAmounts current additions =
     bindE (mapE (\<lambda>entry. bindE (moneyToCents (oma_amount entry)) (\<lambda>c. Inr (oma_orderId entry, c))) current) (\<lambda>entries.
     let totals = fold (\<lambda>(orderId, c) m. AList.update orderId c m) entries []
     in bindE (foldE (\<lambda>totals addition. bindE (moneyToCents (oma_amount addition)) (\<lambda>c.
                 Inr (addCents totals (oma_orderId addition) c))) totals additions)
          orderMoneyAmounts)"

definition filterSellerPayoutsForOrders :: "SellerPayoutComponent list \<Rightarrow> string list \<Rightarrow> SellerPayoutComponent list" where
  "filterSellerPayoutsForOrders sellerPayouts orderIds =
     filter (\<lambda>payout. spc_orderId payout \<in> set orderIds) sellerPayouts"

definition findIssuedRefund :: "PaymentState \<Rightarrow> string option \<Rightarrow> string option \<Rightarrow> IssuedPaymentRefund option" where
  "findIssuedRefund state refundId processorRefundReference =
     find (\<lambda>refund. (refundId \<noteq> None \<and> pmi_refundId refund = refundId) \<or>
             (processorRefundReference \<noteq> None \<and> pmi_processorRefundReference refund = processorRefundReference))
       (py_issuedRefunds state)"

end
