(* ===== verification/PaymentDecide.thy ===== *)
theory PaymentDecide
  imports Payment
begin

text \<open>
  The decider and the evolver of the payment aggregate
  (\<open>bounded-contexts/payments/features/payments/domain/domain.ts\<close>), a function for each case.
\<close>

section \<open>The decider\<close>

abbreviation createdFirst :: "PaymentState \<Rightarrow> (string \<Rightarrow> 'a res) \<Rightarrow> 'a res" where
  "createdFirst state k \<equiv>
     (case py_paymentId state of
        None \<Rightarrow> Inl (PaymentsInvalid ''Payment must be created first.'')
      | Some paymentId \<Rightarrow> k paymentId)"

definition decideCreatePayment :: "host \<Rightarrow> PaymentState \<Rightarrow> CreatePaymentCommand \<Rightarrow> PaymentEvent list res" where
  "decideCreatePayment h state c =
     ensure (py_paymentId state = None) (PaymentsInvalid ''Payment has already been created.'') (
     bindE (normalizeSellerPayoutComponents (orElse (cpm_sellerPayouts c) [])) (\<lambda>sellerPayouts.
     bindE (normalizeOrderMoneyAmounts
              (orElse (cpm_orderRefundCaps c)
                 (map (\<lambda>orderId. \<lparr>oma_orderId = orderId, oma_amount = cpm_amount c\<rparr>) (cpm_orderIds c)))
              ''Order refundable amount'') (\<lambda>orderRefundCaps.
     bindE (case cpm_sellerPayoutAmount c of
              Some a \<Rightarrow> Inr a | None \<Rightarrow> sumMoneyAmounts (map spc_sellerPayoutAmount sellerPayouts)) (\<lambda>rawPayout.
     bindE (paymentsMoneyAmount rawPayout True ''Seller payout amount'') (\<lambda>sellerPayoutAmount.
     bindE (normalizeOrderIds (cpm_orderIds c)) (\<lambda>orderIds.
     bindE (paymentsMoneyAmount (cpm_amount c) False ''Payment amount'') (\<lambda>amount.
     bindE (paymentsMoneyAmount (orElse (cpm_balanceCreditAmount c) ''0.00'') True ''Balance credit amount'') (\<lambda>balanceCredit.
     bindE (paymentsMoneyAmount (orElse (cpm_processorAmount c) (cpm_amount c)) True ''External payment amount'') (\<lambda>processorAmount.
     bindE (paymentsMoneyAmount (cpm_marketplaceSalesFeeAmount c) True ''Marketplace sales fee amount'') (\<lambda>salesFee.
     bindE (paymentsMoneyAmount (orElse (cpm_authenticityFeeAmount c) ''0.00'') True ''Authenticity check fee amount'') (\<lambda>authenticityFee.
     bindE (paymentsMoneyAmount (cpm_marketplaceCheckoutFeeAmount c) True ''Marketplace checkout fee amount'') (\<lambda>checkoutFee.
     bindE (paymentsMoneyAmount (cpm_sellerNetAmount c) True ''Seller net amount'') (\<lambda>sellerNet.
     bindE (paymentsCurrencyCode (cpm_currencyCode c)) (\<lambda>currencyCode.
     bindE (normalizeProcessorName (cpm_processorName c)) (\<lambda>processorName.
     bindE (paymentsRequiredText (cpm_processorPaymentReference c) ''Processor payment reference is required.'') (\<lambda>reference.
     bindE (paymentsRequiredText (cpm_processorStatus c) ''Processor status is required.'') (\<lambda>processorStatus.
     bindE (paymentsIsoTimestamp h (cpm_createdAt c) ''Payment creation must include a timestamp.'') (\<lambda>createdAt.
       Inr [PaymentCreatedEvent
              \<lparr>pce_paymentId = cpm_paymentId c, pce_buyerAccountId = cpm_buyerAccountId c,
               pce_orderIds = orderIds, pce_amount = amount, pce_balanceCreditAmount = balanceCredit,
               pce_processorAmount = processorAmount, pce_marketplaceSalesFeeAmount = salesFee,
               pce_authenticityFeeAmount = Some authenticityFee, pce_marketplaceCheckoutFeeAmount = checkoutFee,
               pce_marketplaceCheckoutFeePolicyVersion =
                 normalizeOptionalText (cpm_marketplaceCheckoutFeePolicyVersion c),
               pce_marketplaceCheckoutFeeQuoteFingerprint =
                 normalizeOptionalText (cpm_marketplaceCheckoutFeeQuoteFingerprint c),
               pce_paymentMethodCategory = normalizeOptionalText (cpm_paymentMethodCategory c),
               pce_savedCheckoutInstrumentId = normalizeOptionalText (cpm_savedCheckoutInstrumentId c),
               pce_sellerNetAmount = sellerNet, pce_sellerPayoutAmount = Some sellerPayoutAmount,
               pce_sellerPayouts = Some sellerPayouts, pce_orderRefundCaps = Some orderRefundCaps,
               pce_currencyCode = currencyCode, pce_processorName = processorName,
               pce_processorPaymentKind = cpm_processorPaymentKind c, pce_processorPaymentReference = reference,
               pce_processorClientSecret = normalizeOptionalText (cpm_processorClientSecret c),
               pce_processorRedirectUrl = normalizeOptionalText (cpm_processorRedirectUrl c),
               pce_processorStatus = processorStatus,
               pce_sourceContext = normalizeOptionalText (cpm_sourceContext c),
               pce_sourceReferenceId = normalizeOptionalText (cpm_sourceReferenceId c),
               pce_threeDSecureRequest = cpm_threeDSecureRequest c,
               pce_threeDSecureReasonCodes = Some (presentTexts (orElse (cpm_threeDSecureReasonCodes c) [])),
               pce_createdAt = createdAt\<rparr>]))))))))))))))))))"

definition decidePaymentAuthorization :: "host \<Rightarrow> PaymentState \<Rightarrow> string \<Rightarrow> string \<Rightarrow> PaymentEvent list res" where
  "decidePaymentAuthorization h state rawStatus rawAuthorizedAt =
     createdFirst state (\<lambda>paymentId.
     if py_capturedAt state \<noteq> None \<or> py_status state = Some PaymentCancelled then Inr []
     else if py_authorizedAt state \<noteq> None \<and> py_authorizedAt state \<noteq> Some [] then Inr []
     else
     bindE (paymentsRequiredText rawStatus ''Processor status is required.'') (\<lambda>processorStatus.
     bindE (paymentsIsoTimestamp h rawAuthorizedAt ''Payment authorization must include a timestamp.'') (\<lambda>authorizedAt.
       Inr [PaymentAuthorizedEvent paymentId processorStatus authorizedAt])))"

definition paymentTerms :: "PaymentState \<Rightarrow> string \<Rightarrow> string \<Rightarrow> PaymentTerms" where
  "paymentTerms state paymentId processorStatus =
     \<lparr>ptm_paymentId = paymentId, ptm_orderIds = py_orderIds state, ptm_buyerAccountId = py_buyerAccountId state,
      ptm_amount = py_amount state, ptm_balanceCreditAmount = py_balanceCreditAmount state,
      ptm_processorAmount = py_processorAmount state,
      ptm_marketplaceSalesFeeAmount = py_marketplaceSalesFeeAmount state,
      ptm_marketplaceCheckoutFeeAmount = py_marketplaceCheckoutFeeAmount state,
      ptm_marketplaceCheckoutFeePolicyVersion = py_marketplaceCheckoutFeePolicyVersion state,
      ptm_marketplaceCheckoutFeeQuoteFingerprint = py_marketplaceCheckoutFeeQuoteFingerprint state,
      ptm_paymentMethodCategory = py_paymentMethodCategory state,
      ptm_sellerNetAmount = py_sellerNetAmount state, ptm_sellerPayoutAmount = py_sellerPayoutAmount state,
      ptm_sellerPayouts = py_sellerPayouts state, ptm_currencyCode = py_currencyCode state,
      ptm_processorName = py_processorName state,
      ptm_processorPaymentReference = py_processorPaymentReference state,
      ptm_processorStatus = processorStatus\<rparr>"

definition captureOutcomeCode :: "PaymentState \<Rightarrow> string" where
  "captureOutcomeCode state =
     (if py_sourceContext state = Some ''checkout-recovery'' then ''checkout.recovered'' else ''checkout.completed'')"

definition decidePaymentCapture :: "host \<Rightarrow> PaymentState \<Rightarrow> string \<Rightarrow> string \<Rightarrow> PaymentEvent list res" where
  "decidePaymentCapture h state rawStatus rawCapturedAt =
     createdFirst state (\<lambda>paymentId.
     if py_status state = Some Captured then Inr []
     else
     ensure (py_status state \<noteq> Some PaymentCancelled) (PaymentsInvalid ''Cancelled payments cannot be captured.'') (
     ensure (py_status state \<noteq> Some PaymentFailed) (PaymentsInvalid ''Failed payments cannot be captured.'') (
     ensure (py_status state \<noteq> Some PartiallyRefunded) (PaymentsInvalid ''Refunded payments cannot be captured.'') (
     ensure (py_status state \<noteq> Some Refunded) (PaymentsInvalid ''Refunded payments cannot be captured.'') (
     ensure (py_status state \<noteq> Some Disputed) (PaymentsInvalid ''Disputed payments cannot be captured.'') (
     bindE (paymentsIsoTimestamp h rawCapturedAt ''Payment capture must include a timestamp.'') (\<lambda>capturedAt.
     bindE (paymentsRequiredText rawStatus ''Processor status is required.'') (\<lambda>processorStatus.
     bindE (createPaymentsCsatOutcomeFact h (captureOutcomeCode state) (py_buyerAccountId state) ''buyer'' ''payment''
              paymentId capturedAt
              (''payment:'' @ paymentId @ '':'' @ captureOutcomeCode state) None) (\<lambda>fact.
       Inr [PaymentCapturedEvent (paymentTerms state paymentId processorStatus)
              (orElse (py_authenticityFeeAmount state) ''0.00'') capturedAt,
            PaymentsCsatOutcomeFactEvent fact])))))))))"

definition decidePaymentFailure ::
    "host \<Rightarrow> PaymentState \<Rightarrow> string \<Rightarrow> string option \<Rightarrow> string option \<Rightarrow> string \<Rightarrow> PaymentEvent list res" where
  "decidePaymentFailure h state rawStatus failureCode failureMessage rawFailedAt =
     createdFirst state (\<lambda>paymentId.
     if py_status state = Some PaymentFailed then Inr []
     else
     ensure (py_status state \<noteq> Some Captured) (PaymentsInvalid ''Captured payments cannot fail.'') (
     ensure (py_status state \<noteq> Some PaymentCancelled) (PaymentsInvalid ''Cancelled payments cannot fail.'') (
     bindE (paymentsRequiredText rawStatus ''Processor status is required.'') (\<lambda>processorStatus.
     bindE (paymentsIsoTimestamp h rawFailedAt ''Payment failure must include a timestamp.'') (\<lambda>failedAt.
       Inr [PaymentFailedEvent (paymentTerms state paymentId processorStatus) (normalizeOptionalText failureCode)
              (normalizeOptionalText failureMessage) failedAt])))))"

definition decideCancelPayment :: "host \<Rightarrow> PaymentState \<Rightarrow> string \<Rightarrow> PaymentEvent list res" where
  "decideCancelPayment h state rawCancelledAt =
     createdFirst state (\<lambda>paymentId.
     if py_status state = Some PaymentCancelled then Inr []
     else
     ensure (py_capturedAt state = None) (PaymentsInvalid ''Captured payments cannot be cancelled.'') (
     bindE (paymentsIsoTimestamp h rawCancelledAt ''Payment cancellation must include a timestamp.'') (\<lambda>cancelledAt.
       Inr [PaymentCancelledEvent paymentId cancelledAt])))"

text \<open>The amount of a created payment is not null; the text of a null amount reads as no amount.\<close>

abbreviation knownText :: "string option \<Rightarrow> string" where
  "knownText t \<equiv> orElse t []"

definition decideRequestPaymentRefund ::
    "host \<Rightarrow> PaymentState \<Rightarrow> RequestPaymentRefundCommand \<Rightarrow> PaymentEvent list res" where
  "decideRequestPaymentRefund h state c =
     createdFirst state (\<lambda>paymentId.
     ensure (py_status state = Some Captured \<or> py_status state = Some PartiallyRefunded)
       (PaymentsInvalid ''Only captured payments can be refunded.'') (
     bindE (normalizeOrderIds (rqp_orderIds c)) (\<lambda>orderIds.
     ensure (refundOrdersBelongToPayment state orderIds)
       (PaymentsInvalid ''Refund order must belong to the payment.'') (
     bindE (paymentsMoneyAmount (rqp_amount c) False ''Refund amount'') (\<lambda>amount.
     case find (\<lambda>request. pmq_refundId request = rqp_refundId c) (py_refundRequests state) of
       Some existingRequest \<Rightarrow>
         ensure (pmq_orderIds existingRequest = orderIds \<and> pmq_amount existingRequest = amount)
           (PaymentsInvalid ''Refund request does not match the existing payment refund request.'') (Inr [])
     | None \<Rightarrow>
     bindE (paymentsSubtractMoney (knownText (py_amount state)) (py_refundedAmount state)) (\<lambda>unrefunded.
     bindE (sumMoneyAmounts (map pmq_amount (py_refundRequests state))) (\<lambda>requestedTotal.
     bindE (paymentsSubtractMoney unrefunded requestedTotal) (\<lambda>remainingPaymentAmount.
     bindE (paymentsCompareMoney amount remainingPaymentAmount) (\<lambda>order.
     ensure (order \<le> 0)
       (PaymentsInvalid ''Refund amount cannot exceed the remaining refundable payment amount.'') (
     bindE (remainingRefundableAmountForOrders state orderIds (Some (rqp_refundId c))) (\<lambda>orderRemainingAmount.
     bindE (paymentsCompareMoney amount orderRemainingAmount) (\<lambda>order.
     ensure (order \<le> 0)
       (PaymentsInvalid ''Refund amount cannot exceed the remaining refundable order amount.'') (
     bindE (paymentsIsoTimestamp h (rqp_requestedAt c) ''Payment refund request must include a timestamp.'') (\<lambda>requestedAt.
       Inr [PaymentRefundRequestedEvent paymentId
              \<lparr>pmq_refundId = rqp_refundId c, pmq_orderIds = orderIds, pmq_amount = amount\<rparr>
              requestedAt]))))))))))))))"

definition refundablePayment :: "PaymentState \<Rightarrow> bool" where
  "refundablePayment state \<longleftrightarrow>
     py_status state = Some Captured \<or> py_status state = Some PartiallyRefunded \<or>
     py_status state = Some Refunded \<or> py_status state = Some Disputed"

text \<open>An amount that is null or empty is absent.\<close>

definition truthyText :: "string option \<Rightarrow> string option" where
  "truthyText t = (case t of None \<Rightarrow> None | Some v \<Rightarrow> if v = [] then None else Some v)"

definition cumulativeRefund :: "PaymentState \<Rightarrow> string option \<Rightarrow> string \<Rightarrow> string res" where
  "cumulativeRefund state reported refundAmount =
     (case truthyText reported of
        Some reportedTotal \<Rightarrow> paymentsMoneyAmount reportedTotal False ''Cumulative refunded amount''
      | None \<Rightarrow> paymentsAddMoney (py_refundedAmount state) refundAmount)"

definition refundedEvent ::
    "host \<Rightarrow> PaymentState \<Rightarrow> string \<Rightarrow> RecordPaymentRefundCommand \<Rightarrow> string option \<Rightarrow> string option \<Rightarrow> string list \<Rightarrow>
     string \<Rightarrow> string \<Rightarrow> PaymentEvent list res" where
  "refundedEvent h state paymentId c refundId processorRefundReference orderIds refundAmount cumulative =
     bindE (allocateRefundAmountToOrders state orderIds refundAmount) (\<lambda>orderRefundAmounts.
     bindE (mergeRefundedOrderAmounts (py_refundedOrderAmounts state) orderRefundAmounts) (\<lambda>refundedOrderAmounts.
     bindE (paymentsRequiredText (rpr_processorStatus c) ''Processor status is required.'') (\<lambda>processorStatus.
     bindE (paymentsIsoTimestamp h (rpr_refundedAt c) ''Payment refund must include a timestamp.'') (\<lambda>refundedAt.
       Inr [PaymentRefundedEvent
              \<lparr>pre_paymentId = paymentId, pre_refundId = refundId, pre_orderIds = orderIds,
               pre_buyerAccountId = py_buyerAccountId state, pre_amount = refundAmount,
               pre_refundedAmount = cumulative, pre_orderRefundAmounts = Some orderRefundAmounts,
               pre_refundedOrderAmounts = Some refundedOrderAmounts,
               pre_orderRefundCaps = py_orderRefundCaps state, pre_currencyCode = py_currencyCode state,
               pre_processorName = py_processorName state,
               pre_processorPaymentReference = py_processorPaymentReference state,
               pre_sellerPayouts = filterSellerPayoutsForOrders (py_sellerPayouts state) orderIds,
               pre_processorRefundReference = processorRefundReference, pre_processorStatus = processorStatus,
               pre_refundedAt = refundedAt\<rparr>]))))"

definition newRefund ::
    "host \<Rightarrow> PaymentState \<Rightarrow> string \<Rightarrow> RecordPaymentRefundCommand \<Rightarrow> string option \<Rightarrow> string option \<Rightarrow> string list \<Rightarrow>
     string \<Rightarrow> PaymentEvent list res" where
  "newRefund h state paymentId c refundId processorRefundReference orderIds refundAmount =
     bindE (cumulativeRefund state (rpr_refundedAmount c) refundAmount) (\<lambda>cumulative.
     bindE (paymentsCompareMoney cumulative (knownText (py_amount state))) (\<lambda>order.
     ensure (order \<le> 0) (PaymentsInvalid ''Refunded amount cannot exceed the captured payment amount.'') (
     bindE (paymentsCompareMoney cumulative (py_refundedAmount state)) (\<lambda>order.
     ensure (order \<ge> 0) (PaymentsInvalid ''Refunded amount cannot move backwards.'') (
     if order = 0 then Inr []
     else
     bindE (case truthyText (rpr_refundedAmount c) of
              None \<Rightarrow> Inr True
            | Some _ \<Rightarrow>
                bindE (paymentsSubtractMoney cumulative (py_refundedAmount state)) (\<lambda>delta.
                bindE (paymentsCompareMoney delta refundAmount) (\<lambda>sign. Inr (sign = 0)))) (\<lambda>matches.
     ensure matches (PaymentsInvalid ''Cumulative refunded amount must match the refund delta.'')
       (refundedEvent h state paymentId c refundId processorRefundReference orderIds refundAmount cumulative)))))))"

definition decideRecordPaymentRefund ::
    "host \<Rightarrow> PaymentState \<Rightarrow> RecordPaymentRefundCommand \<Rightarrow> PaymentEvent list res" where
  "decideRecordPaymentRefund h state c =
     createdFirst state (\<lambda>paymentId.
     ensure (refundablePayment state) (PaymentsInvalid ''Only captured payments can be refunded.'') (
     case rpr_amount c of
       None \<Rightarrow> Inl (PaymentsInvalid ''Refund webhook must include the refunded amount.'')
     | Some rawAmount \<Rightarrow>
     let refundId = rpr_refundId c;
         processorRefundReference = normalizeOptionalText (rpr_processorRefundReference c)
     in
     bindE (paymentsMoneyAmount rawAmount False ''Refund amount'') (\<lambda>refundAmount.
     bindE (normalizeOrderIds (orElse (rpr_orderIds c) [])) (\<lambda>orderIds.
     ensure (length orderIds > 0) (PaymentsInvalid ''Refund webhook must include refunded orders.'') (
     ensure (refundOrdersBelongToPayment state orderIds)
       (PaymentsInvalid ''Refund order must belong to the payment.'') (
     case findIssuedRefund state refundId processorRefundReference of
       Some existing \<Rightarrow>
         ensure (pmi_orderIds existing = orderIds \<and> pmi_amount existing = refundAmount)
           (PaymentsInvalid ''Refund provider update does not match the existing issued refund.'') (Inr [])
     | None \<Rightarrow> newRefund h state paymentId c refundId processorRefundReference orderIds refundAmount))))))"

definition disputeLifecycle :: "RecordPaymentDisputeCommand \<Rightarrow> string option \<Rightarrow> PaymentDisputeLifecycleState" where
  "disputeLifecycle c disputeMessage =
     (case rpd_disputeLifecycleState c of
        Some l \<Rightarrow> l
      | None \<Rightarrow>
          if disputeMessage = Some ''won'' \<or> disputeMessage = Some ''warning_closed'' then PaymentDisputeWon
          else if disputeMessage = Some ''lost'' then PaymentDisputeLost else PaymentDisputeCreated)"

definition decidePaymentDispute :: "host \<Rightarrow> PaymentState \<Rightarrow> RecordPaymentDisputeCommand \<Rightarrow> PaymentEvent list res" where
  "decidePaymentDispute h state c =
     createdFirst state (\<lambda>paymentId.
     bindE (paymentsRequiredText (rpd_processorStatus c) ''Processor status is required.'') (\<lambda>processorStatus.
     let providerEventId = normalizeOptionalText (rpd_providerEventId c);
         disputeStatus = normalizeOptionalText (rpd_disputeStatus c);
         disputeMessage = normalizeOptionalText (rpd_disputeMessage c);
         disputeEvidenceDueAt = normalizeOptionalText (rpd_disputeEvidenceDueAt c)
     in if (case providerEventId of None \<Rightarrow> False | Some e \<Rightarrow> e \<in> set (py_disputeProviderEventIds state)) then Inr []
     else
     ensure (refundablePayment state) (PaymentsInvalid ''Only captured payments can be disputed.'') (
     bindE (case truthyText (rpd_amount c) of
              None \<Rightarrow> Inr (py_amount state)
            | Some raw \<Rightarrow> bindE (paymentsMoneyAmount raw False ''Dispute amount'') (\<lambda>a. Inr (Some a))) (\<lambda>amount.
     bindE (case disputeEvidenceDueAt of
              None \<Rightarrow> Inr None
            | Some t \<Rightarrow> bindE (paymentsIsoTimestamp h t ''Payment dispute evidence deadline must be an ISO timestamp.'')
                         (\<lambda>d. Inr (Some d))) (\<lambda>dueAt.
     bindE (paymentsIsoTimestamp h (rpd_disputedAt c) ''Payment dispute must include a timestamp.'') (\<lambda>disputedAt.
       Inr [PaymentDisputedEvent
              \<lparr>pdd_paymentId = paymentId, pdd_orderIds = py_orderIds state,
               pdd_buyerAccountId = py_buyerAccountId state, pdd_amount = amount,
               pdd_currencyCode = py_currencyCode state, pdd_processorName = py_processorName state,
               pdd_processorPaymentReference = py_processorPaymentReference state,
               pdd_providerEventId = providerEventId,
               pdd_providerDisputeId =
                 orElse (normalizeOptionalText (rpd_providerDisputeId c)) (paymentId @ ''-dispute''),
               pdd_providerChargeReference = normalizeOptionalText (rpd_providerChargeReference c),
               pdd_processorStatus = processorStatus, pdd_disputeStatus = disputeStatus,
               pdd_disputeMessage = disputeMessage,
               pdd_disputeLifecycleState = disputeLifecycle c disputeMessage,
               pdd_disputeReason = normalizeOptionalText (rpd_disputeReason c),
               pdd_disputeEvidenceDueAt = dueAt, pdd_sellerPayouts = py_sellerPayouts state,
               pdd_disputedAt = disputedAt\<rparr>]))))))"

definition paymentSubject :: "PaymentState \<Rightarrow> string \<Rightarrow> PaymentSubject" where
  "paymentSubject state paymentId = \<lparr>psu_paymentId = paymentId, psu_orderIds = py_orderIds state\<rparr>"

definition paymentProcessing :: "PaymentState \<Rightarrow> string \<Rightarrow> PaymentProcessing" where
  "paymentProcessing state paymentId =
     \<lparr>psu_paymentId = paymentId, psu_orderIds = py_orderIds state, psu_processorName = py_processorName state,
      psu_processorPaymentReference = py_processorPaymentReference state\<rparr>"

definition paymentParties :: "PaymentState \<Rightarrow> string \<Rightarrow> PaymentParties" where
  "paymentParties state paymentId =
     \<lparr>psu_paymentId = paymentId, psu_orderIds = py_orderIds state, psu_processorName = py_processorName state,
      psu_processorPaymentReference = py_processorPaymentReference state,
      psu_buyerAccountId = py_buyerAccountId state\<rparr>"

definition paymentExposure :: "PaymentState \<Rightarrow> string \<Rightarrow> PaymentExposure" where
  "paymentExposure state paymentId =
     \<lparr>psu_paymentId = paymentId, psu_orderIds = py_orderIds state, psu_processorName = py_processorName state,
      psu_processorPaymentReference = py_processorPaymentReference state,
      psu_buyerAccountId = py_buyerAccountId state, psu_sellerPayouts = py_sellerPayouts state\<rparr>"

definition hasEvidence :: "PaymentState \<Rightarrow> string \<Rightarrow> bool" where
  "hasEvidence state providerDisputeId \<longleftrightarrow>
     (\<exists>record\<in>set (py_disputeEvidenceRecords state). pde_providerDisputeId record = providerDisputeId)"

definition decideEvidenceSubmitted ::
    "host \<Rightarrow> PaymentState \<Rightarrow> string \<Rightarrow> string \<Rightarrow> PaymentDisputeEvidenceSummary \<Rightarrow> string \<Rightarrow> PaymentEvent list res" where
  "decideEvidenceSubmitted h state rawDisputeId rawStatus rawSummary rawSubmittedAt =
     createdFirst state (\<lambda>paymentId.
     bindE (paymentsRequiredText rawDisputeId ''Dispute evidence submission must include a dispute id.'') (\<lambda>disputeId.
     if hasEvidence state disputeId then Inr []
     else
     bindE (paymentsRequiredText rawStatus ''Processor status is required.'') (\<lambda>processorStatus.
     bindE (normalizePaymentDisputeEvidenceSummary h rawSummary) (\<lambda>summary.
     bindE (paymentsIsoTimestamp h rawSubmittedAt ''Dispute evidence submission must include a timestamp.'') (\<lambda>submittedAt.
       Inr [PaymentDisputeEvidenceSubmittedEvent (paymentProcessing state paymentId) disputeId processorStatus
              summary submittedAt])))))"

definition decideEvidenceUnavailable ::
    "host \<Rightarrow> PaymentState \<Rightarrow> string \<Rightarrow> string \<Rightarrow> PaymentDisputeEvidenceSummary \<Rightarrow> string \<Rightarrow> PaymentEvent list res" where
  "decideEvidenceUnavailable h state rawDisputeId rawReason rawSummary rawRecordedAt =
     createdFirst state (\<lambda>paymentId.
     bindE (paymentsRequiredText rawDisputeId ''Dispute evidence unavailability must include a dispute id.'') (\<lambda>disputeId.
     if hasEvidence state disputeId then Inr []
     else
     bindE (paymentsRequiredText rawReason ''Dispute evidence unavailability requires a reason.'') (\<lambda>reason.
     bindE (normalizePaymentDisputeEvidenceSummary h rawSummary) (\<lambda>summary.
     bindE (paymentsIsoTimestamp h rawRecordedAt ''Dispute evidence unavailability must include a timestamp.'') (\<lambda>recordedAt.
       Inr [PaymentDisputeEvidenceUnavailableEvent (paymentSubject state paymentId) disputeId reason summary
              recordedAt])))))"

text \<open>What the fraud commands normalise after their subject and before their timestamp.\<close>

definition fraudSignal :: "host \<Rightarrow> PaymentFraudSignal \<Rightarrow> string \<Rightarrow> string \<Rightarrow> PaymentFraudSignal res" where
  "fraudSignal h signal subjectId timestampMessage =
     bindE (paymentsRequiredText (pfs_providerEventId signal) ''Provider event id is required.'') (\<lambda>providerEventId.
     bindE (paymentsRequiredText (pfs_processorStatus signal) ''Processor status is required.'') (\<lambda>processorStatus.
     bindE (paymentsIsoTimestamp h (pfs_occurredAt signal) timestampMessage) (\<lambda>occurredAt.
       Inr \<lparr>pfs_providerEventId = providerEventId, pfs_subjectId = subjectId,
            pfs_providerChargeReference = normalizeOptionalText (pfs_providerChargeReference signal),
            pfs_processorStatus = processorStatus, pfs_occurredAt = occurredAt\<rparr>)))"

definition decideEarlyFraudWarning ::
    "host \<Rightarrow> PaymentState \<Rightarrow> PaymentFraudSignal \<Rightarrow> string option \<Rightarrow> bool \<Rightarrow> PaymentEvent list res" where
  "decideEarlyFraudWarning h state signal fraudType chargeDisputed =
     createdFirst state (\<lambda>paymentId.
     bindE (paymentsRequiredText (pfs_subjectId signal) ''Early fraud warning id is required.'') (\<lambda>warningId.
     if warningId \<in> set (py_earlyFraudWarningIds state) then Inr []
     else
     bindE (fraudSignal h signal warningId ''Fraud warning receipt must include a timestamp.'') (\<lambda>s.
       Inr [PaymentEarlyFraudWarningReceivedEvent (paymentExposure state paymentId) s
              (normalizeOptionalText fraudType) chargeDisputed])))"

definition findFraudReview :: "PaymentState \<Rightarrow> string \<Rightarrow> PaymentFraudReview option" where
  "findFraudReview state reviewId = find (\<lambda>review. pfr_providerReviewId review = reviewId) (py_fraudReviews state)"

definition decideFraudReviewOpened ::
    "host \<Rightarrow> PaymentState \<Rightarrow> PaymentFraudSignal \<Rightarrow> string option \<Rightarrow> PaymentEvent list res" where
  "decideFraudReviewOpened h state signal reason =
     createdFirst state (\<lambda>paymentId.
     bindE (paymentsRequiredText (pfs_subjectId signal) ''Fraud review id is required.'') (\<lambda>reviewId.
     if map_option pfr_status (findFraudReview state reviewId) = Some ReviewOpened then Inr []
     else
     bindE (fraudSignal h signal reviewId ''Fraud review opening must include a timestamp.'') (\<lambda>s.
       Inr [PaymentFraudReviewOpenedEvent (paymentExposure state paymentId) s (normalizeOptionalText reason)])))"

definition decideFraudReviewClosed ::
    "host \<Rightarrow> PaymentState \<Rightarrow> PaymentFraudSignal \<Rightarrow> string option \<Rightarrow> string option \<Rightarrow> PaymentEvent list res" where
  "decideFraudReviewClosed h state signal reason rawOutcome =
     createdFirst state (\<lambda>paymentId.
     bindE (paymentsRequiredText (pfs_subjectId signal) ''Fraud review id is required.'') (\<lambda>reviewId.
     let outcome = normalizeOptionalText rawOutcome
     in if (case findFraudReview state reviewId of
              None \<Rightarrow> False | Some r \<Rightarrow> pfr_status r = ReviewClosed \<and> pfr_outcome r = outcome) then Inr []
     else
     bindE (fraudSignal h signal reviewId ''Fraud review closing must include a timestamp.'') (\<lambda>s.
       Inr [PaymentFraudReviewClosedEvent (paymentExposure state paymentId) s (normalizeOptionalText reason)
              outcome])))"

definition decideLiabilityShift ::
    "host \<Rightarrow> PaymentState \<Rightarrow> RecordLiabilityShiftCommand \<Rightarrow> PaymentEvent list res" where
  "decideLiabilityShift h state c =
     createdFirst state (\<lambda>paymentId.
     bindE (paymentsRequiredText (rls_providerEventId c) ''Provider event id is required.'') (\<lambda>providerEventId.
     bindE (paymentsRequiredText (rls_status c) ''Liability shift status is required.'') (\<lambda>status.
     let authenticationResult = normalizeOptionalText (rls_authenticationResult c);
         radarRiskLevel = normalizeOptionalText (rls_radarRiskLevel c)
     in if (case find (\<lambda>outcome. pls_providerEventId outcome = providerEventId) (py_liabilityShiftOutcomes state) of
              None \<Rightarrow> False
            | Some existing \<Rightarrow>
                pls_status existing = status \<and> pls_authenticationResult existing = authenticationResult \<and>
                pls_radarRiskLevel existing = radarRiskLevel \<and>
                pls_threeDSecureRequested existing = rls_threeDSecureRequested c) then Inr []
     else
     bindE (paymentsIsoTimestamp h (rls_recordedAt c) ''Liability shift outcome must include a timestamp.'') (\<lambda>recordedAt.
       Inr [PaymentLiabilityShiftRecordedEvent (paymentParties state paymentId)
              \<lparr>pls_providerEventId = providerEventId, pls_threeDSecureRequested = rls_threeDSecureRequested c,
               pls_status = status, pls_authenticationResult = authenticationResult,
               pls_radarRiskLevel = radarRiskLevel, pls_recordedAt = recordedAt\<rparr>]))))"

fun decidePayment :: "host \<Rightarrow> PaymentState \<Rightarrow> PaymentCommand \<Rightarrow> PaymentEvent list res" where
  "decidePayment h state (CreatePayment c) = decideCreatePayment h state c"
| "decidePayment h state (RecordPaymentAuthorization processorStatus authorizedAt) =
     decidePaymentAuthorization h state processorStatus authorizedAt"
| "decidePayment h state (RecordPaymentCapture processorStatus capturedAt) =
     decidePaymentCapture h state processorStatus capturedAt"
| "decidePayment h state (RecordPaymentFailure processorStatus failureCode failureMessage failedAt) =
     decidePaymentFailure h state processorStatus failureCode failureMessage failedAt"
| "decidePayment h state (CancelPayment cancelledAt) = decideCancelPayment h state cancelledAt"
| "decidePayment h state (RequestPaymentRefund c) = decideRequestPaymentRefund h state c"
| "decidePayment h state (RecordPaymentRefund c) = decideRecordPaymentRefund h state c"
| "decidePayment h state (RecordPaymentDispute c) = decidePaymentDispute h state c"
| "decidePayment h state (RecordPaymentDisputeEvidenceSubmitted disputeId processorStatus summary submittedAt) =
     decideEvidenceSubmitted h state disputeId processorStatus summary submittedAt"
| "decidePayment h state (RecordPaymentDisputeEvidenceUnavailable disputeId reason summary recordedAt) =
     decideEvidenceUnavailable h state disputeId reason summary recordedAt"
| "decidePayment h state (RecordPaymentEarlyFraudWarning signal fraudType chargeDisputed) =
     decideEarlyFraudWarning h state signal fraudType chargeDisputed"
| "decidePayment h state (RecordPaymentFraudReviewOpened signal reason) =
     decideFraudReviewOpened h state signal reason"
| "decidePayment h state (RecordPaymentFraudReviewClosed signal reason outcome) =
     decideFraudReviewClosed h state signal reason outcome"
| "decidePayment h state (RecordPaymentLiabilityShiftOutcome c) = decideLiabilityShift h state c"


section \<open>The evolver\<close>

definition evolvePaymentCreated :: "PaymentCreated \<Rightarrow> PaymentState res" where
  "evolvePaymentCreated d =
     bindE (normalizeOrderMoneyAmounts (orElse (pce_orderRefundCaps d) []) ''Order refundable amount'') (\<lambda>orderRefundCaps.
       Inr (initialPaymentState
         \<lparr>py_paymentId := Some (pce_paymentId d), py_buyerAccountId := Some (pce_buyerAccountId d),
          py_orderIds := pce_orderIds d, py_orderRefundCaps := orderRefundCaps, py_amount := Some (pce_amount d),
          py_balanceCreditAmount := pce_balanceCreditAmount d, py_processorAmount := Some (pce_processorAmount d),
          py_marketplaceSalesFeeAmount := Some (pce_marketplaceSalesFeeAmount d),
          py_authenticityFeeAmount := Some (orElse (pce_authenticityFeeAmount d) ''0.00''),
          py_marketplaceCheckoutFeeAmount := Some (pce_marketplaceCheckoutFeeAmount d),
          py_marketplaceCheckoutFeePolicyVersion := pce_marketplaceCheckoutFeePolicyVersion d,
          py_marketplaceCheckoutFeeQuoteFingerprint := pce_marketplaceCheckoutFeeQuoteFingerprint d,
          py_paymentMethodCategory := pce_paymentMethodCategory d,
          py_savedCheckoutInstrumentId := pce_savedCheckoutInstrumentId d,
          py_sellerNetAmount := Some (pce_sellerNetAmount d),
          py_sellerPayoutAmount := Some (orElse (pce_sellerPayoutAmount d) (pce_sellerNetAmount d)),
          py_sellerPayouts := orElse (pce_sellerPayouts d) [], py_currencyCode := Some (pce_currencyCode d),
          py_processorName := Some (pce_processorName d),
          py_processorPaymentKind := Some (pce_processorPaymentKind d),
          py_processorPaymentReference := Some (pce_processorPaymentReference d),
          py_processorClientSecret := pce_processorClientSecret d,
          py_processorRedirectUrl := pce_processorRedirectUrl d,
          py_processorStatus := Some (pce_processorStatus d), py_sourceContext := pce_sourceContext d,
          py_sourceReferenceId := pce_sourceReferenceId d, py_threeDSecureRequest := pce_threeDSecureRequest d,
          py_threeDSecureReasonCodes := orElse (pce_threeDSecureReasonCodes d) [],
          py_status := Some PendingConfirmation, py_createdAt := Some (pce_createdAt d)\<rparr>))"

definition evolveRefundRequested :: "PaymentState \<Rightarrow> PaymentRefundRequest \<Rightarrow> PaymentState" where
  "evolveRefundRequested state request =
     (if \<exists>r\<in>set (py_refundRequests state). pmq_refundId r = pmq_refundId request then state
      else state\<lparr>py_refundRequests := py_refundRequests state @ [request]\<rparr>)"

definition evolvePaymentRefunded :: "PaymentState \<Rightarrow> PaymentRefunded \<Rightarrow> PaymentState res" where
  "evolvePaymentRefunded state d =
     bindE (case pre_refundedOrderAmounts d of
              Some amounts \<Rightarrow> Inr amounts
            | None \<Rightarrow> mergeRefundedOrderAmounts (py_refundedOrderAmounts state) (orElse (pre_orderRefundAmounts d) [])) (\<lambda>amounts.
     bindE (normalizeOrderMoneyAmounts amounts ''Order refunded amount'') (\<lambda>refundedOrderAmounts.
       Inr (state
         \<lparr>py_processorStatus := Some (pre_processorStatus d),
          py_status := Some (if Some (pre_refundedAmount d) = py_amount state then Refunded else PartiallyRefunded),
          py_failureCode := None, py_failureMessage := None, py_refundedAt := Some (pre_refundedAt d),
          py_refundedAmount := pre_refundedAmount d, py_refundedOrderAmounts := refundedOrderAmounts,
          py_refundRequests :=
            filter (\<lambda>request. Some (pmq_refundId request) \<noteq> pre_refundId d) (py_refundRequests state),
          py_issuedRefunds := py_issuedRefunds state @
            [\<lparr>pmi_refundId = pre_refundId d, pmi_processorRefundReference = pre_processorRefundReference d,
              pmi_orderIds = pre_orderIds d, pmi_amount = pre_amount d\<rparr>]\<rparr>)))"

definition evolvePaymentDisputed :: "PaymentState \<Rightarrow> PaymentDisputed \<Rightarrow> PaymentState" where
  "evolvePaymentDisputed state d =
     state\<lparr>py_processorStatus := Some (pdd_processorStatus d), py_status := Some Disputed,
           py_failureCode := pdd_disputeStatus d, py_failureMessage := pdd_disputeMessage d,
           py_disputedAt := Some (pdd_disputedAt d),
           py_disputeProviderEventIds :=
             (case truthyText (pdd_providerEventId d) of
                Some e \<Rightarrow>
                  if e \<in> set (py_disputeProviderEventIds state) then py_disputeProviderEventIds state
                  else py_disputeProviderEventIds state @ [e]
              | None \<Rightarrow> py_disputeProviderEventIds state)\<rparr>"

definition evolveEvidence :: "PaymentState \<Rightarrow> PaymentDisputeEvidenceRecord \<Rightarrow> PaymentState" where
  "evolveEvidence state record =
     state\<lparr>py_disputeEvidenceRecords :=
             filter (\<lambda>r. pde_providerDisputeId r \<noteq> pde_providerDisputeId record) (py_disputeEvidenceRecords state)
             @ [record]\<rparr>"

definition evolveFraudReview :: "PaymentState \<Rightarrow> PaymentFraudReview \<Rightarrow> PaymentState" where
  "evolveFraudReview state review =
     state\<lparr>py_fraudReviews :=
             filter (\<lambda>r. pfr_providerReviewId r \<noteq> pfr_providerReviewId review) (py_fraudReviews state) @ [review]\<rparr>"

definition openedReview :: "PaymentFraudSignal \<Rightarrow> string option \<Rightarrow> PaymentFraudReview" where
  "openedReview signal reason =
     \<lparr>pfr_providerReviewId = pfs_subjectId signal,
      pfr_providerChargeReference = pfs_providerChargeReference signal, pfr_reason = reason,
      pfr_status = ReviewOpened, pfr_outcome = None, pfr_openedAt = Some (pfs_occurredAt signal),
      pfr_closedAt = None\<rparr>"

abbreviation orOptional :: "'a option \<Rightarrow> 'a option \<Rightarrow> 'a option" where
  "orOptional a b \<equiv> (case a of None \<Rightarrow> b | Some v \<Rightarrow> Some v)"

definition closedReview ::
    "PaymentFraudReview option \<Rightarrow> PaymentFraudSignal \<Rightarrow> string option \<Rightarrow> string option \<Rightarrow> PaymentFraudReview" where
  "closedReview existing signal reason outcome =
     \<lparr>pfr_providerReviewId = pfs_subjectId signal,
      pfr_providerChargeReference =
        orOptional (pfs_providerChargeReference signal) (Option.bind existing pfr_providerChargeReference),
      pfr_reason = orOptional reason (Option.bind existing pfr_reason), pfr_status = ReviewClosed,
      pfr_outcome = outcome, pfr_openedAt = Option.bind existing pfr_openedAt,
      pfr_closedAt = Some (pfs_occurredAt signal)\<rparr>"

definition evolveLiabilityShift :: "PaymentState \<Rightarrow> PaymentLiabilityShiftOutcome \<Rightarrow> PaymentState" where
  "evolveLiabilityShift state outcome =
     state\<lparr>py_liabilityShiftOutcomes :=
             filter (\<lambda>o'. pls_providerEventId o' \<noteq> pls_providerEventId outcome) (py_liabilityShiftOutcomes state)
             @ [outcome]\<rparr>"

fun evolvePayment :: "PaymentState \<Rightarrow> PaymentEvent \<Rightarrow> PaymentState res" where
  "evolvePayment state (PaymentCreatedEvent d) = evolvePaymentCreated d"
| "evolvePayment state (PaymentAuthorizedEvent paymentId processorStatus authorizedAt) =
     Inr (state\<lparr>py_processorStatus := Some processorStatus, py_authorizedAt := Some authorizedAt\<rparr>)"
| "evolvePayment state (PaymentCapturedEvent terms authenticityFee capturedAt) =
     Inr (state\<lparr>py_processorStatus := Some (ptm_processorStatus terms), py_status := Some Captured,
                py_failureCode := None, py_failureMessage := None, py_capturedAt := Some capturedAt,
                py_failedAt := None\<rparr>)"
| "evolvePayment state (PaymentFailedEvent terms failureCode failureMessage failedAt) =
     Inr (state\<lparr>py_processorStatus := Some (ptm_processorStatus terms), py_status := Some PaymentFailed,
                py_failureCode := failureCode, py_failureMessage := failureMessage,
                py_failedAt := Some failedAt\<rparr>)"
| "evolvePayment state (PaymentCancelledEvent paymentId cancelledAt) =
     Inr (state\<lparr>py_status := Some PaymentCancelled, py_cancelledAt := Some cancelledAt\<rparr>)"
| "evolvePayment state (PaymentRefundRequestedEvent paymentId request requestedAt) =
     Inr (evolveRefundRequested state request)"
| "evolvePayment state (PaymentRefundedEvent d) = evolvePaymentRefunded state d"
| "evolvePayment state (PaymentDisputedEvent d) = Inr (evolvePaymentDisputed state d)"
| "evolvePayment state (PaymentDisputeEvidenceSubmittedEvent subject disputeId processorStatus summary submittedAt) =
     Inr (evolveEvidence state
            \<lparr>pde_providerDisputeId = disputeId, pde_status = EvidenceSubmitted, pde_reason = None,
             pde_submittedAt = Some submittedAt, pde_recordedAt = submittedAt\<rparr>)"
| "evolvePayment state (PaymentDisputeEvidenceUnavailableEvent subject disputeId reason summary recordedAt) =
     Inr (evolveEvidence state
            \<lparr>pde_providerDisputeId = disputeId, pde_status = EvidenceUnavailable, pde_reason = Some reason,
             pde_submittedAt = None, pde_recordedAt = recordedAt\<rparr>)"
| "evolvePayment state (PaymentEarlyFraudWarningReceivedEvent subject signal fraudType chargeDisputed) =
     Inr (state\<lparr>py_earlyFraudWarningIds :=
                  (if pfs_subjectId signal \<in> set (py_earlyFraudWarningIds state) then py_earlyFraudWarningIds state
                   else py_earlyFraudWarningIds state @ [pfs_subjectId signal])\<rparr>)"
| "evolvePayment state (PaymentFraudReviewOpenedEvent subject signal reason) =
     Inr (evolveFraudReview state (openedReview signal reason))"
| "evolvePayment state (PaymentFraudReviewClosedEvent subject signal reason outcome) =
     Inr (evolveFraudReview state
            (closedReview (findFraudReview state (pfs_subjectId signal)) signal reason outcome))"
| "evolvePayment state (PaymentLiabilityShiftRecordedEvent subject outcome) =
     Inr (evolveLiabilityShift state outcome)"
| "evolvePayment state (PaymentsCsatOutcomeFactEvent outcomeFact) = Inr state"

end
