(* ===== verification/PaymentFacts.thy ===== *)
theory PaymentFacts
  imports PaymentDecide PlatformCoverage
begin

text \<open>
  What the shared functions of the payment aggregate compute on amounts by order, and the invariant that
  every decided batch keeps.
\<close>

section \<open>Amounts by order\<close>

definition orderCents :: "OrderMoneyAmount list \<Rightarrow> (string \<times> int) list" where
  "orderCents xs = map (\<lambda>e. (oma_orderId e, centsOf (oma_amount e))) xs"

definition cents_for :: "OrderMoneyAmount list \<Rightarrow> string \<Rightarrow> int" where
  "cents_for xs k = orElse (map_of (orderCents xs) k) 0"

definition order_sum :: "OrderMoneyAmount list \<Rightarrow> int" where
  "order_sum xs = keyed_total (\<lambda>c. c) (orderCents xs)"

definition clean_id :: "string \<Rightarrow> bool" where
  "clean_id k \<longleftrightarrow> js_trim k = k \<and> k \<noteq> []"

definition amounts_ok :: "OrderMoneyAmount list \<Rightarrow> bool" where
  "amounts_ok xs \<longleftrightarrow> distinct (map oma_orderId xs) \<and>
     (\<forall>e\<in>set xs. clean_id (oma_orderId e) \<and> canonical (oma_amount e) \<and> 0 \<le> centsOf (oma_amount e))"

lemma orderCents_simps [simp]:
  "orderCents [] = []"
  "orderCents (e # xs) = (oma_orderId e, centsOf (oma_amount e)) # orderCents xs"
  "orderCents (xs @ ys) = orderCents xs @ orderCents ys"
  "map fst (orderCents xs) = map oma_orderId xs"
  by (simp_all add: orderCents_def)

lemma cents_for_simps [simp]:
  "cents_for [] k = 0"
  "cents_for (e # xs) k = (if oma_orderId e = k then centsOf (oma_amount e) else cents_for xs k)"
  by (simp_all add: cents_for_def)

lemma order_sum_simps [simp]:
  "order_sum [] = 0"
  "order_sum (e # xs) = centsOf (oma_amount e) + order_sum xs"
  by (simp_all add: order_sum_def)

lemma order_sum_append [simp]: "order_sum (xs @ ys) = order_sum xs + order_sum ys"
  by (induction xs) auto

lemma amounts_ok_simps [simp]:
  "amounts_ok []"
  "amounts_ok (e # xs) \<longleftrightarrow> oma_orderId e \<notin> set (map oma_orderId xs) \<and> clean_id (oma_orderId e) \<and>
     canonical (oma_amount e) \<and> 0 \<le> centsOf (oma_amount e) \<and> amounts_ok xs"
  by (auto simp: amounts_ok_def)

lemma cents_for_nonneg: "amounts_ok xs \<Longrightarrow> 0 \<le> cents_for xs k"
  by (induction xs) auto

lemma cents_for_le_sum: "amounts_ok xs \<Longrightarrow> cents_for xs k \<le> order_sum xs"
proof (induction xs)
  case (Cons e xs)
  have "0 \<le> order_sum xs" if "amounts_ok xs" using that by (induction xs) auto
  with Cons show ?case by fastforce
qed simp

lemma cents_for_other: "k \<notin> set (map oma_orderId xs) \<Longrightarrow> cents_for xs k = 0"
  by (induction xs) auto

lemma moneyForOrder_simps [simp]:
  "moneyForOrder [] k = ''0.00''"
  "moneyForOrder (e # xs) k = (if oma_orderId e = k then oma_amount e else moneyForOrder xs k)"
  by (simp_all add: moneyForOrder_def)

lemma moneyForOrder_cents:
  "amounts_ok xs \<Longrightarrow> canonical (moneyForOrder xs k) \<and> centsOf (moneyForOrder xs k) = cents_for xs k"
  by (induction xs) auto

lemma moneyForOrder_read: "amounts_ok xs \<Longrightarrow> moneyToCents (moneyForOrder xs k) = Inr (cents_for xs k)"
  using moneyForOrder_cents [of xs k] cents_for_nonneg [of xs k] moneyToCents_canonical by fastforce


section \<open>Totals by order\<close>

lemma addCents_new: "map_of m k = None \<Longrightarrow> addCents m k c = m @ [(k, c)]"
  by (simp add: addCents_def) (induction m, auto split: if_splits)

lemma map_of_addCents: "map_of (addCents m k c) j = (if j = k then Some (orElse (map_of m k) 0 + c) else map_of m j)"
  by (auto simp: addCents_def update_conv')

lemma addCents_distinct: "distinct (map fst m) \<Longrightarrow> distinct (map fst (addCents m k c))"
  by (simp add: addCents_def distinct_update)

lemma addCents_keys: "set (map fst (addCents m k c)) = insert k (set (map fst m))"
proof -
  have "dom (map_of (addCents m k c)) = insert k (dom (map_of m))"
    by (auto simp: dom_def map_of_addCents)
  then show ?thesis by (simp add: dom_map_of_conv_image_fst)
qed

lemma addCents_total: "keyed_total (\<lambda>c. c) (addCents m k c) = keyed_total (\<lambda>c. c) m + c"
  by (cases "map_of m k") (simp_all add: addCents_def keyed_total_new keyed_total_changed)

lemma orderMoneyAmounts_Inr:
  "orderMoneyAmounts m = Inr ys \<longleftrightarrow> (\<forall>(k, c)\<in>set m. 0 \<le> c \<and> in_range c) \<and>
     ys = map (\<lambda>(k, c). \<lparr>oma_orderId = k, oma_amount = formatCents c\<rparr>) m"
proof (induction m arbitrary: ys)
  case (Cons e m)
  obtain k c where "e = (k, c)" by force
  with Cons show ?case by (auto simp: orderMoneyAmounts_def res_simps money_simps split: if_splits)
qed (auto simp: orderMoneyAmounts_def)

lemma orderCents_orderMoneyAmounts:
  "orderMoneyAmounts m = Inr ys \<Longrightarrow> orderCents ys = m"
  unfolding orderMoneyAmounts_Inr orderCents_def by (auto intro!: map_idI split: prod.splits)

lemma orderMoneyAmounts_ok:
  "orderMoneyAmounts m = Inr ys \<Longrightarrow> distinct (map fst m) \<Longrightarrow> \<forall>k\<in>set (map fst m). clean_id k \<Longrightarrow> amounts_ok ys"
  unfolding orderMoneyAmounts_Inr amounts_ok_def by (force simp: comp_def split_def)

text \<open>Normalising amounts by order gives sound ones, and changes nothing in sound ones.\<close>

lemma orderMoneyAmounts_id: "amounts_ok xs \<Longrightarrow> orderMoneyAmounts (orderCents xs) = Inr xs"
proof -
  assume ok: "amounts_ok xs"
  have "map (\<lambda>(k, c). \<lparr>oma_orderId = k, oma_amount = formatCents c\<rparr>) (orderCents xs) = xs"
    unfolding orderCents_def using ok
    by (auto intro!: map_idI simp: amounts_ok_def canonical_format_cents)
  with ok show ?thesis
    by (auto simp: orderMoneyAmounts_Inr orderCents_def amounts_ok_def canonical_in_range)
qed

lemma normalizeOrderMoneyAmounts_ok:
  assumes "normalizeOrderMoneyAmounts xs f = Inr ys"
  shows "amounts_ok ys"
proof -
  let ?P = "\<lambda>m. distinct (map fst m) \<and> (\<forall>k\<in>set (map fst m). clean_id k)"
  from assms obtain m where m: "foldE (\<lambda>amounts entry.
              bindE (paymentsRequiredText (oma_orderId entry) (f @ '' must include an order.'')) (\<lambda>orderId.
              bindE (paymentsMoneyAmount (oma_amount entry) True f) (\<lambda>amount.
              bindE (moneyToCents amount) (\<lambda>cents. Inr (addCents amounts orderId cents))))) [] xs = Inr m"
    "orderMoneyAmounts m = Inr ys"
    by (auto simp: normalizeOrderMoneyAmounts_def res_simps)
  have step: "?P (addCents a k c)" if "?P a" "clean_id k" for a k c
    using that by (simp add: addCents_keys addCents_distinct del: set_map)
  have "?P m"
  proof (rule foldE_invariant [OF m(1)])
    fix a entry a' assume a: "?P a"
      and "bindE (paymentsRequiredText (oma_orderId entry) (f @ '' must include an order.'')) (\<lambda>orderId.
           bindE (paymentsMoneyAmount (oma_amount entry) True f) (\<lambda>amount.
           bindE (moneyToCents amount) (\<lambda>cents. Inr (addCents a orderId cents)))) = Inr a'"
    then obtain k c where a': "a' = addCents a k c" and "paymentsRequiredText (oma_orderId entry) (f @ '' must include an order.'') = Inr k"
      by (auto simp only: bindE_Inr)
    then have "clean_id k" by (auto simp: res_simps clean_id_def)
    then show "?P a'" unfolding a' by (rule step [OF a])
  qed simp
  with orderMoneyAmounts_ok [OF m(2)] show ?thesis by blast
qed

lemma normalizeOrderMoneyAmounts_id:
  assumes "amounts_ok xs"
  shows "normalizeOrderMoneyAmounts xs f = Inr xs"
proof -
  have "foldE (\<lambda>amounts entry.
              bindE (paymentsRequiredText (oma_orderId entry) (f @ '' must include an order.'')) (\<lambda>orderId.
              bindE (paymentsMoneyAmount (oma_amount entry) True f) (\<lambda>amount.
              bindE (moneyToCents amount) (\<lambda>cents. Inr (addCents amounts orderId cents))))) m xs =
      Inr (m @ orderCents xs)"
    if "set (map fst m) \<inter> set (map oma_orderId xs) = {}" for m
    using assms that
  proof (induction xs arbitrary: m)
    case (Cons e xs)
    then have "map_of m (oma_orderId e) = None" by (auto simp: map_of_eq_None_iff)
    with Cons show ?case
      by (simp add: clean_id_def paymentsRequiredText_def money_simps addCents_new)
  qed simp
  from this [of "[]"] assms show ?thesis
    by (simp add: normalizeOrderMoneyAmounts_def orderMoneyAmounts_id)
qed


section \<open>Allocating and merging\<close>

definition available :: "PaymentState \<Rightarrow> string \<Rightarrow> int" where
  "available s k = max 0 (cents_for (refundableCapsForState s) k - cents_for (py_refundedOrderAmounts s) k)"

lemma available_nonneg [simp]: "0 \<le> available s k"
  by (simp add: available_def)

text \<open>The additions of an allocation: positive amounts of orders among the given ones, each within what is available.\<close>

definition additions_ok :: "PaymentState \<Rightarrow> string list \<Rightarrow> OrderMoneyAmount list \<Rightarrow> bool" where
  "additions_ok s ks new \<longleftrightarrow> distinct (map oma_orderId new) \<and> set (map oma_orderId new) \<subseteq> set ks \<and>
     (\<forall>e\<in>set new. canonical (oma_amount e) \<and> 0 < centsOf (oma_amount e) \<and>
        centsOf (oma_amount e) \<le> available s (oma_orderId e))"

lemma allocateLoop_step:
  assumes "amounts_ok (refundableCapsForState s)" and "amounts_ok (py_refundedOrderAmounts s)" and "0 < r" and "in_range r"
  shows "allocateLoop s r acc (k # ks) =
    (let c = min r (available s k)
     in if c = 0 then allocateLoop s r acc ks
        else allocateLoop s (r - c) (acc @ [\<lparr>oma_orderId = k, oma_amount = formatCents c\<rparr>]) ks)"
proof -
  have "in_range (min r (available s k))"
    using assms(3,4) by (auto simp: in_range_def min_def available_def)
  then show ?thesis
    using assms by (auto simp: moneyForOrder_read Let_def money_simps available_def min_def max_def)
qed

lemma allocateLoop_Inr:
  assumes caps: "amounts_ok (refundableCapsForState s)" "amounts_ok (py_refundedOrderAmounts s)"
  shows "0 \<le> r \<Longrightarrow> in_range r \<Longrightarrow> distinct ks \<Longrightarrow>
    \<exists>new. allocateLoop s r acc ks = Inr (max 0 (r - sum_list (map (available s) ks)), acc @ new) \<and>
      additions_ok s ks new \<and> order_sum new = min r (sum_list (map (available s) ks))"
proof (induction ks arbitrary: r acc)
  case Nil
  then show ?case by (auto simp: additions_ok_def max_def)
next
  case (Cons k ks)
  have sum0: "0 \<le> sum_list (map (available s) ks)" by (rule sum_list_nonneg) auto
  show ?case
  proof (cases "r = 0")
    case True
    have "0 \<le> sum_list (map (available s) (k # ks))" by (rule sum_list_nonneg) auto
    then have "max 0 (- sum_list (map (available s) (k # ks))) = 0" "min 0 (sum_list (map (available s) (k # ks))) = 0"
      by (simp_all only: max_absorb1 min_absorb1 neg_le_0_iff_le)
    with True show ?thesis by (simp add: additions_ok_def)
  next
    case False
    define c where "c = min r (available s k)"
    have c: "0 \<le> c" "c \<le> r" "c \<le> available s k" using Cons.prems(1) by (auto simp: c_def min_def)
    have rest: "0 \<le> r - c" "in_range (r - c)" "in_range c" "distinct ks"
      using Cons.prems c by (auto simp: in_range_def)
    have step: "allocateLoop s r acc (k # ks) =
      (if c = 0 then allocateLoop s r acc ks
       else allocateLoop s (r - c) (acc @ [\<lparr>oma_orderId = k, oma_amount = formatCents c\<rparr>]) ks)"
      using allocateLoop_step [OF caps _ Cons.prems(2), of acc k ks] False Cons.prems(1) by (simp add: c_def Let_def)
    have sum: "r - c - sum_list (map (available s) ks) \<le> 0 \<longleftrightarrow> r - sum_list (map (available s) (k # ks)) \<le> 0"
      "max 0 (r - c - sum_list (map (available s) ks)) = max 0 (r - sum_list (map (available s) (k # ks)))"
      "c + min (r - c) (sum_list (map (available s) ks)) = min r (sum_list (map (available s) (k # ks)))"
      using sum0 by (auto simp: c_def min_def max_def)
    show ?thesis
    proof (cases "c = 0")
      case True
      with Cons.IH [OF Cons.prems(1,2) rest(4), of acc] step sum show ?thesis
        by (auto simp: additions_ok_def)
    next
      case False
      from Cons.IH [OF rest(1,2,4), of "acc @ [\<lparr>oma_orderId = k, oma_amount = formatCents c\<rparr>]"] obtain new where
        new: "allocateLoop s (r - c) (acc @ [\<lparr>oma_orderId = k, oma_amount = formatCents c\<rparr>]) ks =
            Inr (max 0 (r - c - sum_list (map (available s) ks)), acc @ [\<lparr>oma_orderId = k, oma_amount = formatCents c\<rparr>] @ new)"
          "additions_ok s ks new" "order_sum new = min (r - c) (sum_list (map (available s) ks))" by auto
      let ?new = "\<lparr>oma_orderId = k, oma_amount = formatCents c\<rparr> # new"
      have "additions_ok s (k # ks) ?new"
        using new(2) Cons.prems(3) False c rest(3) by (auto simp: additions_ok_def)
      moreover have "order_sum ?new = min r (sum_list (map (available s) (k # ks)))"
        using new(3) sum(3) rest(3) by simp
      ultimately show ?thesis using new(1) step False sum(2) by auto
    qed
  qed
qed

lemma allocate_Inr:
  assumes "amounts_ok (refundableCapsForState s)" "amounts_ok (py_refundedOrderAmounts s)"
    and "canonical amount" "0 \<le> centsOf amount" "distinct ks"
  shows "(\<exists>new. allocateRefundAmountToOrders s ks amount = Inr new) \<longleftrightarrow> centsOf amount \<le> sum_list (map (available s) ks)"
    and "allocateRefundAmountToOrders s ks amount = Inr new \<Longrightarrow> additions_ok s ks new \<and> order_sum new = centsOf amount"
proof -
  from allocateLoop_Inr [OF assms(1,2,4) canonical_in_range [OF assms(3)] assms(5), of "[]"] obtain new' where
    n: "allocateLoop s (centsOf amount) [] ks =
        Inr (max 0 (centsOf amount - sum_list (map (available s) ks)), new')"
      "additions_ok s ks new'" "order_sum new' = min (centsOf amount) (sum_list (map (available s) ks))" by auto
  have a: "allocateRefundAmountToOrders s ks amount =
      (if centsOf amount \<le> sum_list (map (available s) ks) then Inr new'
       else Inl (PaymentsInvalid ''Refund amount cannot exceed the remaining refundable order amount.''))"
    using assms(3,4) n(1) by (auto simp: allocateRefundAmountToOrders_def money_simps max_def)
  show "(\<exists>new. allocateRefundAmountToOrders s ks amount = Inr new) \<longleftrightarrow> centsOf amount \<le> sum_list (map (available s) ks)"
    by (simp add: a)
  show "allocateRefundAmountToOrders s ks amount = Inr new \<Longrightarrow> additions_ok s ks new \<and> order_sum new = centsOf amount"
    using n by (auto simp: a min_def split: if_splits)
qed

lemma fold_update_new:
  "distinct (map fst xs) \<Longrightarrow> set (map fst m) \<inter> set (map fst xs) = {} \<Longrightarrow>
   fold (\<lambda>(k, c) m. AList.update k c m) xs m = m @ xs"
proof (induction xs arbitrary: m)
  case (Cons x xs)
  obtain k c where x: "x = (k, c)" by force
  with Cons.prems have "k \<notin> set (map fst m)" by auto
  then have "AList.update k c m = m @ [(k, c)]" by (induction m) auto
  with Cons x show ?case by simp
qed simp

definition addAll :: "OrderMoneyAmount list \<Rightarrow> (string \<times> int) list \<Rightarrow> (string \<times> int) list" where
  "addAll adds m = fold (\<lambda>e m. addCents m (oma_orderId e) (centsOf (oma_amount e))) adds m"

lemma addAll_simps [simp]:
  "addAll [] m = m"
  "addAll (e # adds) m = addAll adds (addCents m (oma_orderId e) (centsOf (oma_amount e)))"
  by (simp_all add: addAll_def)

lemma addAll_keys:
  "distinct (map fst m) \<Longrightarrow> distinct (map fst (addAll adds m)) \<and>
   set (map fst (addAll adds m)) = set (map fst m) \<union> set (map oma_orderId adds)"
  by (induction adds arbitrary: m) (auto simp: addCents_distinct addCents_keys simp del: set_map)

lemma addAll_total: "keyed_total (\<lambda>c. c) (addAll adds m) = keyed_total (\<lambda>c. c) m + order_sum adds"
  by (induction adds arbitrary: m) (simp_all add: addCents_total)

lemma addAll_cents:
  "distinct (map oma_orderId adds) \<Longrightarrow> orElse (map_of (addAll adds m) k) 0 = orElse (map_of m k) 0 + cents_for adds k"
  by (induction adds arbitrary: m) (auto simp: map_of_addCents cents_for_other)

lemma addAll_nonneg:
  "\<forall>(k, c)\<in>set m. 0 \<le> c \<Longrightarrow> distinct (map fst m) \<Longrightarrow> \<forall>e\<in>set adds. 0 \<le> centsOf (oma_amount e) \<Longrightarrow>
   \<forall>(k, c)\<in>set (addAll adds m). 0 \<le> c"
proof (induction adds arbitrary: m)
  case (Cons e adds)
  have "0 \<le> orElse (map_of m (oma_orderId e)) 0"
    using Cons.prems(1) by (cases "map_of m (oma_orderId e)") (auto dest: map_of_SomeD)
  then have "\<forall>(k, c)\<in>set (addCents m (oma_orderId e) (centsOf (oma_amount e))). 0 \<le> c"
    unfolding addCents_def using Cons.prems
    by (intro keyed_all_update) auto
  with Cons show ?case by (simp add: addCents_distinct)
qed simp

lemma merge_unfold:
  assumes "amounts_ok cur" and "\<forall>e\<in>set adds. canonical (oma_amount e) \<and> 0 \<le> centsOf (oma_amount e)"
  shows "mergeRefundedOrderAmounts cur adds = orderMoneyAmounts (addAll adds (orderCents cur))"
proof -
  have "mapE (\<lambda>entry. bindE (moneyToCents (oma_amount entry)) (\<lambda>c. Inr (oma_orderId entry, c))) cur = Inr (orderCents cur)"
    using assms(1) by (induction cur) (auto simp: money_simps)
  moreover have "fold (\<lambda>(orderId, c) m. AList.update orderId c m) (orderCents cur) [] = orderCents cur"
    using assms(1) fold_update_new [of "orderCents cur" "[]"] by (simp add: amounts_ok_def)
  moreover have "foldE (\<lambda>totals addition. bindE (moneyToCents (oma_amount addition)) (\<lambda>c.
                 Inr (addCents totals (oma_orderId addition) c))) m adds = Inr (addAll adds m)" for m
    using assms(2) by (induction adds arbitrary: m) (auto simp: money_simps)
  ultimately show ?thesis by (simp add: mergeRefundedOrderAmounts_def)
qed

lemma merge_Inr:
  assumes cur: "amounts_ok cur" and adds: "amounts_ok adds"
  shows "mergeRefundedOrderAmounts cur adds = Inr ys \<Longrightarrow>
      amounts_ok ys \<and> order_sum ys = order_sum cur + order_sum adds \<and>
      (\<forall>k. cents_for ys k = cents_for cur k + cents_for adds k)"
    and "in_range (order_sum cur + order_sum adds) \<Longrightarrow> \<exists>ys. mergeRefundedOrderAmounts cur adds = Inr ys"
proof -
  let ?m = "addAll adds (orderCents cur)"
  have d: "distinct (map fst (orderCents cur))" using cur by (simp add: amounts_ok_def)
  have clean: "\<forall>k\<in>set (map fst ?m). clean_id k"
    using cur adds addAll_keys [OF d, of adds] by (auto simp: amounts_ok_def)
  have eq: "mergeRefundedOrderAmounts cur adds = orderMoneyAmounts ?m"
    using cur adds by (intro merge_unfold) (auto simp: amounts_ok_def)
  have total: "keyed_total (\<lambda>c. c) ?m = order_sum cur + order_sum adds"
    by (simp add: addAll_total order_sum_def)
  show "amounts_ok ys \<and> order_sum ys = order_sum cur + order_sum adds \<and>
      (\<forall>k. cents_for ys k = cents_for cur k + cents_for adds k)"
    if "mergeRefundedOrderAmounts cur adds = Inr ys"
  proof -
    from that have m: "orderMoneyAmounts ?m = Inr ys" by (simp add: eq)
    have "orderCents ys = ?m" by (rule orderCents_orderMoneyAmounts [OF m])
    then have "order_sum ys = keyed_total (\<lambda>c. c) ?m" "\<And>k. cents_for ys k = orElse (map_of ?m k) 0"
      by (simp_all add: order_sum_def cents_for_def)
    moreover have "distinct (map oma_orderId adds)" using adds by (simp add: amounts_ok_def)
    moreover have "amounts_ok ys" using orderMoneyAmounts_ok [OF m] addAll_keys [OF d, of adds] clean by blast
    ultimately show ?thesis using total by (simp add: addAll_cents cents_for_def)
  qed
  show "\<exists>ys. mergeRefundedOrderAmounts cur adds = Inr ys" if "in_range (order_sum cur + order_sum adds)"
  proof -
    have nonneg: "\<forall>(k, c)\<in>set ?m. 0 \<le> c"
      using cur adds by (intro addAll_nonneg d) (auto simp: orderCents_def amounts_ok_def)
    have "c \<le> order_sum cur + order_sum adds" if "(k, c) \<in> set ?m" for k c
      using that nonneg addAll_keys [OF d, of adds] total keyed_total_member [of ?m k c "\<lambda>c. c"]
      by auto
    with nonneg \<open>in_range _\<close> have "\<forall>(k, c)\<in>set ?m. 0 \<le> c \<and> in_range c"
      by (fastforce simp: in_range_def)
    then show ?thesis by (simp add: eq orderMoneyAmounts_Inr)
  qed
qed

end
