(* ===== verification/PaymentInvariant.thy ===== *)
theory PaymentInvariant
  imports PaymentFacts
begin

text \<open>
  The invariant of the payment aggregate. \<open>event_fits\<close> says what a decided event was checked for;
  such events apply, and keep the invariant.
\<close>

section \<open>The invariant\<close>

definition request_sum :: "PaymentState \<Rightarrow> int" where
  "request_sum s = sum_list (map (\<lambda>r. centsOf (pmq_amount r)) (py_refundRequests s))"

definition issued_sum :: "PaymentState \<Rightarrow> int" where
  "issued_sum s = sum_list (map (\<lambda>i. centsOf (pmi_amount i)) (py_issuedRefunds s))"

definition order_ids_ok :: "PaymentState \<Rightarrow> string list \<Rightarrow> bool" where
  "order_ids_ok s ks \<longleftrightarrow> ks \<noteq> [] \<and> distinct ks \<and> (\<forall>k\<in>set ks. clean_id k) \<and> set ks \<subseteq> set (py_orderIds s)"

definition positive_money :: "string \<Rightarrow> bool" where
  "positive_money a \<longleftrightarrow> canonical a \<and> 0 < centsOf a"

definition request_ok :: "PaymentState \<Rightarrow> PaymentRefundRequest \<Rightarrow> bool" where
  "request_ok s r \<longleftrightarrow> positive_money (pmq_amount r) \<and> order_ids_ok s (pmq_orderIds r)"

definition issued_ok :: "PaymentState \<Rightarrow> IssuedPaymentRefund \<Rightarrow> bool" where
  "issued_ok s i \<longleftrightarrow> positive_money (pmi_amount i) \<and> order_ids_ok s (pmi_orderIds i)"

text \<open>The amounts: what a payment of \<open>paid\<close> cents has paid back and reserved.\<close>

definition refund_ledger :: "PaymentState \<Rightarrow> int \<Rightarrow> bool" where
  "refund_ledger s paid \<longleftrightarrow>
     canonical (py_refundedAmount s) \<and> 0 \<le> centsOf (py_refundedAmount s) \<and> centsOf (py_refundedAmount s) \<le> paid \<and>
     amounts_ok (py_refundedOrderAmounts s) \<and>
     order_sum (py_refundedOrderAmounts s) = centsOf (py_refundedAmount s) \<and>
     issued_sum s = centsOf (py_refundedAmount s) \<and>
     (\<forall>k. cents_for (py_refundedOrderAmounts s) k \<le> cents_for (refundableCapsForState s) k) \<and>
     (\<forall>i\<in>set (py_issuedRefunds s). issued_ok s i) \<and>
     distinct (List.map_filter pmi_refundId (py_issuedRefunds s)) \<and>
     distinct (List.map_filter pmi_processorRefundReference (py_issuedRefunds s))"

definition request_ledger :: "PaymentState \<Rightarrow> int \<Rightarrow> bool" where
  "request_ledger s paid \<longleftrightarrow>
     (\<forall>r\<in>set (py_refundRequests s). request_ok s r) \<and> distinct (map pmq_refundId (py_refundRequests s)) \<and>
     request_sum s \<le> paid"

text \<open>The status says what the amounts say.\<close>

definition captured_status :: "PaymentStatus \<Rightarrow> bool" where
  "captured_status st \<longleftrightarrow> st \<in> {Captured, PartiallyRefunded, Refunded, Disputed}"

definition status_ledger :: "PaymentState \<Rightarrow> int \<Rightarrow> PaymentStatus \<Rightarrow> bool" where
  "status_ledger s paid st \<longleftrightarrow>
     (captured_status st \<longrightarrow> py_capturedAt s \<noteq> None) \<and>
     (st = PendingConfirmation \<or> st = PaymentCancelled \<longrightarrow> py_capturedAt s = None) \<and>
     (py_capturedAt s = None \<longrightarrow> py_issuedRefunds s = [] \<and> py_refundRequests s = []) \<and>
     (st = Captured \<longrightarrow> py_issuedRefunds s = []) \<and>
     (st = PartiallyRefunded \<longrightarrow> 0 < centsOf (py_refundedAmount s) \<and> centsOf (py_refundedAmount s) < paid) \<and>
     (st = Refunded \<longrightarrow> centsOf (py_refundedAmount s) = paid)"

definition created_inv :: "PaymentState \<Rightarrow> string \<Rightarrow> PaymentStatus \<Rightarrow> bool" where
  "created_inv s a st \<longleftrightarrow> positive_money a \<and>
     (\<forall>k\<in>set (py_orderIds s). clean_id k) \<and> distinct (py_orderIds s) \<and> amounts_ok (py_orderRefundCaps s) \<and>
     refund_ledger s (centsOf a) \<and> request_ledger s (centsOf a) \<and> status_ledger s (centsOf a) st"

definition payment_inv :: "PaymentState \<Rightarrow> bool" where
  "payment_inv s \<longleftrightarrow>
     (case (py_paymentId s, py_amount s, py_status s) of
        (None, _, _) \<Rightarrow> s = initialPaymentState
      | (Some _, Some a, Some st) \<Rightarrow> created_inv s a st
      | _ \<Rightarrow> False)"

lemma payment_inv_initial: "payment_inv initialPaymentState"
  by (simp add: payment_inv_def initialPaymentState_def)

lemma payment_created:
  assumes "payment_inv s" and "py_paymentId s = Some pid"
  obtains a st where "py_amount s = Some a" "py_status s = Some st" "created_inv s a st"
  using assms by (auto simp: payment_inv_def split: option.splits)

lemma payment_not_created: "payment_inv s \<Longrightarrow> py_paymentId s = None \<Longrightarrow> s = initialPaymentState"
  by (simp add: payment_inv_def)

lemma caps_of_amount:
  "\<forall>k\<in>set ks. clean_id k \<Longrightarrow> distinct ks \<Longrightarrow> positive_money a \<Longrightarrow>
   amounts_ok (map (\<lambda>k. \<lparr>oma_orderId = k, oma_amount = a\<rparr>) ks)"
  by (induction ks) (auto simp: positive_money_def)

lemma caps_ok:
  assumes "amounts_ok (py_orderRefundCaps s)" and "\<forall>k\<in>set (py_orderIds s). clean_id k"
    and "distinct (py_orderIds s)" and "\<forall>a. py_amount s = Some a \<longrightarrow> positive_money a"
  shows "amounts_ok (refundableCapsForState s)"
  using assms by (auto simp: refundableCapsForState_def caps_of_amount split: option.splits)

lemma created_caps:
  "created_inv s a st \<Longrightarrow> py_amount s = Some a \<Longrightarrow> amounts_ok (refundableCapsForState s)"
  by (rule caps_ok) (auto simp: created_inv_def)


section \<open>What decided events were checked for\<close>

definition requested_for :: "PaymentState \<Rightarrow> string \<Rightarrow> int" where
  "requested_for s k =
     sum_list (map (\<lambda>r. centsOf (pmq_amount r)) (filter (\<lambda>r. k \<in> set (pmq_orderIds r)) (py_refundRequests s)))"

text \<open>What an order has left to refund, its open requests counted in full.\<close>

definition unreserved :: "PaymentState \<Rightarrow> string \<Rightarrow> int" where
  "unreserved s k =
     max 0 (cents_for (refundableCapsForState s) k - cents_for (py_refundedOrderAmounts s) k - requested_for s k)"

definition request_fits :: "PaymentState \<Rightarrow> PaymentRefundRequest \<Rightarrow> bool" where
  "request_fits s r \<longleftrightarrow> request_ok s r \<and> pmq_refundId r \<notin> set (map pmq_refundId (py_refundRequests s)) \<and>
     (\<exists>a. py_amount s = Some a \<and> centsOf (py_refundedAmount s) + request_sum s + centsOf (pmq_amount r) \<le> centsOf a) \<and>
     centsOf (pmq_amount r) \<le> sum_list (map (unreserved s) (pmq_orderIds r))"

definition refund_fits :: "PaymentState \<Rightarrow> PaymentRefunded \<Rightarrow> bool" where
  "refund_fits s d \<longleftrightarrow>
     findIssuedRefund s (pre_refundId d) (pre_processorRefundReference d) = None \<and>
     positive_money (pre_amount d) \<and> order_ids_ok s (pre_orderIds d) \<and> canonical (pre_refundedAmount d) \<and>
     centsOf (pre_refundedAmount d) = centsOf (py_refundedAmount s) + centsOf (pre_amount d) \<and>
     (\<exists>a. py_amount s = Some a \<and> centsOf (pre_refundedAmount d) \<le> centsOf a) \<and>
     (\<exists>adds ys. pre_orderRefundAmounts d = Some adds \<and> additions_ok s (pre_orderIds d) adds \<and>
        order_sum adds = centsOf (pre_amount d) \<and> pre_refundedOrderAmounts d = Some ys \<and>
        mergeRefundedOrderAmounts (py_refundedOrderAmounts s) adds = Inr ys)"

definition created_fits :: "PaymentCreated \<Rightarrow> bool" where
  "created_fits d \<longleftrightarrow> positive_money (pce_amount d) \<and> distinct (pce_orderIds d) \<and>
     (\<forall>k\<in>set (pce_orderIds d). clean_id k) \<and> (\<exists>caps. pce_orderRefundCaps d = Some caps \<and> amounts_ok caps)"

fun event_fits :: "PaymentState \<Rightarrow> PaymentEvent \<Rightarrow> bool" where
  "event_fits s (PaymentCreatedEvent d) \<longleftrightarrow> py_paymentId s = None \<and> created_fits d"
| "event_fits s (PaymentCapturedEvent t f cat) \<longleftrightarrow> py_status s = Some PendingConfirmation"
| "event_fits s (PaymentFailedEvent t code msg fat) \<longleftrightarrow>
     py_status s \<noteq> Some PaymentFailed \<and> py_status s \<noteq> Some Captured \<and> py_status s \<noteq> Some PaymentCancelled"
| "event_fits s (PaymentCancelledEvent pid xat) \<longleftrightarrow> py_status s \<noteq> Some PaymentCancelled \<and> py_capturedAt s = None"
| "event_fits s (PaymentRefundRequestedEvent pid r rat) \<longleftrightarrow>
     (py_status s = Some Captured \<or> py_status s = Some PartiallyRefunded) \<and> request_fits s r"
| "event_fits s (PaymentRefundedEvent d) \<longleftrightarrow> refundablePayment s \<and> refund_fits s d"
| "event_fits s (PaymentDisputedEvent d) \<longleftrightarrow> refundablePayment s"
| "event_fits s (PaymentAuthorizedEvent pid st aat) \<longleftrightarrow> py_capturedAt s = None \<and> py_status s \<noteq> Some PaymentCancelled"
| "event_fits s e \<longleftrightarrow> True"

fun creates :: "PaymentEvent \<Rightarrow> bool" where
  "creates (PaymentCreatedEvent d) = True"
| "creates e = False"

definition payment_batch :: "PaymentState \<Rightarrow> PaymentEvent list \<Rightarrow> bool" where
  "payment_batch s es \<longleftrightarrow> es = [] \<or>
     (\<exists>e. (es = [e] \<or> (\<exists>f. es = [e, PaymentsCsatOutcomeFactEvent f])) \<and> event_fits s e \<and>
        (\<not> creates e \<longrightarrow> py_paymentId s \<noteq> None))"

lemma payment_batch_single [simp]:
  "payment_batch s []"
  "event_fits s e \<Longrightarrow> \<not> creates e \<longrightarrow> py_paymentId s \<noteq> None \<Longrightarrow> payment_batch s [e]"
  by (auto simp: payment_batch_def)


section \<open>Money of the payments context on canonical amounts\<close>

lemma paymentsSubtract_canonical:
  "canonical a \<Longrightarrow> canonical b \<Longrightarrow> paymentsSubtractMoney a b = centsToSignedMoneyAmount (JBig (centsOf a - centsOf b))"
  by (auto elim!: canonicalE simp: paymentsSubtractMoney_def money_simps)

lemma sumMoneyAmounts_canonical:
  "\<forall>a\<in>set xs. canonical a \<and> 0 \<le> centsOf a \<Longrightarrow>
   sumMoneyAmounts xs = centsToMoneyAmount (JBig (sum_list (map centsOf xs)))"
proof -
  assume ok: "\<forall>a\<in>set xs. canonical a \<and> 0 \<le> centsOf a"
  have "foldE (\<lambda>sum amount. bindE (moneyToCents amount) (\<lambda>c. Inr (sum + c))) n xs = Inr (n + sum_list (map centsOf xs))" for n
    using ok by (induction xs arbitrary: n) (auto simp: money_simps)
  then show ?thesis by (simp add: sumMoneyAmounts_def)
qed

lemma paymentsCompare_canonical:
  "canonical a \<Longrightarrow> canonical b \<Longrightarrow>
   paymentsCompareMoney a b = Inr (if centsOf a < centsOf b then - 1 else if centsOf b < centsOf a then 1 else 0)"
  by (simp add: paymentsCompareMoney_def compareMoneyAmounts_canonical)

lemma paymentsMoneyAmount_positive: "paymentsMoneyAmount v False f = Inr a \<Longrightarrow> positive_money a"
  by (auto simp: positive_money_def dest: paymentsMoneyAmount_Inr)



section \<open>Decided batches\<close>

lemma normalized_order_ids:
  "normalizeOrderIds xs = Inr ks \<Longrightarrow> ks \<noteq> [] \<and> distinct ks \<and> (\<forall>k\<in>set ks. clean_id k)"
  by (auto simp: normalizeOrderIds_Inr clean_id_def js_unique_Nil_iff)

lemma belonging_order_ids:
  "normalizeOrderIds xs = Inr ks \<Longrightarrow> refundOrdersBelongToPayment s ks \<Longrightarrow> order_ids_ok s ks"
  using normalized_order_ids by (auto simp: order_ids_ok_def refundOrdersBelongToPayment_def)

lemma payment_decided_create:
  "decideCreatePayment h s c = Inr es \<Longrightarrow> payment_batch s es"
  unfolding decideCreatePayment_def
  by (auto simp: res_simps created_fits_def dest!: normalized_order_ids paymentsMoneyAmount_positive
      dest: normalizeOrderMoneyAmounts_ok intro!: payment_batch_single)

lemma created_statuses:
  assumes "payment_inv s" and "py_paymentId s = Some pid"
  shows "py_status s \<in> Some ` {PendingConfirmation, Captured, PaymentFailed, PaymentCancelled, PartiallyRefunded, Refunded, Disputed}"
proof -
  obtain st where "py_status s = Some st" using payment_created [OF assms] by blast
  then show ?thesis by (cases st) simp_all
qed

lemma payment_decided_capture:
  assumes "payment_inv s" and "decidePaymentCapture h s st cat = Inr es"
  shows "payment_batch s es"
proof (cases "py_paymentId s")
  case (Some pid)
  with created_statuses [OF assms(1) Some] assms(2) show ?thesis
    by (auto simp: decidePaymentCapture_def res_simps payment_batch_def split: if_splits)
qed (use assms(2) in \<open>simp add: decidePaymentCapture_def\<close>)

lemma decided_simple:
  assumes "payment_inv s"
  shows "decidePaymentAuthorization h s st aat = Inr es \<Longrightarrow> payment_batch s es"
    and "decidePaymentFailure h s st code msg fat = Inr es \<Longrightarrow> payment_batch s es"
    and "decideCancelPayment h s xat = Inr es \<Longrightarrow> payment_batch s es"
    and "decideEvidenceSubmitted h s did st summ sat = Inr es \<Longrightarrow> payment_batch s es"
    and "decideEvidenceUnavailable h s did rsn summ sat = Inr es \<Longrightarrow> payment_batch s es"
    and "decideEarlyFraudWarning h s sig ft cd = Inr es \<Longrightarrow> payment_batch s es"
    and "decideFraudReviewOpened h s sig why = Inr es \<Longrightarrow> payment_batch s es"
    and "decideFraudReviewClosed h s sig why oc = Inr es \<Longrightarrow> payment_batch s es"
    and "decideLiabilityShift h s ls = Inr es \<Longrightarrow> payment_batch s es"
  by (auto simp: decidePaymentAuthorization_def decidePaymentFailure_def decideCancelPayment_def
      decideEvidenceSubmitted_def decideEvidenceUnavailable_def decideEarlyFraudWarning_def
      decideFraudReviewOpened_def decideFraudReviewClosed_def decideLiabilityShift_def Let_def res_simps
      split: option.splits if_splits)

lemma decided_dispute: "decidePaymentDispute h s c = Inr es \<Longrightarrow> payment_batch s es"
  unfolding decidePaymentDispute_def Let_def
  by (cases "py_paymentId s") (auto simp: res_simps simp del: option.case_eq_if split: if_splits)

text \<open>What the request of a refund may still take: the payment's rest, and the rest of the orders.\<close>

lemma ledger_canonical:
  assumes "created_inv s a st"
  shows "canonical a" "canonical (py_refundedAmount s)" "\<forall>r\<in>set (py_refundRequests s). canonical (pmq_amount r) \<and> 0 \<le> centsOf (pmq_amount r)"
    "0 \<le> request_sum s" "in_range (request_sum s)" "centsOf a \<le> MONEY_AMOUNT_MAX_CENTS"
proof -
  from assms show c: "canonical a" "canonical (py_refundedAmount s)"
    and r: "\<forall>r\<in>set (py_refundRequests s). canonical (pmq_amount r) \<and> 0 \<le> centsOf (pmq_amount r)"
    by (auto simp: created_inv_def positive_money_def refund_ledger_def request_ledger_def request_ok_def)
  show n: "0 \<le> request_sum s" unfolding request_sum_def using r by (intro sum_list_nonneg) auto
  show m: "centsOf a \<le> MONEY_AMOUNT_MAX_CENTS" using canonical_in_range [OF c(1)] by (auto simp: in_range_def)
  show "in_range (request_sum s)" using assms n m by (auto simp: created_inv_def request_ledger_def in_range_def)
qed

lemma requested_for_bounds:
  assumes "created_inv s a st"
  shows "0 \<le> requested_for s k" and "requested_for s k \<le> request_sum s"
proof -
  note L = ledger_canonical [OF assms]
  show "0 \<le> requested_for s k" unfolding requested_for_def using L(3) by (intro sum_list_nonneg) auto
  have "sum_list (map (\<lambda>r. centsOf (pmq_amount r)) (filter P xs)) \<le> sum_list (map (\<lambda>r. centsOf (pmq_amount r)) xs)"
    if "\<forall>r\<in>set xs. 0 \<le> centsOf (pmq_amount r)" for P xs
    using that by (induction xs) (auto intro: add_increasing)
  then show "requested_for s k \<le> request_sum s"
    unfolding requested_for_def request_sum_def using L(3) by auto
qed

lemma remaining_for_order:
  assumes inv: "created_inv s a st" "py_amount s = Some a"
    and new: "rid \<notin> set (map pmq_refundId (py_refundRequests s))"
  shows "\<exists>t. remainingRefundableAmountForOrder s k (Some rid) = Inr t \<and> canonical t \<and> centsOf t = unreserved s k"
proof -
  note L = ledger_canonical [OF inv(1)]
  note B = requested_for_bounds [OF inv(1), of k]
  have R: "amounts_ok (py_refundedOrderAmounts s)" using inv(1) by (simp add: created_inv_def refund_ledger_def)
  note caps = created_caps [OF inv]
  have same: "filter (\<lambda>r. Some (pmq_refundId r) \<noteq> Some rid \<and> k \<in> set (pmq_orderIds r)) (py_refundRequests s) =
      filter (\<lambda>r. k \<in> set (pmq_orderIds r)) (py_refundRequests s)"
    by (rule filter_cong) (use new in auto)
  have "in_range (requested_for s k)" using B L(4,5) by (auto simp: in_range_def)
  then have "requestedAmountForOrder s k (Some rid) = Inr (formatCents (requested_for s k))"
    unfolding requestedAmountForOrder_def same
    using sumMoneyAmounts_canonical [of "map pmq_amount (filter (\<lambda>r. k \<in> set (pmq_orderIds r)) (py_refundRequests s))"]
      L(3) B(1) by (auto simp: requested_for_def comp_def money_simps)
  moreover have "in_range (cents_for (refundableCapsForState s) k)"
    using canonical_in_range moneyForOrder_cents [OF caps, of k] by metis
  then have "in_range (unreserved s k)"
    using B(1) cents_for_nonneg [OF R, of k] cents_for_nonneg [OF caps, of k]
    by (auto simp: unreserved_def in_range_def max_def)
  ultimately show ?thesis
    using B(1) \<open>in_range (requested_for s k)\<close>
    by (auto simp: remainingRefundableAmountForOrder_def moneyForOrder_read [OF caps] moneyForOrder_read [OF R]
        money_simps Let_def unreserved_def max_def)
qed

lemma remaining_for_orders:
  assumes inv: "created_inv s a st" "py_amount s = Some a"
    and new: "rid \<notin> set (map pmq_refundId (py_refundRequests s))"
    and rem: "remainingRefundableAmountForOrders s ks (Some rid) = Inr t"
  shows "canonical t \<and> centsOf t = sum_list (map (unreserved s) ks)"
proof -
  have each: "\<exists>ts. mapE (\<lambda>k. remainingRefundableAmountForOrder s k (Some rid)) ks = Inr ts \<and>
      (\<forall>t\<in>set ts. canonical t \<and> 0 \<le> centsOf t) \<and> map centsOf ts = map (unreserved s) ks"
  proof (induction ks)
    case (Cons k ks)
    from remaining_for_order [OF inv new, of k] obtain t where
      "remainingRefundableAmountForOrder s k (Some rid) = Inr t" "canonical t" "centsOf t = unreserved s k" by blast
    with Cons.IH show ?case by (auto simp: unreserved_def)
  qed simp
  then obtain ts where ts: "mapE (\<lambda>k. remainingRefundableAmountForOrder s k (Some rid)) ks = Inr ts"
    "\<forall>t\<in>set ts. canonical t \<and> 0 \<le> centsOf t" "map centsOf ts = map (unreserved s) ks" by blast
  with rem show ?thesis
    using sumMoneyAmounts_canonical [OF ts(2)]
    by (auto simp: remainingRefundableAmountForOrders_def money_simps split: if_splits)
qed

lemma payment_decided_request:
  assumes inv: "payment_inv s" and dec: "decideRequestPaymentRefund h s c = Inr es"
  shows "payment_batch s es"
proof (cases "py_paymentId s")
  case (Some pid)
  then obtain a st where created: "py_amount s = Some a" "py_status s = Some st" "created_inv s a st"
    by (rule payment_created [OF inv])
  note L = ledger_canonical [OF created(3)]
  show ?thesis
  proof (cases "find (\<lambda>request. pmq_refundId request = rqp_refundId c) (py_refundRequests s)")
    case (Some r)
    with dec \<open>py_paymentId s = Some pid\<close> have "es = []"
      by (auto simp: decideRequestPaymentRefund_def res_simps)
    then show ?thesis by simp
  next
    case None
    with dec \<open>py_paymentId s = Some pid\<close> obtain ks x d t rest sign left sign' rat where
      st: "py_status s = Some Captured \<or> py_status s = Some PartiallyRefunded"
      and ks: "normalizeOrderIds (rqp_orderIds c) = Inr ks" "refundOrdersBelongToPayment s ks"
      and x: "paymentsMoneyAmount (rqp_amount c) False ''Refund amount'' = Inr x"
      and d: "paymentsSubtractMoney a (py_refundedAmount s) = Inr d"
      and t: "sumMoneyAmounts (map pmq_amount (py_refundRequests s)) = Inr t"
      and rest: "paymentsSubtractMoney d t = Inr rest"
      and sign: "paymentsCompareMoney x rest = Inr sign" "sign \<le> 0"
      and left: "remainingRefundableAmountForOrders s ks (Some (rqp_refundId c)) = Inr left"
        "paymentsCompareMoney x left = Inr sign'" "sign' \<le> 0"
      and es: "es = [PaymentRefundRequestedEvent pid
              \<lparr>pmq_refundId = rqp_refundId c, pmq_orderIds = ks, pmq_amount = x\<rparr> rat]"
      by (auto simp: decideRequestPaymentRefund_def res_simps created(1))
    have new: "rqp_refundId c \<notin> set (map pmq_refundId (py_refundRequests s))"
      using None by (auto simp: find_None_iff)
    note rem = remaining_for_orders [OF created(3,1) new left(1)]
    have d': "canonical d" "centsOf d = centsOf a - centsOf (py_refundedAmount s)"
      using d paymentsSubtract_canonical [OF L(1,2)] by (auto simp: money_simps split: if_splits)
    have t': "canonical t" "centsOf t = request_sum s"
      using t sumMoneyAmounts_canonical [of "map pmq_amount (py_refundRequests s)"] L(3)
      by (auto simp: money_simps request_sum_def comp_def split: if_splits)
    have rest': "canonical rest" "centsOf rest = centsOf d - centsOf t"
      using rest paymentsSubtract_canonical [OF d'(1) t'(1)] by (auto simp: money_simps split: if_splits)
    note pos = paymentsMoneyAmount_positive [OF x]
    have "centsOf x \<le> centsOf rest"
      using sign paymentsCompare_canonical [OF _ rest'(1), of x] pos by (auto simp: positive_money_def split: if_splits)
    then have "request_fits s \<lparr>pmq_refundId = rqp_refundId c, pmq_orderIds = ks, pmq_amount = x\<rparr>"
      using belonging_order_ids [OF ks] pos new d'(2) t'(2) rest'(2) created(1) rem left(2,3)
        paymentsCompare_canonical [of x left]
      by (auto simp: request_fits_def request_ok_def positive_money_def split: if_splits)
    then show ?thesis using st \<open>py_paymentId s = Some pid\<close> by (simp add: es)
  qed
qed (use dec in \<open>simp add: decideRequestPaymentRefund_def\<close>)

lemma decided_refund:
  assumes inv: "payment_inv s" and dec: "decideRecordPaymentRefund h s c = Inr es"
  shows "payment_batch s es"
proof (cases "py_paymentId s")
  case (Some pid)
  then obtain a st where created: "py_amount s = Some a" "py_status s = Some st" "created_inv s a st"
    by (rule payment_created [OF inv])
  note L = ledger_canonical [OF created(3)]
  have R: "0 \<le> centsOf (py_refundedAmount s)" "amounts_ok (py_refundedOrderAmounts s)"
    using created(3) by (simp_all add: created_inv_def refund_ledger_def)
  show ?thesis
  proof (cases "es = []")
    case False
    with dec Some obtain raw x ks where
      st: "refundablePayment s" and raw: "rpr_amount c = Some raw"
      and x: "paymentsMoneyAmount raw False ''Refund amount'' = Inr x"
      and ks: "normalizeOrderIds (orElse (rpr_orderIds c) []) = Inr ks" "refundOrdersBelongToPayment s ks"
      and new: "findIssuedRefund s (rpr_refundId c) (normalizeOptionalText (rpr_processorRefundReference c)) = None"
      and nr: "newRefund h s pid c (rpr_refundId c) (normalizeOptionalText (rpr_processorRefundReference c)) ks x = Inr es"
      by (auto simp: decideRecordPaymentRefund_def res_simps Let_def split: option.splits if_splits)
    note pos = paymentsMoneyAmount_positive [OF x]
    from nr False obtain cum sign sign2 m where
      cum: "cumulativeRefund s (rpr_refundedAmount c) x = Inr cum"
      and le: "paymentsCompareMoney cum a = Inr sign" "sign \<le> 0"
      and m: "(case truthyText (rpr_refundedAmount c) of
              None \<Rightarrow> Inr True
            | Some _ \<Rightarrow>
                bindE (paymentsSubtractMoney cum (py_refundedAmount s)) (\<lambda>delta.
                bindE (paymentsCompareMoney delta x) (\<lambda>sign. Inr (sign = 0)))) = Inr True"
      and ev: "refundedEvent h s pid c (rpr_refundId c) (normalizeOptionalText (rpr_processorRefundReference c)) ks x cum = Inr es"
      by (auto simp: newRefund_def res_simps created(1) split: if_splits)
    have c1: "canonical cum"
    proof (cases "truthyText (rpr_refundedAmount c)")
      case None
      with cum show ?thesis
        using paymentsAddMoney_canonical [OF L(2) _ R(1), of x] pos
        by (auto simp: cumulativeRefund_def positive_money_def money_simps split: if_splits)
    qed (use cum in \<open>auto simp: cumulativeRefund_def dest: paymentsMoneyAmount_Inr\<close>)
    have c2: "centsOf cum = centsOf (py_refundedAmount s) + centsOf x"
    proof (cases "truthyText (rpr_refundedAmount c)")
      case None
      with cum show ?thesis
        using paymentsAddMoney_canonical [OF L(2) _ R(1), of x] pos
        by (auto simp: cumulativeRefund_def positive_money_def money_simps split: if_splits)
    next
      case (Some t)
      with m obtain delta where delta: "paymentsSubtractMoney cum (py_refundedAmount s) = Inr delta"
        "paymentsCompareMoney delta x = Inr 0" by (auto simp: res_simps)
      then have "canonical delta" "centsOf delta = centsOf cum - centsOf (py_refundedAmount s)"
        using paymentsSubtract_canonical [OF c1 L(2)] by (auto simp: money_simps split: if_splits)
      with delta(2) pos show ?thesis
        by (auto simp: paymentsCompare_canonical positive_money_def split: if_splits)
    qed
    have "centsOf cum \<le> centsOf a"
      using le by (auto simp: paymentsCompare_canonical c1 L(1) split: if_splits)
    moreover obtain adds ys d where adds: "allocateRefundAmountToOrders s ks x = Inr adds"
      "mergeRefundedOrderAmounts (py_refundedOrderAmounts s) adds = Inr ys"
      and d: "es = [PaymentRefundedEvent d]" "pre_refundId d = rpr_refundId c"
        "pre_processorRefundReference d = normalizeOptionalText (rpr_processorRefundReference c)"
        "pre_amount d = x" "pre_orderIds d = ks" "pre_refundedAmount d = cum" "pre_orderRefundAmounts d = Some adds"
        "pre_refundedOrderAmounts d = Some ys"
      using ev by (auto simp: refundedEvent_def res_simps)
    moreover have "additions_ok s ks adds \<and> order_sum adds = centsOf x"
      using allocate_Inr(2) [OF created_caps [OF created(3,1)] R(2) _ _ _ adds(1)] pos normalized_order_ids [OF ks(1)]
      by (auto simp: positive_money_def)
    ultimately have "refund_fits s d"
      using new pos belonging_order_ids [OF ks] c1 c2 created(1) by (auto simp: refund_fits_def)
    with st Some show ?thesis by (simp add: d(1))
  qed simp
qed (use dec in \<open>simp add: decideRecordPaymentRefund_def\<close>)

lemma decided_payment_batch:
  assumes "payment_inv s" and "decidePayment h s c = Inr es"
  shows "payment_batch s es"
  using assms
  by (cases c) (auto intro: payment_decided_create payment_decided_capture decided_simple decided_dispute payment_decided_request decided_refund)

end
