(* ===== verification/PaymentLife.thy ===== *)
theory PaymentLife
  imports PaymentInvariant
begin

text \<open>
  Decided events apply and keep the invariant, and the life cycle of a payment that its histories follow.
\<close>

section \<open>The life cycle\<close>

text \<open>A phase is the status, none before the creation, and whether the payment has been captured.\<close>

type_synonym payment_phase = "PaymentStatus option \<times> bool"

fun moves_status :: "PaymentEvent \<Rightarrow> bool" where
  "moves_status (PaymentCreatedEvent d) = True"
| "moves_status (PaymentCapturedEvent t f cat) = True"
| "moves_status (PaymentFailedEvent t code msg fat) = True"
| "moves_status (PaymentCancelledEvent pid xat) = True"
| "moves_status (PaymentRefundRequestedEvent pid r rat) = True"
| "moves_status (PaymentRefundedEvent d) = True"
| "moves_status (PaymentDisputedEvent d) = True"
| "moves_status e = False"

inductive payment_step :: "payment_phase \<Rightarrow> PaymentEvent \<Rightarrow> payment_phase \<Rightarrow> bool" where
  step_create: "payment_step (None, False) (PaymentCreatedEvent d) (Some PendingConfirmation, False)"
| step_capture:
    "payment_step (Some PendingConfirmation, False) (PaymentCapturedEvent t f cat) (Some Captured, True)"
| step_fail:
    "st \<noteq> Captured \<Longrightarrow> st \<noteq> PaymentCancelled \<Longrightarrow> st \<noteq> PaymentFailed \<Longrightarrow>
     payment_step (Some st, c) (PaymentFailedEvent t code msg fat) (Some PaymentFailed, c)"
| step_cancel:
    "st = PendingConfirmation \<or> st = PaymentFailed \<Longrightarrow>
     payment_step (Some st, False) (PaymentCancelledEvent pid xat) (Some PaymentCancelled, False)"
| step_request:
    "st = Captured \<or> st = PartiallyRefunded \<Longrightarrow>
     payment_step (Some st, True) (PaymentRefundRequestedEvent pid r rat) (Some st, True)"
| step_refund:
    "captured_status st \<Longrightarrow> st' = PartiallyRefunded \<or> st' = Refunded \<Longrightarrow>
     payment_step (Some st, True) (PaymentRefundedEvent d) (Some st', True)"
| step_dispute:
    "captured_status st \<Longrightarrow> payment_step (Some st, True) (PaymentDisputedEvent d) (Some Disputed, True)"
| step_other: "\<not> moves_status e \<Longrightarrow> payment_step (Some st, c) e (Some st, c)"

lemma payment_step_started:
  assumes "payment_step p e q"
  obtains st c where "q = (Some st, c)"
  using assms by (cases rule: payment_step.cases) blast+

definition payment_phase :: "PaymentState \<Rightarrow> payment_phase" where
  "payment_phase s = (py_status s, py_capturedAt s \<noteq> None)"


section \<open>Events apply and keep the invariant\<close>

lemmas ledger_defs = created_inv_def refund_ledger_def request_ledger_def status_ledger_def request_sum_def
  issued_sum_def

lemma item_ok_cong:
  assumes "py_orderIds s' = py_orderIds s"
  shows "request_ok s' = request_ok s" and "issued_ok s' = issued_ok s" and "order_ids_ok s' = order_ids_ok s"
  by (simp_all add: assms request_ok_def issued_ok_def order_ids_ok_def fun_eq_iff)

lemma refundable_caps_cong:
  assumes "py_orderIds s' = py_orderIds s" "py_orderRefundCaps s' = py_orderRefundCaps s" "py_amount s' = py_amount s"
  shows "refundableCapsForState s' = refundableCapsForState s"
  unfolding refundableCapsForState_def assms ..

lemma created_inv_cong:
  assumes "py_orderIds s' = py_orderIds s" "py_orderRefundCaps s' = py_orderRefundCaps s" "py_amount s' = py_amount s"
    "py_refundedAmount s' = py_refundedAmount s" "py_refundedOrderAmounts s' = py_refundedOrderAmounts s"
    "py_refundRequests s' = py_refundRequests s" "py_issuedRefunds s' = py_issuedRefunds s"
    "py_capturedAt s' = py_capturedAt s"
  shows "created_inv s' a st = created_inv s a st"
  unfolding ledger_defs refundable_caps_cong [OF assms(1-3)] item_ok_cong [OF assms(1)] assms ..

lemma payment_inv_created [simp]:
  "py_paymentId s = Some pid \<Longrightarrow> py_amount s = Some a \<Longrightarrow> py_status s = Some st \<Longrightarrow>
   payment_inv s \<longleftrightarrow> created_inv s a st"
  by (simp add: payment_inv_def)

text \<open>The statuses that only the events which move the status can change.\<close>

lemma created_inv_status:
  "created_inv s a st \<Longrightarrow> status_ledger s (centsOf a) st' \<Longrightarrow> created_inv s a st'"
  by (simp add: created_inv_def)

lemma applies_created:
  assumes "created_fits d"
  shows "\<exists>s'. evolvePayment s (PaymentCreatedEvent d) = Inr s' \<and> payment_inv s' \<and>
    payment_phase s' = (Some PendingConfirmation, False)"
proof -
  from assms obtain caps where caps: "pce_orderRefundCaps d = Some caps" "amounts_ok caps"
    by (auto simp: created_fits_def)
  then obtain s' where s': "evolvePayment s (PaymentCreatedEvent d) = Inr s'"
    "py_paymentId s' = Some (pce_paymentId d)" "py_amount s' = Some (pce_amount d)"
    "py_status s' = Some PendingConfirmation" "py_capturedAt s' = None" "py_orderIds s' = pce_orderIds d"
    "py_orderRefundCaps s' = caps" "py_refundedAmount s' = ''0.00''" "py_refundedOrderAmounts s' = []"
    "py_refundRequests s' = []" "py_issuedRefunds s' = []"
    by (auto simp: evolvePaymentCreated_def normalizeOrderMoneyAmounts_id initialPaymentState_def)
  have "amounts_ok (refundableCapsForState s')"
    by (rule caps_ok) (use assms caps s' in \<open>auto simp: created_fits_def\<close>)
  then have "0 \<le> cents_for (refundableCapsForState s') k" for k by (rule cents_for_nonneg)
  with s' assms caps have "created_inv s' (pce_amount d) PendingConfirmation"
    by (auto simp: ledger_defs created_fits_def positive_money_def captured_status_def)
  with s' show ?thesis by (simp add: payment_phase_def)
qed

text \<open>An event that changes no amount, for the status it leads to.\<close>

lemma applies_keeping:
  assumes "payment_inv s" and "py_paymentId s = Some pid" and "evolvePayment s e = Inr s'"
    and "py_paymentId s' = py_paymentId s" "py_orderIds s' = py_orderIds s" "py_orderRefundCaps s' = py_orderRefundCaps s"
    "py_amount s' = py_amount s" "py_refundedAmount s' = py_refundedAmount s"
    "py_refundedOrderAmounts s' = py_refundedOrderAmounts s" "py_refundRequests s' = py_refundRequests s"
    "py_issuedRefunds s' = py_issuedRefunds s" "py_capturedAt s' = py_capturedAt s"
    and "\<And>a st. py_amount s = Some a \<Longrightarrow> py_status s = Some st \<Longrightarrow> created_inv s a st \<Longrightarrow>
       \<exists>st'. py_status s' = Some st' \<and> status_ledger s (centsOf a) st' \<and>
         payment_step (payment_phase s) e (Some st', py_capturedAt s \<noteq> None)"
  shows "\<exists>s'. evolvePayment s e = Inr s' \<and> payment_inv s' \<and> payment_step (payment_phase s) e (payment_phase s')"
proof -
  from payment_created [OF assms(1,2)] obtain a st where
    s: "py_amount s = Some a" "py_status s = Some st" "created_inv s a st" by blast
  from assms(13) [OF this] obtain st' where st': "py_status s' = Some st'" "status_ledger s (centsOf a) st'"
    "payment_step (payment_phase s) e (Some st', py_capturedAt s \<noteq> None)" by blast
  have "created_inv s a st'" using s(3) st'(2) by (simp add: created_inv_def)
  then have "created_inv s' a st'" by (simp only: created_inv_cong [OF assms(5-12)])
  with assms(2,3,4,7,12) s(1) st' show ?thesis by (simp add: payment_phase_def)
qed

lemma applies_other:
  assumes "payment_inv s" and "py_paymentId s = Some pid" and "\<not> moves_status e"
  shows "\<exists>s'. evolvePayment s e = Inr s' \<and> payment_inv s' \<and> payment_step (payment_phase s) e (payment_phase s')"
proof -
  have "\<exists>s'. evolvePayment s e = Inr s' \<and> py_paymentId s' = py_paymentId s \<and> py_orderIds s' = py_orderIds s \<and>
      py_orderRefundCaps s' = py_orderRefundCaps s \<and> py_amount s' = py_amount s \<and>
      py_refundedAmount s' = py_refundedAmount s \<and> py_refundedOrderAmounts s' = py_refundedOrderAmounts s \<and>
      py_refundRequests s' = py_refundRequests s \<and> py_issuedRefunds s' = py_issuedRefunds s \<and>
      py_capturedAt s' = py_capturedAt s \<and> py_status s' = py_status s"
    using assms(3) by (cases e) (simp_all add: evolveEvidence_def evolveFraudReview_def evolveLiabilityShift_def)
  then obtain s' where s': "evolvePayment s e = Inr s'" "py_paymentId s' = py_paymentId s" "py_orderIds s' = py_orderIds s"
      "py_orderRefundCaps s' = py_orderRefundCaps s" "py_amount s' = py_amount s"
      "py_refundedAmount s' = py_refundedAmount s" "py_refundedOrderAmounts s' = py_refundedOrderAmounts s"
      "py_refundRequests s' = py_refundRequests s" "py_issuedRefunds s' = py_issuedRefunds s"
      "py_capturedAt s' = py_capturedAt s" "py_status s' = py_status s" by blast
  show ?thesis
    by (rule applies_keeping [OF assms(1,2) s'(1-10)])
      (use s'(11) assms(3) in \<open>auto simp: created_inv_def payment_phase_def intro: step_other\<close>)
qed

lemma applies_captured:
  assumes "payment_inv s" and "py_paymentId s = Some pid" and "event_fits s (PaymentCapturedEvent t f cat)"
  shows "\<exists>s'. evolvePayment s (PaymentCapturedEvent t f cat) = Inr s' \<and> payment_inv s' \<and>
    payment_step (payment_phase s) (PaymentCapturedEvent t f cat) (payment_phase s')"
proof -
  from payment_created [OF assms(1,2)] obtain a st where s: "py_amount s = Some a" "py_status s = Some st" "created_inv s a st"
    by blast
  with assms(3) have "st = PendingConfirmation" by simp
  with s(3) have pending: "py_capturedAt s = None" "py_issuedRefunds s = []" "py_refundRequests s = []"
    by (auto simp: created_inv_def status_ledger_def)
  obtain s' where s': "evolvePayment s (PaymentCapturedEvent t f cat) = Inr s'" "py_paymentId s' = Some pid"
    "py_orderIds s' = py_orderIds s" "py_orderRefundCaps s' = py_orderRefundCaps s" "py_amount s' = py_amount s"
    "py_refundedAmount s' = py_refundedAmount s" "py_refundedOrderAmounts s' = py_refundedOrderAmounts s"
    "py_refundRequests s' = py_refundRequests s" "py_issuedRefunds s' = py_issuedRefunds s"
    "py_capturedAt s' = Some cat" "py_status s' = Some Captured"
    using assms(2) by simp
  have "created_inv s' a Captured"
    using s(3) pending unfolding ledger_defs refundable_caps_cong [OF s'(3-5)] item_ok_cong [OF s'(3)] s'(3-11)
    by (simp add: captured_status_def)
  moreover have "payment_step (payment_phase s) (PaymentCapturedEvent t f cat) (payment_phase s')"
    using s(2) \<open>st = PendingConfirmation\<close> pending(1) s'(10,11) by (simp add: payment_phase_def step_capture)
  ultimately show ?thesis using s'(1,2,5,11) s(1) by simp
qed

lemma applies_failed:
  assumes "payment_inv s" and "py_paymentId s = Some pid" and "event_fits s (PaymentFailedEvent t code msg fat)"
  shows "\<exists>s'. evolvePayment s (PaymentFailedEvent t code msg fat) = Inr s' \<and> payment_inv s' \<and>
    payment_step (payment_phase s) (PaymentFailedEvent t code msg fat) (payment_phase s')"
  by (rule applies_keeping [OF assms(1,2) evolvePayment.simps(4)])
    (use assms(3) in \<open>auto simp: created_inv_def status_ledger_def payment_phase_def captured_status_def intro: step_fail\<close>)

lemma applies_cancelled:
  assumes "payment_inv s" and "py_paymentId s = Some pid" and "event_fits s (PaymentCancelledEvent pid' xat)"
  shows "\<exists>s'. evolvePayment s (PaymentCancelledEvent pid' xat) = Inr s' \<and> payment_inv s' \<and>
    payment_step (payment_phase s) (PaymentCancelledEvent pid' xat) (payment_phase s')"
proof -
  have "st = PendingConfirmation \<or> st = PaymentFailed" if "created_inv s a st" "py_status s = Some st" for a st
    using that assms(3) by (cases st) (auto simp: created_inv_def status_ledger_def captured_status_def)
  note status = this
  show ?thesis
    by (rule applies_keeping [OF assms(1,2) evolvePayment.simps(5)])
      (use assms(3) status in \<open>auto simp: created_inv_def status_ledger_def payment_phase_def captured_status_def intro!: step_cancel\<close>)
qed

lemma applies_disputed:
  assumes "payment_inv s" and "py_paymentId s = Some pid" and "event_fits s (PaymentDisputedEvent d)"
  shows "\<exists>s'. evolvePayment s (PaymentDisputedEvent d) = Inr s' \<and> payment_inv s' \<and>
    payment_step (payment_phase s) (PaymentDisputedEvent d) (payment_phase s')"
proof -
  show ?thesis
  proof (rule applies_keeping [OF assms(1,2) evolvePayment.simps(8)])
    fix a st assume s: "py_status s = Some st" "created_inv s a st"
    with assms(3) have "captured_status st" by (auto simp: refundablePayment_def captured_status_def)
    with s show "\<exists>st'. py_status (evolvePaymentDisputed s d) = Some st' \<and> status_ledger s (centsOf a) st' \<and>
        payment_step (payment_phase s) (PaymentDisputedEvent d) (Some st', py_capturedAt s \<noteq> None)"
      by (intro exI [of _ Disputed])
        (auto simp: evolvePaymentDisputed_def created_inv_def status_ledger_def payment_phase_def
          captured_status_def [of Disputed] intro: step_dispute)
  qed (simp_all add: evolvePaymentDisputed_def)
qed

lemma applies_requested:
  assumes "payment_inv s" and "py_paymentId s = Some pid" and "event_fits s (PaymentRefundRequestedEvent pid' r rat)"
  shows "\<exists>s'. evolvePayment s (PaymentRefundRequestedEvent pid' r rat) = Inr s' \<and> payment_inv s' \<and>
    payment_step (payment_phase s) (PaymentRefundRequestedEvent pid' r rat) (payment_phase s') \<and>
    py_refundRequests s' = py_refundRequests s @ [r]"
proof -
  from payment_created [OF assms(1,2)] obtain a st where s: "py_amount s = Some a" "py_status s = Some st" "created_inv s a st"
    by blast
  with assms(3) have st: "st = Captured \<or> st = PartiallyRefunded" by auto
  then have cap: "py_capturedAt s \<noteq> None" using s(3) by (auto simp: created_inv_def status_ledger_def captured_status_def)
  from assms(3) have r: "request_ok s r" "pmq_refundId r \<notin> set (map pmq_refundId (py_refundRequests s))"
    "centsOf (py_refundedAmount s) + request_sum s + centsOf (pmq_amount r) \<le> centsOf a"
    using s(1) by (auto simp: request_fits_def)
  have ev: "evolvePayment s (PaymentRefundRequestedEvent pid' r rat) = Inr (s\<lparr>py_refundRequests := py_refundRequests s @ [r]\<rparr>)"
  proof -
    have "\<not> (\<exists>x\<in>set (py_refundRequests s). pmq_refundId x = pmq_refundId r)" using r(2) by (metis image_eqI set_map)
    then show ?thesis by (simp add: evolveRefundRequested_def)
  qed
  then obtain s' where s': "evolvePayment s (PaymentRefundRequestedEvent pid' r rat) = Inr s'" "py_paymentId s' = Some pid"
    "py_orderIds s' = py_orderIds s" "py_orderRefundCaps s' = py_orderRefundCaps s" "py_amount s' = py_amount s"
    "py_refundedAmount s' = py_refundedAmount s" "py_refundedOrderAmounts s' = py_refundedOrderAmounts s"
    "py_refundRequests s' = py_refundRequests s @ [r]" "py_issuedRefunds s' = py_issuedRefunds s"
    "py_capturedAt s' = py_capturedAt s" "py_status s' = Some st"
    using assms(2) s(2) by simp
  have "created_inv s' a st"
    using s(3) r cap unfolding ledger_defs refundable_caps_cong [OF s'(3-5)] item_ok_cong [OF s'(3)] s'(3-11)
    by auto
  moreover have "payment_step (payment_phase s) (PaymentRefundRequestedEvent pid' r rat) (payment_phase s')"
    using s(2) st cap s'(10,11) by (auto simp: payment_phase_def intro: step_request)
  ultimately show ?thesis using s'(1,2,5,8,11) s(1) by simp
qed

lemma additions_within:
  assumes "additions_ok s ks adds"
  shows "cents_for adds k = 0 \<or> 0 < cents_for adds k \<and> cents_for adds k \<le> available s k"
proof -
  have "cents_for adds k = 0 \<or> (\<exists>e\<in>set adds. oma_orderId e = k \<and> cents_for adds k = centsOf (oma_amount e))"
    by (induction adds) auto
  with assms show ?thesis by (auto simp: additions_ok_def)
qed

lemma additions_amounts_ok: "additions_ok s ks adds \<Longrightarrow> order_ids_ok s ks \<Longrightarrow> amounts_ok adds"
  by (force simp: additions_ok_def order_ids_ok_def amounts_ok_def)

lemma sum_filter_le: "(\<And>x. x \<in> set xs \<Longrightarrow> 0 \<le> f x) \<Longrightarrow> sum_list (map f (filter P xs)) \<le> sum_list (map f xs)"
  for f :: "'a \<Rightarrow> int"
  by (induction xs) (auto intro: add_increasing)

lemma map_filter_snoc: "List.map_filter f (xs @ [x]) = List.map_filter f xs @ (case f x of None \<Rightarrow> [] | Some y \<Rightarrow> [y])"
  by (auto simp: List.map_filter_def split: option.splits)

lemma set_map_filter_iff: "y \<in> set (List.map_filter f xs) \<longleftrightarrow> (\<exists>x\<in>set xs. f x = Some y)"
  by (force simp: List.map_filter_def)

lemma applies_refunded:
  assumes "payment_inv s" and "py_paymentId s = Some pid" and "event_fits s (PaymentRefundedEvent d)"
  shows "\<exists>s'. evolvePayment s (PaymentRefundedEvent d) = Inr s' \<and> payment_inv s' \<and>
    payment_step (payment_phase s) (PaymentRefundedEvent d) (payment_phase s')"
proof -
  from payment_created [OF assms(1,2)] obtain a st where s: "py_amount s = Some a" "py_status s = Some st" "created_inv s a st"
    by blast
  note L = ledger_canonical [OF s(3)]
  from s(3) have R: "refund_ledger s (centsOf a)" "request_ledger s (centsOf a)" "status_ledger s (centsOf a) st"
    by (simp_all add: created_inv_def)
  from assms(3) s(2) have st: "captured_status st" by (auto simp: refundablePayment_def captured_status_def)
  with R(3) have cap: "py_capturedAt s \<noteq> None" by (simp add: status_ledger_def)
  from assms(3) have fits: "refund_fits s d" by simp
  then have pos: "positive_money (pre_amount d)" "order_ids_ok s (pre_orderIds d)"
    and cum: "canonical (pre_refundedAmount d)"
      "centsOf (pre_refundedAmount d) = centsOf (py_refundedAmount s) + centsOf (pre_amount d)"
      "centsOf (pre_refundedAmount d) \<le> centsOf a"
    and new: "findIssuedRefund s (pre_refundId d) (pre_processorRefundReference d) = None"
    using s(1) by (auto simp: refund_fits_def)
  from fits obtain adds ys where adds: "additions_ok s (pre_orderIds d) adds" "order_sum adds = centsOf (pre_amount d)"
    and ys: "pre_refundedOrderAmounts d = Some ys" "mergeRefundedOrderAmounts (py_refundedOrderAmounts s) adds = Inr ys"
    by (auto simp: refund_fits_def)
  from merge_Inr(1) [OF _ additions_amounts_ok [OF adds(1) pos(2)] ys(2)] R(1)
  have m: "amounts_ok ys" "order_sum ys = centsOf (pre_refundedAmount d)"
    "\<forall>k. cents_for ys k = cents_for (py_refundedOrderAmounts s) k + cents_for adds k"
    using adds(2) cum(2) by (auto simp: refund_ledger_def)
  have within: "cents_for ys k \<le> cents_for (refundableCapsForState s) k" for k
    using additions_within [OF adds(1), of k] m(3) R(1) by (auto simp: refund_ledger_def available_def)
  let ?st = "if Some (pre_refundedAmount d) = py_amount s then Refunded else PartiallyRefunded"
  let ?i = "\<lparr>pmi_refundId = pre_refundId d, pmi_processorRefundReference = pre_processorRefundReference d,
              pmi_orderIds = pre_orderIds d, pmi_amount = pre_amount d\<rparr>"
  obtain s' where s': "evolvePayment s (PaymentRefundedEvent d) = Inr s'" "py_paymentId s' = Some pid"
    "py_orderIds s' = py_orderIds s" "py_orderRefundCaps s' = py_orderRefundCaps s" "py_amount s' = py_amount s"
    "py_refundedAmount s' = pre_refundedAmount d" "py_refundedOrderAmounts s' = ys"
    "py_refundRequests s' = filter (\<lambda>r. Some (pmq_refundId r) \<noteq> pre_refundId d) (py_refundRequests s)"
    "py_issuedRefunds s' = py_issuedRefunds s @ [?i]" "py_capturedAt s' = py_capturedAt s" "py_status s' = Some ?st"
    using assms(2) ys(1) m(1) by (simp add: evolvePaymentRefunded_def normalizeOrderMoneyAmounts_id)
  have ledger: "refund_ledger s' (centsOf a)"
    using R(1) cum m within pos new
    unfolding refund_ledger_def issued_sum_def refundable_caps_cong [OF s'(3-5)] item_ok_cong [OF s'(3)] s'(6,7,9)
    by (auto simp: issued_ok_def map_filter_snoc findIssuedRefund_def find_None_iff set_map_filter_iff positive_money_def
        split: option.splits)
  have requests: "request_ledger s' (centsOf a)"
  proof -
    have "sum_list (map (\<lambda>r. centsOf (pmq_amount r)) (filter P (py_refundRequests s))) \<le> request_sum s" for P
      unfolding request_sum_def by (rule sum_filter_le) (use L(3) in simp)
    then show ?thesis
      using R(2) order_trans unfolding request_ledger_def request_sum_def item_ok_cong [OF s'(3)] s'(8)
      by (simp add: distinct_map_filter) blast
  qed
  have eq: "Some (pre_refundedAmount d) = py_amount s \<longleftrightarrow> centsOf (pre_refundedAmount d) = centsOf a"
    using canonical_eqI [OF cum(1) L(1)] s(1) by auto
  have "0 < centsOf (pre_refundedAmount d)"
    using cum(2) pos(1) R(1) by (auto simp: positive_money_def refund_ledger_def)
  then have "status_ledger s' (centsOf a) ?st"
    using cap cum(3) eq by (auto simp: status_ledger_def s'(6,10))
  with ledger requests s(3) have "created_inv s' a ?st" by (simp add: created_inv_def s'(3,4))
  moreover have "payment_step (payment_phase s) (PaymentRefundedEvent d) (payment_phase s')"
    using s(2) st cap s'(10,11) by (auto simp: payment_phase_def intro: step_refund)
  ultimately show ?thesis using s'(1,2,5,11) s(1) by simp
qed

text \<open>All events together, and with them whole batches.\<close>

lemma event_applies:
  assumes "payment_inv s" and "event_fits s e" and "\<not> creates e \<longrightarrow> py_paymentId s \<noteq> None"
  shows "\<exists>s'. evolvePayment s e = Inr s' \<and> payment_inv s' \<and> payment_step (payment_phase s) e (payment_phase s')"
proof (cases "creates e")
  case True
  then obtain d where d: "e = PaymentCreatedEvent d" by (cases e) auto
  with assms(1,2) have "s = initialPaymentState" "created_fits d" by (simp_all add: payment_not_created)
  moreover have "payment_phase initialPaymentState = (None, False)" by (simp add: payment_phase_def initialPaymentState_def)
  ultimately show ?thesis using applies_created [of d s] d by (auto intro: step_create)
next
  case False
  with assms(3) obtain pid where pid: "py_paymentId s = Some pid" by auto
  show ?thesis
  proof (cases "moves_status e")
    case True
    with False assms(2) show ?thesis
      by (cases e) (use applies_captured applies_failed applies_cancelled applies_disputed applies_requested
          applies_refunded assms(1) pid in \<open>blast+ | simp\<close>)+
  qed (rule applies_other [OF assms(1) pid])
qed

lemma payment_batch_applies:
  assumes "payment_inv s" and "payment_batch s es"
  shows "\<exists>s'. applyEvents s evolvePayment es = Inr s' \<and> payment_inv s' \<and>
    event_path payment_step (payment_phase s) es (payment_phase s')"
proof (cases "es = []")
  case False
  with assms(2) obtain e where e: "es = [e] \<or> (\<exists>f. es = [e, PaymentsCsatOutcomeFactEvent f])" "event_fits s e"
    "\<not> creates e \<longrightarrow> py_paymentId s \<noteq> None" by (auto simp: payment_batch_def)
  from event_applies [OF assms(1) e(2,3)] obtain s' where s': "evolvePayment s e = Inr s'" "payment_inv s'"
    "payment_step (payment_phase s) e (payment_phase s')" by blast
  have path: "event_path payment_step (payment_phase s) [e] (payment_phase s')"
    using s'(3) by (simp only: event_path_single)
  have "event_path payment_step (payment_phase s) ([e] @ [PaymentsCsatOutcomeFactEvent f]) (payment_phase s')" for f
  proof -
    from s'(3) obtain st c where "payment_phase s' = (Some st, c)" by (rule payment_step_started)
    then have "payment_step (payment_phase s') (PaymentsCsatOutcomeFactEvent f) (payment_phase s')"
      by (simp add: step_other)
    with path show ?thesis by (rule path_snoc)
  qed
  with e(1) s'(1,2) path show ?thesis by (auto simp: applyEvents_Cons)
qed (use assms(1) in simp)


section \<open>Interpretations\<close>

abbreviation payment_history :: "host \<Rightarrow> PaymentEvent list \<Rightarrow> bool" where
  "payment_history h \<equiv> reachable_history initialPaymentState evolvePayment (decidePayment h)"

abbreviation payment_load :: "PaymentEvent list \<Rightarrow> PaymentState res" where
  "payment_load \<equiv> foldEvents initialPaymentState evolvePayment"

interpretation payment: replayable_aggregate initialPaymentState evolvePayment "decidePayment h" payment_inv
proof
  fix s c es s'
  assume a: "payment_inv s" "decidePayment h s c = Inr es"
  from payment_batch_applies [OF a(1) decided_payment_batch [OF a]] obtain t where
    t: "applyEvents s evolvePayment es = Inr t" "payment_inv t" by blast
  then show "\<exists>s'. applyEvents s evolvePayment es = Inr s'" by blast
  show "payment_inv s'" if "applyEvents s evolvePayment es = Inr s'" using that t by simp
qed (rule payment_inv_initial)

interpretation payment_life: aggregate_lifecycle initialPaymentState evolvePayment "decidePayment h" payment_inv
  payment_phase payment_step
proof
  fix s c es s'
  assume a: "payment_inv s" "decidePayment h s c = Inr es" "applyEvents s evolvePayment es = Inr s'"
  from payment_batch_applies [OF a(1) decided_payment_batch [OF a(1,2)]] a(3)
  show "event_path payment_step (payment_phase s) es (payment_phase s')" by auto
qed

text \<open>What a path of the life cycle says of its events.\<close>

definition needs_capture :: "PaymentEvent \<Rightarrow> bool" where
  "needs_capture e \<longleftrightarrow> is_PaymentRefundRequestedEvent e \<or> is_PaymentRefundedEvent e \<or> is_PaymentDisputedEvent e"

lemma payment_path_captures:
  "event_path payment_step p es q \<Longrightarrow> p = (None, False) \<Longrightarrow>
   length (filter is_PaymentCapturedEvent es) = (if snd q then 1 else 0) \<and>
   ((\<exists>e\<in>set es. is_PaymentCancelledEvent e) \<longleftrightarrow> fst q = Some PaymentCancelled) \<and>
   (fst q = Some PaymentCancelled \<longrightarrow> \<not> snd q) \<and> ((\<exists>e\<in>set es. needs_capture e) \<longrightarrow> snd q) \<and>
   ((fst q = Some PendingConfirmation \<or> fst q = None) \<longrightarrow> \<not> snd q)"
proof (induction rule: event_path.induct)
  case (path_snoc p es q e r)
  from path_snoc.hyps(2) path_snoc.IH [OF path_snoc.prems] show ?case
  proof (cases rule: payment_step.cases)
    case (step_other st c)
    then have "\<not> is_PaymentCapturedEvent e" "\<not> is_PaymentCancelledEvent e" "\<not> needs_capture e"
      by (cases e; simp add: needs_capture_def)+
    with step_other path_snoc.IH [OF path_snoc.prems] show ?thesis by auto
  qed (auto simp: needs_capture_def captured_status_def)
qed simp

end
