(* ===== verification/PaymentRedelivery.thy ===== *)
theory PaymentRedelivery
  imports PaymentLife
begin

text \<open>Repeated commands: what a provider delivers twice changes nothing the second time.\<close>

text \<open>The commands that say what they are a repetition of: a refund by its id or the processor's reference,
  a dispute by the provider's event id; an authorization must not have an empty time, and a creation
  is refused when it is repeated.\<close>

fun redeliverable :: "PaymentCommand \<Rightarrow> bool" where
  "redeliverable (CreatePayment c) = False"
| "redeliverable (RecordPaymentAuthorization st aat) \<longleftrightarrow> aat \<noteq> []"
| "redeliverable (RecordPaymentRefund c) \<longleftrightarrow>
     rpr_refundId c \<noteq> None \<or> normalizeOptionalText (rpr_processorRefundReference c) \<noteq> None"
| "redeliverable (RecordPaymentDispute c) \<longleftrightarrow> normalizeOptionalText (rpd_providerEventId c) \<noteq> None"
| "redeliverable c = True"

lemma find_snoc: "find P (xs @ [x]) = (case find P xs of None \<Rightarrow> if P x then Some x else None | Some y \<Rightarrow> Some y)"
  by (induction xs) auto

lemma find_filter_snoc: "find P (filter (\<lambda>y. \<not> P y) xs @ [x]) = (if P x then Some x else None)"
  by (induction xs) auto

lemma normalizeOptionalText_nonempty: "normalizeOptionalText t = Some v \<Longrightarrow> v \<noteq> []"
  by (auto simp: normalizeOptionalText_def Let_def split: option.splits if_splits)

lemma truthy_normalized [simp]: "truthyText (normalizeOptionalText t) = normalizeOptionalText t"
  using normalizeOptionalText_nonempty [of t] by (auto simp: truthyText_def split: option.splits)

lemma again_authorization:
  assumes "decidePaymentAuthorization h s st aat = Inr es" "applyEvents s evolvePayment es = Inr s'" "aat \<noteq> []"
  shows "decidePaymentAuthorization h s' st aat = Inr []"
  using assms by (auto simp: decidePaymentAuthorization_def applyEvents_Cons res_simps split: option.splits if_splits)

lemma again_capture:
  assumes "decidePaymentCapture h s st cat = Inr es" "applyEvents s evolvePayment es = Inr s'"
  shows "decidePaymentCapture h s' st cat = Inr []"
  using assms by (auto simp: decidePaymentCapture_def applyEvents_Cons res_simps split: option.splits if_splits)

lemma again_failure:
  assumes "decidePaymentFailure h s st code msg fat = Inr es" "applyEvents s evolvePayment es = Inr s'"
  shows "decidePaymentFailure h s' st code msg fat = Inr []"
  using assms by (auto simp: decidePaymentFailure_def applyEvents_Cons res_simps split: option.splits if_splits)

lemma again_cancel:
  assumes "decideCancelPayment h s xat = Inr es" "applyEvents s evolvePayment es = Inr s'"
  shows "decideCancelPayment h s' xat = Inr []"
  using assms by (auto simp: decideCancelPayment_def applyEvents_Cons res_simps split: option.splits if_splits)

lemma again_evidence:
  "decideEvidenceSubmitted h s did st summ sat = Inr es \<Longrightarrow> applyEvents s evolvePayment es = Inr s' \<Longrightarrow>
   decideEvidenceSubmitted h s' did st summ sat = Inr []"
  "decideEvidenceUnavailable h s did rsn summ sat = Inr es \<Longrightarrow> applyEvents s evolvePayment es = Inr s' \<Longrightarrow>
   decideEvidenceUnavailable h s' did rsn summ sat = Inr []"
  by (auto simp: decideEvidenceSubmitted_def decideEvidenceUnavailable_def hasEvidence_def evolveEvidence_def
      applyEvents_Cons res_simps split: option.splits if_splits)

lemma again_warning:
  assumes "decideEarlyFraudWarning h s sig ft cd = Inr es" "applyEvents s evolvePayment es = Inr s'"
  shows "decideEarlyFraudWarning h s' sig ft cd = Inr []"
  using assms by (auto simp: decideEarlyFraudWarning_def fraudSignal_def applyEvents_Cons res_simps
      split: option.splits if_splits)

lemma again_review_opened:
  assumes "decideFraudReviewOpened h s sig why = Inr es" "applyEvents s evolvePayment es = Inr s'"
  shows "decideFraudReviewOpened h s' sig why = Inr []"
  using assms by (auto simp: decideFraudReviewOpened_def fraudSignal_def openedReview_def evolveFraudReview_def
      findFraudReview_def find_filter_snoc applyEvents_Cons res_simps split: option.splits if_splits)

lemma again_review_closed:
  assumes "decideFraudReviewClosed h s sig why oc = Inr es" "applyEvents s evolvePayment es = Inr s'"
  shows "decideFraudReviewClosed h s' sig why oc = Inr []"
proof (cases "es = []")
  case False
  with assms(1) obtain pid rid sig' where r: "py_paymentId s = Some pid" "paymentsRequiredText (pfs_subjectId sig) ''Fraud review id is required.'' = Inr rid"
    "fraudSignal h sig rid ''Fraud review closing must include a timestamp.'' = Inr sig'"
    "es = [PaymentFraudReviewClosedEvent (paymentExposure s pid) sig' (normalizeOptionalText why) (normalizeOptionalText oc)]"
    by (auto simp: decideFraudReviewClosed_def Let_def res_simps split: option.splits if_splits)
  then have "pfs_subjectId sig' = rid" by (auto simp: fraudSignal_def res_simps)
  with r assms(2) obtain rv where "py_paymentId s' = Some pid" "findFraudReview s' rid = Some rv"
    "pfr_status rv = ReviewClosed" "pfr_outcome rv = normalizeOptionalText oc"
    by (auto simp: applyEvents_Cons evolveFraudReview_def closedReview_def findFraudReview_def find_filter_snoc)
  with r(2) show ?thesis by (simp add: decideFraudReviewClosed_def Let_def)
qed (use assms in simp)

lemma again_liability:
  assumes "decideLiabilityShift h s c = Inr es" "applyEvents s evolvePayment es = Inr s'"
  shows "decideLiabilityShift h s' c = Inr []"
proof (cases "es = []")
  case False
  with assms(1) obtain pid eid st rat where r: "py_paymentId s = Some pid"
    "paymentsRequiredText (rls_providerEventId c) ''Provider event id is required.'' = Inr eid"
    "paymentsRequiredText (rls_status c) ''Liability shift status is required.'' = Inr st"
    "es = [PaymentLiabilityShiftRecordedEvent (paymentParties s pid)
              \<lparr>pls_providerEventId = eid, pls_threeDSecureRequested = rls_threeDSecureRequested c,
               pls_status = st, pls_authenticationResult = normalizeOptionalText (rls_authenticationResult c),
               pls_radarRiskLevel = normalizeOptionalText (rls_radarRiskLevel c), pls_recordedAt = rat\<rparr>]"
    by (auto simp: decideLiabilityShift_def Let_def res_simps split: option.splits if_splits)
  with assms(2) have "py_paymentId s' = Some pid"
    "find (\<lambda>o'. pls_providerEventId o' = eid) (py_liabilityShiftOutcomes s') = Some \<lparr>pls_providerEventId = eid,
       pls_threeDSecureRequested = rls_threeDSecureRequested c, pls_status = st,
       pls_authenticationResult = normalizeOptionalText (rls_authenticationResult c),
       pls_radarRiskLevel = normalizeOptionalText (rls_radarRiskLevel c), pls_recordedAt = rat\<rparr>"
    by (auto simp: applyEvents_Cons evolveLiabilityShift_def find_filter_snoc)
  with r(2,3) show ?thesis by (simp add: decideLiabilityShift_def Let_def)
qed (use assms in simp)

lemma again_dispute:
  assumes "decidePaymentDispute h s c = Inr es" "applyEvents s evolvePayment es = Inr s'"
    and "normalizeOptionalText (rpd_providerEventId c) \<noteq> None"
  shows "decidePaymentDispute h s' c = Inr []"
proof (cases "es = []")
  case False
  from assms(3) obtain eid where eid: "normalizeOptionalText (rpd_providerEventId c) = Some eid" by blast
  with False assms(1) obtain pid st d where r: "py_paymentId s = Some pid"
    "paymentsRequiredText (rpd_processorStatus c) ''Processor status is required.'' = Inr st"
    "es = [PaymentDisputedEvent d]" "pdd_providerEventId d = Some eid"
    by (cases "py_paymentId s") (auto simp: decidePaymentDispute_def Let_def res_simps split: if_splits)
  have "eid \<noteq> []" using eid by (rule normalizeOptionalText_nonempty)
  with r assms(2) have "py_paymentId s' = Some pid" "eid \<in> set (py_disputeProviderEventIds s')"
    by (auto simp: applyEvents_Cons evolvePaymentDisputed_def truthyText_def)
  with r(2) eid show ?thesis by (simp add: decidePaymentDispute_def Let_def)
qed (use assms in simp)

text \<open>A request that is new, and a refund that is new.\<close>

lemma request_event:
  assumes "decideRequestPaymentRefund h s c = Inr es" and "es \<noteq> []"
  obtains pid ks x rat where "py_paymentId s = Some pid"
    "py_status s = Some Captured \<or> py_status s = Some PartiallyRefunded"
    "normalizeOrderIds (rqp_orderIds c) = Inr ks" "refundOrdersBelongToPayment s ks"
    "paymentsMoneyAmount (rqp_amount c) False ''Refund amount'' = Inr x"
    "rqp_refundId c \<notin> set (map pmq_refundId (py_refundRequests s))"
    "es = [PaymentRefundRequestedEvent pid \<lparr>pmq_refundId = rqp_refundId c, pmq_orderIds = ks, pmq_amount = x\<rparr> rat]"
proof (cases "py_paymentId s")
  case (Some pid)
  show thesis
  proof (cases "find (\<lambda>request. pmq_refundId request = rqp_refundId c) (py_refundRequests s)")
    case None
    then have "rqp_refundId c \<notin> set (map pmq_refundId (py_refundRequests s))" by (auto simp: find_None_iff)
    with None Some that assms show ?thesis by (auto simp: decideRequestPaymentRefund_def res_simps)
  qed (use Some assms in \<open>auto simp: decideRequestPaymentRefund_def res_simps\<close>)
qed (use assms in \<open>simp add: decideRequestPaymentRefund_def\<close>)

lemma request_applied:
  "rid \<notin> set (map pmq_refundId (py_refundRequests s)) \<Longrightarrow>
   applyEvents s evolvePayment [PaymentRefundRequestedEvent pid \<lparr>pmq_refundId = rid, pmq_orderIds = ks, pmq_amount = x\<rparr> rat] =
   Inr (s\<lparr>py_refundRequests := py_refundRequests s @ [\<lparr>pmq_refundId = rid, pmq_orderIds = ks, pmq_amount = x\<rparr>]\<rparr>)"
proof -
  assume "rid \<notin> set (map pmq_refundId (py_refundRequests s))"
  then have "\<not> (\<exists>q\<in>set (py_refundRequests s). pmq_refundId q = rid)" by auto
  then show ?thesis by (simp add: applyEvents_Cons evolveRefundRequested_def)
qed

lemma again_request:
  assumes "decideRequestPaymentRefund h s c = Inr es" "applyEvents s evolvePayment es = Inr s'"
  shows "decideRequestPaymentRefund h s' c = Inr []"
proof (cases "es = []")
  case False
  from request_event [OF assms(1) this] obtain pid ks x rat where
    r: "py_paymentId s = Some pid" "py_status s = Some Captured \<or> py_status s = Some PartiallyRefunded"
      "normalizeOrderIds (rqp_orderIds c) = Inr ks" "refundOrdersBelongToPayment s ks"
      "paymentsMoneyAmount (rqp_amount c) False ''Refund amount'' = Inr x"
      "rqp_refundId c \<notin> set (map pmq_refundId (py_refundRequests s))"
    and es: "es = [PaymentRefundRequestedEvent pid
              \<lparr>pmq_refundId = rqp_refundId c, pmq_orderIds = ks, pmq_amount = x\<rparr> rat]" by blast
  have none: "find (\<lambda>request. pmq_refundId request = rqp_refundId c) (py_refundRequests s) = None"
    using r(6) by (auto simp: find_None_iff image_iff dest: sym)
  from es assms(2) have "s' = s\<lparr>py_refundRequests := py_refundRequests s @
      [\<lparr>pmq_refundId = rqp_refundId c, pmq_orderIds = ks, pmq_amount = x\<rparr>]\<rparr>"
    by (simp only: request_applied [OF r(6)] sum.inject)
  with r none show ?thesis
    by (auto simp: decideRequestPaymentRefund_def find_snoc refundOrdersBelongToPayment_def)
qed (use assms in simp)

lemma refund_event:
  assumes "decideRecordPaymentRefund h s c = Inr es" and "es \<noteq> []"
  obtains pid raw x ks d where "py_paymentId s = Some pid" "rpr_amount c = Some raw"
    "paymentsMoneyAmount raw False ''Refund amount'' = Inr x"
    "normalizeOrderIds (orElse (rpr_orderIds c) []) = Inr ks" "ks \<noteq> []" "refundOrdersBelongToPayment s ks"
    "findIssuedRefund s (rpr_refundId c) (normalizeOptionalText (rpr_processorRefundReference c)) = None"
    "es = [PaymentRefundedEvent d]" "pre_refundId d = rpr_refundId c"
    "pre_processorRefundReference d = normalizeOptionalText (rpr_processorRefundReference c)"
    "pre_orderIds d = ks" "pre_amount d = x"
proof -
  let ?ref = "normalizeOptionalText (rpr_processorRefundReference c)"
  from assms obtain pid raw x ks where
    r: "py_paymentId s = Some pid" "rpr_amount c = Some raw" "paymentsMoneyAmount raw False ''Refund amount'' = Inr x"
      "normalizeOrderIds (orElse (rpr_orderIds c) []) = Inr ks" "ks \<noteq> []" "refundOrdersBelongToPayment s ks"
      "findIssuedRefund s (rpr_refundId c) ?ref = None"
    and new: "newRefund h s pid c (rpr_refundId c) ?ref ks x = Inr es"
    by (auto simp: decideRecordPaymentRefund_def res_simps Let_def split: option.splits if_splits)
  from new assms(2) obtain d where d: "es = [PaymentRefundedEvent d]" "pre_refundId d = rpr_refundId c"
    "pre_processorRefundReference d = ?ref" "pre_orderIds d = ks" "pre_amount d = x"
    by (auto simp: newRefund_def refundedEvent_def res_simps split: if_splits)
  show thesis by (rule that [OF r d])
qed

lemma again_refund:
  assumes "decideRecordPaymentRefund h s c = Inr es" "applyEvents s evolvePayment es = Inr s'"
    and "rpr_refundId c \<noteq> None \<or> normalizeOptionalText (rpr_processorRefundReference c) \<noteq> None"
  shows "decideRecordPaymentRefund h s' c = Inr []"
proof (cases "es = []")
  case False
  let ?ref = "normalizeOptionalText (rpr_processorRefundReference c)"
  from refund_event [OF assms(1) False] obtain pid raw x ks d where
    r: "py_paymentId s = Some pid" "rpr_amount c = Some raw" "paymentsMoneyAmount raw False ''Refund amount'' = Inr x"
      "normalizeOrderIds (orElse (rpr_orderIds c) []) = Inr ks" "ks \<noteq> []" "refundOrdersBelongToPayment s ks"
      "findIssuedRefund s (rpr_refundId c) ?ref = None"
    and d: "es = [PaymentRefundedEvent d]" "pre_refundId d = rpr_refundId c"
      "pre_processorRefundReference d = ?ref" "pre_orderIds d = ks" "pre_amount d = x" by blast
  from assms(2) d(1) have "evolvePaymentRefunded s d = Inr s'" by (auto simp: applyEvents_Cons)
  then have t: "py_paymentId s' = Some pid" "refundablePayment s'" "py_orderIds s' = py_orderIds s"
    "py_issuedRefunds s' = py_issuedRefunds s @ [\<lparr>pmi_refundId = rpr_refundId c,
       pmi_processorRefundReference = ?ref, pmi_orderIds = ks, pmi_amount = x\<rparr>]"
    using r(1) d by (auto simp: evolvePaymentRefunded_def res_simps refundablePayment_def split: if_splits)
  have "findIssuedRefund s' (rpr_refundId c) ?ref =
      Some \<lparr>pmi_refundId = rpr_refundId c, pmi_processorRefundReference = ?ref, pmi_orderIds = ks, pmi_amount = x\<rparr>"
    using r(7) assms(3) by (auto simp: findIssuedRefund_def t(4) find_snoc)
  moreover have "refundOrdersBelongToPayment s' ks" using r(6) t(3) by (simp add: refundOrdersBelongToPayment_def)
  ultimately show ?thesis using r t(1,2) by (simp add: decideRecordPaymentRefund_def Let_def)
qed (use assms in simp)

lemma redelivered:
  assumes "decidePayment h s c = Inr es" "applyEvents s evolvePayment es = Inr s'" "redeliverable c"
  shows "decidePayment h s' c = Inr []"
  using assms
  by (cases c) (auto intro: again_authorization again_capture again_failure again_cancel again_evidence again_warning
      again_review_opened again_review_closed again_liability again_dispute again_request again_refund)

end
