(* ===== verification/PaymentReserve.thy ===== *)
theory PaymentReserve
  imports PaymentRedelivery
begin

text \<open>
  Refunds that are requested before they are recorded. When every refund is for one order, has been requested,
  and is recorded as it was requested, the reservations add up by order, and every open request can be
  recorded, in any order.
\<close>

section \<open>Requests before refunds\<close>

definition records_request :: "RecordPaymentRefundCommand \<Rightarrow> PaymentRefundRequest \<Rightarrow> bool" where
  "records_request c r \<longleftrightarrow> rpr_refundId c = Some (pmq_refundId r) \<and> rpr_orderIds c = Some (pmq_orderIds r) \<and>
     rpr_amount c = Some (pmq_amount r)"

fun requested_first :: "PaymentState \<Rightarrow> PaymentCommand \<Rightarrow> bool" where
  "requested_first s (RequestPaymentRefund c) \<longleftrightarrow>
     length (rqp_orderIds c) = 1 \<and> (\<forall>i\<in>set (py_issuedRefunds s). pmi_refundId i \<noteq> Some (rqp_refundId c))"
| "requested_first s (RecordPaymentRefund c) \<longleftrightarrow> (\<exists>r\<in>set (py_refundRequests s). records_request c r)"
| "requested_first s (RecordPaymentFailure st code msg fat) \<longleftrightarrow> py_capturedAt s = None"
| "requested_first s c \<longleftrightarrow> True"

text \<open>The decider behind senders that keep this order.\<close>

definition decideRequested :: "host \<Rightarrow> PaymentState \<Rightarrow> PaymentCommand \<Rightarrow> PaymentEvent list res" where
  "decideRequested h s c = (if requested_first s c then decidePayment h s c else Inr [])"

lemma requested_history:
  "reachable_history initialPaymentState evolvePayment (decideRequested h) es \<Longrightarrow> payment_history h es"
proof (induction rule: reachable_history.induct)
  case (append_decided es s c new)
  then show ?case
    by (cases "requested_first s c") (auto simp: decideRequested_def intro: reachable_history.append_decided)
qed (rule empty_history)


section \<open>The reservations add up\<close>

definition reserve_ledger :: "PaymentState \<Rightarrow> bool" where
  "reserve_ledger s \<longleftrightarrow>
     (\<forall>a. py_amount s = Some a \<longrightarrow> centsOf (py_refundedAmount s) + request_sum s \<le> centsOf a) \<and>
     (\<forall>k. cents_for (py_refundedOrderAmounts s) k + requested_for s k \<le> cents_for (refundableCapsForState s) k) \<and>
     (\<forall>r\<in>set (py_refundRequests s). (\<exists>k. pmq_orderIds r = [k]) \<and>
        (\<forall>i\<in>set (py_issuedRefunds s). pmi_refundId i \<noteq> Some (pmq_refundId r))) \<and>
     (py_refundRequests s \<noteq> [] \<longrightarrow> (\<exists>st. py_status s = Some st \<and> captured_status st))"

definition reserve_inv :: "PaymentState \<Rightarrow> bool" where
  "reserve_inv s \<longleftrightarrow> payment_inv s \<and> reserve_ledger s"

lemma reserve_inv_initial: "reserve_inv initialPaymentState"
  using payment_inv_initial
  by (simp add: reserve_inv_def reserve_ledger_def initialPaymentState_def refundableCapsForState_def
      request_sum_def requested_for_def)

lemma reserve_ledger_cong:
  assumes "py_orderIds s' = py_orderIds s" "py_orderRefundCaps s' = py_orderRefundCaps s" "py_amount s' = py_amount s"
    "py_refundedAmount s' = py_refundedAmount s" "py_refundedOrderAmounts s' = py_refundedOrderAmounts s"
    "py_refundRequests s' = py_refundRequests s" "py_issuedRefunds s' = py_issuedRefunds s"
    and "py_status s' = py_status s \<or> (\<exists>st. py_status s' = Some st \<and> captured_status st) \<or> py_refundRequests s = []"
    and "reserve_ledger s"
  shows "reserve_ledger s'"
  using assms(8,9)
  unfolding reserve_ledger_def request_sum_def requested_for_def refundable_caps_cong [OF assms(1-3)] assms(3-7)
  by auto

lemma request_sum_remove:
  assumes "distinct (map pmq_refundId rs)" and "r \<in> set rs"
  shows "sum_list (map f (filter P rs)) =
    sum_list (map f (filter P (filter (\<lambda>q. pmq_refundId q \<noteq> pmq_refundId r) rs))) + (if P r then f r else (0 :: int))"
  using assms
proof (induction rs)
  case (Cons q rs)
  show ?case
  proof (cases "q = r")
    case True
    have "filter (\<lambda>q. pmq_refundId q \<noteq> pmq_refundId r) rs = rs"
      using Cons.prems(1) True by (intro filter_True) (auto simp: image_iff)
    with True show ?thesis by simp
  next
    case False
    then have "r \<in> set rs" "pmq_refundId q \<noteq> pmq_refundId r" using Cons.prems by auto
    with Cons show ?thesis by auto
  qed
qed simp

text \<open>Events that touch neither amounts nor requests, and the commands that only cause such events.\<close>

definition quiet :: "PaymentEvent \<Rightarrow> bool" where
  "quiet e \<longleftrightarrow> \<not> is_PaymentCreatedEvent e \<and> \<not> is_PaymentRefundRequestedEvent e \<and> \<not> is_PaymentRefundedEvent e"

fun quiet_command :: "PaymentCommand \<Rightarrow> bool" where
  "quiet_command (CreatePayment c) = False"
| "quiet_command (RequestPaymentRefund c) = False"
| "quiet_command (RecordPaymentRefund c) = False"
| "quiet_command c = True"

lemma quiet_simple:
  "decidePaymentAuthorization h s st aat = Inr es \<Longrightarrow> \<forall>e\<in>set es. quiet e \<and> \<not> is_PaymentFailedEvent e"
  "decidePaymentFailure h s st code msg fat = Inr es \<Longrightarrow> \<forall>e\<in>set es. quiet e"
  "decideCancelPayment h s xat = Inr es \<Longrightarrow> \<forall>e\<in>set es. quiet e \<and> \<not> is_PaymentFailedEvent e"
  "decideEvidenceSubmitted h s did st summ sat = Inr es \<Longrightarrow> \<forall>e\<in>set es. quiet e \<and> \<not> is_PaymentFailedEvent e"
  "decideEvidenceUnavailable h s did st summ sat = Inr es \<Longrightarrow> \<forall>e\<in>set es. quiet e \<and> \<not> is_PaymentFailedEvent e"
  "decideEarlyFraudWarning h s sig ft cd = Inr es \<Longrightarrow> \<forall>e\<in>set es. quiet e \<and> \<not> is_PaymentFailedEvent e"
  "decideFraudReviewOpened h s sig why = Inr es \<Longrightarrow> \<forall>e\<in>set es. quiet e \<and> \<not> is_PaymentFailedEvent e"
  "decideFraudReviewClosed h s sig why oc = Inr es \<Longrightarrow> \<forall>e\<in>set es. quiet e \<and> \<not> is_PaymentFailedEvent e"
  "decideLiabilityShift h s ls = Inr es \<Longrightarrow> \<forall>e\<in>set es. quiet e \<and> \<not> is_PaymentFailedEvent e"
  unfolding decidePaymentAuthorization_def decidePaymentFailure_def decideCancelPayment_def
    decideEvidenceSubmitted_def decideEvidenceUnavailable_def decideEarlyFraudWarning_def
    decideFraudReviewOpened_def decideFraudReviewClosed_def decideLiabilityShift_def Let_def quiet_def
  by (fastforce simp: res_simps split: option.split_asm if_split_asm)+

lemma quiet_dispute: "decidePaymentDispute h s c = Inr es \<Longrightarrow> \<forall>e\<in>set es. quiet e \<and> \<not> is_PaymentFailedEvent e"
  unfolding decidePaymentDispute_def Let_def quiet_def
  by (cases "py_paymentId s") (fastforce simp: res_simps split: if_split_asm)+

lemma quiet_capture: "decidePaymentCapture h s st cat = Inr es \<Longrightarrow> \<forall>e\<in>set es. quiet e \<and> \<not> is_PaymentFailedEvent e"
  unfolding decidePaymentCapture_def quiet_def
  by (fastforce simp: res_simps split: option.split_asm if_split_asm)

lemma quiet_decided:
  assumes "quiet_command c" and "decidePayment h s c = Inr es" and "requested_first s c" and "e \<in> set es"
  shows "quiet e \<and> (is_PaymentFailedEvent e \<longrightarrow> py_capturedAt s = None)"
  using assms by (cases c) (auto dest!: quiet_simple quiet_dispute quiet_capture)

lemma quiet_step:
  assumes "payment_inv s" and "event_fits s e" and "py_paymentId s = Some pid" and "evolvePayment s e = Inr s'"
    and "quiet e" and "is_PaymentFailedEvent e \<longrightarrow> py_capturedAt s = None" and "reserve_ledger s"
  shows "reserve_ledger s'"
proof -
  from payment_created [OF assms(1,3)] obtain a st where s: "py_status s = Some st" "created_inv s a st" by blast
  from s(2) have none: "py_capturedAt s = None \<longrightarrow> py_refundRequests s = []"
    by (simp add: created_inv_def status_ledger_def)
  have "py_orderIds s' = py_orderIds s \<and> py_orderRefundCaps s' = py_orderRefundCaps s \<and> py_amount s' = py_amount s \<and>
      py_refundedAmount s' = py_refundedAmount s \<and> py_refundedOrderAmounts s' = py_refundedOrderAmounts s \<and>
      py_refundRequests s' = py_refundRequests s \<and> py_issuedRefunds s' = py_issuedRefunds s"
    using assms(4,5) by (cases e) (auto simp: quiet_def evolveEvidence_def evolveFraudReview_def
        evolveLiabilityShift_def evolvePaymentDisputed_def)
  moreover have "py_status s' = py_status s \<or> (\<exists>st. py_status s' = Some st \<and> captured_status st) \<or> py_refundRequests s = []"
    using assms(2,4,5,6) none by (cases e) (auto simp: quiet_def evolveEvidence_def evolveFraudReview_def
        evolveLiabilityShift_def evolvePaymentDisputed_def captured_status_def)
  ultimately show ?thesis using assms(7) reserve_ledger_cong by blast
qed

lemma quiet_keeps:
  assumes inv: "reserve_inv s" and dec: "decidePayment h s c = Inr es" and app: "applyEvents s evolvePayment es = Inr s'"
    and q: "quiet_command c" "requested_first s c"
  shows "reserve_ledger s'"
proof (cases "es = []")
  case False
  have p: "payment_inv s" "reserve_ledger s" using inv by (simp_all add: reserve_inv_def)
  from decided_payment_batch [OF p(1) dec] False obtain e where
    e: "es = [e] \<or> (\<exists>f. es = [e, PaymentsCsatOutcomeFactEvent f])" "event_fits s e"
      "\<not> creates e \<longrightarrow> py_paymentId s \<noteq> None" by (auto simp: payment_batch_def)
  then have qe: "quiet e" "is_PaymentFailedEvent e \<longrightarrow> py_capturedAt s = None"
    using quiet_decided [OF q(1) dec q(2), of e] by auto
  then have "\<not> creates e" by (cases e) (simp_all add: quiet_def)
  with e(3) obtain pid where pid: "py_paymentId s = Some pid" by auto
  from e(1) app have "evolvePayment s e = Inr s'" by (auto simp: applyEvents_Cons)
  from quiet_step [OF p(1) e(2) pid this qe p(2)] show ?thesis .
qed (use app inv in \<open>simp add: reserve_inv_def\<close>)

lemma created_keeps:
  assumes inv: "payment_inv s" and dec: "decideCreatePayment h s c = Inr es" and app: "applyEvents s evolvePayment es = Inr s'"
    and inv': "payment_inv s'"
  shows "reserve_ledger s'"
proof -
  from dec obtain d where "es = [PaymentCreatedEvent d]" "py_paymentId s = None"
    by (auto simp: decideCreatePayment_def res_simps)
  with app have ev: "evolvePaymentCreated d = Inr s'" by (simp add: applyEvents_Cons)
  then obtain pid a where s': "py_paymentId s' = Some pid" "py_amount s' = Some a" "py_refundedAmount s' = ''0.00''"
    "py_refundedOrderAmounts s' = []" "py_refundRequests s' = []" "py_issuedRefunds s' = []"
    by (auto simp: evolvePaymentCreated_def res_simps initialPaymentState_def)
  from payment_created [OF inv' s'(1)] s'(2) obtain st where "created_inv s' a st" by auto
  with cents_for_nonneg [OF created_caps [OF this s'(2)]] s' show ?thesis
    by (simp add: reserve_ledger_def request_sum_def requested_for_def created_inv_def positive_money_def)
qed

lemma single_order: "normalizeOrderIds ks = Inr ks' \<Longrightarrow> length ks = 1 \<Longrightarrow> \<exists>k. ks' = [k]"
  by (cases ks) (auto simp: normalizeOrderIds_Inr js_unique_id)

lemma clean_order_ids: "\<forall>k\<in>set ks. clean_id k \<Longrightarrow> distinct ks \<Longrightarrow> ks \<noteq> [] \<Longrightarrow> normalizeOrderIds ks = Inr ks"
  by (auto simp: normalizeOrderIds_Inr clean_id_def map_idI js_unique_id)

lemma requested_keeps:
  assumes inv: "reserve_inv s" and dec: "decideRequestPaymentRefund h s c = Inr es"
    and app: "applyEvents s evolvePayment es = Inr s'" and first: "requested_first s (RequestPaymentRefund c)"
  shows "reserve_ledger s'"
proof (cases "es = []")
  case False
  have p: "payment_inv s" "reserve_ledger s" using inv by (simp_all add: reserve_inv_def)
  obtain pid ks x rat where
    r: "py_paymentId s = Some pid" "py_status s = Some Captured \<or> py_status s = Some PartiallyRefunded"
      "normalizeOrderIds (rqp_orderIds c) = Inr ks" "refundOrdersBelongToPayment s ks"
      "paymentsMoneyAmount (rqp_amount c) False ''Refund amount'' = Inr x"
      "rqp_refundId c \<notin> set (map pmq_refundId (py_refundRequests s))"
    and es: "es = [PaymentRefundRequestedEvent pid
              \<lparr>pmq_refundId = rqp_refundId c, pmq_orderIds = ks, pmq_amount = x\<rparr> rat]"
    by (rule request_event [OF dec False])
  let ?r = "\<lparr>pmq_refundId = rqp_refundId c, pmq_orderIds = ks, pmq_amount = x\<rparr>"
  have "length (rqp_orderIds c) = 1" using first by simp
  with single_order [OF r(3)] obtain k where k: "ks = [k]" by blast
  from payment_decided_request [OF p(1) dec] es have fits: "request_fits s ?r" by (auto simp: payment_batch_def)
  then have x: "0 < centsOf x" "centsOf x \<le> unreserved s k"
    by (auto simp: request_fits_def request_ok_def positive_money_def k)
  have s': "s' = s\<lparr>py_refundRequests := py_refundRequests s @ [?r]\<rparr>"
    using app unfolding es request_applied [OF r(6)] by simp
  then have same: "py_orderIds s' = py_orderIds s" "py_orderRefundCaps s' = py_orderRefundCaps s"
    "py_amount s' = py_amount s" by simp_all
  have for_order: "requested_for s' j = requested_for s j + (if j = k then centsOf x else 0)" for j
    by (simp add: requested_for_def s' k)
  have "centsOf (py_refundedAmount s) + request_sum s + centsOf x \<le> centsOf a" if "py_amount s = Some a" for a
    using fits that by (auto simp: request_fits_def)
  moreover have "cents_for (py_refundedOrderAmounts s') j + requested_for s' j \<le> cents_for (refundableCapsForState s') j" for j
    using p(2) x unfolding refundable_caps_cong [OF same] for_order
    by (auto simp: reserve_ledger_def unreserved_def s' max_def split: if_splits)
  ultimately show ?thesis
    using p(2) r(2) first by (auto simp: reserve_ledger_def s' request_sum_def k captured_status_def)
qed (use app inv in \<open>simp add: reserve_inv_def\<close>)

text \<open>A refund as it was requested takes its request's reservation, and nothing else.\<close>

lemma one_addition:
  assumes "additions_ok s [k] adds" and "order_sum adds = x" and "0 < x"
  shows "cents_for adds j = (if j = k then x else 0)"
proof -
  from assms obtain e where "adds = [e]" "oma_orderId e = k"
    by (cases adds; cases "tl adds") (auto simp: additions_ok_def)
  with assms(2) show ?thesis by simp
qed

lemma refund_taken:
  assumes inv: "payment_inv s" and r: "r \<in> set (py_refundRequests s)" "pmq_orderIds r = [k]"
    and dec: "decideRecordPaymentRefund h s c = Inr es" "es \<noteq> []" and c: "records_request c r"
    and app: "applyEvents s evolvePayment es = Inr s'"
  shows "py_orderIds s' = py_orderIds s" "py_orderRefundCaps s' = py_orderRefundCaps s" "py_amount s' = py_amount s"
    "centsOf (py_refundedAmount s') = centsOf (py_refundedAmount s) + centsOf (pmq_amount r)"
    "cents_for (py_refundedOrderAmounts s') j = cents_for (py_refundedOrderAmounts s) j + (if j = k then centsOf (pmq_amount r) else 0)"
    "py_refundRequests s' = filter (\<lambda>q. pmq_refundId q \<noteq> pmq_refundId r) (py_refundRequests s)"
    "map pmi_refundId (py_issuedRefunds s') = map pmi_refundId (py_issuedRefunds s) @ [Some (pmq_refundId r)]"
    "\<exists>st. py_status s' = Some st \<and> captured_status st"
proof -
  obtain pid raw x ks d where
    e: "py_paymentId s = Some pid" "rpr_amount c = Some raw" "paymentsMoneyAmount raw False ''Refund amount'' = Inr x"
      "normalizeOrderIds (orElse (rpr_orderIds c) []) = Inr ks" "ks \<noteq> []" "refundOrdersBelongToPayment s ks"
      "findIssuedRefund s (rpr_refundId c) (normalizeOptionalText (rpr_processorRefundReference c)) = None"
      "es = [PaymentRefundedEvent d]" "pre_refundId d = rpr_refundId c"
      "pre_processorRefundReference d = normalizeOptionalText (rpr_processorRefundReference c)"
      "pre_orderIds d = ks" "pre_amount d = x"
    by (rule refund_event [OF dec])
  from payment_created [OF inv e(1)] obtain a st where ci: "created_inv s a st" by blast
  then have ok: "request_ok s r" using r(1) by (auto simp: created_inv_def request_ledger_def)
  then have x: "x = pmq_amount r"
    using e(2,3) c by (auto simp: records_request_def request_ok_def positive_money_def money_simps)
  have "rpr_orderIds c = Some [k]" "clean_id k"
    using c ok r(2) by (simp_all add: records_request_def request_ok_def order_ids_ok_def)
  with e(4) clean_order_ids [of "[k]"] have ks: "ks = [k]" by simp
  from decided_refund [OF inv dec(1)] e(8) have fits: "refund_fits s d" by (auto simp: payment_batch_def)
  then obtain adds ys where adds: "additions_ok s (pre_orderIds d) adds" "order_sum adds = centsOf (pre_amount d)"
    and ys: "pre_refundedOrderAmounts d = Some ys" "mergeRefundedOrderAmounts (py_refundedOrderAmounts s) adds = Inr ys"
    and cum: "centsOf (pre_refundedAmount d) = centsOf (py_refundedAmount s) + centsOf (pre_amount d)"
    and ids: "order_ids_ok s (pre_orderIds d)"
    by (auto simp: refund_fits_def)
  have pos: "0 < centsOf (pmq_amount r)" using ok by (simp add: request_ok_def positive_money_def)
  have "amounts_ok (py_refundedOrderAmounts s)" using ci by (simp add: created_inv_def refund_ledger_def)
  from merge_Inr(1) [OF this additions_amounts_ok [OF adds(1) ids] ys(2)]
  have m: "amounts_ok ys" "cents_for ys j = cents_for (py_refundedOrderAmounts s) j + cents_for adds j" by simp_all
  have "evolvePaymentRefunded s d = Inr s'" using app e(8) by (auto simp: applyEvents_Cons)
  then have s': "s' = s
         \<lparr>py_processorStatus := Some (pre_processorStatus d),
          py_status := Some (if Some (pre_refundedAmount d) = py_amount s then Refunded else PartiallyRefunded),
          py_failureCode := None, py_failureMessage := None, py_refundedAt := Some (pre_refundedAt d),
          py_refundedAmount := pre_refundedAmount d, py_refundedOrderAmounts := ys,
          py_refundRequests := filter (\<lambda>request. Some (pmq_refundId request) \<noteq> pre_refundId d) (py_refundRequests s),
          py_issuedRefunds := py_issuedRefunds s @
            [\<lparr>pmi_refundId = pre_refundId d, pmi_processorRefundReference = pre_processorRefundReference d,
              pmi_orderIds = pre_orderIds d, pmi_amount = pre_amount d\<rparr>]\<rparr>"
    by (simp add: evolvePaymentRefunded_def ys(1) normalizeOrderMoneyAmounts_id [OF m(1)])
  have rid: "pre_refundId d = Some (pmq_refundId r)" using e(9) c by (simp add: records_request_def)
  show "py_orderIds s' = py_orderIds s" "py_orderRefundCaps s' = py_orderRefundCaps s" "py_amount s' = py_amount s"
    "py_refundRequests s' = filter (\<lambda>q. pmq_refundId q \<noteq> pmq_refundId r) (py_refundRequests s)"
    "map pmi_refundId (py_issuedRefunds s') = map pmi_refundId (py_issuedRefunds s) @ [Some (pmq_refundId r)]"
    by (simp_all add: s' rid)
  show "centsOf (py_refundedAmount s') = centsOf (py_refundedAmount s) + centsOf (pmq_amount r)"
    by (simp add: s' cum e(12) x)
  show "\<exists>st. py_status s' = Some st \<and> captured_status st" by (simp add: s' captured_status_def)
  have "cents_for adds j = (if j = k then centsOf (pmq_amount r) else 0)"
    using one_addition [OF adds(1)[unfolded e(11) ks] adds(2)[unfolded e(12) x] pos] .
  then show "cents_for (py_refundedOrderAmounts s') j =
      cents_for (py_refundedOrderAmounts s) j + (if j = k then centsOf (pmq_amount r) else 0)"
    by (simp add: s' m(2))
qed

lemma refunded_keeps:
  assumes inv: "reserve_inv s" and dec: "decideRecordPaymentRefund h s c = Inr es"
    and app: "applyEvents s evolvePayment es = Inr s'" and first: "requested_first s (RecordPaymentRefund c)"
  shows "reserve_ledger s'"
proof (cases "es = []")
  case False
  have p: "payment_inv s" "reserve_ledger s" using inv by (simp_all add: reserve_inv_def)
  from first obtain r where r: "r \<in> set (py_refundRequests s)" "records_request c r" by auto
  with p(2) obtain k where k: "pmq_orderIds r = [k]" by (auto simp: reserve_ledger_def)
  note T = refund_taken [OF p(1) r(1) k dec False r(2) app]
  from refund_event [OF dec False] obtain pid where "py_paymentId s = Some pid" by blast
  then obtain a st where "created_inv s a st" by (rule payment_created [OF p(1)])
  then have "distinct (map pmq_refundId (py_refundRequests s))" by (simp add: created_inv_def request_ledger_def)
  note rem = request_sum_remove [OF this r(1), where f = "\<lambda>q. centsOf (pmq_amount q)"]
  have sums: "request_sum s' = request_sum s - centsOf (pmq_amount r)"
    using rem [where P = "\<lambda>_. True"] by (simp add: request_sum_def T(6))
  have for_order: "requested_for s' j = requested_for s j - (if j = k then centsOf (pmq_amount r) else 0)" for j
    using rem [where P = "\<lambda>q. j \<in> set (pmq_orderIds q)"] by (auto simp: requested_for_def T(6) k)
  have "cents_for (py_refundedOrderAmounts s') j + requested_for s' j \<le> cents_for (refundableCapsForState s') j" for j
    using p(2) unfolding refundable_caps_cong [OF T(1-3)] T(5) for_order by (simp add: reserve_ledger_def)
  moreover have "Some (pmq_refundId q) \<notin> set (map pmi_refundId (py_issuedRefunds s'))"
    if "q \<in> set (py_refundRequests s')" for q
    using that p(2) unfolding T(6,7) by (force simp: reserve_ledger_def)
  moreover have "\<exists>k. pmq_orderIds q = [k]" if "q \<in> set (py_refundRequests s')" for q
    using that p(2) unfolding T(6) by (simp add: reserve_ledger_def)
  moreover have "centsOf (py_refundedAmount s') + request_sum s' \<le> centsOf a" if "py_amount s' = Some a" for a
    using that p(2) T(3,4) sums by (simp add: reserve_ledger_def)
  ultimately show ?thesis
    using T(8) unfolding reserve_ledger_def by (metis list.set_map image_eqI)
qed (use app inv in \<open>simp add: reserve_inv_def\<close>)

lemma decided_keeps:
  assumes "reserve_inv s" and "decideRequested h s c = Inr es" and "applyEvents s evolvePayment es = Inr s'"
  shows "reserve_inv s'"
proof (cases "requested_first s c")
  case True
  with assms(2) have dec: "decidePayment h s c = Inr es" by (simp add: decideRequested_def)
  have p: "payment_inv s" using assms(1) by (simp add: reserve_inv_def)
  have p': "payment_inv s'" by (rule payment.inv_decided [OF p dec assms(3)])
  have "reserve_ledger s'"
  proof (cases "quiet_command c")
    case False
    then show ?thesis
    proof (cases c)
      case (RecordPaymentRefund rc)
      show ?thesis
        by (rule refunded_keeps [OF assms(1) _ assms(3)]) (use dec True RecordPaymentRefund in simp_all)
    next
      case (RequestPaymentRefund rc)
      show ?thesis
        by (rule requested_keeps [OF assms(1) _ assms(3)]) (use dec True RequestPaymentRefund in simp_all)
    qed (use dec assms(3) p p' created_keeps in simp_all)
  qed (use assms dec True in \<open>blast intro: quiet_keeps\<close>)
  with p' show ?thesis by (simp add: reserve_inv_def)
qed (use assms in \<open>simp add: decideRequested_def\<close>)


section \<open>Every open request can be recorded\<close>

definition recordRequested :: "string \<Rightarrow> PaymentRefundRequest \<Rightarrow> PaymentCommand" where
  "recordRequested t r = RecordPaymentRefund
     \<lparr>rpr_refundId = Some (pmq_refundId r), rpr_orderIds = Some (pmq_orderIds r),
      rpr_processorStatus = ''succeeded'', rpr_processorRefundReference = None, rpr_amount = Some (pmq_amount r),
      rpr_refundedAmount = None, rpr_refundedAt = t\<rparr>"

lemma request_can_be_recorded:
  assumes inv: "reserve_inv s" and r: "r \<in> set (py_refundRequests s)" and t: "Date_parse h t = Some n"
  obtains es s' where "decideRequested h s (recordRequested t r) = Inr es" "es \<noteq> []"
    "applyEvents s evolvePayment es = Inr s'" "reserve_inv s'"
    "py_refundRequests s' = filter (\<lambda>q. pmq_refundId q \<noteq> pmq_refundId r) (py_refundRequests s)"
    "centsOf (py_refundedAmount s') = centsOf (py_refundedAmount s) + centsOf (pmq_amount r)"
proof -
  have p: "payment_inv s" "reserve_ledger s" using inv by (simp_all add: reserve_inv_def)
  from p(2) r obtain k st0 where k: "pmq_orderIds r = [k]" and st0: "py_status s = Some st0" "captured_status st0"
    and fresh: "\<forall>i\<in>set (py_issuedRefunds s). pmi_refundId i \<noteq> Some (pmq_refundId r)"
    by (auto simp: reserve_ledger_def)
  from p(1) st0(1) obtain pid where pid: "py_paymentId s = Some pid"
    by (cases "py_paymentId s") (auto simp: payment_inv_def initialPaymentState_def)
  from payment_created [OF p(1) pid] obtain a st where s: "py_amount s = Some a" "created_inv s a st" by blast
  note L = ledger_canonical [OF s(2)]
  have R: "amounts_ok (py_refundedOrderAmounts s)" "0 \<le> centsOf (py_refundedAmount s)"
    "order_sum (py_refundedOrderAmounts s) = centsOf (py_refundedAmount s)"
    using s(2) by (simp_all add: created_inv_def refund_ledger_def)
  from s(2) r have ok: "request_ok s r" by (auto simp: created_inv_def request_ledger_def)
  then have x: "canonical (pmq_amount r)" "0 < centsOf (pmq_amount r)" and ids: "order_ids_ok s [k]"
    by (simp_all add: request_ok_def positive_money_def k)
  have dist: "distinct (map pmq_refundId (py_refundRequests s))" using s(2) by (simp add: created_inv_def request_ledger_def)
  note rem = request_sum_remove [OF dist r, where f = "\<lambda>q. centsOf (pmq_amount q)"]
  have "centsOf (pmq_amount r) \<le> requested_for s k"
    using rem [where P = "\<lambda>q. k \<in> set (pmq_orderIds q)"] L(3)
    by (simp add: requested_for_def k) (intro sum_list_nonneg, auto)
  moreover have "cents_for (py_refundedOrderAmounts s) k + requested_for s k \<le> cents_for (refundableCapsForState s) k"
    using p(2) by (simp add: reserve_ledger_def)
  ultimately have room: "centsOf (pmq_amount r) \<le> available s k"
    by (simp add: available_def)
  have "centsOf (pmq_amount r) \<le> request_sum s"
    using rem [where P = "\<lambda>_. True"] L(3) by (simp add: request_sum_def) (intro sum_list_nonneg, auto)
  with p(2) s(1) have total: "centsOf (py_refundedAmount s) + centsOf (pmq_amount r) \<le> centsOf a"
    by (auto simp: reserve_ledger_def)
  have range: "in_range (centsOf (py_refundedAmount s) + centsOf (pmq_amount r))"
    using total L(6) R(2) x(2) by (simp add: in_range_def)
  have "\<exists>adds. allocateRefundAmountToOrders s [k] (pmq_amount r) = Inr adds"
    using allocate_Inr(1) [OF created_caps [OF s(2,1)] R(1) x(1), of "[k]"] x(2) room by simp
  then obtain adds where adds: "allocateRefundAmountToOrders s [k] (pmq_amount r) = Inr adds" by blast
  then have "additions_ok s [k] adds \<and> order_sum adds = centsOf (pmq_amount r)"
    using allocate_Inr(2) [OF created_caps [OF s(2,1)] R(1) x(1) _ _ adds] x(2) by simp
  then have "\<exists>ys. mergeRefundedOrderAmounts (py_refundedOrderAmounts s) adds = Inr ys"
    using merge_Inr(2) [OF R(1) additions_amounts_ok [OF _ ids]] R(3) range by simp
  then obtain ys where ys: "mergeRefundedOrderAmounts (py_refundedOrderAmounts s) adds = Inr ys" by blast
  have find: "findIssuedRefund s (Some (pmq_refundId r)) None = None"
    using fresh by (simp add: findIssuedRefund_def find_None_iff)
  have norm: "normalizeOrderIds [k] = Inr [k]"
    using ids by (intro clean_order_ids) (simp_all add: order_ids_ok_def)
  obtain cum where cum: "paymentsAddMoney (py_refundedAmount s) (pmq_amount r) = Inr cum" "canonical cum"
    "centsOf cum = centsOf (py_refundedAmount s) + centsOf (pmq_amount r)"
    using paymentsAddMoney_canonical [OF L(2) x(1) R(2)] x(2) range R(2) by (simp add: money_simps)
  have cmp: "paymentsCompareMoney cum (py_refundedAmount s) = Inr 1"
    "\<exists>sign. paymentsCompareMoney cum a = Inr sign \<and> sign \<le> 0"
    using paymentsCompare_canonical [OF cum(2) L(2)] paymentsCompare_canonical [OF cum(2) L(1)] cum(3) x(2) total by auto
  have belongs: "refundOrdersBelongToPayment s [k]" using ids by (simp add: order_ids_ok_def refundOrdersBelongToPayment_def)
  have stat: "refundablePayment s" using st0 by (auto simp: refundablePayment_def captured_status_def)
  have new: "decidePayment h s (recordRequested t r) =
      newRefund h s pid \<lparr>rpr_refundId = Some (pmq_refundId r), rpr_orderIds = Some [k],
        rpr_processorStatus = ''succeeded'', rpr_processorRefundReference = None, rpr_amount = Some (pmq_amount r),
        rpr_refundedAmount = None, rpr_refundedAt = t\<rparr> (Some (pmq_refundId r)) None [k] (pmq_amount r)"
    using pid x norm belongs stat find
    by (simp add: recordRequested_def decideRecordPaymentRefund_def k money_simps Let_def normalizeOptionalText_def)
  have "js_trim ''succeeded'' = ''succeeded''" by code_simp
  then have succeeded: "paymentsRequiredText ''succeeded'' m = Inr ''succeeded''" for m
    by (simp add: paymentsRequiredText_def)
  obtain d where dec: "decidePayment h s (recordRequested t r) = Inr [PaymentRefundedEvent d]"
    unfolding new newRefund_def using s(1) cum(1) cmp adds ys t
    by (auto simp: cumulativeRefund_def truthyText_def refundedEvent_def paymentsIsoTimestamp_def succeeded)
  have first: "requested_first s (recordRequested t r)"
    using r by (auto simp: recordRequested_def records_request_def)
  with dec have dec': "decideRequested h s (recordRequested t r) = Inr [PaymentRefundedEvent d]"
    by (simp add: decideRequested_def)
  from payment.decided_replays [OF p(1) dec] obtain s' where s': "applyEvents s evolvePayment [PaymentRefundedEvent d] = Inr s'"
    by blast
  note T = refund_taken [OF p(1) r k dec [unfolded recordRequested_def decidePayment.simps] _ _ s']
  show thesis
    by (rule that [OF dec' _ s' decided_keeps [OF inv dec' s'] T(6) T(4)]) (simp_all add: records_request_def)
qed

definition owes :: "int \<Rightarrow> PaymentState \<Rightarrow> bool" where
  "owes n s \<longleftrightarrow> centsOf (py_refundedAmount s) + request_sum s = n"

interpretation requested: aggregate initialPaymentState evolvePayment "decideRequested h" reserve_inv
  by unfold_locales (rule reserve_inv_initial, rule decided_keeps)

interpretation recording: progressing_aggregate initialPaymentState evolvePayment "decideRequested h" reserve_inv
  "\<lambda>s. length (py_refundRequests s)" "owes n" "\<lambda>c. c \<in> range (recordRequested readableTime)" for h n
proof
  fix h n s assume s: "reserve_inv s" "owes n s" "0 < length (py_refundRequests s)"
  then obtain r where r: "r \<in> set (py_refundRequests s)" by (meson length_pos_if_in_set nth_mem)
  obtain m where "Date_parse h readableTime = Some m" using readableTime_parses by blast
  from request_can_be_recorded [OF s(1) r this] obtain es s' where
    e: "decideRequested h s (recordRequested readableTime r) = Inr es" "applyEvents s evolvePayment es = Inr s'"
      "py_refundRequests s' = filter (\<lambda>q. pmq_refundId q \<noteq> pmq_refundId r) (py_refundRequests s)"
      "centsOf (py_refundedAmount s') = centsOf (py_refundedAmount s) + centsOf (pmq_amount r)" by blast
  have "py_status s \<noteq> None" using s(1) r by (auto simp: reserve_inv_def reserve_ledger_def)
  then obtain pid where "py_paymentId s = Some pid"
    using s(1) by (cases "py_paymentId s") (auto simp: reserve_inv_def payment_inv_def initialPaymentState_def)
  with s(1) obtain a st where "created_inv s a st" by (auto simp: reserve_inv_def elim: payment_created)
  then have "distinct (map pmq_refundId (py_refundRequests s))" by (simp add: created_inv_def request_ledger_def)
  from request_sum_remove [OF this r, where f = "\<lambda>q. centsOf (pmq_amount q)" and P = "\<lambda>_. True"] s(2) e(3,4)
  have "owes n s'" by (simp add: owes_def request_sum_def)
  moreover have "length (py_refundRequests s') < length (py_refundRequests s)"
    unfolding e(3) by (rule length_filter_less [OF r]) simp
  ultimately show "\<exists>c es s'. c \<in> range (recordRequested readableTime) \<and> decideRequested h s c = Inr es \<and>
      applyEvents s evolvePayment es = Inr s' \<and> owes n s' \<and> length (py_refundRequests s') < length (py_refundRequests s)"
    using e(1,2) by blast
qed

end
