(* ===== verification/PaymentAllocation.thy ===== *)
theory PaymentAllocation
  imports PaymentReserve
begin

text \<open>
  The allocation of a refund over several orders takes the orders one after the other, each up to what is
  paid and not yet refunded; requests that are open do not count. What a refund that drains an order leaves
  to an open request of that order.
\<close>

section \<open>What the loop takes\<close>

lemma allocate_refused:
  assumes "amounts_ok (refundableCapsForState s)" "amounts_ok (py_refundedOrderAmounts s)"
    and "canonical amount" "0 \<le> centsOf amount" "distinct ks" and "sum_list (map (available s) ks) < centsOf amount"
  shows "allocateRefundAmountToOrders s ks amount =
    Inl (PaymentsInvalid ''Refund amount cannot exceed the remaining refundable order amount.'')"
proof -
  from allocateLoop_Inr [OF assms(1,2,4) canonical_in_range [OF assms(3)] assms(5), of "[]"] obtain new where
    "allocateLoop s (centsOf amount) [] ks = Inr (max 0 (centsOf amount - sum_list (map (available s) ks)), new)" by auto
  with assms(3,4,6) show ?thesis by (simp add: allocateRefundAmountToOrders_def money_simps)
qed

lemma allocate_first:
  assumes caps: "amounts_ok (refundableCapsForState s)" "amounts_ok (py_refundedOrderAmounts s)"
    and amount: "canonical amount" "0 < centsOf amount" "available s k \<le> centsOf amount" and ids: "distinct (k # ks)"
    and adds: "allocateRefundAmountToOrders s (k # ks) amount = Inr adds"
  shows "cents_for adds k = available s k"
proof -
  have range: "in_range (centsOf amount)" by (rule canonical_in_range [OF amount(1)])
  let ?c = "available s k"
  let ?e = "\<lparr>oma_orderId = k, oma_amount = formatCents ?c\<rparr>"
  have rest: "0 \<le> centsOf amount - ?c" "in_range (centsOf amount - ?c)" "in_range ?c"
    using range amount(3) by (auto simp: in_range_def available_def)
  have loop: "\<exists>n. allocateLoop s (centsOf amount) [] (k # ks) = Inr (n, adds)"
    using adds amount(1,2) by (auto simp: allocateRefundAmountToOrders_def money_simps res_simps simp del: allocateLoop.simps)
  have other: "cents_for new k = 0" if "additions_ok s ks new" for new
    using that ids by (intro cents_for_other) (auto simp: additions_ok_def)
  note step = allocateLoop_step [OF caps amount(2) range, of "[]" k ks, unfolded Let_def min_absorb2 [OF amount(3)]]
  show ?thesis
  proof (cases "?c = 0")
    case True
    from allocateLoop_Inr [OF caps _ range, of ks "[]"] amount(2) ids obtain new where
      "allocateLoop s (centsOf amount) [] ks = Inr (max 0 (centsOf amount - sum_list (map (available s) ks)), new)"
      "additions_ok s ks new" by auto
    with loop step True other show ?thesis by (auto simp del: allocateLoop.simps)
  next
    case False
    from allocateLoop_Inr [OF caps rest(1,2), of ks "[?e]"] ids obtain new where
      "allocateLoop s (centsOf amount - ?c) [?e] ks =
         Inr (max 0 (centsOf amount - ?c - sum_list (map (available s) ks)), ?e # new)"
      "additions_ok s ks new" by auto
    with loop step False have "adds = ?e # new" by (auto simp del: allocateLoop.simps)
    with rest(3) show ?thesis by simp
  qed
qed


section \<open>A recorded request\<close>

lemma refund_allocation:
  assumes "decideRecordPaymentRefund h s c = Inr [PaymentRefundedEvent d]"
  shows "\<exists>adds ys. allocateRefundAmountToOrders s (pre_orderIds d) (pre_amount d) = Inr adds \<and>
    mergeRefundedOrderAmounts (py_refundedOrderAmounts s) adds = Inr ys \<and> pre_refundedOrderAmounts d = Some ys"
  using assms by (auto simp: decideRecordPaymentRefund_def newRefund_def refundedEvent_def res_simps Let_def
      split: option.splits if_splits)

lemma request_recorded:
  assumes inv: "payment_inv s" and r: "r \<in> set (py_refundRequests s)"
    and dec: "decidePayment h s (recordRequested t r) = Inr new" "new \<noteq> []" and app: "applyEvents s evolvePayment new = Inr s'"
  obtains adds where "allocateRefundAmountToOrders s (pmq_orderIds r) (pmq_amount r) = Inr adds"
    "\<And>k. cents_for (py_refundedOrderAmounts s') k = cents_for (py_refundedOrderAmounts s) k + cents_for adds k"
    "refundableCapsForState s' = refundableCapsForState s" "py_amount s' = py_amount s" "py_paymentId s' = py_paymentId s"
    "py_orderIds s' = py_orderIds s"
    "centsOf (py_refundedAmount s') = centsOf (py_refundedAmount s) + centsOf (pmq_amount r)"
    "py_refundRequests s' = filter (\<lambda>q. pmq_refundId q \<noteq> pmq_refundId r) (py_refundRequests s)"
    "map pmi_refundId (py_issuedRefunds s') = map pmi_refundId (py_issuedRefunds s) @ [Some (pmq_refundId r)]"
    "refundablePayment s'"
proof -
  let ?c = "\<lparr>rpr_refundId = Some (pmq_refundId r), rpr_orderIds = Some (pmq_orderIds r),
      rpr_processorStatus = ''succeeded'', rpr_processorRefundReference = None, rpr_amount = Some (pmq_amount r),
      rpr_refundedAmount = None, rpr_refundedAt = t\<rparr>"
  have dec': "decideRecordPaymentRefund h s ?c = Inr new" using dec(1) by (simp add: recordRequested_def)
  obtain pid raw x ks d where
    e: "py_paymentId s = Some pid" "rpr_amount ?c = Some raw" "paymentsMoneyAmount raw False ''Refund amount'' = Inr x"
      "normalizeOrderIds (orElse (rpr_orderIds ?c) []) = Inr ks" "ks \<noteq> []" "refundOrdersBelongToPayment s ks"
      "findIssuedRefund s (rpr_refundId ?c) (normalizeOptionalText (rpr_processorRefundReference ?c)) = None"
      "new = [PaymentRefundedEvent d]" "pre_refundId d = rpr_refundId ?c"
      "pre_processorRefundReference d = normalizeOptionalText (rpr_processorRefundReference ?c)"
      "pre_orderIds d = ks" "pre_amount d = x"
    by (rule refund_event [OF dec' dec(2)])
  from payment_created [OF inv e(1)] obtain a st where a: "py_amount s = Some a" and ci: "created_inv s a st" by blast
  then have ok: "request_ok s r" using r by (auto simp: created_inv_def request_ledger_def)
  then have x: "x = pmq_amount r" and ks: "ks = pmq_orderIds r"
    using e(2-4) clean_order_ids [of "pmq_orderIds r"]
    by (auto simp: request_ok_def positive_money_def order_ids_ok_def money_simps)
  from decided_refund [OF inv dec'] e(8) have fits: "refund_fits s d" by (auto simp: payment_batch_def)
  obtain adds ys where adds: "allocateRefundAmountToOrders s ks x = Inr adds"
    and ys: "mergeRefundedOrderAmounts (py_refundedOrderAmounts s) adds = Inr ys" "pre_refundedOrderAmounts d = Some ys"
    using refund_allocation [OF dec' [unfolded e(8)]] e(11,12) by auto
  have R: "amounts_ok (py_refundedOrderAmounts s)" using ci by (simp add: created_inv_def refund_ledger_def)
  have ids: "order_ids_ok s ks" using ok by (simp add: request_ok_def ks)
  have "additions_ok s ks adds"
    using allocate_Inr(2) [OF created_caps [OF ci a] R _ _ _ adds] ok ids
    by (simp add: x request_ok_def positive_money_def order_ids_ok_def)
  from merge_Inr(1) [OF R additions_amounts_ok [OF this ids] ys(1)]
  have m: "amounts_ok ys" "\<And>k. cents_for ys k = cents_for (py_refundedOrderAmounts s) k + cents_for adds k" by simp_all
  have "evolvePaymentRefunded s d = Inr s'" using app e(8) by (auto simp: applyEvents_Cons)
  then have s': "s' = s
         \<lparr>py_processorStatus := Some (pre_processorStatus d),
          py_status := Some (if Some (pre_refundedAmount d) = py_amount s then Refunded else PartiallyRefunded),
          py_failureCode := None, py_failureMessage := None, py_refundedAt := Some (pre_refundedAt d),
          py_refundedAmount := pre_refundedAmount d, py_refundedOrderAmounts := ys,
          py_refundRequests := filter (\<lambda>request. Some (pmq_refundId request) \<noteq> pre_refundId d) (py_refundRequests s),
          py_issuedRefunds := py_issuedRefunds s @
            [\<lparr>pmi_refundId = pre_refundId d, pmi_processorRefundReference = pre_processorRefundReference d,
              pmi_orderIds = pre_orderIds d, pmi_amount = pre_amount d\<rparr>]\<rparr>"
    by (simp add: evolvePaymentRefunded_def ys(2) normalizeOrderMoneyAmounts_id [OF m(1)])
  have cum: "centsOf (pre_refundedAmount d) = centsOf (py_refundedAmount s) + centsOf (pmq_amount r)"
    using fits by (simp add: refund_fits_def e(12) x)
  have "refundableCapsForState s' = refundableCapsForState s" by (rule refundable_caps_cong) (simp_all add: s')
  with adds show thesis
    by (intro that [of adds]) (simp_all add: x ks s' m(2) cum e(9) refundablePayment_def)
qed


section \<open>A drained order\<close>

text \<open>A request for one order that nothing is left of cannot be recorded, though the payment as a whole has room.\<close>

lemma drained_order_refuses:
  assumes inv: "payment_inv s" and r: "r \<in> set (py_refundRequests s)" "pmq_orderIds r = [k]"
    and st: "refundablePayment s" and drained: "available s k = 0"
    and fresh: "\<forall>i\<in>set (py_issuedRefunds s). pmi_refundId i \<noteq> Some (pmq_refundId r)"
    and a: "py_amount s = Some a" "centsOf (py_refundedAmount s) + centsOf (pmq_amount r) \<le> centsOf a"
  shows "decidePayment h s (recordRequested t r) =
    Inl (PaymentsInvalid ''Refund amount cannot exceed the remaining refundable order amount.'')"
proof -
  from inv st obtain pid where pid: "py_paymentId s = Some pid"
    by (cases "py_paymentId s") (auto simp: payment_inv_def initialPaymentState_def refundablePayment_def)
  from payment_created [OF inv pid] a(1) obtain st' where ci: "created_inv s a st'" by auto
  note L = ledger_canonical [OF ci]
  have R: "amounts_ok (py_refundedOrderAmounts s)" "0 \<le> centsOf (py_refundedAmount s)"
    using ci by (simp_all add: created_inv_def refund_ledger_def)
  from ci r(1) have ok: "request_ok s r" by (auto simp: created_inv_def request_ledger_def)
  then have x: "canonical (pmq_amount r)" "0 < centsOf (pmq_amount r)" and ids: "order_ids_ok s [k]"
    by (simp_all add: request_ok_def positive_money_def r(2))
  have range: "in_range (centsOf (py_refundedAmount s) + centsOf (pmq_amount r))"
    using a(2) L(6) R(2) x(2) by (simp add: in_range_def)
  have alloc: "allocateRefundAmountToOrders s [k] (pmq_amount r) =
      Inl (PaymentsInvalid ''Refund amount cannot exceed the remaining refundable order amount.'')"
    using x drained by (intro allocate_refused created_caps [OF ci a(1)] R) simp_all
  have find: "findIssuedRefund s (Some (pmq_refundId r)) None = None"
    using fresh by (simp add: findIssuedRefund_def find_None_iff)
  have norm: "normalizeOrderIds [k] = Inr [k]"
    using ids by (intro clean_order_ids) (simp_all add: order_ids_ok_def)
  obtain cum where cum: "paymentsAddMoney (py_refundedAmount s) (pmq_amount r) = Inr cum" "canonical cum"
    "centsOf cum = centsOf (py_refundedAmount s) + centsOf (pmq_amount r)"
    using paymentsAddMoney_canonical [OF L(2) x(1) R(2)] x(2) range R(2) by (simp add: money_simps)
  have cmp: "paymentsCompareMoney cum (py_refundedAmount s) = Inr 1"
    "\<exists>sign. paymentsCompareMoney cum a = Inr sign \<and> sign \<le> 0"
    using paymentsCompare_canonical [OF cum(2) L(2)] paymentsCompare_canonical [OF cum(2) L(1)] cum(3) x(2) a(2) by auto
  have belongs: "refundOrdersBelongToPayment s [k]" using ids by (simp add: order_ids_ok_def refundOrdersBelongToPayment_def)
  show ?thesis
    using pid x norm belongs st find a(1) cum(1) cmp alloc
    by (auto simp: recordRequested_def decideRecordPaymentRefund_def r(2) money_simps Let_def normalizeOptionalText_def
        newRefund_def cumulativeRefund_def truthyText_def refundedEvent_def)
qed

lemma greedy_refund_drains:
  assumes inv: "payment_inv s" and r1: "r1 \<in> set (py_refundRequests s)" "pmq_orderIds r1 = [k]"
    and r2: "r2 \<in> set (py_refundRequests s)" "pmq_orderIds r2 = k # ks" and ne: "r1 \<noteq> r2"
    and all: "cents_for (refundableCapsForState s) k - cents_for (py_refundedOrderAmounts s) k \<le> centsOf (pmq_amount r2)"
    and fresh: "\<forall>i\<in>set (py_issuedRefunds s). pmi_refundId i \<noteq> Some (pmq_refundId r1)"
    and a: "py_amount s = Some a"
      "centsOf (py_refundedAmount s) + centsOf (pmq_amount r1) + centsOf (pmq_amount r2) \<le> centsOf a"
    and dec: "decidePayment h s (recordRequested t r2) = Inr new" "new \<noteq> []" and app: "applyEvents s evolvePayment new = Inr s'"
  shows "r1 \<in> set (py_refundRequests s') \<and> decidePayment h s' (recordRequested t' r1) =
    Inl (PaymentsInvalid ''Refund amount cannot exceed the remaining refundable order amount.'')"
proof -
  from inv r1(1) obtain pid where pid: "py_paymentId s = Some pid"
    by (cases "py_paymentId s") (auto simp: payment_inv_def initialPaymentState_def)
  from payment_created [OF inv pid] a(1) obtain st where ci: "created_inv s a st" by auto
  have R: "amounts_ok (py_refundedOrderAmounts s)" using ci by (simp add: created_inv_def refund_ledger_def)
  have ok: "request_ok s r2" and dist: "distinct (map pmq_refundId (py_refundRequests s))"
    using ci r2(1) by (auto simp: created_inv_def request_ledger_def)
  then have x: "canonical (pmq_amount r2)" "0 < centsOf (pmq_amount r2)" "distinct (k # ks)"
    by (simp_all add: request_ok_def positive_money_def order_ids_ok_def r2(2))
  have ids: "pmq_refundId r1 \<noteq> pmq_refundId r2" using dist r1(1) r2(1) ne by (auto simp: distinct_map inj_on_def)
  obtain adds where adds: "allocateRefundAmountToOrders s (pmq_orderIds r2) (pmq_amount r2) = Inr adds"
    and s': "\<And>k. cents_for (py_refundedOrderAmounts s') k = cents_for (py_refundedOrderAmounts s) k + cents_for adds k"
      "refundableCapsForState s' = refundableCapsForState s" "py_amount s' = py_amount s"
      "centsOf (py_refundedAmount s') = centsOf (py_refundedAmount s) + centsOf (pmq_amount r2)"
      "py_refundRequests s' = filter (\<lambda>q. pmq_refundId q \<noteq> pmq_refundId r2) (py_refundRequests s)"
      "map pmi_refundId (py_issuedRefunds s') = map pmi_refundId (py_issuedRefunds s) @ [Some (pmq_refundId r2)]"
      "refundablePayment s'"
    by (rule request_recorded [OF inv r2(1) dec app]) blast
  have "cents_for adds k = available s k"
    using adds all x by (intro allocate_first [OF created_caps [OF ci a(1)] R x(1,2)]) (simp_all add: r2(2) available_def)
  then have drained: "available s' k = 0" by (simp add: available_def s'(1,2))
  have mem: "r1 \<in> set (py_refundRequests s')" using r1(1) ids by (simp add: s'(5))
  have "\<forall>i\<in>set (py_issuedRefunds s'). pmi_refundId i \<noteq> Some (pmq_refundId r1)"
    using fresh ids arg_cong [OF s'(6), of set] by force
  moreover have "payment_inv s'" by (rule payment.inv_decided [OF inv dec(1) app])
  ultimately show ?thesis
    using drained_order_refuses [OF _ mem r1(2) s'(7) drained] mem a by (simp add: s'(3,4))
qed

end
