(* ===== verification/PaymentProps.thy ===== *)
theory PaymentProps
  imports PaymentAllocation
begin

text \<open>The properties of the payment aggregate.\<close>

section \<open>Samples\<close>

definition paymentHost :: host where
  "paymentHost = \<lparr>host_dateParse = (\<lambda>_. None), host_sha256Hex = (\<lambda>_. [])\<rparr>"

definition createPaymentSample :: "OrderMoneyAmount list \<Rightarrow> PaymentCommand" where
  "createPaymentSample caps = CreatePayment
     \<lparr>cpm_paymentId = ''pay_1'', cpm_buyerAccountId = ''acc_1'', cpm_orderIds = map oma_orderId caps,
      cpm_amount = ''20'', cpm_balanceCreditAmount = None, cpm_processorAmount = None,
      cpm_marketplaceSalesFeeAmount = ''1.00'', cpm_authenticityFeeAmount = None,
      cpm_marketplaceCheckoutFeeAmount = ''0.50'', cpm_marketplaceCheckoutFeePolicyVersion = None,
      cpm_marketplaceCheckoutFeeQuoteFingerprint = None, cpm_paymentMethodCategory = Some ''card'',
      cpm_savedCheckoutInstrumentId = None, cpm_sellerNetAmount = ''19.00'', cpm_sellerPayoutAmount = None,
      cpm_sellerPayouts = None, cpm_orderRefundCaps = Some caps, cpm_currencyCode = ''USD'',
      cpm_processorName = ''Stripe'', cpm_processorPaymentKind = PaymentIntent,
      cpm_processorPaymentReference = ''pi_1'', cpm_processorClientSecret = None, cpm_processorRedirectUrl = None,
      cpm_processorStatus = ''requires_action'', cpm_sourceContext = Some ''checkout'', cpm_sourceReferenceId = None,
      cpm_threeDSecureRequest = None, cpm_threeDSecureReasonCodes = None, cpm_createdAt = readableTime\<rparr>"

definition twoOrders :: "OrderMoneyAmount list" where
  "twoOrders = [\<lparr>oma_orderId = ''ord_1'', oma_amount = ''10''\<rparr>, \<lparr>oma_orderId = ''ord_2'', oma_amount = ''10.00''\<rparr>]"

definition requestSample :: "string \<Rightarrow> string list \<Rightarrow> string \<Rightarrow> RequestPaymentRefundCommand" where
  "requestSample i ks amount =
     \<lparr>rqp_refundId = i, rqp_orderIds = ks, rqp_amount = amount, rqp_requestedAt = readableTime\<rparr>"

definition requestOf :: "string \<Rightarrow> string list \<Rightarrow> string \<Rightarrow> PaymentRefundRequest" where
  "requestOf i ks amount = \<lparr>pmq_refundId = i, pmq_orderIds = ks, pmq_amount = amount\<rparr>"

definition paidRun :: "PaymentCommand list" where
  "paidRun = [createPaymentSample twoOrders, RecordPaymentCapture ''succeeded'' readableTime,
     RequestPaymentRefund (requestSample ''rfd_1'' [''ord_1''] ''5''),
     RequestPaymentRefund (requestSample ''rfd_2'' ['' ord_2''] ''4.00''),
     recordRequested readableTime (requestOf ''rfd_1'' [''ord_1''] ''5.00'')]"

text \<open>A payment of two orders, captured, with one refund recorded and one still open; all samples read this
  state, and the request of a further refund.\<close>

definition paidReading :: "PaymentState \<Rightarrow> bool" where
  "paidReading s \<longleftrightarrow> py_refundedAmount s = ''5.00'' \<and> py_amount s = Some ''20.00'' \<and>
     py_status s = Some PartiallyRefunded \<and> py_refundRequests s = [requestOf ''rfd_2'' [''ord_2''] ''4.00''] \<and>
     length (py_issuedRefunds s) = 1 \<and>
     map (\<lambda>e. (oma_orderId e, oma_amount e)) (py_refundedOrderAmounts s) = [(''ord_1'', ''5.00'')]"

abbreviation lastRequest :: RequestPaymentRefundCommand where
  "lastRequest \<equiv> requestSample ''rfd_3'' [''ord_1''] ''4.5''"

lemma paidSample:
  obtains s es where "paidReading s" "reachable_history initialPaymentState evolvePayment (decideRequested paymentHost) es"
    "payment_history paymentHost es" "payment_load es = Inr s"
    "decidePayment paymentHost s (RequestPaymentRefund lastRequest) =
       Inr [PaymentRefundRequestedEvent ''pay_1'' (requestOf ''rfd_3'' [''ord_1''] ''4.50'') readableTime]"
proof -
  have "case runThenStep initialPaymentState evolvePayment (decideRequested paymentHost) paidRun
      (RequestPaymentRefund lastRequest) of
      Inr (s, new, s') \<Rightarrow> paidReading s \<and> requested_first s (RequestPaymentRefund lastRequest) \<and>
        (case new of [PaymentRefundRequestedEvent pid r t] \<Rightarrow>
           pid = ''pay_1'' \<and> r = requestOf ''rfd_3'' [''ord_1''] ''4.50'' \<and> t = readableTime | _ \<Rightarrow> False)
    | Inl _ \<Rightarrow> False" by code_simp
  then obtain s new s' es where r: "paidReading s \<and> requested_first s (RequestPaymentRefund lastRequest) \<and>
        (case new of [PaymentRefundRequestedEvent pid r t] \<Rightarrow>
           pid = ''pay_1'' \<and> r = requestOf ''rfd_3'' [''ord_1''] ''4.50'' \<and> t = readableTime | _ \<Rightarrow> False)"
    and l: "reachable_history initialPaymentState evolvePayment (decideRequested paymentHost) es" "payment_load es = Inr s"
    and dec: "decideRequested paymentHost s (RequestPaymentRefund lastRequest) = Inr new"
    by (rule runThenStep_cases)
  from r have "new = [PaymentRefundRequestedEvent ''pay_1'' (requestOf ''rfd_3'' [''ord_1''] ''4.50'') readableTime]"
    by (cases new; cases "tl new"; cases "hd new") simp_all
  with r dec have d: "decidePayment paymentHost s (RequestPaymentRefund lastRequest) =
      Inr [PaymentRefundRequestedEvent ''pay_1'' (requestOf ''rfd_3'' [''ord_1''] ''4.50'') readableTime]"
    by (simp add: decideRequested_def)
  from r have p: "paidReading s" by blast
  show thesis by (rule that [OF p l(1) requested_history [OF l(1)] l(2) d])
qed


section \<open>Refunds add up\<close>

text \<open>
  C3. The refunds of a payment add up: the refunded amount is the sum of the recorded refunds and the sum of
  what its orders got back, at most the payment, and for each order at most its cap; every refund id
  and every processor reference was recorded once, and the payment counts as refunded, or as partly
  refunded, only when the amounts say so.
\<close>

theorem payment_refunds_add_up:
  assumes "payment_history h es" and "payment_load es = Inr s" and "py_amount s = Some a"
  shows "centsOf (py_refundedAmount s) = issued_sum s \<and>
    order_sum (py_refundedOrderAmounts s) = issued_sum s \<and> issued_sum s \<le> centsOf a \<and>
    (\<forall>k. cents_for (py_refundedOrderAmounts s) k \<le> cents_for (refundableCapsForState s) k) \<and>
    distinct (List.map_filter pmi_refundId (py_issuedRefunds s)) \<and>
    distinct (List.map_filter pmi_processorRefundReference (py_issuedRefunds s)) \<and>
    (py_status s = Some Refunded \<longrightarrow> py_refundedAmount s = a) \<and>
    (py_status s = Some PartiallyRefunded \<longrightarrow> 0 < issued_sum s \<and> issued_sum s < centsOf a)"
proof -
  have inv: "payment_inv s" by (rule payment.loaded_inv [OF assms(1,2)])
  with assms(3) obtain pid where "py_paymentId s = Some pid"
    by (cases "py_paymentId s") (auto simp: payment_inv_def initialPaymentState_def)
  from payment_created [OF inv this] assms(3) obtain st where st: "py_status s = Some st" "created_inv s a st" by auto
  then have I: "refund_ledger s (centsOf a)" "status_ledger s (centsOf a) st" by (simp_all add: created_inv_def)
  have "canonical a" using ledger_canonical(1) [OF st(2)] .
  with I st(1) show ?thesis by (auto simp: refund_ledger_def status_ledger_def canonical_eqI)
qed

theorem payment_refunds_add_up_witness:
  "\<exists>(s :: PaymentState). py_refundedAmount s = ''5.00'' \<and> py_status s = Some PartiallyRefunded \<and> issued_sum s = 500 \<and>
     order_sum (py_refundedOrderAmounts s) = 500"
proof -
  obtain s es where s: "paidReading s" and l: "payment_history paymentHost es" "payment_load es = Inr s"
    by (rule paidSample)
  have "centsOf ''5.00'' = 500" by code_simp
  with payment_refunds_add_up [OF l, of "''20.00''"] s show ?thesis unfolding paidReading_def by (intro exI [of _ s]) auto
qed

text \<open>
  C12. A refund can only be requested within what remains: a new request is accepted only for a captured
  payment, with an id no open request has, for at most the payment less what is refunded and what open
  requests reserve, and for at most what its orders have left when every open request is counted in full
  for each of its orders.
\<close>

theorem refund_request_within_remaining:
  assumes "payment_history h es" and "payment_load es = Inr s"
    and "decidePayment h s (RequestPaymentRefund c) = Inr new" and "PaymentRefundRequestedEvent pid r t \<in> set new"
  shows "(py_status s = Some Captured \<or> py_status s = Some PartiallyRefunded) \<and>
    pmq_refundId r \<notin> set (map pmq_refundId (py_refundRequests s)) \<and>
    (\<exists>a. py_amount s = Some a \<and>
       0 < centsOf (pmq_amount r) \<and> centsOf (pmq_amount r) \<le> centsOf a - centsOf (py_refundedAmount s) - request_sum s) \<and>
    centsOf (pmq_amount r) \<le> sum_list (map (unreserved s) (pmq_orderIds r))"
proof -
  from decided_payment_batch [OF payment.loaded_inv [OF assms(1,2)] assms(3)] assms(4)
  have "event_fits s (PaymentRefundRequestedEvent pid r t)" by (auto simp: payment_batch_def)
  then have st: "py_status s = Some Captured \<or> py_status s = Some PartiallyRefunded" and fits: "request_fits s r" by simp_all
  from fits obtain a where "py_amount s = Some a" "0 < centsOf (pmq_amount r)"
    "centsOf (py_refundedAmount s) + request_sum s + centsOf (pmq_amount r) \<le> centsOf a"
    by (auto simp: request_fits_def request_ok_def positive_money_def)
  then have "\<exists>a. py_amount s = Some a \<and> 0 < centsOf (pmq_amount r) \<and>
      centsOf (pmq_amount r) \<le> centsOf a - centsOf (py_refundedAmount s) - request_sum s" by auto
  with st fits show ?thesis by (simp add: request_fits_def)
qed

theorem refund_request_within_remaining_witness:
  "\<exists>s. paidReading s \<and> (450 :: int) \<le> 2000 - centsOf (py_refundedAmount s) - request_sum s \<and> 450 \<le> unreserved s ''ord_1''"
proof -
  obtain s es where s: "paidReading s" and l: "payment_history paymentHost es" "payment_load es = Inr s"
    and dec: "decidePayment paymentHost s (RequestPaymentRefund lastRequest) =
       Inr [PaymentRefundRequestedEvent ''pay_1'' (requestOf ''rfd_3'' [''ord_1''] ''4.50'') readableTime]"
    by (rule paidSample)
  have c: "centsOf ''20.00'' = 2000" "centsOf ''4.50'' = 450" by code_simp+
  from s have a: "py_amount s = Some ''20.00''" by (simp add: paidReading_def)
  from refund_request_within_remaining [OF l dec list.set_intros(1)] c a
  have "(450 :: int) \<le> 2000 - centsOf (py_refundedAmount s) - request_sum s" "450 \<le> unreserved s ''ord_1''"
    by (simp_all add: requestOf_def)
  with s show ?thesis by blast
qed

text \<open>
  C13. Whatever a provider or a caller repeats changes nothing: a command that was accepted, and whose events
  were applied, is accepted again with no events. A refund must carry its id or the processor's
  reference, a dispute the provider's event id, an authorization a time; a repeated creation is refused.
\<close>

theorem payment_redelivery_is_idempotent:
  assumes "decidePayment h s c = Inr new" and "applyEvents s evolvePayment new = Inr s'" and "redeliverable c"
  shows "decidePayment h s' c = Inr []"
  using assms by (rule redelivered)

theorem payment_redelivery_is_idempotent_witness:
  "\<exists>(s :: PaymentState) (s' :: PaymentState). py_refundRequests s = [requestOf ''rfd_2'' [''ord_2''] ''4.00''] \<and> length (py_refundRequests s') = 2 \<and>
     decidePayment paymentHost s' (RequestPaymentRefund lastRequest) = Inr []"
proof -
  obtain s es where s: "paidReading s" and dec: "decidePayment paymentHost s (RequestPaymentRefund lastRequest) =
       Inr [PaymentRefundRequestedEvent ''pay_1'' (requestOf ''rfd_3'' [''ord_1''] ''4.50'') readableTime]"
    by (rule paidSample)
  have app: "applyEvents s evolvePayment [PaymentRefundRequestedEvent ''pay_1'' (requestOf ''rfd_3'' [''ord_1''] ''4.50'') readableTime] =
      Inr (s\<lparr>py_refundRequests := py_refundRequests s @ [requestOf ''rfd_3'' [''ord_1''] ''4.50'']\<rparr>)"
    using s by (simp add: applyEvents_Cons evolveRefundRequested_def paidReading_def requestOf_def)
  have "redeliverable (RequestPaymentRefund lastRequest)" by simp
  from payment_redelivery_is_idempotent [OF dec app this] s show ?thesis
    by (intro exI [of _ s] exI [of _ "s\<lparr>py_refundRequests := py_refundRequests s @ [requestOf ''rfd_3'' [''ord_1''] ''4.50'']\<rparr>"])
      (simp add: paidReading_def)
qed


section \<open>The life cycle\<close>

text \<open>
  C14. The payment refines its life cycle: every history loads, and is a path of the life cycle. A payment is
  captured at most once, is never cancelled once captured, and refunds, requests for them and disputes
  come only with a captured payment.
\<close>

theorem payment_follows_life_cycle:
  assumes "payment_history h es"
  shows "\<exists>s. payment_load es = Inr s \<and> event_path payment_step (None, False) es (payment_phase s) \<and>
    length (filter is_PaymentCapturedEvent es) \<le> 1 \<and>
    \<not> ((\<exists>e\<in>set es. is_PaymentCapturedEvent e) \<and> (\<exists>e\<in>set es. is_PaymentCancelledEvent e)) \<and>
    ((\<exists>e\<in>set es. needs_capture e) \<longrightarrow> (\<exists>e\<in>set es. is_PaymentCapturedEvent e))"
proof -
  from payment.history_loads [OF assms] obtain s where s: "payment_load es = Inr s" by blast
  have "payment_phase initialPaymentState = (None, False)" by (simp add: payment_phase_def initialPaymentState_def)
  with payment_life.history_path [OF assms s] have path: "event_path payment_step (None, False) es (payment_phase s)" by simp
  have "(\<exists>e\<in>set es. is_PaymentCapturedEvent e) \<longleftrightarrow> filter is_PaymentCapturedEvent es \<noteq> []"
    by (simp add: filter_empty_conv)
  with payment_path_captures [OF path] s path show ?thesis by (auto split: if_splits)
qed

theorem payment_follows_life_cycle_witness:
  "\<exists>s es. payment_load es = Inr s \<and> py_status s = Some PartiallyRefunded \<and>
     event_path payment_step (None, False) es (payment_phase s) \<and> length (filter is_PaymentCapturedEvent es) \<le> 1"
proof -
  obtain s es where s: "paidReading s" and l: "payment_history paymentHost es" "payment_load es = Inr s"
    by (rule paidSample)
  with payment_follows_life_cycle [OF l(1)] show ?thesis unfolding paidReading_def by auto
qed

text \<open>
  C38. A failure reported after a refund blocks the rest of the refunds: only a payment whose status is exactly
  captured refuses to fail. A captured payment that is partly refunded, refunded or disputed accepts it,
  keeps what it captured, and from then on refuses every refund that the provider reports.
\<close>

theorem late_failure_blocks_refunds:
  assumes "payment_history h es" and "payment_load es = Inr s"
    and "py_status s \<in> {Some PartiallyRefunded, Some Refunded, Some Disputed}"
    and "js_trim st \<noteq> []" and "Date_parse h fat = Some n"
  shows "\<exists>new s'. decidePayment h s (RecordPaymentFailure st code msg fat) = Inr new \<and>
    applyEvents s evolvePayment new = Inr s' \<and> py_status s' = Some PaymentFailed \<and>
    py_capturedAt s' = py_capturedAt s \<and> py_capturedAt s \<noteq> None \<and> py_refundedAmount s' = py_refundedAmount s \<and>
    py_refundRequests s' = py_refundRequests s \<and>
    (\<forall>c. decidePayment h s' (RecordPaymentRefund c) =
       Inl (PaymentsInvalid ''Only captured payments can be refunded.''))"
proof -
  have inv: "payment_inv s" by (rule payment.loaded_inv [OF assms(1,2)])
  with assms(3) obtain pid where pid: "py_paymentId s = Some pid"
    by (cases "py_paymentId s") (auto simp: payment_inv_def initialPaymentState_def)
  from payment_created [OF inv pid] obtain a st0 where "py_status s = Some st0" "created_inv s a st0" by blast
  then have "py_capturedAt s \<noteq> None"
    using assms(3) by (auto simp: created_inv_def status_ledger_def captured_status_def)
  with assms(3-5) pid show ?thesis
    by (auto simp: decidePaymentFailure_def applyEvents_Cons paymentsRequiredText_def paymentsIsoTimestamp_def Let_def
        decideRecordPaymentRefund_def refundablePayment_def)
qed

theorem late_failure_blocks_refunds_witness:
  "\<exists>(s' :: PaymentState). py_refundedAmount s' = ''5.00'' \<and> py_refundRequests s' = [requestOf ''rfd_2'' [''ord_2''] ''4.00''] \<and>
     (\<forall>c. decidePayment paymentHost s' (RecordPaymentRefund c) =
        Inl (PaymentsInvalid ''Only captured payments can be refunded.''))"
proof -
  obtain s es where s: "paidReading s" and l: "payment_history paymentHost es" "payment_load es = Inr s"
    by (rule paidSample)
  obtain n where n: "Date_parse paymentHost readableTime = Some n" using readableTime_parses by blast
  have t: "js_trim ''failed'' \<noteq> []" by code_simp
  from s have "py_status s \<in> {Some PartiallyRefunded, Some Refunded, Some Disputed}" by (simp add: paidReading_def)
  from late_failure_blocks_refunds [OF l this t n, of None None] obtain s' where
    "py_refundedAmount s' = py_refundedAmount s" "py_refundRequests s' = py_refundRequests s"
    "\<forall>c. decidePayment paymentHost s' (RecordPaymentRefund c) =
       Inl (PaymentsInvalid ''Only captured payments can be refunded.'')" by blast
  with s show ?thesis by (intro exI [of _ s']) (simp add: paidReading_def)
qed

definition greedyRun :: "PaymentCommand list" where
  "greedyRun = [createPaymentSample twoOrders, RecordPaymentCapture ''succeeded'' readableTime,
     RequestPaymentRefund (requestSample ''rfd_1'' [''ord_1''] ''5.00''),
     RequestPaymentRefund (requestSample ''rfd_2'' [''ord_1'', ''ord_2''] ''15.00'')]"

text \<open>
  C39. The allocation of a refund over several orders does not see what open requests reserve. In every history
  of a payment with an open request for one order and another one that names that order first and is at least
  what the order has left to refund, recording the second takes all of the order: the first request stays open,
  and its refund, as it was requested, is refused, though both together are within what was paid.
\<close>

theorem allocation_ignores_reservations:
  assumes "payment_history h es" and "payment_load es = Inr s"
    and "r1 \<in> set (py_refundRequests s)" and "pmq_orderIds r1 = [k]"
    and "r2 \<in> set (py_refundRequests s)" and "pmq_orderIds r2 = k # ks" and "r1 \<noteq> r2"
    and "cents_for (refundableCapsForState s) k - cents_for (py_refundedOrderAmounts s) k \<le> centsOf (pmq_amount r2)"
    and "\<forall>i\<in>set (py_issuedRefunds s). pmi_refundId i \<noteq> Some (pmq_refundId r1)"
    and "py_amount s = Some a"
    and "centsOf (py_refundedAmount s) + centsOf (pmq_amount r1) + centsOf (pmq_amount r2) \<le> centsOf a"
    and "decidePayment h s (recordRequested t r2) = Inr new" and "new \<noteq> []" and "applyEvents s evolvePayment new = Inr s'"
  shows "r1 \<in> set (py_refundRequests s') \<and> decidePayment h s' (recordRequested t' r1) =
    Inl (PaymentsInvalid ''Refund amount cannot exceed the remaining refundable order amount.'')"
  using greedy_refund_drains [OF payment.loaded_inv [OF assms(1,2)] assms(3-14)] .

abbreviation singleRequest :: PaymentRefundRequest where
  "singleRequest \<equiv> requestOf ''rfd_1'' [''ord_1''] ''5.00''"

abbreviation bothRequest :: PaymentRefundRequest where
  "bothRequest \<equiv> requestOf ''rfd_2'' [''ord_1'', ''ord_2''] ''15.00''"

theorem allocation_ignores_reservations_witness:
  "\<exists>es (s :: PaymentState) new s'. payment_history paymentHost es \<and> payment_load es = Inr s \<and>
     py_refundRequests s = [singleRequest, bothRequest] \<and>
     decidePayment paymentHost s (recordRequested readableTime bothRequest) = Inr new \<and>
     applyEvents s evolvePayment new = Inr s' \<and> singleRequest \<in> set (py_refundRequests s') \<and>
     decidePayment paymentHost s' (recordRequested readableTime singleRequest) =
       Inl (PaymentsInvalid ''Refund amount cannot exceed the remaining refundable order amount.'')"
proof -
  let ?P = "\<lambda>s new s'. py_refundRequests s = [singleRequest, bothRequest] \<and> py_issuedRefunds s = [] \<and>
      cents_for (refundableCapsForState s) ''ord_1'' - cents_for (py_refundedOrderAmounts s) ''ord_1'' = 1000 \<and>
      py_amount s = Some ''20.00'' \<and> centsOf (py_refundedAmount s) = 0 \<and> new \<noteq> []"
  have "case runThenStep initialPaymentState evolvePayment (decidePayment paymentHost) greedyRun
      (recordRequested readableTime bothRequest) of Inr (s, new, s') \<Rightarrow> ?P s new s' | Inl _ \<Rightarrow> False" by code_simp
  then obtain s new s' es where s: "?P s new s'" and l: "payment_history paymentHost es" "payment_load es = Inr s"
    and dec: "decidePayment paymentHost s (recordRequested readableTime bothRequest) = Inr new"
    and app: "applyEvents s evolvePayment new = Inr s'" by (rule runThenStep_cases)
  have c: "centsOf ''5.00'' = 500" "centsOf ''15.00'' = 1500" "centsOf ''20.00'' = 2000" by code_simp+
  have r: "pmq_orderIds singleRequest = [''ord_1'']" "pmq_orderIds bothRequest = [''ord_1'', ''ord_2'']"
    "singleRequest \<noteq> bothRequest" "centsOf (pmq_amount singleRequest) = 500" "centsOf (pmq_amount bothRequest) = 1500"
    by (simp_all add: requestOf_def c)
  from s have m: "singleRequest \<in> set (py_refundRequests s)" "bothRequest \<in> set (py_refundRequests s)"
    "cents_for (refundableCapsForState s) ''ord_1'' - cents_for (py_refundedOrderAmounts s) ''ord_1''
       \<le> centsOf (pmq_amount bothRequest)"
    "\<forall>i\<in>set (py_issuedRefunds s). pmi_refundId i \<noteq> Some (pmq_refundId singleRequest)"
    "py_amount s = Some ''20.00''" "new \<noteq> []"
    "centsOf (py_refundedAmount s) + centsOf (pmq_amount singleRequest) + centsOf (pmq_amount bothRequest) \<le> centsOf ''20.00''"
    by (simp_all add: r c)
  from allocation_ignores_reservations [OF l m(1) r(1) m(2) r(2,3) m(3-5,7) dec m(6) app, of readableTime] s l dec app
  show ?thesis by blast
qed


section \<open>Reserved refunds can be recorded\<close>

text \<open>
  C6. What is requested first can always be refunded: when every refund is for one order, has been requested
  under an id of its own and is recorded as it was requested, and no failure is reported after the capture,
  then every open request can be recorded now, and recording all of them, in at most as many commands as
  requests are open, leaves a payment with no open request that has refunded all that was reserved.
\<close>

theorem reserved_refunds_can_be_recorded:
  assumes "reachable_history initialPaymentState evolvePayment (decideRequested h) es" and "payment_load es = Inr s"
  shows "(\<forall>r\<in>set (py_refundRequests s). \<exists>new. new \<noteq> [] \<and>
      decidePayment h s (recordRequested readableTime r) = Inr new) \<and>
    (\<exists>cs es' s'. set cs \<subseteq> range (recordRequested readableTime) \<and> length cs \<le> length (py_refundRequests s) \<and>
      runCommands initialPaymentState evolvePayment (decideRequested h) es cs = Inr es' \<and>
      payment_load es' = Inr s' \<and> py_refundRequests s' = [] \<and>
      centsOf (py_refundedAmount s') = centsOf (py_refundedAmount s) + request_sum s)"
proof -
  have inv: "reserve_inv s" by (rule requested.loaded_inv [OF assms])
  obtain n where n: "Date_parse h readableTime = Some n" using readableTime_parses by blast
  have now: "\<exists>new. new \<noteq> [] \<and> decidePayment h s (recordRequested readableTime r) = Inr new"
    if r: "r \<in> set (py_refundRequests s)" for r
  proof -
    from request_can_be_recorded [OF inv r n] obtain new where
      "decideRequested h s (recordRequested readableTime r) = Inr new" "new \<noteq> []" by metis
    then show ?thesis by (auto simp: decideRequested_def split: if_splits)
  qed
  have "owes (centsOf (py_refundedAmount s) + request_sum s) s" by (simp add: owes_def)
  from recording.can_finish [OF assms this] obtain cs es' s' where
    c: "\<forall>c\<in>set cs. c \<in> range (recordRequested readableTime)" "length cs \<le> length (py_refundRequests s)"
      "runCommands initialPaymentState evolvePayment (decideRequested h) es cs = Inr es'" "payment_load es' = Inr s'"
    and s': "owes (centsOf (py_refundedAmount s) + request_sum s) s'" "length (py_refundRequests s') = 0" by blast
  then have "py_refundRequests s' = []" "centsOf (py_refundedAmount s') = centsOf (py_refundedAmount s) + request_sum s"
    by (simp_all add: owes_def request_sum_def)
  with c now show ?thesis by (meson subsetI)
qed

theorem reserved_refunds_can_be_recorded_witness:
  "\<exists>es' (s' :: PaymentState). payment_load es' = Inr s' \<and> py_refundRequests s' = [] \<and> centsOf (py_refundedAmount s') = 900"
proof -
  obtain s es where s: "paidReading s"
    and l: "reachable_history initialPaymentState evolvePayment (decideRequested paymentHost) es" "payment_load es = Inr s"
    by (rule paidSample)
  have "centsOf ''5.00'' + centsOf ''4.00'' = 900" by code_simp
  with s have "centsOf (py_refundedAmount s) + request_sum s = 900"
    by (simp add: paidReading_def request_sum_def requestOf_def)
  with reserved_refunds_can_be_recorded [OF l] show ?thesis by metis
qed

end
