(* ===== verification/OrderingCommon.thy ===== *)
theory OrderingCommon
  imports MoneyFacts JsTime JsonText EventDomain
begin

text \<open>
  \<open>bounded-contexts/ordering/features/orders/domain/common.ts\<close>, the vocabulary and the normalisers of the
  ordering context, and \<open>contracts/primitives/address-snapshot.ts\<close>, the addresses its orders carry. The
  names carry \<open>ordering\<close> where another context has a function of the same name.
\<close>

section \<open>Vocabulary\<close>

datatype ShippingOption = ShipStandard | ShipExpedited | ShipPriority

datatype OrderStatus = PendingReservation | PendingPayment | ReadyForFulfillment | OrderCancelledSt

datatype OrderSourceType = CartCheckout | BuyNow | OfferAcceptance

record VersionSelectedOptionEntry =
  vse_dimensionId :: string
  vse_optionId :: string


section \<open>Checks and normalisers\<close>

definition orderingPositiveInteger :: "jsnum \<Rightarrow> string \<Rightarrow> int res" where
  "orderingPositiveInteger value message =
     ensure (isInteger value \<and> num_less (numi 0) value) (OrderingDomainError message) (Inr (num_to_int value))"

definition orderingNonNegativeInteger :: "jsnum \<Rightarrow> string \<Rightarrow> int res" where
  "orderingNonNegativeInteger value message =
     ensure (isInteger value \<and> \<not> num_less value (numi 0)) (OrderingDomainError message) (Inr (num_to_int value))"

definition orderingRequiredText :: "string \<Rightarrow> string \<Rightarrow> string res" where
  "orderingRequiredText value message =
     (let normalized = js_trim value
      in ensure (length normalized > 0) (OrderingDomainError message) (Inr normalized))"

definition orderingMoneyAmount :: "string \<Rightarrow> bool \<Rightarrow> string \<Rightarrow> string res" where
  "orderingMoneyAmount value allowZero fieldName =
     (let normalized = js_trim value
      in case tryMoneyToCents normalized of
        None \<Rightarrow> Inl (OrderingDomainError (fieldName @ '' must be a valid decimal.''))
      | Some cents \<Rightarrow>
          ensure (if allowZero then cents \<ge> 0 else cents > 0)
            (OrderingDomainError
               (fieldName @ '' must be '' @
                (if allowZero then ''zero or greater'' else ''greater than zero'') @ ''.''))
            (centsToMoneyAmount (JBig cents)))"

text \<open>The comparator of the selected options: by dimension, then by option, in the host's order.\<close>

definition optionOrder ::
    "(string \<Rightarrow> string \<Rightarrow> int) \<Rightarrow> VersionSelectedOptionEntry \<Rightarrow> VersionSelectedOptionEntry \<Rightarrow> int" where
  "optionOrder lc left right =
     (if lc (vse_dimensionId left) (vse_dimensionId right) \<noteq> 0
      then lc (vse_dimensionId left) (vse_dimensionId right)
      else lc (vse_optionId left) (vse_optionId right))"

definition normalizeVersionSelection ::
    "(string \<Rightarrow> string \<Rightarrow> int) \<Rightarrow> VersionSelectedOptionEntry list \<Rightarrow> VersionSelectedOptionEntry list res" where
  "normalizeVersionSelection lc value =
     bindE (mapE (\<lambda>entry.
              bindE (orderingRequiredText (vse_dimensionId entry) ''Selected options must include a dimension.'') (\<lambda>dimensionId.
              bindE (orderingRequiredText (vse_optionId entry) ''Selected options must include an option.'') (\<lambda>optionId.
                Inr \<lparr>vse_dimensionId = dimensionId, vse_optionId = optionId\<rparr>))) value) (\<lambda>entries.
     let normalized = js_sort (optionOrder lc) entries
     in ensure (distinct (map vse_dimensionId normalized))
          (OrderingDomainError ''Selected options cannot include duplicate dimensions.'') (Inr normalized))"

definition normalizeShippingOption :: "string \<Rightarrow> ShippingOption res" where
  "normalizeShippingOption value =
     (let v = js_trim value
      in if v = ''standard'' then Inr ShipStandard
         else if v = ''expedited'' then Inr ShipExpedited
         else if v = ''priority'' then Inr ShipPriority
         else Inl (OrderingDomainError ''Shipping option is not supported.''))"

lemma orderingPositiveInteger_Inr [res_simps]: "orderingPositiveInteger v m = Inr n \<longleftrightarrow> v = numi n \<and> 0 < n"
  by (cases v) (auto simp: orderingPositiveInteger_def)

lemma orderingNonNegativeInteger_Inr [res_simps]: "orderingNonNegativeInteger v m = Inr n \<longleftrightarrow> v = numi n \<and> 0 \<le> n"
  by (cases v) (auto simp: orderingNonNegativeInteger_def)

lemma orderingRequiredText_Inr [res_simps]:
  "orderingRequiredText v m = Inr t \<longleftrightarrow> t = js_trim v \<and> js_trim v \<noteq> []"
  by (auto simp: orderingRequiredText_def Let_def)

lemma orderingMoneyAmount_Inr:
  "orderingMoneyAmount v z f = Inr t \<Longrightarrow> canonical t \<and> 0 \<le> centsOf t \<and> (\<not> z \<longrightarrow> 0 < centsOf t)"
  by (auto simp: orderingMoneyAmount_def Let_def money_simps split: option.splits if_splits dest: tryMoneyToCents_range)

lemma orderingMoneyAmount_canonical [money_simps]:
  "canonical t \<Longrightarrow> 0 \<le> centsOf t \<Longrightarrow> z \<or> 0 < centsOf t \<Longrightarrow> orderingMoneyAmount t z f = Inr t"
  by (auto elim!: canonicalE simp: orderingMoneyAmount_def money_simps)


section \<open>Address snapshots\<close>

text \<open>An address without its verification; a suggested address has none.\<close>

record AddressLines =
  adr_name :: string
  adr_company :: "string option"
  adr_line1 :: string
  adr_line2 :: "string option"
  adr_city :: string
  adr_state :: string
  adr_postalCode :: string
  adr_country :: string
  adr_phone :: "string option"
  adr_email :: "string option"

datatype AddressVerificationStatus = AddressVerified | AddressCorrected | AddressUnverified | AddressUndeliverable

datatype AddressBuyerDecision = AcceptedSuggested | KeptOriginal | ProviderUnavailable

record AddressVerificationSnapshot =
  av_status :: AddressVerificationStatus
  av_source :: string
  av_checkedAt :: string
  av_buyerDecision :: "AddressBuyerDecision option"
  av_suggestedAddress :: "AddressLines option"
  av_messages :: "string list"

record AddressSnapshot = AddressLines +
  adr_verification :: "AddressVerificationSnapshot option"

definition addressRequiredText :: "string \<Rightarrow> string \<Rightarrow> string res" where
  "addressRequiredText value fieldName =
     (let normalized = js_trim value
      in ensure (length normalized > 0) (Error (fieldName @ '' is required.'')) (Inr normalized))"

definition normalizeAddressLines :: "AddressLines \<Rightarrow> string \<Rightarrow> AddressLines res" where
  "normalizeAddressLines address fieldPrefix =
     bindE (addressRequiredText (adr_name address) (fieldPrefix @ '' name'')) (\<lambda>name.
     bindE (addressRequiredText (adr_line1 address) (fieldPrefix @ '' line 1'')) (\<lambda>line1.
     bindE (addressRequiredText (adr_city address) (fieldPrefix @ '' city'')) (\<lambda>city.
     bindE (addressRequiredText (adr_state address) (fieldPrefix @ '' state'')) (\<lambda>state.
     bindE (addressRequiredText (adr_postalCode address) (fieldPrefix @ '' postal code'')) (\<lambda>postalCode.
     bindE (addressRequiredText (adr_country address) (fieldPrefix @ '' country'')) (\<lambda>country.
       Inr \<lparr>adr_name = name, adr_company = normalizeOptionalText (adr_company address), adr_line1 = line1,
            adr_line2 = normalizeOptionalText (adr_line2 address), adr_city = city, adr_state = state,
            adr_postalCode = postalCode, adr_country = js_upper country,
            adr_phone = normalizeOptionalText (adr_phone address),
            adr_email = normalizeOptionalText (adr_email address)\<rparr>))))))"

definition normalizeAddressVerification ::
    "AddressVerificationSnapshot option \<Rightarrow> AddressVerificationSnapshot option res" where
  "normalizeAddressVerification value =
     (case value of
        None \<Rightarrow> Inr None
      | Some value' \<Rightarrow>
          bindE (case av_suggestedAddress value' of
                   None \<Rightarrow> Inr None
                 | Some a \<Rightarrow> bindE (normalizeAddressLines a ''Suggested address'') (\<lambda>s. Inr (Some s))) (\<lambda>suggestedAddress.
            Inr (Some
              \<lparr>av_status = av_status value',
               av_source = orElse (normalizeOptionalText (Some (av_source value'))) ''unknown'',
               av_checkedAt =
                 orElse (normalizeOptionalText (Some (av_checkedAt value'))) ''1970-01-01T00:00:00.000Z'',
               av_buyerDecision = av_buyerDecision value', av_suggestedAddress = suggestedAddress,
               av_messages = List.map_filter (\<lambda>m. normalizeOptionalText (Some m)) (av_messages value')\<rparr>)))"

definition normalizeAddressSnapshot :: "AddressSnapshot \<Rightarrow> string \<Rightarrow> AddressSnapshot res" where
  "normalizeAddressSnapshot address fieldPrefix =
     bindE (normalizeAddressLines (AddressLines.truncate address) fieldPrefix) (\<lambda>lines.
     bindE (normalizeAddressVerification (adr_verification address)) (\<lambda>verification.
       Inr (AddressLines.extend lines (AddressSnapshot.fields verification))))"

definition addressSnapshotsEqual :: "AddressSnapshot \<Rightarrow> AddressSnapshot \<Rightarrow> bool res" where
  "addressSnapshotsEqual left right =
     bindE (normalizeAddressSnapshot left ''Address'') (\<lambda>l.
     bindE (normalizeAddressSnapshot right ''Address'') (\<lambda>r.
       Inr (AddressLines.truncate l = AddressLines.truncate r)))"

datatype AddressSnapshotSide = SenderSide | RecipientSide | BothSides

definition changedAddressSnapshotSide :: "bool \<Rightarrow> bool \<Rightarrow> AddressSnapshotSide option" where
  "changedAddressSnapshotSide senderChanged recipientChanged =
     (if senderChanged \<and> recipientChanged then Some BothSides
      else if senderChanged then Some SenderSide
      else if recipientChanged then Some RecipientSide
      else None)"

end
