(* ===== verification/OrderPolicies.thy ===== *)
theory OrderPolicies
  imports OrderingCommon
begin

text \<open>
  The policies of \<open>bounded-contexts/ordering/features/orders/domain/policies.ts\<close> that compute on cents and
  on time: the marketplace fee of a unit, the fulfilment economics of an order and the payment deadline.
  The shipping quote of the same file adds up binary fractions and is not modelled.
\<close>

section \<open>The marketplace fee of a unit\<close>

record MarketplaceSalesFeeTermsSnapshot =
  sft_marketplaceSalesFeePercentageBps :: jsnum
  sft_marketplaceSalesFeeFixedAmount :: string
  sft_marketplaceSalesFeeCapAmount :: "string option"

record MarketplaceSalesFeeQuote =
  sfq_marketplaceSalesFeeUnitAmount :: string
  sfq_sellerNetUnitAmount :: string

definition quoteMarketplaceSalesFeeFromSnapshot ::
    "string \<Rightarrow> MarketplaceSalesFeeTermsSnapshot \<Rightarrow> MarketplaceSalesFeeQuote res" where
  "quoteMarketplaceSalesFeeFromSnapshot unitPriceAmount terms =
     bindE (applyBasisPointsToMoneyAmount unitPriceAmount (sft_marketplaceSalesFeePercentageBps terms) RCeil) (\<lambda>percentageAmount.
     bindE (addMoneyAmounts percentageAmount (sft_marketplaceSalesFeeFixedAmount terms)) (\<lambda>uncappedFee.
     bindE (moneyToCents uncappedFee) (\<lambda>uncapped.
     bindE (case sft_marketplaceSalesFeeCapAmount terms of
              None \<Rightarrow> Inr uncapped
            | Some cap \<Rightarrow> bindE (moneyToCents cap) (\<lambda>capCents. Inr (min uncapped capCents))) (\<lambda>feeCents.
     bindE (centsToMoneyAmount (JBig feeCents)) (\<lambda>fee.
     bindE (subtractMoneyAmounts unitPriceAmount fee) (\<lambda>net.
       Inr \<lparr>sfq_marketplaceSalesFeeUnitAmount = fee, sfq_sellerNetUnitAmount = net\<rparr>))))))"


section \<open>Fulfilment economics\<close>

definition ORDER_PROTECTION_PERCENTAGE_BPS :: int where
  "ORDER_PROTECTION_PERCENTAGE_BPS = 100"

record OrderFulfillmentEconomics =
  ofe_shippingBaseAmount :: string
  ofe_shippingDiscountAmount :: string
  ofe_shippingAllowanceAmount :: string
  ofe_shippingOverageAmount :: string
  ofe_sellerShippingPayoutAmount :: string
  ofe_protectionAmount :: string
  ofe_protectionAllowanceAmount :: string
  ofe_protectionOverageAmount :: string
  ofe_shippingChargeAmount :: string

definition calculateOrderFulfillmentEconomics :: "string \<Rightarrow> string \<Rightarrow> jsnum \<Rightarrow> OrderFulfillmentEconomics res" where
  "calculateOrderFulfillmentEconomics itemSubtotalAmount rawShippingBase shippingAllowancePercentageBps =
     bindE (orderingMoneyAmount rawShippingBase True ''Shipping base amount'') (\<lambda>shippingBaseAmount.
     bindE (applyBasisPointsToMoneyAmount itemSubtotalAmount shippingAllowancePercentageBps RFloor) (\<lambda>allowanceLimitAmount.
     bindE (applyBasisPointsToMoneyAmount itemSubtotalAmount (numi ORDER_PROTECTION_PERCENTAGE_BPS) RCeil) (\<lambda>protectionAmount.
     bindE (moneyToCents allowanceLimitAmount) (\<lambda>allowanceLimit.
     bindE (moneyToCents protectionAmount) (\<lambda>protection.
     bindE (moneyToCents shippingBaseAmount) (\<lambda>shippingBase.
     let protectionAllowance = (if protection < allowanceLimit then protection else allowanceLimit);
         remainingAllowance = allowanceLimit - protectionAllowance;
         shippingAllowance = (if shippingBase < remainingAllowance then shippingBase else remainingAllowance);
         protectionOverage = protection - protectionAllowance;
         shippingOverage = shippingBase - shippingAllowance
     in
     bindE (centsToMoneyAmount (JBig shippingAllowance)) (\<lambda>shippingAllowanceAmount.
     bindE (centsToMoneyAmount (JBig shippingOverage)) (\<lambda>shippingOverageAmount.
     bindE (centsToMoneyAmount (JBig protectionAllowance)) (\<lambda>protectionAllowanceAmount.
     bindE (centsToMoneyAmount (JBig protectionOverage)) (\<lambda>protectionOverageAmount.
     bindE (centsToMoneyAmount (JBig (shippingOverage + protectionOverage))) (\<lambda>shippingChargeAmount.
       Inr \<lparr>ofe_shippingBaseAmount = shippingBaseAmount, ofe_shippingDiscountAmount = shippingAllowanceAmount,
            ofe_shippingAllowanceAmount = shippingAllowanceAmount,
            ofe_shippingOverageAmount = shippingOverageAmount,
            ofe_sellerShippingPayoutAmount = shippingOverageAmount, ofe_protectionAmount = protectionAmount,
            ofe_protectionAllowanceAmount = protectionAllowanceAmount,
            ofe_protectionOverageAmount = protectionOverageAmount,
            ofe_shippingChargeAmount = shippingChargeAmount\<rparr>)))))))))))"


section \<open>Payment deadlines\<close>

datatype OrderPaymentMethodCategory = MethodCard | MethodBankAccount | MethodPlatformCredit

datatype OrderPaymentDeadlinePolicyToken =
    DeadlineCard | DeadlineBankAccount | DeadlinePlatformCredit | DeadlineFailureGrace

record DeadlineRule =
  dr_token :: OrderPaymentDeadlinePolicyToken
  dr_durationMs :: int

record OrderPaymentDeadlinePolicy =
  dp_card :: DeadlineRule
  dp_bankAccount :: DeadlineRule
  dp_platformCredit :: DeadlineRule
  dp_terminalFailureGrace :: DeadlineRule

definition defaultOrderPaymentDeadlinePolicy :: OrderPaymentDeadlinePolicy where
  "defaultOrderPaymentDeadlinePolicy =
     \<lparr>dp_card = \<lparr>dr_token = DeadlineCard, dr_durationMs = 60 * 60 * 1000\<rparr>,
      dp_bankAccount = \<lparr>dr_token = DeadlineBankAccount, dr_durationMs = 5 * 24 * 60 * 60 * 1000\<rparr>,
      dp_platformCredit = \<lparr>dr_token = DeadlinePlatformCredit, dr_durationMs = 15 * 60 * 1000\<rparr>,
      dp_terminalFailureGrace = \<lparr>dr_token = DeadlineFailureGrace, dr_durationMs = 5 * 60 * 1000\<rparr>\<rparr>"

definition normalizeOrderPaymentMethodCategory :: "string option \<Rightarrow> OrderPaymentMethodCategory" where
  "normalizeOrderPaymentMethodCategory paymentMethodCategory =
     (if paymentMethodCategory = Some ''bank-account'' then MethodBankAccount
      else if paymentMethodCategory = Some ''platform-credit'' then MethodPlatformCredit
      else MethodCard)"

definition resolveOrderPaymentDeadlinePolicy :: "OrderPaymentDeadlinePolicy \<Rightarrow> string option \<Rightarrow> DeadlineRule" where
  "resolveOrderPaymentDeadlinePolicy policy paymentMethodCategory =
     (case normalizeOrderPaymentMethodCategory paymentMethodCategory of
        MethodBankAccount \<Rightarrow> dp_bankAccount policy
      | MethodPlatformCredit \<Rightarrow> dp_platformCredit policy
      | MethodCard \<Rightarrow> dp_card policy)"

definition deadlineAfter :: "int \<Rightarrow> DeadlineRule \<Rightarrow> (string \<times> OrderPaymentDeadlinePolicyToken) res" where
  "deadlineAfter startedAtMs rule =
     bindE (toISOString (time_clip (startedAtMs + dr_durationMs rule))) (\<lambda>paymentDeadlineAt.
       Inr (paymentDeadlineAt, dr_token rule))"

definition resolveOrderPaymentDeadline ::
    "host \<Rightarrow> string \<Rightarrow> string option \<Rightarrow> OrderPaymentDeadlinePolicy \<Rightarrow>
     (string \<times> OrderPaymentDeadlinePolicyToken) res" where
  "resolveOrderPaymentDeadline h pendingPaymentAt paymentMethodCategory policy =
     (case Date_parse h pendingPaymentAt of
        None \<Rightarrow> Inl (OrderingDomainError ''Payment deadline requires a valid pending-payment timestamp.'')
      | Some startedAtMs \<Rightarrow>
          deadlineAfter startedAtMs (resolveOrderPaymentDeadlinePolicy policy paymentMethodCategory))"

definition resolveTerminalPaymentFailureDeadline ::
    "host \<Rightarrow> string \<Rightarrow> OrderPaymentDeadlinePolicy \<Rightarrow> (string \<times> OrderPaymentDeadlinePolicyToken) res" where
  "resolveTerminalPaymentFailureDeadline h failedAt policy =
     (case Date_parse h failedAt of
        None \<Rightarrow> Inl (OrderingDomainError ''Terminal payment failure grace requires a valid failure timestamp.'')
      | Some failedAtMs \<Rightarrow> deadlineAfter failedAtMs (dp_terminalFailureGrace policy))"


section \<open>What the policies promise\<close>

text \<open>The economics of an order share out the protection and the shipping exactly.\<close>

definition economics_ok :: "OrderFulfillmentEconomics \<Rightarrow> bool" where
  "economics_ok e \<longleftrightarrow>
     (\<forall>a\<in>{ofe_shippingBaseAmount e, ofe_shippingDiscountAmount e, ofe_shippingAllowanceAmount e,
           ofe_shippingOverageAmount e, ofe_protectionAmount e, ofe_protectionAllowanceAmount e,
           ofe_protectionOverageAmount e, ofe_shippingChargeAmount e}. canonical a \<and> 0 \<le> centsOf a) \<and>
     centsOf (ofe_protectionAllowanceAmount e) + centsOf (ofe_protectionOverageAmount e) =
       centsOf (ofe_protectionAmount e) \<and>
     centsOf (ofe_shippingAllowanceAmount e) + centsOf (ofe_shippingOverageAmount e) =
       centsOf (ofe_shippingBaseAmount e) \<and>
     centsOf (ofe_shippingOverageAmount e) + centsOf (ofe_protectionOverageAmount e) =
       centsOf (ofe_shippingChargeAmount e)"

lemma basisPoints_Inr:
  assumes "applyBasisPointsToMoneyAmount a b mode = Inr t"
  shows "canonical t \<and> 0 \<le> centsOf t \<and> moneyToCents t = Inr (centsOf t)"
proof -
  from assms have "\<exists>c. t = formatCents c \<and> 0 \<le> c \<and> in_range c"
    by (auto simp: applyBasisPointsToMoneyAmount_def res_simps money_simps split: if_splits)
  then show ?thesis by (auto simp: canonical_format money_simps)
qed

lemma calculated_economics:
  assumes "calculateOrderFulfillmentEconomics subtotal base bps = Inr e"
  shows "economics_ok e"
    and "\<exists>limit. applyBasisPointsToMoneyAmount subtotal bps RFloor = Inr limit \<and>
      centsOf (ofe_protectionAllowanceAmount e) = min (centsOf (ofe_protectionAmount e)) (centsOf limit) \<and>
      centsOf (ofe_shippingAllowanceAmount e) =
        min (centsOf (ofe_shippingBaseAmount e)) (centsOf limit - centsOf (ofe_protectionAllowanceAmount e))"
proof -
  from assms obtain b l p where b: "orderingMoneyAmount base True ''Shipping base amount'' = Inr b"
    and l: "applyBasisPointsToMoneyAmount subtotal bps RFloor = Inr l"
    and p: "applyBasisPointsToMoneyAmount subtotal (numi ORDER_PROTECTION_PERCENTAGE_BPS) RCeil = Inr p"
    by (auto simp: calculateOrderFulfillmentEconomics_def res_simps)
  note B = orderingMoneyAmount_Inr [OF b] and L = basisPoints_Inr [OF l] and P = basisPoints_Inr [OF p]
  have b': "moneyToCents b = Inr (centsOf b)" using B by (auto elim!: canonicalE simp: money_simps)
  define pa where "pa = min (centsOf p) (centsOf l)"
  define sa where "sa = min (centsOf b) (centsOf l - pa)"
  have pa_if: "(if centsOf p < centsOf l then centsOf p else centsOf l) = pa" by (simp add: pa_def)
  have sa_if: "(if centsOf b < centsOf l - pa then centsOf b else centsOf l - pa) = sa" by (simp add: sa_def)
  have r: "0 \<le> pa" "pa \<le> centsOf p" "pa \<le> centsOf l" "0 \<le> sa" "sa \<le> centsOf b" using B L P by (auto simp: pa_def sa_def)
  have in_r: "in_range pa" "in_range sa" "in_range (centsOf p - pa)" "in_range (centsOf b - sa)"
    using r canonical_in_range [of p] canonical_in_range [of b] B P by (auto simp: in_range_def)
  have e: "e = \<lparr>ofe_shippingBaseAmount = b, ofe_shippingDiscountAmount = formatCents sa,
            ofe_shippingAllowanceAmount = formatCents sa, ofe_shippingOverageAmount = formatCents (centsOf b - sa),
            ofe_sellerShippingPayoutAmount = formatCents (centsOf b - sa), ofe_protectionAmount = p,
            ofe_protectionAllowanceAmount = formatCents pa,
            ofe_protectionOverageAmount = formatCents (centsOf p - pa),
            ofe_shippingChargeAmount = formatCents (centsOf b - sa + (centsOf p - pa))\<rparr>"
    and ch: "in_range (centsOf b - sa + (centsOf p - pa))"
    using assms r in_r
    unfolding calculateOrderFulfillmentEconomics_def b l p bindE.simps L [THEN conjunct2, THEN conjunct2]
      P [THEN conjunct2, THEN conjunct2] b' Let_def pa_if sa_if
    by (auto simp: money_simps res_simps split: if_split_asm)
  from r in_r ch B P show "economics_ok e"
    unfolding economics_ok_def e by (auto simp: canonical_format)
  have "centsOf (formatCents pa) = pa" "centsOf (formatCents sa) = sa" using r in_r by (simp_all add: canonical_format)
  with l show "\<exists>limit. applyBasisPointsToMoneyAmount subtotal bps RFloor = Inr limit \<and>
      centsOf (ofe_protectionAllowanceAmount e) = min (centsOf (ofe_protectionAmount e)) (centsOf limit) \<and>
      centsOf (ofe_shippingAllowanceAmount e) =
        min (centsOf (ofe_shippingBaseAmount e)) (centsOf limit - centsOf (ofe_protectionAllowanceAmount e))"
    by (simp add: e pa_def sa_def)
qed

text \<open>The fee of a unit and what the seller keeps of it are the price; the fee never exceeds the cap.\<close>

lemma quoted_fee:
  assumes "quoteMarketplaceSalesFeeFromSnapshot price terms = Inr q" and "canonical price" and "0 \<le> centsOf price"
  shows "centsOf (sfq_marketplaceSalesFeeUnitAmount q) + centsOf (sfq_sellerNetUnitAmount q) = centsOf price"
    and "canonical (sfq_marketplaceSalesFeeUnitAmount q)" and "canonical (sfq_sellerNetUnitAmount q)"
    and "0 \<le> centsOf (sfq_marketplaceSalesFeeUnitAmount q)"
    and "sft_marketplaceSalesFeeCapAmount terms = Some cap \<Longrightarrow> moneyToCents cap = Inr c \<Longrightarrow>
      centsOf (sfq_marketplaceSalesFeeUnitAmount q) \<le> c"
proof -
  from assms(1) obtain u fee f n where u: "moneyToCents u = Inr fee"
    and cap: "(case sft_marketplaceSalesFeeCapAmount terms of None \<Rightarrow> Inr fee
            | Some cap \<Rightarrow> bindE (moneyToCents cap) (\<lambda>capCents. Inr (min fee capCents))) = Inr f"
    and f: "0 \<le> f" "in_range f" "subtractMoneyAmounts price (formatCents f) = Inr n"
    and q: "q = \<lparr>sfq_marketplaceSalesFeeUnitAmount = formatCents f, sfq_sellerNetUnitAmount = n\<rparr>"
    by (auto simp: quoteMarketplaceSalesFeeFromSnapshot_def res_simps money_simps split: if_splits)
  have n: "n = formatCents (centsOf price - f)" "in_range (centsOf price - f)"
    using f assms(2) by (auto elim!: canonicalE simp: money_simps split: if_splits)
  with f(1,2) show "centsOf (sfq_marketplaceSalesFeeUnitAmount q) + centsOf (sfq_sellerNetUnitAmount q) = centsOf price"
    "canonical (sfq_marketplaceSalesFeeUnitAmount q)" "canonical (sfq_sellerNetUnitAmount q)"
    "0 \<le> centsOf (sfq_marketplaceSalesFeeUnitAmount q)"
    by (simp_all add: q canonical_format)
  show "centsOf (sfq_marketplaceSalesFeeUnitAmount q) \<le> c"
    if "sft_marketplaceSalesFeeCapAmount terms = Some cap" "moneyToCents cap = Inr c"
    using cap that f(1,2) by (auto simp: q canonical_format)
qed

end
