(* ===== verification/Order.thy ===== *)
theory Order
  imports OrderPolicies
begin

text \<open>
  The order aggregate of \<open>bounded-contexts/ordering/features/orders/domain/domain.ts\<close>: its state, commands
  and events, and the normalisers of what an order is created from. A record that the source uses both
  for the raw and for the checked content of a command has the type of its numbers as a
  parameter: \<open>jsnum\<close> raw, \<open>int\<close> checked. The package plan and the listing evidence are copied
  as they are, so they are JSON values.
\<close>

section \<open>Lines, reservations and snapshots\<close>

record GradedCardSnapshot =
  gcs_gradingCompany :: string
  gcs_grade :: string
  gcs_certificationNumber :: "string option"

record 'n OrderingOrderLine =
  ool_lineId :: string
  ool_listingId :: string
  ool_inventoryItemId :: string
  ool_catalogItemId :: string
  ool_productId :: string
  ool_itemTitle :: string
  ool_itemSubtitle :: "string option"
  ool_selectedOptions :: "VersionSelectedOptionEntry list"
  ool_productSummary :: "string option"
  ool_gradedCard :: "GradedCardSnapshot option"
  ool_unitPriceAmount :: string
  ool_quantity :: 'n
  ool_lineTotalAmount :: string
  ool_marketplaceSalesFeePercentageBps :: "'n option"
  ool_marketplaceSalesFeeFixedAmount :: "string option"
  ool_marketplaceSalesFeeCapAmount :: "string option"
  ool_marketplaceSalesFeeUnitAmount :: string
  ool_marketplaceSalesFeeTotalAmount :: string
  ool_sellerNetUnitAmount :: string
  ool_sellerNetTotalAmount :: string
  ool_listingEvidenceSnapshot :: "json option"

record 'n ReservationRequestInput =
  rri_reservationRequestId :: string
  rri_inventoryItemId :: string
  rri_sellerAccountId :: string
  rri_quantity :: 'n
  rri_holdId :: "string option"

datatype ReservationRequestStatus = RequestPending | RequestConfirmed | RequestRejected | RequestReleased

record OrderingReservationRequest =
  orr_reservationRequestId :: string
  orr_inventoryItemId :: string
  orr_sellerAccountId :: string
  orr_quantity :: int
  orr_holdId :: "string option"
  orr_status :: ReservationRequestStatus
  orr_rejectionReason :: "string option"
  orr_releasedAt :: "string option"

record 'n SalesFeeLineSnapshot =
  sfl_lineId :: string
  sfl_unitPriceAmount :: string
  sfl_quantity :: 'n
  sfl_marketplaceSalesFeePercentageBps :: 'n
  sfl_marketplaceSalesFeeFixedAmount :: string
  sfl_marketplaceSalesFeeCapAmount :: "string option"
  sfl_marketplaceSalesFeeUnitAmount :: string
  sfl_marketplaceSalesFeeTotalAmount :: string

record 'n OrderingCommercialTermsSnapshot =
  oct_marketplaceSalesFeeAmount :: string
  oct_marketplaceSalesFeeLines :: "'n SalesFeeLineSnapshot list option"
  oct_sellerNetAmount :: string
  oct_sellerItemNetAmount :: "string option"
  oct_shippingAllowanceAmount :: "string option"
  oct_sellerShippingPayoutAmount :: "string option"
  oct_protectionAmount :: "string option"
  oct_protectionAllowanceAmount :: "string option"
  oct_protectionOverageAmount :: "string option"
  oct_sellerPayoutAmount :: "string option"
  oct_shippingAllowancePercentageBps :: "jsnum option"
  oct_termsScheduleId :: "string option"
  oct_termsAgreementId :: "string option"
  oct_termsResolvedAt :: string

record OrderingTaxSnapshot =
  otx_taxableAmount :: string
  otx_salesTaxAmount :: string
  otx_jurisdictionCountry :: string
  otx_jurisdictionState :: "string option"
  otx_rateBps :: jsnum
  otx_providerName :: string
  otx_providerQuoteReference :: "string option"
  otx_quotedAt :: string

datatype AuthenticityCategory = AuthenticityRaw | AuthenticityGraded | AuthenticityAny

record OrderingAuthenticityPlanSnapshot =
  oap_feeAmount :: string
  oap_policyVersion :: string
  oap_category :: AuthenticityCategory
  oap_thresholdAmount :: string
  oap_orderValueAmount :: string
  oap_quotedAt :: string


section \<open>The state\<close>

record OrderingOrderState =
  oo_orderId :: "string option"
  oo_sourceType :: "OrderSourceType option"
  oo_sourceReferenceId :: "string option"
  oo_buyerAccountId :: "string option"
  oo_sellerAccountId :: "string option"
  oo_shippingOption :: "ShippingOption option"
  oo_itemSubtotalAmount :: "string option"
  oo_shippingBaseAmount :: "string option"
  oo_shippingDiscountAmount :: "string option"
  oo_shippingAllowanceAmount :: "string option"
  oo_shippingOverageAmount :: "string option"
  oo_protectionAmount :: "string option"
  oo_protectionAllowanceAmount :: "string option"
  oo_protectionOverageAmount :: "string option"
  oo_shippingChargeAmount :: "string option"
  oo_shippingPlanSnapshot :: "json option"
  oo_salesTaxAmount :: "string option"
  oo_totalAmount :: "string option"
  oo_taxSnapshot :: "OrderingTaxSnapshot option"
  oo_commercialTermsSnapshot :: "int OrderingCommercialTermsSnapshot option"
  oo_authenticityPlanSnapshot :: "OrderingAuthenticityPlanSnapshot option"
  oo_shippingDestinationSnapshot :: "AddressSnapshot option"
  oo_shippingOriginSnapshot :: "AddressSnapshot option"
  oo_lines :: "int OrderingOrderLine list"
  oo_reservationRequests :: "OrderingReservationRequest list"
  oo_status :: "OrderStatus option"
  oo_pendingPaymentAt :: "string option"
  oo_paymentDeadlineAt :: "string option"
  oo_paymentDeadlinePolicy :: "OrderPaymentDeadlinePolicyToken option"
  oo_cancelledAt :: "string option"
  oo_cancellationReason :: "string option"
  oo_readyForFulfillmentAt :: "string option"

definition initialOrderingOrderState :: OrderingOrderState where
  "initialOrderingOrderState =
     \<lparr>oo_orderId = None, oo_sourceType = None, oo_sourceReferenceId = None, oo_buyerAccountId = None,
      oo_sellerAccountId = None, oo_shippingOption = None, oo_itemSubtotalAmount = None,
      oo_shippingBaseAmount = None, oo_shippingDiscountAmount = None, oo_shippingAllowanceAmount = None,
      oo_shippingOverageAmount = None, oo_protectionAmount = None, oo_protectionAllowanceAmount = None,
      oo_protectionOverageAmount = None, oo_shippingChargeAmount = None, oo_shippingPlanSnapshot = None,
      oo_salesTaxAmount = None, oo_totalAmount = None, oo_taxSnapshot = None, oo_commercialTermsSnapshot = None,
      oo_authenticityPlanSnapshot = None, oo_shippingDestinationSnapshot = None, oo_shippingOriginSnapshot = None,
      oo_lines = [], oo_reservationRequests = [], oo_status = None, oo_pendingPaymentAt = None,
      oo_paymentDeadlineAt = None, oo_paymentDeadlinePolicy = None, oo_cancelledAt = None,
      oo_cancellationReason = None, oo_readyForFulfillmentAt = None\<rparr>"


section \<open>Commands and events\<close>

record CreateOrderCommand =
  cor_orderId :: string
  cor_sourceType :: OrderSourceType
  cor_sourceReferenceId :: "string option"
  cor_buyerAccountId :: string
  cor_sellerAccountId :: string
  cor_shippingOption :: string
  cor_itemSubtotalAmount :: string
  cor_shippingBaseAmount :: string
  cor_shippingDiscountAmount :: string
  cor_shippingAllowanceAmount :: "string option"
  cor_shippingOverageAmount :: "string option"
  cor_protectionAmount :: "string option"
  cor_protectionAllowanceAmount :: "string option"
  cor_protectionOverageAmount :: "string option"
  cor_shippingChargeAmount :: string
  cor_shippingPlanSnapshot :: json
  cor_salesTaxAmount :: string
  cor_totalAmount :: string
  cor_taxSnapshot :: OrderingTaxSnapshot
  cor_commercialTermsSnapshot :: "jsnum OrderingCommercialTermsSnapshot"
  cor_authenticityPlanSnapshot :: "OrderingAuthenticityPlanSnapshot option"
  cor_shippingDestinationSnapshot :: AddressSnapshot
  cor_shippingOriginSnapshot :: AddressSnapshot
  cor_lines :: "jsnum OrderingOrderLine list"
  cor_reservationRequests :: "jsnum ReservationRequestInput list"

datatype OrderingOrderCommand =
    CreateOrder CreateOrderCommand
  | RecordReservationConfirmed string string string
  | RecordReservationRejected string string string
  | RecordReservationReleased string string string
  | CancelOrder string string
  | MarkReadyForFulfillment string

text \<open>Fields that events recorded before they were introduced lack are options.\<close>

record OrderCreated =
  oce_orderId :: string
  oce_sourceType :: OrderSourceType
  oce_sourceReferenceId :: "string option"
  oce_buyerAccountId :: string
  oce_sellerAccountId :: string
  oce_shippingOption :: ShippingOption
  oce_itemSubtotalAmount :: string
  oce_shippingBaseAmount :: string
  oce_shippingDiscountAmount :: string
  oce_shippingAllowanceAmount :: string
  oce_shippingOverageAmount :: string
  oce_protectionAmount :: "string option"
  oce_protectionAllowanceAmount :: "string option"
  oce_protectionOverageAmount :: "string option"
  oce_shippingChargeAmount :: string
  oce_shippingPlanSnapshot :: json
  oce_salesTaxAmount :: string
  oce_totalAmount :: string
  oce_taxSnapshot :: OrderingTaxSnapshot
  oce_commercialTermsSnapshot :: "int OrderingCommercialTermsSnapshot"
  oce_authenticityPlanSnapshot :: "OrderingAuthenticityPlanSnapshot option"
  oce_shippingDestinationSnapshot :: AddressSnapshot
  oce_shippingOriginSnapshot :: AddressSnapshot
  oce_lines :: "int OrderingOrderLine list"
  oce_reservationRequests :: "int ReservationRequestInput list"

record OrderReservationConfirmed =
  orc_orderId :: string
  orc_reservationRequestId :: string
  orc_inventoryItemId :: string
  orc_sellerAccountId :: string
  orc_quantity :: int
  orc_holdId :: string
  orc_confirmedAt :: string

record OrderCancelled =
  ocx_orderId :: string
  ocx_cancelledAt :: string
  ocx_reason :: string
  ocx_buyerEmail :: "string option"
  ocx_buyerAccountId :: "string option"
  ocx_statusBeforeCancellation :: OrderStatus
  ocx_reservationRequests :: "OrderingReservationRequest list"

datatype OrderingOrderEvent =
    OrderCreatedEvent OrderCreated
  | OrderLineItemAmountsPublished string "(string \<times> string) list"
  | OrderReservationConfirmedEvent OrderReservationConfirmed
  | OrderReservationRejectedEvent string string string string
  | OrderPendingPaymentRecorded string string string OrderPaymentDeadlinePolicyToken
  | OrderCancelledEvent OrderCancelled
  | OrderReservationReleasedEvent string string string string
  | OrderReadyForFulfillmentEvent string string


section \<open>Normalisers of a new order\<close>

definition sumCents :: "('a \<Rightarrow> string) \<Rightarrow> 'a list \<Rightarrow> int res" where
  "sumCents amountOf xs = foldE (\<lambda>sum x. bindE (moneyToCents (amountOf x)) (\<lambda>c. Inr (sum + c))) 0 xs"

definition optionalMoney :: "string option \<Rightarrow> string \<Rightarrow> string option res" where
  "optionalMoney value fieldName =
     (case value of
        None \<Rightarrow> Inr None
      | Some v \<Rightarrow> bindE (orderingMoneyAmount v False fieldName) (\<lambda>a. Inr (Some a)))"

definition normalizeGradedCardSnapshot :: "GradedCardSnapshot option \<Rightarrow> GradedCardSnapshot option res" where
  "normalizeGradedCardSnapshot line =
     (case line of
        None \<Rightarrow> Inr None
      | Some g \<Rightarrow>
          bindE (orderingRequiredText (gcs_gradingCompany g) ''Order line graded card company is required.'') (\<lambda>gradingCompany.
          bindE (orderingRequiredText (gcs_grade g) ''Order line graded card grade is required.'') (\<lambda>grade.
            Inr (Some \<lparr>gcs_gradingCompany = gradingCompany, gcs_grade = grade,
                       gcs_certificationNumber = normalizeOptionalText (gcs_certificationNumber g)\<rparr>))))"

text \<open>The four checks of a normalised line; each product and sum is exact.\<close>

definition checkOrderLine :: "int OrderingOrderLine \<Rightarrow> int OrderingOrderLine res" where
  "checkOrderLine line =
     bindE (moneyToCents (ool_unitPriceAmount line)) (\<lambda>unitPrice.
     bindE (moneyToCents (ool_lineTotalAmount line)) (\<lambda>lineTotal.
     ensure (unitPrice * ool_quantity line = lineTotal)
       (OrderingDomainError ''Order line total must equal unit price times quantity.'') (
     bindE (moneyToCents (ool_marketplaceSalesFeeUnitAmount line)) (\<lambda>feeUnit.
     bindE (moneyToCents (ool_marketplaceSalesFeeTotalAmount line)) (\<lambda>feeTotal.
     ensure (feeUnit * ool_quantity line = feeTotal)
       (OrderingDomainError ''Order line marketplace fee total must equal its unit fee times quantity.'') (
     bindE (moneyToCents (ool_sellerNetUnitAmount line)) (\<lambda>netUnit.
     bindE (moneyToCents (ool_sellerNetTotalAmount line)) (\<lambda>netTotal.
     ensure (netUnit * ool_quantity line = netTotal)
       (OrderingDomainError ''Order line seller net total must equal its unit net times quantity.'') (
     ensure (feeUnit + netUnit = unitPrice \<and> feeTotal + netTotal = lineTotal)
       (OrderingDomainError ''Order line marketplace fee plus seller net must equal the line total.'')
       (Inr line))))))))))"

definition normalizeOrderLine ::
    "(string \<Rightarrow> string \<Rightarrow> int) \<Rightarrow> jsnum OrderingOrderLine \<Rightarrow> int OrderingOrderLine res" where
  "normalizeOrderLine lc line =
     bindE (orderingRequiredText (ool_listingId line) ''Order lines must reference a listing.'') (\<lambda>listingId.
     bindE (orderingRequiredText (ool_inventoryItemId line) ''Order lines must reference inventory.'') (\<lambda>inventoryItemId.
     bindE (orderingRequiredText (ool_catalogItemId line) ''Order lines must reference a catalog item.'') (\<lambda>catalogItemId.
     bindE (orderingRequiredText (ool_productId line) ''Order lines must reference a product id.'') (\<lambda>productId.
     bindE (orderingRequiredText (ool_itemTitle line) ''Order lines must include an item title snapshot.'') (\<lambda>itemTitle.
     bindE (normalizeVersionSelection lc (ool_selectedOptions line)) (\<lambda>selectedOptions.
     bindE (normalizeGradedCardSnapshot (ool_gradedCard line)) (\<lambda>gradedCard.
     bindE (orderingMoneyAmount (ool_unitPriceAmount line) False ''Unit price'') (\<lambda>unitPrice.
     bindE (orderingPositiveInteger (ool_quantity line) ''Order line quantity must be a positive whole number.'') (\<lambda>quantity.
     bindE (orderingMoneyAmount (ool_lineTotalAmount line) False ''Line total'') (\<lambda>lineTotal.
     bindE (orderingNonNegativeInteger (orElse (ool_marketplaceSalesFeePercentageBps line) (numi 0))
              ''Line marketplace sales fee percentage must be zero or more basis points.'') (\<lambda>percentage.
     bindE (orderingMoneyAmount
              (orElse (ool_marketplaceSalesFeeFixedAmount line) (ool_marketplaceSalesFeeUnitAmount line)) True
              ''Line marketplace sales fee fixed amount'') (\<lambda>feeFixed.
     bindE (optionalMoney (ool_marketplaceSalesFeeCapAmount line) ''Line marketplace sales fee cap amount'') (\<lambda>feeCap.
     bindE (orderingMoneyAmount (ool_marketplaceSalesFeeUnitAmount line) True ''Line marketplace sales fee unit amount'') (\<lambda>feeUnit.
     bindE (orderingMoneyAmount (ool_marketplaceSalesFeeTotalAmount line) True ''Line marketplace sales fee total amount'') (\<lambda>feeTotal.
     bindE (orderingMoneyAmount (ool_sellerNetUnitAmount line) True ''Line seller net unit amount'') (\<lambda>netUnit.
     bindE (orderingMoneyAmount (ool_sellerNetTotalAmount line) True ''Line seller net total amount'') (\<lambda>netTotal.
       checkOrderLine
         \<lparr>ool_lineId = ool_lineId line, ool_listingId = listingId, ool_inventoryItemId = inventoryItemId,
          ool_catalogItemId = catalogItemId, ool_productId = productId, ool_itemTitle = itemTitle,
          ool_itemSubtitle = normalizeOptionalText (ool_itemSubtitle line),
          ool_selectedOptions = selectedOptions,
          ool_productSummary = normalizeOptionalText (ool_productSummary line), ool_gradedCard = gradedCard,
          ool_unitPriceAmount = unitPrice, ool_quantity = quantity, ool_lineTotalAmount = lineTotal,
          ool_marketplaceSalesFeePercentageBps = Some percentage,
          ool_marketplaceSalesFeeFixedAmount = Some feeFixed, ool_marketplaceSalesFeeCapAmount = feeCap,
          ool_marketplaceSalesFeeUnitAmount = feeUnit, ool_marketplaceSalesFeeTotalAmount = feeTotal,
          ool_sellerNetUnitAmount = netUnit, ool_sellerNetTotalAmount = netTotal,
          ool_listingEvidenceSnapshot = ool_listingEvidenceSnapshot line\<rparr>)))))))))))))))))"

definition normalizeOrderLines ::
    "(string \<Rightarrow> string \<Rightarrow> int) \<Rightarrow> jsnum OrderingOrderLine list \<Rightarrow> int OrderingOrderLine list res" where
  "normalizeOrderLines lc rawLines =
     ensure (length rawLines > 0) (OrderingDomainError ''Orders must include at least one line.'')
       (mapE (normalizeOrderLine lc) rawLines)"

definition normalizeReservationRequests ::
    "jsnum ReservationRequestInput list \<Rightarrow> string \<Rightarrow> int ReservationRequestInput list res" where
  "normalizeReservationRequests requests sellerAccountId =
     ensure (length requests > 0)
       (OrderingDomainError ''Orders must include inventory reservation requests for committed quantity.'') (
     mapE (\<lambda>request.
       bindE (orderingRequiredText (rri_sellerAccountId request)
                ''Reservation requests must include a seller account id.'') (\<lambda>normalizedSellerAccountId.
       ensure (normalizedSellerAccountId = sellerAccountId)
         (OrderingDomainError ''Reservation requests must belong to the committed seller.'') (
       bindE (orderingRequiredText (rri_reservationRequestId request) ''Reservation requests must include an id.'') (\<lambda>requestId.
       bindE (orderingRequiredText (rri_inventoryItemId request)
                ''Reservation requests must include an inventory item id.'') (\<lambda>inventoryItemId.
       bindE (orderingPositiveInteger (rri_quantity request)
                ''Reservation request quantity must be a positive whole number.'') (\<lambda>quantity.
         Inr \<lparr>rri_reservationRequestId = requestId, rri_inventoryItemId = inventoryItemId,
              rri_sellerAccountId = normalizedSellerAccountId, rri_quantity = quantity,
              rri_holdId = normalizeOptionalText (rri_holdId request)\<rparr>)))))) requests)"

text \<open>\<open>Math.max(0, Math.trunc(value))\<close>\<close>

fun truncNonNegative :: "jsnum \<Rightarrow> jsnum" where
  "truncNonNegative (Fin q) = numi (max 0 \<lfloor>q\<rfloor>)"
| "truncNonNegative NegInf = numi 0"
| "truncNonNegative v = v"

definition normalizeSalesFeeLine :: "jsnum SalesFeeLineSnapshot \<Rightarrow> int SalesFeeLineSnapshot res" where
  "normalizeSalesFeeLine line =
     bindE (orderingRequiredText (sfl_lineId line) ''Marketplace sales fee lines must reference an order line.'') (\<lambda>lineId.
     bindE (orderingMoneyAmount (sfl_unitPriceAmount line) False ''Fee line unit price'') (\<lambda>unitPrice.
     bindE (orderingPositiveInteger (sfl_quantity line) ''Fee line quantity must be a positive whole number.'') (\<lambda>quantity.
     bindE (orderingNonNegativeInteger (sfl_marketplaceSalesFeePercentageBps line)
              ''Fee line percentage must be zero or more basis points.'') (\<lambda>percentage.
     bindE (orderingMoneyAmount (sfl_marketplaceSalesFeeFixedAmount line) True ''Fee line fixed amount'') (\<lambda>feeFixed.
     bindE (optionalMoney (sfl_marketplaceSalesFeeCapAmount line) ''Fee line cap amount'') (\<lambda>feeCap.
     bindE (orderingMoneyAmount (sfl_marketplaceSalesFeeUnitAmount line) True ''Fee line unit fee'') (\<lambda>feeUnit.
     bindE (orderingMoneyAmount (sfl_marketplaceSalesFeeTotalAmount line) True ''Fee line total fee'') (\<lambda>feeTotal.
       Inr \<lparr>sfl_lineId = lineId, sfl_unitPriceAmount = unitPrice, sfl_quantity = quantity,
            sfl_marketplaceSalesFeePercentageBps = percentage, sfl_marketplaceSalesFeeFixedAmount = feeFixed,
            sfl_marketplaceSalesFeeCapAmount = feeCap, sfl_marketplaceSalesFeeUnitAmount = feeUnit,
            sfl_marketplaceSalesFeeTotalAmount = feeTotal\<rparr>))))))))"

definition normalizeCommercialTermsSnapshot ::
    "jsnum OrderingCommercialTermsSnapshot \<Rightarrow> int OrderingCommercialTermsSnapshot res" where
  "normalizeCommercialTermsSnapshot snapshot =
     bindE (orderingMoneyAmount (oct_marketplaceSalesFeeAmount snapshot) True ''Marketplace sales fee amount'') (\<lambda>feeAmount.
     bindE (mapE normalizeSalesFeeLine (orElse (oct_marketplaceSalesFeeLines snapshot) [])) (\<lambda>feeLines.
     bindE (if length feeLines > 0
            then bindE (sumCents sfl_marketplaceSalesFeeTotalAmount feeLines) (\<lambda>sum.
                 bindE (moneyToCents feeAmount) (\<lambda>cents. Inr (sum = cents)))
            else Inr True) (\<lambda>linesAddUp.
     ensure linesAddUp
       (OrderingDomainError ''Marketplace sales fee line totals must equal the order marketplace sales fee amount.'') (
     bindE (orderingMoneyAmount (oct_sellerNetAmount snapshot) True ''Seller net amount'') (\<lambda>sellerNet.
     bindE (orderingMoneyAmount (orElse (oct_sellerItemNetAmount snapshot) (oct_sellerNetAmount snapshot)) True
              ''Seller item net amount'') (\<lambda>sellerItemNet.
     bindE (orderingMoneyAmount (orElse (oct_shippingAllowanceAmount snapshot) ''0.00'') True
              ''Shipping allowance amount'') (\<lambda>shippingAllowance.
     bindE (orderingMoneyAmount
              (orElse (oct_sellerShippingPayoutAmount snapshot) (orElse (oct_shippingAllowanceAmount snapshot) ''0.00''))
              True ''Seller shipping payout amount'') (\<lambda>sellerShippingPayout.
     bindE (orderingMoneyAmount (orElse (oct_protectionAmount snapshot) ''0.00'') True ''Order protection amount'') (\<lambda>protection.
     bindE (orderingMoneyAmount (orElse (oct_protectionAllowanceAmount snapshot) ''0.00'') True
              ''Allowance-funded Order Protection amount'') (\<lambda>protectionAllowance.
     bindE (orderingMoneyAmount (orElse (oct_protectionOverageAmount snapshot) ''0.00'') True
              ''Overage-funded Order Protection amount'') (\<lambda>protectionOverage.
     bindE (orderingMoneyAmount (orElse (oct_sellerPayoutAmount snapshot) (oct_sellerNetAmount snapshot)) True
              ''Seller payout amount'') (\<lambda>sellerPayout.
     bindE (orderingRequiredText (oct_termsResolvedAt snapshot)
              ''Order economics snapshot must include a resolution timestamp.'') (\<lambda>termsResolvedAt.
       Inr \<lparr>oct_marketplaceSalesFeeAmount = feeAmount, oct_marketplaceSalesFeeLines = Some feeLines,
            oct_sellerNetAmount = sellerNet, oct_sellerItemNetAmount = Some sellerItemNet,
            oct_shippingAllowanceAmount = Some shippingAllowance,
            oct_sellerShippingPayoutAmount = Some sellerShippingPayout,
            oct_protectionAmount = Some protection, oct_protectionAllowanceAmount = Some protectionAllowance,
            oct_protectionOverageAmount = Some protectionOverage, oct_sellerPayoutAmount = Some sellerPayout,
            oct_shippingAllowancePercentageBps =
              Some (truncNonNegative (orElse (oct_shippingAllowancePercentageBps snapshot) (numi 500))),
            oct_termsScheduleId = normalizeOptionalText (oct_termsScheduleId snapshot),
            oct_termsAgreementId = normalizeOptionalText (oct_termsAgreementId snapshot),
            oct_termsResolvedAt = termsResolvedAt\<rparr>)))))))))))))"

definition normalizeTaxSnapshot :: "OrderingTaxSnapshot \<Rightarrow> OrderingTaxSnapshot res" where
  "normalizeTaxSnapshot snapshot =
     bindE (orderingMoneyAmount (otx_taxableAmount snapshot) True ''Taxable amount'') (\<lambda>taxable.
     bindE (orderingMoneyAmount (otx_salesTaxAmount snapshot) True ''Sales tax amount'') (\<lambda>salesTax.
     bindE (orderingRequiredText (otx_jurisdictionCountry snapshot) ''Tax snapshot must include a jurisdiction country.'') (\<lambda>country.
     bindE (orderingRequiredText (otx_providerName snapshot) ''Tax snapshot must include a provider name.'') (\<lambda>providerName.
     bindE (orderingRequiredText (otx_quotedAt snapshot) ''Tax snapshot must include a quote timestamp.'') (\<lambda>quotedAt.
       Inr \<lparr>otx_taxableAmount = taxable, otx_salesTaxAmount = salesTax, otx_jurisdictionCountry = country,
            otx_jurisdictionState = normalizeOptionalText (otx_jurisdictionState snapshot),
            otx_rateBps = truncNonNegative (otx_rateBps snapshot), otx_providerName = providerName,
            otx_providerQuoteReference = normalizeOptionalText (otx_providerQuoteReference snapshot),
            otx_quotedAt = quotedAt\<rparr>)))))"

definition normalizeAuthenticityPlanSnapshot ::
    "OrderingAuthenticityPlanSnapshot option \<Rightarrow> OrderingAuthenticityPlanSnapshot option res" where
  "normalizeAuthenticityPlanSnapshot snapshot =
     (case snapshot of
        None \<Rightarrow> Inr None
      | Some s \<Rightarrow>
          bindE (orderingMoneyAmount (oap_feeAmount s) True ''Authenticity check fee amount'') (\<lambda>fee.
          bindE (orderingRequiredText (oap_policyVersion s) ''Authenticity plan must include a fee policy version.'') (\<lambda>policyVersion.
          bindE (orderingMoneyAmount (oap_thresholdAmount s) True ''Authenticity check opt-in threshold'') (\<lambda>threshold.
          bindE (orderingMoneyAmount (oap_orderValueAmount s) True ''Authenticity check order value'') (\<lambda>orderValue.
          bindE (orderingRequiredText (oap_quotedAt s) ''Authenticity plan must include a quote timestamp.'') (\<lambda>quotedAt.
            Inr (Some \<lparr>oap_feeAmount = fee, oap_policyVersion = policyVersion, oap_category = oap_category s,
                       oap_thresholdAmount = threshold, oap_orderValueAmount = orderValue,
                       oap_quotedAt = quotedAt\<rparr>)))))))"

end
