(* ===== verification/OrderDecide.thy ===== *)
theory OrderDecide
  imports Order
begin

text \<open>
  The decider and the evolver of \<open>bounded-contexts/ordering/features/orders/domain/domain.ts\<close>, one function
  per case. The order of \<open>localeCompare\<close> sorts the selected options of a line. The evolver does not throw.
\<close>

section \<open>The decider\<close>

abbreviation orderCreatedFirst :: "OrderingOrderState \<Rightarrow> (string \<Rightarrow> 'a res) \<Rightarrow> 'a res" where
  "orderCreatedFirst state f \<equiv>
     (case oo_orderId state of None \<Rightarrow> Inl (OrderingDomainError ''Order must be created first.'') | Some i \<Rightarrow> f i)"

text \<open>The amounts of a new order, checked against each other, its lines and its terms.\<close>

record OrderAmounts =
  oam_protectionAmount :: string
  oam_protectionAllowanceAmount :: string
  oam_protectionOverageAmount :: string
  oam_shippingOverageAmount :: string
  oam_shippingChargeAmount :: string
  oam_itemSubtotalAmount :: string
  oam_salesTaxAmount :: string
  oam_totalAmount :: string

definition sumsTo :: "int res \<Rightarrow> string \<Rightarrow> bool res" where
  "sumsTo added amount = bindE added (\<lambda>s. bindE (moneyToCents amount) (\<lambda>c. Inr (s = c)))"

definition addCentsOf :: "string list \<Rightarrow> int res" where
  "addCentsOf amounts = sumCents (\<lambda>a. a) amounts"

definition orderProtection :: "CreateOrderCommand \<Rightarrow> (string \<times> string \<times> string) res" where
  "orderProtection c =
     bindE (orderingMoneyAmount (orElse (cor_protectionAmount c) ''0.00'') True ''Order protection amount'') (\<lambda>protection.
     bindE (orderingMoneyAmount (orElse (cor_protectionAllowanceAmount c) ''0.00'') True
              ''Allowance-funded Order Protection amount'') (\<lambda>allowance.
     bindE (orderingMoneyAmount (orElse (cor_protectionOverageAmount c) ''0.00'') True
              ''Overage-funded Order Protection amount'') (\<lambda>overage.
     bindE (sumsTo (addCentsOf [allowance, overage]) protection) (\<lambda>ok.
     ensure ok (OrderingDomainError ''Order Protection funding shares must equal the Order Protection amount.'')
       (Inr (protection, allowance, overage))))))"

definition orderShipping :: "CreateOrderCommand \<Rightarrow> string \<Rightarrow> (string \<times> string) res" where
  "orderShipping c protectionOverage =
     bindE (orderingMoneyAmount (orElse (cor_shippingOverageAmount c) (cor_shippingChargeAmount c)) True
              ''Shipping overage amount'') (\<lambda>overage.
     bindE (orderingMoneyAmount (cor_shippingChargeAmount c) True ''Shipping charge amount'') (\<lambda>charge.
     bindE (sumsTo (addCentsOf [overage, protectionOverage]) charge) (\<lambda>ok.
     ensure ok (OrderingDomainError ''The buyer Shipping amount must equal shipping and Order Protection overflow.'')
       (Inr (overage, charge)))))"

definition checkOrderTotals ::
    "int OrderingOrderLine list \<Rightarrow> int OrderingCommercialTermsSnapshot \<Rightarrow>
     OrderingAuthenticityPlanSnapshot option \<Rightarrow> OrderAmounts \<Rightarrow> 'a res \<Rightarrow> 'a res" where
  "checkOrderTotals lines terms plan a k =
     bindE (sumsTo (sumCents ool_lineTotalAmount lines) (oam_itemSubtotalAmount a)) (\<lambda>ok.
     ensure ok (OrderingDomainError ''Order item subtotal must equal the sum of line totals.'') (
     bindE (sumsTo (sumCents ool_marketplaceSalesFeeTotalAmount lines) (oct_marketplaceSalesFeeAmount terms)) (\<lambda>feeOk.
     bindE (if feeOk then sumsTo (sumCents ool_sellerNetTotalAmount lines) (oct_sellerNetAmount terms) else Inr False) (\<lambda>ok.
     ensure ok
       (OrderingDomainError ''Order line fee and seller-net totals must match the commercial terms snapshot.'') (
     bindE (sumsTo (addCentsOf [oam_itemSubtotalAmount a, oam_shippingChargeAmount a, oam_salesTaxAmount a,
                                (case plan of None \<Rightarrow> ''0.00'' | Some p \<Rightarrow> oap_feeAmount p)])
              (oam_totalAmount a)) (\<lambda>ok.
     ensure ok
       (OrderingDomainError
          ''Order total must equal item subtotal, Shipping, sales tax, and authenticity check fee.'') (
     ensure (oct_protectionAmount terms = Some (oam_protectionAmount a) \<and>
             oct_protectionAllowanceAmount terms = Some (oam_protectionAllowanceAmount a) \<and>
             oct_protectionOverageAmount terms = Some (oam_protectionOverageAmount a))
       (OrderingDomainError
          ''Order Protection economics must match the immutable commercial terms snapshot.'')
       k)))))))"

definition orderCreatedEvents ::
    "CreateOrderCommand \<Rightarrow> string \<Rightarrow> int OrderingOrderLine list \<Rightarrow> int OrderingCommercialTermsSnapshot \<Rightarrow>
     OrderingAuthenticityPlanSnapshot option \<Rightarrow> OrderAmounts \<Rightarrow> OrderingOrderEvent list res" where
  "orderCreatedEvents c sellerAccountId lines terms plan a =
     bindE (normalizeShippingOption (cor_shippingOption c)) (\<lambda>shippingOption.
     bindE (orderingMoneyAmount (cor_shippingBaseAmount c) True ''Shipping base amount'') (\<lambda>base.
     bindE (orderingMoneyAmount (cor_shippingDiscountAmount c) True ''Shipping discount amount'') (\<lambda>discount.
     bindE (orderingMoneyAmount (orElse (cor_shippingAllowanceAmount c) (cor_shippingChargeAmount c)) True
              ''Shipping allowance amount'') (\<lambda>allowance.
     bindE (normalizeTaxSnapshot (cor_taxSnapshot c)) (\<lambda>tax.
     bindE (normalizeAddressSnapshot (cor_shippingDestinationSnapshot c) ''Shipping destination'') (\<lambda>destination.
     bindE (normalizeAddressSnapshot (cor_shippingOriginSnapshot c) ''Shipping origin'') (\<lambda>origin.
     bindE (normalizeReservationRequests (cor_reservationRequests c) sellerAccountId) (\<lambda>requests.
       Inr [OrderCreatedEvent
              \<lparr>oce_orderId = cor_orderId c, oce_sourceType = cor_sourceType c,
               oce_sourceReferenceId = normalizeOptionalText (cor_sourceReferenceId c),
               oce_buyerAccountId = cor_buyerAccountId c, oce_sellerAccountId = sellerAccountId,
               oce_shippingOption = shippingOption, oce_itemSubtotalAmount = oam_itemSubtotalAmount a,
               oce_shippingBaseAmount = base, oce_shippingDiscountAmount = discount,
               oce_shippingAllowanceAmount = allowance,
               oce_shippingOverageAmount = oam_shippingOverageAmount a,
               oce_protectionAmount = Some (oam_protectionAmount a),
               oce_protectionAllowanceAmount = Some (oam_protectionAllowanceAmount a),
               oce_protectionOverageAmount = Some (oam_protectionOverageAmount a),
               oce_shippingChargeAmount = oam_shippingChargeAmount a,
               oce_shippingPlanSnapshot = cor_shippingPlanSnapshot c,
               oce_salesTaxAmount = oam_salesTaxAmount a, oce_totalAmount = oam_totalAmount a,
               oce_taxSnapshot = tax, oce_commercialTermsSnapshot = terms,
               oce_authenticityPlanSnapshot = plan, oce_shippingDestinationSnapshot = destination,
               oce_shippingOriginSnapshot = origin, oce_lines = lines, oce_reservationRequests = requests\<rparr>,
            OrderLineItemAmountsPublished (cor_orderId c)
              (map (\<lambda>line. (ool_lineId line, ool_lineTotalAmount line)) lines)]))))))))"

definition decideCreateOrder ::
    "(string \<Rightarrow> string \<Rightarrow> int) \<Rightarrow> OrderingOrderState \<Rightarrow> CreateOrderCommand \<Rightarrow> OrderingOrderEvent list res" where
  "decideCreateOrder lc state c =
     ensure (oo_orderId state = None) (OrderingDomainError ''Order has already been created.'') (
     bindE (normalizeOrderLines lc (cor_lines c)) (\<lambda>lines.
     bindE (orderingRequiredText (cor_sellerAccountId c) ''Orders must include a seller account.'') (\<lambda>sellerAccountId.
     ensure (cor_buyerAccountId c \<noteq> sellerAccountId)
       (OrderingDomainError ''Buyer and seller accounts must be different for an order.'') (
     bindE (orderProtection c) (\<lambda>(protection, protectionAllowance, protectionOverage).
     bindE (orderShipping c protectionOverage) (\<lambda>(shippingOverage, shippingCharge).
     bindE (normalizeCommercialTermsSnapshot (cor_commercialTermsSnapshot c)) (\<lambda>terms.
     bindE (orderingMoneyAmount (cor_itemSubtotalAmount c) True ''Item subtotal'') (\<lambda>subtotal.
     bindE (orderingMoneyAmount (cor_salesTaxAmount c) True ''Sales tax amount'') (\<lambda>salesTax.
     bindE (normalizeAuthenticityPlanSnapshot (cor_authenticityPlanSnapshot c)) (\<lambda>plan.
     bindE (orderingMoneyAmount (cor_totalAmount c) True ''Order total'') (\<lambda>orderTotal.
     let a = \<lparr>oam_protectionAmount = protection, oam_protectionAllowanceAmount = protectionAllowance,
              oam_protectionOverageAmount = protectionOverage, oam_shippingOverageAmount = shippingOverage,
              oam_shippingChargeAmount = shippingCharge, oam_itemSubtotalAmount = subtotal,
              oam_salesTaxAmount = salesTax, oam_totalAmount = orderTotal\<rparr>
     in checkOrderTotals lines terms plan a
          (orderCreatedEvents c sellerAccountId lines terms plan a))))))))))))"

text \<open>\<open>updateReservationRequest\<close>: whether a request matched, and the requests after the change.\<close>

definition updateReservationRequest ::
    "OrderingOrderState \<Rightarrow> string \<Rightarrow> (OrderingReservationRequest \<Rightarrow> OrderingReservationRequest res) \<Rightarrow>
     (bool \<times> OrderingReservationRequest list) res" where
  "updateReservationRequest state reservationRequestId transform =
     bindE (mapE (\<lambda>request.
              if orr_reservationRequestId request \<noteq> reservationRequestId then Inr request else transform request)
            (oo_reservationRequests state)) (\<lambda>requests.
       Inr (\<exists>r\<in>set (oo_reservationRequests state). orr_reservationRequestId r = reservationRequestId, requests))"

definition hasPendingReservations :: "OrderingReservationRequest list \<Rightarrow> bool" where
  "hasPendingReservations requests \<longleftrightarrow> (\<exists>request\<in>set requests. orr_status request = RequestPending)"

definition confirmRequest :: "string \<Rightarrow> OrderingReservationRequest \<Rightarrow> OrderingReservationRequest res" where
  "confirmRequest holdId request =
     (if orr_status request = RequestConfirmed \<and> orr_holdId request = Some holdId then Inr request
      else
      ensure (orr_status request = RequestPending)
        (OrderingDomainError ''Only pending reservation requests can be confirmed.'')
        (Inr (request\<lparr>orr_holdId := Some holdId, orr_status := RequestConfirmed\<rparr>)))"

definition decideReservationConfirmed ::
    "host \<Rightarrow> OrderingOrderState \<Rightarrow> string \<Rightarrow> string \<Rightarrow> string \<Rightarrow> OrderingOrderEvent list res" where
  "decideReservationConfirmed h state rawRequestId rawHoldId rawConfirmedAt =
     orderCreatedFirst state (\<lambda>orderId.
     if oo_status state = Some OrderCancelledSt then Inr []
     else
     bindE (orderingRequiredText rawHoldId ''Reservation confirmation must include a hold id.'') (\<lambda>holdId.
     bindE (orderingRequiredText rawRequestId ''Reservation confirmation must include a request id.'') (\<lambda>requestId.
     bindE (updateReservationRequest state requestId (confirmRequest holdId)) (\<lambda>(matched, requests).
     ensure matched
       (OrderingDomainError ''Reservation confirmation must reference an existing reservation request.'') (
     case find (\<lambda>request. orr_reservationRequestId request = requestId) requests of
       None \<Rightarrow> Inl (OrderingDomainError ''Reservation confirmation must reference an existing reservation request.'')
     | Some confirmed \<Rightarrow>
     bindE (orderingRequiredText rawConfirmedAt ''Reservation confirmation must record a timestamp.'') (\<lambda>confirmedAt.
     let confirmation = OrderReservationConfirmedEvent
           \<lparr>orc_orderId = orderId, orc_reservationRequestId = requestId,
            orc_inventoryItemId = orr_inventoryItemId confirmed,
            orc_sellerAccountId = orr_sellerAccountId confirmed, orc_quantity = orr_quantity confirmed,
            orc_holdId = holdId, orc_confirmedAt = confirmedAt\<rparr>
     in if hasPendingReservations requests then Inr [confirmation]
     else
     bindE (resolveOrderPaymentDeadline h confirmedAt None defaultOrderPaymentDeadlinePolicy) (\<lambda>(deadlineAt, policy).
       Inr [confirmation, OrderPendingPaymentRecorded orderId confirmedAt deadlineAt policy])))))))"

definition rejectRequest :: "string \<Rightarrow> OrderingReservationRequest \<Rightarrow> OrderingReservationRequest res" where
  "rejectRequest rawReason request =
     bindE (if orr_status request = RequestRejected
            then bindE (orderingRequiredText rawReason ''Reservation rejection must include a reason.'') (\<lambda>reason.
                   Inr (orr_rejectionReason request = Some reason))
            else Inr False) (\<lambda>same.
     if same then Inr request
     else
     ensure (orr_status request = RequestPending)
       (OrderingDomainError ''Only pending reservation requests can be rejected.'') (
     bindE (orderingRequiredText rawReason ''Reservation rejection must include a reason.'') (\<lambda>reason.
       Inr (request\<lparr>orr_status := RequestRejected, orr_rejectionReason := Some reason\<rparr>))))"

text \<open>\<open>email?.trim() || null\<close>\<close>

definition orderBuyerEmail :: "OrderingOrderState \<Rightarrow> string option" where
  "orderBuyerEmail state =
     normalizeOptionalText (Option.bind (oo_shippingDestinationSnapshot state) adr_email)"

definition decideReservationRejected ::
    "OrderingOrderState \<Rightarrow> string \<Rightarrow> string \<Rightarrow> string \<Rightarrow> OrderingOrderEvent list res" where
  "decideReservationRejected state rawRequestId rawRejectedAt rawReason =
     (case (oo_orderId state, oo_status state) of
        (Some orderId, Some status) \<Rightarrow>
          if status = OrderCancelledSt then Inr []
          else
          bindE (updateReservationRequest state rawRequestId (rejectRequest rawReason)) (\<lambda>(matched, requests).
          if \<not> matched then Inr []
          else
          bindE (orderingRequiredText rawRequestId ''Reservation rejection must include a request id.'') (\<lambda>requestId.
          bindE (orderingRequiredText rawRejectedAt ''Reservation rejection must record a timestamp.'') (\<lambda>rejectedAt.
          bindE (orderingRequiredText rawReason ''Reservation rejection must include a reason.'') (\<lambda>reason.
            Inr [OrderReservationRejectedEvent orderId requestId rejectedAt reason,
                 OrderCancelledEvent
                   \<lparr>ocx_orderId = orderId, ocx_cancelledAt = rawRejectedAt,
                    ocx_reason = ''inventory-unavailable'', ocx_buyerEmail = orderBuyerEmail state,
                    ocx_buyerAccountId = oo_buyerAccountId state, ocx_statusBeforeCancellation = status,
                    ocx_reservationRequests = requests\<rparr>]))))
      | _ \<Rightarrow> Inl (OrderingDomainError ''Order must be created first.''))"

definition releaseRequest :: "string \<Rightarrow> string \<Rightarrow> OrderingReservationRequest \<Rightarrow> OrderingReservationRequest res" where
  "releaseRequest holdId rawReleasedAt request =
     (if orr_status request = RequestReleased then Inr request
      else
      ensure (orr_status request = RequestConfirmed)
        (OrderingDomainError ''Only confirmed reservation requests can be released.'') (
      ensure (orr_holdId request = Some holdId)
        (OrderingDomainError ''Reservation release must reference the confirmed hold id.'') (
      bindE (orderingRequiredText rawReleasedAt ''Reservation release must record a timestamp.'') (\<lambda>releasedAt.
        Inr (request\<lparr>orr_status := RequestReleased, orr_releasedAt := Some releasedAt\<rparr>)))))"

definition decideReservationReleased ::
    "OrderingOrderState \<Rightarrow> string \<Rightarrow> string \<Rightarrow> string \<Rightarrow> OrderingOrderEvent list res" where
  "decideReservationReleased state rawRequestId rawHoldId rawReleasedAt =
     orderCreatedFirst state (\<lambda>orderId.
     bindE (orderingRequiredText rawHoldId ''Reservation release must include a hold id.'') (\<lambda>holdId.
     bindE (updateReservationRequest state rawRequestId (releaseRequest holdId rawReleasedAt)) (\<lambda>(matched, requests).
     if \<not> matched then Inr []
     else
     bindE (orderingRequiredText rawRequestId ''Reservation release must include a request id.'') (\<lambda>requestId.
     bindE (orderingRequiredText rawReleasedAt ''Reservation release must record a timestamp.'') (\<lambda>releasedAt.
       Inr [OrderReservationReleasedEvent orderId requestId holdId releasedAt])))))"

definition decideCancelOrder :: "OrderingOrderState \<Rightarrow> string \<Rightarrow> string \<Rightarrow> OrderingOrderEvent list res" where
  "decideCancelOrder state rawCancelledAt rawReason =
     orderCreatedFirst state (\<lambda>orderId.
     if oo_status state = Some OrderCancelledSt then Inr []
     else
     bindE (orderingRequiredText rawReason ''Order cancellation must include a reason.'') (\<lambda>reason.
     ensure (reason = ''payment-deadline'' \<longrightarrow> oo_status state = Some PendingPayment)
       (OrderingDomainError ''Payment-deadline cancellation requires a pending-payment order.'') (
     case oo_status state of
       None \<Rightarrow> Inl (OrderingDomainError ''Only pending or fulfillment-ready orders can be cancelled.'')
     | Some status \<Rightarrow>
     bindE (orderingRequiredText rawCancelledAt ''Order cancellation must record a timestamp.'') (\<lambda>cancelledAt.
       Inr [OrderCancelledEvent
              \<lparr>ocx_orderId = orderId, ocx_cancelledAt = cancelledAt, ocx_reason = reason,
               ocx_buyerEmail = orderBuyerEmail state, ocx_buyerAccountId = oo_buyerAccountId state,
               ocx_statusBeforeCancellation = status,
               ocx_reservationRequests = oo_reservationRequests state\<rparr>]))))"

definition decideReadyForFulfillment :: "OrderingOrderState \<Rightarrow> string \<Rightarrow> OrderingOrderEvent list res" where
  "decideReadyForFulfillment state rawReadyAt =
     orderCreatedFirst state (\<lambda>orderId.
     if oo_status state = Some ReadyForFulfillment \<or> oo_status state = Some OrderCancelledSt then Inr []
     else
     ensure (oo_status state = Some PendingPayment)
       (OrderingDomainError ''Only pending-payment orders can become ready for fulfillment.'') (
     bindE (orderingRequiredText rawReadyAt ''Order readiness must record a timestamp.'') (\<lambda>readyAt.
       Inr [OrderReadyForFulfillmentEvent orderId readyAt])))"

fun decideOrderingOrder ::
    "host \<Rightarrow> (string \<Rightarrow> string \<Rightarrow> int) \<Rightarrow> OrderingOrderState \<Rightarrow> OrderingOrderCommand \<Rightarrow>
     OrderingOrderEvent list res" where
  "decideOrderingOrder h lc state (CreateOrder c) = decideCreateOrder lc state c"
| "decideOrderingOrder h lc state (RecordReservationConfirmed requestId holdId confirmedAt) =
     decideReservationConfirmed h state requestId holdId confirmedAt"
| "decideOrderingOrder h lc state (RecordReservationRejected requestId rejectedAt reason) =
     decideReservationRejected state requestId rejectedAt reason"
| "decideOrderingOrder h lc state (RecordReservationReleased requestId holdId releasedAt) =
     decideReservationReleased state requestId holdId releasedAt"
| "decideOrderingOrder h lc state (CancelOrder cancelledAt reason) = decideCancelOrder state cancelledAt reason"
| "decideOrderingOrder h lc state (MarkReadyForFulfillment readyAt) = decideReadyForFulfillment state readyAt"


section \<open>The evolver\<close>

definition pendingRequest :: "int ReservationRequestInput \<Rightarrow> OrderingReservationRequest" where
  "pendingRequest request =
     \<lparr>orr_reservationRequestId = rri_reservationRequestId request,
      orr_inventoryItemId = rri_inventoryItemId request, orr_sellerAccountId = rri_sellerAccountId request,
      orr_quantity = rri_quantity request, orr_holdId = rri_holdId request, orr_status = RequestPending,
      orr_rejectionReason = None, orr_releasedAt = None\<rparr>"

definition evolveOrderCreated :: "OrderCreated \<Rightarrow> OrderingOrderState" where
  "evolveOrderCreated d =
     \<lparr>oo_orderId = Some (oce_orderId d), oo_sourceType = Some (oce_sourceType d),
      oo_sourceReferenceId = oce_sourceReferenceId d, oo_buyerAccountId = Some (oce_buyerAccountId d),
      oo_sellerAccountId = Some (oce_sellerAccountId d), oo_shippingOption = Some (oce_shippingOption d),
      oo_itemSubtotalAmount = Some (oce_itemSubtotalAmount d),
      oo_shippingBaseAmount = Some (oce_shippingBaseAmount d),
      oo_shippingDiscountAmount = Some (oce_shippingDiscountAmount d),
      oo_shippingAllowanceAmount = Some (oce_shippingAllowanceAmount d),
      oo_shippingOverageAmount = Some (oce_shippingOverageAmount d),
      oo_protectionAmount = Some (orElse (oce_protectionAmount d) ''0.00''),
      oo_protectionAllowanceAmount = Some (orElse (oce_protectionAllowanceAmount d) ''0.00''),
      oo_protectionOverageAmount = Some (orElse (oce_protectionOverageAmount d) ''0.00''),
      oo_shippingChargeAmount = Some (oce_shippingChargeAmount d),
      oo_shippingPlanSnapshot = Some (oce_shippingPlanSnapshot d),
      oo_salesTaxAmount = Some (oce_salesTaxAmount d), oo_totalAmount = Some (oce_totalAmount d),
      oo_taxSnapshot = Some (oce_taxSnapshot d),
      oo_commercialTermsSnapshot = Some (oce_commercialTermsSnapshot d),
      oo_authenticityPlanSnapshot = oce_authenticityPlanSnapshot d,
      oo_shippingDestinationSnapshot = Some (oce_shippingDestinationSnapshot d),
      oo_shippingOriginSnapshot = Some (oce_shippingOriginSnapshot d), oo_lines = oce_lines d,
      oo_reservationRequests = map pendingRequest (oce_reservationRequests d),
      oo_status = Some PendingReservation, oo_pendingPaymentAt = None, oo_paymentDeadlineAt = None,
      oo_paymentDeadlinePolicy = None, oo_cancelledAt = None, oo_cancellationReason = None,
      oo_readyForFulfillmentAt = None\<rparr>"

definition changeRequest ::
    "string \<Rightarrow> (OrderingReservationRequest \<Rightarrow> OrderingReservationRequest) \<Rightarrow> OrderingOrderState \<Rightarrow>
     OrderingOrderState" where
  "changeRequest requestId f state =
     state\<lparr>oo_reservationRequests :=
             map (\<lambda>request. if orr_reservationRequestId request = requestId then f request else request)
               (oo_reservationRequests state)\<rparr>"

fun evolveOrder :: "OrderingOrderState \<Rightarrow> OrderingOrderEvent \<Rightarrow> OrderingOrderState" where
  "evolveOrder state (OrderCreatedEvent d) = evolveOrderCreated d"
| "evolveOrder state (OrderLineItemAmountsPublished orderId lineItems) = state"
| "evolveOrder state (OrderReservationConfirmedEvent d) =
     changeRequest (orc_reservationRequestId d)
       (\<lambda>request. request\<lparr>orr_holdId := Some (orc_holdId d), orr_status := RequestConfirmed\<rparr>) state"
| "evolveOrder state (OrderReservationRejectedEvent orderId requestId rejectedAt reason) =
     changeRequest requestId
       (\<lambda>request. request\<lparr>orr_status := RequestRejected, orr_rejectionReason := Some reason\<rparr>) state"
| "evolveOrder state (OrderPendingPaymentRecorded orderId pendingPaymentAt deadlineAt policy) =
     state\<lparr>oo_status := Some PendingPayment, oo_pendingPaymentAt := Some pendingPaymentAt,
           oo_paymentDeadlineAt := Some deadlineAt, oo_paymentDeadlinePolicy := Some policy\<rparr>"
| "evolveOrder state (OrderCancelledEvent d) =
     state\<lparr>oo_status := Some OrderCancelledSt, oo_cancelledAt := Some (ocx_cancelledAt d),
           oo_cancellationReason := Some (ocx_reason d)\<rparr>"
| "evolveOrder state (OrderReservationReleasedEvent orderId requestId holdId releasedAt) =
     changeRequest requestId
       (\<lambda>request. request\<lparr>orr_status := RequestReleased, orr_releasedAt := Some releasedAt\<rparr>) state"
| "evolveOrder state (OrderReadyForFulfillmentEvent orderId readyAt) =
     state\<lparr>oo_status := Some ReadyForFulfillment, oo_readyForFulfillmentAt := Some readyAt\<rparr>"

definition evolveOrderingOrder :: "OrderingOrderState \<Rightarrow> OrderingOrderEvent \<Rightarrow> OrderingOrderState res" where
  "evolveOrderingOrder state event = Inr (evolveOrder state event)"

end
