(* ===== verification/OrderFacts.thy ===== *)
theory OrderFacts
  imports OrderDecide
begin

text \<open>
  What a created order fixes for good, and what every decided batch finds: the amounts of an order add up,
  and its reservation requests agree with its status.
\<close>

section \<open>The amounts of a new order\<close>

abbreviation order_money :: "string \<Rightarrow> bool" where
  "order_money t \<equiv> canonical t \<and> 0 \<le> centsOf t"

definition order_cents :: "('a \<Rightarrow> string) \<Rightarrow> 'a list \<Rightarrow> int" where
  "order_cents amountOf xs = sum_list (map (\<lambda>x. centsOf (amountOf x)) xs)"

lemma order_money_cents: "order_money t \<Longrightarrow> moneyToCents t = Inr (centsOf t)"
  by (auto elim!: canonicalE simp: money_simps)

lemma foldE_cents:
  "\<forall>x\<in>set xs. order_money (f x) \<Longrightarrow>
   foldE (\<lambda>s x. bindE (moneyToCents (f x)) (\<lambda>c. Inr (s + c))) k xs = Inr (k + order_cents f xs)"
  by (induction xs arbitrary: k) (auto simp: order_cents_def order_money_cents)

lemma sumCents_money: "\<forall>x\<in>set xs. order_money (f x) \<Longrightarrow> sumCents f xs = Inr (order_cents f xs)"
  by (simp add: sumCents_def foldE_cents)

lemma addCentsOf_money: "\<forall>t\<in>set ts. order_money t \<Longrightarrow> addCentsOf ts = Inr (order_cents (\<lambda>t. t) ts)"
  by (simp add: addCentsOf_def sumCents_money)

lemma sumsTo_money [simp]: "order_money t \<Longrightarrow> sumsTo (Inr n) t = Inr (n = centsOf t)"
  by (simp add: sumsTo_def order_money_cents)

lemma order_cents_simps [simp]:
  "order_cents f [] = 0" "order_cents f (x # xs) = centsOf (f x) + order_cents f xs"
  by (simp_all add: order_cents_def)

lemma order_cents_add:
  "\<forall>x\<in>set xs. centsOf (f x) + centsOf (g x) = centsOf (k x) \<Longrightarrow>
   order_cents f xs + order_cents g xs = order_cents k xs"
  by (induction xs) auto

definition order_line_ok :: "int OrderingOrderLine \<Rightarrow> bool" where
  "order_line_ok l \<longleftrightarrow>
     (\<forall>a\<in>{ool_unitPriceAmount l, ool_lineTotalAmount l, ool_marketplaceSalesFeeUnitAmount l,
           ool_marketplaceSalesFeeTotalAmount l, ool_sellerNetUnitAmount l, ool_sellerNetTotalAmount l}.
        order_money a) \<and>
     0 < ool_quantity l \<and> 0 < centsOf (ool_unitPriceAmount l) \<and>
     centsOf (ool_unitPriceAmount l) * ool_quantity l = centsOf (ool_lineTotalAmount l) \<and>
     centsOf (ool_marketplaceSalesFeeUnitAmount l) * ool_quantity l = centsOf (ool_marketplaceSalesFeeTotalAmount l) \<and>
     centsOf (ool_sellerNetUnitAmount l) * ool_quantity l = centsOf (ool_sellerNetTotalAmount l) \<and>
     centsOf (ool_marketplaceSalesFeeTotalAmount l) + centsOf (ool_sellerNetTotalAmount l) =
       centsOf (ool_lineTotalAmount l)"

lemma checked_line:
  assumes "checkOrderLine line = Inr l"
    and "\<forall>a\<in>{ool_unitPriceAmount line, ool_lineTotalAmount line, ool_marketplaceSalesFeeUnitAmount line,
           ool_marketplaceSalesFeeTotalAmount line, ool_sellerNetUnitAmount line, ool_sellerNetTotalAmount line}.
        order_money a"
    and "0 < ool_quantity line" and "0 < centsOf (ool_unitPriceAmount line)"
  shows "order_line_ok l"
  using assms by (auto simp: checkOrderLine_def order_money_cents order_line_ok_def split: if_splits)

lemma normalized_line:
  assumes "normalizeOrderLine lc line = Inr l"
  shows "order_line_ok l"
proof -
  from assms obtain line' where line': "checkOrderLine line' = Inr l"
    "orderingMoneyAmount (ool_unitPriceAmount line) False ''Unit price'' = Inr (ool_unitPriceAmount line')"
    "orderingPositiveInteger (ool_quantity line) ''Order line quantity must be a positive whole number.'' =
       Inr (ool_quantity line')"
    "orderingMoneyAmount (ool_lineTotalAmount line) False ''Line total'' = Inr (ool_lineTotalAmount line')"
    "orderingMoneyAmount (ool_marketplaceSalesFeeUnitAmount line) True ''Line marketplace sales fee unit amount'' =
       Inr (ool_marketplaceSalesFeeUnitAmount line')"
    "orderingMoneyAmount (ool_marketplaceSalesFeeTotalAmount line) True ''Line marketplace sales fee total amount'' =
       Inr (ool_marketplaceSalesFeeTotalAmount line')"
    "orderingMoneyAmount (ool_sellerNetUnitAmount line) True ''Line seller net unit amount'' =
       Inr (ool_sellerNetUnitAmount line')"
    "orderingMoneyAmount (ool_sellerNetTotalAmount line) True ''Line seller net total amount'' =
       Inr (ool_sellerNetTotalAmount line')"
    unfolding normalizeOrderLine_def bindE_Inr by (elim exE conjE) (rule that, assumption, simp_all)
  note m = line'(2,4-) [THEN orderingMoneyAmount_Inr]
  show ?thesis by (rule checked_line [OF line'(1)]) (use m line'(3) in \<open>auto simp: orderingPositiveInteger_Inr\<close>)
qed

lemma mapE_all: "mapE f xs = Inr ys \<Longrightarrow> (\<And>x y. f x = Inr y \<Longrightarrow> P y) \<Longrightarrow> \<forall>y\<in>set ys. P y"
  by (induction xs arbitrary: ys) (auto simp: res_simps)

lemma normalized_lines: "normalizeOrderLines lc raw = Inr ls \<Longrightarrow> ls \<noteq> [] \<and> (\<forall>l\<in>set ls. order_line_ok l)"
  by (auto simp: normalizeOrderLines_def split: if_splits dest: mapE_Inr_length mapE_all [OF _ normalized_line])

definition terms_ok :: "int OrderingCommercialTermsSnapshot \<Rightarrow> bool" where
  "terms_ok t \<longleftrightarrow> order_money (oct_marketplaceSalesFeeAmount t) \<and> order_money (oct_sellerNetAmount t)"

lemma normalized_terms:
  assumes "normalizeCommercialTermsSnapshot raw = Inr t"
  shows "terms_ok t"
proof -
  from assms have
    "orderingMoneyAmount (oct_marketplaceSalesFeeAmount raw) True ''Marketplace sales fee amount'' =
       Inr (oct_marketplaceSalesFeeAmount t) \<and>
     orderingMoneyAmount (oct_sellerNetAmount raw) True ''Seller net amount'' = Inr (oct_sellerNetAmount t)"
    unfolding normalizeCommercialTermsSnapshot_def bindE_Inr ensure_Inr
    by (elim exE conjE) (drule sum.inject(2) [THEN iffD1], hypsubst, simp)
  then show ?thesis by (auto simp: terms_ok_def dest: orderingMoneyAmount_Inr)
qed

lemma normalized_plan:
  "normalizeAuthenticityPlanSnapshot raw = Inr p \<Longrightarrow>
   order_money (case p of None \<Rightarrow> ''0.00'' | Some q \<Rightarrow> oap_feeAmount q)"
  by (auto simp: normalizeAuthenticityPlanSnapshot_def res_simps split: option.splits dest: orderingMoneyAmount_Inr)

text \<open>The amounts of an order, as its terms, its lines and its total agree on them.\<close>

definition amounts_agree ::
    "int OrderingOrderLine list \<Rightarrow> int OrderingCommercialTermsSnapshot \<Rightarrow>
     OrderingAuthenticityPlanSnapshot option \<Rightarrow> OrderAmounts \<Rightarrow> bool" where
  "amounts_agree lines terms plan a \<longleftrightarrow>
     order_cents ool_lineTotalAmount lines = centsOf (oam_itemSubtotalAmount a) \<and>
     order_cents ool_marketplaceSalesFeeTotalAmount lines = centsOf (oct_marketplaceSalesFeeAmount terms) \<and>
     order_cents ool_sellerNetTotalAmount lines = centsOf (oct_sellerNetAmount terms) \<and>
     centsOf (oam_itemSubtotalAmount a) + centsOf (oam_shippingChargeAmount a) + centsOf (oam_salesTaxAmount a) +
       centsOf (case plan of None \<Rightarrow> ''0.00'' | Some p \<Rightarrow> oap_feeAmount p) = centsOf (oam_totalAmount a) \<and>
     centsOf (oam_protectionAllowanceAmount a) + centsOf (oam_protectionOverageAmount a) =
       centsOf (oam_protectionAmount a) \<and>
     centsOf (oam_shippingOverageAmount a) + centsOf (oam_protectionOverageAmount a) =
       centsOf (oam_shippingChargeAmount a) \<and>
     oct_protectionAmount terms = Some (oam_protectionAmount a) \<and>
     oct_protectionAllowanceAmount terms = Some (oam_protectionAllowanceAmount a) \<and>
     oct_protectionOverageAmount terms = Some (oam_protectionOverageAmount a)"

lemma order_protection_Inr:
  "orderProtection c = Inr (p, pa, po) \<Longrightarrow>
   order_money p \<and> order_money pa \<and> order_money po \<and> centsOf pa + centsOf po = centsOf p"
  unfolding orderProtection_def bindE_Inr ensure_Inr
  by (elim exE conjE) (auto dest!: orderingMoneyAmount_Inr simp: addCentsOf_money)

lemma order_shipping_Inr:
  "orderShipping c po = Inr (so, sc) \<Longrightarrow> order_money po \<Longrightarrow>
   order_money so \<and> order_money sc \<and> centsOf so + centsOf po = centsOf sc"
  unfolding orderShipping_def bindE_Inr ensure_Inr
  by (elim exE conjE) (auto dest!: orderingMoneyAmount_Inr simp: addCentsOf_money)

lemma checked_totals:
  assumes "checkOrderTotals lines terms plan a k = Inr r"
    and "\<forall>l\<in>set lines. order_line_ok l" and "terms_ok terms"
    and "order_money (case plan of None \<Rightarrow> ''0.00'' | Some p \<Rightarrow> oap_feeAmount p)"
    and "order_money (oam_itemSubtotalAmount a)" "order_money (oam_shippingChargeAmount a)"
      "order_money (oam_salesTaxAmount a)" "order_money (oam_totalAmount a)"
    and "centsOf (oam_protectionAllowanceAmount a) + centsOf (oam_protectionOverageAmount a) =
       centsOf (oam_protectionAmount a)"
    and "centsOf (oam_shippingOverageAmount a) + centsOf (oam_protectionOverageAmount a) =
       centsOf (oam_shippingChargeAmount a)"
  shows "amounts_agree lines terms plan a \<and> k = Inr r"
proof -
  have s: "sumCents f lines = Inr (order_cents f lines)"
    if "f = ool_lineTotalAmount \<or> f = ool_marketplaceSalesFeeTotalAmount \<or> f = ool_sellerNetTotalAmount" for f
    by (rule sumCents_money) (use assms(2) that in \<open>auto simp: order_line_ok_def\<close>)
  from assms show ?thesis
    by (simp add: checkOrderTotals_def s addCentsOf_money terms_ok_def amounts_agree_def split: if_splits)
qed

end
