(* ===== verification/OrderLife.thy ===== *)
theory OrderLife
  imports OrderFacts
begin

text \<open>
  The invariant of an order and its life cycle: every decided batch applies, keeps the invariant and
  follows the life cycle.
\<close>

section \<open>The invariant\<close>

definition order_adds_up :: "OrderingOrderState \<Rightarrow> bool" where
  "order_adds_up s \<longleftrightarrow> oo_lines s \<noteq> [] \<and> (\<forall>l\<in>set (oo_lines s). order_line_ok l) \<and>
     (\<exists>terms a. terms_ok terms \<and> oo_commercialTermsSnapshot s = Some terms \<and>
        amounts_agree (oo_lines s) terms (oo_authenticityPlanSnapshot s) a \<and>
        oo_protectionAmount s = Some (oam_protectionAmount a) \<and>
        oo_protectionAllowanceAmount s = Some (oam_protectionAllowanceAmount a) \<and>
        oo_protectionOverageAmount s = Some (oam_protectionOverageAmount a) \<and>
        oo_shippingOverageAmount s = Some (oam_shippingOverageAmount a) \<and>
        oo_shippingChargeAmount s = Some (oam_shippingChargeAmount a) \<and>
        oo_itemSubtotalAmount s = Some (oam_itemSubtotalAmount a) \<and>
        oo_salesTaxAmount s = Some (oam_salesTaxAmount a) \<and> oo_totalAmount s = Some (oam_totalAmount a))"

text \<open>A confirmed or released request names its hold; requests with one id share their fate.\<close>

definition held :: "OrderingReservationRequest \<Rightarrow> bool" where
  "held r \<longleftrightarrow> orr_status r = RequestConfirmed \<or> orr_status r = RequestReleased"

definition order_request_ok :: "string \<Rightarrow> OrderingReservationRequest \<Rightarrow> bool" where
  "order_request_ok seller r \<longleftrightarrow> orr_sellerAccountId r = seller \<and> 0 < orr_quantity r \<and>
     js_trim (orr_reservationRequestId r) = orr_reservationRequestId r \<and> orr_reservationRequestId r \<noteq> [] \<and>
     (held r \<longrightarrow> (\<exists>i. orr_holdId r = Some i \<and> js_trim i = i \<and> i \<noteq> []))"

definition fate :: "OrderingReservationRequest \<Rightarrow> ReservationRequestStatus \<times> string option" where
  "fate r = (orr_status r, if held r then orr_holdId r else None)"

definition same_fate :: "OrderingReservationRequest list \<Rightarrow> bool" where
  "same_fate rs \<longleftrightarrow> (\<forall>r\<in>set rs. \<forall>r'\<in>set rs. orr_reservationRequestId r = orr_reservationRequestId r' \<longrightarrow>
     fate r = fate r')"

text \<open>Payment is due one hour after the last confirmation.\<close>

definition payment_due :: "host \<Rightarrow> OrderingOrderState \<Rightarrow> bool" where
  "payment_due h s \<longleftrightarrow> (\<exists>t d p. oo_pendingPaymentAt s = Some t \<and> oo_paymentDeadlineAt s = Some d \<and>
     oo_paymentDeadlinePolicy s = Some p \<and>
     resolveOrderPaymentDeadline h t None defaultOrderPaymentDeadlinePolicy = Inr (d, p))"

fun order_status_ok :: "host \<Rightarrow> OrderingOrderState \<Rightarrow> OrderStatus \<Rightarrow> bool" where
  "order_status_ok h s PendingReservation \<longleftrightarrow> hasPendingReservations (oo_reservationRequests s) \<and>
     (\<forall>r\<in>set (oo_reservationRequests s). orr_status r \<noteq> RequestRejected)"
| "order_status_ok h s OrderCancelledSt \<longleftrightarrow> oo_cancelledAt s \<noteq> None"
| "order_status_ok h s st \<longleftrightarrow> (\<forall>r\<in>set (oo_reservationRequests s). held r) \<and> payment_due h s"

definition order_core :: "OrderingOrderState \<Rightarrow> bool" where
  "order_core s \<longleftrightarrow> order_adds_up s \<and> oo_orderId s \<noteq> None \<and>
     (\<exists>seller. oo_sellerAccountId s = Some seller \<and> oo_buyerAccountId s \<noteq> Some seller \<and>
        (\<forall>r\<in>set (oo_reservationRequests s). order_request_ok seller r)) \<and>
     oo_reservationRequests s \<noteq> [] \<and> same_fate (oo_reservationRequests s)"

definition order_created_inv :: "host \<Rightarrow> OrderingOrderState \<Rightarrow> OrderStatus \<Rightarrow> bool" where
  "order_created_inv h s st \<longleftrightarrow> order_core s \<and> order_status_ok h s st"

definition order_inv :: "host \<Rightarrow> OrderingOrderState \<Rightarrow> bool" where
  "order_inv h s \<longleftrightarrow>
     (case oo_status s of None \<Rightarrow> s = initialOrderingOrderState | Some st \<Rightarrow> order_created_inv h s st)"

lemma order_inv_status [simp]: "oo_status s = Some st \<Longrightarrow> order_inv h s \<longleftrightarrow> order_created_inv h s st"
  by (simp add: order_inv_def)

lemma order_started:
  assumes "order_inv h s" and "oo_orderId s = Some i"
  obtains st where "oo_status s = Some st" "order_created_inv h s st"
  using assms by (auto simp: order_inv_def initialOrderingOrderState_def split: option.splits)

lemma order_unstarted: "order_inv h s \<Longrightarrow> oo_orderId s = None \<Longrightarrow> s = initialOrderingOrderState"
  by (auto simp: order_inv_def order_created_inv_def order_core_def split: option.splits)


section \<open>The life cycle\<close>

inductive order_step :: "OrderStatus option \<Rightarrow> OrderingOrderEvent \<Rightarrow> OrderStatus option \<Rightarrow> bool" where
  ostep_create: "order_step None (OrderCreatedEvent d) (Some PendingReservation)"
| ostep_publish:
    "order_step (Some PendingReservation) (OrderLineItemAmountsPublished i items) (Some PendingReservation)"
| ostep_confirm:
    "st \<noteq> OrderCancelledSt \<Longrightarrow> order_step (Some st) (OrderReservationConfirmedEvent d) (Some st)"
| ostep_reject:
    "order_step (Some PendingReservation) (OrderReservationRejectedEvent i r t w) (Some PendingReservation)"
| ostep_await:
    "st \<noteq> OrderCancelledSt \<Longrightarrow>
     order_step (Some st) (OrderPendingPaymentRecorded i t deadline policy) (Some PendingPayment)"
| ostep_cancel:
    "st \<noteq> OrderCancelledSt \<Longrightarrow> order_step (Some st) (OrderCancelledEvent d) (Some OrderCancelledSt)"
| ostep_release: "order_step (Some st) (OrderReservationReleasedEvent i r k t) (Some st)"
| ostep_ready: "order_step (Some PendingPayment) (OrderReadyForFulfillmentEvent i t) (Some ReadyForFulfillment)"

inductive_simps order_step_from_cancelled: "order_step (Some OrderCancelledSt) e q"

text \<open>After a cancellation nothing but releases follows.\<close>

definition order_release :: "OrderingOrderEvent \<Rightarrow> bool" where
  "order_release e \<longleftrightarrow> (case e of OrderReservationReleasedEvent i r k t \<Rightarrow> True | _ \<Rightarrow> False)"

lemma cancelled_path:
  "event_path order_step p es q \<Longrightarrow> p = Some OrderCancelledSt \<Longrightarrow>
   q = Some OrderCancelledSt \<and> (\<forall>e\<in>set es. order_release e)"
  by (induction rule: event_path.induct) (auto simp: order_step_from_cancelled order_release_def)

lemma cancelled_for_good:
  assumes "event_path order_step None (xs @ OrderCancelledEvent d # ys) q"
  shows "q = Some OrderCancelledSt \<and> (\<forall>e\<in>set ys. order_release e)"
proof -
  from assms have "event_path order_step None ((xs @ [OrderCancelledEvent d]) @ ys) q" by simp
  then obtain r where r: "event_path order_step None (xs @ [OrderCancelledEvent d]) r" "event_path order_step r ys q"
    unfolding event_path_append by blast
  from r(1) have "r = Some OrderCancelledSt" by (auto simp: event_path_snoc elim: order_step.cases)
  with r(2) show ?thesis by (simp add: cancelled_path)
qed


section \<open>Events on the requests\<close>

lemma evolveOrderingOrder_apply [simp]: "applyEvents s evolveOrderingOrder es = Inr (foldl evolveOrder s es)"
  by (induction es arbitrary: s) (simp_all add: applyEvents_def evolveOrderingOrder_def)

lemma mapE_defined: "mapE f xs = Inr ys \<Longrightarrow> x \<in> set xs \<Longrightarrow> \<exists>y\<in>set ys. f x = Inr y"
  by (induction xs arbitrary: ys) (auto simp: res_simps)

lemma mapE_changed:
  "mapE (\<lambda>r. if p r \<noteq> i then Inr r else tr r) xs = Inr ys \<Longrightarrow> (\<And>r y. tr r = Inr y \<Longrightarrow> y = g r) \<Longrightarrow>
   ys = map (\<lambda>r. if p r = i then g r else r) xs"
  by (induction xs arbitrary: ys) (auto simp: res_simps split: if_splits)

lemma updated_requests:
  assumes "updateReservationRequest s i tr = Inr (m, rs)"
  shows "m \<longleftrightarrow> (\<exists>r\<in>set (oo_reservationRequests s). orr_reservationRequestId r = i)"
    and "r \<in> set (oo_reservationRequests s) \<Longrightarrow> orr_reservationRequestId r = i \<Longrightarrow> \<exists>y. tr r = Inr y"
    and "(\<And>r y. tr r = Inr y \<Longrightarrow> y = g r) \<Longrightarrow>
      rs = map (\<lambda>r. if orr_reservationRequestId r = i then g r else r) (oo_reservationRequests s)"
proof -
  from assms have rs: "mapE (\<lambda>r. if orr_reservationRequestId r \<noteq> i then Inr r else tr r) (oo_reservationRequests s) = Inr rs"
    and m: "m \<longleftrightarrow> (\<exists>r\<in>set (oo_reservationRequests s). orr_reservationRequestId r = i)"
    by (auto simp: updateReservationRequest_def res_simps)
  show "m \<longleftrightarrow> (\<exists>r\<in>set (oo_reservationRequests s). orr_reservationRequestId r = i)" by (rule m)
  show "\<exists>y. tr r = Inr y" if "r \<in> set (oo_reservationRequests s)" "orr_reservationRequestId r = i"
    using mapE_defined [OF rs that(1)] that(2) by auto
  show "rs = map (\<lambda>r. if orr_reservationRequestId r = i then g r else r) (oo_reservationRequests s)"
    if g: "\<And>r y. tr r = Inr y \<Longrightarrow> y = g r"
    using rs by (rule mapE_changed) (rule g)
qed

lemma changed_requests [simp]:
  "oo_reservationRequests (changeRequest i f s) =
     map (\<lambda>r. if orr_reservationRequestId r = i then f r else r) (oo_reservationRequests s)"
  "oo_orderId (changeRequest i f s) = oo_orderId s" "oo_status (changeRequest i f s) = oo_status s"
  "oo_sellerAccountId (changeRequest i f s) = oo_sellerAccountId s"
  "oo_buyerAccountId (changeRequest i f s) = oo_buyerAccountId s"
  "oo_cancelledAt (changeRequest i f s) = oo_cancelledAt s"
  "order_adds_up (changeRequest i f s) = order_adds_up s" "payment_due h (changeRequest i f s) = payment_due h s"
  by (simp_all add: changeRequest_def order_adds_up_def payment_due_def)

text \<open>A change that moves the requests of one id to one status, and to one hold where they are held.\<close>

lemma changed_same_fate:
  assumes "same_fate rs"
    and f: "\<And>r. r \<in> set rs \<Longrightarrow> orr_reservationRequestId r = i \<Longrightarrow>
       orr_reservationRequestId (f r) = i \<and> fate (f r) = c"
  shows "same_fate (map (\<lambda>r. if orr_reservationRequestId r = i then f r else r) rs)"
proof -
  let ?g = "\<lambda>r. if orr_reservationRequestId r = i then f r else r"
  have "fate (?g r) = fate (?g r')"
    if r: "r \<in> set rs" "r' \<in> set rs" and e: "orr_reservationRequestId (?g r) = orr_reservationRequestId (?g r')" for r r'
  proof (cases "orr_reservationRequestId r = i")
    case True
    with e f r have "orr_reservationRequestId r' = i" by (metis (full_types))
    with True f r show ?thesis by simp
  next
    case False
    with e f r have r': "orr_reservationRequestId r' \<noteq> i" by (metis (full_types))
    with e False have "orr_reservationRequestId r = orr_reservationRequestId r'" by simp
    with assms(1) r have "fate r = fate r'" unfolding same_fate_def by blast
    with False r' show ?thesis by simp
  qed
  note fates = this
  show ?thesis unfolding same_fate_def
  proof (intro ballI impI)
    fix x x' assume "x \<in> set (map ?g rs)" "x' \<in> set (map ?g rs)"
      and e: "orr_reservationRequestId x = orr_reservationRequestId x'"
    then obtain r r' where r: "r \<in> set rs" "x = ?g r" and r': "r' \<in> set rs" "x' = ?g r'" unfolding list.set_map by (elim imageE)
    show "fate x = fate x'" unfolding r(2) r'(2) by (rule fates [OF r(1) r'(1) e [unfolded r(2) r'(2)]])
  qed
qed

end
