(* ===== verification/OrderBatch.thy ===== *)
theory OrderBatch
  imports OrderLife
begin

text \<open>
  Every decided batch of an order applies, keeps its invariant and follows its life cycle; the locales of
  \<open>EventDomain\<close> are interpreted on the order.
\<close>

definition order_moves :: "host \<Rightarrow> OrderingOrderState \<Rightarrow> OrderingOrderEvent list \<Rightarrow> bool" where
  "order_moves h s new \<longleftrightarrow> order_inv h (foldl evolveOrder s new) \<and>
     event_path order_step (oo_status s) new (oo_status (foldl evolveOrder s new))"

lemma order_moves_nothing: "order_inv h s \<Longrightarrow> order_moves h s []"
  by (simp add: order_moves_def)

lemma event_path_two: "event_path step p [e, e'] r \<longleftrightarrow> (\<exists>q. step p e q \<and> step q e' r)"
  using event_path_append [of step p "[e]" "[e']" r] by simp


section \<open>Creation\<close>

lemma normalized_requests:
  assumes "normalizeReservationRequests raw seller = Inr rs"
  shows "rs \<noteq> [] \<and> (\<forall>r\<in>set rs. order_request_ok seller (pendingRequest r))"
proof -
  from assms have "raw \<noteq> []" by (auto simp: normalizeReservationRequests_def)
  with assms [unfolded normalizeReservationRequests_def] obtain f where f: "mapE f raw = Inr rs"
    "\<And>x r. f x = Inr r \<Longrightarrow> order_request_ok seller (pendingRequest r)"
    by (elim ensure_Inr [THEN iffD1, elim_format] conjE)
      (erule meta_allE, erule meta_impE, assumption, erule meta_impE,
        auto simp: res_simps order_request_ok_def pendingRequest_def held_def)
  have "\<forall>r\<in>set rs. order_request_ok seller (pendingRequest r)" by (rule mapE_all [OF f(1)]) (rule f(2))
  with \<open>raw \<noteq> []\<close> show ?thesis using mapE_Inr_length [OF f(1)] by auto
qed

lemma created_order:
  assumes "decideCreateOrder lc s c = Inr new"
  obtains d where
    "new = [OrderCreatedEvent d,
       OrderLineItemAmountsPublished (oce_orderId d) (map (\<lambda>l. (ool_lineId l, ool_lineTotalAmount l)) (oce_lines d))]"
    "order_created_inv h (evolveOrderCreated d) PendingReservation" "oo_orderId s = None"
proof -
  from assms obtain ls seller p pa po so sc terms sub tax plan tot where
      ls: "normalizeOrderLines lc (cor_lines c) = Inr ls"
    and seller: "cor_buyerAccountId c \<noteq> seller"
    and p: "orderProtection c = Inr (p, pa, po)" and so: "orderShipping c po = Inr (so, sc)"
    and terms: "normalizeCommercialTermsSnapshot (cor_commercialTermsSnapshot c) = Inr terms"
    and sub: "orderingMoneyAmount (cor_itemSubtotalAmount c) True ''Item subtotal'' = Inr sub"
    and tax: "orderingMoneyAmount (cor_salesTaxAmount c) True ''Sales tax amount'' = Inr tax"
    and plan: "normalizeAuthenticityPlanSnapshot (cor_authenticityPlanSnapshot c) = Inr plan"
    and tot: "orderingMoneyAmount (cor_totalAmount c) True ''Order total'' = Inr tot"
    and check: "checkOrderTotals ls terms plan
       \<lparr>oam_protectionAmount = p, oam_protectionAllowanceAmount = pa, oam_protectionOverageAmount = po,
        oam_shippingOverageAmount = so, oam_shippingChargeAmount = sc, oam_itemSubtotalAmount = sub,
        oam_salesTaxAmount = tax, oam_totalAmount = tot\<rparr>
       (orderCreatedEvents c seller ls terms plan
       \<lparr>oam_protectionAmount = p, oam_protectionAllowanceAmount = pa, oam_protectionOverageAmount = po,
        oam_shippingOverageAmount = so, oam_shippingChargeAmount = sc, oam_itemSubtotalAmount = sub,
        oam_salesTaxAmount = tax, oam_totalAmount = tot\<rparr>) = Inr new"
    and none: "oo_orderId s = None"
    by (auto simp: decideCreateOrder_def Let_def bindE_Inr ensure_Inr split: prod.splits if_split_asm)
  define a where "a = \<lparr>oam_protectionAmount = p, oam_protectionAllowanceAmount = pa, oam_protectionOverageAmount = po,
        oam_shippingOverageAmount = so, oam_shippingChargeAmount = sc, oam_itemSubtotalAmount = sub,
        oam_salesTaxAmount = tax, oam_totalAmount = tot\<rparr>"
  note P = order_protection_Inr [OF p] and L = normalized_lines [OF ls] and T = normalized_terms [OF terms]
  have S: "order_money so \<and> order_money sc \<and> centsOf so + centsOf po = centsOf sc"
    using order_shipping_Inr [OF so] P by blast
  have "amounts_agree ls terms plan a \<and> orderCreatedEvents c seller ls terms plan a = Inr new"
    by (rule checked_totals [OF check [folded a_def]])
      (use P L T S normalized_plan [OF plan] orderingMoneyAmount_Inr [OF sub] orderingMoneyAmount_Inr [OF tax]
         orderingMoneyAmount_Inr [OF tot] in \<open>auto simp: a_def\<close>)
  then have agree: "amounts_agree ls terms plan a" and new: "orderCreatedEvents c seller ls terms plan a = Inr new"
    by simp_all
  from new obtain d where d: "new = [OrderCreatedEvent d,
       OrderLineItemAmountsPublished (oce_orderId d) (map (\<lambda>l. (ool_lineId l, ool_lineTotalAmount l)) (oce_lines d))]"
    and dl: "oce_lines d = ls" "oce_commercialTermsSnapshot d = terms" "oce_authenticityPlanSnapshot d = plan"
      "oce_itemSubtotalAmount d = sub" "oce_shippingOverageAmount d = so" "oce_protectionAmount d = Some p"
      "oce_protectionAllowanceAmount d = Some pa" "oce_protectionOverageAmount d = Some po"
      "oce_shippingChargeAmount d = sc" "oce_salesTaxAmount d = tax" "oce_totalAmount d = tot"
      "oce_buyerAccountId d = cor_buyerAccountId c" "oce_sellerAccountId d = seller"
    and rq: "normalizeReservationRequests (cor_reservationRequests c) seller = Inr (oce_reservationRequests d)"
    unfolding orderCreatedEvents_def bindE_Inr by (elim exE conjE) (rule that, auto simp: a_def)
  have "order_adds_up (evolveOrderCreated d)"
    unfolding order_adds_up_def using L T agree by (auto simp: evolveOrderCreated_def dl intro!: exI [of _ a]) (simp_all add: a_def)
  moreover note normalized_requests [OF rq]
  moreover have "same_fate (map pendingRequest rs)" "rs \<noteq> [] \<Longrightarrow> hasPendingReservations (map pendingRequest rs)" for rs
    by (auto simp: same_fate_def fate_def held_def pendingRequest_def hasPendingReservations_def neq_Nil_conv)
  ultimately have created: "order_created_inv h (evolveOrderCreated d) PendingReservation"
    using seller by (auto simp: order_created_inv_def order_core_def evolveOrderCreated_def dl pendingRequest_def)
  show thesis by (rule that [OF d created none])
qed

lemma moves_created:
  assumes "order_inv h s" and "decideCreateOrder lc s c = Inr new"
  shows "order_moves h s new"
proof -
  obtain d where d: "new = [OrderCreatedEvent d,
       OrderLineItemAmountsPublished (oce_orderId d) (map (\<lambda>l. (ool_lineId l, ool_lineTotalAmount l)) (oce_lines d))]"
    "order_created_inv h (evolveOrderCreated d) PendingReservation" "oo_orderId s = None"
    by (rule created_order [OF assms(2), where h = h])
  then have "oo_status s = None" "oo_status (evolveOrderCreated d) = Some PendingReservation"
    using order_unstarted [OF assms(1)] by (simp_all add: initialOrderingOrderState_def evolveOrderCreated_def)
  with d(1,2) show ?thesis by (auto simp: order_moves_def event_path_two intro: ostep_create ostep_publish)
qed


section \<open>Outcomes of reservations\<close>

lemma changed_core:
  assumes "order_core s"
    and f: "\<And>r seller. r \<in> set (oo_reservationRequests s) \<Longrightarrow> orr_reservationRequestId r = i \<Longrightarrow>
       order_request_ok seller r \<Longrightarrow>
       orr_reservationRequestId (f r) = i \<and> fate (f r) = c \<and> order_request_ok seller (f r)"
  shows "order_core (changeRequest i f s)"
proof -
  let ?g = "\<lambda>r. if orr_reservationRequestId r = i then f r else r"
  from assms(1) obtain seller where seller: "oo_sellerAccountId s = Some seller" "oo_buyerAccountId s \<noteq> Some seller"
    "\<forall>r\<in>set (oo_reservationRequests s). order_request_ok seller r" by (auto simp: order_core_def)
  have "\<forall>r\<in>set (map ?g (oo_reservationRequests s)). order_request_ok seller r" using seller(3) f by auto
  moreover have "same_fate (map ?g (oo_reservationRequests s))"
    by (rule changed_same_fate) (use assms(1) seller(3) f in \<open>auto simp: order_core_def\<close>)
  ultimately show ?thesis using assms(1) seller(1,2) by (simp add: order_core_def)
qed

text \<open>What a confirmation, a rejection or a release finds.\<close>

lemma confirmed_batch:
  assumes "decideReservationConfirmed h s rawId rawHold rawAt = Inr new" and "new \<noteq> []"
  obtains i k r d t where "js_trim k = k" "k \<noteq> []" "oo_status s \<noteq> Some OrderCancelledSt"
    "r \<in> set (oo_reservationRequests s)" "orr_reservationRequestId r = i"
    "\<forall>r\<in>set (oo_reservationRequests s). orr_reservationRequestId r = i \<longrightarrow>
       orr_status r = RequestPending \<or> orr_status r = RequestConfirmed \<and> orr_holdId r = Some k"
    "orc_reservationRequestId d = i" "orc_holdId d = k"
    "hasPendingReservations (oo_reservationRequests (evolveOrder s (OrderReservationConfirmedEvent d))) \<and>
       new = [OrderReservationConfirmedEvent d] \<or>
     \<not> hasPendingReservations (oo_reservationRequests (evolveOrder s (OrderReservationConfirmedEvent d))) \<and>
       (\<exists>oid deadline p. resolveOrderPaymentDeadline h t None defaultOrderPaymentDeadlinePolicy = Inr (deadline, p) \<and>
         new = [OrderReservationConfirmedEvent d, OrderPendingPaymentRecorded oid t deadline p])"
proof -
  let ?k = "js_trim rawHold" and ?i = "js_trim rawId"
  let ?f = "\<lambda>r :: OrderingReservationRequest. r\<lparr>orr_holdId := Some ?k, orr_status := RequestConfirmed\<rparr>"
  from assms obtain m rs where u: "updateReservationRequest s ?i (confirmRequest ?k) = Inr (m, rs)" "m"
    and k: "?k \<noteq> []" and st: "oo_status s \<noteq> Some OrderCancelledSt"
    by (auto simp: decideReservationConfirmed_def res_simps split: option.splits if_split_asm)
  have f: "confirmRequest ?k r = Inr y \<Longrightarrow> y = ?f r \<and>
      (orr_status r = RequestPending \<or> orr_status r = RequestConfirmed \<and> orr_holdId r = Some ?k)" for r y
    by (cases r) (auto simp: confirmRequest_def split: if_splits)
  have rs: "rs = map (\<lambda>r. if orr_reservationRequestId r = ?i then ?f r else r) (oo_reservationRequests s)"
    by (rule updated_requests(3) [OF u(1)]) (use f in blast)
  from u obtain r where r: "r \<in> set (oo_reservationRequests s)" "orr_reservationRequestId r = ?i"
    using updated_requests(1) [OF u(1)] by blast
  have g: "\<forall>r\<in>set (oo_reservationRequests s). orr_reservationRequestId r = ?i \<longrightarrow>
       orr_status r = RequestPending \<or> orr_status r = RequestConfirmed \<and> orr_holdId r = Some ?k"
    using updated_requests(2) [OF u(1)] f by blast
  from assms u k st have "\<exists>d. orc_reservationRequestId d = ?i \<and> orc_holdId d = ?k \<and>
    (hasPendingReservations rs \<and> new = [OrderReservationConfirmedEvent d] \<or>
     \<not> hasPendingReservations rs \<and> (\<exists>oid t deadline p.
         resolveOrderPaymentDeadline h t None defaultOrderPaymentDeadlinePolicy = Inr (deadline, p) \<and>
         new = [OrderReservationConfirmedEvent d, OrderPendingPaymentRecorded oid t deadline p]))"
    by (auto simp: decideReservationConfirmed_def Let_def res_simps split: option.splits if_split_asm)
  then obtain d where d: "orc_reservationRequestId d = ?i" "orc_holdId d = ?k"
    "hasPendingReservations rs \<and> new = [OrderReservationConfirmedEvent d] \<or>
     \<not> hasPendingReservations rs \<and> (\<exists>oid t deadline p.
         resolveOrderPaymentDeadline h t None defaultOrderPaymentDeadlinePolicy = Inr (deadline, p) \<and>
         new = [OrderReservationConfirmedEvent d, OrderPendingPaymentRecorded oid t deadline p])" by blast
  have e: "oo_reservationRequests (evolveOrder s (OrderReservationConfirmedEvent d)) = rs"
    using d(1,2) by (simp add: rs)
  from d(3) obtain t where t: "hasPendingReservations rs \<and> new = [OrderReservationConfirmedEvent d] \<or>
     \<not> hasPendingReservations rs \<and> (\<exists>oid deadline p.
         resolveOrderPaymentDeadline h t None defaultOrderPaymentDeadlinePolicy = Inr (deadline, p) \<and>
         new = [OrderReservationConfirmedEvent d, OrderPendingPaymentRecorded oid t deadline p])" by blast
  show thesis by (rule that [OF _ k st r g d(1,2) t [folded e]]) simp
qed

lemma rejected_batch:
  assumes "decideReservationRejected s rawId rawAt rawReason = Inr new" and "new \<noteq> []"
  obtains oid t w d r where "oo_status s \<noteq> Some OrderCancelledSt"
    "r \<in> set (oo_reservationRequests s)" "\<not> held r"
    "new = [OrderReservationRejectedEvent oid (js_trim rawId) t w, OrderCancelledEvent d]"
proof -
  from assms obtain m rs where u: "updateReservationRequest s rawId (rejectRequest rawReason) = Inr (m, rs)" "m"
    and st: "oo_status s \<noteq> Some OrderCancelledSt"
    and new: "\<exists>oid t w d. new = [OrderReservationRejectedEvent oid (js_trim rawId) t w, OrderCancelledEvent d]"
    by (auto simp: decideReservationRejected_def res_simps split: option.splits if_split_asm)
  from u obtain r where r: "r \<in> set (oo_reservationRequests s)" "orr_reservationRequestId r = rawId"
    using updated_requests(1) [OF u(1)] by blast
  with updated_requests(2) [OF u(1)] have "\<exists>y. rejectRequest rawReason r = Inr y" by blast
  then have "\<not> held r" by (auto simp: rejectRequest_def held_def res_simps split: if_split_asm)
  note r' = this
  from new obtain oid t w d where new: "new = [OrderReservationRejectedEvent oid (js_trim rawId) t w, OrderCancelledEvent d]"
    by (elim exE)
  show thesis by (rule that [OF st r(1) r' new])
qed

lemma released_batch:
  assumes "decideReservationReleased s rawId rawHold rawAt = Inr new" and "new \<noteq> []"
  obtains oid k t r where "oo_orderId s = Some oid" "r \<in> set (oo_reservationRequests s)" "orr_reservationRequestId r = rawId"
    "\<forall>r\<in>set (oo_reservationRequests s). orr_reservationRequestId r = rawId \<longrightarrow> held r"
    "new = [OrderReservationReleasedEvent oid (js_trim rawId) k t]"
proof -
  from assms obtain m rs where u: "updateReservationRequest s rawId (releaseRequest (js_trim rawHold) rawAt) = Inr (m, rs)" "m"
    and new: "\<exists>oid k t. oo_orderId s = Some oid \<and> new = [OrderReservationReleasedEvent oid (js_trim rawId) k t]"
    by (auto simp: decideReservationReleased_def res_simps split: option.splits if_split_asm)
  from u obtain r where r: "r \<in> set (oo_reservationRequests s)" "orr_reservationRequestId r = rawId"
    using updated_requests(1) [OF u(1)] by blast
  have "\<forall>r\<in>set (oo_reservationRequests s). orr_reservationRequestId r = rawId \<longrightarrow> held r"
    using updated_requests(2) [OF u(1)] by (fastforce simp: releaseRequest_def held_def split: if_split_asm)
  note r' = this
  from new obtain oid k t where new: "oo_orderId s = Some oid" "new = [OrderReservationReleasedEvent oid (js_trim rawId) k t]"
    by (elim exE conjE)
  show thesis by (rule that [OF new(1) r r' new(2)])
qed


section \<open>Every batch keeps the invariant and follows the life cycle\<close>

lemma moved_core:
  "order_core (evolveOrder s (OrderPendingPaymentRecorded i t d p)) = order_core s"
  "order_core (evolveOrder s (OrderCancelledEvent x)) = order_core s"
  "order_core (evolveOrder s (OrderReadyForFulfillmentEvent i t)) = order_core s"
  by (simp_all add: order_core_def order_adds_up_def)

lemma moves_confirmed:
  assumes "order_inv h s" and "decideReservationConfirmed h s rawId rawHold rawAt = Inr new" and "new \<noteq> []"
    and "oo_orderId s = Some oid"
  shows "order_moves h s new"
proof -
  obtain i k r d t where k: "js_trim k = k" "k \<noteq> []" and st: "oo_status s \<noteq> Some OrderCancelledSt"
    and r: "r \<in> set (oo_reservationRequests s)" "orr_reservationRequestId r = i"
    and g: "\<forall>r\<in>set (oo_reservationRequests s). orr_reservationRequestId r = i \<longrightarrow>
       orr_status r = RequestPending \<or> orr_status r = RequestConfirmed \<and> orr_holdId r = Some k"
    and d: "orc_reservationRequestId d = i" "orc_holdId d = k"
    and new: "hasPendingReservations (oo_reservationRequests (evolveOrder s (OrderReservationConfirmedEvent d))) \<and>
       new = [OrderReservationConfirmedEvent d] \<or>
     \<not> hasPendingReservations (oo_reservationRequests (evolveOrder s (OrderReservationConfirmedEvent d))) \<and>
       (\<exists>oid deadline p. resolveOrderPaymentDeadline h t None defaultOrderPaymentDeadlinePolicy = Inr (deadline, p) \<and>
         new = [OrderReservationConfirmedEvent d, OrderPendingPaymentRecorded oid t deadline p])"
    by (rule confirmed_batch [OF assms(2,3)])
  obtain st' where st': "oo_status s = Some st'" and inv: "order_core s" "order_status_ok h s st'"
    by (rule order_started [OF assms(1,4)]) (auto simp: order_created_inv_def)
  define s1 where "s1 = changeRequest i (\<lambda>r. r\<lparr>orr_holdId := Some k, orr_status := RequestConfirmed\<rparr>) s"
  have s1: "evolveOrder s (OrderReservationConfirmedEvent d) = s1" "oo_status s1 = Some st'" by (simp_all add: s1_def d st')
  have core: "order_core s1" unfolding s1_def
    by (rule changed_core [OF inv(1), where c = "(RequestConfirmed, Some k)"])
      (use k in \<open>auto simp: fate_def held_def order_request_ok_def\<close>)
  from st st' inv have live: "\<forall>r\<in>set (oo_reservationRequests s). orr_status r \<noteq> RequestRejected"
    by (cases st') (auto simp: held_def)
  from new [unfolded s1(1)] show ?thesis
  proof (elim disjE conjE exE)
    assume pend: "hasPendingReservations (oo_reservationRequests s1)" and n: "new = [OrderReservationConfirmedEvent d]"
    then have "st' = PendingReservation"
      using st st' inv(2) by (cases st') (auto simp: hasPendingReservations_def s1_def held_def)
    moreover have "order_status_ok h s1 PendingReservation" using live pend by (auto simp: s1_def)
    ultimately have "order_inv h s1" using core s1(2) by (simp add: order_created_inv_def)
    moreover have "order_step (Some st') (OrderReservationConfirmedEvent d) (Some st')"
      using st st' by (auto intro: ostep_confirm)
    ultimately show ?thesis by (simp add: order_moves_def n s1 st' del: evolveOrder.simps)
  next
    fix oid' deadline p
    assume p: "\<not> hasPendingReservations (oo_reservationRequests s1)"
      and dl: "resolveOrderPaymentDeadline h t None defaultOrderPaymentDeadlinePolicy = Inr (deadline, p)"
      and n: "new = [OrderReservationConfirmedEvent d, OrderPendingPaymentRecorded oid' t deadline p]"
    let ?s2 = "evolveOrder s1 (OrderPendingPaymentRecorded oid' t deadline p)"
    have "held q" if "q \<in> set (oo_reservationRequests s1)" for q
      using that p live by (cases "orr_status q") (auto simp: held_def hasPendingReservations_def s1_def)
    then have "order_status_ok h ?s2 PendingPayment" using dl by (simp add: payment_due_def)
    then have "order_inv h ?s2" using core by (simp add: order_created_inv_def moved_core [simplified])
    moreover have "order_step (Some st') (OrderReservationConfirmedEvent d) (Some st')"
      "order_step (Some st') (OrderPendingPaymentRecorded oid' t deadline p) (Some PendingPayment)"
      using st st' by (auto intro: ostep_confirm ostep_await)
    moreover have "oo_status ?s2 = Some PendingPayment" by simp
    ultimately show ?thesis by (auto simp: order_moves_def n s1 st' event_path_two simp del: evolveOrder.simps)
  qed
qed

lemma moves_rejected:
  assumes "order_inv h s" and "decideReservationRejected s rawId rawAt rawReason = Inr new" and "new \<noteq> []"
    and "oo_orderId s = Some oid"
  shows "order_moves h s new"
proof -
  obtain oid' t w d r where st: "oo_status s \<noteq> Some OrderCancelledSt"
    and r: "r \<in> set (oo_reservationRequests s)" "\<not> held r"
    and new: "new = [OrderReservationRejectedEvent oid' (js_trim rawId) t w, OrderCancelledEvent d]"
    by (rule rejected_batch [OF assms(2,3)])
  obtain st' where st': "oo_status s = Some st'" and inv: "order_core s" "order_status_ok h s st'"
    by (rule order_started [OF assms(1,4)]) (auto simp: order_created_inv_def)
  with st r have "st' = PendingReservation" by (cases st') auto
  let ?e = "OrderReservationRejectedEvent oid' (js_trim rawId) t w"
  have "order_core (evolveOrder s ?e)" unfolding evolveOrder.simps
    by (rule changed_core [OF inv(1), where c = "(RequestRejected, None)"])
      (auto simp: fate_def held_def order_request_ok_def)
  then have "order_inv h (evolveOrder (evolveOrder s ?e) (OrderCancelledEvent d))"
    using moved_core(2) by (simp add: order_created_inv_def)
  then show ?thesis using st' \<open>st' = PendingReservation\<close>
    by (auto simp: order_moves_def new event_path_two intro: ostep_reject ostep_cancel)
qed

lemma moves_released:
  assumes "order_inv h s" and "decideReservationReleased s rawId rawHold rawAt = Inr new" and "new \<noteq> []"
  shows "order_moves h s new"
proof -
  obtain oid k t r where oid: "oo_orderId s = Some oid"
    and r: "r \<in> set (oo_reservationRequests s)" "orr_reservationRequestId r = rawId"
    and g: "\<forall>r\<in>set (oo_reservationRequests s). orr_reservationRequestId r = rawId \<longrightarrow> held r"
    and new: "new = [OrderReservationReleasedEvent oid (js_trim rawId) k t]"
    by (rule released_batch [OF assms(2,3)])
  obtain st where st: "oo_status s = Some st" and inv: "order_core s" "order_status_ok h s st"
    by (rule order_started [OF assms(1) oid]) (auto simp: order_created_inv_def)
  from inv(1) r have i: "js_trim rawId = rawId" and fates: "same_fate (oo_reservationRequests s)"
    by (auto simp: order_core_def order_request_ok_def)
  let ?e = "OrderReservationReleasedEvent oid (js_trim rawId) k t"
  have hold: "orr_holdId q = orr_holdId r"
    if "q \<in> set (oo_reservationRequests s)" "orr_reservationRequestId q = rawId" for q
    using fates [unfolded same_fate_def, rule_format, OF that(1) r(1)] g that r by (simp add: fate_def)
  have "order_core (evolveOrder s ?e)" unfolding evolveOrder.simps i
    by (rule changed_core [OF inv(1), where c = "(RequestReleased, orr_holdId r)"])
      (use g hold in \<open>auto simp: fate_def held_def order_request_ok_def\<close>)
  moreover have "order_status_ok h (evolveOrder s ?e) st"
    using inv(2) g by (cases st) (auto simp: i held_def hasPendingReservations_def)
  ultimately have "order_inv h (evolveOrder s ?e)" using st by (simp add: order_created_inv_def)
  then show ?thesis using st by (simp add: order_moves_def new ostep_release)
qed

lemma moves_cancelled:
  assumes "order_inv h s" and "decideCancelOrder s rawAt rawReason = Inr new" and "new \<noteq> []"
  shows "order_moves h s new"
proof -
  from assms(2,3) obtain oid st d where d: "oo_orderId s = Some oid" "oo_status s = Some st" "st \<noteq> OrderCancelledSt"
    "new = [OrderCancelledEvent d]"
    by (auto simp: decideCancelOrder_def res_simps split: option.splits if_split_asm)
  then have "order_inv h (evolveOrder s (OrderCancelledEvent d))"
    using assms(1) moved_core(2) by (simp add: order_created_inv_def)
  with d show ?thesis by (simp add: order_moves_def ostep_cancel)
qed

lemma moves_ready:
  assumes "order_inv h s" and "decideReadyForFulfillment s rawAt = Inr new" and "new \<noteq> []"
  shows "order_moves h s new"
proof -
  from assms(2,3) obtain oid t where d: "oo_status s = Some PendingPayment" "new = [OrderReadyForFulfillmentEvent oid t]"
    by (auto simp: decideReadyForFulfillment_def res_simps split: option.splits if_split_asm)
  then have "order_inv h (evolveOrder s (OrderReadyForFulfillmentEvent oid t))"
    using assms(1) moved_core(3) by (simp add: order_created_inv_def payment_due_def)
  with d show ?thesis by (simp add: order_moves_def ostep_ready)
qed

lemma order_creates_first:
  assumes "oo_orderId s = None"
  shows "decideReservationConfirmed h s i k t = Inr new \<Longrightarrow> False" "decideReservationRejected s i t w = Inr new \<Longrightarrow> False"
  using assms by (auto simp: decideReservationConfirmed_def decideReservationRejected_def)

lemma decided_order_moves:
  assumes "order_inv h s" and "decideOrderingOrder h lc s c = Inr new"
  shows "order_moves h s new"
proof (cases "new = []")
  case True
  with assms(1) show ?thesis by (simp add: order_moves_nothing)
next
  case False
  obtain oid where oid: "oo_orderId s = Some oid" if "\<And>x. c \<noteq> CreateOrder x"
    using assms(2) by (cases "oo_orderId s"; cases c)
      (auto simp: decideReservationReleased_def decideCancelOrder_def decideReadyForFulfillment_def
         dest: order_creates_first)
  with assms False show ?thesis
    by (cases c) (simp_all add: moves_created moves_confirmed moves_rejected moves_released moves_cancelled moves_ready)
qed


section \<open>The order as an aggregate\<close>

lemma order_inv_initial: "order_inv h initialOrderingOrderState"
  by (simp add: order_inv_def initialOrderingOrderState_def)

interpretation order: replayable_aggregate initialOrderingOrderState evolveOrderingOrder "decideOrderingOrder h lc"
    "order_inv h" for h lc
  by unfold_locales (auto simp: order_moves_def order_inv_initial dest: decided_order_moves)

interpretation order_life: aggregate_lifecycle initialOrderingOrderState evolveOrderingOrder
    "decideOrderingOrder h lc" "order_inv h" oo_status order_step for h lc
  by unfold_locales (auto simp: order_moves_def dest: decided_order_moves)

end
