(* ===== verification/OrderReactions.thy ===== *)
theory OrderReactions
  imports OrderBatch InventoryReservation
begin

text \<open>
  Ordering and inventory act on each other's events: inventory reserves what an order requests
  (\<open>bounded-contexts/inventory/features/reservations/api/order-reservation-workflow.ts\<close>), ordering records the
  outcomes on the order (\<open>bounded-contexts/ordering/index.ts\<close>), and inventory releases the holds of a
  cancelled order (\<open>bounded-contexts/inventory/index.ts\<close>).
\<close>

section \<open>Reactions\<close>

definition streamSafe :: "char \<Rightarrow> bool" where
  "streamSafe c \<longleftrightarrow> (let n = (of_char c :: nat)
      in 97 \<le> n \<and> n \<le> 122 \<or> 65 \<le> n \<and> n \<le> 90 \<or> is_digit c \<or> c = CHR ''_'')"

definition orderReservationHoldId :: "string \<Rightarrow> string res" where
  "orderReservationHoldId reservationRequestId =
     (let normalized = js_trim reservationRequestId
      in ensure (normalized \<noteq> [] \<and> list_all streamSafe normalized)
           (InventoryDomainError ''Ordering reservation request id must use stream-safe characters.'')
           (Inr (''hld_order_reservation_'' @ normalized)))"

text \<open>The stream and the command of an outcome; a released reservation names its request, order and hold
  (\<open>released_names_all\<close>).\<close>

fun orderOutcomeCommand :: "string \<Rightarrow> InventoryReservationEvent \<Rightarrow> (string \<times> OrderingOrderCommand) option" where
  "orderOutcomeCommand recordedAt (ReservationConfirmedEvent d holdId) =
     Some (''ordering.order-'' @ rf_orderId d,
           RecordReservationConfirmed (rf_reservationRequestId d) holdId recordedAt)"
| "orderOutcomeCommand recordedAt (ReservationRejectedEvent d reason) =
     Some (''ordering.order-'' @ rf_orderId d,
           RecordReservationRejected (rf_reservationRequestId d) recordedAt reason)"
| "orderOutcomeCommand recordedAt (ReservationReleasedEvent requestId orderId holdId seller releasedAt reason) =
     (case (requestId, orderId, holdId) of
        (Some requestId, Some orderId, Some holdId) \<Rightarrow>
          Some (''ordering.order-'' @ orderId, RecordReservationReleased requestId holdId releasedAt)
      | _ \<Rightarrow> None)"

text \<open>The requests whose holds inventory looks up when an order is cancelled; it skips the others.\<close>

definition releasedOnCancellation :: "OrderCancelled \<Rightarrow> OrderingReservationRequest list" where
  "releasedOnCancellation data =
     filter (\<lambda>request. orr_status request = RequestConfirmed \<and> orr_holdId request \<noteq> None \<and> orr_holdId request \<noteq> Some [])
       (ocx_reservationRequests data)"


section \<open>What they promise\<close>

lemma released_names_all:
  assumes "reservation_inv s" and "decideInventoryReservation s (ReleaseInventoryReservation t w) = Inr [e]"
  shows "\<exists>x. orderOutcomeCommand recordedAt e = Some x"
  using assms by (auto simp: decideReleaseReservation_def reservation_inv_def reservation_facts_def split: if_splits)

lemma streamSafe_not_space: "streamSafe c \<Longrightarrow> \<not> js_space c"
  by (auto simp: streamSafe_def js_space_def is_digit_def Let_def)

lemma orderReservationHoldId_clean:
  assumes "orderReservationHoldId i = Inr k"
  shows "js_trim k = k" and "k \<noteq> []"
proof -
  from assms have k: "k = ''hld_order_reservation_'' @ js_trim i" "js_trim i \<noteq> []" "list_all streamSafe (js_trim i)"
    by (auto simp: orderReservationHoldId_def Let_def split: if_splits)
  then show "k \<noteq> []" by simp
  from k have "streamSafe (last k)" by (auto simp: list_all_iff)
  then have "\<not> js_space (last k)" by (rule streamSafe_not_space)
  moreover have "\<not> js_space (hd k)" by (simp add: k js_space_def)
  ultimately show "js_trim k = k" by (intro js_trim_fixed) blast
qed

text \<open>A request that is still pending can be confirmed.\<close>

lemma pending_confirms:
  assumes "order_inv h s" and "oo_status s = Some st" "st \<noteq> OrderCancelledSt"
    and r: "r \<in> set (oo_reservationRequests s)" "orr_status r = RequestPending"
    and k: "js_trim k = k" "k \<noteq> []" and t: "js_trim t \<noteq> []"
    and deadline: "resolveOrderPaymentDeadline h (js_trim t) None defaultOrderPaymentDeadlinePolicy = Inr (deadline, p)"
  shows "\<exists>new. decideOrderingOrder h lc s (RecordReservationConfirmed (orr_reservationRequestId r) k t) = Inr new \<and>
    (\<exists>d. OrderReservationConfirmedEvent d \<in> set new \<and> orc_reservationRequestId d = orr_reservationRequestId r \<and>
       orc_holdId d = k)"
proof -
  let ?i = "orr_reservationRequestId r"
  from assms(1,2) have core: "order_core s" by (simp add: order_created_inv_def)
  then obtain oid where oid: "oo_orderId s = Some oid" by (auto simp: order_core_def)
  from core r(1) have i: "js_trim ?i = ?i" "?i \<noteq> []" by (auto simp: order_core_def order_request_ok_def)
  have "fate q = fate r" if "q \<in> set (oo_reservationRequests s)" "orr_reservationRequestId q = ?i" for q
    using core that r(1) unfolding order_core_def same_fate_def by blast
  then have pend: "orr_status q = RequestPending"
    if "q \<in> set (oo_reservationRequests s)" "orr_reservationRequestId q = ?i" for q
    using that r(2) by (auto simp: fate_def)
  let ?rs = "map (\<lambda>q. if orr_reservationRequestId q \<noteq> ?i then q
     else q\<lparr>orr_holdId := Some k, orr_status := RequestConfirmed\<rparr>) (oo_reservationRequests s)"
  have "updateReservationRequest s ?i (confirmRequest k) =
      Inr (\<exists>r'\<in>set (oo_reservationRequests s). orr_reservationRequestId r' = ?i, ?rs)"
    unfolding updateReservationRequest_def
    by (subst mapE_pure [where g = "\<lambda>q. if orr_reservationRequestId q \<noteq> ?i then q
       else q\<lparr>orr_holdId := Some k, orr_status := RequestConfirmed\<rparr>"]) (auto simp: confirmRequest_def pend)
  moreover have "find (\<lambda>q. orr_reservationRequestId q = ?i) ?rs \<noteq> None"
    using r(1) by (auto simp: find_None_iff)
  then obtain q where "find (\<lambda>q. orr_reservationRequestId q = ?i) ?rs = Some q" by blast
  moreover have "\<exists>r'\<in>set (oo_reservationRequests s). orr_reservationRequestId r' = ?i" using r(1) by blast
  moreover have "oo_status s \<noteq> Some OrderCancelledSt" using assms(2,3) by simp
  ultimately show ?thesis
    using i k t deadline oid by (simp add: decideReservationConfirmed_def orderingRequiredText_def Let_def)
qed


text \<open>A confirmed request can be confirmed again; when none is open, the payment deadline is set again.\<close>

lemma confirmed_again:
  assumes core: "order_core s" and "oo_status s = Some ReadyForFulfillment"
    and r: "r \<in> set (oo_reservationRequests s)" "orr_status r = RequestConfirmed" "orr_holdId r = Some k"
    and "\<not> hasPendingReservations (oo_reservationRequests s)" and t: "js_trim t \<noteq> []"
    and "resolveOrderPaymentDeadline h (js_trim t) None defaultOrderPaymentDeadlinePolicy = Inr (deadline, p)"
  shows "\<exists>d. decideOrderingOrder h lc s (RecordReservationConfirmed (orr_reservationRequestId r) k t) =
    Inr [OrderReservationConfirmedEvent d, OrderPendingPaymentRecorded (orc_orderId d) (js_trim t) deadline p]"
proof -
  let ?i = "orr_reservationRequestId r"
  obtain oid where oid: "oo_orderId s = Some oid" using core by (auto simp: order_core_def)
  from core r have i: "js_trim ?i = ?i" "?i \<noteq> []" and k: "js_trim k = k" "k \<noteq> []"
    by (auto simp: order_core_def order_request_ok_def held_def)
  have "fate q = fate r" if "q \<in> set (oo_reservationRequests s)" "orr_reservationRequestId q = ?i" for q
    using core that r(1) unfolding order_core_def same_fate_def by blast
  note fates = this
  have same: "orr_status q = RequestConfirmed \<and> orr_holdId q = Some k"
    if "q \<in> set (oo_reservationRequests s)" "orr_reservationRequestId q = ?i" for q
    using fates [OF that] r by (auto simp: fate_def held_def split: if_splits)
  have "updateReservationRequest s ?i (confirmRequest k) =
      Inr (\<exists>r'\<in>set (oo_reservationRequests s). orr_reservationRequestId r' = ?i, oo_reservationRequests s)"
    unfolding updateReservationRequest_def
    by (subst mapE_pure [where g = "\<lambda>q. q"]) (auto simp: confirmRequest_def same)
  moreover have "find (\<lambda>q. orr_reservationRequestId q = ?i) (oo_reservationRequests s) \<noteq> None"
    using r(1) by (auto simp: find_None_iff)
  then obtain q where "find (\<lambda>q. orr_reservationRequestId q = ?i) (oo_reservationRequests s) = Some q" by blast
  moreover have "\<exists>r'\<in>set (oo_reservationRequests s). orr_reservationRequestId r' = ?i" using r(1) by blast
  ultimately show ?thesis
    using i k t oid assms(2,6,8) by (simp add: decideReservationConfirmed_def orderingRequiredText_def Let_def)
qed

end
