(* ===== verification/OrderPayments.thy ===== *)
theory OrderPayments
  imports OrderReactions PaymentInvariant
begin

text \<open>
  What the events of payments and of support do to orders (\<open>bounded-contexts/ordering/index.ts\<close>,
  \<open>support-cancellation-reaction.ts\<close>), and the sweep that cancels orders past their payment deadline
  (\<open>sweepBreachedPaymentDeadlines\<close> of \<open>ordering/features/orders/api/runtime.ts\<close>). Which orders the read model
  reports as cancelled is an argument.
\<close>

section \<open>Reactions\<close>

definition orderStream :: "string \<Rightarrow> string" where
  "orderStream orderId = ''ordering.order-'' @ orderId"

text \<open>The commands of a captured payment; the orders that the read model has as cancelled are left out.\<close>

fun captureCommands :: "(string \<Rightarrow> bool) \<Rightarrow> PaymentEvent \<Rightarrow> (string \<times> OrderingOrderCommand) list" where
  "captureCommands isCancelled (PaymentCapturedEvent terms fee capturedAt) =
     map (\<lambda>orderId. (orderStream orderId, MarkReadyForFulfillment capturedAt))
       (filter (\<lambda>orderId. \<not> isCancelled orderId) (ptm_orderIds terms))"
| "captureCommands isCancelled event = []"

definition SUPPORT_CANCEL_ORDER_REASON :: string where
  "SUPPORT_CANCEL_ORDER_REASON = ''support-cancel-order''"

definition SELLER_CANNOT_FULFILL_REASON :: string where
  "SELLER_CANNOT_FULFILL_REASON = ''seller-cannot-fulfill''"

definition supportCancellationCommand ::
    "string \<Rightarrow> string option \<Rightarrow> string \<Rightarrow> string \<Rightarrow> (string \<times> OrderingOrderCommand) option" where
  "supportCancellationCommand orderId flowType resolutionType resolvedAt =
     (if resolutionType \<noteq> ''cancel-order'' then None
      else Some (orderStream orderId,
             CancelOrder resolvedAt
               (if flowType = Some ''seller-cannot-fulfill'' then SELLER_CANNOT_FULFILL_REASON
                else SUPPORT_CANCEL_ORDER_REASON)))"

datatype SweepOutcome = SweepCancelled | SweepProgressed | SweepFailed

definition isPaymentDeadlineRaceProgression :: "js_error \<Rightarrow> bool" where
  "isPaymentDeadlineRaceProgression error \<longleftrightarrow>
     error = OrderingDomainError ''Payment-deadline cancellation requires a pending-payment order.''"

text \<open>One candidate of the sweep: what its command decides, counted as the source counts it.\<close>

definition sweepCandidate ::
    "host \<Rightarrow> (string \<Rightarrow> string \<Rightarrow> int) \<Rightarrow> OrderingOrderState \<Rightarrow> string \<Rightarrow> SweepOutcome \<times> OrderingOrderEvent list" where
  "sweepCandidate h lc state now =
     (case decideOrderingOrder h lc state (CancelOrder now ''payment-deadline'') of
        Inr events \<Rightarrow> (if length events > 0 then SweepCancelled else SweepProgressed, events)
      | Inl error \<Rightarrow> (if isPaymentDeadlineRaceProgression error then SweepProgressed else SweepFailed, []))"


section \<open>What they find\<close>

lemma payment_deadline_text [simp]: "js_trim ''payment-deadline'' = ''payment-deadline''"
  by code_simp

lemma support_reasons [simp]:
  "js_trim SUPPORT_CANCEL_ORDER_REASON = SUPPORT_CANCEL_ORDER_REASON" "SUPPORT_CANCEL_ORDER_REASON \<noteq> []"
  "SUPPORT_CANCEL_ORDER_REASON \<noteq> ''payment-deadline''"
  "js_trim SELLER_CANNOT_FULFILL_REASON = SELLER_CANNOT_FULFILL_REASON" "SELLER_CANNOT_FULFILL_REASON \<noteq> []"
  "SELLER_CANNOT_FULFILL_REASON \<noteq> ''payment-deadline''"
  by code_simp+

text \<open>A cancellation that is accepted lists the requests as they are.\<close>

lemma cancels_live_order:
  assumes "order_inv h s" and "oo_status s = Some st" and "st \<noteq> OrderCancelledSt"
    and "js_trim reason = reason" and "reason \<noteq> []" and "reason = ''payment-deadline'' \<longrightarrow> st = PendingPayment"
    and "js_trim t \<noteq> []"
  shows "\<exists>d. decideOrderingOrder h lc s (CancelOrder t reason) = Inr [OrderCancelledEvent d] \<and>
    ocx_reason d = reason \<and> ocx_reservationRequests d = oo_reservationRequests s"
proof -
  from assms(1,2) have "order_core s" by (simp add: order_created_inv_def)
  then obtain oid where "oo_orderId s = Some oid" by (auto simp: order_core_def)
  with assms(2-) show ?thesis
    by (auto simp: decideCancelOrder_def orderingRequiredText_def Let_def)
qed

lemma sweep_pending_payment:
  assumes "order_inv h s" and "oo_status s = Some PendingPayment" and "js_trim now \<noteq> []"
  shows "\<exists>d. sweepCandidate h lc s now = (SweepCancelled, [OrderCancelledEvent d]) \<and>
    set (releasedOnCancellation d) = {r \<in> set (oo_reservationRequests s). orr_status r \<noteq> RequestReleased}"
proof -
  obtain d where d: "decideOrderingOrder h lc s (CancelOrder now ''payment-deadline'') = Inr [OrderCancelledEvent d]"
    "ocx_reservationRequests d = oo_reservationRequests s"
    using cancels_live_order [OF assms(1,2), of "''payment-deadline''" now lc] assms(3) by auto
  from assms(1,2) have inv: "order_core s" "\<forall>r\<in>set (oo_reservationRequests s). held r"
    by (simp_all add: order_created_inv_def)
  then have "orr_holdId r \<noteq> None \<and> orr_holdId r \<noteq> Some [] \<and> (orr_status r = RequestConfirmed \<longleftrightarrow> orr_status r \<noteq> RequestReleased)"
    if "r \<in> set (oo_reservationRequests s)" for r
    using that by (auto simp: order_core_def order_request_ok_def held_def)
  then have "set (releasedOnCancellation d) = {r \<in> set (oo_reservationRequests s). orr_status r \<noteq> RequestReleased}"
    unfolding releasedOnCancellation_def d(2) by auto
  with d(1) show ?thesis by (simp add: sweepCandidate_def del: decideOrderingOrder.simps)
qed

lemma sweep_other:
  assumes "order_inv h s" and "oo_status s = Some st" and "st \<noteq> PendingPayment"
  shows "sweepCandidate h lc s now = (SweepProgressed, [])"
proof -
  from assms(1,2) have "order_core s" by (simp add: order_created_inv_def)
  then obtain oid where oid: "oo_orderId s = Some oid" by (auto simp: order_core_def)
  show ?thesis
  proof (cases "st = OrderCancelledSt")
    case True
    with oid assms(2) show ?thesis by (simp add: sweepCandidate_def decideCancelOrder_def)
  next
    case False
    with oid assms(2,3) have "decideOrderingOrder h lc s (CancelOrder now ''payment-deadline'') =
        Inl (OrderingDomainError ''Payment-deadline cancellation requires a pending-payment order.'')"
      by (simp add: decideCancelOrder_def orderingRequiredText_def Let_def)
    then show ?thesis by (simp add: sweepCandidate_def isPaymentDeadlineRaceProgression_def del: decideOrderingOrder.simps)
  qed
qed

lemma readies_paid_order:
  assumes "order_inv h s" and "oo_status s = Some PendingPayment" and "js_trim t \<noteq> []"
  shows "\<exists>i. oo_orderId s = Some i \<and>
    decideOrderingOrder h lc s (MarkReadyForFulfillment t) = Inr [OrderReadyForFulfillmentEvent i (js_trim t)]"
proof -
  from assms(1,2) have "order_core s" by (simp add: order_created_inv_def)
  then obtain oid where "oo_orderId s = Some oid" by (auto simp: order_core_def)
  with assms(2,3) show ?thesis by (simp add: decideReadyForFulfillment_def orderingRequiredText_def Let_def)
qed

text \<open>The orders of a capture are those of the payment.\<close>

lemma captured_orders:
  assumes "decidePayment h p (RecordPaymentCapture st t) = Inr new" and "PaymentCapturedEvent terms fee cat \<in> set new"
  shows "ptm_orderIds terms = py_orderIds p" and "cat = t" and "new \<noteq> []"
  using assms by (auto simp: decidePaymentCapture_def paymentTerms_def res_simps split: option.splits if_split_asm)

end
