(* ===== verification/OrderProps.thy ===== *)
theory OrderProps
  imports OrderPayments
begin

text \<open>The properties of orders, of their policies and of their exchange with inventory.\<close>

section \<open>Samples\<close>

abbreviation order_history ::
    "host \<Rightarrow> (string \<Rightarrow> string \<Rightarrow> int) \<Rightarrow> OrderingOrderEvent list \<Rightarrow> bool" where
  "order_history h lc \<equiv> reachable_history initialOrderingOrderState evolveOrderingOrder (decideOrderingOrder h lc)"

abbreviation order_load :: "OrderingOrderEvent list \<Rightarrow> OrderingOrderState res" where
  "order_load \<equiv> foldEvents initialOrderingOrderState evolveOrderingOrder"

definition orderHost :: host where
  "orderHost = \<lparr>host_dateParse = (\<lambda>_. None), host_sha256Hex = (\<lambda>_. [])\<rparr>"

definition sameText :: "string \<Rightarrow> string \<Rightarrow> int" where
  "sameText a b = 0"

definition addressSample :: AddressSnapshot where
  "addressSample =
     \<lparr>adr_name = ''Ada'', adr_company = None, adr_line1 = ''1 Main St'', adr_line2 = None, adr_city = ''Reno'',
      adr_state = ''NV'', adr_postalCode = ''89501'', adr_country = ''us'', adr_phone = None,
      adr_email = Some ''ada@example.com'', adr_verification = None\<rparr>"

definition orderLineSample :: "jsnum OrderingOrderLine" where
  "orderLineSample =
     \<lparr>ool_lineId = ''ln_1'', ool_listingId = ''lst_1'', ool_inventoryItemId = ''itm_1'', ool_catalogItemId = ''cat_1'',
      ool_productId = ''prd_1'', ool_itemTitle = ''Card'', ool_itemSubtitle = None, ool_selectedOptions = [],
      ool_productSummary = None, ool_gradedCard = None, ool_unitPriceAmount = ''10'', ool_quantity = numi 2,
      ool_lineTotalAmount = ''20.00'', ool_marketplaceSalesFeePercentageBps = Some (numi 1000),
      ool_marketplaceSalesFeeFixedAmount = Some ''0.00'', ool_marketplaceSalesFeeCapAmount = None,
      ool_marketplaceSalesFeeUnitAmount = ''1.00'', ool_marketplaceSalesFeeTotalAmount = ''2.00'',
      ool_sellerNetUnitAmount = ''9.00'', ool_sellerNetTotalAmount = ''18'', ool_listingEvidenceSnapshot = None\<rparr>"

definition reservationSample :: "string \<Rightarrow> jsnum ReservationRequestInput" where
  "reservationSample i =
     \<lparr>rri_reservationRequestId = i, rri_inventoryItemId = ''itm_1'', rri_sellerAccountId = ''acc_2'',
      rri_quantity = numi 1, rri_holdId = None\<rparr>"

definition orderTermsSample :: "jsnum OrderingCommercialTermsSnapshot" where
  "orderTermsSample =
     \<lparr>oct_marketplaceSalesFeeAmount = ''2.00'', oct_marketplaceSalesFeeLines = None, oct_sellerNetAmount = ''18.00'',
      oct_sellerItemNetAmount = None, oct_shippingAllowanceAmount = Some ''1.00'',
      oct_sellerShippingPayoutAmount = None, oct_protectionAmount = Some ''0.20'',
      oct_protectionAllowanceAmount = Some ''0.20'', oct_protectionOverageAmount = Some ''0.00'',
      oct_sellerPayoutAmount = None, oct_shippingAllowancePercentageBps = None, oct_termsScheduleId = None,
      oct_termsAgreementId = None, oct_termsResolvedAt = readableTime\<rparr>"

definition createOrderSample :: OrderingOrderCommand where
  "createOrderSample = CreateOrder
     \<lparr>cor_orderId = ''ord_1'', cor_sourceType = CartCheckout, cor_sourceReferenceId = None, cor_buyerAccountId = ''acc_1'',
      cor_sellerAccountId = ''acc_2'', cor_shippingOption = '' standard'', cor_itemSubtotalAmount = ''20.00'',
      cor_shippingBaseAmount = ''5.00'', cor_shippingDiscountAmount = ''0.80'',
      cor_shippingAllowanceAmount = Some ''0.80'', cor_shippingOverageAmount = Some ''4.20'',
      cor_protectionAmount = Some ''0.20'', cor_protectionAllowanceAmount = Some ''0.20'',
      cor_protectionOverageAmount = Some ''0'', cor_shippingChargeAmount = ''4.2'',
      cor_shippingPlanSnapshot = JNull, cor_salesTaxAmount = ''1.80'', cor_totalAmount = ''26'',
      cor_taxSnapshot = \<lparr>otx_taxableAmount = ''20.00'', otx_salesTaxAmount = ''1.80'', otx_jurisdictionCountry = ''US'',
         otx_jurisdictionState = None, otx_rateBps = numi 900, otx_providerName = ''tax'',
         otx_providerQuoteReference = None, otx_quotedAt = readableTime\<rparr>,
      cor_commercialTermsSnapshot = orderTermsSample, cor_authenticityPlanSnapshot = None,
      cor_shippingDestinationSnapshot = addressSample, cor_shippingOriginSnapshot = addressSample,
      cor_lines = [orderLineSample], cor_reservationRequests = [reservationSample ''res_1'', reservationSample '' res_2'']\<rparr>"

definition confirmSample :: "string \<Rightarrow> OrderingOrderCommand" where
  "confirmSample i = RecordReservationConfirmed i (''hld_'' @ i) readableTime"

text \<open>What the samples read off the states they reach.\<close>

definition orderReading :: "OrderStatus \<Rightarrow> (string \<times> ReservationRequestStatus \<times> string option) list \<Rightarrow>
    OrderingOrderState \<Rightarrow> bool" where
  "orderReading st rs s \<longleftrightarrow> oo_orderId s = Some ''ord_1'' \<and> oo_status s = Some st \<and>
     oo_totalAmount s = Some ''26.00'' \<and> oo_itemSubtotalAmount s = Some ''20.00'' \<and>
     map (\<lambda>r. (orr_reservationRequestId r, orr_status r, orr_holdId r)) (oo_reservationRequests s) = rs"

definition readyRequests :: "(string \<times> ReservationRequestStatus \<times> string option) list" where
  "readyRequests = [(''res_1'', RequestConfirmed, Some ''hld_res_1''), (''res_2'', RequestConfirmed, Some ''hld_res_2'')]"

definition openRequests :: "(string \<times> ReservationRequestStatus \<times> string option) list" where
  "openRequests = [(''res_1'', RequestPending, None), (''res_2'', RequestPending, None)]"

text \<open>
  One run covers the samples: the order as created, what the rejection of its first request would cancel, the
  order ready for fulfilment, that order cancelled with one hold released, and the order awaiting payment.
\<close>

definition orderBranches :: "(OrderingOrderEvent list \<times> OrderingOrderState) list res" where
  "orderBranches = runBranches initialOrderingOrderState evolveOrderingOrder (decideOrderingOrder orderHost sameText)
     [createOrderSample]
     [[],
      [confirmSample ''res_1'', confirmSample ''res_2'', MarkReadyForFulfillment readableTime],
      [confirmSample ''res_1'', confirmSample ''res_2'', MarkReadyForFulfillment readableTime,
       CancelOrder readableTime ''support'', RecordReservationReleased ''res_1'' ''hld_res_1'' readableTime],
      [confirmSample ''res_1'', confirmSample ''res_2'']]"

abbreviation rejectFirst :: OrderingOrderCommand where
  "rejectFirst \<equiv> RecordReservationRejected ''res_1'' readableTime ''none left''"

definition cancelsOpen :: "OrderingOrderEvent \<Rightarrow> bool" where
  "cancelsOpen e \<longleftrightarrow> (case e of
     OrderCancelledEvent d \<Rightarrow> length (ocx_reservationRequests d) = 2 \<and>
       orr_status (ocx_reservationRequests d ! 1) = RequestPending \<and>
       orr_reservationRequestId (ocx_reservationRequests d ! 1) = ''res_2'' | _ \<Rightarrow> False)"

definition is_cancellation :: "OrderingOrderEvent \<Rightarrow> bool" where
  "is_cancellation e \<longleftrightarrow> (case e of OrderCancelledEvent d \<Rightarrow> True | _ \<Rightarrow> False)"

lemma cancelsOpenE:
  assumes "cancelsOpen e"
  obtains d where "e = OrderCancelledEvent d" "length (ocx_reservationRequests d) = 2"
    "orr_status (ocx_reservationRequests d ! 1) = RequestPending"
    "orr_reservationRequestId (ocx_reservationRequests d ! 1) = ''res_2''"
  using assms by (cases e) (auto simp: cancelsOpen_def)

lemma orderBranches_read:
  "case orderBranches of
     Inr rs \<Rightarrow> length rs = 4 \<and> orderReading PendingReservation openRequests (snd (rs ! 0)) \<and>
       (case decideOrderingOrder orderHost sameText (snd (rs ! 0)) rejectFirst of
          Inr new \<Rightarrow> length new = 2 \<and> cancelsOpen (new ! 1) | _ \<Rightarrow> False) \<and>
       orderReading ReadyForFulfillment readyRequests (snd (rs ! 1)) \<and>
       length (fst (rs ! 2)) = 8 \<and> is_cancellation (fst (rs ! 2) ! 6) \<and>
       orderReading PendingPayment readyRequests (snd (rs ! 3))
   | _ \<Rightarrow> False"
  by code_simp

lemma orderSamples:
  obtains rs where "orderBranches = Inr rs" "length rs = 4" "orderReading PendingReservation openRequests (snd (rs ! 0))"
    "\<exists>new. decideOrderingOrder orderHost sameText (snd (rs ! 0)) rejectFirst = Inr new \<and> length new = 2 \<and> cancelsOpen (new ! 1)"
    "orderReading ReadyForFulfillment readyRequests (snd (rs ! 1))"
    "length (fst (rs ! 2)) = 8" "is_cancellation (fst (rs ! 2) ! 6)"
    "orderReading PendingPayment readyRequests (snd (rs ! 3))"
proof (cases orderBranches)
  case (Inr rs)
  note r = orderBranches_read [unfolded Inr sum.case]
  then have "\<exists>new. decideOrderingOrder orderHost sameText (snd (rs ! 0)) rejectFirst = Inr new \<and>
      length new = 2 \<and> cancelsOpen (new ! 1)"
    by (cases "decideOrderingOrder orderHost sameText (snd (rs ! 0)) rejectFirst") (simp_all del: decideOrderingOrder.simps)
  with Inr r show thesis by (blast intro: that)
next
  case (Inl e)
  from orderBranches_read [unfolded Inl sum.case] show thesis ..
qed

lemma orderBranches_reachable:
  assumes "orderBranches = Inr rs" and "k < length rs"
  shows "order_history orderHost sameText (fst (rs ! k))" and "order_load (fst (rs ! k)) = Inr (snd (rs ! k))"
proof -
  from assms(2) have "(fst (rs ! k), snd (rs ! k)) \<in> set rs" by simp
  then have "order_history orderHost sameText (fst (rs ! k)) \<and> order_load (fst (rs ! k)) = Inr (snd (rs ! k))"
    by (rule runBranches_reachable [OF assms(1) [unfolded orderBranches_def]])
  then show "order_history orderHost sameText (fst (rs ! k))" "order_load (fst (rs ! k)) = Inr (snd (rs ! k))" by simp_all
qed

lemma createdOrder:
  obtains s es new where "orderReading PendingReservation openRequests s"
    "decideOrderingOrder orderHost sameText s rejectFirst = Inr new" "length new = 2" "cancelsOpen (new ! 1)"
    "order_history orderHost sameText es" "order_load es = Inr s"
proof -
  obtain rs where rs: "orderBranches = Inr rs" "length rs = 4" "orderReading PendingReservation openRequests (snd (rs ! 0))"
    "\<exists>new. decideOrderingOrder orderHost sameText (snd (rs ! 0)) rejectFirst = Inr new \<and> length new = 2 \<and> cancelsOpen (new ! 1)"
    by (rule orderSamples)
  from rs(4) obtain new where "decideOrderingOrder orderHost sameText (snd (rs ! 0)) rejectFirst = Inr new" "length new = 2"
    "cancelsOpen (new ! 1)" by (elim exE conjE)
  note new = this
  show thesis
    by (rule that [OF rs(3) new orderBranches_reachable [OF rs(1)]]) (simp_all add: rs(2))
qed

lemma readyOrder:
  obtains s es where "orderReading ReadyForFulfillment readyRequests s"
    "order_history orderHost sameText es" "order_load es = Inr s"
proof -
  obtain rs where rs: "orderBranches = Inr rs" "length rs = 4" "orderReading ReadyForFulfillment readyRequests (snd (rs ! 1))"
    by (rule orderSamples)
  show thesis by (rule that [OF rs(3) orderBranches_reachable [OF rs(1)]]) (simp_all add: rs(2))
qed

lemma awaitingOrder:
  obtains s es where "orderReading PendingPayment readyRequests s"
    "order_history orderHost sameText es" "order_load es = Inr s"
proof -
  obtain rs where rs: "orderBranches = Inr rs" "length rs = 4" "orderReading PendingPayment readyRequests (snd (rs ! 3))"
    by (rule orderSamples)
  show thesis by (rule that [OF rs(3) orderBranches_reachable [OF rs(1)]]) (simp_all add: rs(2))
qed

lemma cancelledOrder:
  obtains s es where "length es = 8" "is_cancellation (es ! 6)"
    "order_history orderHost sameText es" "order_load es = Inr s"
proof -
  obtain rs where rs: "orderBranches = Inr rs" "length rs = 4" "length (fst (rs ! 2)) = 8" "is_cancellation (fst (rs ! 2) ! 6)"
    by (rule orderSamples)
  show thesis by (rule that [OF rs(3,4) orderBranches_reachable [OF rs(1)]]) (simp_all add: rs(2))
qed


section \<open>Amounts\<close>

text \<open>
  C4. The amounts of an order add up: each line is its unit price times its quantity and splits into the fee and
  what the seller keeps, the lines are the subtotal, the subtotal with shipping, tax and the authenticity fee
  is the total, the terms carry the fees and the seller's share of exactly these lines, and the protection
  is what the allowance and the buyer pay for it.
\<close>

theorem order_totals_add_up:
  assumes "order_history h lc es" and "order_load es = Inr s" and "oo_orderId s = Some i"
  shows "(\<forall>l\<in>set (oo_lines s). 0 < ool_quantity l \<and>
      centsOf (ool_unitPriceAmount l) * ool_quantity l = centsOf (ool_lineTotalAmount l) \<and>
      centsOf (ool_marketplaceSalesFeeTotalAmount l) + centsOf (ool_sellerNetTotalAmount l) =
        centsOf (ool_lineTotalAmount l)) \<and>
    (\<exists>subtotal shipping tax due terms protection allowance overage.
       oo_itemSubtotalAmount s = Some subtotal \<and> oo_shippingChargeAmount s = Some shipping \<and>
       oo_salesTaxAmount s = Some tax \<and> oo_totalAmount s = Some due \<and>
       oo_commercialTermsSnapshot s = Some terms \<and> oo_protectionAmount s = Some protection \<and>
       oo_protectionAllowanceAmount s = Some allowance \<and> oo_protectionOverageAmount s = Some overage \<and>
       order_cents ool_lineTotalAmount (oo_lines s) = centsOf subtotal \<and>
       centsOf subtotal + centsOf shipping + centsOf tax +
         centsOf (case oo_authenticityPlanSnapshot s of None \<Rightarrow> ''0.00'' | Some p \<Rightarrow> oap_feeAmount p) = centsOf due \<and>
       centsOf (oct_marketplaceSalesFeeAmount terms) + centsOf (oct_sellerNetAmount terms) = centsOf subtotal \<and>
       order_cents ool_marketplaceSalesFeeTotalAmount (oo_lines s) = centsOf (oct_marketplaceSalesFeeAmount terms) \<and>
       centsOf allowance + centsOf overage = centsOf protection \<and> oct_protectionAmount terms = Some protection)"
proof -
  have inv: "order_inv h s" by (rule order.loaded_inv [OF assms(1,2)])
  obtain st where "order_created_inv h s st" by (rule order_started [OF inv assms(3)])
  then have sums: "order_adds_up s" by (simp add: order_created_inv_def order_core_def)
  then have lines: "\<forall>l\<in>set (oo_lines s). order_line_ok l" by (simp add: order_adds_up_def)
  then have "order_cents ool_marketplaceSalesFeeTotalAmount (oo_lines s) + order_cents ool_sellerNetTotalAmount (oo_lines s) =
      order_cents ool_lineTotalAmount (oo_lines s)"
    by (intro order_cents_add) (simp add: order_line_ok_def)
  with sums lines show ?thesis by (auto simp: order_adds_up_def amounts_agree_def order_line_ok_def)
qed

theorem order_totals_add_up_witness:
  "\<exists>(s :: OrderingOrderState). oo_totalAmount s = Some ''26.00'' \<and>
     order_cents ool_lineTotalAmount (oo_lines s) = 2000 \<and>
     (\<exists>terms. oo_commercialTermsSnapshot s = Some terms \<and>
        centsOf (oct_marketplaceSalesFeeAmount terms) + centsOf (oct_sellerNetAmount terms) = 2000)"
proof -
  obtain s es where s: "orderReading ReadyForFulfillment readyRequests s"
    and l: "order_history orderHost sameText es" "order_load es = Inr s" by (rule readyOrder)
  have "centsOf ''20.00'' = 2000" by code_simp
  with order_totals_add_up [OF l, of "''ord_1''"] s show ?thesis
    unfolding orderReading_def by (intro exI [of _ s]) auto
qed


section \<open>Awaiting payment\<close>

text \<open>
  C15. An order awaits payment, or is ready to be fulfilled, only when every request of it was confirmed with
  a hold, and its payment is due one hour after the recorded confirmation; while it waits for its
  reservations some request is open and none was rejected.
\<close>

theorem order_awaits_payment_confirmed:
  assumes "order_history h lc es" and "order_load es = Inr s" and "oo_status s = Some st" and "st \<noteq> OrderCancelledSt"
  shows "if st = PendingReservation
    then (\<exists>r\<in>set (oo_reservationRequests s). orr_status r = RequestPending) \<and>
      (\<forall>r\<in>set (oo_reservationRequests s). orr_status r \<noteq> RequestRejected)
    else (\<forall>r\<in>set (oo_reservationRequests s).
        (orr_status r = RequestConfirmed \<or> orr_status r = RequestReleased) \<and> orr_holdId r \<noteq> None) \<and>
      (\<exists>t n d. oo_pendingPaymentAt s = Some t \<and> oo_paymentDeadlineAt s = Some d \<and> Date_parse h t = Some n \<and>
         toISOString (time_clip (n + 3600000)) = Inr d)"
proof -
  have inv: "order_created_inv h s st"
    using order.loaded_inv [OF assms(1,2)] assms(3) by simp
  then have held: "\<forall>r\<in>set (oo_reservationRequests s). held r \<longrightarrow> orr_holdId r \<noteq> None"
    by (auto simp: order_created_inv_def order_core_def order_request_ok_def)
  have due: "\<exists>t n d. oo_pendingPaymentAt s = Some t \<and> oo_paymentDeadlineAt s = Some d \<and> Date_parse h t = Some n \<and>
      toISOString (time_clip (n + 3600000)) = Inr d" if "payment_due h s"
    using that by (auto simp: payment_due_def resolveOrderPaymentDeadline_def deadlineAfter_def res_simps
        resolveOrderPaymentDeadlinePolicy_def normalizeOrderPaymentMethodCategory_def
        defaultOrderPaymentDeadlinePolicy_def split: option.splits)
  from inv assms(4) held show ?thesis
    by (cases st) (auto simp: order_created_inv_def hasPendingReservations_def held_def [symmetric] dest!: due)
qed

theorem order_awaits_payment_confirmed_witness:
  "\<exists>(s :: OrderingOrderState). oo_status s = Some ReadyForFulfillment \<and> length (oo_reservationRequests s) = 2 \<and>
     (\<forall>r\<in>set (oo_reservationRequests s). orr_holdId r \<noteq> None) \<and>
     (\<exists>t n d. oo_pendingPaymentAt s = Some t \<and> oo_paymentDeadlineAt s = Some d \<and> Date_parse orderHost t = Some n \<and>
        toISOString (time_clip (n + 3600000)) = Inr d)"
proof -
  obtain s es where s: "orderReading ReadyForFulfillment readyRequests s"
    and l: "order_history orderHost sameText es" "order_load es = Inr s" by (rule readyOrder)
  from s have st: "oo_status s = Some ReadyForFulfillment" by (simp add: orderReading_def)
  have "length (oo_reservationRequests s) = 2"
    using s map_eq_imp_length_eq [of _ "oo_reservationRequests s"]
    by (auto simp: orderReading_def readyRequests_def dest!: arg_cong [of _ _ length])
  with order_awaits_payment_confirmed [OF l st] st show ?thesis by (intro exI [of _ s]) simp
qed


section \<open>Cancellation\<close>

text \<open>
  C20. Every history of an order is a path of its life cycle, from no order to the status it loads to: it is
  created first and once, its amounts are published and its reservations rejected only while reservations are
  pending, and it becomes ready only while it awaits payment. A cancellation is final: a history has at most
  one, whatever was decided after it is the release of a reservation, and the order stays cancelled.
\<close>

theorem cancelled_order_stays_cancelled:
  assumes "order_history h lc es" and "order_load es = Inr s"
  shows "event_path order_step None es (oo_status s) \<and>
    (\<forall>xs d ys. es = xs @ OrderCancelledEvent d # ys \<longrightarrow>
       oo_status s = Some OrderCancelledSt \<and> (\<forall>e\<in>set ys. order_release e) \<and> (\<forall>d'. OrderCancelledEvent d' \<notin> set xs))"
proof -
  have path: "event_path order_step None es (oo_status s)"
    using order_life.history_path [OF assms] by (simp add: initialOrderingOrderState_def)
  moreover have "OrderCancelledEvent d' \<notin> set xs" if es: "es = xs @ OrderCancelledEvent d # ys" for xs d ys d'
  proof
    assume "OrderCancelledEvent d' \<in> set xs"
    then obtain us vs where "xs = us @ OrderCancelledEvent d' # vs" by (auto simp: in_set_conv_decomp)
    with path es have "event_path order_step None (us @ OrderCancelledEvent d' # (vs @ OrderCancelledEvent d # ys)) (oo_status s)"
      by simp
    from cancelled_for_good [OF this] show False by (simp add: order_release_def)
  qed
  ultimately show ?thesis using cancelled_for_good by blast
qed

theorem cancelled_order_stays_cancelled_witness:
  "\<exists>(s :: OrderingOrderState) xs d ys. order_load (xs @ OrderCancelledEvent d # ys) = Inr s \<and> length ys = 1 \<and>
     event_path order_step None (xs @ OrderCancelledEvent d # ys) (Some OrderCancelledSt) \<and>
     oo_status s = Some OrderCancelledSt \<and> (\<forall>e\<in>set ys. order_release e)"
proof -
  obtain s es where es: "length es = 8" "is_cancellation (es ! 6)"
    and hist: "order_history orderHost sameText es" and l: "order_load es = Inr s" by (rule cancelledOrder)
  from es(2) obtain d where "es ! 6 = OrderCancelledEvent d"
    by (auto simp: is_cancellation_def split: OrderingOrderEvent.splits)
  then have split: "es = take 6 es @ OrderCancelledEvent d # drop 7 es"
    using es(1) id_take_nth_drop [of 6 es] by simp
  have "event_path order_step None es (oo_status s)" "oo_status s = Some OrderCancelledSt \<and> (\<forall>e\<in>set (drop 7 es). order_release e)"
    using cancelled_order_stays_cancelled [OF hist l] split by blast+
  with l split es(1) show ?thesis
    by (intro exI [of _ s] exI [of _ "take 6 es"] exI [of _ d] exI [of _ "drop 7 es"]) simp
qed

text \<open>
  C5. A hold can outlive its order: a request that was still open when its order was cancelled is none of
  those whose holds inventory looks up to release, no later event of the order is another
  cancellation, and the order records nothing when the confirmation of the request arrives.
\<close>

theorem late_confirmation_strands_its_hold:
  assumes "order_history h lc es" and "order_load es = Inr s" and "decideOrderingOrder h lc s c = Inr new"
    and "OrderCancelledEvent d \<in> set new" and "r \<in> set (ocx_reservationRequests d)" and "orr_status r = RequestPending"
    and "order_history h lc (es @ new @ later)" and "order_load (es @ new @ later) = Inr s'"
  shows "r \<notin> set (releasedOnCancellation d) \<and> (\<forall>e\<in>set later. order_release e) \<and>
    decideOrderingOrder h lc s' (RecordReservationConfirmed (orr_reservationRequestId r) k t) = Inr []"
proof -
  from assms(4) obtain xs ys where new: "new = xs @ OrderCancelledEvent d # ys" by (auto simp: in_set_conv_decomp)
  have "event_path order_step None (es @ new @ later) (oo_status s')"
    using order_life.history_path [OF assms(7,8)] by (simp add: initialOrderingOrderState_def)
  then have "event_path order_step None ((es @ xs) @ OrderCancelledEvent d # (ys @ later)) (oo_status s')"
    by (simp add: new)
  from cancelled_for_good [OF this] have st: "oo_status s' = Some OrderCancelledSt" and later: "\<forall>e\<in>set later. order_release e"
    by auto
  have "order_created_inv h s' OrderCancelledSt" using order.loaded_inv [OF assms(7,8)] st by simp
  then have "decideOrderingOrder h lc s' (RecordReservationConfirmed (orr_reservationRequestId r) k t) = Inr []"
    using st by (auto simp: order_created_inv_def order_core_def decideReservationConfirmed_def)
  with later assms(6) show ?thesis by (simp add: releasedOnCancellation_def)
qed

theorem late_confirmation_strands_its_hold_witness:
  "\<exists>s new d r s'. decideOrderingOrder orderHost sameText s (RecordReservationRejected ''res_1'' readableTime ''none left'') = Inr new \<and>
     OrderCancelledEvent d \<in> set new \<and> r \<in> set (ocx_reservationRequests d) \<and> r \<notin> set (releasedOnCancellation d) \<and>
     orr_reservationRequestId r = ''res_2'' \<and>
     decideOrderingOrder orderHost sameText s' (RecordReservationConfirmed (orr_reservationRequestId r) ''hld_res_2'' readableTime) = Inr []"
proof -
  obtain s es new where dec: "decideOrderingOrder orderHost sameText s rejectFirst = Inr new"
    and n: "length new = 2" "cancelsOpen (new ! 1)" and l: "order_history orderHost sameText es" "order_load es = Inr s"
    by (rule createdOrder)
  from n(2) obtain d where d: "new ! 1 = OrderCancelledEvent d" "length (ocx_reservationRequests d) = 2"
      "orr_status (ocx_reservationRequests d ! 1) = RequestPending"
      "orr_reservationRequestId (ocx_reservationRequests d ! 1) = ''res_2''" by (rule cancelsOpenE)
  define s' where "s' = foldl evolveOrder s new"
  have "new ! 1 \<in> set new" by (rule nth_mem) (simp add: n(1))
  then have mem: "OrderCancelledEvent d \<in> set new" "ocx_reservationRequests d ! 1 \<in> set (ocx_reservationRequests d)"
    using d(2) by (simp_all only: d(1)) simp
  have hist: "order_history orderHost sameText (es @ new @ [])"
    unfolding append_Nil2 by (rule append_decided [OF l]) (rule dec)
  have load: "order_load (es @ new @ []) = Inr s'"
    unfolding append_Nil2 foldEvents_append l(2) bindE.simps s'_def by (rule evolveOrderingOrder_apply)
  note stranded = late_confirmation_strands_its_hold [OF l dec mem d(3) hist load]
  show ?thesis
    by (intro exI conjI) (rule dec mem d(4) stranded [THEN conjunct1] stranded [THEN conjunct2, THEN conjunct2])+
qed


section \<open>Outcomes of reservations\<close>

text \<open>
  C16. What inventory confirms reaches the order: when inventory places the hold of an open request of an
  order that is not cancelled and confirms the reservation, the reaction sends the order a command that it
  accepts and that records exactly this hold for the request.
\<close>

theorem inventory_confirmation_reaches_order:
  assumes "order_history h lc es" and "order_load es = Inr s" and "oo_status s \<noteq> Some OrderCancelledSt"
    and "r \<in> set (oo_reservationRequests s)" and "orr_status r = RequestPending"
    and "orderReservationHoldId (orr_reservationRequestId r) = Inr k"
    and "ri_reservationRequestId i = orr_reservationRequestId r"
    and "decideInventoryReservation rs (ConfirmInventoryReservation i k) = Inr [e]"
    and "js_trim t \<noteq> []" and "resolveOrderPaymentDeadline h (js_trim t) None defaultOrderPaymentDeadlinePolicy = Inr deadline"
  shows "\<exists>c new d. orderOutcomeCommand t e = Some (''ordering.order-'' @ normalizeLabel (ri_orderId i), c) \<and>
    decideOrderingOrder h lc s c = Inr new \<and> OrderReservationConfirmedEvent d \<in> set new \<and>
    orc_reservationRequestId d = orr_reservationRequestId r \<and> orc_holdId d = k"
proof -
  have inv: "order_inv h s" by (rule order.loaded_inv [OF assms(1,2)])
  from assms(4) inv obtain st where st: "oo_status s = Some st"
    by (cases "oo_status s") (auto simp: order_inv_def initialOrderingOrderState_def)
  with inv assms(4) have "js_trim (orr_reservationRequestId r) = orr_reservationRequestId r"
    by (auto simp: order_created_inv_def order_core_def order_request_ok_def)
  moreover note k = orderReservationHoldId_clean [OF assms(6)]
  ultimately have "orderOutcomeCommand t e = Some (''ordering.order-'' @ normalizeLabel (ri_orderId i),
      RecordReservationConfirmed (orr_reservationRequestId r) k t)"
    using assms(7,8) by (auto simp: decideConfirmReservation_def normalizeReservationInput_def normalizeLabel_def
        Let_def res_simps split: if_split_asm)
  with pending_confirms [OF inv st _ assms(4,5) k assms(9), of "fst deadline" "snd deadline" lc] st assms(3,10)
  show ?thesis by auto
qed

theorem inventory_confirmation_reaches_order_witness:
  "\<exists>s c new d. orderOutcomeCommand readableTime
       (ReservationConfirmedEvent \<lparr>rf_reservationRequestId = ''res_1'', rf_orderId = ''ord_1'', rf_sellerAccountId = ''acc_2'',
          rf_inventoryItemId = ''itm_1'', rf_quantity = 1\<rparr> ''hld_order_reservation_res_1'') = Some (''ordering.order-ord_1'', c) \<and>
     decideOrderingOrder orderHost sameText s c = Inr new \<and> OrderReservationConfirmedEvent d \<in> set new \<and>
     orc_holdId d = ''hld_order_reservation_res_1''"
proof -
  obtain s es where s: "orderReading PendingReservation openRequests s"
    and l: "order_history orderHost sameText es" "order_load es = Inr s" by (rule createdOrder)
  from s have "\<exists>r\<in>set (oo_reservationRequests s). orr_status r = RequestPending \<and> orr_reservationRequestId r = ''res_1''"
    by (auto simp: orderReading_def openRequests_def)
  then obtain r where r: "r \<in> set (oo_reservationRequests s)" "orr_status r = RequestPending"
      "orr_reservationRequestId r = ''res_1''" by blast
  have k: "orderReservationHoldId ''res_1'' = Inr ''hld_order_reservation_res_1''" by code_simp
  have e: "decideInventoryReservation initialInventoryReservationState
      (ConfirmInventoryReservation \<lparr>ri_reservationRequestId = ''res_1'', ri_orderId = ''ord_1'',
         ri_sellerAccountId = ''acc_2'', ri_inventoryItemId = ''itm_1'', ri_quantity = numi 1\<rparr> ''hld_order_reservation_res_1'') =
      Inr [ReservationConfirmedEvent \<lparr>rf_reservationRequestId = ''res_1'', rf_orderId = ''ord_1'',
         rf_sellerAccountId = ''acc_2'', rf_inventoryItemId = ''itm_1'', rf_quantity = 1\<rparr> ''hld_order_reservation_res_1'']"
    by code_simp
  have "js_trim readableTime \<noteq> [] \<and> normalizeLabel ''ord_1'' = ''ord_1'' \<and>
      (case resolveOrderPaymentDeadline orderHost (js_trim readableTime) None defaultOrderPaymentDeadlinePolicy of
         Inr x \<Rightarrow> True | Inl _ \<Rightarrow> False)" by code_simp
  then obtain x where t: "js_trim readableTime \<noteq> []" "normalizeLabel ''ord_1'' = ''ord_1''"
      "resolveOrderPaymentDeadline orderHost (js_trim readableTime) None defaultOrderPaymentDeadlinePolicy = Inr x"
    by (auto split: sum.splits)
  have "oo_status s \<noteq> Some OrderCancelledSt" using s by (simp add: orderReading_def)
  moreover have "orderReservationHoldId (orr_reservationRequestId r) = Inr ''hld_order_reservation_res_1''"
    by (simp only: r(3) k)
  ultimately show ?thesis
    using inventory_confirmation_reaches_order [OF l _ r(1,2) _ _ e t(1,3)] r(3) t(2) by auto
qed

text \<open>
  C19. A redelivered confirmation reopens the payment of an order that was paid: when the confirmation of a
  request arrives again at an order that is ready for fulfilment, the order records a new payment
  deadline and goes back to awaiting payment, and the deadline sweep may then cancel it.
\<close>

theorem redelivered_confirmation_reopens_payment:
  assumes "order_history h lc es" and "order_load es = Inr s" and "oo_status s = Some ReadyForFulfillment"
    and "r \<in> set (oo_reservationRequests s)" and "orr_status r = RequestConfirmed" and "orr_holdId r = Some k"
    and "js_trim t \<noteq> []" and "resolveOrderPaymentDeadline h (js_trim t) None defaultOrderPaymentDeadlinePolicy = Inr (deadline, p)"
  shows "\<exists>new s' x. decideOrderingOrder h lc s (RecordReservationConfirmed (orr_reservationRequestId r) k t) = Inr new \<and>
    order_load (es @ new) = Inr s' \<and> oo_status s' = Some PendingPayment \<and> oo_paymentDeadlineAt s' = Some deadline \<and>
    decideOrderingOrder h lc s' (CancelOrder t ''payment-deadline'') = Inr [OrderCancelledEvent x]"
proof -
  have inv: "order_inv h s" by (rule order.loaded_inv [OF assms(1,2)])
  then have core: "order_core s" and held: "\<forall>q\<in>set (oo_reservationRequests s). held q"
    using assms(3) by (simp_all add: order_created_inv_def)
  have "orr_status q \<noteq> RequestPending" if "q \<in> set (oo_reservationRequests s)" for q using held that by (auto simp: held_def)
  then have pend: "\<not> hasPendingReservations (oo_reservationRequests s)" by (auto simp: hasPendingReservations_def)
  obtain d where new: "decideOrderingOrder h lc s (RecordReservationConfirmed (orr_reservationRequestId r) k t) =
      Inr [OrderReservationConfirmedEvent d, OrderPendingPaymentRecorded (orc_orderId d) (js_trim t) deadline p]"
    using confirmed_again [OF core assms(3-6) pend assms(7,8)] by blast
  obtain oid where oid: "oo_orderId s = Some oid" using core by (auto simp: order_core_def)
  have "js_trim ''payment-deadline'' = ''payment-deadline''" by code_simp
  with assms(2,7) new oid show ?thesis
    by (auto simp: foldEvents_append decideCancelOrder_def orderingRequiredText_def Let_def)
qed

theorem redelivered_confirmation_reopens_payment_witness:
  "\<exists>s new s' x. orderReading ReadyForFulfillment readyRequests s \<and>
     decideOrderingOrder orderHost sameText s (RecordReservationConfirmed ''res_2'' ''hld_res_2'' readableTime) = Inr new \<and>
     oo_status s' = Some PendingPayment \<and>
     decideOrderingOrder orderHost sameText s' (CancelOrder readableTime ''payment-deadline'') = Inr [OrderCancelledEvent x]"
proof -
  obtain s es where s: "orderReading ReadyForFulfillment readyRequests s"
    and l: "order_history orderHost sameText es" "order_load es = Inr s" by (rule readyOrder)
  from s have "\<exists>r\<in>set (oo_reservationRequests s). orr_status r = RequestConfirmed \<and>
      orr_holdId r = Some ''hld_res_2'' \<and> orr_reservationRequestId r = ''res_2''"
    by (auto simp: orderReading_def readyRequests_def)
  then obtain r where r: "r \<in> set (oo_reservationRequests s)" "orr_status r = RequestConfirmed"
      "orr_holdId r = Some ''hld_res_2''" "orr_reservationRequestId r = ''res_2''" by blast
  have st: "oo_status s = Some ReadyForFulfillment" using s by (simp add: orderReading_def)
  have "js_trim readableTime \<noteq> [] \<and>
      (case resolveOrderPaymentDeadline orderHost (js_trim readableTime) None defaultOrderPaymentDeadlinePolicy of
         Inr x \<Rightarrow> True | Inl _ \<Rightarrow> False)" by code_simp
  then obtain deadline p where t: "js_trim readableTime \<noteq> []"
      "resolveOrderPaymentDeadline orderHost (js_trim readableTime) None defaultOrderPaymentDeadlinePolicy = Inr (deadline, p)"
    by (auto split: sum.splits)
  from redelivered_confirmation_reopens_payment [OF l st r(1-3) t] r(4) s show ?thesis by auto
qed


section \<open>Economics\<close>

text \<open>
  C40. Ordering accepts the economics it computes: what \<open>calculateOrderFulfillmentEconomics\<close> makes of a subtotal,
  a shipping price and an allowance shares out both amounts exactly, the allowance covering the protection
  first and never more than its limit, and a new order made from it passes the checks on its
  protection and its shipping.
\<close>

theorem computed_economics_accepted:
  assumes "calculateOrderFulfillmentEconomics subtotal base bps = Inr e"
    and "cor_protectionAmount c = Some (ofe_protectionAmount e)"
    and "cor_protectionAllowanceAmount c = Some (ofe_protectionAllowanceAmount e)"
    and "cor_protectionOverageAmount c = Some (ofe_protectionOverageAmount e)"
    and "cor_shippingOverageAmount c = Some (ofe_shippingOverageAmount e)"
    and "cor_shippingChargeAmount c = ofe_shippingChargeAmount e"
  shows "orderProtection c =
      Inr (ofe_protectionAmount e, ofe_protectionAllowanceAmount e, ofe_protectionOverageAmount e) \<and>
    orderShipping c (ofe_protectionOverageAmount e) = Inr (ofe_shippingOverageAmount e, ofe_shippingChargeAmount e) \<and>
    (\<exists>limit. applyBasisPointsToMoneyAmount subtotal bps RFloor = Inr limit \<and>
       centsOf (ofe_protectionAllowanceAmount e) = min (centsOf (ofe_protectionAmount e)) (centsOf limit) \<and>
       centsOf (ofe_protectionAllowanceAmount e) + centsOf (ofe_shippingAllowanceAmount e) \<le> centsOf limit) \<and>
    centsOf (ofe_shippingChargeAmount e) =
      centsOf (ofe_shippingBaseAmount e) - centsOf (ofe_shippingAllowanceAmount e) +
      (centsOf (ofe_protectionAmount e) - centsOf (ofe_protectionAllowanceAmount e))"
proof -
  note E = calculated_economics(1) [OF assms(1), unfolded economics_ok_def]
  have "orderProtection c =
      Inr (ofe_protectionAmount e, ofe_protectionAllowanceAmount e, ofe_protectionOverageAmount e)"
    using E assms(2-4) by (simp add: orderProtection_def orderingMoneyAmount_canonical addCentsOf_money)
  moreover have "orderShipping c (ofe_protectionOverageAmount e) = Inr (ofe_shippingOverageAmount e, ofe_shippingChargeAmount e)"
    using E assms(5,6) by (simp add: orderShipping_def orderingMoneyAmount_canonical addCentsOf_money)
  ultimately show ?thesis using E calculated_economics(2) [OF assms(1)] by auto
qed

theorem computed_economics_accepted_witness:
  "\<exists>e. calculateOrderFulfillmentEconomics ''20.00'' ''5'' (numi 500) = Inr e \<and> ofe_shippingChargeAmount e = ''4.20'' \<and>
     centsOf (ofe_shippingChargeAmount e) =
       centsOf (ofe_shippingBaseAmount e) - centsOf (ofe_shippingAllowanceAmount e) +
       (centsOf (ofe_protectionAmount e) - centsOf (ofe_protectionAllowanceAmount e))"
proof -
  have "case calculateOrderFulfillmentEconomics ''20.00'' ''5'' (numi 500) of
      Inr e \<Rightarrow> ofe_shippingChargeAmount e = ''4.20'' | Inl _ \<Rightarrow> False" by code_simp
  then obtain e where e: "calculateOrderFulfillmentEconomics ''20.00'' ''5'' (numi 500) = Inr e"
    "ofe_shippingChargeAmount e = ''4.20''" by (auto split: sum.splits)
  define c where "c = (case createOrderSample of CreateOrder c \<Rightarrow> c\<lparr>cor_protectionAmount := Some (ofe_protectionAmount e),
      cor_protectionAllowanceAmount := Some (ofe_protectionAllowanceAmount e),
      cor_protectionOverageAmount := Some (ofe_protectionOverageAmount e),
      cor_shippingOverageAmount := Some (ofe_shippingOverageAmount e),
      cor_shippingChargeAmount := ofe_shippingChargeAmount e\<rparr>)"
  have "cor_protectionAmount c = Some (ofe_protectionAmount e)"
    "cor_protectionAllowanceAmount c = Some (ofe_protectionAllowanceAmount e)"
    "cor_protectionOverageAmount c = Some (ofe_protectionOverageAmount e)"
    "cor_shippingOverageAmount c = Some (ofe_shippingOverageAmount e)"
    "cor_shippingChargeAmount c = ofe_shippingChargeAmount e"
    by (simp_all add: c_def createOrderSample_def)
  from computed_economics_accepted [OF e(1) this] e show ?thesis by blast
qed


section \<open>Payments, deadlines and support\<close>

text \<open>
  C18. The deadline sweep cancels exactly the orders that await payment, and lets go of all they hold: any other
  order counts as progressed and is left alone, no candidate fails, and the cancellation it records
  lists every request whose hold was not given back yet as one that inventory looks up to release.
\<close>

theorem deadline_sweep_releases_every_hold:
  assumes "order_history h lc es" and "order_load es = Inr s" and "oo_status s = Some st" and "js_trim now \<noteq> []"
  shows "if st = PendingPayment
    then \<exists>d. sweepCandidate h lc s now = (SweepCancelled, [OrderCancelledEvent d]) \<and>
      set (releasedOnCancellation d) = {r \<in> set (oo_reservationRequests s). orr_status r \<noteq> RequestReleased}
    else sweepCandidate h lc s now = (SweepProgressed, [])"
  using sweep_pending_payment sweep_other order.loaded_inv [OF assms(1,2)] assms(3,4) by auto

theorem deadline_sweep_releases_every_hold_witness:
  "\<exists>s d. orderReading PendingPayment readyRequests s \<and>
     sweepCandidate orderHost sameText s readableTime = (SweepCancelled, [OrderCancelledEvent d]) \<and>
     set (releasedOnCancellation d) = set (oo_reservationRequests s)"
proof -
  obtain s es where s: "orderReading PendingPayment readyRequests s"
    and l: "order_history orderHost sameText es" "order_load es = Inr s" by (rule awaitingOrder)
  from s have st: "oo_status s = Some PendingPayment" by (simp add: orderReading_def)
  have held: "\<forall>r\<in>set (oo_reservationRequests s). orr_status r \<noteq> RequestReleased"
    using s by (auto simp: orderReading_def readyRequests_def)
  have "js_trim readableTime \<noteq> []" by code_simp
  from deadline_sweep_releases_every_hold [OF l st this] s held show ?thesis by auto
qed

text \<open>
  C17. A captured payment reaches its orders: for every order of the payment that is not known as cancelled the
  reaction sends one command, and an order of it that awaits payment becomes ready for fulfilment
  by it, at the moment of the capture.
\<close>

theorem captured_payment_readies_its_orders:
  assumes "order_history h lc es" and "order_load es = Inr s" and "oo_status s = Some PendingPayment"
    and "oo_orderId s = Some i" and "i \<in> set (py_orderIds p)" and "\<not> isCancelled i"
    and "decidePayment h p (RecordPaymentCapture processorStatus t) = Inr new" and "e \<in> set new" and "is_PaymentCapturedEvent e"
    and "js_trim t \<noteq> []"
  shows "\<exists>s'. (orderStream i, MarkReadyForFulfillment t) \<in> set (captureCommands isCancelled e) \<and>
    decideOrderingOrder h lc s (MarkReadyForFulfillment t) = Inr [OrderReadyForFulfillmentEvent i (js_trim t)] \<and>
    order_load (es @ [OrderReadyForFulfillmentEvent i (js_trim t)]) = Inr s' \<and>
    oo_status s' = Some ReadyForFulfillment \<and> oo_readyForFulfillmentAt s' = Some (js_trim t)"
proof -
  from assms(9) obtain terms fee cat where e: "e = PaymentCapturedEvent terms fee cat" by (cases e) auto
  note c = captured_orders [OF assms(7) assms(8) [unfolded e]]
  have "(orderStream i, MarkReadyForFulfillment t) \<in> set (captureCommands isCancelled e)"
    using assms(5,6) by (auto simp: e c)
  moreover have "decideOrderingOrder h lc s (MarkReadyForFulfillment t) = Inr [OrderReadyForFulfillmentEvent i (js_trim t)]"
    using readies_paid_order [OF order.loaded_inv [OF assms(1,2)] assms(3,10)] assms(4) by auto
  ultimately show ?thesis using assms(2) by (simp add: foldEvents_append del: decideOrderingOrder.simps)
qed

theorem captured_payment_readies_its_orders_witness:
  "\<exists>s e. orderReading PendingPayment readyRequests s \<and> is_PaymentCapturedEvent e \<and>
     (orderStream ''ord_1'', MarkReadyForFulfillment readableTime) \<in> set (captureCommands (\<lambda>_. False) e) \<and>
     decideOrderingOrder orderHost sameText s (MarkReadyForFulfillment readableTime) =
       Inr [OrderReadyForFulfillmentEvent ''ord_1'' readableTime]"
proof -
  obtain s es where s: "orderReading PendingPayment readyRequests s"
    and l: "order_history orderHost sameText es" "order_load es = Inr s" by (rule awaitingOrder)
  define p where "p = initialPaymentState\<lparr>py_paymentId := Some ''pay_1'', py_orderIds := [''ord_1''],
    py_buyerAccountId := Some ''acc_1'', py_status := Some PendingConfirmation\<rparr>"
  have "case decidePayment orderHost (initialPaymentState\<lparr>py_paymentId := Some ''pay_1'', py_orderIds := [''ord_1''],
      py_buyerAccountId := Some ''acc_1'', py_status := Some PendingConfirmation\<rparr>) (RecordPaymentCapture ''succeeded'' readableTime) of
    Inr new \<Rightarrow> length new = 2 \<and> is_PaymentCapturedEvent (new ! 0) | Inl _ \<Rightarrow> False" by code_simp
  then obtain new where new: "decidePayment orderHost p (RecordPaymentCapture ''succeeded'' readableTime) = Inr new"
    "length new = 2" "is_PaymentCapturedEvent (new ! 0)" by (auto simp: p_def split: sum.splits)
  have e: "new ! 0 \<in> set new" using new(2) by simp
  have "''ord_1'' \<in> set (py_orderIds p)" by (simp add: p_def)
  moreover have "oo_status s = Some PendingPayment" "oo_orderId s = Some ''ord_1''" using s by (simp_all add: orderReading_def)
  moreover have "js_trim readableTime = readableTime" "readableTime \<noteq> []" by code_simp+
  ultimately show ?thesis
    using captured_payment_readies_its_orders [OF l _ _ _ _ new(1) e new(3), of "''ord_1''" "\<lambda>_. False"] s new(3) by auto
qed

end
