(* ===== verification/Spec2Isabelle.thy ===== *)
theory Spec2Isabelle
  imports MoneyProps WalletProps EventStoreProps InventoryProps PayoutProps LiabilityProps RefundProps
    WalletFundingProps CoverageProps PaymentProps OrderProps
begin

text \<open>
  A verification development of the money, stock and order core of chase-sets, a marketplace built as event
  sourced bounded contexts in TypeScript.

  How the program works. Each aggregate is a pair of functions: a decider turns a state and a command
  into events or throws, an evolver folds events into a state (\<open>contracts/event-core/domain.ts\<close>). A
  command handler loads a stream, decides and appends the events at the version it loaded
  (\<open>command-handler-internal.ts\<close>, \<open>aggregate-repository-internal.ts\<close>); the store refuses an append
  at another version. Money is decimal text whose arithmetic runs on cents
  (\<open>contracts/primitives/money.ts\<close>). Inventory keeps stock, holds and reservations; settlement keeps
  the wallets of sellers, pays them out, decides who bears a refund and reserves the platform's part; payments keeps what buyers
  paid, refunds and the funding of wallets; ordering keeps the orders, whose reservations inventory
  resolves and whose payment payments collects.

  The theories, by component (paths under \<open>src/\<close>):

  \<^item> Runtime. \<open>JsPrelude\<close> has thrown errors as values (\<open>js_error + 'a\<close>, with \<open>bindE\<close> and the collection
    \<open>res_simps\<close> of inversion rules), numbers, sorting and sets of array elements; \<open>JsString\<close> has the
    string methods and decimal digits, \<open>JsTime\<close> has \<open>Date\<close> and \<open>Date.parse\<close> of ISO texts, \<open>CalendarFacts\<close>
    the calendar it stands for, \<open>JsonText\<close> has \<open>JSON.stringify\<close> and that its text determines the value.

  \<^item> Money. \<open>Money\<close> is \<open>contracts/primitives/money.ts\<close>; \<open>MoneyFacts\<close> has the values of its operations on
    canonical amounts (collection \<open>money_simps\<close>) and the exactness of the largest remainder allocation;
    \<open>MoneyProps\<close> has the properties: exact allocation, rounding, fee gross-up, round trips.

  \<^item> Events. \<open>EventDomain\<close> is \<open>contracts/event-core/domain.ts\<close> with the histories a stream can hold
    (\<open>reachable_history\<close>) and the contracts of an aggregate: \<open>aggregate\<close> (an invariant that decided
    batches keep), \<open>replayable_aggregate\<close> (a decided batch never makes its own evolver throw),
    \<open>aggregate_lifecycle\<close> (the aggregate refines a step relation on phases) and
    \<open>closing_lifecycle\<close> (some events close it), and \<open>progressing_aggregate\<close> (what remains to be done
    can always be done by commands that are accepted). \<open>Storage\<close> is \<open>storage.ts\<close> and \<open>codec.ts\<close>; \<open>MemoryStore\<close>
    is the in-memory store of \<open>test-support.ts\<close>; \<open>CompleteStream\<close> is \<open>complete-stream.ts\<close>;
    \<open>CommandHandler\<close> is the repository, the command handler and \<open>consistency.ts\<close>. \<open>MemoryStoreFacts\<close> and
    \<open>CommandHandlerFacts\<close> hold their laws, \<open>EventStoreProps\<close> the properties: contiguous
    streams, idempotent and atomic appends, complete reads that end, snapshots that equal a replay, and
    interleaved handlers that leave serial histories.

  \<^item> Settlement wallets. \<open>SettlementCommon\<close> is \<open>settlement/support/runtime-support/common.ts\<close>; \<open>Wallet\<close>,
    \<open>WalletOps\<close> (the evolver and its helpers) and \<open>WalletDecide\<close> (the decider) are
    \<open>settlement/features/wallets/domain/domain.ts\<close> and \<open>staging-proof-credit.ts\<close>; \<open>WalletFacts\<close> and
    \<open>WalletProps\<close> show that balances are the sums of the entries and of the active holds, and what
    each command may do to them.

  \<^item> Settlement payouts. \<open>Payout\<close> is \<open>settlement/features/payouts/domain/domain.ts\<close>: a payout, the ledger of
    the payouts of a month, and the month of an instant. \<open>PayoutFacts\<close>, \<open>PayoutMonthFacts\<close> and
    \<open>PayoutProps\<close> show its amounts, its life cycle, that a ledger implements a set, and that
    the window is the calendar month.

  \<^item> Liability. \<open>PlatformCoverage\<close> is \<open>contracts/primitives/platform-coverage.ts\<close>; \<open>LiabilityAllocation\<close>
    is \<open>settlement/features/liability-allocation/domain/liability-allocation.ts\<close>;
    \<open>RefundReconciliation\<close> is the part of \<open>payment-source-projection.ts\<close> that settles a refund with an
    allocation. \<open>LiabilityFacts\<close> and \<open>LiabilityProps\<close> show that a completed refund is borne exactly
    and distributed exactly.

  \<^item> Protection coverage. \<open>CoverageFactPayloads\<close> is \<open>contracts/event-core/platform-coverage-facts.ts\<close>;
    \<open>ProtectionCoverage\<close> is \<open>settlement/features/protection-coverage/domain/protection-coverage.ts\<close>, the
    reserve of a currency. \<open>ProtectionCoverageFacts\<close> has its invariant, \<open>ProtectionCoverageLife\<close> the life of
    a coverage and that a reserve can be cleared; \<open>CoverageSettlement\<close> is
    the retry loop and the commands of \<open>protection-coverage-runtime.ts\<close>, the handler of Support's requests
    (\<open>coverage-reservation-projection.ts\<close>) and the settlement that the reconciliation sends, and shows that
    planned settlements are accepted once. Most properties of the reserve need commands that name coverages and
    recoveries by ids without white space around them; \<open>CoveragePadding\<close> shows what other ids do.
    \<open>CoverageProps\<close> has the properties. \<open>KeyedTotals\<close> has
    the sums over keyed records that these and the funding of wallets share.

  \<^item> Payments. \<open>PaymentsCommon\<close> is \<open>payments/support/runtime-support/common.ts\<close>; \<open>Refund\<close> is
    \<open>payments/features/refunds/domain\<close>; \<open>WalletFundingRefund\<close> and \<open>WalletFunding\<close> are
    \<open>payments/features/wallet-funding/domain\<close>. \<open>RefundFacts\<close> and \<open>RefundProps\<close> show the life cycle, the
    exact condition of a repeated request, and the way of a refund from its request to its settlement
    across the two contexts; \<open>WalletFundingFacts\<close> and \<open>WalletFundingProps\<close> show that refunds never exceed
    what was funded and that a refund is submitted at most once.

  \<^item> The payment aggregate. \<open>Payment\<close> (its data, the caps and reservations of its orders, the outcome fact of
    \<open>csat-outcome-fact.ts\<close> and \<open>workflow-outcomes.ts\<close>) and \<open>PaymentDecide\<close> (decider and evolver) are
    \<open>payments/features/payments/domain/domain.ts\<close>. \<open>PaymentFacts\<close> has the totals by order and the
    allocation, \<open>PaymentInvariant\<close> what decided events were checked for, \<open>PaymentLife\<close> that they keep the
    invariant and follow the life cycle, \<open>PaymentRedelivery\<close> that repeated commands change nothing,
    \<open>PaymentReserve\<close> that reserved refunds can be recorded, \<open>PaymentAllocation\<close> when the allocation of
    another refund prevents that; \<open>PaymentProps\<close> has the properties.

  \<^item> Inventory. \<open>InventoryCommon\<close>, \<open>InventoryHold\<close>, \<open>InventoryReservation\<close> and \<open>InventoryItem\<close> are
    \<open>inventory/support/runtime-support/common.ts\<close> and the three domains \<open>holds\<close>, \<open>reservations\<close> and
    \<open>inventory-items\<close>; \<open>InventoryHoldFacts\<close>, \<open>InventoryItemFacts\<close> and \<open>InventoryProps\<close> show their life
    cycles, that counts add up, and that held units stay.

  \<^item> Ordering. \<open>OrderingCommon\<close> is \<open>ordering/features/orders/domain/common.ts\<close> with the addresses of
    \<open>contracts/primitives/address-snapshot.ts\<close>; \<open>OrderPolicies\<close> is \<open>policies.ts\<close>: the fee of a unit, the
    economics of fulfilment and the payment deadlines, and that they share out their amounts exactly;
    \<open>Order\<close> (data and normalisers) and \<open>OrderDecide\<close> (decider and evolver) are \<open>domain.ts\<close>.
    \<open>OrderFacts\<close> shows what a created order fixes, \<open>OrderLife\<close> has the invariant and the life cycle,
    \<open>OrderBatch\<close> that every decided batch keeps to them; \<open>OrderReactions\<close> is the exchange with inventory
    (\<open>ordering/index.ts\<close>, \<open>inventory/index.ts\<close>, \<open>order-reservation-workflow.ts\<close>). \<open>OrderPayments\<close> has what
    captured payments and support resolutions send to orders (\<open>ordering/index.ts\<close>,
    \<open>support-cancellation-reaction.ts\<close>) and a candidate of the payment-deadline sweep (\<open>api/runtime.ts\<close>).
    \<open>OrderProps\<close> has the properties: amounts, what awaiting payment means, cancellation, payment, and the
    outcomes of reservations.

  State and operations. A state is a record with the source's fields, null being \<open>None\<close>; a command or
  an event is a constructor of a datatype with the fields of its variant; each case of a decider or
  evolver is a function of its own. What a caller may send with any content is text or a number
  of the runtime and runs through the source's normalisers; a field that the code compares with a literal
  of its union type before normalising it has that type.

  Bounds. Money amounts are at most 999999999999 cents, the source's bound. Sums of item quantities are
  rounded to doubles (\<open>js_add\<close>), and the properties of items state the range in which they are exact.
  The paging loop of the complete reader is bounded by the page count its own version check
  allows, and the property shows that it ends for every stream. Texts are lists of code units below
  256; numbers print in decimal without exponent, which is JavaScript's format below 10 to the 21.

  Parameters. \<open>Date.parse\<close> of texts outside the ISO format and SHA-256 are fields of \<open>host\<close>; the
  order of \<open>localeCompare\<close> and the validator of configuration grants are arguments; so are the read of a
  coverage reservation and which orders the read model has as cancelled. No property assumes anything of them.

  Not modelled. The PostgreSQL event store, whose meaning is that of its SQL, read models and
  projections other than the reconciliation, HTTP, user interfaces, provider adapters, deployables and
  scripts. Of the aggregates, these are left for extensions of the library:
  checkout sessions, carts, listings, offers, shipments, wallet adjustments, hold
  collisions. The shipping quote of ordering adds up binary fractions and is left out, as are the
  amount conversions only it uses; the package plan and the listing evidence of an order are copied
  and are JSON values here. Where the store matters, the modelled one is the in-memory store of the
  same contract; one property (\<open>reordered_causation_refuses_retry\<close>) speaks of a store that returns an
  object with its keys in another order, as a \<open>jsonb\<close> column does.
\<close>

end
